(* ===== verification/Prelude.thy ===== *)
theory Prelude
  imports Complex_Main "HOL-Library.Log_Nat" "HOL-Library.Char_ord" "HOL-Library.List_Lexorder"
begin

text \<open>
  What every theory of the development shares: the fact collections, 64-bit integer wrap-around,
  Go strings as byte lists with the operations of Go's \<open>strings\<close> and \<open>strconv\<close> packages the
  code calls, SQLite's \<open>LIKE\<close>, and generic lemmas on lists used as database tables.

  A Go string is a sequence of bytes, so a string literal with Chinese characters is written as
  the list of its UTF-8 bytes.
\<close>

named_theorems ledger_simps \<open>rewrite rules of the ledger tables\<close>
named_theorems gate_defs \<open>definitions of the single gates of the live-order check\<close>

section \<open>Machine integers\<close>

text \<open>Go's \<open>int\<close> and \<open>int64\<close> arithmetic wraps around; \<open>time.Time.Sub\<close> saturates instead.\<close>

definition wrap64 :: "int \<Rightarrow> int" where
  "wrap64 n = (n + 2 ^ 63) mod 2 ^ 64 - 2 ^ 63"

definition sat64 :: "int \<Rightarrow> int" where
  "sat64 n = max (- (2 ^ 63)) (min (2 ^ 63 - 1) n)"

lemma wrap64_id: "- (2 ^ 63) \<le> n \<Longrightarrow> n < 2 ^ 63 \<Longrightarrow> wrap64 n = n"
  by (simp add: wrap64_def)

lemma wrap64_range: "- (2 ^ 63) \<le> wrap64 n \<and> wrap64 n < 2 ^ 63"
  using pos_mod_bound [of "2 ^ 64 :: int" "n + 2 ^ 63"] pos_mod_sign [of "2 ^ 64 :: int" "n + 2 ^ 63"]
  by (simp add: wrap64_def)

lemma sat64_mono: "a \<le> b \<Longrightarrow> sat64 a \<le> sat64 b"
  by (simp add: sat64_def min_def max_def)

lemma sat64_nonneg: "0 \<le> a \<Longrightarrow> 0 \<le> sat64 a"
  by (simp add: sat64_def)

lemma sat64_lt: "sat64 a < b \<Longrightarrow> b < 2 ^ 63 \<Longrightarrow> a < b"
  by (simp add: sat64_def min_def max_def split: if_splits)

section \<open>Byte strings\<close>

definition has_prefix :: "string \<Rightarrow> string \<Rightarrow> bool" where
  "has_prefix s p \<longleftrightarrow> take (length p) s = p"

definition trim_prefix :: "string \<Rightarrow> string \<Rightarrow> string" where
  "trim_prefix s p = (if has_prefix s p then drop (length p) s else s)"

definition has_suffix :: "string \<Rightarrow> string \<Rightarrow> bool" where
  "has_suffix s p \<longleftrightarrow> length p \<le> length s \<and> drop (length s - length p) s = p"

fun contains :: "string \<Rightarrow> string \<Rightarrow> bool" where
  "contains [] p \<longleftrightarrow> p = []"
| "contains (c # s) p \<longleftrightarrow> has_prefix (c # s) p \<or> contains s p"

fun index_byte :: "string \<Rightarrow> char \<Rightarrow> nat option" where
  "index_byte [] b = None"
| "index_byte (c # s) b = (if c = b then Some 0 else map_option Suc (index_byte s b))"

text \<open>\<open>substr(s,1,n)\<close> of SQLite and \<open>s[:n]\<close> of Go on a string of single-byte characters.\<close>

abbreviation substr10 :: "string \<Rightarrow> string" where
  "substr10 s \<equiv> take 10 s"

definition ascii_upper :: "char \<Rightarrow> char" where
  "ascii_upper c = (if CHR ''a'' \<le> c \<and> c \<le> CHR ''z'' then char_of (of_char c - 32 :: nat) else c)"

definition ascii_lower :: "char \<Rightarrow> char" where
  "ascii_lower c = (if CHR ''A'' \<le> c \<and> c \<le> CHR ''Z'' then char_of (of_char c + 32 :: nat) else c)"

text \<open>
  \<open>strings.ToUpper\<close> on ASCII letters. Bytes of multi-byte characters are kept: Chinese
  characters have no case, and no name or code compared here holds another cased script.
\<close>

definition to_upper :: "string \<Rightarrow> string" where
  "to_upper s = map ascii_upper s"

text \<open>The UTF-8 encodings of the white space that \<open>strings.TrimSpace\<close> removes.\<close>

definition ws_seqs :: "string list" where
  "ws_seqs = [[CHR 0x20], [CHR 0x09], [CHR 0x0A], [CHR 0x0B], [CHR 0x0C], [CHR 0x0D],
     [CHR 0xC2, CHR 0x85], [CHR 0xC2, CHR 0xA0], [CHR 0xE1, CHR 0x9A, CHR 0x80],
     [CHR 0xE2, CHR 0x80, CHR 0x80], [CHR 0xE2, CHR 0x80, CHR 0x81], [CHR 0xE2, CHR 0x80, CHR 0x82],
     [CHR 0xE2, CHR 0x80, CHR 0x83], [CHR 0xE2, CHR 0x80, CHR 0x84], [CHR 0xE2, CHR 0x80, CHR 0x85],
     [CHR 0xE2, CHR 0x80, CHR 0x86], [CHR 0xE2, CHR 0x80, CHR 0x87], [CHR 0xE2, CHR 0x80, CHR 0x88],
     [CHR 0xE2, CHR 0x80, CHR 0x89], [CHR 0xE2, CHR 0x80, CHR 0x8A], [CHR 0xE2, CHR 0x80, CHR 0xA8],
     [CHR 0xE2, CHR 0x80, CHR 0xA9], [CHR 0xE2, CHR 0x80, CHR 0xAF], [CHR 0xE2, CHR 0x81, CHR 0x9F],
     [CHR 0xE3, CHR 0x80, CHR 0x80]]"

fun trim_with :: "string list \<Rightarrow> nat \<Rightarrow> string \<Rightarrow> string" where
  "trim_with seqs 0 s = s"
| "trim_with seqs (Suc n) s =
     (case find (has_prefix s) seqs of None \<Rightarrow> s | Some w \<Rightarrow> trim_with seqs n (drop (length w) s))"

text \<open>Each round removes one character, so as many rounds as bytes are enough.\<close>

definition trim_space :: "string \<Rightarrow> string" where
  "trim_space s =
     (let l = trim_with ws_seqs (length s) s
      in rev (trim_with (map rev ws_seqs) (length l) (rev l)))"

section \<open>Decimal integers\<close>

fun nat_digits :: "nat \<Rightarrow> string" where
  "nat_digits n = (if n < 10 then [char_of (48 + n)]
     else nat_digits (n div 10) @ [char_of (48 + n mod 10)])"

declare nat_digits.simps [simp del]

definition itoa :: "int \<Rightarrow> string" where
  "itoa n = (if n < 0 then CHR ''-'' # nat_digits (nat (- n)) else nat_digits (nat n))"

definition is_digit :: "char \<Rightarrow> bool" where
  "is_digit c \<longleftrightarrow> CHR ''0'' \<le> c \<and> c \<le> CHR ''9''"

definition digits_val :: "string \<Rightarrow> int" where
  "digits_val s = foldl (\<lambda>a c. a * 10 + (of_char c - 48)) 0 s"

text \<open>\<open>strconv.Atoi\<close>: an optional sign, at least one digit, the value in the range of \<open>int\<close>.\<close>

definition atoi :: "string \<Rightarrow> int option" where
  "atoi s = (let (sg, d) = (case s of
        [] \<Rightarrow> (1, [])
      | c # t \<Rightarrow> if c = CHR ''-'' then (- 1, t) else if c = CHR ''+'' then (1, t) else (1, s))
     in if d \<noteq> [] \<and> list_all is_digit d \<and> - (2 ^ 63) \<le> sg * digits_val d \<and> sg * digits_val d < 2 ^ 63
        then Some (sg * digits_val d) else None)"

lemma digits_val_snoc: "digits_val (s @ [c]) = digits_val s * 10 + (of_char c - 48)"
  by (simp add: digits_val_def)

lemma digit_char:
  fixes n :: nat
  assumes "n < 10"
  shows "is_digit (char_of (48 + n))" "(of_char (char_of (48 + n) :: char) :: int) = 48 + int n"
proof -
  have v: "of_char (char_of (48 + n) :: char) = 48 + n"
    using assms by (simp add: of_char_of take_bit_eq_mod)
  then show "is_digit (char_of (48 + n))"
    using assms by (simp add: is_digit_def less_eq_char_def)
  show "(of_char (char_of (48 + n) :: char) :: int) = 48 + int n"
    using v by (metis of_nat_add of_nat_numeral of_nat_of_char)
qed

lemma nat_digits_props: "nat_digits n \<noteq> [] \<and> list_all is_digit (nat_digits n) \<and> digits_val (nat_digits n) = int n"
proof (induction n rule: nat_digits.induct)
  case (1 n)
  show ?case
  proof (cases "n < 10")
    case True
    then show ?thesis
      by (simp add: nat_digits.simps [of n] digit_char digits_val_def)
  next
    case False
    then have IH: "list_all is_digit (nat_digits (n div 10))" "digits_val (nat_digits (n div 10)) = int (n div 10)"
      using 1 by blast+
    have "int n = int (n div 10) * 10 + int (n mod 10)"
      by (metis div_mult_mod_eq of_nat_add of_nat_mult of_nat_numeral)
    then show ?thesis
      using False IH by (simp add: nat_digits.simps [of n] digit_char digits_val_snoc)
  qed
qed

lemma nat_digits_nonempty [simp]: "nat_digits n \<noteq> []"
  using nat_digits_props by blast

text \<open>\<open>Atoi\<close> reads back what \<open>Itoa\<close> writes.\<close>

lemma atoi_itoa:
  assumes "- (2 ^ 63) \<le> n" "n < 2 ^ 63"
  shows "atoi (itoa n) = Some n"
proof (cases "n < 0")
  case True
  then show ?thesis
    using assms nat_digits_props [of "nat (- n)"] by (simp add: atoi_def itoa_def)
next
  case False
  obtain c t where ct: "nat_digits (nat n) = c # t" by (cases "nat_digits (nat n)") auto
  then have "is_digit c" using nat_digits_props [of "nat n"] by simp
  then have "c \<noteq> CHR ''-''" "c \<noteq> CHR ''+''" by (auto simp: is_digit_def)
  then show ?thesis
    using assms False ct nat_digits_props [of "nat n"] by (simp add: atoi_def itoa_def)
qed

section \<open>SQLite's LIKE\<close>

text \<open>
  \<open>%\<close> matches any sequence, \<open>_\<close> one character (its continuation bytes included), and
  ASCII letters are compared without case.
\<close>

definition is_cont :: "char \<Rightarrow> bool" where
  "is_cont c \<longleftrightarrow> CHR 0x80 \<le> c \<and> c \<le> CHR 0xBF"

function sql_like :: "string \<Rightarrow> string \<Rightarrow> bool" where
  "sql_like [] s \<longleftrightarrow> s = []"
| "sql_like (p # ps) [] \<longleftrightarrow> p = CHR ''%'' \<and> sql_like ps []"
| "sql_like (p # ps) (c # s) \<longleftrightarrow>
     (if p = CHR ''%'' then sql_like ps (c # s) \<or> sql_like (p # ps) s
      else if p = CHR ''_'' then sql_like ps (dropWhile is_cont s)
      else ascii_lower p = ascii_lower c \<and> sql_like ps s)"
  by pat_completeness auto
termination
  by (relation "measure (\<lambda>(p, s). length p + length s)")
     (auto simp: less_Suc_eq_le intro: order.trans [OF length_dropWhile_le] le_SucI)

lemma sql_like_pct [simp]: "sql_like ''%'' s"
  by (induction s) auto

lemma sql_like_prefix:
  assumes "\<forall>c \<in> set p. c \<noteq> CHR ''%'' \<and> c \<noteq> CHR ''_''"
  shows "sql_like (p @ ''%'') s \<longleftrightarrow> map ascii_lower (take (length p) s) = map ascii_lower p"
  using assms
proof (induction p arbitrary: s)
  case Nil
  then show ?case by simp
next
  case (Cons a p)
  then have a: "a \<noteq> CHR ''%''" "a \<noteq> CHR ''_''" and IH: "\<And>t. sql_like (p @ ''%'') t \<longleftrightarrow>
      map ascii_lower (take (length p) t) = map ascii_lower p"
    by simp_all
  show ?case
  proof (cases s)
    case Nil
    then show ?thesis using a by (simp only: append_Cons sql_like.simps) simp
  next
    case (Cons c t)
    then show ?thesis using a
      by (simp only: append_Cons sql_like.simps IH if_False list.map list.size take_Suc_Cons Suc_eq_plus1 [symmetric])
         (auto simp: add.commute)
  qed
qed

text \<open>A text of single-byte characters matches itself followed by anything.\<close>

lemma sql_like_self:
  "\<forall>c \<in> set s. \<not> is_cont c \<Longrightarrow> \<not> is_cont (hd (t @ ''x'')) \<Longrightarrow> sql_like (s @ ''%'') (s @ t)"
proof (induction s)
  case (Cons a s)
  have "dropWhile is_cont (s @ t) = s @ t"
  proof (cases "s @ t")
    case (Cons b r)
    then have "\<not> is_cont b" using Cons.prems \<open>s @ t = b # r\<close> by (cases s; cases t) auto
    then show ?thesis using Cons by simp
  qed simp
  moreover have "sql_like (a # s @ ''%'') (s @ t)" if "a = CHR ''%''"
    using Cons that by (cases "s @ t") auto
  ultimately show ?case using Cons by simp
qed simp

section \<open>Lists as tables\<close>

lemma filter_cong_set: "(\<And>x. x \<in> set xs \<Longrightarrow> P x = Q x) \<Longrightarrow> filter P xs = filter Q xs"
  by (simp cong: filter_cong)

lemma find_None: "find P xs = None \<longleftrightarrow> (\<forall>x \<in> set xs. \<not> P x)"
  by (auto simp: find_None_iff)

lemma find_SomeD: "find P xs = Some x \<Longrightarrow> x \<in> set xs \<and> P x"
  by (metis find_Some_iff nth_mem)

lemma map_upd_if_id: "(\<And>x. x \<in> set xs \<Longrightarrow> \<not> P x) \<Longrightarrow> map (\<lambda>x. if P x then f x else x) xs = xs"
  by (induction xs) auto

lemma distinct_map_upd:
  assumes "distinct (map k xs)" "\<And>x. x \<in> set xs \<Longrightarrow> P x \<Longrightarrow> k (f x) = k x"
  shows "distinct (map k (map (\<lambda>x. if P x then f x else x) xs))"
proof -
  have "map k (map (\<lambda>x. if P x then f x else x) xs) = map k xs"
    using assms(2) by (induction xs) auto
  with assms(1) show ?thesis by (simp only:)
qed

lemma distinct_key_unique:
  "distinct (map k xs) \<Longrightarrow> x \<in> set xs \<Longrightarrow> y \<in> set xs \<Longrightarrow> k x = k y \<Longrightarrow> x = y"
  by (auto simp: distinct_map dest: inj_onD)

lemma find_unique:
  assumes "distinct (map k xs)" "x \<in> set xs" "P x" "\<And>y. y \<in> set xs \<Longrightarrow> P y \<Longrightarrow> k y = k x"
  shows "find P xs = Some x"
proof (cases "find P xs")
  case None
  then show ?thesis using assms(2,3) by (simp add: find_None)
next
  case (Some y)
  then have "y \<in> set xs" "P y" using find_SomeD by fast+
  then have "y = x" using assms distinct_key_unique by metis
  then show ?thesis using Some by simp
qed

lemma foldl_inv: "I a \<Longrightarrow> (\<And>a x. I a \<Longrightarrow> x \<in> set xs \<Longrightarrow> I (f a x)) \<Longrightarrow> I (foldl f a xs)"
  by (induction xs arbitrary: a) auto

end
