(* ===== verification/Float64.thy ===== *)
theory Float64
  imports Prelude
begin

text \<open>
  IEEE 754 binary64 as Go's \<open>float64\<close> uses it: NaN, the two infinities and finite
  values held as exact rationals. Each arithmetic operation computes the exact rational result
  and rounds it once, to nearest with ties to even, with gradual underflow and overflow to
  infinity (\<open>rnd\<close>). Comparisons with NaN are false. The sign of zero is not
  represented: \<open>-0\<close> and \<open>0\<close> compare equal in Go and no code modelled here divides by a
  zero or reads the sign bit of one.

  The lemmas that the component theories use are those of monotone rounding: the
  rounded result keeps the order and the sign of the exact one, and an integer of at most 53 bits
  is not changed.
\<close>

section \<open>Powers of two with an integer exponent\<close>

definition pow2 :: "int \<Rightarrow> rat" where
  "pow2 e = (if 0 \<le> e then 2 ^ nat e else 1 / 2 ^ nat (- e))"

lemma pow2_powr: "pow2 e = 2 powi e"
  by (simp add: pow2_def power_int_def field_simps)

lemma pow2_pos [simp]: "0 < pow2 e"
  by (simp add: pow2_powr)

lemma pow2_nonneg [simp]: "0 \<le> pow2 e"
  by (simp add: pow2_powr)

lemma pow2_neq0 [simp]: "pow2 e \<noteq> 0"
  by (simp add: pow2_powr)

lemma pow2_add: "pow2 (a + b) = pow2 a * pow2 b"
  by (simp add: pow2_powr power_int_add)

lemma pow2_mono: "a \<le> b \<Longrightarrow> pow2 a \<le> pow2 b"
  by (simp add: pow2_powr power_int_increasing)

lemma pow2_Suc: "pow2 (e + 1) = 2 * pow2 e"
  by (simp add: pow2_add) (simp add: pow2_def)

lemma pow2_nat: "0 \<le> e \<Longrightarrow> pow2 e = of_int (2 ^ nat e)"
  by (simp add: pow2_def)

lemma pow2_less_cancel: "pow2 a < pow2 b \<Longrightarrow> a < b"
  by (meson linorder_not_le pow2_mono)

section \<open>The binade of a rational\<close>

text \<open>\<open>binade x\<close> is the exponent \<open>e\<close> with \<open>2^e \<le> |x| < 2^(e+1)\<close>, for \<open>x \<noteq> 0\<close>.\<close>

definition binade :: "rat \<Rightarrow> int" where
  "binade x = (case quotient_of \<bar>x\<bar> of (n, d) \<Rightarrow>
     (let k = int (floorlog 2 (nat n)) - int (floorlog 2 (nat d))
      in if \<bar>x\<bar> < pow2 k then k - 1 else k))"

lemma floorlog_rat:
  assumes "0 < (n::int)"
  shows "pow2 (int (floorlog 2 (nat n)) - 1) \<le> of_int n" "of_int n < pow2 (int (floorlog 2 (nat n)))"
proof -
  let ?k = "floorlog 2 (nat n)"
  have k: "2 ^ (?k - 1) \<le> nat n" "nat n < 2 ^ ?k"
    using assms floorlog_bounds [of "nat n" 2] by auto
  have k1: "0 < ?k"
    using assms by (simp add: floorlog_def)
  have "(2::int) ^ (?k - 1) \<le> n"
    using k(1) assms by (metis linorder_not_le nat_le_iff of_nat_numeral of_nat_power order_less_imp_le
        zero_less_nat_eq zle_int int_nat_eq)
  then have "(of_int (2 ^ (?k - 1)) :: rat) \<le> of_int n"
    by (simp only: of_int_le_iff)
  moreover have "pow2 (int ?k - 1) = of_int (2 ^ (?k - 1))"
    using k1 by (simp add: pow2_def nat_diff_distrib)
  ultimately show "pow2 (int ?k - 1) \<le> of_int n" by simp
  have "n < (2::int) ^ ?k"
    using k(2) assms by (metis nat_less_iff of_nat_numeral of_nat_power order_less_imp_le)
  then have "(of_int n :: rat) < of_int (2 ^ ?k)"
    by (simp only: of_int_less_iff)
  then show "of_int n < pow2 (int ?k)"
    by (simp add: pow2_def)
qed

lemma binade_bounds:
  assumes "x \<noteq> 0"
  shows "pow2 (binade x) \<le> \<bar>x\<bar>" "\<bar>x\<bar> < pow2 (binade x + 1)"
proof -
  obtain n d where q: "quotient_of \<bar>x\<bar> = (n, d)" by force
  have d: "0 < d" using q by (rule quotient_of_denom_pos)
  have x: "\<bar>x\<bar> = of_int n / of_int d" using q by (rule quotient_of_div)
  have n: "0 < n"
    using x d assms by (metis abs_of_pos divide_nonpos_pos linorder_not_le of_int_0_less_iff
        of_int_le_0_iff zero_less_abs_iff)
  let ?a = "int (floorlog 2 (nat n))" and ?b = "int (floorlog 2 (nat d))"
  have hi: "\<bar>x\<bar> < pow2 (?a - ?b + 1)"
  proof -
    have "of_int n < pow2 ?a" "pow2 (?b - 1) \<le> (of_int d :: rat)"
      using floorlog_rat n d by auto
    then have "of_int n / of_int d < pow2 ?a / pow2 (?b - 1)"
      by (intro frac_less) (use n d in auto)
    also have "\<dots> = pow2 (?a - ?b + 1)"
      by (simp add: pow2_powr power_int_diff power_int_add)
    finally show ?thesis by (simp add: x)
  qed
  have lo: "pow2 (?a - ?b - 1) \<le> \<bar>x\<bar>"
  proof -
    have "pow2 (?a - 1) \<le> of_int n" "(of_int d :: rat) < pow2 ?b"
      using floorlog_rat n d by auto
    then have "pow2 (?a - 1) / pow2 ?b \<le> of_int n / of_int d"
      by (intro frac_le) (use n d in auto)
    moreover have "pow2 (?a - 1) / pow2 ?b = pow2 (?a - ?b - 1)"
      by (simp add: pow2_powr power_int_diff)
    ultimately show ?thesis by (simp add: x)
  qed
  show "pow2 (binade x) \<le> \<bar>x\<bar>" "\<bar>x\<bar> < pow2 (binade x + 1)"
    using lo hi by (auto simp: binade_def q Let_def)
qed

lemma binade_mono:
  assumes "x \<noteq> 0" "\<bar>x\<bar> \<le> \<bar>y\<bar>"
  shows "binade x \<le> binade y"
proof -
  have "y \<noteq> 0" using assms by auto
  then have "pow2 (binade x) < pow2 (binade y + 1)"
    using binade_bounds [of x] binade_bounds [of y] assms by linarith
  then show ?thesis using pow2_less_cancel by fastforce
qed

lemma binade_unique:
  assumes "pow2 e \<le> \<bar>x\<bar>" "\<bar>x\<bar> < pow2 (e + 1)"
  shows "binade x = e"
proof -
  have x: "x \<noteq> 0" using assms(1) by (metis abs_zero linorder_not_le pow2_pos)
  have "pow2 (binade x) < pow2 (e + 1)" "pow2 e < pow2 (binade x + 1)"
    using binade_bounds [OF x] assms by linarith+
  then have "binade x < e + 1" "e < binade x + 1"
    using pow2_less_cancel by blast+
  then show ?thesis by simp
qed

lemma binade_minus [simp]: "binade (- x) = binade x"
  by (simp add: binade_def)

section \<open>Rounding to an integer, ties to even\<close>

definition rhe :: "rat \<Rightarrow> int" where
  "rhe z = (let f = \<lfloor>z\<rfloor>; r = z - of_int f
     in if r < 1/2 then f else if 1/2 < r then f + 1 else if even f then f else f + 1)"

lemma rhe_of_int [simp]: "rhe (of_int n) = n"
  by (simp add: rhe_def)

lemma rhe_bounds: "\<lfloor>z\<rfloor> \<le> rhe z" "rhe z \<le> \<lfloor>z\<rfloor> + 1"
  by (auto simp: rhe_def Let_def)

lemma rhe_mono:
  assumes "x \<le> y"
  shows "rhe x \<le> rhe y"
proof (cases "\<lfloor>x\<rfloor> = \<lfloor>y\<rfloor>")
  case True
  then show ?thesis using assms by (auto simp: rhe_def Let_def)
next
  case False
  then have "\<lfloor>x\<rfloor> + 1 \<le> \<lfloor>y\<rfloor>" using assms floor_mono [of x y] by linarith
  then show ?thesis using rhe_bounds(2) [of x] rhe_bounds(1) [of y] by linarith
qed

lemma rhe_minus: "rhe (- z) = - rhe z"
proof (cases "z = of_int \<lfloor>z\<rfloor>")
  case True
  then show ?thesis by (metis of_int_minus rhe_of_int)
next
  case False
  define f where "f = \<lfloor>z\<rfloor>"
  have f: "of_int f < z" "z < of_int f + 1"
    using False f_def by (metis of_int_floor_le order_le_less, metis floor_correct of_int_1 of_int_add)
  have g: "\<lfloor>- z\<rfloor> = - f - 1"
    using f by (intro floor_unique) auto
  show ?thesis
    unfolding rhe_def g Let_def f_def [symmetric] using f by auto
qed

section \<open>Rounding to binary64\<close>

datatype f64 = NaN | PInf | NInf | Fin rat

text \<open>The spacing of binary64 values around \<open>x\<close>: 53 significant bits, and never below \<open>2^(-1074)\<close>.\<close>

definition ulp :: "rat \<Rightarrow> rat" where
  "ulp x = pow2 (max (binade x - 52) (- 1074))"

definition rq :: "rat \<Rightarrow> rat" where
  "rq x = (if x = 0 then 0 else of_int (rhe (x / ulp x)) * ulp x)"

definition f64max :: rat where
  "f64max = pow2 1024"

definition rnd :: "rat \<Rightarrow> f64" where
  "rnd x = (let y = rq x in if f64max \<le> y then PInf else if y \<le> - f64max then NInf else Fin y)"

lemma ulp_pos [simp]: "0 < ulp x"
  by (simp add: ulp_def)

lemma ulp_neq0 [simp]: "ulp x \<noteq> 0"
  by (simp add: ulp_def)

lemma ulp_nonneg [simp]: "0 \<le> ulp x"
  by (simp add: less_imp_le)

lemma not_ulp_neg [simp]: "\<not> ulp x < 0"
  by (simp add: not_less)

lemma abs_ulp [simp]: "\<bar>ulp x\<bar> = ulp x"
  by simp

lemma ulp_minus [simp]: "ulp (- x) = ulp x"
  by (simp add: ulp_def)

lemma rq_0 [simp]: "rq 0 = 0"
  by (simp add: rq_def)

lemma rq_minus: "rq (- x) = - rq x"
  by (simp add: rq_def rhe_minus)

lemma rq_grid:
  \<comment> \<open>a value with at most 53 significant bits is its own rounding\<close>
  assumes "x = of_int m * pow2 e" "\<bar>m\<bar> \<le> 2 ^ 53" "- 1074 \<le> e"
  shows "rq x = x"
proof (cases "x = 0")
  case False
  let ?u = "max (binade x - 52) (- 1074)"
  have "\<exists>k::int. x = of_int k * pow2 ?u"
  proof (cases "e \<ge> ?u")
    case True
    have "pow2 e = pow2 (e - ?u) * pow2 ?u" by (simp flip: pow2_add)
    moreover have "pow2 (e - ?u) = of_int (2 ^ nat (e - ?u))"
      using True by (intro pow2_nat) simp
    ultimately have "x = of_int (m * 2 ^ nat (e - ?u)) * pow2 ?u"
      by (simp add: assms(1))
    then show ?thesis by blast
  next
    case False
    then have lt: "e < binade x - 52" using assms(3) by auto
    have "pow2 (binade x) \<le> \<bar>x\<bar>" using \<open>x \<noteq> 0\<close> by (rule binade_bounds)
    also have "\<bar>x\<bar> \<le> 2 ^ 53 * pow2 e"
    proof -
      have "\<bar>x\<bar> = of_int \<bar>m\<bar> * pow2 e" by (simp add: assms(1) abs_mult)
      moreover have "(of_int \<bar>m\<bar> :: rat) \<le> of_int (2 ^ 53)"
        using assms(2) by (simp only: of_int_le_iff)
      ultimately show ?thesis by (simp add: mult_right_mono)
    qed
    also have "2 ^ 53 * pow2 e = pow2 (e + 53)"
      by (simp add: pow2_add) (simp add: pow2_def)
    finally have le: "pow2 (binade x) \<le> pow2 (e + 53)" .
    have "binade x = e + 53"
    proof (rule antisym)
      show "binade x \<le> e + 53"
      proof (rule ccontr)
        assume "\<not> binade x \<le> e + 53"
        then have "pow2 (e + 54) \<le> pow2 (binade x)" by (intro pow2_mono) simp
        moreover have "pow2 (e + 54) = 2 * pow2 (e + 53)"
          by (simp add: pow2_add) (simp add: pow2_def)
        ultimately show False using le pow2_pos [of "e + 53"] by linarith
      qed
    qed (use lt in simp)
    then have "\<bar>x\<bar> = pow2 (e + 53)"
      using le \<open>\<bar>x\<bar> \<le> 2 ^ 53 * pow2 e\<close> \<open>2 ^ 53 * pow2 e = pow2 (e + 53)\<close> \<open>pow2 (binade x) \<le> \<bar>x\<bar>\<close>
      by auto
    moreover have "?u = e + 1" using \<open>binade x = e + 53\<close> assms(3) by simp
    moreover have "pow2 (e + 53) = of_int (2 ^ 52) * pow2 (e + 1)"
      by (simp add: pow2_add) (simp add: pow2_def)
    ultimately have "x = of_int (2 ^ 52) * pow2 ?u \<or> x = of_int (- (2 ^ 52)) * pow2 ?u"
      by (auto simp: abs_if split: if_splits)
    then show ?thesis by blast
  qed
  then obtain k :: int where "x = of_int k * ulp x" by (auto simp: ulp_def)
  then have "x / ulp x = of_int k" by (simp add: nonzero_divide_eq_eq)
  then show ?thesis using False \<open>x = of_int k * ulp x\<close> by (simp add: rq_def)
qed (use rq_0 in simp)

lemma rq_pow2: "- 1074 \<le> e \<Longrightarrow> rq (pow2 e) = pow2 e"
  by (rule rq_grid [of _ 1 e]) auto

lemma rq_bound:
  \<comment> \<open>rounding stays below the next power of two\<close>
  assumes "0 < x" "x \<le> pow2 e" "- 1074 \<le> e"
  shows "rq x \<le> pow2 e"
proof -
  let ?u = "max (binade x - 52) (- 1074)"
  have "pow2 (binade x) \<le> pow2 e" using binade_bounds(1) [of x] assms by auto
  then have b: "binade x \<le> e"
    using pow2_mono [of "e + 1" "binade x"] pow2_Suc [of e] pow2_pos [of e] by linarith
  then have u: "?u \<le> e" using assms(3) by simp
  have "pow2 e = pow2 (e - ?u) * pow2 ?u" by (simp flip: pow2_add)
  moreover have "pow2 (e - ?u) = of_int (2 ^ nat (e - ?u))" using u by (intro pow2_nat) simp
  ultimately have g: "pow2 e = of_int (2 ^ nat (e - ?u)) * ulp x" by (simp add: ulp_def)
  then have "x / ulp x \<le> of_int (2 ^ nat (e - ?u))"
    using assms(2) by (simp add: pos_divide_le_eq)
  then have "rhe (x / ulp x) \<le> 2 ^ nat (e - ?u)"
    using rhe_mono rhe_of_int by metis
  then have "(of_int (rhe (x / ulp x)) :: rat) \<le> of_int (2 ^ nat (e - ?u))"
    by (simp only: of_int_le_iff)
  then show ?thesis using assms(1) unfolding g
    by (simp add: rq_def mult_right_mono less_imp_le)
qed

lemma rq_ge_binade:
  assumes "0 < x" "pow2 e \<le> x" "- 1074 \<le> e"
  shows "pow2 e \<le> rq x"
proof -
  let ?u = "max (binade x - 52) (- 1074)"
  show ?thesis
  proof (cases "?u \<le> e")
    case True
    have "pow2 e = pow2 (e - ?u) * pow2 ?u" by (simp flip: pow2_add)
    moreover have "pow2 (e - ?u) = of_int (2 ^ nat (e - ?u))" using True by (intro pow2_nat) simp
    ultimately have g: "pow2 e = of_int (2 ^ nat (e - ?u)) * ulp x" by (simp add: ulp_def)
    then have "of_int (2 ^ nat (e - ?u)) \<le> x / ulp x"
      using assms(2) by (simp add: pos_le_divide_eq)
    then have "2 ^ nat (e - ?u) \<le> rhe (x / ulp x)"
      using rhe_mono rhe_of_int by metis
    then have "(of_int (2 ^ nat (e - ?u)) :: rat) \<le> of_int (rhe (x / ulp x))"
      by (simp only: of_int_le_iff)
    then show ?thesis using assms(1) unfolding g
      by (simp add: rq_def mult_right_mono less_imp_le)
  next
    case False
    then have e: "e \<le> ?u" by (simp only: not_le less_imp_le)
    have "?u = binade x - 52" using False assms(3) by auto
    then have "pow2 ?u \<le> pow2 (binade x)" by (intro pow2_mono) simp
    also have "\<dots> \<le> x" using binade_bounds(1) [of x] assms(1) by simp
    finally have "1 \<le> x / ulp x" by (simp add: ulp_def pos_le_divide_eq)
    then have "rhe 1 \<le> rhe (x / ulp x)" by (rule rhe_mono)
    then have "1 \<le> rhe (x / ulp x)" using rhe_of_int [of 1] by simp
    then have "ulp x \<le> rq x" using assms(1)
      by (simp add: rq_def mult_le_cancel_right1)
    moreover have "pow2 e \<le> ulp x" using e by (simp add: ulp_def pow2_mono)
    ultimately show ?thesis by simp
  qed
qed


lemma rq_pos: "0 < x \<Longrightarrow> 0 \<le> rq x"
  using rhe_mono [of 0 "x / ulp x"] rhe_of_int [of 0] by (simp add: rq_def)

lemma rq_mono_pos:
  assumes "0 < x" "x \<le> y"
  shows "rq x \<le> rq y"
proof (cases "ulp x = ulp y")
  case True
  have "x / ulp y \<le> y / ulp y" using assms(2) by (simp add: divide_right_mono less_imp_le)
  then have "rhe (x / ulp y) \<le> rhe (y / ulp y)" by (rule rhe_mono)
  then show ?thesis using assms True
    by (simp add: rq_def mult_right_mono less_imp_le)
next
  case False
  have xy: "binade x \<le> binade y" using assms by (intro binade_mono) auto
  let ?e = "max (binade x + 1) (- 1022)"
  have ne: "max (binade x - 52) (- 1074) \<noteq> max (binade y - 52) (- 1074)"
    using False by (auto simp: ulp_def)
  then have y1: "binade x < binade y" "- 1022 < binade y" using xy by auto
  have "x \<le> pow2 (binade x + 1)" using binade_bounds(2) [of x] assms(1) by simp
  also have "\<dots> \<le> pow2 ?e" by (intro pow2_mono) simp
  finally have "rq x \<le> pow2 ?e" by (intro rq_bound) (use assms in auto)
  also have "pow2 ?e \<le> rq y"
  proof (rule rq_ge_binade)
    show "pow2 ?e \<le> y"
      using y1 binade_bounds(1) [of y] assms pow2_mono [of ?e "binade y"] by auto
  qed (use assms in auto)
  finally show ?thesis .
qed

lemma rq_mono:
  assumes "x \<le> y"
  shows "rq x \<le> rq y"
proof (cases "0 < x")
  case True
  then show ?thesis using assms by (rule rq_mono_pos)
next
  case nx: False
  show ?thesis
  proof (cases "0 \<le> y")
    case True
    have "rq x \<le> 0" using nx rq_pos [of "- x"] rq_minus [of x] by (cases "x = 0") auto
    moreover have "0 \<le> rq y" using True rq_pos [of y] by (cases "y = 0") auto
    ultimately show ?thesis by simp
  next
    case False
    then have "rq (- y) \<le> rq (- x)" using assms by (intro rq_mono_pos) auto
    then show ?thesis by (simp add: rq_minus)
  qed
qed

lemma rq_idem: "rq (rq x) = rq x"
proof (cases "x = 0")
  case False
  let ?u = "max (binade x - 52) (- 1074)"
  have "\<bar>x\<bar> / ulp x \<le> 2 ^ 53"
  proof -
    have "\<bar>x\<bar> \<le> pow2 (binade x + 1)" using binade_bounds(2) [OF False] by simp
    also have "\<dots> \<le> pow2 (?u + 53)" by (intro pow2_mono) simp
    also have "\<dots> = 2 ^ 53 * ulp x" by (simp add: ulp_def pow2_add) (simp add: pow2_def)
    finally show ?thesis by (simp add: pos_divide_le_eq)
  qed
  then have b: "x / ulp x \<le> of_int (2 ^ 53)" "of_int (- (2 ^ 53)) \<le> x / ulp x"
    using abs_divide [of x "ulp x"] unfolding abs_ulp
    by (metis abs_le_iff of_int_power of_int_numeral, metis abs_le_iff minus_le_iff of_int_minus of_int_power of_int_numeral)
  then have "\<bar>rhe (x / ulp x)\<bar> \<le> 2 ^ 53"
    using rhe_mono [OF b(1)] rhe_mono [OF b(2)] unfolding rhe_of_int by simp
  then show ?thesis
    by (intro rq_grid [of _ "rhe (x / ulp x)" ?u]) (use False in \<open>auto simp: rq_def ulp_def\<close>)
qed simp


section \<open>The operations of float64\<close>

fun sgn_inf :: "rat \<Rightarrow> f64" where
  "sgn_inf r = (if 0 \<le> r then PInf else NInf)"

fun fadd :: "f64 \<Rightarrow> f64 \<Rightarrow> f64" where
  "fadd (Fin a) (Fin b) = rnd (a + b)"
| "fadd NaN _ = NaN"
| "fadd _ NaN = NaN"
| "fadd PInf NInf = NaN"
| "fadd NInf PInf = NaN"
| "fadd PInf _ = PInf"
| "fadd NInf _ = NInf"
| "fadd _ PInf = PInf"
| "fadd _ NInf = NInf"

fun fneg :: "f64 \<Rightarrow> f64" where
  "fneg NaN = NaN"
| "fneg PInf = NInf"
| "fneg NInf = PInf"
| "fneg (Fin a) = Fin (- a)"

fun fmul :: "f64 \<Rightarrow> f64 \<Rightarrow> f64" where
  "fmul (Fin a) (Fin b) = rnd (a * b)"
| "fmul NaN _ = NaN"
| "fmul _ NaN = NaN"
| "fmul PInf PInf = PInf"
| "fmul PInf NInf = NInf"
| "fmul NInf PInf = NInf"
| "fmul NInf NInf = PInf"
| "fmul PInf (Fin b) = (if b = 0 then NaN else sgn_inf b)"
| "fmul NInf (Fin b) = (if b = 0 then NaN else sgn_inf (- b))"
| "fmul (Fin a) PInf = (if a = 0 then NaN else sgn_inf a)"
| "fmul (Fin a) NInf = (if a = 0 then NaN else sgn_inf (- a))"

fun fdiv :: "f64 \<Rightarrow> f64 \<Rightarrow> f64" where
  "fdiv (Fin a) (Fin b) = (if b = 0 then (if a = 0 then NaN else sgn_inf a) else rnd (a / b))"
| "fdiv NaN _ = NaN"
| "fdiv _ NaN = NaN"
| "fdiv (Fin a) _ = Fin 0"
| "fdiv PInf (Fin b) = sgn_inf b"
| "fdiv NInf (Fin b) = (if b = 0 then NInf else sgn_inf (- b))"
| "fdiv _ _ = NaN"

fun fle :: "f64 \<Rightarrow> f64 \<Rightarrow> bool" where
  "fle (Fin a) (Fin b) = (a \<le> b)"
| "fle NaN _ = False"
| "fle _ NaN = False"
| "fle NInf _ = True"
| "fle _ PInf = True"
| "fle _ _ = False"

instantiation f64 :: "{zero, one, plus, minus, uminus, times, inverse, ord}"
begin
definition zero_f64 :: f64 where "0 = Fin 0"
definition one_f64 :: f64 where "1 = Fin 1"
definition plus_f64 :: "f64 \<Rightarrow> f64 \<Rightarrow> f64" where "a + b = fadd a b"
definition uminus_f64 :: "f64 \<Rightarrow> f64" where "- a = fneg a"
definition minus_f64 :: "f64 \<Rightarrow> f64 \<Rightarrow> f64" where "a - b = fadd a (fneg b)"
definition times_f64 :: "f64 \<Rightarrow> f64 \<Rightarrow> f64" where "a * b = fmul a b"
definition divide_f64 :: "f64 \<Rightarrow> f64 \<Rightarrow> f64" where "a div b = fdiv a b"
definition inverse_f64 :: "f64 \<Rightarrow> f64" where "inverse a = fdiv (Fin 1) a"
definition less_eq_f64 :: "f64 \<Rightarrow> f64 \<Rightarrow> bool" where "a \<le> b \<longleftrightarrow> fle a b"
definition less_f64 :: "f64 \<Rightarrow> f64 \<Rightarrow> bool" where "a < b \<longleftrightarrow> fle a b \<and> \<not> fle b a"
instance ..
end

text \<open>Go's \<open>==\<close>, conversion from integers, and the constants of the source (rounded once).\<close>

definition feq :: "f64 \<Rightarrow> f64 \<Rightarrow> bool" where
  "feq a b \<longleftrightarrow> a \<noteq> NaN \<and> a = b"

definition f64_of_int :: "int \<Rightarrow> f64" where
  "f64_of_int n = rnd (of_int n)"

definition lit :: "rat \<Rightarrow> f64" where
  "lit r = rnd r"

text \<open>\<open>math.Round\<close>: to the nearest integer, halves away from zero.\<close>

fun fround :: "f64 \<Rightarrow> f64" where
  "fround (Fin a) = Fin (if 0 \<le> a then of_int \<lfloor>a + 1/2\<rfloor> else - of_int \<lfloor>- a + 1/2\<rfloor>)"
| "fround x = x"

text \<open>A value that binary64 can hold.\<close>

definition is_f64 :: "f64 \<Rightarrow> bool" where
  "is_f64 x \<longleftrightarrow> (case x of Fin r \<Rightarrow> rnd r = Fin r | _ \<Rightarrow> True)"

section \<open>Order\<close>

lemma Fin_le [simp]: "Fin a \<le> Fin b \<longleftrightarrow> a \<le> b"
  by (simp add: less_eq_f64_def)

lemma Fin_less [simp]: "Fin a < Fin b \<longleftrightarrow> a < b"
  by (auto simp: less_f64_def)

lemma NaN_cmp [simp]: "\<not> NaN \<le> (a::f64)" "\<not> (a::f64) \<le> NaN" "\<not> NaN < (a::f64)" "\<not> (a::f64) < NaN"
  by (cases a; simp add: less_eq_f64_def less_f64_def)+

lemma Inf_le [simp]: "Fin a \<le> PInf" "NInf \<le> Fin a" "\<not> PInf \<le> Fin a" "\<not> Fin a \<le> NInf"
    "PInf \<le> PInf" "NInf \<le> NInf" "NInf \<le> PInf" "\<not> PInf \<le> NInf"
  by (simp_all add: less_eq_f64_def)

lemma Inf_less [simp]: "Fin a < PInf" "NInf < Fin a" "\<not> PInf < (x::f64)" "\<not> (x::f64) < NInf" "NInf < PInf"
  by (cases x; simp add: less_f64_def)+

lemma f64_le_refl: "a \<noteq> NaN \<Longrightarrow> (a :: f64) \<le> a"
  by (cases a) auto

lemma f64_le_trans: "(a :: f64) \<le> b \<Longrightarrow> b \<le> c \<Longrightarrow> a \<le> c"
  by (cases a; cases b; cases c) auto

lemma f64_less_le_trans: "(a :: f64) < b \<Longrightarrow> b \<le> c \<Longrightarrow> a < c"
  by (cases a; cases b; cases c) auto

lemma f64_le_less_trans: "(a :: f64) \<le> b \<Longrightarrow> b < c \<Longrightarrow> a < c"
  by (cases a; cases b; cases c) auto

lemma f64_less_imp_le: "(a :: f64) < b \<Longrightarrow> a \<le> b"
  by (cases a; cases b) auto

lemma f64_not_less: "a \<noteq> NaN \<Longrightarrow> b \<noteq> NaN \<Longrightarrow> \<not> (a :: f64) < b \<longleftrightarrow> b \<le> a"
  by (cases a; cases b) auto

lemma f64_less_not_le: "(a :: f64) < b \<Longrightarrow> \<not> b \<le> a"
  by (cases a; cases b) auto

lemma f64_le_not_less: "(a :: f64) \<le> b \<Longrightarrow> \<not> b < a"
  by (cases a; cases b) auto

lemma f64_leD: "(a :: f64) \<le> b \<Longrightarrow> a \<noteq> NaN \<and> b \<noteq> NaN"
  by (cases a; cases b) auto

section \<open>Rounding keeps order and sign\<close>

lemma rnd_mono: "x \<le> y \<Longrightarrow> rnd x \<le> rnd y"
  using rq_mono [of x y] by (auto simp: rnd_def Let_def f64max_def)

lemma rnd_not_NaN [simp]: "rnd x \<noteq> NaN"
  by (simp add: rnd_def Let_def)

lemma rnd_0 [simp]: "rnd 0 = Fin 0"
  by (simp add: rnd_def f64max_def not_le)

lemma rnd_nonneg: "0 \<le> x \<Longrightarrow> 0 \<le> rnd x"
  using rnd_mono [of 0 x] by (simp add: zero_f64_def)

lemma rnd_nonpos: "x \<le> 0 \<Longrightarrow> rnd x \<le> 0"
  using rnd_mono [of x 0] by (simp add: zero_f64_def)

lemma rnd_idem: "rnd x = Fin y \<Longrightarrow> rnd y = Fin y"
  by (auto simp: rnd_def Let_def rq_idem split: if_splits)

lemma is_f64_rnd [simp]: "is_f64 (rnd x)"
  by (cases "rnd x") (auto simp: is_f64_def dest: rnd_idem)

lemma rnd_of_int:
  assumes "\<bar>n\<bar> \<le> 2 ^ 53"
  shows "rnd (of_int n) = Fin (of_int n)"
proof -
  have "rq (of_int n) = of_int n"
    by (rule rq_grid [of _ n 0]) (use assms in \<open>auto simp: pow2_def\<close>)
  moreover have "\<bar>of_int n\<bar> \<le> (2 :: rat) ^ 53"
    using assms by (metis of_int_abs of_int_le_iff of_int_numeral of_int_power)
  moreover have "(2 :: rat) ^ 53 < f64max" by (simp add: f64max_def pow2_def)
  ultimately show ?thesis by (auto simp: rnd_def Let_def)
qed

lemma rnd_numeral [simp]:
  "(numeral k :: int) \<le> 2 ^ 53 \<Longrightarrow> rnd (numeral k) = Fin (numeral k)"
  "(numeral k :: int) \<le> 2 ^ 53 \<Longrightarrow> rnd (- numeral k) = Fin (- numeral k)"
  using rnd_of_int [of "numeral k"] rnd_of_int [of "- numeral k"] by simp_all

lemma rnd_1 [simp]: "rnd 1 = Fin 1"
  using rnd_of_int [of 1] by simp

lemma fadd_nonneg: "(0::f64) \<le> a \<Longrightarrow> 0 \<le> b \<Longrightarrow> 0 \<le> a + b"
  using rnd_nonneg by (cases a; cases b) (auto simp: zero_f64_def plus_f64_def)

lemma fmul_nonneg: "(0::f64) \<le> a \<Longrightarrow> 0 \<le> b \<Longrightarrow> a * b \<noteq> NaN \<Longrightarrow> 0 \<le> a * b"
  using rnd_nonneg by (cases a; cases b) (auto simp: zero_f64_def times_f64_def)

lemma fadd_ge_left:
  assumes "is_f64 a" "a \<noteq> NaN" "(0::f64) \<le> b" "a + b \<noteq> NaN"
  shows "a \<le> a + b"
proof -
  have "a \<le> a + b" if "a = Fin x" "b = Fin y" for x y
    using rnd_mono [of x "x + y"] assms that by (simp add: zero_f64_def plus_f64_def is_f64_def)
  then show ?thesis using assms by (cases a; cases b) (auto simp: zero_f64_def plus_f64_def)
qed

lemma fsub_le_left:
  assumes "is_f64 a" "a \<noteq> NaN" "(0::f64) \<le> b" "a - b \<noteq> NaN"
  shows "a - b \<le> a"
proof -
  have "a - b \<le> a" if "a = Fin x" "b = Fin y" for x y
    using rnd_mono [of "x - y" x] assms that by (simp add: zero_f64_def minus_f64_def is_f64_def)
  then show ?thesis using assms by (cases a; cases b) (auto simp: zero_f64_def minus_f64_def)
qed

lemma fsub_nonneg: "(b::f64) \<le> a \<Longrightarrow> a - b \<noteq> NaN \<Longrightarrow> 0 \<le> a - b"
  using rnd_nonneg by (cases a; cases b) (auto simp: zero_f64_def minus_f64_def)

lemma Fin_arith:
  "Fin a + Fin b = rnd (a + b)" "Fin a - Fin b = rnd (a - b)" "Fin a * Fin b = rnd (a * b)"
  "b \<noteq> 0 \<Longrightarrow> Fin a / Fin b = rnd (a / b)" "- Fin a = Fin (- a)"
  by (simp_all add: plus_f64_def minus_f64_def times_f64_def divide_f64_def uminus_f64_def)

lemmas f64_simps = Fin_arith zero_f64_def one_f64_def

end
