(* ===== verification/Markets.thy ===== *)
theory Markets
  imports Float64
begin

text \<open>
  The vocabulary the trading packages share: order sides, market keys, the shape of instrument
  codes per market, the blacklist comparison, the board-dependent price limit and the detection of
  special-treatment (ST) shares. Sources: \<open>internal/risk/gate.go\<close> and
  \<open>internal/trading/executor.go\<close> (sides), \<open>internal/store/real_positions.go\<close> and
  \<open>internal/data/market_session.go\<close> (market keys), \<open>internal/config/broker.go\<close>,
  \<open>internal/config/blacklist.go\<close>, \<open>internal/data/limitup_pct.go\<close> and
  \<open>internal/combat_agent/agent.go\<close>.
\<close>

section \<open>Sides\<close>

definition SideBuy :: string where "SideBuy = [CHR 0xE4, CHR 0xB9, CHR 0xB0, CHR 0xE5, CHR 0x85, CHR 0xA5]"
definition SideSell :: string where "SideSell = [CHR 0xE5, CHR 0x8D, CHR 0x96, CHR 0xE5, CHR 0x87, CHR 0xBA]"
definition SideShortOpen :: string where "SideShortOpen = [CHR 0xE5, CHR 0x8D, CHR 0x96, CHR 0xE5, CHR 0x87, CHR 0xBA, CHR 0xE5, CHR 0xBC, CHR 0x80, CHR 0xE7, CHR 0xA9, CHR 0xBA]"
definition SideShortCover :: string where "SideShortCover = [CHR 0xE4, CHR 0xB9, CHR 0xB0, CHR 0xE5, CHR 0x85, CHR 0xA5, CHR 0xE5, CHR 0xB9, CHR 0xB3, CHR 0xE4, CHR 0xBB, CHR 0x93]"

lemmas side_defs = SideBuy_def SideSell_def SideShortOpen_def SideShortCover_def

definition IsShortSide :: "string \<Rightarrow> bool" where
  "IsShortSide side \<longleftrightarrow> side = SideShortOpen \<or> side = SideShortCover"

lemma sides_distinct [simp]:
  "SideBuy \<noteq> SideSell" "SideBuy \<noteq> SideShortOpen" "SideBuy \<noteq> SideShortCover"
  "SideSell \<noteq> SideBuy" "SideSell \<noteq> SideShortOpen" "SideSell \<noteq> SideShortCover"
  "SideShortOpen \<noteq> SideBuy" "SideShortOpen \<noteq> SideSell" "SideShortOpen \<noteq> SideShortCover"
  "SideShortCover \<noteq> SideBuy" "SideShortCover \<noteq> SideSell" "SideShortCover \<noteq> SideShortOpen"
  by (simp_all add: side_defs)

section \<open>Market keys\<close>

definition CN :: string where "CN = ''CN''"
definition US :: string where "US = ''US''"
definition CRYPTO :: string where "CRYPTO = ''CRYPTO''"

lemma markets_distinct [simp]: "CN \<noteq> US" "US \<noteq> CN" "CN \<noteq> CRYPTO" "CRYPTO \<noteq> CN" "US \<noteq> CRYPTO" "CRYPTO \<noteq> US"
  "CN \<noteq> []" "US \<noteq> []" "CRYPTO \<noteq> []" "[] \<noteq> CN" "[] \<noteq> US" "[] \<noteq> CRYPTO"
  by (simp_all add: CN_def US_def CRYPTO_def)

text \<open>\<open>data.NormalizeMarketKey\<close>: unknown markets fall back to CN.\<close>

definition NormalizeMarketKey :: "string \<Rightarrow> string" where
  "NormalizeMarketKey market =
     (let m = to_upper (trim_space market)
      in if m = ''CRYPTO'' then CRYPTO else if m = ''US'' then US else CN)"

text \<open>\<open>store.normalizeMarket\<close>: only the empty market becomes CN, any other text is kept.\<close>

definition normalize_market :: "string \<Rightarrow> string" where
  "normalize_market market = (let m = to_upper (trim_space market) in if m = [] then CN else m)"

definition default_currency :: "string \<Rightarrow> string" where
  "default_currency market = (if market = ''US'' then ''USD'' else if market = ''CRYPTO'' then ''USDT'' else ''CNY'')"

lemma normalize_market_consts [simp]:
  "normalize_market CN = CN" "normalize_market US = US" "normalize_market CRYPTO = CRYPTO"
  "normalize_market [] = CN"
  unfolding normalize_market_def CN_def US_def CRYPTO_def by code_simp+

lemma NormalizeMarketKey_range: "NormalizeMarketKey m \<in> {CN, US, CRYPTO}"
  by (simp add: NormalizeMarketKey_def Let_def)

lemma NormalizeMarketKey_consts [simp]:
  "NormalizeMarketKey CN = CN" "NormalizeMarketKey US = US" "NormalizeMarketKey CRYPTO = CRYPTO"
  "NormalizeMarketKey [] = CN"
  unfolding NormalizeMarketKey_def CN_def US_def CRYPTO_def by code_simp+

lemma NormalizeMarketKey_idem [simp]: "NormalizeMarketKey (NormalizeMarketKey m) = NormalizeMarketKey m"
  using NormalizeMarketKey_range [of m] by auto

lemma normalize_market_key [simp]: "normalize_market (NormalizeMarketKey m) = NormalizeMarketKey m"
  using NormalizeMarketKey_range [of m] by auto

section \<open>Instrument codes\<close>

definition is_upper :: "char \<Rightarrow> bool" where
  "is_upper c \<longleftrightarrow> CHR ''A'' \<le> c \<and> c \<le> CHR ''Z''"

text \<open>The three regular expressions of the store, as predicates on the whole code.\<close>

definition cn_ts_code :: "string \<Rightarrow> bool" where
  "cn_ts_code s \<longleftrightarrow> length s = 9 \<and> list_all is_digit (take 6 s) \<and>
     drop 6 s \<in> {''.SH'', ''.SZ'', ''.BJ''}"

definition crypto_ts_code :: "string \<Rightarrow> bool" where
  "crypto_ts_code s \<longleftrightarrow> 2 \<le> length s \<and> length s \<le> 20 \<and> list_all (\<lambda>c. is_upper c \<or> is_digit c) s"

definition us_ts_code :: "string \<Rightarrow> bool" where
  "us_ts_code s = (case s of [] \<Rightarrow> False
     | c # t \<Rightarrow> is_upper c \<and> length t \<le> 9 \<and> list_all (\<lambda>c. is_upper c \<or> is_digit c \<or> c = CHR ''.'') t)"

definition valid_ts_code :: "string \<Rightarrow> string \<Rightarrow> bool" where
  "valid_ts_code market code =
     (if market = ''CRYPTO'' then crypto_ts_code code
      else if market = ''US'' then us_ts_code code
      else cn_ts_code code)"

definition quote_suffixes :: "string list" where
  "quote_suffixes = [''USDT'', ''USDC'', ''BUSD'', ''FDUSD'', ''TUSD'', ''USDD'', ''DAI'', ''BTC'',
     ''ETH'', ''BNB'', ''EUR'', ''TRY'', ''JPY'', ''AUD'']"

definition InferMarketOf :: "string \<Rightarrow> string" where
  "InferMarketOf code0 =
     (let code = to_upper (trim_space code0)
      in if code = [] then CN
         else if cn_ts_code code then CN
         else if contains code ''.'' then US
         else if list_ex (has_suffix code) quote_suffixes then CRYPTO
         else if us_ts_code code then US
         else CN)"

text \<open>
  The market inferred from a code accepts the code's shape, unless nothing was recognised:
  an inferred US or CRYPTO market never contradicts the CN shape.
\<close>

lemma InferMarketOf_range: "InferMarketOf c \<in> {CN, US, CRYPTO}"
  by (simp add: InferMarketOf_def Let_def)

section \<open>Blacklist, price limit, special treatment\<close>

definition pure_code :: "string \<Rightarrow> string" where
  "pure_code c = trim_space (case index_byte c CHR ''.'' of Some i \<Rightarrow> if 0 < i then take i c else c | None \<Rightarrow> c)"

definition CodeInBlacklist :: "string list \<Rightarrow> string \<Rightarrow> bool" where
  "CodeInBlacklist xs code =
     (if xs = [] \<or> code = [] then False
      else list_ex (\<lambda>item. pure_code item \<noteq> [] \<and> pure_code item = pure_code code) xs)"

definition LimitUpPct :: "string \<Rightarrow> string \<Rightarrow> f64" where
  "LimitUpPct code name =
     (if contains (to_upper name) ''ST'' then lit (49/10)
      else let head = takeWhile (\<lambda>c. c \<noteq> CHR ''.'') code
        in if has_prefix head ''30'' \<or> has_prefix head ''68'' then lit (199/10)
           else if has_prefix head ''4'' \<or> has_prefix head ''8'' \<or> has_prefix head ''92'' then lit (299/10)
           else lit (99/10))"

text \<open>
  \<open>isCJK\<close> of the first rune: the three-byte encodings of U+4E00 to U+9FFF. A truncated or
  malformed encoding decodes to U+FFFD, which is outside.
\<close>

definition first_rune_cjk :: "string \<Rightarrow> bool" where
  "first_rune_cjk s = (case s of
     a # b # c # _ \<Rightarrow> is_cont b \<and> is_cont c \<and>
       (let r = (of_char a - 224) * 4096 + (of_char b - 128) * 64 + (of_char c - 128) :: int
        in CHR 0xE0 \<le> a \<and> a \<le> CHR 0xEF \<and> 0x4E00 \<le> r \<and> r \<le> 0x9FFF)
   | _ \<Rightarrow> False)"

definition IsSTStock :: "string \<Rightarrow> bool" where
  "IsSTStock name =
     (let n = trim_space name
      in if n = [] then False
         else case find (has_prefix (to_upper n)) [''*ST'', ''S*ST'', ''SST'', ''ST'', [CHR 0xE9, CHR 0x80, CHR 0x80]] of
           None \<Rightarrow> False
         | Some p \<Rightarrow> (let rest = drop (length p) n in rest = [] \<or> first_rune_cjk rest))"

lemma CodeInBlacklist_nil [simp]: "\<not> CodeInBlacklist [] code"
  by (simp add: CodeInBlacklist_def)

lemma CodeInBlacklist_mono: "set xs \<subseteq> set ys \<Longrightarrow> CodeInBlacklist xs c \<Longrightarrow> CodeInBlacklist ys c"
  by (auto simp: CodeInBlacklist_def list_ex_iff split: if_splits)

end
