(* ===== verification/Config.thy ===== *)
theory Config
  imports Markets
begin

text \<open>
  The configuration the order path reads: \<open>internal/config/config.go\<close> (the QMT account, its risk
  gate, money management and discipline parameters), \<open>internal/config/binance.go\<close> (the two market
  profiles and the view a controller holds of one of them) and \<open>internal/config/broker.go\<close>
  (the accessors both sides answer to). A Go pointer to a boolean is an \<open>option\<close>. Fields no
  modelled operation reads (advice and settlement blocks, display options) are left out.
\<close>

record risk_gate_config =
  DayLossLimitPct :: f64
  SingleStockValuePct :: f64
  StaleQuoteMs :: int
  LimitUpBlockBuy :: bool
  LimitDownBlockSell :: bool
  MaxOrderAmount :: f64
  CrossCheckPct :: f64
  CrossCheckShadow :: "bool option"
  SlippagePassthrough :: f64

definition CrossCheckEnforce :: "risk_gate_config \<Rightarrow> bool" where
  "CrossCheckEnforce r \<longleftrightarrow> CrossCheckShadow r = Some False"

definition AnyEnabled :: "risk_gate_config \<Rightarrow> bool" where
  "AnyEnabled r \<longleftrightarrow> 0 < DayLossLimitPct r \<or> 0 < SingleStockValuePct r \<or> 0 < StaleQuoteMs r \<or>
     LimitUpBlockBuy r \<or> LimitDownBlockSell r \<or> 0 < MaxOrderAmount r \<or> 0 < CrossCheckPct r"

record money_config =
  CashReserveRatio :: f64
  MinReserveAmount :: f64
  TrustBrokerFreeze :: "bool option"

definition zero_money :: money_config where
  "zero_money = \<lparr>CashReserveRatio = 0, MinReserveAmount = 0, TrustBrokerFreeze = None\<rparr>"

definition TrustBrokerFreezeEnabled :: "money_config \<Rightarrow> bool" where
  "TrustBrokerFreezeEnabled m = (case TrustBrokerFreeze m of None \<Rightarrow> True | Some b \<Rightarrow> b)"

definition EffectiveReserve :: "money_config \<Rightarrow> f64 \<Rightarrow> f64" where
  "EffectiveReserve m available =
     (let r = CashReserveRatio m;
          r = (if 1 < r then 1 else r);
          r = (if r < 0 then 0 else r);
          byRatio = available * r
      in if byRatio < MinReserveAmount m then MinReserveAmount m else byRatio)"

record discipline_config =
  StopLossPct :: f64
  TakeProfitPct :: f64
  MaxPullbackPct :: f64
  DeepStopMult :: f64
  BuyConfirmMin :: int
  BuyConfirmHighSec :: int
  ExitConfirmMin :: int
  TrailConfirmMin :: int
  ProbeSec :: int
  HighConfThreshold :: f64
  SellSignalMaxAgeSec :: int

definition DefaultDisciplineConfig :: discipline_config where
  "DefaultDisciplineConfig = \<lparr>StopLossPct = Fin 6, TakeProfitPct = Fin 15, MaxPullbackPct = Fin 6,
     DeepStopMult = Fin 2, BuyConfirmMin = 5, BuyConfirmHighSec = 30, ExitConfirmMin = 15,
     TrailConfirmMin = 45, ProbeSec = 5, HighConfThreshold = Fin 85, SellSignalMaxAgeSec = 300\<rparr>"

record qmt_config =
  q_Enabled :: bool
  q_Mode :: string
  q_GatewayURL :: string
  q_Token :: string
  q_PriceType :: string
  q_FixedAmount :: f64
  q_MaxPositions :: int
  q_InitialCapital :: f64
  q_Strategies :: "string list"
  q_TimeoutSec :: int
  q_MissHeartbeatSec :: int
  q_DailyMaxBuys :: int
  q_DailyBudgetAmount :: f64
  q_Blacklist :: "string list"
  q_Discipline :: discipline_config
  q_Halted :: bool
  q_CancelStaleSec :: int
  q_CloseSweepAt :: int
  q_EnforceT1 :: "bool option"
  q_Money :: money_config
  q_RiskGate :: risk_gate_config

definition EnforceT1Enabled :: "qmt_config \<Rightarrow> bool" where
  "EnforceT1Enabled c = (case q_EnforceT1 c of None \<Rightarrow> True | Some b \<Rightarrow> b)"

record binance_profile =
  bp_Enabled :: bool
  bp_TradingSession :: string
  bp_FixedAmount :: f64
  bp_MaxPositions :: int
  bp_DailyMaxBuys :: int
  bp_DailyBudgetAmount :: f64
  bp_Strategies :: "string list"
  bp_Blacklist :: "string list"
  bp_ShortMarginRate :: f64
  bp_ProductType :: string
  bp_Leverage :: int
  bp_LiqDistMinPct :: f64
  bp_Paper :: bool

record binance_config =
  b_Enabled :: bool
  b_DataPlane :: bool
  b_Mode :: string
  b_APIKey :: string
  b_APISecret :: string
  b_BaseURL :: string
  b_MissHeartbeatSec :: int
  b_CancelStaleSec :: int
  b_Halted :: bool
  b_Stock :: binance_profile
  b_Spot :: binance_profile
  b_RiskGate :: risk_gate_config

record binance_view =
  v_Cfg :: binance_config
  v_Market :: string

definition profile :: "binance_view \<Rightarrow> binance_profile" where
  "profile v = (if v_Market v = ''US'' then b_Stock (v_Cfg v) else b_Spot (v_Cfg v))"

text \<open>The two types that implement the \<open>BrokerConfig\<close> interface, and its methods.\<close>

datatype broker_config = QMT qmt_config | Binance binance_view

fun BrokerEnabled :: "broker_config \<Rightarrow> bool" where
  "BrokerEnabled (QMT q) = q_Enabled q"
| "BrokerEnabled (Binance v) = ((b_Enabled (v_Cfg v) \<or> b_DataPlane (v_Cfg v)) \<and> bp_Enabled (profile v))"

definition TradingActive :: "binance_view \<Rightarrow> bool" where
  "TradingActive v \<longleftrightarrow> b_Enabled (v_Cfg v) \<and> bp_Enabled (profile v)"

fun BrokerMode :: "broker_config \<Rightarrow> string" where
  "BrokerMode (QMT q) = q_Mode q"
| "BrokerMode (Binance v) = b_Mode (v_Cfg v)"

fun BrokerHalted :: "broker_config \<Rightarrow> bool" where
  "BrokerHalted (QMT q) = q_Halted q"
| "BrokerHalted (Binance v) = b_Halted (v_Cfg v)"

fun BrokerCancelStaleSec :: "broker_config \<Rightarrow> int" where
  "BrokerCancelStaleSec (QMT q) = q_CancelStaleSec q"
| "BrokerCancelStaleSec (Binance v) = b_CancelStaleSec (v_Cfg v)"

fun BrokerCloseSweepAt :: "broker_config \<Rightarrow> int" where
  "BrokerCloseSweepAt (QMT q) = q_CloseSweepAt q"
| "BrokerCloseSweepAt (Binance v) = - 1"

fun BrokerMissHeartbeat :: "broker_config \<Rightarrow> int" where
  "BrokerMissHeartbeat (QMT q) = q_MissHeartbeatSec q"
| "BrokerMissHeartbeat (Binance v) = b_MissHeartbeatSec (v_Cfg v)"

fun BrokerFixedAmount :: "broker_config \<Rightarrow> f64" where
  "BrokerFixedAmount (QMT q) = q_FixedAmount q"
| "BrokerFixedAmount (Binance v) = bp_FixedAmount (profile v)"

fun BrokerMaxPositions :: "broker_config \<Rightarrow> int" where
  "BrokerMaxPositions (QMT q) = q_MaxPositions q"
| "BrokerMaxPositions (Binance v) = bp_MaxPositions (profile v)"

fun BrokerDailyMaxBuys :: "broker_config \<Rightarrow> int" where
  "BrokerDailyMaxBuys (QMT q) = q_DailyMaxBuys q"
| "BrokerDailyMaxBuys (Binance v) = bp_DailyMaxBuys (profile v)"

fun BrokerDailyBudget :: "broker_config \<Rightarrow> f64" where
  "BrokerDailyBudget (QMT q) = q_DailyBudgetAmount q"
| "BrokerDailyBudget (Binance v) = bp_DailyBudgetAmount (profile v)"

fun BrokerInitialCapital :: "broker_config \<Rightarrow> f64" where
  "BrokerInitialCapital (QMT q) = q_InitialCapital q"
| "BrokerInitialCapital (Binance v) = 0"

fun BrokerStrategies :: "broker_config \<Rightarrow> string list" where
  "BrokerStrategies (QMT q) = q_Strategies q"
| "BrokerStrategies (Binance v) = bp_Strategies (profile v)"

fun BrokerBlacklist :: "broker_config \<Rightarrow> string list" where
  "BrokerBlacklist (QMT q) = q_Blacklist q"
| "BrokerBlacklist (Binance v) = bp_Blacklist (profile v)"

fun BrokerRiskGate :: "broker_config \<Rightarrow> risk_gate_config" where
  "BrokerRiskGate (QMT q) = q_RiskGate q"
| "BrokerRiskGate (Binance v) = b_RiskGate (v_Cfg v)"

fun BrokerEnforceT1 :: "broker_config \<Rightarrow> bool" where
  "BrokerEnforceT1 (QMT q) = EnforceT1Enabled q"
| "BrokerEnforceT1 (Binance v) = False"

fun BrokerMarket :: "broker_config \<Rightarrow> string \<Rightarrow> string" where
  "BrokerMarket (QMT q) code = InferMarketOf code"
| "BrokerMarket (Binance v) code = (if v_Market v \<noteq> [] then v_Market v else InferMarketOf code)"

definition FuturesActive :: "binance_view \<Rightarrow> bool" where
  "FuturesActive v \<longleftrightarrow> v_Market v = CRYPTO \<and> bp_ProductType (profile v) = ''umfutures''"

definition PaperActive :: "binance_view \<Rightarrow> bool" where
  "PaperActive v \<longleftrightarrow> \<not> b_Enabled (v_Cfg v) \<and> bp_Enabled (profile v) \<and> bp_Paper (profile v)"

text \<open>The type assertions of \<open>risk/gate.go\<close>: parts of a configuration only one side has.\<close>

fun moneyOf :: "broker_config \<Rightarrow> money_config" where
  "moneyOf (QMT q) = q_Money q"
| "moneyOf (Binance v) = zero_money"

fun shortMarginOf :: "broker_config \<Rightarrow> f64" where
  "shortMarginOf (QMT q) = 0"
| "shortMarginOf (Binance v) = bp_ShortMarginRate (profile v)"

fun liqDistMinPctOf :: "broker_config \<Rightarrow> f64" where
  "liqDistMinPctOf (QMT q) = 0"
| "liqDistMinPctOf (Binance v) = bp_LiqDistMinPct (profile v)"

text \<open>The live plane and the paper desk of a market exclude each other.\<close>

lemma paper_excludes_live: "\<not> (PaperActive v \<and> TradingActive v)"
  by (simp add: PaperActive_def TradingActive_def)

lemma TradingActive_enabled: "TradingActive v \<Longrightarrow> BrokerEnabled (Binance v)"
  by (simp add: TradingActive_def)

text \<open>The reserve is at least the configured floor, and never negative for money in hand.\<close>

lemma EffectiveReserve_ge_min:
  "MinReserveAmount m \<noteq> NaN \<Longrightarrow> EffectiveReserve m a \<noteq> NaN \<Longrightarrow> MinReserveAmount m \<le> EffectiveReserve m a"
  by (auto simp: EffectiveReserve_def Let_def f64_not_less f64_le_refl split: if_splits)

lemma EffectiveReserve_nonneg:
  assumes "0 \<le> a" "a \<noteq> PInf" "CashReserveRatio m \<noteq> NaN"
  shows "0 \<le> EffectiveReserve m a"
proof -
  define r where "r = (let r = CashReserveRatio m; r = (if 1 < r then 1 else r) in if r < 0 then 0 else r)"
  have r: "0 \<le> r" "r \<noteq> PInf"
    using assms(3) by (cases "CashReserveRatio m"; auto simp: r_def Let_def zero_f64_def one_f64_def)+
  then have "a * r \<noteq> NaN" using assms by (cases a; cases r) (auto simp: times_f64_def zero_f64_def)
  then have nn: "0 \<le> a * r" using fmul_nonneg r assms by blast
  have "EffectiveReserve m a = (if a * r < MinReserveAmount m then MinReserveAmount m else a * r)"
    by (simp add: EffectiveReserve_def r_def Let_def)
  then show ?thesis using nn f64_le_less_trans f64_less_imp_le by auto
qed

end
