(* ===== verification/LedgerTables.thy ===== *)
theory LedgerTables
  imports Markets
begin

text \<open>
  The tables of the local ledger (\<open>internal/store\<close>): the row types of
  \<open>real_positions.go\<close>, \<open>real_account.go\<close>, \<open>risk_gates.go\<close> and \<open>funding_fees.go\<close> and the
  database state. A table is the list of its rows in insertion order; a query without \<open>ORDER BY\<close>
  reads it in that order.

  SQLite is not code of the repository. Two things of it are parameters carried in the state: which
  tables fail when a statement touches them (\<open>db_down\<close>, so that every \<open>if err != nil\<close> of the
  source is a branch), and the summation \<open>SUM\<close> computes in floating point (\<open>db_sum\<close>). Text
  comparison, \<open>LIKE\<close>, \<open>COALESCE\<close>, key conflicts and the atomicity of a statement or
  transaction are modelled as SQLite documents them. Bound NaN values (which SQLite stores as
  NULL) are outside the model.
\<close>

record real_position =
  p_Market :: string
  p_Currency :: string
  p_Side :: string
  p_TsCode :: string
  p_Name :: string
  p_Qty :: f64
  p_CostPrice :: f64
  p_Amount :: f64
  p_HighestPrice :: f64
  p_Strategy :: string
  p_SignalID :: string
  p_UpdatedAt :: string
  p_BuyDate :: string
  p_CurPrice :: f64
  p_UserID :: string

record real_order =
  o_OrderID :: string
  o_SignalID :: string
  o_Code :: string
  o_Side :: string
  o_Status :: string
  o_Price :: f64
  o_Qty :: f64
  o_CreatedAt :: string
  o_UserID :: string
  o_Market :: string
  o_Currency :: string

record real_fill =
  f_ID :: int
  f_OrderID :: string
  f_Code :: string
  f_Name :: string
  f_Side :: string
  f_Price :: f64
  f_Qty :: f64
  f_Amount :: f64
  f_TradedAt :: string
  f_SignalID :: string
  f_TradeID :: string
  f_UserID :: string
  f_Fee :: f64
  f_StampTax :: f64
  f_Serial :: string
  f_Market :: string
  f_Currency :: string

record real_account =
  a_UserID :: string
  a_Market :: string
  a_AvailableCash :: f64
  a_FrozenCash :: f64
  a_TotalAsset :: f64
  a_MarketValue :: f64
  a_UpdatedAt :: string

record risk_gate_hit =
  h_UserID :: string
  h_TradeDate :: string
  h_Gate :: string
  h_Hits :: int
  h_LastReason :: string
  h_UpdatedAt :: string

record funding_row =
  n_TranID :: int
  n_UserID :: string
  n_Market :: string
  n_TsCode :: string
  n_Amount :: f64
  n_IncomeTime :: int

datatype table = T_positions | T_orders | T_fills | T_account | T_gates | T_funding

text \<open>The errors the store returns; SQL errors carry the table.\<close>

datatype store_error =
    DbFailed table
  | UniqueViolation table
  | InvalidPositionReport nat string string
  | ShortSideMarket string string
  | NoShortToCover string
  | SideConflict string string
  | MissingTranID

type_synonym 'a res = "store_error + 'a"

record db =
  positions :: "real_position list"
  orders :: "real_order list"
  fills :: "real_fill list"
  accounts :: "real_account list"
  gates :: "risk_gate_hit list"
  funding :: "funding_row list"
  next_fill :: int
  db_down :: "table \<Rightarrow> bool"
  db_sum :: "f64 list \<Rightarrow> f64"

definition empty_db :: "(table \<Rightarrow> bool) \<Rightarrow> (f64 list \<Rightarrow> f64) \<Rightarrow> db" where
  "empty_db down sm = \<lparr>positions = [], orders = [], fills = [], accounts = [], gates = [], funding = [],
     next_fill = 1, db_down = down, db_sum = sm\<rparr>"

text \<open>\<open>UPDATE t SET f WHERE P\<close>, \<open>DELETE FROM t WHERE P\<close>, and \<open>COALESCE(SUM(..),0)\<close>.\<close>

definition update_where :: "('r \<Rightarrow> bool) \<Rightarrow> ('r \<Rightarrow> 'r) \<Rightarrow> 'r list \<Rightarrow> 'r list" where
  "update_where P f rows = map (\<lambda>r. if P r then f r else r) rows"

definition delete_where :: "('r \<Rightarrow> bool) \<Rightarrow> 'r list \<Rightarrow> 'r list" where
  "delete_where P rows = filter (\<lambda>r. \<not> P r) rows"

definition coalesce_sum :: "db \<Rightarrow> f64 list \<Rightarrow> f64" where
  "coalesce_sum d xs = (if xs = [] then 0 else db_sum d xs)"

lemma set_update_where: "set (update_where P f rows) = (\<lambda>r. if P r then f r else r) ` set rows"
  by (simp add: update_where_def)

lemma set_delete_where [ledger_simps]: "set (delete_where P rows) = {r \<in> set rows. \<not> P r}"
  by (auto simp: delete_where_def)

lemma length_update_where [simp]: "length (update_where P f rows) = length rows"
  by (simp add: update_where_def)

lemma update_where_id: "(\<And>r. r \<in> set rows \<Longrightarrow> \<not> P r) \<Longrightarrow> update_where P f rows = rows"
  by (simp add: update_where_def map_upd_if_id)

lemma distinct_update_where:
  "distinct (map k rows) \<Longrightarrow> (\<And>r. r \<in> set rows \<Longrightarrow> P r \<Longrightarrow> k (f r) = k r) \<Longrightarrow>
    distinct (map k (update_where P f rows))"
  unfolding update_where_def by (rule distinct_map_upd)

lemma distinct_delete_where:
  "distinct (map k rows) \<Longrightarrow> distinct (map k (delete_where P rows))"
  by (simp add: delete_where_def distinct_map_filter)

text \<open>Moving the rows selected by \<open>P\<close> to the keys of no other row keeps a key unique.\<close>

lemma distinct_update_fresh:
  assumes d: "distinct (map k rows)"
    and single: "\<And>r s. r \<in> set rows \<Longrightarrow> s \<in> set rows \<Longrightarrow> P r \<Longrightarrow> P s \<Longrightarrow> r = s"
    and fresh: "\<And>r s. r \<in> set rows \<Longrightarrow> s \<in> set rows \<Longrightarrow> P r \<Longrightarrow> \<not> P s \<Longrightarrow> k (f r) \<noteq> k s"
  shows "distinct (map k (update_where P f rows))"
  using assms
proof (induction rows)
  case (Cons x xs)
  have IH: "distinct (map k (update_where P f xs))"
    using Cons.prems by (intro Cons.IH) auto
  have "(if P x then k (f x) else k x) \<notin> k ` set (update_where P f xs)"
  proof
    assume "(if P x then k (f x) else k x) \<in> k ` set (update_where P f xs)"
    then obtain y where y: "y \<in> set xs" and eq: "(if P x then k (f x) else k x) = (if P y then k (f y) else k y)"
      by (auto simp: set_update_where)
    have ne: "k x \<noteq> k y" using Cons.prems(1) y by auto
    show False
    proof (cases "P x"; cases "P y")
      assume "P x" "P y"
      then show False using Cons.prems(2) [of x y] y ne by simp
    next
      assume "P x" "\<not> P y"
      then show False using Cons.prems(3) [of x y] y eq by simp
    next
      assume "\<not> P x" "P y"
      then show False using Cons.prems(3) [of y x] y eq by simp
    next
      assume "\<not> P x" "\<not> P y"
      then show False using eq ne by simp
    qed
  qed
  then have "(if P x then k (f x) else k x) \<notin> set (map k (update_where P f xs))" by simp
  moreover have "map k (update_where P f (x # xs))
      = (if P x then k (f x) else k x) # map k (update_where P f xs)"
    by (simp add: update_where_def)
  ultimately show ?case using IH by (simp only: distinct.simps) simp
qed (simp add: update_where_def)

end
