(* ===== verification/Interfaces.thy ===== *)
theory Interfaces
  imports Prelude
begin

text \<open>
  The interfaces the components share, as locales. \<open>invariant_system\<close> is what every stateful
  component promises: one operation keeps its invariant; then every sequence of operations does.
  \<open>progress_system\<close> adds a quantity per key that no operation lowers (the rank of an order's
  status, the number of recorded fills). \<open>guarded_sequence\<close> is the contract of a list of checks of
  which the first that objects decides. \<open>conditional_system\<close> promises an invariant for the operations that are allowed.
\<close>

locale invariant_system =
  fixes step :: "'s \<Rightarrow> 'op \<Rightarrow> 's"
    and inv :: "'s \<Rightarrow> bool"
  assumes inv_step: "inv s \<Longrightarrow> inv (step s op)"
begin

lemma inv_run: "inv s \<Longrightarrow> inv (foldl step s ops)"
  by (induction ops arbitrary: s) (auto intro: inv_step)

lemma inv_prefix: "inv s \<Longrightarrow> inv (foldl step s (take n ops))"
  by (rule inv_run)

end

locale progress_system = invariant_system step inv
  for step :: "'s \<Rightarrow> 'op \<Rightarrow> 's" and inv :: "'s \<Rightarrow> bool" +
  fixes level :: "'s \<Rightarrow> 'k \<Rightarrow> int"
  assumes level_step: "inv s \<Longrightarrow> level s k \<le> level (step s op) k"
begin

lemma level_run: "inv s \<Longrightarrow> level s k \<le> level (foldl step s ops) k"
proof (induction ops arbitrary: s)
  case (Cons op ops)
  have "level (step s op) k \<le> level (foldl step (step s op) ops) k"
    using Cons.prems by (intro Cons.IH inv_step)
  then show ?case using level_step [OF Cons.prems, of k op] by simp
qed simp

lemma level_between:
  assumes "inv s" "m \<le> n"
  shows "level (foldl step s (take m ops)) k \<le> level (foldl step s (take n ops)) k"
proof -
  have "take n ops = take m ops @ take (n - m) (drop m ops)"
    using assms(2) by (metis le_add_diff_inverse take_add)
  then have "foldl step s (take n ops) = foldl step (foldl step s (take m ops)) (take (n - m) (drop m ops))"
    by simp
  then show ?thesis using level_run [OF inv_prefix [OF assms(1)]] by metis
qed

end

locale guarded_sequence =
  fixes objects :: "'c \<Rightarrow> 'o \<Rightarrow> 'r option"
    and first :: "'c list \<Rightarrow> 'o \<Rightarrow> ('c \<times> 'r) option"
  assumes first_Nil: "first [] x = None"
    and first_Cons: "first (c # cs) x =
      (case objects c x of None \<Rightarrow> first cs x | Some r \<Rightarrow> Some (c, r))"
begin

lemma first_None: "first cs x = None \<longleftrightarrow> (\<forall>c \<in> set cs. objects c x = None)"
  by (induction cs) (auto simp: first_Nil first_Cons split: option.splits)

lemma first_Some:
  "first cs x = Some (c, r) \<longleftrightarrow> (\<exists>xs ys. cs = xs @ c # ys \<and> objects c x = Some r \<and> (\<forall>b \<in> set xs. objects b x = None))"
proof (induction cs)
  case Nil
  then show ?case by (simp add: first_Nil)
next
  case (Cons a cs)
  show ?case
  proof (cases "objects a x")
    case None
    have "(\<exists>xs ys. a # cs = xs @ c # ys \<and> objects c x = Some r \<and> (\<forall>b \<in> set xs. objects b x = None))
      \<longleftrightarrow> (\<exists>xs ys. cs = xs @ c # ys \<and> objects c x = Some r \<and> (\<forall>b \<in> set xs. objects b x = None))"
      (is "?L \<longleftrightarrow> ?R")
    proof
      assume ?L
      then obtain xs ys where *: "a # cs = xs @ c # ys" "objects c x = Some r" "\<forall>b \<in> set xs. objects b x = None"
        by blast
      then show ?R using None by (cases xs) auto
    next
      assume ?R
      then obtain xs ys where "cs = xs @ c # ys" "objects c x = Some r" "\<forall>b \<in> set xs. objects b x = None"
        by blast
      then have "a # cs = (a # xs) @ c # ys \<and> objects c x = Some r \<and> (\<forall>b \<in> set (a # xs). objects b x = None)"
        using None by simp
      then show ?L by blast
    qed
    then show ?thesis using None Cons.IH by (simp add: first_Cons)
  next
    case (Some q)
    have "(\<exists>xs ys. a # cs = xs @ c # ys \<and> objects c x = Some r \<and> (\<forall>b \<in> set xs. objects b x = None))
      \<longleftrightarrow> a = c \<and> q = r"
    proof (safe, goal_cases)
      case (1 xs ys)
      then show ?case using Some by (cases xs) auto
    next
      case (2 xs ys)
      then show ?case using Some by (cases xs) auto
    next
      case 3
      then have "c # cs = [] @ c # cs \<and> objects c x = Some r \<and> (\<forall>b \<in> set []. objects b x = None)"
        using Some by simp
      then show ?case by blast
    qed
    then show ?thesis using Some by (auto simp: first_Cons)
  qed
qed

lemma objection_blocks: "c \<in> set cs \<Longrightarrow> objects c x \<noteq> None \<Longrightarrow> first cs x \<noteq> None"
  by (auto simp: first_None)

end

locale conditional_system =
  fixes step :: "'s \<Rightarrow> 'op \<Rightarrow> 's"
    and allowed :: "'op \<Rightarrow> bool"
    and inv :: "'s \<Rightarrow> bool"
  assumes inv_step: "inv s \<Longrightarrow> allowed op \<Longrightarrow> inv (step s op)"
begin

lemma inv_run: "inv s \<Longrightarrow> list_all allowed ops \<Longrightarrow> inv (foldl step s ops)"
  by (induction ops arbitrary: s) (auto intro: inv_step)

end

end
