(* ===== verification/GoTime.thy ===== *)
theory GoTime
  imports Prelude
begin

text \<open>
  The calendar the trading code runs on. An instant is the number of nanoseconds since
  1970-01-01 00:00:00 UTC, as in Go's \<open>time.Time\<close>; a day is the number of days since
  1970-01-01. The first part is the part of Go's \<open>time\<close> package the code uses (the proleptic
  Gregorian calendar, \<open>Date\<close>, \<open>AddDate\<close>, \<open>Weekday\<close>, \<open>Format\<close>, \<open>ParseInLocation\<close>); the others are
  \<open>internal/data/trade_time.go\<close>, \<open>internal/data/trade_calendar.go\<close> and
  \<open>internal/data/market_session.go\<close>.

  Asia/Shanghai is UTC+8 (no daylight saving since 1991, and the source's own fallback); the
  offset of America/New\_York is data of the time-zone database, so it is a parameter \<open>ny\<close>, a
  function from the instant to seconds east of UTC.
\<close>

section \<open>The proleptic Gregorian calendar\<close>

definition leap :: "int \<Rightarrow> bool" where
  "leap y \<longleftrightarrow> y mod 4 = 0 \<and> (y mod 100 \<noteq> 0 \<or> y mod 400 = 0)"

definition month_lengths :: "int \<Rightarrow> int list" where
  "month_lengths y = [31, if leap y then 29 else 28, 31, 30, 31, 30, 31, 31, 30, 31, 30, 31]"

definition year_length :: "int \<Rightarrow> int" where
  "year_length y = (if leap y then 366 else 365)"

text \<open>Days before the first of January of year \<open>y\<close>, counted from year 1, and the day number.\<close>

definition days_before_year :: "int \<Rightarrow> int" where
  "days_before_year y = 365 * (y - 1) + (y - 1) div 4 - (y - 1) div 100 + (y - 1) div 400"

definition day_number :: "int \<Rightarrow> int \<Rightarrow> int \<Rightarrow> int" where
  "day_number y m d = days_before_year y + sum_list (take (nat (m - 1)) (month_lengths y)) + (d - 1) - 719162"

fun split_month :: "int list \<Rightarrow> int \<Rightarrow> int \<Rightarrow> int \<times> int" where
  "split_month (l # ls) m yd = (if yd < l then (m, yd + 1) else split_month ls (m + 1) (yd - l))"
| "split_month [] m yd = (m, yd + 1)"

text \<open>The 400-, 100-, 4- and 1-year cycles of \<open>time.absDate\<close>.\<close>

definition civil_year :: "int \<Rightarrow> int" where
  "civil_year n = (let a = n + 719162; e = a div 146097; d = a mod 146097;
     c = min 3 (d div 36524); d1 = d - 36524 * c; q = d1 div 1461; d2 = d1 - 1461 * q;
     r = min 3 (d2 div 365) in 400 * e + 100 * c + 4 * q + r + 1)"

definition civil :: "int \<Rightarrow> int \<times> int \<times> int" where
  "civil n = (let y = civil_year n; (m, d) = split_month (month_lengths y) 1 (n + 719162 - days_before_year y)
     in (y, m, d))"

definition valid_date :: "int \<Rightarrow> int \<Rightarrow> int \<Rightarrow> bool" where
  "valid_date y m d \<longleftrightarrow> 1 \<le> m \<and> m \<le> 12 \<and> 1 \<le> d \<and> d \<le> month_lengths y ! nat (m - 1)"

lemma div_step:
  assumes "0 < (k::int)"
  shows "y div k = (y - 1) div k + (if y mod k = 0 then 1 else 0)"
proof -
  define q m where "q = y div k" and "m = y mod k"
  have y: "y = k * q + m" "0 \<le> m" "m < k" using assms by (simp_all add: q_def m_def)
  show ?thesis
  proof (cases "m = 0")
    case True
    have "y - 1 = k * (q - 1) + (k - 1)" using y True by (simp add: right_diff_distrib)
    then have "(y - 1) div k = q - 1" by (rule int_div_pos_eq) (use assms in auto)
    then show ?thesis using True by (simp add: q_def m_def)
  next
    case False
    have "y - 1 = k * q + (m - 1)" using y by simp
    then have "(y - 1) div k = q" by (rule int_div_pos_eq) (use y False in auto)
    then show ?thesis using False by (simp add: q_def m_def)
  qed
qed

lemma days_before_year_Suc: "days_before_year (y + 1) = days_before_year y + year_length y"
proof -
  have "y div 4 = (y - 1) div 4 + (if y mod 4 = 0 then 1 else 0)"
    "y div 100 = (y - 1) div 100 + (if y mod 100 = 0 then 1 else 0)"
    "y div 400 = (y - 1) div 400 + (if y mod 400 = 0 then 1 else 0)"
    by (rule div_step, simp)+
  moreover have "y mod 400 = 0 \<Longrightarrow> y mod 100 = 0" "y mod 100 = 0 \<Longrightarrow> y mod 4 = 0"
    by presburger+
  ultimately show ?thesis
    unfolding days_before_year_def year_length_def leap_def add_diff_cancel_right' by (smt (verit))
qed

lemma year_length_pos: "0 < year_length y"
  by (simp add: year_length_def)

lemma days_before_year_mono: "x < y \<Longrightarrow> days_before_year x + year_length x \<le> days_before_year y"
proof (induction "nat (y - x)" arbitrary: y)
  case (Suc n)
  show ?case
  proof (cases "x = y - 1")
    case True
    then show ?thesis using days_before_year_Suc [of x] by simp
  next
    case False
    then have "days_before_year x + year_length x \<le> days_before_year (y - 1)"
      using Suc by (intro Suc(1)) auto
    then show ?thesis using days_before_year_Suc [of "y - 1"] year_length_pos [of "y - 1"] by simp
  qed
qed simp

lemma cycle_divs:
  assumes "0 \<le> c" "c \<le> 3" "0 \<le> q" "q \<le> 24" "0 \<le> r" "r \<le> (3::int)"
  shows "(400 * e + 100 * c + 4 * q + r) div 4 = 100 * e + 25 * c + q"
    "(400 * e + 100 * c + 4 * q + r) div 100 = 4 * e + c"
    "(400 * e + 100 * c + 4 * q + r) div 400 = e"
proof -
  show "(400 * e + 100 * c + 4 * q + r) div 4 = 100 * e + 25 * c + q"
    by (rule int_div_pos_eq [where r = r]) (use assms in auto)
  show "(400 * e + 100 * c + 4 * q + r) div 100 = 4 * e + c"
    by (rule int_div_pos_eq [where r = "4 * q + r"]) (use assms in auto)
  show "(400 * e + 100 * c + 4 * q + r) div 400 = e"
    by (rule int_div_pos_eq [where r = "100 * c + 4 * q + r"]) (use assms in auto)
qed

lemma div_cap:
  assumes "0 \<le> d" "0 < (k::int)"
  shows "0 \<le> d div k" "k * (d div k) \<le> d" "d < k * (d div k) + k"
    "k * min 3 (d div k) \<le> d" "min 3 (d div k) < 3 \<Longrightarrow> d < k * min 3 (d div k) + k"
proof -
  define q m where "q = d div k" and "m = d mod k"
  have d: "d = k * q + m" "0 \<le> m" "m < k" using assms by (simp_all add: q_def m_def)
  show "0 \<le> d div k" using assms by (simp add: pos_imp_zdiv_nonneg_iff)
  show a: "k * (d div k) \<le> d" "d < k * (d div k) + k" using d by (simp_all flip: q_def)
  have "k * min 3 q \<le> k * q" using assms(2) by (intro mult_left_mono) auto
  also have "\<dots> \<le> d" using a by (simp add: q_def)
  finally show "k * min 3 (d div k) \<le> d" by (simp only: q_def)
  show "d < k * min 3 (d div k) + k" if "min 3 (d div k) < 3"
    using that a by (simp add: min_def split: if_splits)
qed

lemma civil_year_bounds:
  "days_before_year (civil_year n) \<le> n + 719162"
  "n + 719162 < days_before_year (civil_year n + 1)"
proof -
  define a e d where "a = n + 719162" and "e = a div 146097" and "d = a mod 146097"
  define c where "c = min 3 (d div 36524)"
  define d1 where "d1 = d - 36524 * c"
  define q where "q = d1 div 1461"
  define d2 where "d2 = d1 - 1461 * q"
  define r where "r = min 3 (d2 div 365)"
  have a: "a = 146097 * e + d" "0 \<le> d" "d < 146097"
    by (auto simp: e_def d_def)
  have c: "0 \<le> c" "c \<le> 3" "0 \<le> d1" "d1 < 36525" "c < 3 \<Longrightarrow> d1 < 36524"
    using a(3) div_cap [OF a(2), of 36524] unfolding d1_def c_def [symmetric] by (auto simp: c_def min_def)
  have q: "0 \<le> q" "q \<le> 24" "0 \<le> d2" "d2 < 1461" "q = 24 \<Longrightarrow> c < 3 \<Longrightarrow> d2 < 1460"
    using c(4,5) div_cap(1-3) [OF c(3), of 1461] unfolding d2_def q_def [symmetric] by auto
  have r: "0 \<le> r" "r \<le> 3" "365 * r \<le> d2" "d2 \<le> 365 * r + 365" "r < 3 \<Longrightarrow> d2 < 365 * r + 365"
    "d2 < 1460 \<Longrightarrow> d2 < 365 * r + 365"
    using q(4) div_cap [OF q(3), of 365] unfolding r_def [symmetric] by (auto simp: r_def min_def split: if_splits)
  let ?y = "400 * e + 100 * c + 4 * q + r + 1"
  have y: "civil_year n = ?y"
    by (simp add: civil_year_def Let_def a_def e_def d_def c_def d1_def q_def d2_def r_def)
  have dby: "days_before_year ?y = 146097 * e + 36524 * c + 1461 * q + 365 * r"
    using cycle_divs [OF c(1,2) q(1,2) r(1,2), of e] by (simp add: days_before_year_def)
  have n: "n + 719162 = 146097 * e + 36524 * c + 1461 * q + d2"
    using a(1) by (simp add: a_def d1_def d2_def)
  show "days_before_year (civil_year n) \<le> n + 719162"
    using r(3) by (simp add: y dby n)
  have "d2 < 365 * r + year_length ?y"
  proof (cases "d2 < 365 * r + 365")
    case False
    then have "\<not> r < 3" and dd: "\<not> d2 < 1460" using r(5,6) by blast+
    then have rr: "r = 3" using r(2) by simp
    have "\<not> (q = 24 \<and> c < 3)" using q(5) dd by blast
    moreover have "leap ?y" if "q \<noteq> 24"
    proof -
      have "?y mod 4 = 0" by (rule int_mod_pos_eq [where q = "100 * e + 25 * c + q + 1"]) (use rr in auto)
      moreover have "?y mod 100 = 4 * q + 4"
        by (rule int_mod_pos_eq [where q = "4 * e + c"]) (use rr q(1,2) that in auto)
      ultimately show ?thesis using q(1) by (simp add: leap_def)
    qed
    moreover have "leap ?y" if "q = 24" "c = 3"
    proof -
      have "?y = 400 * (e + 1)" using rr that by simp
      then have "?y mod 400 = 0" "?y mod 4 = 0" by presburger+
      then show ?thesis by (simp add: leap_def)
    qed
    ultimately have "leap ?y" using c(2) by fastforce
    then show ?thesis using r(4) by (simp add: year_length_def)
  qed (simp add: year_length_def)
  then show "n + 719162 < days_before_year (civil_year n + 1)"
    unfolding y n days_before_year_Suc [of ?y] dby by linarith
qed

lemma civil_year_unique:
  assumes "days_before_year y \<le> n + 719162" "n + 719162 < days_before_year (y + 1)"
  shows "civil_year n = y"
  using assms civil_year_bounds [of n] days_before_year_mono [of y "civil_year n"]
    days_before_year_mono [of "civil_year n" y] days_before_year_Suc [of y]
    days_before_year_Suc [of "civil_year n"]
  by (smt (verit))

lemma month_lengths_sum: "sum_list (month_lengths y) = year_length y"
  by (simp add: month_lengths_def year_length_def)

lemma split_month_take:
  assumes "k < length ls" "0 \<le> d" "d < ls ! k" "\<forall>l \<in> set ls. 0 < l"
  shows "split_month ls m (sum_list (take k ls) + d) = (m + int k, d + 1)"
  using assms
proof (induction ls arbitrary: k m)
  case (Cons l ls)
  show ?case
  proof (cases k)
    case 0
    then show ?thesis using Cons.prems by simp
  next
    case (Suc j)
    then have "0 \<le> sum_list (take j ls)"
      using Cons.prems(4) by (intro sum_list_nonneg) (auto dest: in_set_takeD intro: less_imp_le)
    then show ?thesis using Suc Cons.prems Cons.IH [of j "m + 1"] by auto
  qed
qed simp

lemma month_lengths_pos: "\<forall>l \<in> set (month_lengths y). 0 < l"
  by (simp add: month_lengths_def)

lemma sum_list_take_nth_le:
  "k < length ls \<Longrightarrow> \<forall>l \<in> set ls. 0 < (l::int) \<Longrightarrow> sum_list (take k ls) + ls ! k \<le> sum_list ls"
proof (induction ls arbitrary: k)
  case (Cons l ls)
  have "0 \<le> sum_list ls" using Cons.prems(2) by (intro sum_list_nonneg) (auto intro: less_imp_le)
  then show ?case using Cons by (cases k) auto
qed simp

theorem civil_day_number:
  assumes "valid_date y m d"
  shows "civil (day_number y m d) = (y, m, d)"
proof -
  let ?k = "nat (m - 1)" and ?ls = "month_lengths y"
  have k: "?k < length ?ls" "0 \<le> d - 1" "d - 1 < ?ls ! ?k" "m = 1 + int ?k"
    using assms by (auto simp: valid_date_def month_lengths_def)
  have nn: "0 \<le> sum_list (take ?k ?ls)"
    using month_lengths_pos [of y] by (intro sum_list_nonneg) (auto dest: in_set_takeD intro: less_imp_le)
  have "sum_list (take ?k ?ls) + (d - 1) < year_length y"
    using sum_list_take_nth_le [OF k(1) month_lengths_pos] k(3) by (simp add: month_lengths_sum)
  then have "civil_year (day_number y m d) = y"
    using nn k(2) by (intro civil_year_unique) (auto simp: day_number_def days_before_year_Suc)
  then show ?thesis
    using split_month_take [OF k(1-3) month_lengths_pos, of 1] k(4)
    by (simp add: civil_def Let_def day_number_def add.assoc)
qed

lemma split_month_inv:
  assumes "0 \<le> yd" "yd < sum_list ls" "\<forall>l \<in> set ls. 0 < l" "split_month ls m yd = (m', d)"
  shows "m \<le> m' \<and> m' < m + int (length ls) \<and> 1 \<le> d \<and> d \<le> ls ! nat (m' - m)
    \<and> sum_list (take (nat (m' - m)) ls) + (d - 1) = yd"
  using assms
proof (induction ls arbitrary: m yd)
  case (Cons l ls)
  show ?case
  proof (cases "yd < l")
    case True
    then show ?thesis using Cons.prems by auto
  next
    case False
    then have "m + 1 \<le> m' \<and> m' < m + 1 + int (length ls) \<and> 1 \<le> d \<and> d \<le> ls ! nat (m' - (m + 1))
      \<and> sum_list (take (nat (m' - (m + 1))) ls) + (d - 1) = yd - l"
      using Cons.prems by (intro Cons.IH) auto
    moreover from this have "nat (m' - m) = Suc (nat (m' - (m + 1)))" by auto
    ultimately show ?thesis by auto
  qed
qed simp

theorem day_number_civil:
  "case civil n of (y, m, d) \<Rightarrow> valid_date y m d \<and> day_number y m d = n"
proof -
  obtain m d where md: "split_month (month_lengths (civil_year n)) 1
      (n + 719162 - days_before_year (civil_year n)) = (m, d)" by force
  have "n + 719162 - days_before_year (civil_year n) < sum_list (month_lengths (civil_year n))"
    using civil_year_bounds(2) [of n] by (simp add: month_lengths_sum days_before_year_Suc)
  from split_month_inv [OF _ this month_lengths_pos md] civil_year_bounds(1) [of n]
  have "1 \<le> m \<and> m < 1 + int (length (month_lengths (civil_year n))) \<and> 1 \<le> d
    \<and> d \<le> month_lengths (civil_year n) ! nat (m - 1)
    \<and> sum_list (take (nat (m - 1)) (month_lengths (civil_year n))) + (d - 1)
       = n + 719162 - days_before_year (civil_year n)"
    by simp
  moreover have "length (month_lengths y) = 12" for y by (simp add: month_lengths_def)
  ultimately show ?thesis
    by (simp add: civil_def Let_def md valid_date_def day_number_def)
qed


section \<open>Dates, weekdays and their text\<close>

text \<open>\<open>time.Date\<close> brings month and day into range; \<open>AddDate(0, 0, k)\<close> adds days.\<close>

definition date :: "int \<Rightarrow> int \<Rightarrow> int \<Rightarrow> int" where
  "date y m d = day_number (y + (m - 1) div 12) ((m - 1) mod 12 + 1) 1 + (d - 1)"

text \<open>Sunday is 0, as in \<open>time.Weekday\<close>; 1970-01-01 was a Thursday.\<close>

definition weekday :: "int \<Rightarrow> int" where
  "weekday n = (n + 4) mod 7"

definition weekend :: "int \<Rightarrow> bool" where
  "weekend n \<longleftrightarrow> weekday n = 6 \<or> weekday n = 0"

definition dig :: "int \<Rightarrow> char" where
  "dig n = char_of (48 + nat (n mod 10))"

definition pad2 :: "int \<Rightarrow> string" where
  "pad2 n = [dig (n div 10), dig n]"

definition pad4 :: "int \<Rightarrow> string" where
  "pad4 n = [dig (n div 1000), dig (n div 100), dig (n div 10), dig n]"

text \<open>The layouts \<open>2006-01-02\<close> and \<open>20060102\<close>, for years of four digits.\<close>

definition format_day :: "int \<Rightarrow> string" where
  "format_day n = (case civil n of (y, m, d) \<Rightarrow> pad4 y @ ''-'' @ pad2 m @ ''-'' @ pad2 d)"

definition format_compact :: "int \<Rightarrow> string" where
  "format_compact n = (case civil n of (y, m, d) \<Rightarrow> pad4 y @ pad2 m @ pad2 d)"

section \<open>Instants and zones\<close>

abbreviation second :: int where "second \<equiv> 1000000000"
abbreviation minute :: int where "minute \<equiv> 60 * 1000000000"

definition cn_offset :: int where
  "cn_offset = 8 * 3600"

text \<open>Seconds on the wall clock of a zone, from the epoch; its day, hour and minute.\<close>

definition local_secs :: "int \<Rightarrow> int \<Rightarrow> int" where
  "local_secs off t = t div second + off"

definition local_day :: "int \<Rightarrow> int \<Rightarrow> int" where
  "local_day off t = local_secs off t div 86400"

definition hhmm :: "int \<Rightarrow> int \<Rightarrow> int" where
  "hhmm off t = (let s = local_secs off t mod 86400 in s div 3600 * 100 + s mod 3600 div 60)"

text \<open>\<open>cntime.DayOf\<close> and \<open>cntime.DayCompactOf\<close>; \<open>time.Time.Sub\<close>.\<close>

definition DayOf :: "int \<Rightarrow> string" where
  "DayOf t = format_day (local_day cn_offset t)"

definition DayCompactOf :: "int \<Rightarrow> string" where
  "DayCompactOf t = format_compact (local_day cn_offset t)"

definition time_sub :: "int \<Rightarrow> int \<Rightarrow> int" where
  "time_sub t u = sat64 (t - u)"

definition num2 :: "char \<Rightarrow> char \<Rightarrow> int option" where
  "num2 a b = (if is_digit a \<and> is_digit b then Some (digits_val [a, b]) else None)"

text \<open>
  \<open>time.ParseInLocation("2006-01-02 15:04:05", s, cntime.Loc)\<close>: fixed-width fields in range, except
  that the hour may have one digit and the space may be several; then nothing or a fraction of a second
  (a point or comma and digits, of which nine count).
\<close>

definition parse_frac :: "string \<Rightarrow> int option" where
  "parse_frac r = (case r of [] \<Rightarrow> Some 0
     | c # ds \<Rightarrow> if (c = CHR ''.'' \<or> c = CHR '','') \<and> ds \<noteq> [] \<and> list_all is_digit ds
         then Some (digits_val (take 9 (ds @ ''000000000''))) else None)"

definition parse_hour :: "string \<Rightarrow> (int \<times> string) option" where
  "parse_hour r = (case r of
     a # b # r' \<Rightarrow> if \<not> is_digit a then None
       else if is_digit b then Some (digits_val [a, b], r') else Some (digits_val [a], b # r')
   | _ \<Rightarrow> None)"

definition parse_clock :: "string \<Rightarrow> (int \<times> int) option" where
  "parse_clock r = (case parse_hour r of
     Some (h, c1 # n1 # n2 # c2 # e1 # e2 # r') \<Rightarrow>
       (case (num2 n1 n2, num2 e1 e2, parse_frac r') of
          (Some n, Some e, Some f) \<Rightarrow>
            if c1 = CHR '':'' \<and> c2 = CHR '':'' \<and> h < 24 \<and> n < 60 \<and> e < 60 then Some (h * 3600 + n * 60 + e, f) else None
        | _ \<Rightarrow> None)
   | _ \<Rightarrow> None)"

definition parse_cn_datetime :: "string \<Rightarrow> int option" where
  "parse_cn_datetime s = (case s of
     y1 # y2 # y3 # y4 # s1 # m1 # m2 # s2 # d1 # d2 # s3 # r \<Rightarrow>
       (case (num2 y1 y2, num2 y3 y4, num2 m1 m2, num2 d1 d2, parse_clock (dropWhile (\<lambda>c. c = CHR '' '') r)) of
          (Some ya, Some yb, Some m, Some d, Some (c, f)) \<Rightarrow>
            (let y = 100 * ya + yb
             in if [s1, s2, s3] = ''-- '' \<and> valid_date y m d
                then Some ((day_number y m d * 86400 + c - cn_offset) * second + f)
                else None)
        | _ \<Rightarrow> None)
   | _ \<Rightarrow> None)"

text \<open>\<open>time.ParseInLocation("20060102", s, cntime.Loc)\<close>, as a day.\<close>

definition parse_compact :: "string \<Rightarrow> int option" where
  "parse_compact s = (case s of
     [y1, y2, y3, y4, m1, m2, d1, d2] \<Rightarrow>
       (case (num2 y1 y2, num2 y3 y4, num2 m1 m2, num2 d1 d2) of
          (Some ya, Some yb, Some m, Some d) \<Rightarrow>
            if valid_date (100 * ya + yb) m d then Some (day_number (100 * ya + yb) m d) else None
        | _ \<Rightarrow> None)
   | _ \<Rightarrow> None)"

lemma dig_eq_iff: "dig a = dig b \<longleftrightarrow> a mod 10 = b mod 10"
proof -
  have "nat (n mod 10) < 10" for n :: int by (simp add: nat_less_iff)
  then have "of_char (dig n) = 48 + nat (n mod 10)" for n
    using order.strict_trans [of "nat (n mod 10)" 10 208] by (simp add: dig_def of_char_of take_bit_eq_mod)
  then show ?thesis by (metis add_left_imp_eq int_nat_eq dig_def of_nat_eq_iff pos_mod_sign zero_less_numeral nat_eq_iff2)
qed

lemma dig_less_iff: "dig a < dig b \<longleftrightarrow> a mod 10 < b mod 10"
proof -
  have "nat (n mod 10) < 10" for n :: int by (simp add: nat_less_iff)
  then have "of_char (dig n) = 48 + nat (n mod 10)" for n
    using order.strict_trans [of "nat (n mod 10)" 10 208] by (simp add: dig_def of_char_of take_bit_eq_mod)
  then show ?thesis
    using pos_mod_sign [of 10 a] pos_mod_sign [of 10 b] by (auto simp: less_char_def)
qed


fun digs :: "nat \<Rightarrow> int \<Rightarrow> string" where
  "digs 0 n = []"
| "digs (Suc k) n = digs k (n div 10) @ [dig n]"

lemma split10:
  fixes qa ra qb rb :: int
  assumes "0 \<le> ra" "ra < 10" "0 \<le> rb" "rb < 10"
  shows "10 * qa + ra < 10 * qb + rb \<longleftrightarrow> qa < qb \<or> qa = qb \<and> ra < rb"
    "10 * qa + ra = 10 * qb + rb \<longleftrightarrow> qa = qb \<and> ra = rb"
proof -
  show "10 * qa + ra < 10 * qb + rb \<longleftrightarrow> qa < qb \<or> qa = qb \<and> ra < rb" using assms by linarith
  show "10 * qa + ra = 10 * qb + rb \<longleftrightarrow> qa = qb \<and> ra = rb"
    using assms by (cases "qa < qb"; cases "qb < qa") auto
qed

lemma digs_less:
  assumes "0 \<le> a" "a < 10 ^ k" "0 \<le> b" "b < 10 ^ k"
  shows "digs k a @ r < digs k b @ s \<longleftrightarrow> a < b \<or> a = b \<and> r < s"
  using assms
proof (induction k arbitrary: a b r s)
  case (Suc k)
  have ab: "0 \<le> a div 10" "a div 10 < 10 ^ k" "0 \<le> b div 10" "b div 10 < 10 ^ k"
    using Suc.prems by (auto simp: pos_imp_zdiv_nonneg_iff div_less_iff_less_mult mult.commute)
  have "a < b \<longleftrightarrow> a div 10 < b div 10 \<or> a div 10 = b div 10 \<and> a mod 10 < b mod 10"
    and "a = b \<longleftrightarrow> a div 10 = b div 10 \<and> a mod 10 = b mod 10"
    using split10 [of "a mod 10" "b mod 10" "a div 10" "b div 10"] by simp_all
  then show ?case unfolding digs.simps append_assoc append_Cons append_Nil
    using Suc.IH [OF ab, of "dig a # r" "dig b # s"] by (simp add: dig_less_iff dig_eq_iff) blast
qed simp

lemma pad_digs: "pad2 n = digs 2 n" "pad4 n = digs 4 n"
  by (simp_all add: pad2_def pad4_def eval_nat_numeral zdiv_zmult2_eq [symmetric])

lemma take_sum_mono:
  assumes "j \<le> k" "\<forall>l \<in> set ls. 0 < (l::int)"
  shows "sum_list (take j ls) \<le> sum_list (take k ls)"
proof -
  have "take k ls = take j ls @ take (k - j) (drop j ls)"
    using assms(1) by (metis le_add_diff_inverse take_add)
  moreover have "0 \<le> sum_list (take (k - j) (drop j ls))"
    using assms(2) by (intro sum_list_nonneg) (auto dest!: in_set_takeD in_set_dropD intro: less_imp_le)
  ultimately show ?thesis by simp
qed

lemma day_number_less:
  assumes "valid_date y m d" "valid_date y' m' d'"
    and "y < y' \<or> y = y' \<and> (m < m' \<or> m = m' \<and> d < d')"
  shows "day_number y m d < day_number y' m' d'"
proof -
  let ?s = "\<lambda>y k. sum_list (take k (month_lengths y))"
  have len: "length (month_lengths x) = 12" for x by (simp add: month_lengths_def)
  have m: "?s y (nat (m - 1)) + d - 1 < ?s y (Suc (nat (m - 1)))"
    using assms(1) len by (auto simp: valid_date_def take_Suc_conv_app_nth)
  have nn: "0 \<le> ?s y' (nat (m' - 1))" "1 \<le> d'"
    using take_sum_mono [of 0 "nat (m' - 1)"] month_lengths_pos assms(2) by (auto simp: valid_date_def)
  consider "y < y'" | "y = y'" "m < m'" | "y = y'" "m = m'" "d < d'" using assms(3) by blast
  then show ?thesis
  proof cases
    case 1
    have "?s y (Suc (nat (m - 1))) \<le> ?s y 12"
      using assms(1) month_lengths_pos by (intro take_sum_mono) (auto simp: valid_date_def)
    then have "?s y (nat (m - 1)) + d - 1 < year_length y"
      using m len [of y] by (simp add: month_lengths_sum)
    then show ?thesis
      using days_before_year_mono [OF 1] nn by (simp add: day_number_def)
  next
    case 2
    have "?s y (Suc (nat (m - 1))) \<le> ?s y (nat (m' - 1))"
      using 2 assms(1) month_lengths_pos by (intro take_sum_mono) (auto simp: valid_date_def)
    then show ?thesis using m nn 2 by (simp add: day_number_def)
  qed (simp add: day_number_def)
qed

definition four_digit_year :: "int \<Rightarrow> bool" where
  "four_digit_year n \<longleftrightarrow> 0 \<le> civil_year n \<and> civil_year n < 10000"

lemma valid_date_small:
  assumes "valid_date y m d"
  shows "0 \<le> m \<and> m < 100 \<and> 0 \<le> d \<and> d < 100"
proof -
  have "month_lengths y ! nat (m - 1) \<in> set (month_lengths y)"
    using assms by (intro nth_mem) (auto simp: valid_date_def month_lengths_def)
  then have "month_lengths y ! nat (m - 1) \<le> 31" by (auto simp: month_lengths_def split: if_splits)
  then show ?thesis using assms by (auto simp: valid_date_def)
qed

theorem format_day_less:
  assumes "four_digit_year a" "four_digit_year b"
  shows "format_day a < format_day b \<longleftrightarrow> a < b"
proof -
  obtain y m d where a: "civil a = (y, m, d)" by (cases "civil a")
  obtain y' m' d' where b: "civil b = (y', m', d')" by (cases "civil b")
  have va: "valid_date y m d" "day_number y m d = a" and vb: "valid_date y' m' d'" "day_number y' m' d' = b"
    using day_number_civil [of a] day_number_civil [of b] by (simp_all add: a b)
  have y: "y = civil_year a" "y' = civil_year b"
    using a b by (auto simp: civil_def Let_def split: prod.splits)
  let ?lex = "\<lambda>y m d y' m' d'. y < y' \<or> y = y' \<and> (m < m' \<or> m = m' \<and> d < (d'::int))"
  have "format_day a < format_day b \<longleftrightarrow> ?lex y m d y' m' d'"
    using assms valid_date_small [OF va(1)] valid_date_small [OF vb(1)]
      digs_less [of d 2 d' "[]" "[]"]
    by (simp add: format_day_def a b pad_digs digs_less four_digit_year_def y [symmetric] del: digs.simps)
  moreover have "?lex y m d y' m' d' \<longleftrightarrow> a < b"
  proof
    assume "?lex y m d y' m' d'"
    then show "a < b" using day_number_less [OF va(1) vb(1)] va(2) vb(2) by simp
  next
    assume "a < b"
    then have "\<not> ?lex y' m' d' y m d" "(y, m, d) \<noteq> (y', m', d')"
      using day_number_less [OF vb(1) va(1)] va(2) vb(2) by auto
    then show "?lex y m d y' m' d'" by auto
  qed
  ultimately show ?thesis by blast
qed

text \<open>The compact text of a day names it.\<close>

theorem format_compact_inj:
  assumes "four_digit_year a" "four_digit_year b" "format_compact a = format_compact b"
  shows "a = b"
proof -
  obtain y m d where a: "civil a = (y, m, d)" by (cases "civil a")
  obtain y' m' d' where b: "civil b = (y', m', d')" by (cases "civil b")
  have "pad4 y @ pad2 m @ pad2 d = pad4 y' @ pad2 m' @ pad2 d'" using assms(3) by (simp add: format_compact_def a b)
  then have "pad4 y = pad4 y' \<and> pad2 m = pad2 m' \<and> pad2 d = pad2 d'" by (simp add: pad4_def pad2_def)
  then have "format_day a = format_day b" by (simp add: format_day_def a b)
  then show ?thesis using format_day_less [OF assms(1,2)] format_day_less [OF assms(2,1)] by fastforce
qed

end
