(* ===== verification/OrderBook.thy ===== *)
theory OrderBook
  imports LedgerTables Interfaces GoTime
begin

text \<open>
  The \<open>orders\<close> table of \<open>internal/store/real_positions.go\<close>: the placeholder row of an order before
  it is sent, its backfill with the broker's number, the monotone advance by order reports, the
  downgrade after a failed send, the release for a retry, and the daily sweep. The keys are
  \<open>order_id\<close> (primary) and \<open>(user_id, signal_id)\<close> (unique).
\<close>

section \<open>Statuses\<close>

definition st_reported :: string where "st_reported = [CHR 0xE5, CHR 0xB7, CHR 0xB2, CHR 0xE6, CHR 0x8A, CHR 0xA5]"
definition st_partial :: string where "st_partial = [CHR 0xE9, CHR 0x83, CHR 0xA8, CHR 0xE6, CHR 0x88, CHR 0x90]"
definition st_reported_cancelling :: string where "st_reported_cancelling = [CHR 0xE5, CHR 0xB7, CHR 0xB2, CHR 0xE6, CHR 0x8A, CHR 0xA5, CHR 0xE5, CHR 0xBE, CHR 0x85, CHR 0xE6, CHR 0x92, CHR 0xA4]"
definition st_partial_cancelling :: string where "st_partial_cancelling = [CHR 0xE9, CHR 0x83, CHR 0xA8, CHR 0xE6, CHR 0x88, CHR 0x90, CHR 0xE5, CHR 0xBE, CHR 0x85, CHR 0xE6, CHR 0x92, CHR 0xA4]"
definition st_filled :: string where "st_filled = [CHR 0xE5, CHR 0xB7, CHR 0xB2, CHR 0xE6, CHR 0x88, CHR 0x90]"
definition st_cancelled :: string where "st_cancelled = [CHR 0xE5, CHR 0xB7, CHR 0xB2, CHR 0xE6, CHR 0x92, CHR 0xA4]"
definition st_part_cancelled :: string where "st_part_cancelled = [CHR 0xE9, CHR 0x83, CHR 0xA8, CHR 0xE6, CHR 0x92, CHR 0xA4]"
definition st_void :: string where "st_void = [CHR 0xE5, CHR 0xBA, CHR 0x9F, CHR 0xE5, CHR 0x8D, CHR 0x95]"
definition st_send_failed :: string where "st_send_failed = [CHR 0xE5, CHR 0x8F, CHR 0x91, CHR 0xE9, CHR 0x80, CHR 0x81, CHR 0xE5, CHR 0xA4, CHR 0xB1, CHR 0xE8, CHR 0xB4, CHR 0xA5]"

lemmas status_defs = st_reported_def st_partial_def st_reported_cancelling_def
  st_partial_cancelling_def st_filled_def st_cancelled_def st_part_cancelled_def st_void_def
  st_send_failed_def

definition orderStatusRank :: "string \<Rightarrow> int" where
  "orderStatusRank s =
     (if s = st_filled \<or> s = st_cancelled \<or> s = st_part_cancelled \<or> s = st_void then 6
      else if s = st_partial_cancelling then 4
      else if s = st_partial then 3
      else if s = st_reported_cancelling then 2
      else 1)"

definition terminal :: "string \<Rightarrow> bool" where
  "terminal s \<longleftrightarrow> s \<in> {st_filled, st_cancelled, st_part_cancelled, st_void}"

lemma rank_range: "1 \<le> orderStatusRank s" "orderStatusRank s \<le> 6"
  by (simp_all add: orderStatusRank_def)

lemma rank_6_iff: "orderStatusRank s = 6 \<longleftrightarrow> terminal s"
  by (auto simp: orderStatusRank_def terminal_def)

lemma ranks [simp]:
  "orderStatusRank st_reported = 1" "orderStatusRank st_send_failed = 1"
  "orderStatusRank st_partial = 3" "orderStatusRank st_void = 6"
  "orderStatusRank st_cancelled = 6" "orderStatusRank st_filled = 6"
  by (simp_all add: orderStatusRank_def status_defs)

section \<open>Operations\<close>

definition by_signal :: "string \<Rightarrow> string \<Rightarrow> real_order \<Rightarrow> bool" where
  "by_signal userID signalID o' \<longleftrightarrow> o_SignalID o' = signalID \<and> o_UserID o' = userID"

definition by_order_id :: "string \<Rightarrow> string \<Rightarrow> real_order \<Rightarrow> bool" where
  "by_order_id userID orderID o' \<longleftrightarrow> o_OrderID o' = orderID \<and> o_UserID o' = userID"

text \<open>The market and currency every writer fills in.\<close>

definition stamp_order :: "real_order \<Rightarrow> real_order" where
  "stamp_order o' = (let m = normalize_market (o_Market o')
     in o'\<lparr>o_Market := m, o_Currency := (if o_Currency o' = [] then default_currency m else o_Currency o')\<rparr>)"

text \<open>\<open>INSERT OR IGNORE\<close>: a conflict with either key leaves the table as it is.\<close>

definition insert_or_ignore :: "real_order \<Rightarrow> real_order list \<Rightarrow> bool \<times> real_order list" where
  "insert_or_ignore n rows =
     (if list_ex (\<lambda>r. o_OrderID r = o_OrderID n \<or> by_signal (o_UserID n) (o_SignalID n) r) rows
      then (False, rows) else (True, rows @ [n]))"

text \<open>\<open>UpsertRealOrder\<close> answers whether the order existed.\<close>

definition UpsertRealOrder :: "db \<Rightarrow> real_order \<Rightarrow> (bool \<times> db) res" where
  "UpsertRealOrder d o' =
     (if db_down d T_orders then Inl (DbFailed T_orders)
      else case insert_or_ignore (stamp_order o') (orders d) of
        (inserted, rows) \<Rightarrow> Inr (\<not> inserted, d\<lparr>orders := rows\<rparr>))"

text \<open>\<open>UPDATE orders SET order_id=?, status=?\<close> fails on the primary key when another row has the number.\<close>

definition set_order_id :: "(real_order \<Rightarrow> bool) \<Rightarrow> string \<Rightarrow> string \<Rightarrow> db \<Rightarrow> db res" where
  "set_order_id P orderID status d =
     (if list_ex P (orders d) \<and> list_ex (\<lambda>r. o_OrderID r = orderID \<and> \<not> P r) (orders d)
      then Inl (UniqueViolation T_orders)
      else Inr (d\<lparr>orders := update_where P (\<lambda>r. r\<lparr>o_OrderID := orderID, o_Status := status\<rparr>) (orders d)\<rparr>))"

definition UpdateRealOrderBySignalID :: "db \<Rightarrow> string \<Rightarrow> string \<Rightarrow> string \<Rightarrow> string \<Rightarrow> db res" where
  "UpdateRealOrderBySignalID d userID signalID orderID status =
     (if db_down d T_orders then Inl (DbFailed T_orders)
      else case find (by_signal userID signalID) (orders d) of
        None \<Rightarrow> Inr d
      | Some r \<Rightarrow>
          if orderStatusRank status < orderStatusRank (o_Status r) then Inr d
          else set_order_id (by_signal userID signalID) orderID status d)"

definition MarkRealOrderSendFailed :: "db \<Rightarrow> string \<Rightarrow> string \<Rightarrow> db res" where
  "MarkRealOrderSendFailed d userID signalID =
     (if db_down d T_orders then Inl (DbFailed T_orders)
      else Inr (d\<lparr>orders := update_where (\<lambda>r. by_signal userID signalID r \<and> o_Status r = st_reported)
                  (\<lambda>r. r\<lparr>o_Status := st_send_failed\<rparr>) (orders d)\<rparr>))"

text \<open>
  The rows a retry may reuse: a failed send, or a cancelled order without any fill of its signal
  (the fills of a signal are found by prefix, \<open>signal_id LIKE ?||'%'\<close>).
\<close>

definition has_fill :: "db \<Rightarrow> real_order \<Rightarrow> bool" where
  "has_fill d r \<longleftrightarrow> list_ex (\<lambda>f. f_UserID f = o_UserID r \<and> sql_like (o_SignalID r @ ''%'') (f_SignalID f)) (fills d)"

definition retry_eligible :: "db \<Rightarrow> string \<Rightarrow> string \<Rightarrow> real_order \<Rightarrow> bool" where
  "retry_eligible d userID signalID r \<longleftrightarrow> by_signal userID signalID r \<and>
     (o_Status r = st_send_failed \<or> o_Status r = st_cancelled \<and> \<not> has_fill d r)"

definition next_attempt :: "string \<Rightarrow> string \<Rightarrow> int" where
  "next_attempt signalID cur =
     (let prefix = ''pend:'' @ signalID @ '':''
      in if has_prefix cur prefix
         then (case atoi (trim_prefix cur prefix) of Some n \<Rightarrow> if 0 < n then wrap64 (n + 1) else 1 | None \<Rightarrow> 1)
         else 1)"

definition ResetFailedRealOrder :: "db \<Rightarrow> string \<Rightarrow> string \<Rightarrow> (bool \<times> db) res" where
  "ResetFailedRealOrder d userID signalID =
     (if db_down d T_orders \<or> db_down d T_fills then Inl (DbFailed T_orders)
      else case find (retry_eligible d userID signalID) (orders d) of
        None \<Rightarrow> Inr (False, d)
      | Some r \<Rightarrow>
          (let newID = ''pend:'' @ signalID @ '':'' @ itoa (next_attempt signalID (o_OrderID r))
           in case set_order_id (retry_eligible d userID signalID) newID st_reported d of
                Inl e \<Rightarrow> Inl e
              | Inr d' \<Rightarrow> Inr (True, d')))"

text \<open>The reports: only a status of strictly higher rank is written.\<close>

definition set_status :: "(real_order \<Rightarrow> bool) \<Rightarrow> string \<Rightarrow> db \<Rightarrow> db" where
  "set_status P status d = d\<lparr>orders := update_where P (\<lambda>r. r\<lparr>o_Status := status\<rparr>) (orders d)\<rparr>"

definition AdvanceRealOrderStatus :: "db \<Rightarrow> string \<Rightarrow> string \<Rightarrow> string \<Rightarrow> (bool \<times> db) res" where
  "AdvanceRealOrderStatus d userID signalID status =
     (if db_down d T_orders then Inl (DbFailed T_orders)
      else case find (by_signal userID signalID) (orders d) of
        None \<Rightarrow> Inr (False, d)
      | Some r \<Rightarrow>
          if orderStatusRank status \<le> orderStatusRank (o_Status r) then Inr (False, d)
          else Inr (True, set_status (by_signal userID signalID) status d))"

definition UpdateRealOrderStatusMonotonic :: "db \<Rightarrow> string \<Rightarrow> string \<Rightarrow> string \<Rightarrow> (bool \<times> db) res" where
  "UpdateRealOrderStatusMonotonic d userID orderID status =
     (if db_down d T_orders then Inl (DbFailed T_orders)
      else case find (by_order_id userID orderID) (orders d) of
        None \<Rightarrow> Inr (False, d)
      | Some r \<Rightarrow>
          if orderStatusRank status \<le> orderStatusRank (o_Status r) then Inr (False, d)
          else Inr (True, set_status (by_order_id userID orderID) status d))"

definition UpdateRealOrderStatus :: "db \<Rightarrow> string \<Rightarrow> string \<Rightarrow> db res" where
  "UpdateRealOrderStatus d orderID status =
     (case UpdateRealOrderStatusMonotonic d [] orderID status of Inl e \<Rightarrow> Inl e | Inr (_, d') \<Rightarrow> Inr d')"

datatype report_result = OrderReportAdvanced | OrderReportInserted | OrderReportIgnored

definition ApplyOrderReportTx :: "db \<Rightarrow> real_order \<Rightarrow> (report_result \<times> db) res" where
  "ApplyOrderReportTx d o' =
     (let n = stamp_order o'; P = by_signal (o_UserID n) (o_SignalID n)
      in if db_down d T_orders then Inl (DbFailed T_orders)
         else case find P (orders d) of
           Some r \<Rightarrow>
             if orderStatusRank (o_Status n) \<le> orderStatusRank (o_Status r) then Inr (OrderReportIgnored, d)
             else Inr (OrderReportAdvanced, set_status P (o_Status n) d)
         | None \<Rightarrow>
             (case insert_or_ignore n (orders d) of
                (True, rows) \<Rightarrow> Inr (OrderReportInserted, d\<lparr>orders := rows\<rparr>)
              | (False, _) \<Rightarrow> Inr (OrderReportIgnored, d)))"

text \<open>
  \<open>SweepStaleBuyOrders\<close> voids the buys of earlier days that are still open; dates compare as text.
  It answers the number of rows it changed.
\<close>

definition stale_buy :: "string \<Rightarrow> string \<Rightarrow> string \<Rightarrow> real_order \<Rightarrow> bool" where
  "stale_buy userID market beforeDay r \<longleftrightarrow> o_UserID r = userID \<and> o_Market r = market \<and>
     (o_Side r = SideBuy \<or> o_Side r = SideShortCover) \<and>
     (o_Status r = st_reported \<or> o_Status r = st_partial) \<and>
     substr10 (o_CreatedAt r) \<noteq> [] \<and> substr10 (o_CreatedAt r) < beforeDay"

definition SweepStaleBuyOrders :: "db \<Rightarrow> string \<Rightarrow> string \<Rightarrow> string \<Rightarrow> (nat \<times> db) res" where
  "SweepStaleBuyOrders d userID beforeDay market0 =
     (if beforeDay = [] then Inr (0, d)
      else let market = (if market0 = [] then CN else market0)
           in if db_down d T_orders then Inl (DbFailed T_orders)
              else Inr (length (filter (stale_buy userID market beforeDay) (orders d)),
                        set_status (stale_buy userID market beforeDay) st_void d))"

text \<open>\<open>RealOrdersForUser\<close>: own and legacy rows, the latest first (the sort is stable on equal keys).\<close>

definition order_key_less :: "real_order \<Rightarrow> real_order \<Rightarrow> bool" where
  "order_key_less a b \<longleftrightarrow> o_CreatedAt b < o_CreatedAt a \<or> o_CreatedAt a = o_CreatedAt b \<and> o_OrderID b < o_OrderID a"

fun insert_order :: "real_order \<Rightarrow> real_order list \<Rightarrow> real_order list" where
  "insert_order x [] = [x]"
| "insert_order x (y # ys) = (if order_key_less y x then y # insert_order x ys else x # y # ys)"

definition RealOrdersForUser :: "db \<Rightarrow> string \<Rightarrow> real_order list res" where
  "RealOrdersForUser d userID =
     (if db_down d T_orders then Inl (DbFailed T_orders)
      else Inr (foldr insert_order (filter (\<lambda>r. o_UserID r = [] \<or> o_UserID r = userID) (orders d)) []))"

definition RealOrders :: "db \<Rightarrow> real_order list res" where
  "RealOrders d = (if db_down d T_orders then Inl (DbFailed T_orders)
      else Inr (foldr insert_order (orders d) []))"

section \<open>Keys stay unique\<close>

definition orders_wf :: "real_order list \<Rightarrow> bool" where
  "orders_wf rows \<longleftrightarrow> distinct (map o_OrderID rows) \<and> distinct (map (\<lambda>r. (o_UserID r, o_SignalID r)) rows)"

lemma by_signal_unique:
  "orders_wf rows \<Longrightarrow> r \<in> set rows \<Longrightarrow> s \<in> set rows \<Longrightarrow> by_signal u g r \<Longrightarrow> by_signal u g s \<Longrightarrow> r = s"
  unfolding orders_wf_def by_signal_def by (metis (mono_tags, lifting) distinct_key_unique)

lemma by_order_id_unique:
  "orders_wf rows \<Longrightarrow> r \<in> set rows \<Longrightarrow> s \<in> set rows \<Longrightarrow> by_order_id u g r \<Longrightarrow> by_order_id u g s \<Longrightarrow> r = s"
  unfolding orders_wf_def by_order_id_def by (metis distinct_key_unique)

lemma wf_insert: "orders_wf rows \<Longrightarrow> orders_wf (snd (insert_or_ignore n rows))"
  by (auto simp: orders_wf_def insert_or_ignore_def list_ex_iff by_signal_def)

lemma wf_set_status [simp]: "orders_wf (orders (set_status P st d)) \<longleftrightarrow> orders_wf (orders d)"
  by (simp add: orders_wf_def set_status_def update_where_def o_def if_distrib cong: if_cong)

lemma wf_status_update [simp]:
  "orders_wf (update_where P (\<lambda>r. r\<lparr>o_Status := st\<rparr>) rows) \<longleftrightarrow> orders_wf rows"
  by (simp add: orders_wf_def update_where_def o_def if_distrib cong: if_cong)

lemma wf_set_order_id:
  assumes "set_order_id P oid st d = Inr d'" "orders_wf (orders d)"
    and "\<And>r s. r \<in> set (orders d) \<Longrightarrow> s \<in> set (orders d) \<Longrightarrow> P r \<Longrightarrow> P s \<Longrightarrow> r = s"
  shows "orders_wf (orders d')"
proof -
  let ?f = "\<lambda>r. r\<lparr>o_OrderID := oid, o_Status := st\<rparr>"
  have d': "orders d' = update_where P ?f (orders d)"
    and free: "list_ex P (orders d) \<Longrightarrow> \<not> list_ex (\<lambda>r. o_OrderID r = oid \<and> \<not> P r) (orders d)"
    using assms(1) by (auto simp: set_order_id_def split: if_splits)
  have "distinct (map o_OrderID (update_where P ?f (orders d)))"
    using assms(2,3) free by (intro distinct_update_fresh) (auto simp: orders_wf_def list_ex_iff)
  moreover have "distinct (map (\<lambda>r. (o_UserID r, o_SignalID r)) (update_where P ?f (orders d)))"
    using assms(2) by (intro distinct_update_where) (auto simp: orders_wf_def)
  ultimately show ?thesis by (simp add: orders_wf_def d')
qed

section \<open>The operations as one step function\<close>

text \<open>An operation that returns an error leaves the table as it was (one statement or a rollback).\<close>

datatype order_op =
    Op_upsert real_order
  | Op_backfill string string string string
  | Op_send_failed string string
  | Op_reset string string
  | Op_advance string string string
  | Op_monotonic string string string
  | Op_report real_order
  | Op_sweep string string string

fun order_step :: "db \<Rightarrow> order_op \<Rightarrow> db" where
  "order_step d (Op_upsert n) = (case UpsertRealOrder d n of Inl _ \<Rightarrow> d | Inr (_, d') \<Rightarrow> d')"
| "order_step d (Op_backfill u s i st) = (case UpdateRealOrderBySignalID d u s i st of Inl _ \<Rightarrow> d | Inr d' \<Rightarrow> d')"
| "order_step d (Op_send_failed u s) = (case MarkRealOrderSendFailed d u s of Inl _ \<Rightarrow> d | Inr d' \<Rightarrow> d')"
| "order_step d (Op_reset u s) = (case ResetFailedRealOrder d u s of Inl _ \<Rightarrow> d | Inr (_, d') \<Rightarrow> d')"
| "order_step d (Op_advance u s st) = (case AdvanceRealOrderStatus d u s st of Inl _ \<Rightarrow> d | Inr (_, d') \<Rightarrow> d')"
| "order_step d (Op_monotonic u i st) =
     (case UpdateRealOrderStatusMonotonic d u i st of Inl _ \<Rightarrow> d | Inr (_, d') \<Rightarrow> d')"
| "order_step d (Op_report n) = (case ApplyOrderReportTx d n of Inl _ \<Rightarrow> d | Inr (_, d') \<Rightarrow> d')"
| "order_step d (Op_sweep u day m) = (case SweepStaleBuyOrders d u day m of Inl _ \<Rightarrow> d | Inr (_, d') \<Rightarrow> d')"

lemmas order_op_defs = UpsertRealOrder_def UpdateRealOrderBySignalID_def MarkRealOrderSendFailed_def
  ResetFailedRealOrder_def AdvanceRealOrderStatus_def UpdateRealOrderStatusMonotonic_def
  ApplyOrderReportTx_def SweepStaleBuyOrders_def

lemma order_step_wf:
  assumes wf: "orders_wf (orders d)"
  shows "orders_wf (orders (order_step d op))"
proof (cases op)
  case (Op_upsert n)
  then show ?thesis
    using wf_insert [OF wf, of "stamp_order n"] wf
    by (auto simp: UpsertRealOrder_def split: prod.splits)
next
  case (Op_backfill u s i st)
  then show ?thesis
    using wf wf_set_order_id [OF _ wf, of "by_signal u s" i st] by_signal_unique [OF wf]
    by (auto simp: UpdateRealOrderBySignalID_def split: option.splits sum.splits)
next
  case (Op_reset u s)
  have "orders_wf (orders d')" if "set_order_id (retry_eligible d u s) i st d = Inr d'" for i st d'
    using that wf by_signal_unique [OF wf] by (rule wf_set_order_id) (auto simp: retry_eligible_def)
  with wf Op_reset show ?thesis
    by (auto simp: ResetFailedRealOrder_def Let_def split: option.splits sum.splits)
next
  case (Op_report n)
  then show ?thesis
    using wf_insert [OF wf, of "stamp_order n"] wf
    by (auto simp: ApplyOrderReportTx_def Let_def split: option.splits prod.splits bool.splits)
qed (use wf in \<open>auto simp: order_op_defs Let_def split: option.splits\<close>)

text \<open>
  Reports (everything the report thread, the backfill and the sweep do) never lower the rank of an
  order. \<open>order_level\<close> is the rank of the row of a signal, 0 when there is none.
\<close>

definition status_of :: "db \<Rightarrow> string \<times> string \<Rightarrow> string option" where
  "status_of d k = map_option o_Status (find (by_signal (fst k) (snd k)) (orders d))"

definition order_level :: "db \<Rightarrow> string \<times> string \<Rightarrow> int" where
  "order_level d k = (case status_of d k of None \<Rightarrow> 0 | Some st \<Rightarrow> orderStatusRank st)"

fun is_report :: "order_op \<Rightarrow> bool" where
  "is_report (Op_send_failed _ _) = False"
| "is_report (Op_reset _ _) = False"
| "is_report _ = True"

definition report_step :: "db \<Rightarrow> order_op \<Rightarrow> db" where
  "report_step d op = (if is_report op then order_step d op else d)"

lemma find_update_where:
  "(\<And>r. Q (f r) = Q r) \<Longrightarrow>
    find Q (update_where P f rows) = map_option (\<lambda>r. if P r then f r else r) (find Q rows)"
  by (induction rows) (auto simp: update_where_def)

lemma find_insert_or_ignore:
  "find Q rows = Some r \<Longrightarrow> find Q (snd (insert_or_ignore n rows)) = Some r"
  by (induction rows) (auto simp: insert_or_ignore_def split: if_splits)

lemma level_update:
  assumes "\<And>r. o_SignalID (f r) = o_SignalID r \<and> o_UserID (f r) = o_UserID r"
    and "\<And>r. r \<in> set (orders d) \<Longrightarrow> P r \<Longrightarrow> orderStatusRank (o_Status r) \<le> orderStatusRank (o_Status (f r))"
  shows "order_level d k \<le> order_level (d\<lparr>orders := update_where P f (orders d)\<rparr>) k"
proof (cases "find (by_signal (fst k) (snd k)) (orders d)")
  case None
  then show ?thesis
    using rank_range(1) by (auto simp: order_level_def status_of_def intro: order.trans [of _ 1] split: option.splits)
next
  case (Some r)
  have "by_signal (fst k) (snd k) (f s) = by_signal (fst k) (snd k) s" for s
    using assms(1) by (simp add: by_signal_def)
  then show ?thesis
    using assms(2) [of r] Some find_SomeD [OF Some] by (simp add: order_level_def status_of_def find_update_where)
qed

lemma level_insert: "order_level d k \<le> order_level (d\<lparr>orders := snd (insert_or_ignore n (orders d))\<rparr>) k"
proof (cases "find (by_signal (fst k) (snd k)) (orders d)")
  case None
  then show ?thesis
    using rank_range(1) by (auto simp: order_level_def status_of_def intro: order.trans [of _ 1] split: option.splits)
qed (simp add: order_level_def status_of_def find_insert_or_ignore)

lemma level_set_status:
  assumes "\<And>r. r \<in> set (orders d) \<Longrightarrow> P r \<Longrightarrow> orderStatusRank (o_Status r) \<le> orderStatusRank st"
  shows "order_level d k \<le> order_level (set_status P st d) k"
  unfolding set_status_def by (rule level_update) (use assms in auto)

lemma found_rank:
  assumes "orders_wf (orders d)" "find P (orders d) = Some r"
    and "\<And>s. s \<in> set (orders d) \<Longrightarrow> P s \<Longrightarrow> s = r"
    and "orderStatusRank (o_Status r) \<le> n" "s \<in> set (orders d)" "P s"
  shows "orderStatusRank (o_Status s) \<le> n"
  using assms(3) [OF assms(5,6)] assms(4) by simp

lemma report_step_level:
  assumes wf: "orders_wf (orders d)"
  shows "order_level d k \<le> order_level (report_step d op) k"
proof (cases op)
  case (Op_upsert n)
  then show ?thesis
    using level_insert [of d k "stamp_order n"]
    by (auto simp: report_step_def UpsertRealOrder_def split: prod.splits)
next
  case (Op_backfill u s i st)
  have *: "order_level d k \<le> order_level d' k"
    if "find (by_signal u s) (orders d) = Some r" "\<not> orderStatusRank st < orderStatusRank (o_Status r)"
      "set_order_id (by_signal u s) i st d = Inr d'" for r d'
  proof -
    have "d' = d\<lparr>orders := update_where (by_signal u s) (\<lambda>r. r\<lparr>o_OrderID := i, o_Status := st\<rparr>) (orders d)\<rparr>"
      using that(3) by (auto simp: set_order_id_def split: if_splits)
    then show ?thesis
      using that(1,2) find_SomeD [OF that(1)] by_signal_unique [OF wf]
      by (auto intro!: level_update) (metis linorder_not_less)
  qed
  then show ?thesis using Op_backfill
    by (auto simp: report_step_def UpdateRealOrderBySignalID_def split: option.splits sum.splits)
next
  case (Op_advance u s st)
  have "order_level d k \<le> order_level (set_status (by_signal u s) st d) k"
    if "find (by_signal u s) (orders d) = Some r" "\<not> orderStatusRank st \<le> orderStatusRank (o_Status r)" for r
    using that find_SomeD [OF that(1)] by_signal_unique [OF wf]
    by (intro level_set_status) (metis linorder_le_cases)
  then show ?thesis using Op_advance
    by (auto simp: report_step_def AdvanceRealOrderStatus_def split: option.splits)
next
  case (Op_monotonic u i st)
  have "order_level d k \<le> order_level (set_status (by_order_id u i) st d) k"
    if "find (by_order_id u i) (orders d) = Some r" "\<not> orderStatusRank st \<le> orderStatusRank (o_Status r)" for r
    using that find_SomeD [OF that(1)] by_order_id_unique [OF wf]
    by (intro level_set_status) (metis linorder_le_cases)
  then show ?thesis using Op_monotonic
    by (auto simp: report_step_def UpdateRealOrderStatusMonotonic_def split: option.splits)
next
  case (Op_report n)
  let ?P = "by_signal (o_UserID (stamp_order n)) (o_SignalID (stamp_order n))"
  have "order_level d k \<le> order_level (set_status ?P st d) k"
    if "find ?P (orders d) = Some r" "\<not> orderStatusRank st \<le> orderStatusRank (o_Status r)" for r st
    using that find_SomeD [OF that(1)] by_signal_unique [OF wf]
    by (intro level_set_status) (metis linorder_le_cases)
  then show ?thesis using Op_report level_insert [of d k "stamp_order n"]
    by (auto simp: report_step_def ApplyOrderReportTx_def Let_def split: option.splits prod.splits bool.splits)
next
  case (Op_sweep u day m)
  have "order_level d k \<le> order_level (set_status (stale_buy u m' day) st_void d) k" for m'
    by (rule level_set_status) (simp add: rank_range)
  then show ?thesis using Op_sweep
    by (auto simp: report_step_def SweepStaleBuyOrders_def Let_def)
qed (simp_all add: report_step_def)

lemma report_step_wf: "orders_wf (orders d) \<Longrightarrow> orders_wf (orders (report_step d op))"
  by (simp add: report_step_def order_step_wf)

interpretation order_book: invariant_system order_step "\<lambda>d. orders_wf (orders d)"
  by unfold_locales (rule order_step_wf)

interpretation order_reports: progress_system report_step "\<lambda>d. orders_wf (orders d)" order_level
  by unfold_locales (simp_all add: report_step_wf report_step_level)


section \<open>Properties\<close>

lemma empty_orders_wf: "orders_wf (orders (empty_db down sm))"
  by (simp add: empty_db_def orders_wf_def)

lemma reachable_orders_wf: "orders_wf (orders (foldl order_step (empty_db down sm) ops))"
  by (rule order_book.inv_run) (rule empty_orders_wf)

text \<open>whatever sequence of placeholder inserts, backfills, downgrades, retries, reports and
  sweeps runs on a fresh database, no two orders share a broker number and no two orders share a user and a
  signal. The unique keys that make an order at most once per signal hold at every moment.\<close>

theorem order_keys_unique: "orders_wf (orders (foldl order_step (empty_db down sm) ops))"
  by (rule order_book.inv_run) (rule empty_orders_wf)

text \<open>C2: from any reachable state of the table, reports, backfills, sweeps and duplicate
  inserts in any order never take an order back to a status of lower rank; only the explicit downgrade
  after a failed send and the explicit retry do.\<close>

theorem order_status_monotone:
  "let d = foldl order_step (empty_db down sm) ops
   in order_level d k \<le> order_level (foldl report_step d reports) k"
  unfolding Let_def by (rule order_reports.level_run) (rule reachable_orders_wf)

lemma status_final_step:
  assumes wf: "orders_wf (orders d)" and st: "status_of d k = Some st" "terminal st"
    and op: "is_report op" "\<forall>u s i x. op \<noteq> Op_backfill u s i x"
  shows "status_of (order_step d op) k = Some st"
proof -
  obtain r where r: "find (by_signal (fst k) (snd k)) (orders d) = Some r" "o_Status r = st"
    using st(1) by (auto simp: status_of_def)
  have keep: "status_of (set_status P x d) k = Some st" if "\<not> P r" for P x
  proof -
    have "by_signal (fst k) (snd k) (o'\<lparr>o_Status := x\<rparr>) = by_signal (fst k) (snd k) o'" for o'
      by (simp add: by_signal_def)
    then show ?thesis using r that by (simp add: status_of_def set_status_def find_update_where)
  qed
  have rank: "\<not> orderStatusRank x \<le> orderStatusRank (o_Status q) \<Longrightarrow> q \<noteq> r" for x q
    using r(2) st(2) rank_6_iff [of st] rank_range(2) [of x] by auto
  have rin: "r \<in> set (orders d)" using find_SomeD [OF r(1)] by simp
  have ins: "status_of (d\<lparr>orders := snd (insert_or_ignore n (orders d))\<rparr>) k = Some st" for n
    using r by (simp add: status_of_def find_insert_or_ignore)
  show ?thesis
  proof (cases op)
    case (Op_upsert n)
    then show ?thesis using ins [of "stamp_order n"] st(1) by (auto simp: UpsertRealOrder_def split: prod.splits)
  next
    case (Op_advance u s x)
    have "\<not> by_signal u s r" if "find (by_signal u s) (orders d) = Some q" "q \<noteq> r" for q
      using that by_signal_unique [OF wf rin] find_SomeD [OF that(1)] by metis
    then show ?thesis using Op_advance st(1) keep rank
      by (auto simp: AdvanceRealOrderStatus_def split: option.splits)
  next
    case (Op_monotonic u i x)
    have "\<not> by_order_id u i r" if "find (by_order_id u i) (orders d) = Some q" "q \<noteq> r" for q
      using that by_order_id_unique [OF wf rin] find_SomeD [OF that(1)] by metis
    then show ?thesis using Op_monotonic st(1) keep rank
      by (auto simp: UpdateRealOrderStatusMonotonic_def split: option.splits)
  next
    case (Op_report n)
    have "\<not> by_signal u s r" if "find (by_signal u s) (orders d) = Some q" "q \<noteq> r" for q u s
      using that by_signal_unique [OF wf rin] find_SomeD [OF that(1)] by metis
    then show ?thesis using Op_report st(1) keep rank ins [of "stamp_order n"]
      by (auto simp: ApplyOrderReportTx_def Let_def split: option.splits prod.splits bool.splits)
  next
    case (Op_sweep u day m)
    have "\<not> stale_buy u m' day r" for m'
      using st(2) r(2) by (auto simp: stale_buy_def terminal_def status_defs)
    then show ?thesis using Op_sweep st(1) keep by (auto simp: SweepStaleBuyOrders_def Let_def)
  qed (use op in auto)
qed

text \<open>C3: an order that is filled, cancelled, partly cancelled or void keeps exactly that
  status under every later report, sweep and duplicate insert: late or reordered reports are absorbed.\<close>

theorem order_terminal_final:
  assumes "orders_wf (orders d)" "status_of d k = Some st" "terminal st"
    and "\<forall>op \<in> set ops. is_report op \<and> (\<forall>u s i x. op \<noteq> Op_backfill u s i x)"
  shows "status_of (foldl order_step d ops) k = Some st"
  using assms
proof (induction ops arbitrary: d)
  case (Cons op ops)
  then show ?case
    using order_step_wf [of d op] status_final_step [of d k st op] by simp
qed simp



text \<open>What a retry that finds a row does to the table.\<close>

lemma retry_unique:
  assumes "orders_wf (orders d)" "find (retry_eligible d u s) (orders d) = Some r"
  shows "\<And>q. q \<in> set (orders d) \<Longrightarrow> retry_eligible d u s q \<longleftrightarrow> q = r"
  using find_SomeD [OF assms(2)] by_signal_unique [OF assms(1)] unfolding retry_eligible_def by metis

lemma update_single:
  "(\<And>q. q \<in> set rows \<Longrightarrow> P q \<longleftrightarrow> q = r) \<Longrightarrow> update_where P f rows = map (\<lambda>q. if q = r then f r else q) rows"
  by (auto simp: update_where_def)

lemma ResetE:
  assumes "ResetFailedRealOrder d u s = Inr (True, d')" "orders_wf (orders d)"
  obtains r where "find (by_signal u s) (orders d) = Some r" "retry_eligible d u s r"
    "d' = d\<lparr>orders := map (\<lambda>q. if q = r then r\<lparr>o_OrderID := ''pend:'' @ s @ '':'' @ itoa (next_attempt s (o_OrderID r)),
                                                o_Status := st_reported\<rparr> else q) (orders d)\<rparr>"
proof -
  obtain r where f: "find (retry_eligible d u s) (orders d) = Some r"
    and d': "set_order_id (retry_eligible d u s) (''pend:'' @ s @ '':'' @ itoa (next_attempt s (o_OrderID r))) st_reported d = Inr d'"
    using assms(1) by (auto simp: ResetFailedRealOrder_def Let_def split: if_splits option.splits sum.splits)
  have r: "r \<in> set (orders d)" "retry_eligible d u s r" using find_SomeD [OF f] by auto
  have fr: "find (by_signal u s) (orders d) = Some r"
    using assms(2) r by (intro find_unique [where k = o_OrderID])
      (auto simp: orders_wf_def retry_eligible_def dest: by_signal_unique [OF assms(2)])
  have U: "update_where (retry_eligible d u s) g (orders d) = map (\<lambda>q. if q = r then g r else q) (orders d)" for g
    by (rule update_single) (rule retry_unique [OF assms(2) f])
  have "d' = d\<lparr>orders := update_where (retry_eligible d u s)
      (\<lambda>q. q\<lparr>o_OrderID := ''pend:'' @ s @ '':'' @ itoa (next_attempt s (o_OrderID r)), o_Status := st_reported\<rparr>) (orders d)\<rparr>"
    using d' unfolding set_order_id_def by (simp only: sum.inject sum.distinct split: if_splits)
  then have "d' = d\<lparr>orders := map (\<lambda>q. if q = r then r\<lparr>o_OrderID := ''pend:'' @ s @ '':'' @ itoa (next_attempt s (o_OrderID r)),
                                                o_Status := st_reported\<rparr> else q) (orders d)\<rparr>"
    by (simp only: U)
  then show ?thesis using fr r(2) that by blast
qed

text \<open>C4: a retry that is granted reuses exactly the row of that user and signal, and only if its
  last send failed or it was cancelled without any fill; a filled, partly cancelled, void or still open
  order is never released for a second send. The row becomes a fresh placeholder and no other row changes.\<close>

theorem retry_only_unfilled:
  assumes "orders_wf (orders d)" "ResetFailedRealOrder d u s = Inr (True, d')"
  shows "\<exists>r. find (by_signal u s) (orders d) = Some r \<and>
      (o_Status r = st_send_failed \<or> o_Status r = st_cancelled) \<and>
      (o_Status r = st_cancelled \<longrightarrow>
         (\<forall>f \<in> set (fills d). f_UserID f = u \<longrightarrow> \<not> sql_like (s @ ''%'') (f_SignalID f))) \<and>
      orders d' = map (\<lambda>q. if q = r then r\<lparr>o_OrderID := ''pend:'' @ s @ '':'' @ itoa (next_attempt s (o_OrderID r)),
                                            o_Status := st_reported\<rparr> else q) (orders d) \<and>
      fills d' = fills d"
proof -
  obtain r where "find (by_signal u s) (orders d) = Some r" "retry_eligible d u s r"
    "d' = d\<lparr>orders := map (\<lambda>q. if q = r then r\<lparr>o_OrderID := ''pend:'' @ s @ '':'' @ itoa (next_attempt s (o_OrderID r)),
                                                o_Status := st_reported\<rparr> else q) (orders d)\<rparr>"
    using ResetE [OF assms(2,1)] .
  then show ?thesis
    by (auto simp: retry_eligible_def has_fill_def by_signal_def list_ex_iff status_defs)
qed

lemma next_attempt_Suc: "0 < n \<Longrightarrow> n < 2 ^ 63 - 1 \<Longrightarrow> next_attempt s (''pend:'' @ s @ '':'' @ itoa n) = n + 1"
  by (simp add: next_attempt_def Let_def has_prefix_def trim_prefix_def atoi_itoa wrap64_id)

lemma next_attempt_first: "next_attempt s (''pend:'' @ s) = 1"
  by (simp add: next_attempt_def has_prefix_def)

text \<open>One failed send followed by a retry, and its iteration.\<close>

definition retry_cycle :: "string \<Rightarrow> string \<Rightarrow> db \<Rightarrow> db" where
  "retry_cycle u s d = foldl order_step d [Op_send_failed u s, Op_reset u s]"

definition attempt_id :: "string \<Rightarrow> nat \<Rightarrow> string" where
  "attempt_id s k = ''pend:'' @ s @ (if k = 0 then [] else CHR '':'' # itoa (int k))"

lemma next_attempt_id: "int k < 2 ^ 63 - 1 \<Longrightarrow> next_attempt s (attempt_id s k) = int (Suc k)"
proof (cases "k = 0")
  case True
  then show ?thesis using next_attempt_first [of s] by (simp add: attempt_id_def)
next
  case False
  assume k: "int k < 2 ^ 63 - 1"
  have "attempt_id s k = ''pend:'' @ s @ '':'' @ itoa (int k)"
    using False by (simp add: attempt_id_def)
  moreover have "next_attempt s (''pend:'' @ s @ '':'' @ itoa (int k)) = int k + 1"
    by (rule next_attempt_Suc) (use False k in simp_all)
  ultimately show ?thesis by (simp only: of_nat_Suc add.commute)
qed

lemma itoa_inj:
  assumes "itoa m = itoa n" "- (2 ^ 63) \<le> m" "m < 2 ^ 63" "- (2 ^ 63) \<le> n" "n < 2 ^ 63"
  shows "m = n"
  by (metis assms atoi_itoa option.inject)

lemma itoa_nonempty [simp]: "itoa n \<noteq> []"
  by (simp add: itoa_def)



definition pending_attempt :: "db \<Rightarrow> string \<Rightarrow> string \<Rightarrow> nat \<Rightarrow> bool" where
  "pending_attempt d u s k \<longleftrightarrow> orders_wf (orders d) \<and>
     (\<exists>r. find (by_signal u s) (orders d) = Some r \<and> o_Status r = st_reported \<and> o_OrderID r = attempt_id s k) \<and>
     (\<forall>q \<in> set (orders d). \<not> by_signal u s q \<longrightarrow> (\<forall>n. o_OrderID q \<noteq> attempt_id s n))"

lemma by_signal_upd [simp]:
  "by_signal u s (r\<lparr>o_Status := x\<rparr>) = by_signal u s r"
  "by_signal u s (r\<lparr>o_OrderID := i, o_Status := x\<rparr>) = by_signal u s r"
  by (simp_all add: by_signal_def)

lemma pending_step:
  assumes p: "pending_attempt d u s k" and k: "int k < 2 ^ 63 - 1"
    and up: "\<not> db_down d T_orders" "\<not> db_down d T_fills"
  shows "pending_attempt (retry_cycle u s d) u s (Suc k) \<and> db_down (retry_cycle u s d) = db_down d"
proof -
  let ?P = "\<lambda>r. by_signal u s r \<and> o_Status r = st_reported" and ?f = "\<lambda>r. r\<lparr>o_Status := st_send_failed\<rparr>"
  let ?id = "attempt_id s (Suc k)"
  let ?g = "\<lambda>q. q\<lparr>o_OrderID := ?id, o_Status := st_reported\<rparr>"
  obtain r where r: "find (by_signal u s) (orders d) = Some r" "o_Status r = st_reported" "o_OrderID r = attempt_id s k"
    and wf: "orders_wf (orders d)"
    and fresh: "\<And>q n. q \<in> set (orders d) \<Longrightarrow> \<not> by_signal u s q \<Longrightarrow> o_OrderID q \<noteq> attempt_id s n"
    using p by (auto simp: pending_attempt_def)
  define d1 where "d1 = d\<lparr>orders := update_where ?P ?f (orders d)\<rparr>"
  have s1: "order_step d (Op_send_failed u s) = d1" using up by (simp add: MarkRealOrderSendFailed_def d1_def)
  have wf1: "orders_wf (orders d1)" using order_step_wf [OF wf] s1 by metis
  have f1: "find (by_signal u s) (orders d1) = Some (?f r)"
    using r find_SomeD [OF r(1)] by (simp add: d1_def find_update_where)
  have fresh1: "o_OrderID q \<noteq> attempt_id s n" if "q \<in> set (orders d1)" "\<not> by_signal u s q" for q n
    using that fresh by (auto simp: d1_def set_update_where)
  have el: "retry_eligible d1 u s q \<longleftrightarrow> q = ?f r" if "q \<in> set (orders d1)" for q
  proof
    assume "retry_eligible d1 u s q"
    then have "by_signal u s q" by (simp add: retry_eligible_def)
    then show "q = ?f r" using by_signal_unique [OF wf1 that] find_SomeD [OF f1] by blast
  next
    assume "q = ?f r"
    then show "retry_eligible d1 u s q" using find_SomeD [OF f1] by (simp add: retry_eligible_def)
  qed
  have fe: "find (retry_eligible d1 u s) (orders d1) = Some (?f r)"
  proof (rule find_unique [where k = o_OrderID])
    show "distinct (map o_OrderID (orders d1))" using wf1 by (simp add: orders_wf_def)
    show in1: "?f r \<in> set (orders d1)" using find_SomeD [OF f1] by blast
    show "retry_eligible d1 u s (?f r)" using el [OF in1] by blast
    show "o_OrderID y = o_OrderID (?f r)" if "y \<in> set (orders d1)" "retry_eligible d1 u s y" for y
      using el [OF that(1)] that(2) by metis
  qed
  have nid: "''pend:'' @ s @ '':'' @ itoa (next_attempt s (o_OrderID (?f r))) = ?id"
    using next_attempt_id [OF k, of s] by (simp add: r(3) attempt_id_def)
  have "\<not> list_ex (\<lambda>q. o_OrderID q = ?id \<and> \<not> retry_eligible d1 u s q) (orders d1)"
    using el fresh1 by_signal_unique [OF wf1] find_SomeD [OF f1] unfolding list_ex_iff by metis
  then have so: "set_order_id (retry_eligible d1 u s) ?id st_reported d1
      = Inr (d1\<lparr>orders := update_where (retry_eligible d1 u s) ?g (orders d1)\<rparr>)"
    by (simp add: set_order_id_def)
  have up1: "\<not> db_down d1 T_orders" "\<not> db_down d1 T_fills" using up by (simp_all add: d1_def)
  have rs: "ResetFailedRealOrder d1 u s = Inr (True, d1\<lparr>orders := update_where (retry_eligible d1 u s) ?g (orders d1)\<rparr>)"
    unfolding ResetFailedRealOrder_def fe Let_def option.case nid so using up1 by simp
  have s2: "retry_cycle u s d = d1\<lparr>orders := update_where (retry_eligible d1 u s) ?g (orders d1)\<rparr>"
    by (simp only: retry_cycle_def foldl.simps s1 order_step.simps(4) rs sum.case prod.case)
  have "orders_wf (orders (retry_cycle u s d))"
    unfolding retry_cycle_def by (rule order_book.inv_run [OF wf])
  moreover have "find (by_signal u s) (orders (retry_cycle u s d)) = Some (?g (?f r))"
  proof -
    have Q: "by_signal u s (?g q) = by_signal u s q" for q by (simp add: by_signal_def)
    show ?thesis
      using f1 find_SomeD [OF fe] by (simp add: s2 find_update_where [of "by_signal u s" ?g, OF Q])
  qed
  moreover have "o_OrderID q \<noteq> attempt_id s n" if q: "q \<in> set (orders (retry_cycle u s d))" "\<not> by_signal u s q" for q n
  proof -
    obtain p where p: "p \<in> set (orders d1)" "q = (if retry_eligible d1 u s p then ?g p else p)"
      using q(1) unfolding s2 by (auto simp: set_update_where)
    moreover have "\<not> retry_eligible d1 u s p"
      using q(2) p(2) by (cases "retry_eligible d1 u s p") (simp_all add: retry_eligible_def by_signal_def)
    ultimately show ?thesis using fresh1 q(2) by simp
  qed
  moreover have "db_down (retry_cycle u s d) = db_down d" by (simp add: s2 d1_def)
  ultimately show ?thesis unfolding pending_attempt_def by simp
qed

text \<open>C5: after \<open>n\<close> rounds of a failed send followed by a granted retry the order stands under the
  placeholder number \<open>pend:<signal>:<n>\<close>, for every \<open>n\<close> an \<open>int64\<close> counts: the attempt counter is
  read back from the number exactly, so no retry reuses an idempotency number of an earlier attempt.\<close>

theorem retry_ids_fresh:
  assumes "pending_attempt d u s 0" "\<not> db_down d T_orders" "\<not> db_down d T_fills" "int n < 2 ^ 63"
  shows "\<exists>r. find (by_signal u s) (orders ((retry_cycle u s ^^ n) d)) = Some r \<and>
      o_OrderID r = attempt_id s n \<and> o_Status r = st_reported"
proof -
  have "pending_attempt ((retry_cycle u s ^^ m) d) u s m \<and> db_down ((retry_cycle u s ^^ m) d) = db_down d" if "m \<le> n" for m
    using that
  proof (induction m)
    case (Suc m)
    then have "int m < 2 ^ 63 - 1" using assms(4) by simp
    then show ?case using Suc pending_step [of "(retry_cycle u s ^^ m) d" u s m] assms(2,3) by simp
  qed (use assms(1) in simp)
  then show ?thesis by (auto simp: pending_attempt_def)
qed

text \<open>the daily sweep turns an order into \<open>void\<close> exactly when it is an open buy (or
  cover) of that user and market placed on an earlier calendar day; the comparison of dates as text is
  the comparison of days. Orders of the day, sells and other users' orders keep their status.\<close>

theorem sweep_voids_earlier_days:
  assumes "SweepStaleBuyOrders d u (format_day today) m = Inr (n, d')" "m \<noteq> []"
    and "r \<in> set (orders d)" "substr10 (o_CreatedAt r) = format_day placed"
    and "four_digit_year today" "four_digit_year placed"
  shows "(if o_UserID r = u \<and> o_Market r = m \<and> (o_Side r = SideBuy \<or> o_Side r = SideShortCover) \<and>
             (o_Status r = st_reported \<or> o_Status r = st_partial) \<and> placed < today
          then r\<lparr>o_Status := st_void\<rparr> else r) \<in> set (orders d')"
proof -
  have ne: "format_day x \<noteq> []" for x by (simp add: format_day_def split: prod.splits)
  have "d' = set_status (stale_buy u m (format_day today)) st_void d"
    using assms(1,2) ne by (auto simp: SweepStaleBuyOrders_def split: if_splits)
  moreover have "stale_buy u m (format_day today) r \<longleftrightarrow> o_UserID r = u \<and> o_Market r = m \<and>
      (o_Side r = SideBuy \<or> o_Side r = SideShortCover) \<and> (o_Status r = st_reported \<or> o_Status r = st_partial) \<and> placed < today"
    using assms(4,5,6) ne by (auto simp: stale_buy_def format_day_less)
  ultimately show ?thesis
    using assms(3) by (auto simp: set_status_def set_update_where image_iff)
qed


section \<open>Witnesses\<close>

definition sample_order :: "string \<Rightarrow> string \<Rightarrow> real_order" where
  "sample_order oid st = \<lparr>o_OrderID = oid, o_SignalID = ''S1'', o_Code = ''600000.SH'', o_Side = SideBuy,
     o_Status = st, o_Price = Fin 10, o_Qty = Fin 100, o_CreatedAt = ''2024-03-01 10:00:00'',
     o_UserID = ''u1'', o_Market = CN, o_Currency = ''CNY''\<rparr>"

definition sample_orders :: "real_order list \<Rightarrow> db" where
  "sample_orders rows = (empty_db (\<lambda>_. False) (\<lambda>_. 0))\<lparr>orders := rows\<rparr>"

lemmas sample_order_defs = sample_order_def sample_orders_def empty_db_def

theorem order_terminal_final_witness:
  "status_of (foldl order_step (sample_orders [sample_order ''9'' st_filled])
     [Op_advance ''u1'' ''S1'' st_reported, Op_sweep ''u1'' ''2024-03-02'' ''CN'']) (''u1'', ''S1'') = Some st_filled"
  by (rule order_terminal_final)
    (simp_all add: sample_order_defs orders_wf_def status_of_def by_signal_def terminal_def)

theorem retry_only_unfilled_witness:
  "\<exists>r. find (by_signal ''u1'' ''S1'') (orders (sample_orders [sample_order ''pend:S1'' st_send_failed])) = Some r \<and>
      (o_Status r = st_send_failed \<or> o_Status r = st_cancelled)"
  using retry_only_unfilled [of "sample_orders [sample_order ''pend:S1'' st_send_failed]" "''u1''" "''S1''"
      "sample_orders [sample_order ''pend:S1:1'' st_reported]"]
  by (simp add: sample_order_defs orders_wf_def ResetFailedRealOrder_def retry_eligible_def by_signal_def
      set_order_id_def update_where_def Let_def next_attempt_def has_prefix_def itoa_def nat_digits.simps)

theorem retry_ids_fresh_witness:
  "\<exists>r. find (by_signal ''u1'' ''S1'')
        (orders ((retry_cycle ''u1'' ''S1'' ^^ 3) (sample_orders [sample_order ''pend:S1'' st_reported]))) = Some r \<and>
      o_OrderID r = attempt_id ''S1'' 3 \<and> o_Status r = st_reported"
  by (rule retry_ids_fresh)
    (simp_all add: sample_order_defs pending_attempt_def orders_wf_def by_signal_def attempt_id_def)

theorem sweep_voids_earlier_days_witness:
  "sample_order ''9'' st_void \<in> set (orders (sample_orders [sample_order ''9'' st_void]))"
proof -
  have days: "format_day 19783 = ''2024-03-01''" "format_day 19790 = ''2024-03-08''"
    "four_digit_year 19783" "four_digit_year 19790"
    by code_simp+
  show ?thesis
    using sweep_voids_earlier_days [of "sample_orders [sample_order ''9'' st_reported]" "''u1''" 19790 CN 1
        "sample_orders [sample_order ''9'' st_void]" "sample_order ''9'' st_reported" 19783]
    unfolding days
    by (simp add: sample_order_defs SweepStaleBuyOrders_def stale_buy_def set_status_def update_where_def days)
qed

end
