(* ===== verification/PositionBook.thy ===== *)
theory PositionBook
  imports LedgerTables Interfaces
begin

text \<open>
  The \<open>real_positions\<close>, \<open>fills\<close> and \<open>funding_fees\<close> tables: applying a fill
  (\<open>ApplyRealFill\<close>), reconciling with a broker snapshot (\<open>ReconcilePositionsForUser\<close> and the older
  \<open>UpsertRealPositions\<close>) and booking a funding fee (\<open>AddPositionFundingFee\<close>), from
  \<open>internal/store/real_positions.go\<close> and \<open>internal/store/funding_fees.go\<close>. Positions are one-way: a
  row per market, code and owner, long or short. An owner of \<open>''\<close> marks a legacy row that
  everybody sees and the first writer with an owner claims.
\<close>

definition long_side :: string where "long_side = ''long''"
definition short_side :: string where "short_side = ''short''"

definition pos_key :: "real_position \<Rightarrow> string \<times> string \<times> string" where
  "pos_key p = (p_Market p, p_TsCode p, p_UserID p)"

text \<open>\<open>WHERE market=? AND ts_code=? AND (user_id='' OR user_id=?)\<close>\<close>

definition visible :: "string \<Rightarrow> string \<Rightarrow> string \<Rightarrow> real_position \<Rightarrow> bool" where
  "visible market code userID p \<longleftrightarrow> p_Market p = market \<and> p_TsCode p = code \<and> (p_UserID p = [] \<or> p_UserID p = userID)"

text \<open>
  \<open>UPDATE real_positions SET user_id=? WHERE market=? AND ts_code=? AND user_id=''\<close>: it fails on
  the primary key when the owner already has a row of that code.
\<close>

definition claim_legacy :: "db \<Rightarrow> string \<Rightarrow> string \<Rightarrow> string \<Rightarrow> db res" where
  "claim_legacy d userID market code =
     (if userID = [] then Inr d
      else if db_down d T_positions then Inl (DbFailed T_positions)
      else let legacy = (\<lambda>p. pos_key p = (market, code, []))
           in if list_ex legacy (positions d) \<and> list_ex (\<lambda>p. pos_key p = (market, code, userID)) (positions d)
              then Inl (UniqueViolation T_positions)
              else Inr (d\<lparr>positions := update_where legacy (\<lambda>p. p\<lparr>p_UserID := userID\<rparr>) (positions d)\<rparr>))"

definition buyDateOf :: "string \<Rightarrow> string" where
  "buyDateOf tradedAt = (if tradedAt = [] then [] else if 10 \<le> length tradedAt then take 10 tradedAt else tradedAt)"

section \<open>Applying a fill\<close>

definition stamp_fill :: "real_fill \<Rightarrow> real_fill" where
  "stamp_fill f = (let m = normalize_market (f_Market f)
     in f\<lparr>f_Market := m, f_Currency := (if f_Currency f = [] then default_currency m else f_Currency f)\<rparr>)"

text \<open>The row a first opening fill creates; the fee is part of the cost.\<close>

definition opened_position :: "string \<Rightarrow> string \<Rightarrow> real_fill \<Rightarrow> real_position" where
  "opened_position now openSide f =
     (let gross = f_Price f * f_Qty f;
          amountWithFee = (if 0 < f_Qty f then gross + f_Fee f else gross);
          cost = (if 0 < f_Qty f then amountWithFee / f_Qty f else f_Price f)
      in \<lparr>p_Market = f_Market f, p_Currency = f_Currency f, p_Side = openSide, p_TsCode = f_Code f,
          p_Name = f_Name f, p_Qty = f_Qty f, p_CostPrice = cost, p_Amount = amountWithFee,
          p_HighestPrice = f_Price f, p_Strategy = [], p_SignalID = f_SignalID f, p_UpdatedAt = now,
          p_BuyDate = buyDateOf (f_TradedAt f), p_CurPrice = 0, p_UserID = f_UserID f\<rparr>)"

definition fill_short :: "real_fill \<Rightarrow> bool" where
  "fill_short f \<longleftrightarrow> f_Side f = SideShortOpen \<or> f_Side f = SideShortCover"

definition opening_fill :: "real_fill \<Rightarrow> bool" where
  "opening_fill f \<longleftrightarrow> f_Side f = SideBuy \<or> f_Side f = SideShortOpen"

text \<open>The new quantity, cost and amount of a row \<open>p\<close> that a fill adds to or takes from.\<close>

definition grown :: "string \<Rightarrow> real_fill \<Rightarrow> real_position \<Rightarrow> string \<Rightarrow> real_position \<Rightarrow> real_position" where
  "grown now f p owner r =
     (let newQty = p_Qty p + f_Qty f;
          newCost = (if 0 < newQty then (p_Amount p + f_Price f * f_Qty f + f_Fee f) / newQty else 0);
          hi = (if p_HighestPrice p < f_Price f then f_Price f else p_HighestPrice p)
      in r\<lparr>p_Qty := newQty, p_CostPrice := newCost, p_Amount := newCost * newQty, p_HighestPrice := hi,
           p_UpdatedAt := now, p_UserID := owner, p_Name := (if p_Name r = [] then f_Name f else p_Name r)\<rparr>)"

definition shrunk :: "string \<Rightarrow> real_fill \<Rightarrow> real_position \<Rightarrow> string \<Rightarrow> real_position \<Rightarrow> real_position" where
  "shrunk now f p owner r =
     (let q = p_Qty p - f_Qty f; newQty = (if q < 0 then 0 else q)
      in r\<lparr>p_Qty := newQty, p_Amount := newQty * p_CostPrice p, p_UpdatedAt := now, p_UserID := owner\<rparr>)"

text \<open>The position part of the transaction, on a stamped fill.\<close>

definition fill_positions :: "db \<Rightarrow> string \<Rightarrow> real_fill \<Rightarrow> real_position list res" where
  "fill_positions d now f =
     (let sel = visible (f_Market f) (f_Code f) (f_UserID f)
      in case find sel (positions d) of
        None \<Rightarrow>
          if f_Side f = SideBuy then Inr (positions d @ [opened_position now long_side f])
          else if f_Side f = SideShortOpen then Inr (positions d @ [opened_position now short_side f])
          else if f_Side f = SideShortCover then Inl (NoShortToCover (f_Code f))
          else Inr (positions d)
      | Some p \<Rightarrow>
          (let owner = (if f_UserID f = [] then p_UserID p else f_UserID f)
           in if (p_Side p = short_side) \<noteq> fill_short f then Inl (SideConflict (p_Side p) (f_Side f))
              else if opening_fill f then Inr (update_where sel (grown now f p owner) (positions d))
              else Inr (update_where sel (shrunk now f p owner) (positions d))))"

text \<open>\<open>DELETE ... WHERE qty <= 0\<close> of the fill's market, own and legacy rows.\<close>

definition emptied :: "real_fill \<Rightarrow> real_position \<Rightarrow> bool" where
  "emptied f p \<longleftrightarrow> p_Qty p \<le> 0 \<and> (p_UserID p = [] \<or> p_UserID p = f_UserID f) \<and> p_Market p = f_Market f"

text \<open>The replay check: the broker's trade number, or without one the order, time, price and quantity.\<close>

definition same_fill :: "real_fill \<Rightarrow> real_fill \<Rightarrow> bool" where
  "same_fill f g \<longleftrightarrow>
     (if f_TradeID f \<noteq> [] then f_TradeID g = f_TradeID f
      else f_OrderID g = f_OrderID f \<and> f_TradedAt g = f_TradedAt f \<and> feq (f_Price g) (f_Price f) \<and> feq (f_Qty g) (f_Qty f))"

definition ApplyRealFill :: "db \<Rightarrow> string \<Rightarrow> real_fill \<Rightarrow> db res" where
  "ApplyRealFill d now f0 =
     (let f = stamp_fill f0
      in if fill_short f \<and> f_Market f \<noteq> US \<and> f_Market f \<noteq> CRYPTO then Inl (ShortSideMarket (f_Market f) (f_Side f))
         else if db_down d T_positions then Inl (DbFailed T_positions)
         else case claim_legacy d (f_UserID f) (f_Market f) (f_Code f) of
           Inl e \<Rightarrow> Inl e
         | Inr d1 \<Rightarrow>
             (case fill_positions d1 now f of
                Inl e \<Rightarrow> Inl e
              | Inr rows \<Rightarrow>
                  if db_down d T_fills then Inl (DbFailed T_fills)
                  else if list_ex (same_fill f) (fills d) then Inr d
                  else Inr (d1\<lparr>positions := delete_where (emptied f) rows,
                               fills := fills d @ [f\<lparr>f_ID := next_fill d, f_Name := []\<rparr>],
                               next_fill := next_fill d + 1\<rparr>)))"

section \<open>Reconciling with a snapshot\<close>

definition stampPositionMarket :: "real_position \<Rightarrow> string \<Rightarrow> real_position" where
  "stampPositionMarket p snapshotMarket =
     (let m = normalize_market (if p_Market p \<noteq> [] then p_Market p else snapshotMarket)
      in p\<lparr>p_Market := m, p_Currency := (if p_Currency p = [] then default_currency m else p_Currency p)\<rparr>)"

fun validate_from :: "nat \<Rightarrow> string \<Rightarrow> real_position list \<Rightarrow> store_error option" where
  "validate_from i market [] = None"
| "validate_from i market (p # ps) =
     (let m = normalize_market (if p_Market p \<noteq> [] then p_Market p else market)
      in if \<not> valid_ts_code m (p_TsCode p) then Some (InvalidPositionReport i m (p_TsCode p))
         else validate_from (Suc i) market ps)"

definition validateRealPositions :: "string \<Rightarrow> real_position list \<Rightarrow> store_error option" where
  "validateRealPositions market pos = validate_from 0 market pos"

text \<open>
  \<open>INSERT ... ON CONFLICT(market, ts_code, user_id) DO UPDATE\<close>. A new row takes the column defaults
  for side and opening date; an existing one keeps its name, strategy and (with \<open>keep_signal\<close>) signal
  when the snapshot has none, and the higher of the two highest prices.
\<close>

definition inserted_row :: "real_position \<Rightarrow> real_position" where
  "inserted_row p = p\<lparr>p_Side := long_side, p_BuyDate := [], p_CurPrice := 0\<rparr>"

definition merged_row :: "bool \<Rightarrow> real_position \<Rightarrow> real_position \<Rightarrow> real_position" where
  "merged_row keep_signal p r =
     r\<lparr>p_Name := (if p_Name p = [] then p_Name r else p_Name p),
       p_Qty := p_Qty p, p_CostPrice := p_CostPrice p, p_Amount := p_Amount p,
       p_Strategy := (if p_Strategy p = [] then p_Strategy r else p_Strategy p),
       p_SignalID := (if keep_signal then (if p_SignalID p = [] then p_SignalID r else p_SignalID p) else p_SignalID r),
       p_UpdatedAt := p_UpdatedAt p, p_Currency := p_Currency p,
       p_HighestPrice := (if p_HighestPrice r < p_HighestPrice p then p_HighestPrice p else p_HighestPrice r)\<rparr>"

definition upsert_position :: "bool \<Rightarrow> real_position \<Rightarrow> db \<Rightarrow> db" where
  "upsert_position keep_signal p d =
     (if list_ex (\<lambda>r. pos_key r = pos_key p) (positions d)
      then d\<lparr>positions := update_where (\<lambda>r. pos_key r = pos_key p) (merged_row keep_signal p) (positions d)\<rparr>
      else d\<lparr>positions := positions d @ [inserted_row p]\<rparr>)"

fun upsert_all :: "bool \<Rightarrow> real_position list \<Rightarrow> db \<Rightarrow> db res" where
  "upsert_all keep_signal [] d = Inr d"
| "upsert_all keep_signal (p # ps) d =
     (case claim_legacy d (p_UserID p) (p_Market p) (p_TsCode p) of
        Inl e \<Rightarrow> Inl e
      | Inr d1 \<Rightarrow> upsert_all keep_signal ps (upsert_position keep_signal p d1))"

text \<open>The row of the snapshot as it is written: time, owner, market and currency filled in.\<close>

definition prepared :: "string \<Rightarrow> string \<Rightarrow> string \<Rightarrow> real_position \<Rightarrow> real_position" where
  "prepared now userID market p =
     stampPositionMarket (p\<lparr>p_UpdatedAt := (if p_UpdatedAt p = [] then now else p_UpdatedAt p),
       p_UserID := (if userID \<noteq> [] then userID else p_UserID p)\<rparr>) market"

definition stale_position :: "string \<Rightarrow> string \<Rightarrow> string list \<Rightarrow> real_position \<Rightarrow> bool" where
  "stale_position userID market codes r \<longleftrightarrow>
     (if codes = [] then p_UserID r = userID \<and> p_Market r = market
      else p_Market r = market \<and> (p_UserID r = userID \<or> p_UserID r = []) \<and> p_TsCode r \<notin> set codes)"

text \<open>Without an owner nothing is claimed; with one every row is claimed and written for it.\<close>

fun reconcile_all :: "string \<Rightarrow> real_position list \<Rightarrow> db \<Rightarrow> db res" where
  "reconcile_all userID [] d = Inr d"
| "reconcile_all userID (p # ps) d =
     (case claim_legacy d userID (p_Market p) (p_TsCode p) of
        Inl e \<Rightarrow> Inl e
      | Inr d1 \<Rightarrow> reconcile_all userID ps (upsert_position True p d1))"

definition ReconcilePositionsForUser :: "db \<Rightarrow> string \<Rightarrow> string \<Rightarrow> string \<Rightarrow> real_position list \<Rightarrow> (nat \<times> db) res" where
  "ReconcilePositionsForUser d now userID market0 pos =
     (let market = normalize_market market0
      in case validateRealPositions market pos of
        Some e \<Rightarrow> Inl e
      | None \<Rightarrow>
          if db_down d T_positions then Inl (DbFailed T_positions)
          else case reconcile_all userID (map (prepared now userID market) pos) d of
            Inl e \<Rightarrow> Inl e
          | Inr d1 \<Rightarrow>
              (let rows = delete_where (stale_position userID market (map p_TsCode pos)) (positions d1)
               in Inr (length (filter (\<lambda>r. (p_UserID r = [] \<or> p_UserID r = userID) \<and> p_Market r = market) rows),
                       d1\<lparr>positions := rows\<rparr>)))"

text \<open>
  The older \<open>UpsertRealPositions\<close>: the snapshot carries the owners. Afterwards, per market of the
  snapshot, rows whose code the snapshot lacks are deleted, of the owners it names or of all when it
  names none; an empty snapshot deletes everything.
\<close>

definition snapshot_stale :: "real_position list \<Rightarrow> real_position \<Rightarrow> bool" where
  "snapshot_stale ps r \<longleftrightarrow>
     (let users = filter (\<lambda>u. u \<noteq> []) (map p_UserID ps)
      in if ps = [] then True
         else list_ex (\<lambda>p. p_Market p = p_Market r) ps \<and> (users = [] \<or> p_UserID r \<in> set users) \<and>
              \<not> list_ex (\<lambda>p. p_Market p = p_Market r \<and> p_TsCode p = p_TsCode r) ps)"

definition UpsertRealPositions :: "db \<Rightarrow> string \<Rightarrow> real_position list \<Rightarrow> (nat \<times> db) res" where
  "UpsertRealPositions d now pos =
     (case validateRealPositions [] pos of
        Some e \<Rightarrow> Inl e
      | None \<Rightarrow>
          if db_down d T_positions then Inl (DbFailed T_positions)
          else (let ps = map (\<lambda>p. prepared now [] [] p) pos
                in case upsert_all False ps d of
                     Inl e \<Rightarrow> Inl e
                   | Inr d1 \<Rightarrow>
                       (let rows = delete_where (snapshot_stale ps) (positions d1)
                        in Inr (length rows, d1\<lparr>positions := rows\<rparr>))))"

section \<open>Funding fees\<close>

definition AddPositionFundingFee ::
  "db \<Rightarrow> string \<Rightarrow> string \<Rightarrow> string \<Rightarrow> string \<Rightarrow> int \<Rightarrow> f64 \<Rightarrow> int \<Rightarrow> (bool \<times> db) res" where
  "AddPositionFundingFee d now userID market0 tsCode tranID amount incomeTime =
     (let market = normalize_market market0; sel = visible market tsCode userID
      in if tranID = 0 then Inl MissingTranID
         else if db_down d T_funding then Inl (DbFailed T_funding)
         else if list_ex (\<lambda>n. n_TranID n = tranID) (funding d) then Inr (False, d)
         else let d0 = d\<lparr>funding := funding d @ [\<lparr>n_TranID = tranID, n_UserID = userID, n_Market = market,
                           n_TsCode = tsCode, n_Amount = amount, n_IncomeTime = incomeTime\<rparr>]\<rparr>
              in case claim_legacy d0 userID market tsCode of
                   Inl e \<Rightarrow> Inl e
                 | Inr d1 \<Rightarrow>
                     if db_down d T_positions then Inl (DbFailed T_positions)
                     else (case find sel (positions d1) of
                        None \<Rightarrow> Inr (True, d1)
                      | Some p \<Rightarrow>
                          if 0 < p_Qty p
                          then (let newCost = p_CostPrice p + (- amount) / p_Qty p
                                in Inr (True, d1\<lparr>positions := update_where sel
                                     (\<lambda>r. r\<lparr>p_CostPrice := newCost, p_Amount := newCost * p_Qty p, p_UpdatedAt := now\<rparr>)
                                     (positions d1)\<rparr>))
                          else Inr (True, d1)))"

section \<open>Shape of the book\<close>

text \<open>
  Keys are unique, every row is long or short, and short rows exist in US and CRYPTO only.
\<close>

definition row_ok :: "real_position \<Rightarrow> bool" where
  "row_ok p \<longleftrightarrow> (p_Side p = long_side \<or> p_Side p = short_side) \<and> (p_Side p = short_side \<longrightarrow> p_Market p = US \<or> p_Market p = CRYPTO)"

definition book_wf :: "db \<Rightarrow> bool" where
  "book_wf d \<longleftrightarrow> distinct (map pos_key (positions d)) \<and> (\<forall>p \<in> set (positions d). row_ok p)"

lemma sides_long_short [simp]: "long_side \<noteq> short_side" "short_side \<noteq> long_side"
  by (simp_all add: long_side_def short_side_def)

lemma book_wf_update:
  assumes "book_wf d" "\<And>p. p \<in> set (positions d) \<Longrightarrow> P p \<Longrightarrow> pos_key (f p) = pos_key p"
    "\<And>p. p \<in> set (positions d) \<Longrightarrow> P p \<Longrightarrow> row_ok (f p)"
  shows "book_wf (d\<lparr>positions := update_where P f (positions d)\<rparr>)"
  using assms by (auto simp: book_wf_def set_update_where intro!: distinct_update_where)

lemma claim_wf:
  assumes "claim_legacy d u m c = Inr d'" "book_wf d"
  shows "book_wf d'"
proof (cases "u = []")
  case False
  let ?P = "\<lambda>p. pos_key p = (m, c, [])" and ?f = "\<lambda>p. p\<lparr>p_UserID := u\<rparr>"
  have d': "d' = d\<lparr>positions := update_where ?P ?f (positions d)\<rparr>"
    and free: "list_ex ?P (positions d) \<Longrightarrow> \<not> list_ex (\<lambda>p. pos_key p = (m, c, u)) (positions d)"
    using assms(1) False by (auto simp: claim_legacy_def Let_def split: if_splits)
  have "distinct (map pos_key (update_where ?P ?f (positions d)))"
  proof (rule distinct_update_fresh)
    fix r s assume "r \<in> set (positions d)" "s \<in> set (positions d)" "?P r" "?P s"
    then show "r = s" using assms(2) unfolding book_wf_def by (metis distinct_key_unique)
  next
    fix r s assume "r \<in> set (positions d)" "s \<in> set (positions d)" "?P r" "\<not> ?P s"
    then have "list_ex ?P (positions d)" "s \<in> set (positions d)" "pos_key (?f r) = (m, c, u)"
      by (auto simp: list_ex_iff pos_key_def)
    then have "pos_key s \<noteq> (m, c, u)" using free by (auto simp: list_ex_iff)
    then show "pos_key (?f r) \<noteq> pos_key s" using \<open>pos_key (?f r) = (m, c, u)\<close> by simp
  qed (use assms(2) in \<open>simp add: book_wf_def\<close>)
  moreover have "\<forall>p \<in> set (update_where ?P ?f (positions d)). row_ok p"
    using assms(2) by (auto simp: book_wf_def set_update_where row_ok_def)
  ultimately show ?thesis by (simp add: book_wf_def d')
qed (use assms in \<open>simp add: claim_legacy_def\<close>)

lemma claim_frame:
  assumes "claim_legacy d u m c = Inr d'"
  shows "fills d' = fills d \<and> next_fill d' = next_fill d \<and> funding d' = funding d \<and> orders d' = orders d
    \<and> accounts d' = accounts d \<and> gates d' = gates d \<and> db_down d' = db_down d \<and> db_sum d' = db_sum d"
  using assms by (auto simp: claim_legacy_def Let_def split: if_splits)

text \<open>After a claim the visible rows are the owner's own.\<close>

lemma claim_visible_owner:
  assumes "claim_legacy d u m c = Inr d'" "p \<in> set (positions d')" "visible m c u p"
  shows "p_UserID p = u"
proof (cases "u = []")
  case True
  then show ?thesis using assms(3) by (simp add: visible_def)
next
  case False
  let ?P = "\<lambda>p. pos_key p = (m, c, [])"
  have "p \<in> set (update_where ?P (\<lambda>p. p\<lparr>p_UserID := u\<rparr>) (positions d))"
    using assms(1,2) False by (auto simp: claim_legacy_def Let_def split: if_splits)
  then obtain q where "p = (if ?P q then q\<lparr>p_UserID := u\<rparr> else q)" unfolding set_update_where by blast
  then show ?thesis using assms(3) by (auto simp: visible_def pos_key_def split: if_splits)
qed

lemma visible_owner:
  assumes "claim_legacy d u m c = Inr d'" "p \<in> set (positions d')" "q \<in> set (positions d')"
    and "visible m c u p" "visible m c u q"
  shows "pos_key p = pos_key q"
  using claim_visible_owner [OF assms(1,2,4)] claim_visible_owner [OF assms(1,3,5)] assms(4,5)
  by (simp add: pos_key_def visible_def)

lemma fill_positions_ok:
  assumes cl: "claim_legacy d0 (f_UserID f) (f_Market f) (f_Code f) = Inr d"
    and wf: "book_wf d" and fp: "fill_positions d now f = Inr rows"
    and mk: "fill_short f \<Longrightarrow> f_Market f = US \<or> f_Market f = CRYPTO"
  shows "distinct (map pos_key rows) \<and> (\<forall>p \<in> set rows. row_ok p)"
proof -
  let ?sel = "visible (f_Market f) (f_Code f) (f_UserID f)"
  have opened: "distinct (map pos_key (positions d @ [opened_position now s f])) \<and> (\<forall>p \<in> set (positions d @ [opened_position now s f]). row_ok p)"
    if "find ?sel (positions d) = None" "s = long_side \<or> s = short_side \<and> (f_Market f = US \<or> f_Market f = CRYPTO)" for s
  proof -
    have "pos_key (opened_position now s f) \<notin> pos_key ` set (positions d)"
      using that(1) by (auto simp: find_None visible_def pos_key_def opened_position_def Let_def)
    moreover have "row_ok (opened_position now s f)"
      using that(2) by (auto simp: row_ok_def opened_position_def Let_def)
    ultimately show ?thesis using wf by (auto simp: book_wf_def)
  qed
  have kept: "distinct (map pos_key (update_where ?sel g (positions d))) \<and> (\<forall>p \<in> set (update_where ?sel g (positions d)). row_ok p)"
    if "\<And>r. p_UserID (g r) = f_UserID f \<and> p_Market (g r) = p_Market r \<and> p_TsCode (g r) = p_TsCode r \<and> p_Side (g r) = p_Side r" for g
  proof -
    have "book_wf (d\<lparr>positions := update_where ?sel g (positions d)\<rparr>)"
      using that claim_visible_owner [OF cl] wf
      by (intro book_wf_update) (auto simp: pos_key_def book_wf_def row_ok_def)
    then show ?thesis by (simp add: book_wf_def)
  qed
  show ?thesis
  proof (cases "find ?sel (positions d)")
    case None
    have "f_Market f = US \<or> f_Market f = CRYPTO" if "f_Side f = SideShortOpen"
      using mk that by (simp add: fill_short_def)
    then show ?thesis
      using fp None opened [of long_side] opened [of short_side] wf
      by (auto simp: fill_positions_def Let_def book_wf_def split: if_splits)
  next
    case (Some p)
    then have "(if f_UserID f = [] then p_UserID p else f_UserID f) = f_UserID f"
      using find_SomeD [OF Some] claim_visible_owner [OF cl] by auto
    then show ?thesis
      using fp Some kept [of "grown now f p (f_UserID f)"] kept [of "shrunk now f p (f_UserID f)"]
      by (simp add: fill_positions_def Let_def grown_def shrunk_def split: if_splits)
  qed
qed

lemma stamp_fill_fields [simp]:
  "f_UserID (stamp_fill f) = f_UserID f" "f_Code (stamp_fill f) = f_Code f" "f_Side (stamp_fill f) = f_Side f"
  "f_TradeID (stamp_fill f) = f_TradeID f" "f_OrderID (stamp_fill f) = f_OrderID f"
  "f_TradedAt (stamp_fill f) = f_TradedAt f" "f_Price (stamp_fill f) = f_Price f" "f_Qty (stamp_fill f) = f_Qty f"
  "f_Fee (stamp_fill f) = f_Fee f" "f_Market (stamp_fill f) = normalize_market (f_Market f)"
  by (simp_all add: stamp_fill_def Let_def)

lemma ApplyRealFill_cases:
  assumes "ApplyRealFill d now f = Inr d'"
  obtains (replay) "d' = d" "list_ex (same_fill (stamp_fill f)) (fills d)"
  | (applied) d1 rows where "claim_legacy d (f_UserID f) (normalize_market (f_Market f)) (f_Code f) = Inr d1"
      "fill_positions d1 now (stamp_fill f) = Inr rows"
      "\<not> list_ex (same_fill (stamp_fill f)) (fills d)"
      "fill_short (stamp_fill f) \<Longrightarrow> normalize_market (f_Market f) = US \<or> normalize_market (f_Market f) = CRYPTO"
      "d' = d1\<lparr>positions := delete_where (emptied (stamp_fill f)) rows,
               fills := fills d @ [(stamp_fill f)\<lparr>f_ID := next_fill d, f_Name := []\<rparr>],
               next_fill := next_fill d + 1\<rparr>"
  using assms by (auto simp: ApplyRealFill_def Let_def split: if_splits sum.splits)

lemma ApplyRealFill_wf:
  assumes "ApplyRealFill d now f = Inr d'" "book_wf d"
  shows "book_wf d'"
  using assms(1)
proof (cases rule: ApplyRealFill_cases)
  case (applied d1 rows)
  have "distinct (map pos_key rows) \<and> (\<forall>p \<in> set rows. row_ok p)"
    using applied(1,2,4) claim_wf [OF applied(1) assms(2)] by (intro fill_positions_ok) auto
  then show ?thesis
    by (auto simp: applied(5) book_wf_def set_delete_where intro: distinct_delete_where)
qed (use assms in simp)

lemma upsert_position_wf: "book_wf d \<Longrightarrow> book_wf (upsert_position k p d)"
proof -
  assume wf: "book_wf d"
  show ?thesis
  proof (cases "list_ex (\<lambda>r. pos_key r = pos_key p) (positions d)")
    case True
    have "book_wf (d\<lparr>positions := update_where (\<lambda>r. pos_key r = pos_key p) (merged_row k p) (positions d)\<rparr>)"
      using wf by (intro book_wf_update) (auto simp: merged_row_def pos_key_def book_wf_def row_ok_def)
    then show ?thesis using True by (simp add: upsert_position_def)
  next
    case False
    then show ?thesis using wf
      by (auto simp: upsert_position_def book_wf_def inserted_row_def row_ok_def pos_key_def list_ex_iff)
  qed
qed

lemma upsert_all_wf: "upsert_all k ps d = Inr d' \<Longrightarrow> book_wf d \<Longrightarrow> book_wf d'"
  by (induction ps arbitrary: d) (auto split: sum.splits intro: claim_wf upsert_position_wf)

lemma reconcile_all_wf: "reconcile_all u ps d = Inr d' \<Longrightarrow> book_wf d \<Longrightarrow> book_wf d'"
  by (induction ps arbitrary: d) (auto split: sum.splits intro: claim_wf upsert_position_wf)

lemma delete_wf: "book_wf d \<Longrightarrow> book_wf (d\<lparr>positions := delete_where P (positions d)\<rparr>)"
  by (auto simp: book_wf_def set_delete_where intro: distinct_delete_where)

lemma ReconcileE:
  assumes "ReconcilePositionsForUser d now u m ps = Inr (n, d')"
  obtains d1 where "reconcile_all u (map (prepared now u (normalize_market m)) ps) d = Inr d1"
    "d' = d1\<lparr>positions := delete_where (stale_position u (normalize_market m) (map p_TsCode ps)) (positions d1)\<rparr>"
    "validateRealPositions (normalize_market m) ps = None"
  using assms unfolding ReconcilePositionsForUser_def Let_def
  by (simp split: option.splits if_splits sum.splits)

lemma ReconcilePositionsForUser_wf:
  "ReconcilePositionsForUser d now u m ps = Inr (n, d') \<Longrightarrow> book_wf d \<Longrightarrow> book_wf d'"
  by (elim ReconcileE) (simp add: delete_wf reconcile_all_wf)

lemma UpsertAllE:
  assumes "UpsertRealPositions d now ps = Inr (n, d')"
  obtains d1 where "upsert_all False (map (prepared now [] []) ps) d = Inr d1"
    "d' = d1\<lparr>positions := delete_where (snapshot_stale (map (prepared now [] []) ps)) (positions d1)\<rparr>"
  using assms unfolding UpsertRealPositions_def Let_def
  by (simp split: option.splits if_splits sum.splits)

lemma UpsertRealPositions_wf: "UpsertRealPositions d now ps = Inr (n, d') \<Longrightarrow> book_wf d \<Longrightarrow> book_wf d'"
  by (elim UpsertAllE) (simp add: delete_wf upsert_all_wf)

lemma AddPositionFundingFee_wf:
  assumes "AddPositionFundingFee d now u m c t a i = Inr (b, d')" "book_wf d"
  shows "book_wf d'"
proof -
  have *: "book_wf (d1\<lparr>positions := update_where P
      (\<lambda>r. r\<lparr>p_CostPrice := x, p_Amount := y, p_UpdatedAt := now\<rparr>) (positions d1)\<rparr>)"
    if "claim_legacy (d\<lparr>funding := z\<rparr>) u m' c = Inr d1" for d1 P x y z m'
    using claim_wf [OF that] assms(2)
    by (intro book_wf_update) (auto simp: pos_key_def row_ok_def book_wf_def)
  show ?thesis
    using assms * claim_wf [of "d\<lparr>funding := z\<rparr>" u m' c for z m']
    by (auto simp: AddPositionFundingFee_def Let_def book_wf_def split: if_splits sum.splits option.splits)
qed

section \<open>The writers as one step function\<close>

datatype book_op =
    Fill string real_fill
  | Reconcile string string string "real_position list"
  | UpsertAll string "real_position list"
  | Funding string string string string int f64 int

fun book_step :: "db \<Rightarrow> book_op \<Rightarrow> db" where
  "book_step d (Fill now f) = (case ApplyRealFill d now f of Inl _ \<Rightarrow> d | Inr d' \<Rightarrow> d')"
| "book_step d (Reconcile now u m ps) = (case ReconcilePositionsForUser d now u m ps of Inl _ \<Rightarrow> d | Inr (_, d') \<Rightarrow> d')"
| "book_step d (UpsertAll now ps) = (case UpsertRealPositions d now ps of Inl _ \<Rightarrow> d | Inr (_, d') \<Rightarrow> d')"
| "book_step d (Funding now u m c t a i) =
     (case AddPositionFundingFee d now u m c t a i of Inl _ \<Rightarrow> d | Inr (_, d') \<Rightarrow> d')"

lemma book_step_wf: "book_wf d \<Longrightarrow> book_wf (book_step d op)"
  by (cases op) (auto split: sum.splits dest: ApplyRealFill_wf ReconcilePositionsForUser_wf
      UpsertRealPositions_wf AddPositionFundingFee_wf)

interpretation book: invariant_system book_step book_wf
  by unfold_locales (rule book_step_wf)


end
