(* ===== verification/PositionFills.thy ===== *)
theory PositionFills
  imports PositionBook
begin

text \<open>
  What the writers of \<open>PositionBook\<close> guarantee for fills: the shape of the book, the fill log, the
  effect of a fill on the owner's position, and replays.
\<close>

section \<open>Frames\<close>

lemma find_update_rows:
  "(\<And>r. r \<in> set rows \<Longrightarrow> P r \<Longrightarrow> Q (f r) = Q r) \<Longrightarrow>
    find Q (update_where P f rows) = map_option (\<lambda>r. if P r then f r else r) (find Q rows)"
  by (induction rows) (auto simp: update_where_def)

lemma find_append_None: "find Q rows = None \<Longrightarrow> find Q (rows @ rest) = find Q rest"
  by (induction rows) (auto split: if_splits)

lemma find_delete_unique:
  assumes "\<And>x y. x \<in> set rows \<Longrightarrow> y \<in> set rows \<Longrightarrow> Q x \<Longrightarrow> Q y \<Longrightarrow> x = y"
  shows "find Q (delete_where P rows) = (case find Q rows of None \<Rightarrow> None | Some p \<Rightarrow> if P p then None else Some p)"
  using assms
proof (induction rows)
  case (Cons a rows)
  show ?case
  proof (cases "Q a")
    case True
    then have "find Q rows \<noteq> Some x \<or> x = a" for x using Cons.prems find_SomeD by (metis list.set_intros)
    then have "find Q (delete_where P rows) = (case find Q rows of None \<Rightarrow> None | Some p \<Rightarrow> if P p then None else Some p)"
      using Cons by simp
    moreover have "find Q rows = None \<or> find Q rows = Some a"
      using \<open>\<And>x. find Q rows \<noteq> Some x \<or> x = a\<close> by (cases "find Q rows") auto
    ultimately show ?thesis using True by (auto simp: delete_where_def)
  next
    case False
    then show ?thesis using Cons by (simp add: delete_where_def)
  qed
qed (simp add: delete_where_def)

lemma upsert_position_frame [simp]:
  "fills (upsert_position k p d) = fills d" "next_fill (upsert_position k p d) = next_fill d"
  "funding (upsert_position k p d) = funding d" "db_down (upsert_position k p d) = db_down d"
  by (simp_all add: upsert_position_def)

lemma upsert_all_fills: "upsert_all k ps d = Inr d' \<Longrightarrow> fills d' = fills d"
  by (induction ps arbitrary: d) (auto split: sum.splits dest: claim_frame)

lemma reconcile_all_fills: "reconcile_all u ps d = Inr d' \<Longrightarrow> fills d' = fills d"
  by (induction ps arbitrary: d) (auto split: sum.splits dest: claim_frame)

lemma Funding_fills: "AddPositionFundingFee d now u m c t a i = Inr (b, d') \<Longrightarrow> fills d' = fills d"
  by (auto simp: AddPositionFundingFee_def Let_def split: if_splits sum.splits option.splits dest: claim_frame)

lemma book_step_fills:
  "fills (book_step d op) = fills d \<or>
   (\<exists>now f. op = Fill now f \<and> \<not> list_ex (same_fill (stamp_fill f)) (fills d) \<and>
      fills (book_step d op) = fills d @ [(stamp_fill f)\<lparr>f_ID := next_fill d, f_Name := []\<rparr>])"
proof (cases op)
  case (Fill now f)
  then show ?thesis
    by (auto split: sum.splits elim!: ApplyRealFill_cases)
qed (auto split: sum.splits elim!: ReconcileE UpsertAllE dest: upsert_all_fills reconcile_all_fills Funding_fills)

definition trade_ids :: "db \<Rightarrow> string list" where
  "trade_ids d = filter (\<lambda>t. t \<noteq> []) (map f_TradeID (fills d))"

lemma book_step_trade_ids: "distinct (trade_ids d) \<Longrightarrow> distinct (trade_ids (book_step d op))"
  using book_step_fills [of d op] by (auto simp: trade_ids_def same_fill_def list_ex_iff) blast

interpretation fill_log: invariant_system book_step "\<lambda>d. distinct (trade_ids d)"
  by unfold_locales (rule book_step_trade_ids)

section \<open>Properties of the book\<close>

text \<open>C1: whatever sequence of fills, broker snapshots and funding fees is applied to a fresh ledger,
  each market, code and owner has one position row, which is long or short, and no CN row is short.\<close>

theorem book_invariant: "book_wf (foldl book_step (empty_db down sm) ops)"
  by (rule book.inv_run) (simp add: empty_db_def book_wf_def)

text \<open>a broker trade number enters the fill log at most once, whatever is replayed.\<close>

theorem trade_numbers_once: "distinct (trade_ids (foldl book_step (empty_db down sm) ops))"
  by (rule fill_log.inv_run) (simp add: empty_db_def trade_ids_def)

lemma visible_upd_user: "visible m c u p \<Longrightarrow> visible m c u (p\<lparr>p_UserID := u\<rparr>)"
  by (simp add: visible_def)

lemma set_same_user: "p_UserID p = u \<Longrightarrow> p\<lparr>p_UserID := u\<rparr> = p"
  by (cases p) simp

lemma claim_find:
  assumes "claim_legacy d u m c = Inr d'"
  shows "find (visible m c u) (positions d') = map_option (\<lambda>p. p\<lparr>p_UserID := u\<rparr>) (find (visible m c u) (positions d))"
proof (cases "u = []")
  case True
  have d': "d' = d" using assms True by (simp add: claim_legacy_def)
  show ?thesis
  proof (cases "find (visible m c u) (positions d)")
    case (Some p)
    then have "p_UserID p = u" using find_SomeD [OF Some] True by (simp add: visible_def)
    then have "p\<lparr>p_UserID := u\<rparr> = p" by simp
    then show ?thesis unfolding d' Some option.map by (rule arg_cong [OF sym])
  qed (simp add: d')
next
  case False
  let ?P = "\<lambda>p. pos_key p = (m, c, [])" and ?f = "\<lambda>p. p\<lparr>p_UserID := u\<rparr>"
  have "positions d' = update_where ?P ?f (positions d)"
    using assms False by (auto simp: claim_legacy_def Let_def split: if_splits)
  moreover have "find (visible m c u) (update_where ?P ?f (positions d))
      = map_option (\<lambda>r. if ?P r then ?f r else r) (find (visible m c u) (positions d))"
    by (rule find_update_rows) (auto simp: visible_def pos_key_def)
  moreover have "(if ?P p then ?f p else p) = ?f p" if "visible m c u p" for p
  proof (cases "?P p")
    case nP: False
    have "p_UserID p \<noteq> []" using that nP unfolding visible_def pos_key_def by simp
    then have "p_UserID p = u" using that unfolding visible_def by simp
    then show ?thesis unfolding if_not_P [OF nP] by (rule set_same_user [symmetric])
  qed simp
  ultimately have E: "find (visible m c u) (positions d') = map_option (\<lambda>r. if ?P r then ?f r else r) (find (visible m c u) (positions d))"
    and S: "\<And>p. visible m c u p \<Longrightarrow> (if ?P p then ?f p else p) = ?f p" by (simp only:)+
  show ?thesis
  proof (cases "find (visible m c u) (positions d)")
    case (Some p)
    then have "visible m c u p" using find_SomeD [OF Some] by blast
    then show ?thesis unfolding E Some option.map by (simp only: S)
  qed (simp add: E)
qed

text \<open>The position of an owner under a code, and what a fill makes of it.\<close>

definition holding :: "db \<Rightarrow> string \<Rightarrow> string \<Rightarrow> string \<Rightarrow> real_position option" where
  "holding d userID market code =
     map_option (\<lambda>p. p\<lparr>p_UserID := userID\<rparr>) (find (visible market code userID) (positions d))"

definition filled_holding :: "string \<Rightarrow> real_fill \<Rightarrow> real_position option \<Rightarrow> real_position option" where
  "filled_holding now f h =
     (case (case h of
        None \<Rightarrow> if f_Side f = SideBuy then Some (opened_position now long_side f)
                else if f_Side f = SideShortOpen then Some (opened_position now short_side f) else None
      | Some p \<Rightarrow> Some (if opening_fill f then grown now f p (f_UserID f) p else shrunk now f p (f_UserID f) p))
      of None \<Rightarrow> None | Some p \<Rightarrow> if p_Qty p \<le> 0 then None else Some p)"

lemma fill_positions_find:
  assumes cl: "claim_legacy d0 (f_UserID f) (f_Market f) (f_Code f) = Inr d"
    and wf: "book_wf d" and fp: "fill_positions d now f = Inr rows"
  shows "find (visible (f_Market f) (f_Code f) (f_UserID f)) rows =
     (case find (visible (f_Market f) (f_Code f) (f_UserID f)) (positions d) of
        None \<Rightarrow> if f_Side f = SideBuy then Some (opened_position now long_side f)
                else if f_Side f = SideShortOpen then Some (opened_position now short_side f) else None
      | Some p \<Rightarrow> Some (if opening_fill f then grown now f p (f_UserID f) p else shrunk now f p (f_UserID f) p))"
    (is "find ?sel rows = _")
proof (cases "find ?sel (positions d)")
  case None
  have op: "?sel (opened_position now s f)" for s by (simp add: visible_def opened_position_def Let_def)
  have "find ?sel (positions d @ [opened_position now s f]) = Some (opened_position now s f)" for s
    using None op [of s] by (simp add: find_append_None)
  then show ?thesis using fp None by (auto simp: fill_positions_def Let_def split: if_splits)
next
  case (Some p)
  have vis: "?sel p" "p \<in> set (positions d)" using find_SomeD [OF Some] by auto
  have ow: "p_UserID p = f_UserID f" by (rule claim_visible_owner [OF cl vis(2,1)])
  have "find ?sel (update_where ?sel g (positions d)) = Some (g p)"
    if "\<And>r. p_Market (g r) = p_Market r \<and> p_TsCode (g r) = p_TsCode r \<and> p_UserID (g r) = f_UserID f" for g
    using that Some vis by (subst find_update_rows) (auto simp: visible_def)
  then have "find ?sel (update_where ?sel (grown now f p (f_UserID f)) (positions d)) = Some (grown now f p (f_UserID f) p)"
    "find ?sel (update_where ?sel (shrunk now f p (f_UserID f)) (positions d)) = Some (shrunk now f p (f_UserID f) p)"
    by (auto simp: grown_def shrunk_def Let_def)
  then show ?thesis using fp Some ow by (auto simp: fill_positions_def Let_def split: if_splits)
qed

lemma fill_visible_owner:
  assumes cl: "claim_legacy d0 (f_UserID f) (f_Market f) (f_Code f) = Inr d" and fp: "fill_positions d now f = Inr rows"
    and x: "x \<in> set rows" "visible (f_Market f) (f_Code f) (f_UserID f) x"
  shows "p_UserID x = f_UserID f"
proof (cases "x \<in> set (positions d)")
  case True
  then show ?thesis using claim_visible_owner [OF cl] x(2) by blast
next
  case False
  let ?sel = "visible (f_Market f) (f_Code f) (f_UserID f)"
  show ?thesis
  proof (cases "find ?sel (positions d)")
    case None
    then show ?thesis using fp x False
      by (auto simp: fill_positions_def Let_def opened_position_def split: if_splits)
  next
    case (Some p)
    have "p_UserID p = f_UserID f" using find_SomeD [OF Some] claim_visible_owner [OF cl] by blast
    then show ?thesis using fp x False Some
      by (auto simp: fill_positions_def Let_def grown_def shrunk_def set_update_where split: if_splits)
  qed
qed

lemma fill_updates_holding_core:
  assumes "book_wf d" "ApplyRealFill d now f = Inr d'" "\<not> list_ex (same_fill (stamp_fill f)) (fills d)"
  defines "m \<equiv> normalize_market (f_Market f)"
  shows "holding d' (f_UserID f) m (f_Code f) =
           filled_holding now (stamp_fill f) (holding d (f_UserID f) m (f_Code f)) \<and>
         fills d' = fills d @ [(stamp_fill f)\<lparr>f_ID := next_fill d, f_Name := []\<rparr>]"
  using assms(2)
proof (cases rule: ApplyRealFill_cases)
  case (applied d1 rows)
  let ?g = "stamp_fill f" and ?sel = "visible m (f_Code f) (f_UserID f)"
  have wf1: "book_wf d1" by (rule claim_wf [OF applied(1) assms(1)])
  have ok: "distinct (map pos_key rows) \<and> (\<forall>p \<in> set rows. row_ok p)"
    using applied(1,2,4) wf1 by (intro fill_positions_ok) auto
  have fnd: "find ?sel rows = (case holding d (f_UserID f) m (f_Code f) of
        None \<Rightarrow> if f_Side ?g = SideBuy then Some (opened_position now long_side ?g)
                else if f_Side ?g = SideShortOpen then Some (opened_position now short_side ?g) else None
      | Some p \<Rightarrow> Some (if opening_fill ?g then grown now ?g p (f_UserID ?g) p else shrunk now ?g p (f_UserID ?g) p))"
    using fill_positions_find [of d ?g d1 now rows] applied(1,2) wf1 claim_find [OF applied(1)]
    by (simp add: holding_def m_def)
  have own: "p_UserID p = f_UserID f" if "find ?sel rows = Some p" for p
    using that unfolding fnd by (auto simp: opened_position_def grown_def shrunk_def Let_def split: option.splits if_splits)
  have uniq: "x = y" if "x \<in> set rows" "y \<in> set rows" "?sel x" "?sel y" for x y
  proof -
    have ow: "p_UserID z = f_UserID f" if "z \<in> set rows" "?sel z" for z
      using fill_visible_owner [of d ?g d1 now rows z] applied(1,2) that by (simp add: m_def)
    have "pos_key x = pos_key y"
      using ow [OF that(1,3)] ow [OF that(2,4)] that(3,4) by (simp add: pos_key_def visible_def)
    then show ?thesis using ok that distinct_key_unique by metis
  qed
  have "find ?sel (positions d') = (case find ?sel rows of None \<Rightarrow> None | Some p \<Rightarrow> if emptied ?g p then None else Some p)"
    using find_delete_unique [of rows ?sel "emptied ?g"] uniq by (simp add: applied(5))
  moreover have "emptied ?g p \<longleftrightarrow> p_Qty p \<le> 0" if "find ?sel rows = Some p" for p
    using own [OF that] find_SomeD [OF that] by (auto simp: emptied_def visible_def m_def)
  ultimately have "holding d' (f_UserID f) m (f_Code f) =
      (case find ?sel rows of None \<Rightarrow> None | Some p \<Rightarrow> if p_Qty p \<le> 0 then None else Some p)"
    using own by (auto simp: holding_def split: option.splits)
  then show ?thesis using applied(5) by (simp add: fnd filled_holding_def)
qed (use assms(3) in simp)




text \<open>After a fill was applied its own replay finds a compatible book and stops at the replay check.\<close>

lemma claim_again:
  assumes "claim_legacy d u m c = Inr d1" "\<And>p. p \<in> set (positions d') \<Longrightarrow> visible m c u p \<Longrightarrow> p_UserID p = u"
    and "db_down d' = db_down d"
  shows "claim_legacy d' u m c = Inr d'"
proof (cases "u = []")
  case False
  have no: "\<not> pos_key p = (m, c, [])" if "p \<in> set (positions d')" for p
    using assms(2) [OF that] False by (auto simp: pos_key_def visible_def)
  have "\<not> db_down d T_positions" using assms(1) False by (auto simp: claim_legacy_def split: if_splits)
  then show ?thesis
    using False no assms(3) by (auto simp: claim_legacy_def Let_def list_ex_iff update_where_id)
qed (simp add: claim_legacy_def)

lemma fill_positions_accepts:
  assumes "f_Side f = SideShortCover \<Longrightarrow> find (visible (f_Market f) (f_Code f) (f_UserID f)) (positions d) \<noteq> None"
    and "\<And>p. find (visible (f_Market f) (f_Code f) (f_UserID f)) (positions d) = Some p \<Longrightarrow> (p_Side p = short_side) = fill_short f"
  shows "\<exists>rows. fill_positions d now f = Inr rows"
  using assms by (auto simp: fill_positions_def Let_def split: option.splits)

lemma holding_side:
  assumes "filled_holding now f h = Some p" "\<And>q. h = Some q \<Longrightarrow> (p_Side q = short_side) = fill_short f"
  shows "(p_Side p = short_side) = fill_short f"
  using assms unfolding filled_holding_def
  by (auto simp: opened_position_def grown_def shrunk_def Let_def fill_short_def split: option.splits if_splits)

definition comparable_fill :: "real_fill \<Rightarrow> bool" where
  "comparable_fill f \<longleftrightarrow> f_TradeID f \<noteq> [] \<or> f_Price f \<noteq> NaN \<and> f_Qty f \<noteq> NaN"

lemma same_fill_stamped:
  "comparable_fill f \<Longrightarrow> same_fill (stamp_fill f) ((stamp_fill f)\<lparr>f_ID := i, f_Name := n\<rparr>)"
  by (auto simp: comparable_fill_def same_fill_def feq_def)

lemma holding_find:
  assumes "\<And>p. p \<in> set (positions d) \<Longrightarrow> visible m c u p \<Longrightarrow> p_UserID p = u"
  shows "holding d u m c = find (visible m c u) (positions d)"
proof (cases "find (visible m c u) (positions d)")
  case (Some p)
  then have "p_UserID p = u" using find_SomeD [OF Some] assms by blast
  then show ?thesis unfolding holding_def Some option.map by (simp only: set_same_user)
qed (simp add: holding_def)

lemma fill_side_ok:
  assumes "fill_positions d now f = Inr rows"
    "find (visible (f_Market f) (f_Code f) (f_UserID f)) (positions d) = Some p"
  shows "(p_Side p = short_side) = fill_short f"
  using assms by (auto simp: fill_positions_def Let_def split: if_splits)

text \<open>Once a fill is in the log, no run of the book takes it out, and a delivery of it changes nothing.\<close>

lemma logged_run: "list_ex (same_fill g) (fills d) \<Longrightarrow> list_ex (same_fill g) (fills (foldl book_step d ops))"
proof (induction ops arbitrary: d)
  case (Cons op ops)
  have "list_ex (same_fill g) (fills (book_step d op))"
    using Cons.prems book_step_fills [of d op] by auto
  then show ?case using Cons.IH by simp
qed simp

lemma logged_absorbed: "list_ex (same_fill (stamp_fill f)) (fills d) \<Longrightarrow> book_step d (Fill now f) = d"
  by (auto split: sum.splits elim!: ApplyRealFill_cases)

lemma applied_logged:
  assumes "ApplyRealFill d now f = Inr d'" "comparable_fill f"
  shows "list_ex (same_fill (stamp_fill f)) (fills d')"
  using assms(1)
proof (cases rule: ApplyRealFill_cases)
  case (applied d1 rows)
  then show ?thesis using same_fill_stamped [OF assms(2)] by simp
qed simp

text \<open>The answer of a delivery that comes right after the first one.\<close>

lemma replay_at_once:
  assumes "book_wf d" "ApplyRealFill d now f = Inr d'" "comparable_fill f"
  shows "ApplyRealFill d' now' f =
    (if f_Side f = SideShortCover \<and> holding d' (f_UserID f) (normalize_market (f_Market f)) (f_Code f) = None
     then Inl (NoShortToCover (f_Code f)) else Inr d')"
  using assms(2)
proof (cases rule: ApplyRealFill_cases)
  case replay
  let ?g = "stamp_fill f"
  obtain d1 rows where r: "claim_legacy d (f_UserID f) (normalize_market (f_Market f)) (f_Code f) = Inr d1"
      "fill_positions d1 now ?g = Inr rows"
    using assms(2) by (auto simp: ApplyRealFill_def Let_def split: if_splits sum.splits)
  have "find (visible (f_Market ?g) (f_Code ?g) (f_UserID ?g)) (positions d1) \<noteq> None" if "f_Side f = SideShortCover"
    using r(2) that by (cases "find (visible (f_Market ?g) (f_Code ?g) (f_UserID ?g)) (positions d1)")
      (auto simp: fill_positions_def Let_def SideBuy_def SideShortOpen_def SideShortCover_def)
  then have "holding d (f_UserID f) (normalize_market (f_Market f)) (f_Code f) \<noteq> None" if "f_Side f = SideShortCover"
    using that claim_find [OF r(1)] by (auto simp: holding_def)
  moreover have "ApplyRealFill d now' f = Inr d"
  proof -
    obtain rows' where "fill_positions d1 now' ?g = Inr rows'"
      using r(2) by (auto simp: fill_positions_def Let_def split: if_splits option.splits)
    then show ?thesis
      using assms(2) r replay(2) by (auto simp: ApplyRealFill_def Let_def split: if_splits sum.splits)
  qed
  ultimately show ?thesis using replay(1) by auto
next
  case (applied d1 rows)
  let ?g = "stamp_fill f" and ?m = "normalize_market (f_Market f)" and ?u = "f_UserID f" and ?c = "f_Code f"
  have pos: "set (positions d') \<subseteq> set rows" by (auto simp: applied(5) set_delete_where)
  have own: "p_UserID p = ?u" if "p \<in> set (positions d')" "visible ?m ?c ?u p" for p
    using fill_visible_owner [of d ?g d1 now rows p] applied(1,2) that pos by auto
  have dn: "db_down d' = db_down d" using claim_frame [OF applied(1)] by (simp add: applied(5))
  have cl: "claim_legacy d' ?u ?m ?c = Inr d'" by (rule claim_again [OF applied(1) own dn])
  have dup: "list_ex (same_fill ?g) (fills d')" by (rule applied_logged [OF assms(2,3)])
  have hold: "holding d' ?u ?m ?c = find (visible ?m ?c ?u) (positions d')" by (rule holding_find [OF own])
  have side: "(p_Side p = short_side) = fill_short ?g"
    if "find (visible ?m ?c ?u) (positions d') = Some p" for p
  proof (rule holding_side)
    show "filled_holding now ?g (holding d ?u ?m ?c) = Some p"
      using fill_updates_holding_core [OF assms(1,2) applied(3)] hold that by metis
    show "(p_Side q = short_side) = fill_short ?g" if "holding d ?u ?m ?c = Some q" for q
      using fill_side_ok [OF applied(2), of q] that claim_find [OF applied(1)] by (simp add: holding_def)
  qed
  have up: "\<not> db_down d' T_positions" "\<not> db_down d' T_fills" "\<not> (fill_short ?g \<and> ?m \<noteq> US \<and> ?m \<noteq> CRYPTO)"
    using assms(2) dn by (auto simp: ApplyRealFill_def Let_def split: if_splits sum.splits)
  show ?thesis
  proof (cases "f_Side f = SideShortCover \<and> holding d' ?u ?m ?c = None")
    case True
    then have "fill_positions d' now' ?g = Inl (NoShortToCover ?c)"
      by (simp add: hold fill_positions_def SideBuy_def SideShortOpen_def SideShortCover_def)
    then show ?thesis using cl up True by (simp add: ApplyRealFill_def Let_def)
  next
    case False
    then have "\<exists>rows'. fill_positions d' now' ?g = Inr rows'"
      using side hold by (intro fill_positions_accepts) auto
    then show ?thesis using False cl dup up by (auto simp: ApplyRealFill_def Let_def)
  qed
qed

text \<open>C7: a fill that was applied may be delivered again, at once or after any further fills,
  snapshots and funding fees, with or without a broker trade number: the ledger stays as it is.
  Delivered again at once it is accepted silently, but for a cover that closed its short: that one is
  answered with the error that there is no short to cover.\<close>

theorem fill_replay_absorbed:
  assumes "book_wf d" "ApplyRealFill d now f = Inr d'" "comparable_fill f"
  shows "book_step (foldl book_step d' ops) (Fill now' f) = foldl book_step d' ops \<and>
    ApplyRealFill d' now' f =
      (if f_Side f = SideShortCover \<and> holding d' (f_UserID f) (normalize_market (f_Market f)) (f_Code f) = None
       then Inl (NoShortToCover (f_Code f)) else Inr d')"
  by (intro conjI logged_absorbed logged_run applied_logged [OF assms(2,3)] replay_at_once [OF assms])


end
