(* ===== verification/PositionOwners.thy ===== *)
theory PositionOwners
  imports PositionFills
begin

text \<open>
  Frame properties of every writer of the book: sides never flip in place, and accounts are isolated.
\<close>

section \<open>Sides and owners\<close>

text \<open>\<open>keeps d d'\<close>: every owned row is still there under its key, on its side.\<close>

definition keeps :: "real_position list \<Rightarrow> real_position list \<Rightarrow> bool" where
  "keeps ps qs \<longleftrightarrow> (\<forall>p \<in> set ps. p_UserID p \<noteq> [] \<longrightarrow> (\<exists>q \<in> set qs. pos_key q = pos_key p \<and> p_Side q = p_Side p))"

lemma keeps_refl [simp]: "keeps ps ps"
  by (auto simp: keeps_def)

lemma keeps_trans: "keeps ps qs \<Longrightarrow> keeps qs rs \<Longrightarrow> keeps ps rs"
  unfolding keeps_def pos_key_def by (metis prod.inject)

lemma keeps_update:
  "(\<And>p. p \<in> set ps \<Longrightarrow> P p \<Longrightarrow> p_UserID p \<noteq> [] \<Longrightarrow> pos_key (f p) = pos_key p \<and> p_Side (f p) = p_Side p) \<Longrightarrow>
    keeps ps (update_where P f ps)"
proof -
  assume *: "\<And>p. p \<in> set ps \<Longrightarrow> P p \<Longrightarrow> p_UserID p \<noteq> [] \<Longrightarrow> pos_key (f p) = pos_key p \<and> p_Side (f p) = p_Side p"
  show ?thesis unfolding keeps_def
  proof (intro ballI impI)
    fix p assume p: "p \<in> set ps" "p_UserID p \<noteq> []"
    let ?q = "if P p then f p else p"
    have "?q \<in> set (update_where P f ps)" using p(1) by (auto simp: set_update_where)
    moreover have "pos_key ?q = pos_key p \<and> p_Side ?q = p_Side p" using * [OF p(1) _ p(2)] by simp
    ultimately show "\<exists>q \<in> set (update_where P f ps). pos_key q = pos_key p \<and> p_Side q = p_Side p" by blast
  qed
qed

lemma keeps_append [simp]: "keeps ps (ps @ qs)"
  by (auto simp: keeps_def)

lemma claim_keeps: "claim_legacy d u m c = Inr d' \<Longrightarrow> keeps (positions d) (positions d')"
  by (auto simp: claim_legacy_def Let_def pos_key_def split: if_splits intro!: keeps_update)

lemma upsert_position_keeps: "keeps (positions d) (positions (upsert_position k p d))"
  by (auto simp: upsert_position_def merged_row_def pos_key_def intro!: keeps_update)

lemma upsert_all_keeps: "upsert_all k ps d = Inr d' \<Longrightarrow> keeps (positions d) (positions d')"
  by (induction ps arbitrary: d)
    (simp, auto split: sum.splits, metis keeps_trans claim_keeps upsert_position_keeps)

lemma reconcile_all_keeps: "reconcile_all u ps d = Inr d' \<Longrightarrow> keeps (positions d) (positions d')"
  by (induction ps arbitrary: d)
    (simp, auto split: sum.splits, metis keeps_trans claim_keeps upsert_position_keeps)

lemma fill_positions_keeps:
  assumes cl: "claim_legacy d0 (f_UserID f) (f_Market f) (f_Code f) = Inr d" and fp: "fill_positions d now f = Inr rows"
  shows "keeps (positions d) rows"
proof (cases "find (visible (f_Market f) (f_Code f) (f_UserID f)) (positions d)")
  case None
  then show ?thesis using fp by (auto simp: fill_positions_def Let_def split: if_splits)
next
  case (Some p)
  have "p_UserID p = f_UserID f" using find_SomeD [OF Some] claim_visible_owner [OF cl] by blast
  then show ?thesis using fp Some claim_visible_owner [OF cl]
    by (auto simp: fill_positions_def Let_def grown_def shrunk_def pos_key_def split: if_splits intro!: keeps_update)
qed

lemma funding_keeps: "AddPositionFundingFee d now u m c t a i = Inr (b, d') \<Longrightarrow> keeps (positions d) (positions d')"
proof -
  assume a: "AddPositionFundingFee d now u m c t a i = Inr (b, d')"
  have *: "keeps (positions d) (update_where P (\<lambda>r. r\<lparr>p_CostPrice := x, p_Amount := y, p_UpdatedAt := now\<rparr>) (positions d1))"
    if "claim_legacy (d\<lparr>funding := z\<rparr>) u m' c = Inr d1" for d1 z m' P x y
    using claim_keeps [OF that] by (auto intro!: keeps_trans [OF _ keeps_update] simp: pos_key_def)
  show ?thesis using a * claim_keeps [of "d\<lparr>funding := z\<rparr>" u m' c for z m']
    by (auto simp: AddPositionFundingFee_def Let_def split: if_splits sum.splits option.splits)
qed

text \<open>Every writer first keeps all owned rows (in \<open>rows\<close>) and then at most deletes.\<close>

lemma book_step_keeps:
  "\<exists>rows. keeps (positions d) rows \<and> set (positions (book_step d op)) \<subseteq> set rows \<and>
     (book_wf d \<longrightarrow> distinct (map pos_key rows))"
proof -
  have refl: ?thesis if "book_step d op = d"
    unfolding that by (rule exI [of _ "positions d"]) (simp add: book_wf_def)
  have dbstep: ?thesis if "keeps (positions d) (positions d1)" "set (positions (book_step d op)) \<subseteq> set (positions d1)"
    "book_wf d \<Longrightarrow> book_wf d1" for d1
    using that by (auto simp: book_wf_def)
  show ?thesis
  proof (cases op)
    case (Fill now f)
    show ?thesis
    proof (cases "ApplyRealFill d now f")
      case (Inr d')
      then show ?thesis
      proof (cases rule: ApplyRealFill_cases)
        case (applied d1 rows)
        have "keeps (positions d) rows"
          using keeps_trans [OF claim_keeps [OF applied(1)] fill_positions_keeps [of d "stamp_fill f" d1 now rows]] applied(1,2) by simp
        moreover have "set (positions (book_step d op)) \<subseteq> set rows"
          using Fill Inr by (auto simp: applied(5) set_delete_where)
        moreover have "distinct (map pos_key rows)" if "book_wf d"
          using fill_positions_ok [of d "stamp_fill f" d1 now rows] applied(1,2,4) claim_wf [OF applied(1) that] by simp
        ultimately show ?thesis by blast
      qed (use Fill Inr refl in simp)
    qed (use Fill refl in simp)
  next
    case (Reconcile now u m ps)
    show ?thesis
    proof (cases "ReconcilePositionsForUser d now u m ps")
      case (Inr r)
      then obtain n d' where r: "ReconcilePositionsForUser d now u m ps = Inr (n, d')" by (cases r) auto
      then obtain d1 where d1: "reconcile_all u (map (prepared now u (normalize_market m)) ps) d = Inr d1"
        "d' = d1\<lparr>positions := delete_where (stale_position u (normalize_market m) (map p_TsCode ps)) (positions d1)\<rparr>"
        by (elim ReconcileE)
      show ?thesis
        by (rule dbstep [OF reconcile_all_keeps [OF d1(1)]])
          (use Reconcile r in \<open>auto simp: d1(2) set_delete_where intro: reconcile_all_wf [OF d1(1)]\<close>)
    qed (use Reconcile refl in simp)
  next
    case (UpsertAll now ps)
    show ?thesis
    proof (cases "UpsertRealPositions d now ps")
      case (Inr r)
      then obtain n d' where r: "UpsertRealPositions d now ps = Inr (n, d')" by (cases r) auto
      then obtain d1 where d1: "upsert_all False (map (prepared now [] []) ps) d = Inr d1"
        "d' = d1\<lparr>positions := delete_where (snapshot_stale (map (prepared now [] []) ps)) (positions d1)\<rparr>"
        by (elim UpsertAllE)
      show ?thesis
        by (rule dbstep [OF upsert_all_keeps [OF d1(1)]])
          (use UpsertAll r in \<open>auto simp: d1(2) set_delete_where intro: upsert_all_wf [OF d1(1)]\<close>)
    qed (use UpsertAll refl in simp)
  next
    case (Funding now u m c t a i)
    show ?thesis
    proof (cases "AddPositionFundingFee d now u m c t a i")
      case (Inr r)
      then obtain n d' where r: "AddPositionFundingFee d now u m c t a i = Inr (n, d')" by (cases r) auto
      show ?thesis
        by (rule dbstep [OF funding_keeps [OF r]])
          (use Funding r in \<open>auto intro: AddPositionFundingFee_wf [OF r]\<close>)
    qed (use Funding refl in simp)
  qed
qed

text \<open>no fill, snapshot or funding fee turns a long row of an owner into a short one or back;
  a position changes side only by being closed and opened again in separate operations.\<close>

theorem side_never_flips:
  assumes "book_wf d" "p \<in> set (positions d)" "q \<in> set (positions (book_step d op))"
    and "pos_key p = pos_key q" "p_UserID p \<noteq> []"
  shows "p_Side p = p_Side q"
proof -
  obtain rows where r: "keeps (positions d) rows" "set (positions (book_step d op)) \<subseteq> set rows"
    "distinct (map pos_key rows)"
    using book_step_keeps [of d op] assms(1) by blast
  obtain q' where q': "q' \<in> set rows" "pos_key q' = pos_key p" "p_Side q' = p_Side p"
    using r(1) assms(2,5) by (auto simp: keeps_def)
  then have "q' = q" using r(2,3) assms(3,4) distinct_key_unique [of pos_key rows q' q] by auto
  then show ?thesis using q' by simp
qed

text \<open>Rows of other owners, as a list.\<close>

definition others :: "string \<Rightarrow> real_position list \<Rightarrow> real_position list" where
  "others u ps = filter (\<lambda>p. p_UserID p \<noteq> [] \<and> p_UserID p \<noteq> u) ps"

lemma others_update:
  "(\<And>p. p \<in> set ps \<Longrightarrow> P p \<Longrightarrow> (p_UserID p = [] \<or> p_UserID p = u) \<and> (p_UserID (f p) = [] \<or> p_UserID (f p) = u)) \<Longrightarrow>
    others u (update_where P f ps) = others u ps"
  by (induction ps) (auto simp: others_def update_where_def)

lemma others_delete:
  "(\<And>p. p \<in> set ps \<Longrightarrow> P p \<Longrightarrow> p_UserID p = [] \<or> p_UserID p = u) \<Longrightarrow> others u (delete_where P ps) = others u ps"
  by (induction ps) (auto simp: others_def delete_where_def)

lemma others_append: "p_UserID p = [] \<or> p_UserID p = u \<Longrightarrow> others u (ps @ [p]) = others u ps"
  by (simp add: others_def)

lemma claim_others: "claim_legacy d u m c = Inr d' \<Longrightarrow> others u (positions d') = others u (positions d)"
  by (auto simp: claim_legacy_def Let_def pos_key_def split: if_splits intro!: others_update)

lemma upsert_position_others:
  "p_UserID p = u \<Longrightarrow> others u (positions (upsert_position k p d)) = others u (positions d)"
  by (auto simp: upsert_position_def merged_row_def pos_key_def inserted_row_def intro!: others_update others_append)

lemma reconcile_all_others:
  "reconcile_all u ps d = Inr d' \<Longrightarrow> \<forall>p \<in> set ps. p_UserID p = u \<Longrightarrow> others u (positions d') = others u (positions d)"
  by (induction ps arbitrary: d) (auto split: sum.splits simp: claim_others upsert_position_others)

lemma fill_positions_others:
  assumes "fill_positions d now f = Inr rows"
  shows "others (f_UserID f) rows = others (f_UserID f) (positions d)"
proof (cases "find (visible (f_Market f) (f_Code f) (f_UserID f)) (positions d)")
  case None
  then show ?thesis using assms
    by (auto simp: fill_positions_def Let_def opened_position_def split: if_splits intro!: others_append)
next
  case (Some p)
  then have "p_UserID p = [] \<or> p_UserID p = f_UserID f" using find_SomeD [OF Some] by (simp add: visible_def)
  then show ?thesis using assms Some
    by (auto simp: fill_positions_def Let_def grown_def shrunk_def visible_def split: if_splits intro!: others_update)
qed

fun book_owner :: "book_op \<Rightarrow> string option" where
  "book_owner (Fill now f) = Some (f_UserID f)"
| "book_owner (Reconcile now u m ps) = (if u = [] then None else Some u)"
| "book_owner (UpsertAll now ps) = None"
| "book_owner (Funding now u m c t a i) = Some u"

lemma prepared_fields [simp]:
  "p_UserID (prepared now u m p) = (if u \<noteq> [] then u else p_UserID p)" "p_TsCode (prepared now u m p) = p_TsCode p"
  "p_Qty (prepared now u m p) = p_Qty p" "p_CostPrice (prepared now u m p) = p_CostPrice p"
  "p_Market (prepared now u m p) = normalize_market (if p_Market p \<noteq> [] then p_Market p else m)"
  by (simp_all add: prepared_def stampPositionMarket_def Let_def)

text \<open>C8: a fill, a reconciliation or a funding fee of one account leaves the rows of every other
  account exactly as they are, in their order.\<close>

theorem owners_isolated:
  assumes "book_owner op = Some u"
  shows "others u (positions (book_step d op)) = others u (positions d)"
proof (cases op)
  case (Fill now f)
  then have u: "u = f_UserID f" using assms by simp
  show ?thesis
  proof (cases "ApplyRealFill d now f")
    case (Inr d')
    then show ?thesis
    proof (cases rule: ApplyRealFill_cases)
      case (applied d1 rows)
      have "others u (delete_where (emptied (stamp_fill f)) rows) = others u rows"
        by (rule others_delete) (simp add: emptied_def u)
      then show ?thesis
        using Fill Inr fill_positions_others [OF applied(2)] claim_others [OF applied(1)] by (simp add: applied(5) u)
    qed (use Fill Inr in simp)
  qed (use Fill in simp)
next
  case (Reconcile now v m ps)
  then have u: "v = u" "u \<noteq> []" using assms by (auto split: if_splits)
  show ?thesis
  proof (cases "ReconcilePositionsForUser d now u m ps")
    case (Inr r)
    then obtain n d' where r: "ReconcilePositionsForUser d now u m ps = Inr (n, d')" by (cases r) auto
    then obtain d1 where d1: "reconcile_all u (map (prepared now u (normalize_market m)) ps) d = Inr d1"
      "d' = d1\<lparr>positions := delete_where (stale_position u (normalize_market m) (map p_TsCode ps)) (positions d1)\<rparr>"
      by (elim ReconcileE)
    have "others u (positions d') = others u (positions d1)"
      unfolding d1(2) by simp (rule others_delete, auto simp: stale_position_def split: if_splits)
    then show ?thesis
      using Reconcile u r reconcile_all_others [OF d1(1)] by simp
  qed (use Reconcile u in simp)
next
  case (Funding now v m c t a i)
  then have u: "v = u" using assms by simp
  have *: "others u (update_where (visible m' c u) (\<lambda>r. r\<lparr>p_CostPrice := x, p_Amount := y, p_UpdatedAt := now\<rparr>) (positions d1)) = others u (positions d)"
    if "claim_legacy (d\<lparr>funding := z\<rparr>) u m' c = Inr d1" for d1 z m' x y
    using claim_others [OF that] others_update [of "positions d1" "visible m' c u" u "\<lambda>r. r\<lparr>p_CostPrice := x, p_Amount := y, p_UpdatedAt := now\<rparr>"]
    by (auto simp: visible_def)
  show ?thesis
    using Funding u * claim_others [of "d\<lparr>funding := z\<rparr>" u m' c for z m']
    by (auto simp: AddPositionFundingFee_def Let_def split: if_splits sum.splits option.splits)
qed (use assms in simp)



end
