(* ===== verification/PositionSnapshots.thy ===== *)
theory PositionSnapshots
  imports PositionOwners
begin

text \<open>
  Reconciling with a broker snapshot and booking funding fees: what the book holds afterwards, and the
  inputs that are refused.
\<close>

section \<open>Reconciliation\<close>

text \<open>The row a key names.\<close>

definition row_at :: "db \<Rightarrow> string \<times> string \<times> string \<Rightarrow> real_position option" where
  "row_at d k = find (\<lambda>p. pos_key p = k) (positions d)"

lemma row_at_claim:
  assumes "claim_legacy d u m c = Inr d'" "u \<noteq> []"
  shows "row_at d' (m', c', u') =
    (if (m', c') = (m, c) \<and> u' = [] then None
     else if (m', c') = (m, c) \<and> u' = u \<and> row_at d (m, c, []) \<noteq> None
       then map_option (\<lambda>p. p\<lparr>p_UserID := u\<rparr>) (row_at d (m, c, []))
     else row_at d (m', c', u'))"
proof -
  let ?P = "\<lambda>p. pos_key p = (m, c, [])" and ?f = "\<lambda>p. p\<lparr>p_UserID := u\<rparr>"
  have d': "positions d' = update_where ?P ?f (positions d)"
    and free: "list_ex ?P (positions d) \<Longrightarrow> \<not> list_ex (\<lambda>p. pos_key p = (m, c, u)) (positions d)"
    using assms by (auto simp: claim_legacy_def Let_def split: if_splits)
  have gen: "find (\<lambda>p. pos_key p = (m', c', u')) (update_where ?P ?f ps) =
    (if (m', c') = (m, c) \<and> u' = [] then None
     else if (m', c') = (m, c) \<and> u' = u \<and> find ?P ps \<noteq> None then map_option ?f (find ?P ps)
     else find (\<lambda>p. pos_key p = (m', c', u')) ps)"
    if "list_ex ?P ps \<Longrightarrow> \<not> list_ex (\<lambda>p. pos_key p = (m, c, u)) ps" for ps
    using that
  proof (induction ps)
    case (Cons a ps)
    then have IH: "find (\<lambda>p. pos_key p = (m', c', u')) (update_where ?P ?f ps) =
      (if (m', c') = (m, c) \<and> u' = [] then None
       else if (m', c') = (m, c) \<and> u' = u \<and> find ?P ps \<noteq> None then map_option ?f (find ?P ps)
       else find (\<lambda>p. pos_key p = (m', c', u')) ps)" by simp
    have u: "update_where ?P ?f (a # ps) = (if ?P a then ?f a else a) # update_where ?P ?f ps"
      by (simp add: update_where_def)
    show ?case
    proof (cases "?P a")
      case True
      then have "pos_key (?f a) = (m, c, u)" by (simp add: pos_key_def)
      then show ?thesis using True IH assms(2) unfolding u by auto
    next
      case False
      show ?thesis
      proof (cases "pos_key a = (m', c', u')")
        case True
        have "find ?P ps = None" if "(m', c') = (m, c)" "u' = u"
          using Cons.prems True that False by (cases "find ?P ps") (auto simp: list_ex_iff dest: find_SomeD)
        then show ?thesis using True False unfolding u by auto
      next
        case ne: False
        then show ?thesis using False IH unfolding u by auto
      qed
    qed
  qed (simp add: update_where_def)
  show ?thesis unfolding row_at_def d' by (rule gen) (use free in blast)
qed

lemma row_at_upsert:
  "row_at (upsert_position k p d) key =
     (if key = pos_key p
      then Some (case row_at d key of None \<Rightarrow> inserted_row p | Some r \<Rightarrow> merged_row k p r)
      else row_at d key)"
proof (cases "list_ex (\<lambda>r. pos_key r = pos_key p) (positions d)")
  case True
  have "pos_key (merged_row k p r) = pos_key r" for r by (simp add: merged_row_def pos_key_def)
  then have "row_at (upsert_position k p d) key =
      map_option (\<lambda>r. if pos_key r = pos_key p then merged_row k p r else r) (row_at d key)"
    using True by (simp add: row_at_def upsert_position_def find_update_rows)
  moreover have "row_at d (pos_key p) \<noteq> None"
    using True by (auto simp: row_at_def find_None list_ex_iff)
  moreover have "pos_key r = key" if "row_at d key = Some r" for r
    using that find_SomeD unfolding row_at_def by fast
  ultimately show ?thesis by (cases "row_at d key"; cases "key = pos_key p") auto
next
  case False
  then have none: "row_at d (pos_key p) = None" by (auto simp: row_at_def find_None list_ex_iff)
  have "pos_key (inserted_row p) = pos_key p" by (simp add: inserted_row_def pos_key_def)
  moreover have "find Q (ps @ [x]) = (case find Q ps of None \<Rightarrow> if Q x then Some x else None | Some y \<Rightarrow> Some y)"
    for Q :: "real_position \<Rightarrow> bool" and ps x by (induction ps) auto
  ultimately show ?thesis using False none
    by (auto simp: row_at_def upsert_position_def split: option.splits)
qed

text \<open>Writing a snapshot: the key of every entry has a row with the quantity and cost of its last entry.\<close>

definition agrees :: "real_position \<Rightarrow> real_position \<Rightarrow> bool" where
  "agrees r p \<longleftrightarrow> p_Qty r = p_Qty p \<and> p_CostPrice r = p_CostPrice p \<and> p_Amount r = p_Amount p"

lemma agrees_written [simp]: "agrees (inserted_row p) p" "agrees (merged_row k p r) p"
  by (simp_all add: agrees_def inserted_row_def merged_row_def)

lemma agrees_user: "agrees r p \<Longrightarrow> agrees (r\<lparr>p_UserID := u\<rparr>) p"
  by (simp add: agrees_def)

lemma reconcile_all_writes:
  assumes "reconcile_all u ps d = Inr d'" "u \<noteq> []" "\<forall>p \<in> set ps. p_UserID p = u"
  shows "(\<forall>m c. case find (\<lambda>p. (p_Market p, p_TsCode p) = (m, c)) (rev ps) of
            Some p \<Rightarrow> row_at d' (m, c, []) = None \<and> (\<exists>r. row_at d' (m, c, u) = Some r \<and> agrees r p)
          | None \<Rightarrow> row_at d' (m, c, u) = row_at d (m, c, u) \<and> row_at d' (m, c, []) = row_at d (m, c, []))"
  using assms
proof (induction ps arbitrary: d' rule: rev_induct)
  case (snoc p ps)
  have app: "reconcile_all u (xs @ ys) d = (case reconcile_all u xs d of Inl e \<Rightarrow> Inl e | Inr d1 \<Rightarrow> reconcile_all u ys d1)"
    for xs ys d by (induction xs arbitrary: d) (auto split: sum.splits)
  obtain d1 where d1: "reconcile_all u ps d = Inr d1" "reconcile_all u [p] d1 = Inr d'"
    using snoc.prems(1) by (auto simp: app split: sum.splits)
  obtain d2 where d2: "claim_legacy d1 u (p_Market p) (p_TsCode p) = Inr d2" "d' = upsert_position True p d2"
    using d1(2) by (auto split: sum.splits)
  note IH = snoc.IH [OF d1(1) snoc.prems(2)]
  have key: "pos_key p = (p_Market p, p_TsCode p, u)" using snoc.prems(3) by (simp add: pos_key_def)
  show ?case
  proof (intro allI, goal_cases)
    case (1 m c)
    show ?case
    proof (cases "(p_Market p, p_TsCode p) = (m, c)")
      case True
      then show ?thesis
        using row_at_claim [OF d2(1) snoc.prems(2), of m c "[]"] snoc.prems(2)
        by (auto simp: d2(2) row_at_upsert key split: option.splits)
    next
      case False
      then have "row_at d' (m, c, u) = row_at d1 (m, c, u)" "row_at d' (m, c, []) = row_at d1 (m, c, [])"
        using row_at_claim [OF d2(1) snoc.prems(2), of m c] by (auto simp: d2(2) row_at_upsert key)
      moreover have "find (\<lambda>p. (p_Market p, p_TsCode p) = (m, c)) (rev (ps @ [p])) = find (\<lambda>p. (p_Market p, p_TsCode p) = (m, c)) (rev ps)"
        using False by auto
      moreover have "\<forall>p \<in> set ps. p_UserID p = u" using snoc.prems(3) by simp
      ultimately show ?thesis using IH by (simp only:)
    qed
  qed
qed simp


lemma row_at_delete:
  assumes "\<And>p. pos_key p = k \<Longrightarrow> P p = b"
  shows "row_at (d\<lparr>positions := delete_where P (positions d)\<rparr>) k = (if b then None else row_at d k)"
proof -
  have "find (\<lambda>p. pos_key p = k) (filter (\<lambda>r. \<not> P r) ps) = (if b then None else find (\<lambda>p. pos_key p = k) ps)" for ps
    by (induction ps) (use assms in auto)
  then show ?thesis by (simp add: row_at_def delete_where_def)
qed

lemma find_map_prepared:
  assumes "\<And>p. p \<in> set ps \<Longrightarrow> Q (g p) = R p"
  shows "find Q (rev (map g ps)) = map_option g (find R (rev ps))"
proof -
  have "find Q (map g xs) = map_option g (find R xs)" if "set xs \<subseteq> set ps" for xs
    using that by (induction xs) (auto simp: assms)
  from this [of "rev ps"] show ?thesis by (simp add: rev_map)
qed

text \<open>C9: after a broker snapshot of a market was reconciled for an account, the account's book of
  that market holds exactly the codes of the snapshot: a code in it has a row with the snapshot's quantity,
  cost and amount (the last entry's, if it was listed twice), a code not in it has no row.\<close>

theorem reconcile_matches_snapshot:
  assumes "ReconcilePositionsForUser d now u m ps = Inr (n, d')" "u \<noteq> []" "normalize_market m = m"
    and "\<forall>p \<in> set ps. p_Market p = [] \<or> p_Market p = m"
  shows "case find (\<lambda>p. p_TsCode p = c) (rev ps) of
      None \<Rightarrow> row_at d' (m, c, u) = None
    | Some p \<Rightarrow> (\<exists>r. row_at d' (m, c, u) = Some r \<and> p_Qty r = p_Qty p \<and> p_CostPrice r = p_CostPrice p \<and> p_Amount r = p_Amount p)"
proof -
  obtain d1 where d1: "reconcile_all u (map (prepared now u m) ps) d = Inr d1"
    "d' = d1\<lparr>positions := delete_where (stale_position u m (map p_TsCode ps)) (positions d1)\<rparr>"
    using ReconcileE [OF assms(1)] assms(3) by metis
  let ?ps = "map (prepared now u m) ps"
  have mk: "p_Market (prepared now u m p) = m" if "p \<in> set ps" for p using assms(3,4) that by auto
  have w: "case find (\<lambda>p. (p_Market p, p_TsCode p) = (m, c)) (rev ?ps) of
            Some p \<Rightarrow> row_at d1 (m, c, []) = None \<and> (\<exists>r. row_at d1 (m, c, u) = Some r \<and> agrees r p)
          | None \<Rightarrow> row_at d1 (m, c, u) = row_at d (m, c, u) \<and> row_at d1 (m, c, []) = row_at d (m, c, [])"
    using reconcile_all_writes [OF d1(1) assms(2)] assms(2) by simp
  have f: "find (\<lambda>p. (p_Market p, p_TsCode p) = (m, c)) (rev ?ps) = map_option (prepared now u m) (find (\<lambda>p. p_TsCode p = c) (rev ps))"
    by (rule find_map_prepared) (simp only: mk prepared_fields(2) prod.inject simp_thms)
  have del: "row_at d' (m, c, u) = (if c \<notin> p_TsCode ` set ps then None else row_at d1 (m, c, u))"
    unfolding d1(2) by (rule row_at_delete) (auto simp: stale_position_def pos_key_def)
  show ?thesis
  proof (cases "find (\<lambda>p. p_TsCode p = c) (rev ps)")
    case None
    then have "c \<notin> p_TsCode ` set ps" by (auto simp: find_None)
    then show ?thesis using del None by simp
  next
    case (Some p)
    then have "c \<in> p_TsCode ` set ps" using find_SomeD [OF Some] by auto
    moreover obtain r where "row_at d1 (m, c, u) = Some r" "agrees r (prepared now u m p)"
      using w unfolding f Some by auto
    moreover have "p_Amount (prepared now u m p) = p_Amount p"
      by (simp add: prepared_def stampPositionMarket_def Let_def)
    ultimately show ?thesis using del Some by (simp add: agrees_def)
  qed
qed

lemma validate_from_Some:
  "validate_from i market ps = Some e \<Longrightarrow> \<exists>j m c. e = InvalidPositionReport j m c"
  by (induction ps arbitrary: i) (auto simp: Let_def split: if_splits)

lemma validate_from_None:
  "validate_from i market ps = None \<longleftrightarrow>
    (\<forall>p \<in> set ps. valid_ts_code (normalize_market (if p_Market p \<noteq> [] then p_Market p else market)) (p_TsCode p))"
  by (induction ps arbitrary: i) (auto simp: Let_def)

text \<open>one malformed code in a snapshot is enough: the whole snapshot is refused with the report
  error before the database is touched, so a garbled report can neither insert rows nor delete the
  account's positions.\<close>

theorem invalid_snapshot_refused:
  assumes "p \<in> set ps"
    and "\<not> valid_ts_code (normalize_market (if p_Market p \<noteq> [] then p_Market p else normalize_market m)) (p_TsCode p)"
  shows "(\<exists>i mk c. ReconcilePositionsForUser d now u m ps = Inl (InvalidPositionReport i mk c)) \<and>
         book_step d (Reconcile now u m ps) = d"
proof -
  obtain e where e: "validateRealPositions (normalize_market m) ps = Some e"
    using assms validate_from_None [of 0 "normalize_market m" ps]
    by (cases "validateRealPositions (normalize_market m) ps") (auto simp: validateRealPositions_def)
  then obtain i mk c where "e = InvalidPositionReport i mk c"
    using validate_from_Some unfolding validateRealPositions_def by blast
  then show ?thesis using e by (simp add: ReconcilePositionsForUser_def Let_def)
qed

section \<open>Funding fees\<close>

lemma claim_funding: "claim_legacy d u m c = Inr d' \<Longrightarrow> funding d' = funding d \<and> db_down d' = db_down d"
  using claim_frame by blast

text \<open>a funding flow is booked into the cost of a position at most once: when its transaction
  number was accepted, every later delivery of it, to whatever account and code, changes nothing.\<close>

theorem funding_booked_once:
  assumes "AddPositionFundingFee d now u m c tid amount paidAt = Inr (b, d')"
  shows "AddPositionFundingFee d' now' u' m' c' tid amount' paidAt' = Inr (False, d')"
proof -
  have "db_down d' = db_down d \<and> (\<exists>n \<in> set (funding d'). n_TranID n = tid)"
    using assms claim_funding
    by (fastforce simp: AddPositionFundingFee_def Let_def list_ex_iff split: if_splits sum.splits option.splits)
  moreover have "tid \<noteq> 0" "\<not> db_down d T_funding"
    using assms by (auto simp: AddPositionFundingFee_def Let_def split: if_splits)
  ultimately show ?thesis by (auto simp: AddPositionFundingFee_def Let_def list_ex_iff)
qed

section \<open>A legacy row beside an owned one\<close>

text \<open>when an ownerless row and a row of the account exist for the same code (an ownerless fill
  after an owned one leaves the book like that), claiming the ownerless row violates the key and every
  later fill of that account in that code is refused, closing fills included.\<close>

theorem legacy_twin_blocks_fills:
  assumes "row_at d (normalize_market (f_Market f), f_Code f, []) \<noteq> None"
    and "row_at d (normalize_market (f_Market f), f_Code f, f_UserID f) \<noteq> None" "f_UserID f \<noteq> []"
  shows "\<exists>e. ApplyRealFill d now f = Inl e"
proof -
  have "list_ex (\<lambda>p. pos_key p = k) (positions d) \<longleftrightarrow> row_at d k \<noteq> None" for k
    by (auto simp: row_at_def find_None list_ex_iff)
  then show ?thesis using assms by (auto simp: ApplyRealFill_def claim_legacy_def Let_def)
qed


end
