(* ===== verification/PositionExamples.thy ===== *)
theory PositionExamples
  imports PositionSnapshots
begin

text \<open>Concrete runs of the ledger: a witness for each property of the book, and two runs of note.\<close>

definition fresh_db :: db where
  "fresh_db = empty_db (\<lambda>_. False) (\<lambda>_. 0)"

definition sample_fill :: "string \<Rightarrow> string \<Rightarrow> string \<Rightarrow> string \<Rightarrow> real_fill" where
  "sample_fill user market side trade = \<lparr>f_ID = 0, f_OrderID = ''9'', f_Code = ''BTCUSDT'', f_Name = ''BTC'', f_Side = side,
     f_Price = Fin 100, f_Qty = Fin 2, f_Amount = Fin 200, f_TradedAt = ''2024-03-01 10:00:00'', f_SignalID = ''S1'',
     f_TradeID = trade, f_UserID = user, f_Fee = 0, f_StampTax = 0, f_Serial = [], f_Market = market,
     f_Currency = []\<rparr>"

definition sample_position :: "string \<Rightarrow> string \<Rightarrow> f64 \<Rightarrow> real_position" where
  "sample_position user side qty = \<lparr>p_Market = CRYPTO, p_Currency = ''USDT'', p_Side = side, p_TsCode = ''BTCUSDT'',
     p_Name = ''BTC'', p_Qty = qty, p_CostPrice = Fin 100, p_Amount = Fin 200, p_HighestPrice = Fin 100, p_Strategy = [],
     p_SignalID = [], p_UpdatedAt = ''t'', p_BuyDate = ''2024-03-01'', p_CurPrice = 0, p_UserID = user\<rparr>"

definition with_positions :: "real_position list \<Rightarrow> db" where
  "with_positions ps = fresh_db\<lparr>positions := ps\<rparr>"

definition after_fill :: "db \<Rightarrow> real_fill \<Rightarrow> db" where
  "after_fill d f = (case ApplyRealFill d ''t'' f of Inl _ \<Rightarrow> d | Inr d' \<Rightarrow> d')"

lemmas sample_defs = fresh_db_def empty_db_def sample_fill_def sample_position_def with_positions_def

lemma valid_ts_code_markets:
  "valid_ts_code CRYPTO c = crypto_ts_code c" "valid_ts_code US c = us_ts_code c" "valid_ts_code CN c = cn_ts_code c"
  by (simp_all add: valid_ts_code_def CRYPTO_def US_def CN_def)

lemma btc_shape: "crypto_ts_code ''BTCUSDT''" "\<not> cn_ts_code ''BTCUSDT''"
  by code_simp+


lemma first_buy: "ApplyRealFill fresh_db ''t'' (sample_fill ''u1'' CRYPTO SideBuy ''T1'') = Inr (after_fill fresh_db (sample_fill ''u1'' CRYPTO SideBuy ''T1''))"
  by (simp add: after_fill_def ApplyRealFill_def Let_def fill_short_def claim_legacy_def fill_positions_def sample_defs stamp_fill_def
      update_where_def)

lemma fresh_wf: "book_wf fresh_db"
  by (simp add: book_wf_def sample_defs)


theorem fill_replay_absorbed_witness:
  "book_step (foldl book_step (after_fill fresh_db (sample_fill ''u1'' CRYPTO SideBuy ''T1''))
       [Fill ''t1'' (sample_fill ''u1'' CRYPTO SideBuy ''T2'')]) (Fill ''t2'' (sample_fill ''u1'' CRYPTO SideBuy ''T1''))
     = foldl book_step (after_fill fresh_db (sample_fill ''u1'' CRYPTO SideBuy ''T1''))
         [Fill ''t1'' (sample_fill ''u1'' CRYPTO SideBuy ''T2'')]"
proof -
  have "comparable_fill (sample_fill ''u1'' CRYPTO SideBuy ''T1'')" by (simp add: sample_defs comparable_fill_def)
  then show ?thesis by (rule fill_replay_absorbed [OF fresh_wf first_buy, THEN conjunct1])
qed

lemma one_wf: "book_wf (with_positions [sample_position ''u1'' short_side (Fin 2)])"
  by (simp add: book_wf_def row_ok_def sample_defs)

theorem side_never_flips_witness:
  "p_Side (sample_position ''u1'' short_side (Fin 2)) = p_Side (sample_position ''u1'' short_side (Fin 2))"
  by (rule side_never_flips [where op = "Reconcile ''t'' ''u1'' CRYPTO [sample_position ''u1'' long_side (Fin 2)]", OF one_wf])
    (simp_all add: sample_defs ReconcilePositionsForUser_def Let_def validateRealPositions_def valid_ts_code_markets btc_shape
      prepared_def stampPositionMarket_def claim_legacy_def upsert_position_def
      update_where_def pos_key_def merged_row_def delete_where_def stale_position_def)

theorem owners_isolated_witness:
  "others ''u1'' (positions (book_step (with_positions [sample_position ''u2'' long_side (Fin 2)])
      (Fill ''t'' (sample_fill ''u1'' CRYPTO SideBuy ''T1'')))) = [sample_position ''u2'' long_side (Fin 2)]"
  by (subst owners_isolated) (simp_all add: sample_defs others_def)

lemma reconcile_run:
  "ReconcilePositionsForUser (with_positions [sample_position ''u1'' long_side (Fin 1)]) ''t'' ''u1'' CRYPTO [sample_position ''u1'' long_side (Fin 2)]
     = Inr (1, with_positions [sample_position ''u1'' long_side (Fin 2)])"
  by (simp add: sample_defs ReconcilePositionsForUser_def Let_def validateRealPositions_def valid_ts_code_markets btc_shape
      prepared_def stampPositionMarket_def claim_legacy_def
      upsert_position_def update_where_def pos_key_def merged_row_def delete_where_def stale_position_def)

theorem reconcile_matches_snapshot_witness:
  "\<exists>r. row_at (with_positions [sample_position ''u1'' long_side (Fin 2)]) (CRYPTO, ''BTCUSDT'', ''u1'') = Some r \<and> p_Qty r = Fin 2"
  using reconcile_matches_snapshot [OF reconcile_run, of "''BTCUSDT''"] by (auto simp: sample_defs)

theorem invalid_snapshot_refused_witness:
  "\<exists>i mk c. ReconcilePositionsForUser fresh_db ''t'' ''u1'' CN [sample_position ''u1'' long_side 1\<lparr>p_Market := CN\<rparr>]
     = Inl (InvalidPositionReport i mk c)"
  using invalid_snapshot_refused [of "sample_position ''u1'' long_side 1\<lparr>p_Market := CN\<rparr>" "[sample_position ''u1'' long_side 1\<lparr>p_Market := CN\<rparr>]" CN fresh_db]
  by (simp add: sample_defs valid_ts_code_markets btc_shape del: book_step.simps)

theorem funding_booked_once_witness:
  "\<exists>d'. AddPositionFundingFee d' ''t'' ''u2'' CRYPTO ''ETHUSDT'' 7 (Fin 3) 0 = Inr (False, d')"
proof -
  obtain d' where "AddPositionFundingFee fresh_db ''t'' ''u1'' CRYPTO ''BTCUSDT'' 7 (Fin 1) 0 = Inr (True, d')"
    by (simp add: AddPositionFundingFee_def sample_defs claim_legacy_def update_where_def)
  then show ?thesis using funding_booked_once by blast
qed

theorem legacy_twin_blocks_fills_witness:
  "\<exists>e. ApplyRealFill (with_positions [sample_position ''u1'' long_side 1, sample_position [] long_side 1]) ''t''
     (sample_fill ''u1'' CRYPTO SideSell ''T2'') = Inl e"
  by (rule legacy_twin_blocks_fills) (simp_all add: sample_defs row_at_def pos_key_def)

text \<open>The twin rows are reachable: an owned fill and then an ownerless fill in the same code.\<close>

lemma legacy_twin_reachable:
  "let d = foldl book_step fresh_db [Fill ''t'' (sample_fill ''u1'' CRYPTO SideBuy ''T1''), Fill ''t'' (sample_fill [] CRYPTO SideBuy ''T2'')]
   in row_at d (CRYPTO, ''BTCUSDT'', ''u1'') \<noteq> None \<and> row_at d (CRYPTO, ''BTCUSDT'', []) \<noteq> None"
  by (simp add: Let_def ApplyRealFill_def fill_short_def claim_legacy_def fill_positions_def sample_defs stamp_fill_def
      opened_position_def delete_where_def emptied_def update_where_def visible_def same_fill_def f64_simps row_at_def pos_key_def)

text \<open>the replay of a cover that closed a short is answered with an error instead of being absorbed,
  because the missing short is noticed before the fill log is consulted.\<close>

theorem cover_replay_fails:
  "let d = after_fill (with_positions [sample_position ''u1'' short_side (Fin 2)]) (sample_fill ''u1'' CRYPTO SideShortCover ''T3'')
   in positions d = [] \<and> length (fills d) = 1 \<and>
      ApplyRealFill d ''t'' (sample_fill ''u1'' CRYPTO SideShortCover ''T3'') = Inl (NoShortToCover ''BTCUSDT'')"
  by (simp add: Let_def after_fill_def ApplyRealFill_def fill_short_def claim_legacy_def fill_positions_def sample_defs stamp_fill_def
      shrunk_def opening_fill_def delete_where_def emptied_def update_where_def visible_def same_fill_def f64_simps pos_key_def)

end
