(* ===== verification/LedgerQueries.thy ===== *)
theory LedgerQueries
  imports PositionBook OrderBook
begin

text \<open>
  What the order path reads from the ledger: positions, the T+1 sellable quantity, frozen cash, open
  sells, the day's buys, realised profit and total assets (\<open>internal/store/real_positions.go\<close>,
  \<open>risk_gates.go\<close>, \<open>settlement.go\<close>), the account snapshot (\<open>real_account.go\<close>) and the counters of
  gate hits. A query whose source swallows the error returns the value the source returns then.
\<close>

section \<open>Positions\<close>

text \<open>Rows read back: the queries do not select the last price, most not the opening date.\<close>

definition pos_less :: "real_position \<Rightarrow> real_position \<Rightarrow> bool" where
  "pos_less a b \<longleftrightarrow> p_Market a < p_Market b \<or> p_Market a = p_Market b \<and> p_TsCode a < p_TsCode b"

fun insert_pos :: "real_position \<Rightarrow> real_position list \<Rightarrow> real_position list" where
  "insert_pos x [] = [x]"
| "insert_pos x (y # ys) = (if pos_less y x then y # insert_pos x ys else x # y # ys)"

definition loaded :: "real_position \<Rightarrow> real_position" where
  "loaded p = p\<lparr>p_CurPrice := 0\<rparr>"

definition RealPositions :: "db \<Rightarrow> real_position list res" where
  "RealPositions d =
     (if db_down d T_positions then Inl (DbFailed T_positions)
      else Inr (map (\<lambda>p. (loaded p)\<lparr>p_BuyDate := []\<rparr>) (foldr insert_pos (positions d) [])))"

definition RealPositionsForUser :: "db \<Rightarrow> string \<Rightarrow> real_position list res" where
  "RealPositionsForUser d userID =
     (if db_down d T_positions then Inl (DbFailed T_positions)
      else Inr (map loaded (foldr insert_pos (filter (\<lambda>p. p_UserID p = [] \<or> p_UserID p = userID) (positions d)) [])))"

text \<open>\<open>Inr None\<close> stands for \<open>sql.ErrNoRows\<close>.\<close>

definition RealPositionByCodeForUser :: "db \<Rightarrow> string \<Rightarrow> string \<Rightarrow> real_position option res" where
  "RealPositionByCodeForUser d userID code =
     (if db_down d T_positions then Inl (DbFailed T_positions)
      else Inr (map_option (\<lambda>p. (loaded p)\<lparr>p_BuyDate := []\<rparr>)
        (find (\<lambda>p. p_TsCode p = code \<and> (p_UserID p = [] \<or> p_UserID p = userID)) (positions d))))"

definition RealPositionByCode :: "db \<Rightarrow> string \<Rightarrow> real_position option res" where
  "RealPositionByCode d code =
     (if db_down d T_positions then Inl (DbFailed T_positions)
      else Inr (map_option (\<lambda>p. (loaded p)\<lparr>p_BuyDate := []\<rparr>) (find (\<lambda>p. p_TsCode p = code) (positions d))))"

section \<open>Sellable quantity, frozen cash, open sells\<close>

definition TodayBoughtQty :: "db \<Rightarrow> string \<Rightarrow> string \<Rightarrow> string \<Rightarrow> f64" where
  "TodayBoughtQty d userID tsCode day =
     (if db_down d T_fills then 0
      else coalesce_sum d (map f_Qty (filter (\<lambda>f. f_UserID f = userID \<and> f_Code f = tsCode \<and> f_Side f = SideBuy \<and>
             substr10 (f_TradedAt f) = day) (fills d))))"

definition BuyableQtyForUserSell :: "db \<Rightarrow> string \<Rightarrow> string \<Rightarrow> string \<Rightarrow> f64" where
  "BuyableQtyForUserSell d userID tsCode day =
     (case RealPositionByCodeForUser d userID tsCode of
        Inr (Some p) \<Rightarrow> (let q = p_Qty p - TodayBoughtQty d userID tsCode day in if q < 0 then 0 else q)
      | _ \<Rightarrow> 0)"

definition SumFilledQty :: "db \<Rightarrow> string \<Rightarrow> string \<Rightarrow> f64" where
  "SumFilledQty d userID signalID =
     (if db_down d T_fills then 0
      else coalesce_sum d (map f_Qty (filter (\<lambda>f. f_UserID f = userID \<and> sql_like (signalID @ ''%'') (f_SignalID f)) (fills d))))"

definition open_buy :: "string \<Rightarrow> string \<Rightarrow> string \<Rightarrow> real_order \<Rightarrow> bool" where
  "open_buy userID market day r \<longleftrightarrow> o_UserID r = userID \<and> o_Side r = SideBuy \<and> o_Market r = market \<and>
     (o_Status r = st_reported \<or> o_Status r = st_partial) \<and> substr10 (o_CreatedAt r) = day"

definition frozen_of :: "db \<Rightarrow> string \<Rightarrow> real_order \<Rightarrow> f64" where
  "frozen_of d userID r = (let remain = o_Qty r - SumFilledQty d userID (o_SignalID r)
     in o_Price r * (if remain < 0 then 0 else remain))"

definition LocalBuyFrozenForMarket :: "db \<Rightarrow> string \<Rightarrow> string \<Rightarrow> string \<Rightarrow> f64 res" where
  "LocalBuyFrozenForMarket d userID day market =
     (if db_down d T_orders then Inl (DbFailed T_orders)
      else Inr (foldl (\<lambda>a r. a + frozen_of d userID r) 0 (filter (open_buy userID (normalize_market market) day) (orders d))))"

definition LocalBuyFrozen :: "db \<Rightarrow> string \<Rightarrow> string \<Rightarrow> f64 res" where
  "LocalBuyFrozen d userID day = LocalBuyFrozenForMarket d userID day ''CN''"

definition open_sell :: "string \<Rightarrow> string \<Rightarrow> string \<Rightarrow> string \<Rightarrow> real_order \<Rightarrow> bool" where
  "open_sell userID tsCode day market r \<longleftrightarrow> (o_UserID r = [] \<or> o_UserID r = userID) \<and> o_Code r = tsCode \<and>
     o_Market r = market \<and> o_Side r = SideSell \<and> sql_like (day @ ''%'') (o_CreatedAt r) \<and>
     o_Status r \<in> {st_reported, st_partial, st_reported_cancelling, st_partial_cancelling}"

definition SumOpenSellQtyForMarket :: "db \<Rightarrow> string \<Rightarrow> string \<Rightarrow> string \<Rightarrow> string \<Rightarrow> f64" where
  "SumOpenSellQtyForMarket d userID tsCode day market =
     (if db_down d T_orders then 0
      else coalesce_sum d (map o_Qty (filter (open_sell userID tsCode day (normalize_market market)) (orders d))))"

definition SumOpenSellQty :: "db \<Rightarrow> string \<Rightarrow> string \<Rightarrow> string \<Rightarrow> f64" where
  "SumOpenSellQty d userID tsCode day = SumOpenSellQtyForMarket d userID tsCode day ''CN''"

section \<open>The day's fills\<close>

definition day_fill :: "string \<Rightarrow> string \<Rightarrow> string \<Rightarrow> string \<Rightarrow> real_fill \<Rightarrow> bool" where
  "day_fill userID day market side f \<longleftrightarrow> f_UserID f = userID \<and> f_Side f = side \<and> f_Market f = market \<and> substr10 (f_TradedAt f) = day"

text \<open>Several fills of one order count once: by order, else by serial, else each row for itself.\<close>

definition fill_order_key :: "real_fill \<Rightarrow> string" where
  "fill_order_key f = (if f_OrderID f \<noteq> [] then ''o:'' @ f_OrderID f
     else if f_Serial f \<noteq> [] then ''s:'' @ f_Serial f else ''r:'' @ itoa (f_ID f))"

definition CountBuyFilledOrdersByDayForMarket :: "db \<Rightarrow> string \<Rightarrow> string \<Rightarrow> string \<Rightarrow> int res" where
  "CountBuyFilledOrdersByDayForMarket d userID day market =
     (if db_down d T_fills then Inl (DbFailed T_fills)
      else Inr (int (length (remdups (map fill_order_key (filter (day_fill userID day (normalize_market market) SideBuy) (fills d)))))))"

definition fill_notional :: "real_fill \<Rightarrow> f64" where
  "fill_notional f = (if 0 < f_Amount f then f_Amount f else f_Price f * f_Qty f)"

definition SumBuyFilledAmountByDayForMarket :: "db \<Rightarrow> string \<Rightarrow> string \<Rightarrow> string \<Rightarrow> f64 res" where
  "SumBuyFilledAmountByDayForMarket d userID day market =
     (if db_down d T_fills then Inl (DbFailed T_fills)
      else Inr (coalesce_sum d (map fill_notional (filter (day_fill userID day (normalize_market market) SideBuy) (fills d)))))"

definition SumSellFilledAmountByDayForMarket :: "db \<Rightarrow> string \<Rightarrow> string \<Rightarrow> string \<Rightarrow> f64 res" where
  "SumSellFilledAmountByDayForMarket d userID day market =
     (if db_down d T_fills then Inl (DbFailed T_fills)
      else Inr (coalesce_sum d (map fill_notional (filter (day_fill userID day (normalize_market market) SideSell) (fills d)))))"

fun insert_fill :: "real_fill \<Rightarrow> real_fill list \<Rightarrow> real_fill list" where
  "insert_fill x [] = [x]"
| "insert_fill x (y # ys) = (if f_TradedAt y < f_TradedAt x then y # insert_fill x ys else x # y # ys)"

definition ListFillsByDay :: "db \<Rightarrow> string \<Rightarrow> string \<Rightarrow> real_fill list res" where
  "ListFillsByDay d userID day =
     (if db_down d T_fills then Inl (DbFailed T_fills)
      else Inr (map (\<lambda>f. f\<lparr>f_Name := [], f_TradeID := [], f_Market := [], f_Currency := []\<rparr>)
        (foldr insert_fill (filter (\<lambda>f. f_UserID f = userID \<and> substr10 (f_TradedAt f) = day) (fills d)) [])))"

definition FillKey :: "real_fill \<Rightarrow> string" where
  "FillKey f = (if f_Serial f \<noteq> [] then ''s:'' @ f_Serial f
     else ''f:'' @ f_OrderID f @ ''@'' @ f_TradedAt f @ ''@'' @ f_Side f)"

definition FillExists :: "db \<Rightarrow> real_fill \<Rightarrow> bool res" where
  "FillExists d f =
     (if db_down d T_fills then Inl (DbFailed T_fills)
      else Inr (list_ex (\<lambda>g. f_OrderID g = f_OrderID f \<and> f_TradedAt g = f_TradedAt f \<and>
                  feq (f_Price g) (f_Price f) \<and> feq (f_Qty g) (f_Qty f)) (fills d)))"

definition ClearRealBook :: "db \<Rightarrow> db res" where
  "ClearRealBook d =
     (if db_down d T_positions then Inl (DbFailed T_positions)
      else if db_down d T_orders then Inl (DbFailed T_orders)
      else if db_down d T_fills then Inl (DbFailed T_fills)
      else Inr (d\<lparr>positions := [], orders := [], fills := []\<rparr>))"

section \<open>Realised profit and total assets\<close>

text \<open>
  The cost a closing fill is measured against: the row's cost while it is open on the right side,
  else the average of the day's opening fills of that code (in any market), else 0.
\<close>

definition day_average :: "string \<Rightarrow> string \<Rightarrow> real_fill list \<Rightarrow> f64" where
  "day_average side code fs =
     (let sel = filter (\<lambda>f. f_Side f = side \<and> f_Code f = code \<and> 0 < f_Qty f) fs;
          amt = foldl (\<lambda>a f. a + f_Price f * f_Qty f) 0 sel;
          qty = foldl (\<lambda>a f. a + f_Qty f) 0 sel
      in if qty \<le> 0 then 0 else amt / qty)"

definition cost_basis :: "(real_position \<Rightarrow> bool) \<Rightarrow> string \<Rightarrow> db \<Rightarrow> string \<Rightarrow> string \<Rightarrow> string \<Rightarrow> f64" where
  "cost_basis side_ok side d userID code day =
     (let fallback = (case ListFillsByDay d userID day of Inl _ \<Rightarrow> 0 | Inr fs \<Rightarrow> day_average side code fs)
      in case RealPositionByCodeForUser d userID code of
           Inr (Some p) \<Rightarrow> if 0 < p_Qty p \<and> 0 < p_CostPrice p \<and> side_ok p then p_CostPrice p else fallback
         | _ \<Rightarrow> fallback)"

definition costBasisFor :: "db \<Rightarrow> string \<Rightarrow> string \<Rightarrow> string \<Rightarrow> f64" where
  "costBasisFor = cost_basis (\<lambda>p. p_Side p \<noteq> ''short'') SideBuy"

definition costBasisForShort :: "db \<Rightarrow> string \<Rightarrow> string \<Rightarrow> string \<Rightarrow> f64" where
  "costBasisForShort = cost_basis (\<lambda>p. p_Side p = ''short'') SideShortOpen"

definition fill_pnl :: "db \<Rightarrow> string \<Rightarrow> string \<Rightarrow> f64 \<Rightarrow> real_fill \<Rightarrow> f64" where
  "fill_pnl d userID day acc f =
     (if f_Side f = SideSell \<and> \<not> f_Qty f \<le> 0 then
        (let cost = costBasisFor d userID (f_Code f) day
         in if cost \<le> 0 then acc else acc + (f_Price f - cost) * f_Qty f)
      else if f_Side f = SideShortCover \<and> \<not> f_Qty f \<le> 0 then
        (let cost = costBasisForShort d userID (f_Code f) day
         in if cost \<le> 0 then acc else acc + (cost - f_Price f) * f_Qty f)
      else acc)"

definition TodayRealizedPnlForMarket :: "db \<Rightarrow> string \<Rightarrow> string \<Rightarrow> string \<Rightarrow> f64 res" where
  "TodayRealizedPnlForMarket d userID day market =
     (if db_down d T_fills then Inl (DbFailed T_fills)
      else Inr (foldl (fill_pnl d userID day) 0
        (filter (\<lambda>f. f_UserID f = userID \<and> f_Market f = normalize_market market \<and> substr10 (f_TradedAt f) = day) (fills d))))"

section \<open>The account\<close>

definition zero_account :: "string \<Rightarrow> string \<Rightarrow> real_account" where
  "zero_account userID market = \<lparr>a_UserID = userID, a_Market = market, a_AvailableCash = 0, a_FrozenCash = 0,
     a_TotalAsset = 0, a_MarketValue = 0, a_UpdatedAt = []\<rparr>"

definition account_key :: "real_account \<Rightarrow> string \<times> string" where
  "account_key a = (a_UserID a, a_Market a)"

definition UpsertRealAccount :: "db \<Rightarrow> string \<Rightarrow> real_account \<Rightarrow> db res" where
  "UpsertRealAccount d now acc0 =
     (let acc = acc0\<lparr>a_Market := normalize_market (a_Market acc0),
                     a_UpdatedAt := (if a_UpdatedAt acc0 = [] then now else a_UpdatedAt acc0)\<rparr>
      in if db_down d T_account then Inl (DbFailed T_account)
         else if list_ex (\<lambda>a. account_key a = account_key acc) (accounts d)
         then Inr (d\<lparr>accounts := update_where (\<lambda>a. account_key a = account_key acc) (\<lambda>_. acc) (accounts d)\<rparr>)
         else Inr (d\<lparr>accounts := accounts d @ [acc]\<rparr>))"

text \<open>
  In CN the account's own row comes before the ownerless one (\<open>ORDER BY user_id DESC LIMIT 1\<close>); the
  other markets know no ownerless row. Errors and missing rows read as the zero account.
\<close>

definition GetRealAccountForMarket :: "db \<Rightarrow> string \<Rightarrow> string \<Rightarrow> real_account" where
  "GetRealAccountForMarket d userID market =
     (let m = normalize_market market;
          own = find (\<lambda>a. a_Market a = m \<and> a_UserID a = userID) (accounts d);
          row = (if m = ''CN'' then (case own of Some a \<Rightarrow> Some a
                   | None \<Rightarrow> find (\<lambda>a. a_Market a = m \<and> a_UserID a = []) (accounts d))
                 else own)
      in if db_down d T_account then zero_account userID m
         else case row of None \<Rightarrow> zero_account userID m | Some a \<Rightarrow> a\<lparr>a_UserID := userID, a_Market := m\<rparr>)"

definition GetRealAccount :: "db \<Rightarrow> string \<Rightarrow> real_account" where
  "GetRealAccount d userID = GetRealAccountForMarket d userID ''CN''"

definition position_value :: "f64 \<Rightarrow> real_position \<Rightarrow> f64" where
  "position_value acc p =
     (let price = (if p_CurPrice p \<le> 0 then p_CostPrice p else p_CurPrice p);
          sign = (if p_Side p = ''short'' then - 1 else 1)
      in if 0 < price then acc + sign * price * p_Qty p else acc)"

definition TotalAssetsForMarket :: "db \<Rightarrow> string \<Rightarrow> string \<Rightarrow> f64 res" where
  "TotalAssetsForMarket d userID market =
     (let m = normalize_market market;
          cash = a_AvailableCash (GetRealAccountForMarket d userID m);
          total = (if 0 < cash then 0 + cash else 0)
      in case RealPositionsForUser d userID of
           Inl e \<Rightarrow> Inl e
         | Inr ps \<Rightarrow> Inr (foldl position_value total (filter (\<lambda>p. normalize_market (p_Market p) = m) ps)))"

section \<open>Gate hits\<close>

definition gate_key :: "risk_gate_hit \<Rightarrow> string \<times> string \<times> string" where
  "gate_key h = (h_UserID h, h_TradeDate h, h_Gate h)"

definition RecordRiskGate :: "db \<Rightarrow> string \<Rightarrow> string \<Rightarrow> string \<Rightarrow> string \<Rightarrow> string \<Rightarrow> db res" where
  "RecordRiskGate d now userID tradeDate gate reason =
     (if db_down d T_gates then Inl (DbFailed T_gates)
      else if list_ex (\<lambda>h. gate_key h = (userID, tradeDate, gate)) (gates d)
      then Inr (d\<lparr>gates := update_where (\<lambda>h. gate_key h = (userID, tradeDate, gate))
             (\<lambda>h. h\<lparr>h_Hits := h_Hits h + 1, h_LastReason := reason, h_UpdatedAt := now\<rparr>) (gates d)\<rparr>)
      else Inr (d\<lparr>gates := gates d @ [\<lparr>h_UserID = userID, h_TradeDate = tradeDate, h_Gate = gate, h_Hits = 1,
             h_LastReason = reason, h_UpdatedAt = now\<rparr>]\<rparr>))"

definition RiskGateHits :: "db \<Rightarrow> string \<Rightarrow> string \<Rightarrow> (string \<rightharpoonup> int) res" where
  "RiskGateHits d userID tradeDate =
     (if db_down d T_gates then Inl (DbFailed T_gates)
      else Inr (foldl (\<lambda>m h. m(h_Gate h \<mapsto> h_Hits h)) Map.empty
        (filter (\<lambda>h. h_UserID h = userID \<and> h_TradeDate h = tradeDate) (gates d))))"

end
