(* ===== verification/LedgerFacts.thy ===== *)
theory LedgerFacts
  imports LedgerQueries PositionExamples
begin

text \<open>What the ledger queries promise: counters, the day's order count, the account snapshot, and the sellable quantity.\<close>

section \<open>Gate counters\<close>

type_synonym hit = "string \<times> string \<times> string \<times> string \<times> string"

fun record_step :: "db \<Rightarrow> hit \<Rightarrow> db" where
  "record_step d (now, u, t, g, r) = (case RecordRiskGate d now u t g r of Inl _ \<Rightarrow> d | Inr d' \<Rightarrow> d')"

definition hit_count :: "hit list \<Rightarrow> string \<times> string \<times> string \<Rightarrow> int" where
  "hit_count rs k = int (length (filter (\<lambda>(now, u, t, g, r). (u, t, g) = k) rs))"

definition hits_at :: "db \<Rightarrow> string \<times> string \<times> string \<Rightarrow> int option" where
  "hits_at d k = map_option h_Hits (find (\<lambda>h. gate_key h = k) (gates d))"

lemma find_snoc: "find Q (xs @ [x]) = (case find Q xs of None \<Rightarrow> if Q x then Some x else None | Some y \<Rightarrow> Some y)"
  by (induction xs) auto

lemma record_hits:
  assumes "\<not> db_down d T_gates"
  shows "hits_at (record_step d (now, u, t, g, r)) k =
    (if k = (u, t, g) then Some (case hits_at d k of None \<Rightarrow> 1 | Some n \<Rightarrow> n + 1) else hits_at d k)"
proof (cases "list_ex (\<lambda>h. gate_key h = (u, t, g)) (gates d)")
  case True
  then obtain h where "find (\<lambda>h. gate_key h = (u, t, g)) (gates d) = Some h"
    by (cases "find (\<lambda>h. gate_key h = (u, t, g)) (gates d)") (auto simp: find_None list_ex_iff)
  moreover have "gate_key (h\<lparr>h_Hits := n, h_LastReason := x, h_UpdatedAt := y\<rparr>) = gate_key h" for h n x y
    by (simp add: gate_key_def)
  ultimately show ?thesis
    using True assms find_SomeD [of "\<lambda>h. gate_key h = k" "gates d"]
    by (cases "find (\<lambda>h. gate_key h = k) (gates d)") (auto simp: RecordRiskGate_def hits_at_def find_update_rows)
next
  case False
  let ?n = "\<lparr>h_UserID = u, h_TradeDate = t, h_Gate = g, h_Hits = 1, h_LastReason = r, h_UpdatedAt = now\<rparr>"
  have "gates (record_step d (now, u, t, g, r)) = gates d @ [?n]"
    using False assms by (simp add: RecordRiskGate_def)
  moreover have "find (\<lambda>h. gate_key h = (u, t, g)) (gates d) = None"
    using False by (simp add: find_None list_ex_iff)
  moreover have "gate_key ?n = (u, t, g)" by (simp add: gate_key_def)
  ultimately show ?thesis by (auto simp: hits_at_def find_snoc split: option.splits)
qed

lemma record_keys:
  assumes "distinct (map gate_key (gates d))"
  shows "distinct (map gate_key (gates (record_step d h)))"
proof (cases h)
  case (fields now u t g r)
  have "distinct (map gate_key (update_where (\<lambda>h. gate_key h = (u, t, g))
      (\<lambda>h. h\<lparr>h_Hits := h_Hits h + 1, h_LastReason := r, h_UpdatedAt := now\<rparr>) (gates d)))"
    by (rule distinct_update_where [OF assms]) (simp add: gate_key_def)
  then show ?thesis using assms fields
    by (auto simp: RecordRiskGate_def gate_key_def list_ex_iff)
qed

interpretation gate_log: invariant_system record_step "\<lambda>d. distinct (map gate_key (gates d))"
  by unfold_locales (rule record_keys)

lemma record_down: "db_down (record_step d h) = db_down d"
  by (cases h) (simp add: RecordRiskGate_def)

lemma hits_counted:
  assumes "\<not> db_down d T_gates" "gates d = []"
  shows "hits_at (foldl record_step d rs) k = (if hit_count rs k = 0 then None else Some (hit_count rs k))"
proof (induction rs rule: rev_induct)
  case Nil
  then show ?case using assms by (simp add: hits_at_def hit_count_def)
next
  case (snoc h rs)
  have "\<not> db_down (foldl record_step d rs) T_gates"
    using assms(1) by (induction rs arbitrary: d) (auto simp: record_down)
  then show ?case using snoc
    by (cases h) (auto simp: record_hits hit_count_def simp del: record_step.simps)
qed

lemma hits_map:
  assumes "distinct (map gate_key rows)"
  shows "foldl (\<lambda>m h. m(h_Gate h \<mapsto> h_Hits h)) Map.empty (filter (\<lambda>h. h_UserID h = u \<and> h_TradeDate h = t) rows) g
     = map_option h_Hits (find (\<lambda>h. gate_key h = (u, t, g)) rows)"
  using assms
proof (induction rows rule: rev_induct)
  case (snoc h rows)
  have "find (\<lambda>x. gate_key x = gate_key h) rows = None"
  proof -
    have "gate_key h \<notin> gate_key ` set rows" using snoc.prems by simp
    then show ?thesis unfolding find_None by (metis imageI)
  qed
  then show ?case using snoc by (auto simp: find_snoc gate_key_def split: option.splits)
qed simp

text \<open>the hits the risk page reads for a user and a day are, gate by gate, the number of rejections that
  were recorded for exactly that user, day and gate, however the recordings interleave.\<close>

theorem gate_hits_counted:
  "RiskGateHits (foldl record_step (empty_db (\<lambda>_. False) sm) rs) u t =
     Inr (\<lambda>g. if hit_count rs (u, t, g) = 0 then None else Some (hit_count rs (u, t, g)))"
proof -
  let ?d = "foldl record_step (empty_db (\<lambda>_. False) sm) rs"
  have "distinct (map gate_key (gates ?d))" by (rule gate_log.inv_run) (simp add: empty_db_def)
  then have "RiskGateHits ?d u t = Inr (\<lambda>g. hits_at ?d (u, t, g))" if "\<not> db_down ?d T_gates"
    using that by (simp add: RiskGateHits_def hits_at_def hits_map fun_eq_iff)
  moreover have "\<not> db_down (foldl record_step d rs) T_gates" if "\<not> db_down d T_gates" for d
    using that by (induction rs arbitrary: d) (auto simp: record_down)
  ultimately show ?thesis by (simp add: hits_counted empty_db_def)
qed

section \<open>The day's order count\<close>

definition counted_keys :: "db \<Rightarrow> string \<Rightarrow> string \<Rightarrow> string \<Rightarrow> string set" where
  "counted_keys d u day m = fill_order_key ` {f \<in> set (fills d). day_fill u day (normalize_market m) SideBuy f}"

lemma count_card: "\<not> db_down d T_fills \<Longrightarrow>
    CountBuyFilledOrdersByDayForMarket d u day m = Inr (int (card (counted_keys d u day m)))"
  by (simp add: CountBuyFilledOrdersByDayForMarket_def counted_keys_def length_remdups_card_conv)

text \<open>the daily buy counter counts orders, not fills: applying a fill raises it by one exactly when it is
  a buy of that user, market and day whose order was not counted yet; partial fills of a counted order,
  replays, sells and other markets leave it unchanged.\<close>

theorem buy_orders_counted:
  assumes "ApplyRealFill d now f = Inr d'" "CountBuyFilledOrdersByDayForMarket d u day m = Inr n"
    and "f_OrderID f \<noteq> []"
  shows "CountBuyFilledOrdersByDayForMarket d' u day m =
    Inr (if f_UserID f = u \<and> f_Side f = SideBuy \<and> normalize_market (f_Market f) = normalize_market m \<and>
            substr10 (f_TradedAt f) = day \<and> \<not> list_ex (same_fill (stamp_fill f)) (fills d) \<and>
            (''o:'' @ f_OrderID f) \<notin> counted_keys d u day m
         then n + 1 else n)"
proof -
  let ?g = "(stamp_fill f)\<lparr>f_ID := next_fill d, f_Name := []\<rparr>"
  have up: "\<not> db_down d T_fills" and n: "n = int (card (counted_keys d u day m))"
    using assms(2) count_card [of d u day m] by (auto simp: CountBuyFilledOrdersByDayForMarket_def split: if_splits)
  have fin: "finite (counted_keys d u day m)" by (simp add: counted_keys_def)
  have g: "day_fill u day (normalize_market m) SideBuy ?g \<longleftrightarrow> f_UserID f = u \<and> f_Side f = SideBuy \<and>
      normalize_market (f_Market f) = normalize_market m \<and> substr10 (f_TradedAt f) = day"
    and k: "fill_order_key ?g = ''o:'' @ f_OrderID f"
    using assms(3) by (simp_all add: day_fill_def fill_order_key_def)
  show ?thesis
    using assms(1)
  proof (cases rule: ApplyRealFill_cases)
    case replay
    then show ?thesis using assms(2) by simp
  next
    case (applied d1 rows)
    have "counted_keys d' u day m = (if day_fill u day (normalize_market m) SideBuy ?g
        then insert (''o:'' @ f_OrderID f) (counted_keys d u day m) else counted_keys d u day m)"
    proof -
      have "{x \<in> set (fills d @ [?g]). Q x} = (if Q ?g then insert ?g {x \<in> set (fills d). Q x} else {x \<in> set (fills d). Q x})" for Q
        by auto
      then show ?thesis using k by (simp add: counted_keys_def applied(5))
    qed
    moreover have "\<not> db_down d' T_fills" using claim_frame [OF applied(1)] up by (simp add: applied(5))
    ultimately show ?thesis
      using fin applied(3) unfolding g by (auto simp: count_card n insert_absorb)
  qed
qed

section \<open>The account snapshot\<close>

lemma find_replace:
  assumes "\<And>r. P r \<Longrightarrow> Q r = Q a" "\<And>r. Q a \<Longrightarrow> Q r \<Longrightarrow> P r"
  shows "find Q (update_where P (\<lambda>_. a) rows) = (if Q a \<and> list_ex P rows then Some a else find Q rows)"
proof (induction rows)
  case (Cons r rows)
  have u: "update_where P (\<lambda>_. a) (r # rows) = (if P r then a else r) # update_where P (\<lambda>_. a) rows"
    by (simp add: update_where_def)
  show ?case
  proof (cases "P r")
    case True
    then show ?thesis using assms(1) [OF True] unfolding u find.simps Cons.IH by simp
  next
    case False
    then show ?thesis using assms(2) [of r] unfolding u find.simps Cons.IH by auto
  qed
qed (simp add: update_where_def)

lemma account_find:
  assumes "UpsertRealAccount d now acc = Inr d'"
  shows "find (\<lambda>a. a_Market a = m \<and> a_UserID a = u) (accounts d') =
    (if m = normalize_market (a_Market acc) \<and> u = a_UserID acc
     then Some (acc\<lparr>a_Market := m, a_UpdatedAt := (if a_UpdatedAt acc = [] then now else a_UpdatedAt acc)\<rparr>)
     else find (\<lambda>a. a_Market a = m \<and> a_UserID a = u) (accounts d))"
proof -
  let ?a = "acc\<lparr>a_Market := normalize_market (a_Market acc), a_UpdatedAt := (if a_UpdatedAt acc = [] then now else a_UpdatedAt acc)\<rparr>"
  let ?P = "\<lambda>a. account_key a = account_key ?a" and ?Q = "\<lambda>a. a_Market a = m \<and> a_UserID a = u"
  have A: "accounts d' = (if list_ex ?P (accounts d) then update_where ?P (\<lambda>_. ?a) (accounts d) else accounts d @ [?a])"
    using assms by (auto simp: UpsertRealAccount_def Let_def split: if_splits)
  have B: "find ?Q (update_where ?P (\<lambda>_. ?a) rows) = (if ?Q ?a \<and> list_ex ?P rows then Some ?a else find ?Q rows)" for rows
    by (rule find_replace) (auto simp: account_key_def)
  have "find ?Q (accounts d') = (if ?Q ?a then Some ?a else find ?Q (accounts d))"
  proof (cases "list_ex ?P (accounts d)")
    case True
    then show ?thesis unfolding A if_P [OF True] B by (simp only: simp_thms)
  next
    case False
    have C: "find ?Q (accounts d) = None" if "?Q ?a"
      using that False by (auto simp: find_None list_ex_iff account_key_def)
    show ?thesis
    proof (cases "?Q ?a")
      case True
      show ?thesis unfolding A if_not_P [OF False] find_snoc C [OF True] option.case if_P [OF True] ..
    next
      case nQ: False
      show ?thesis unfolding A if_not_P [OF False] find_snoc if_not_P [OF nQ] by (cases "find ?Q (accounts d)") simp_all
    qed
  qed
  then show ?thesis by simp
qed

text \<open>an account snapshot is read back as it was written, and writing it changes what no other
  account reads, nor what the same account reads in another market.\<close>

theorem account_snapshot_roundtrip:
  assumes "UpsertRealAccount d now acc = Inr d'" "a_UserID acc \<noteq> []"
  shows "GetRealAccountForMarket d' u m =
    (if u = a_UserID acc \<and> normalize_market m = normalize_market (a_Market acc)
     then acc\<lparr>a_Market := normalize_market m, a_UpdatedAt := (if a_UpdatedAt acc = [] then now else a_UpdatedAt acc)\<rparr>
     else GetRealAccountForMarket d u m)"
proof -
  let ?own = "\<lambda>a. a_Market a = normalize_market m \<and> a_UserID a = u"
  let ?legacy = "\<lambda>a. a_Market a = normalize_market m \<and> a_UserID a = []"
  have dn: "\<not> db_down d T_account" "\<not> db_down d' T_account"
    using assms(1) by (auto simp: UpsertRealAccount_def Let_def split: if_splits)
  have L: "find ?legacy (accounts d') = find ?legacy (accounts d)"
    using account_find [OF assms(1), of "normalize_market m" "[]"] assms(2) by simp
  show ?thesis
  proof (cases "u = a_UserID acc \<and> normalize_market m = normalize_market (a_Market acc)")
    case True
    have "find ?own (accounts d') =
        Some (acc\<lparr>a_Market := normalize_market m, a_UpdatedAt := (if a_UpdatedAt acc = [] then now else a_UpdatedAt acc)\<rparr>)"
      using account_find [OF assms(1), of "normalize_market m" u] True by (simp only: if_True simp_thms)
    then have "GetRealAccountForMarket d' u m =
        (acc\<lparr>a_Market := normalize_market m, a_UpdatedAt := (if a_UpdatedAt acc = [] then now else a_UpdatedAt acc)\<rparr>)
          \<lparr>a_UserID := u, a_Market := normalize_market m\<rparr>"
      using dn by (simp only: GetRealAccountForMarket_def Let_def option.case if_False if_cancel simp_thms)
    then show ?thesis using True by simp
  next
    case False
    have O: "find ?own (accounts d') = find ?own (accounts d)"
      using account_find [OF assms(1), of "normalize_market m" u] unfolding if_not_P [OF False [unfolded conj_commute [of "u = _"]]] .
    show ?thesis unfolding GetRealAccountForMarket_def Let_def O L if_not_P [OF False] using dn by (simp only: if_False)
  qed
qed

section \<open>The sellable quantity\<close>

text \<open>the T+1 sellable quantity lies between zero and the quantity held, and what was bought today is
  not part of it.\<close>

theorem sellable_bounds:
  assumes "RealPositionByCodeForUser d u code = Inr (Some p)" "is_f64 (p_Qty p)" "0 \<le> p_Qty p"
    and "0 \<le> TodayBoughtQty d u code day" "TodayBoughtQty d u code day \<noteq> PInf" "p_Qty p \<noteq> PInf"
  shows "0 \<le> BuyableQtyForUserSell d u code day \<and> BuyableQtyForUserSell d u code day \<le> p_Qty p \<and>
    (p_Qty p \<le> TodayBoughtQty d u code day \<longrightarrow> BuyableQtyForUserSell d u code day = 0)"
proof -
  let ?b = "TodayBoughtQty d u code day"
  obtain q b where q: "p_Qty p = Fin q" "0 \<le> q" "?b = Fin b" "0 \<le> b"
    using assms(3-6) by (cases "p_Qty p"; cases ?b) (auto simp: zero_f64_def)
  have diff: "p_Qty p - ?b = rnd (q - b)" by (simp add: q Fin_arith)
  have z: "(0::f64) \<le> 0" by (simp add: zero_f64_def)
  have le: "p_Qty p \<le> ?b \<longleftrightarrow> q \<le> b" by (simp add: q)
  have nn: "p_Qty p - ?b \<noteq> NaN" unfolding diff by simp
  have "p_Qty p - ?b \<le> p_Qty p"
    by (rule fsub_le_left [OF assms(2) _ assms(4) nn]) (simp add: q)
  moreover have "p_Qty p - ?b \<le> 0" if "q \<le> b" using that rnd_nonpos [of "q - b"] by (simp add: diff)
  moreover have "x = 0" if "0 \<le> x" "x \<le> 0" for x :: f64
    using that by (cases x) (auto simp: zero_f64_def)
  moreover have "0 \<le> x" if "\<not> x < 0" "x \<noteq> NaN" for x :: f64
    using that by (cases x) (auto simp: zero_f64_def)
  ultimately show ?thesis
    using assms(1,3) nn z unfolding le by (auto simp: BuyableQtyForUserSell_def Let_def)
qed


section \<open>Two runs of note\<close>

text \<open>no query loads a last price, so total assets and the concentration limits that rest on them value
  every position at cost: changing the last prices of the book changes nothing.\<close>

theorem total_assets_at_cost:
  "TotalAssetsForMarket (d\<lparr>positions := map (\<lambda>p. p\<lparr>p_CurPrice := price p\<rparr>) (positions d)\<rparr>) u m = TotalAssetsForMarket d u m"
proof -
  let ?g = "\<lambda>p. p\<lparr>p_CurPrice := price p\<rparr>"
  have ins: "map loaded (insert_pos (?g p) ps') = map loaded (insert_pos p ps)" if "map loaded ps' = map loaded ps" for p ps ps'
    using that
  proof (induction ps arbitrary: ps')
    case (Cons q ps)
    then obtain q' r where r: "ps' = q' # r" "loaded q' = loaded q" "map loaded r = map loaded ps" by (cases ps') auto
    have "pos_less q' (?g p) = pos_less q p"
      using r(2) unfolding loaded_def pos_less_def by (metis (no_types, lifting) real_position.select_convs(1,4) real_position.surjective real_position.update_convs(14))
    moreover have "loaded (?g p) = loaded p" by (simp add: loaded_def)
    ultimately show ?case using Cons.IH [OF r(3)] r by simp
  qed (simp add: loaded_def)
  have "map loaded (foldr insert_pos (filter P (map ?g ps)) []) = map loaded (foldr insert_pos (filter P ps) [])"
    if "\<And>p. P (?g p) = P p" for P ps
    using that by (induction ps) (auto intro: ins)
  then have "RealPositionsForUser (d\<lparr>positions := map ?g (positions d)\<rparr>) u = RealPositionsForUser d u"
    by (simp add: RealPositionsForUser_def)
  moreover have "GetRealAccountForMarket (d\<lparr>positions := map ?g (positions d)\<rparr>) u x = GetRealAccountForMarket d u x" for x
    by (simp add: GetRealAccountForMarket_def Let_def split: option.split)
  ultimately show ?thesis by (simp only: TotalAssetsForMarket_def)
qed

definition sum64 :: "f64 list \<Rightarrow> f64" where
  "sum64 xs = foldl (+) 0 xs"

definition buy_order :: "string \<Rightarrow> real_order" where
  "buy_order signal = \<lparr>o_OrderID = signal, o_SignalID = signal, o_Code = ''600000.SH'', o_Side = SideBuy,
     o_Status = st_reported, o_Price = Fin 10, o_Qty = Fin 2, o_CreatedAt = ''2024-03-01 10:00:00'',
     o_UserID = ''u1'', o_Market = CN, o_Currency = ''CNY''\<rparr>"

text \<open>the fills of a signal are found by prefix, so a fill of signal \<open>S10\<close> is also taken for one of
  signal \<open>S1\<close>: the open order of \<open>S1\<close>, which has no fill at all, no longer freezes any cash.\<close>

theorem signal_prefix_collision:
  "let d = (empty_db (\<lambda>_. False) sum64)\<lparr>orders := [buy_order ''S1'']\<rparr>;
       f = (sample_fill ''u1'' CN SideBuy ''T1'')\<lparr>f_SignalID := ''S10''\<rparr>
   in LocalBuyFrozenForMarket d ''u1'' ''2024-03-01'' CN = Inr (Fin 20) \<and>
      LocalBuyFrozenForMarket (d\<lparr>fills := [f]\<rparr>) ''u1'' ''2024-03-01'' CN = Inr 0"
  by (simp add: Let_def empty_db_def buy_order_def sample_fill_def LocalBuyFrozenForMarket_def open_buy_def frozen_of_def
      SumFilledQty_def coalesce_sum_def sum64_def ascii_lower_def f64_simps)

section \<open>Witnesses\<close>

theorem buy_orders_counted_witness:
  "CountBuyFilledOrdersByDayForMarket (after_fill fresh_db (sample_fill ''u1'' CRYPTO SideBuy ''T1'')) ''u1'' ''2024-03-01'' CRYPTO = Inr 1"
proof -
  have "CountBuyFilledOrdersByDayForMarket fresh_db ''u1'' ''2024-03-01'' CRYPTO = Inr 0"
    by (simp add: CountBuyFilledOrdersByDayForMarket_def sample_defs)
  from buy_orders_counted [OF first_buy this] show ?thesis
    by (simp add: sample_defs counted_keys_def)
qed

definition sample_account :: real_account where
  "sample_account = \<lparr>a_UserID = ''u1'', a_Market = CN, a_AvailableCash = Fin 1000, a_FrozenCash = 0, a_TotalAsset = Fin 1000,
     a_MarketValue = 0, a_UpdatedAt = ''t''\<rparr>"

theorem account_snapshot_roundtrip_witness:
  "GetRealAccountForMarket (fresh_db\<lparr>accounts := [sample_account]\<rparr>) ''u1'' CN = sample_account"
  using account_snapshot_roundtrip [of fresh_db "''now''" sample_account "fresh_db\<lparr>accounts := [sample_account]\<rparr>" "''u1''" CN]
  by (simp add: sample_account_def sample_defs UpsertRealAccount_def)

theorem sellable_bounds_witness:
  "BuyableQtyForUserSell (with_positions [sample_position ''u1'' long_side (Fin 2)]) ''u1'' ''BTCUSDT'' ''2024-03-01'' \<le> Fin 2"
proof -
  have "is_f64 (Fin 2)" by (simp add: is_f64_def)
  then show ?thesis
    using sellable_bounds [of "with_positions [sample_position ''u1'' long_side (Fin 2)]" "''u1''" "''BTCUSDT''"
        "(sample_position ''u1'' long_side (Fin 2))\<lparr>p_BuyDate := []\<rparr>" "''2024-03-01''"]
    by (simp add: RealPositionByCodeForUser_def TodayBoughtQty_def sample_defs coalesce_sum_def loaded_def zero_f64_def)
qed

end
