(* ===== verification/Sessions.thy ===== *)
theory Sessions
  imports GoTime Markets "HOL-Library.While_Combinator"
begin

text \<open>
  When a market trades: \<open>internal/data/trade_time.go\<close> (the A-share windows, trading days),
  \<open>internal/data/trade_calendar.go\<close> (the set of closed days) and
  \<open>internal/data/market_session.go\<close> (the rule per market, with the rule-based NYSE calendar).
  The package-level variables are arguments: \<open>trade_time\<close> for the window table, \<open>calendar\<close> for the
  closed days; the New York offset \<open>ny\<close> is data of the time-zone database. The loops over days are
  \<open>while_option\<close>: that they end is a theorem, not an assumption.
\<close>

section \<open>A-share windows\<close>

record trade_time =
  TradeOpen :: int
  TradeClose :: int
  FullOpen :: int
  FullClose :: int
  PreOpenStart :: int
  PreOpenEnd :: int
  MorningHighEnd :: int
  MidFreqStart :: int
  AfternoonStart :: int
  AfternoonEnd :: int

definition defaultTradeTime :: trade_time where
  "defaultTradeTime = \<lparr>TradeOpen = 915, TradeClose = 1500, FullOpen = 915, FullClose = 1530, PreOpenStart = 915,
     PreOpenEnd = 925, MorningHighEnd = 1000, MidFreqStart = 945, AfternoonStart = 1300, AfternoonEnd = 1330\<rparr>"

definition override :: "int \<Rightarrow> int \<Rightarrow> int" where
  "override new old = (if 0 < new then new else old)"

definition SetTradeTimeConfig :: "trade_time \<Rightarrow> trade_time \<Rightarrow> trade_time" where
  "SetTradeTimeConfig tt cfg = \<lparr>TradeOpen = override (TradeOpen cfg) (TradeOpen tt),
     TradeClose = override (TradeClose cfg) (TradeClose tt), FullOpen = override (FullOpen cfg) (FullOpen tt),
     FullClose = override (FullClose cfg) (FullClose tt), PreOpenStart = override (PreOpenStart cfg) (PreOpenStart tt),
     PreOpenEnd = override (PreOpenEnd cfg) (PreOpenEnd tt), MorningHighEnd = override (MorningHighEnd cfg) (MorningHighEnd tt),
     MidFreqStart = override (MidFreqStart cfg) (MidFreqStart tt), AfternoonStart = override (AfternoonStart cfg) (AfternoonStart tt),
     AfternoonEnd = override (AfternoonEnd cfg) (AfternoonEnd tt)\<rparr>"

abbreviation cn_day :: "int \<Rightarrow> int" where "cn_day t \<equiv> local_day cn_offset t"
abbreviation cn_hhmm :: "int \<Rightarrow> int" where "cn_hhmm t \<equiv> hhmm cn_offset t"

text \<open>The shape all weekday windows share: from \<open>lo\<close> on, before \<open>hi\<close>.\<close>

definition weekday_window :: "int \<Rightarrow> int \<Rightarrow> int \<Rightarrow> bool" where
  "weekday_window lo hi now \<longleftrightarrow> \<not> weekend (cn_day now) \<and> lo \<le> cn_hhmm now \<and> cn_hhmm now < hi"

definition IsTradeTime :: "trade_time \<Rightarrow> int \<Rightarrow> bool" where
  "IsTradeTime tt now \<longleftrightarrow> weekday_window (TradeOpen tt) (TradeClose tt) now"

definition IsFullTradingHours :: "trade_time \<Rightarrow> int \<Rightarrow> bool" where
  "IsFullTradingHours tt now \<longleftrightarrow> \<not> weekend (cn_day now) \<and> FullOpen tt \<le> cn_hhmm now \<and> cn_hhmm now \<le> FullClose tt"

definition IsPreOpen :: "trade_time \<Rightarrow> int \<Rightarrow> bool" where
  "IsPreOpen tt now \<longleftrightarrow> PreOpenStart tt \<le> cn_hhmm now \<and> cn_hhmm now < PreOpenEnd tt"

definition IsMorningHighFreq :: "trade_time \<Rightarrow> int \<Rightarrow> bool" where
  "IsMorningHighFreq tt now \<longleftrightarrow> weekday_window (FullOpen tt) (MorningHighEnd tt) now"

definition IsMidFreqWindow :: "trade_time \<Rightarrow> int \<Rightarrow> bool" where
  "IsMidFreqWindow tt now \<longleftrightarrow> weekday_window (MidFreqStart tt) (MorningHighEnd tt) now"

definition IsAfternoonHighFreq :: "trade_time \<Rightarrow> int \<Rightarrow> bool" where
  "IsAfternoonHighFreq tt now \<longleftrightarrow> weekday_window (AfternoonStart tt) (AfternoonEnd tt) now"

definition ScanInterval :: "trade_time \<Rightarrow> int \<Rightarrow> int \<Rightarrow> int \<Rightarrow> int \<Rightarrow> int \<Rightarrow> int" where
  "ScanInterval tt now highFreqSec midFreqSec afternoonFreqSec normalSec =
     (if IsMorningHighFreq tt now then (if IsMidFreqWindow tt now then midFreqSec else highFreqSec)
      else if IsAfternoonHighFreq tt now then afternoonFreqSec else normalSec)"

definition IsPreMarket :: "trade_time \<Rightarrow> int \<Rightarrow> bool" where
  "IsPreMarket tt now \<longleftrightarrow> weekday_window 830 (FullOpen tt) now"

definition IsPreAfternoon :: "trade_time \<Rightarrow> int \<Rightarrow> bool" where
  "IsPreAfternoon tt now \<longleftrightarrow> weekday_window 1130 (AfternoonStart tt) now"

definition IsAfterMarket :: "trade_time \<Rightarrow> int \<Rightarrow> bool" where
  "IsAfterMarket tt now \<longleftrightarrow> \<not> weekend (cn_day now) \<and> TradeClose tt \<le> cn_hhmm now"

datatype market_session = SessionPreMarket | SessionMorningTrade | SessionPreAfternoon | SessionAfternoonTrade
  | SessionAfterMarket | SessionClosed

definition CurrentSession :: "trade_time \<Rightarrow> int \<Rightarrow> market_session" where
  "CurrentSession tt now =
     (let m = cn_hhmm now
      in if weekend (cn_day now) then SessionClosed
         else if 830 \<le> m \<and> m < FullOpen tt then SessionPreMarket
         else if FullOpen tt \<le> m \<and> m < 1130 then SessionMorningTrade
         else if 1130 \<le> m \<and> m < AfternoonStart tt then SessionPreAfternoon
         else if AfternoonStart tt \<le> m \<and> m < TradeClose tt then SessionAfternoonTrade
         else if TradeClose tt \<le> m then SessionAfterMarket
         else SessionClosed)"

definition IsActiveSession :: "trade_time \<Rightarrow> int \<Rightarrow> bool" where
  "IsActiveSession tt now \<longleftrightarrow>
     CurrentSession tt now \<in> {SessionPreMarket, SessionMorningTrade, SessionPreAfternoon, SessionAfternoonTrade}"

definition IsTradingWindow :: "trade_time \<Rightarrow> int \<Rightarrow> bool" where
  "IsTradingWindow tt now \<longleftrightarrow> weekday_window (FullOpen tt) (TradeClose tt) now"

definition BeforeOpenTrade :: "int \<Rightarrow> bool" where
  "BeforeOpenTrade now \<longleftrightarrow> weekend (cn_day now) \<or> cn_hhmm now < 930"

definition IsContinuousTrade :: "trade_time \<Rightarrow> int \<Rightarrow> bool" where
  "IsContinuousTrade tt now \<longleftrightarrow> weekday_window 930 1130 now \<or> weekday_window (AfternoonStart tt) 1457 now"

text \<open>The instant of a wall-clock time of a day in Shanghai.\<close>

definition cn_instant :: "int \<Rightarrow> int \<Rightarrow> int \<Rightarrow> int" where
  "cn_instant day h m = (day * 86400 + h * 3600 + m * 60 - cn_offset) * second"

fun next_open_from :: "trade_time \<Rightarrow> int \<Rightarrow> int list \<Rightarrow> int" where
  "next_open_from tt now [] = 0"
| "next_open_from tt now (i # is) =
     (if weekend (cn_day now + i) then next_open_from tt now is
      else let open = cn_instant (cn_day now + i) (TradeOpen tt div 100) (TradeOpen tt mod 100)
           in if now < open then time_sub open now
              else if i = 0 \<and> cn_hhmm now < TradeClose tt then 0
              else next_open_from tt now is)"

definition NextTradeOpen :: "trade_time \<Rightarrow> int \<Rightarrow> int" where
  "NextTradeOpen tt now = next_open_from tt now [0 .. 6]"

section \<open>The trading calendar\<close>

record calendar =
  closedDays :: "string list"
  calLoaded :: bool

definition empty_calendar :: calendar where
  "empty_calendar = \<lparr>closedDays = [], calLoaded = False\<rparr>"

definition SetClosedDays :: "string list \<Rightarrow> calendar" where
  "SetClosedDays dates = \<lparr>closedDays = filter (\<lambda>d. length d = 8) dates, calLoaded = True\<rparr>"

definition isClosedDay :: "calendar \<Rightarrow> string \<Rightarrow> bool" where
  "isClosedDay cal d \<longleftrightarrow> d \<in> set (closedDays cal)"

definition ClosedDayCount :: "calendar \<Rightarrow> nat" where
  "ClosedDayCount cal = length (remdups (closedDays cal))"

text \<open>No trading on that day: a weekend or a closed day.\<close>

definition no_trading :: "calendar \<Rightarrow> int \<Rightarrow> bool" where
  "no_trading cal n \<longleftrightarrow> weekend n \<or> isClosedDay cal (format_compact n)"

definition IsTradingDay :: "calendar \<Rightarrow> int \<Rightarrow> bool" where
  "IsTradingDay cal t \<longleftrightarrow> \<not> no_trading cal (cn_day t)"

definition TradingDayDate :: "calendar \<Rightarrow> int \<Rightarrow> string option" where
  "TradingDayDate cal now = map_option format_compact (while_option (no_trading cal) (\<lambda>n. n - 1) (cn_day now))"

definition add_step :: "calendar \<Rightarrow> int \<times> int \<Rightarrow> int \<times> int" where
  "add_step cal s = (case s of (t, added) \<Rightarrow> (t + 1, if no_trading cal (t + 1) then added else added + 1))"

definition AddTradingDays :: "calendar \<Rightarrow> string \<Rightarrow> int \<Rightarrow> string option" where
  "AddTradingDays cal td n = (case parse_compact td of
     None \<Rightarrow> Some td
   | Some t \<Rightarrow> map_option (\<lambda>(t, _). format_compact t) (while_option (\<lambda>(_, added). added < n) (add_step cal) (t, 0)))"

fun next_session_from :: "calendar \<Rightarrow> int \<Rightarrow> int list \<Rightarrow> int" where
  "next_session_from cal now [] = 15 * minute"
| "next_session_from cal now (i # is) =
     (if no_trading cal (cn_day now + i) then next_session_from cal now is
      else let start = cn_instant (cn_day now + i) 8 30
           in if now < start then time_sub start now else next_session_from cal now is)"

definition DurationToNextActiveSession :: "calendar \<Rightarrow> int \<Rightarrow> int" where
  "DurationToNextActiveSession cal now = next_session_from cal now [0 .. 14]"

section \<open>The NYSE calendar\<close>

text \<open>Go's \<open>%\<close> and \<open>/\<close> agree with \<open>mod\<close> and \<open>div\<close> here: no operand is negative for a year from 0 on.\<close>

definition easter_core :: "int \<Rightarrow> int \<times> int \<times> int" where
  "easter_core year =
     (let a = year mod 19; b = year div 100; c = year mod 100; d = b div 4; e = b mod 4;
          f = (b + 8) div 25; g = (b - f + 1) div 3; h = (19 * a + b - d - g + 15) mod 30;
          i = c div 4; k = c mod 4; l = (32 + 2 * e + 2 * i - h - k) mod 7
      in (a, h, l))"

definition easterSunday :: "int \<Rightarrow> int" where
  "easterSunday year = (case easter_core year of (a, h, l) \<Rightarrow>
     (let m = (a + 7 * h + 4 * l + 15) div 400;
          month = (h + l - 7 * m + 21) div 31 + 3; day = (h + l - 7 * m + 21) mod 31 + 1
      in date year month day))"

definition nthWeekdayDate :: "int \<Rightarrow> int \<Rightarrow> int \<Rightarrow> int \<Rightarrow> int" where
  "nthWeekdayDate year month wd n =
     (let first = date year month 1; offset = (wd - weekday first + 7) mod 7 in first + (offset + 7 * (n - 1)))"

definition lastWeekdayDate :: "int \<Rightarrow> int \<Rightarrow> int \<Rightarrow> int" where
  "lastWeekdayDate year month wd =
     (let last = date year (month + 1) 1 - 1; diff = (weekday last - wd + 7) mod 7 in last - diff)"

definition usFixedHoliday :: "int \<Rightarrow> int \<Rightarrow> int \<Rightarrow> bool \<Rightarrow> int option" where
  "usFixedHoliday year m dm satShift =
     (if m = 6 \<and> dm = 19 \<and> year < 2021 then None
      else let t = date year m dm
           in if weekday t = 6 then (if satShift then Some (t - 1) else None)
              else if weekday t = 0 then Some (t + 1)
              else Some t)"

definition opt_list :: "'a option \<Rightarrow> 'a list" where
  "opt_list x = (case x of None \<Rightarrow> [] | Some a \<Rightarrow> [a])"

definition usHolidays :: "int \<Rightarrow> int list" where
  "usHolidays year =
     opt_list (usFixedHoliday year 1 1 False) @ [nthWeekdayDate year 1 1 3] @ [nthWeekdayDate year 2 1 3] @
     [easterSunday year - 2] @ [lastWeekdayDate year 5 1] @ opt_list (usFixedHoliday year 6 19 True) @
     opt_list (usFixedHoliday year 7 4 False) @ [nthWeekdayDate year 9 1 1] @ [nthWeekdayDate year 11 4 4] @
     opt_list (usFixedHoliday year 12 25 False)"

text \<open>Only month and day are compared, within the year's table.\<close>

definition usMarketHoliday :: "int \<Rightarrow> bool" where
  "usMarketHoliday n = (case civil n of (y, mo, d) \<Rightarrow>
     list_ex (\<lambda>h. case civil h of (_, hm, dm) \<Rightarrow> hm = mo \<and> dm = d) (usHolidays y))"

definition usMarketHalfDay :: "int \<Rightarrow> bool" where
  "usMarketHalfDay n = (case civil n of (y, mo, d) \<Rightarrow>
     if mo = 7 then (if d \<noteq> 3 \<or> weekend n then False else usFixedHoliday y 7 4 False \<noteq> None)
     else if mo = 11 then
       (let tg = nthWeekdayDate y 11 4 4 in weekday n = 5 \<and> d = snd (snd (civil (tg + 1))))
     else if mo = 12 then (if d \<noteq> 24 \<or> weekend n then False else usFixedHoliday y 12 25 False \<noteq> None)
     else False)"

definition usMarketClose :: "int \<Rightarrow> int option" where
  "usMarketClose n = (if weekend n then None else if usMarketHoliday n then None
     else if usMarketHalfDay n then Some 1300 else Some 1600)"

section \<open>The rule per market\<close>

datatype session_rule = CnRule | CryptoRule | UsRule string

definition Session :: "string \<Rightarrow> session_rule" where
  "Session market = (let k = NormalizeMarketKey market
     in if k = ''CRYPTO'' then CryptoRule else if k = ''US'' then UsRule ''RTH'' else CnRule)"

definition SessionUS :: "string \<Rightarrow> session_rule" where
  "SessionUS tradingSession = (let w = to_upper (trim_space tradingSession)
     in UsRule (if w = ''RTH'' \<or> w = ''EXTENDED'' \<or> w = ''24H'' then w else ''RTH''))"

text \<open>What the rules read: window table, calendar, and the New York offset.\<close>

record clock_env =
  env_tt :: trade_time
  env_cal :: calendar
  env_ny :: "int \<Rightarrow> int"

definition ny_day :: "clock_env \<Rightarrow> int \<Rightarrow> int" where
  "ny_day env t = local_day (env_ny env t) t"

fun Active :: "clock_env \<Rightarrow> session_rule \<Rightarrow> int \<Rightarrow> bool" where
  "Active env CnRule t = IsActiveSession (env_tt env) t"
| "Active env CryptoRule t = True"
| "Active env (UsRule window) t =
     (if window = ''24H'' then True
      else case usMarketClose (ny_day env t) of
        None \<Rightarrow> False
      | Some close \<Rightarrow>
          (let m = hhmm (env_ny env t) t
           in if window = ''EXTENDED'' then 400 \<le> m \<and> m < (if close = 1300 then 1700 else 2000)
              else 930 \<le> m \<and> m < close))"

fun TradingDay :: "clock_env \<Rightarrow> session_rule \<Rightarrow> int \<Rightarrow> bool" where
  "TradingDay env CnRule t = IsTradingDay (env_cal env) t"
| "TradingDay env CryptoRule t = True"
| "TradingDay env (UsRule window) t = (usMarketClose (ny_day env t) \<noteq> None)"

text \<open>The offset of the market's zone at an instant.\<close>

fun Loc :: "clock_env \<Rightarrow> session_rule \<Rightarrow> int \<Rightarrow> int" where
  "Loc env CnRule t = cn_offset"
| "Loc env CryptoRule t = 0"
| "Loc env (UsRule window) t = env_ny env t"

fun CloseSweepHHMM :: "session_rule \<Rightarrow> int" where
  "CloseSweepHHMM CnRule = 1452"
| "CloseSweepHHMM CryptoRule = - 1"
| "CloseSweepHHMM (UsRule window) = - 1"

end
