(* ===== verification/SessionFacts.thy ===== *)
theory SessionFacts
  imports Sessions
begin

text \<open>
  What the sessions promise: the walks over days end and find the right day, the windows of a market
  are nested, and where the rule-based NYSE calendar agrees with the computus.
\<close>

section \<open>An open day is never far\<close>

lemma weekday_Suc7: "weekday (n + 7 * k) = weekday n"
  by (simp add: weekday_def mod_mult_self2 algebra_simps)
     (metis (no_types, lifting) add.assoc add.commute mod_mult_self2 mult.commute)

text \<open>The Wednesday of the seven days that end in \<open>n\<close>.\<close>

definition wednesday :: "int \<Rightarrow> int" where
  "wednesday n = n - (weekday n - 3) mod 7"

lemma wednesday_props: "wednesday n \<le> n" "n - 6 \<le> wednesday n" "\<not> weekend (wednesday n)"
proof -
  show "wednesday n \<le> n" by (simp add: wednesday_def)
  have "(weekday n - 3) mod 7 \<le> 6" using pos_mod_bound [of 7 "weekday n - 3"] by simp
  then show "n - 6 \<le> wednesday n" by (simp add: wednesday_def)
  have "weekday (wednesday n) = 3" unfolding wednesday_def weekday_def by presburger
  then show "\<not> weekend (wednesday n)" by (simp add: weekend_def)
qed

text \<open>
  Among \<open>7 * (k + 1)\<close> consecutive days with texts of their own, \<open>k\<close> closed days cannot cover every
  weekday.
\<close>

lemma open_day_exists:
  assumes "\<And>i. 0 \<le> i \<Longrightarrow> i < 7 * (int (length (closedDays cal)) + 1) \<Longrightarrow> four_digit_year (n - i)"
  shows "\<exists>i. 0 \<le> i \<and> i < 7 * (int (length (closedDays cal)) + 1) \<and> \<not> no_trading cal (n - i)"
proof (rule ccontr)
  let ?L = "length (closedDays cal)"
  assume none: "\<not> ?thesis"
  define w where "w j = wednesday (n - 7 * int j)" for j :: nat
  have w: "n - w j < 7 * (int ?L + 1)" "0 \<le> n - w j" "\<not> weekend (w j)" if "j \<le> ?L" for j
    using wednesday_props [of "n - 7 * int j"] that by (auto simp: w_def)
  have four: "four_digit_year (w j)" if "j \<le> ?L" for j
    using assms [OF w(2,1) [OF that]] by simp
  have closed: "format_compact (w j) \<in> set (closedDays cal)" if "j \<le> ?L" for j
    using none w [OF that] by (fastforce simp: no_trading_def isClosedDay_def dest: spec [of _ "n - w j"])
  have lt: "w k < w j" if "j < k" for j k
    using wednesday_props [of "n - 7 * int j"] wednesday_props [of "n - 7 * int k"] that by (simp add: w_def)
  have "inj_on (\<lambda>j. format_compact (w j)) {0..?L}"
  proof (rule inj_onI)
    fix j k assume jk: "j \<in> {0..?L}" "k \<in> {0..?L}" "format_compact (w j) = format_compact (w k)"
    then have "w j = w k" using four format_compact_inj by simp
    then show "j = k" using lt [of j k] lt [of k j] by (cases j k rule: linorder_cases) auto
  qed
  then have "card {0..?L} \<le> card (set (closedDays cal))"
    using closed by (intro card_inj_on_le [of "\<lambda>j. format_compact (w j)"]) auto
  then show False using card_length [of "closedDays cal"] by simp
qed

lemma walk_back:
  assumes "\<not> P (n - int k)"
  shows "\<exists>m. while_option P (\<lambda>n. n - 1) n = Some m \<and> n - int k \<le> m \<and> m \<le> n \<and> \<not> P m \<and> (\<forall>j. m < j \<and> j \<le> n \<longrightarrow> P j)"
  using assms
proof (induction k arbitrary: n)
  case 0
  then show ?case by (subst while_option_unfold) (auto intro: exI [of _ n])
next
  case (Suc k)
  show ?case
  proof (cases "P n")
    case True
    have "\<not> P ((n - 1) - int k)" using Suc.prems by (simp add: algebra_simps)
    then obtain m where m: "while_option P (\<lambda>n. n - 1) (n - 1) = Some m" "n - 1 - int k \<le> m" "m \<le> n - 1"
      "\<not> P m" "\<forall>j. m < j \<and> j \<le> n - 1 \<longrightarrow> P j" using Suc.IH by blast
    have "while_option P (\<lambda>n. n - 1) n = Some m" using m(1) True by (subst while_option_unfold) simp
    moreover have "P j" if "m < j" "j \<le> n" for j using m(5) that True by (cases "j = n") auto
    ultimately show ?thesis using m by (intro exI [of _ m]) auto
  next
    case False
    then show ?thesis by (subst while_option_unfold) (auto intro: exI [of _ n])
  qed
qed

text \<open>C10: the trading date of an instant is always found: the walk back over weekends and closed days
  ends within \<open>7 * (k + 1)\<close> days for \<open>k\<close> closed days, at the latest trading day not after the instant's
  day (within the years that have four digits).\<close>

theorem trading_day_date_found:
  assumes "\<And>i. 0 \<le> i \<Longrightarrow> i < 7 * (int (length (closedDays cal)) + 1) \<Longrightarrow> four_digit_year (cn_day now - i)"
  shows "\<exists>m. TradingDayDate cal now = Some (format_compact m) \<and> m \<le> cn_day now \<and>
      cn_day now - m < 7 * (int (length (closedDays cal)) + 1) \<and> \<not> no_trading cal m \<and>
      (\<forall>j. m < j \<and> j \<le> cn_day now \<longrightarrow> no_trading cal j)"
proof -
  obtain i where i: "0 \<le> i" "i < 7 * (int (length (closedDays cal)) + 1)" "\<not> no_trading cal (cn_day now - i)"
    using open_day_exists [of cal "cn_day now"] assms by blast
  then have "\<not> no_trading cal (cn_day now - int (nat i))" by simp
  then obtain m where m: "while_option (no_trading cal) (\<lambda>n. n - 1) (cn_day now) = Some m" "cn_day now - int (nat i) \<le> m"
    "m \<le> cn_day now" "\<not> no_trading cal m" "\<forall>j. m < j \<and> j \<le> cn_day now \<longrightarrow> no_trading cal j"
    using walk_back by blast
  then show ?thesis using i by (intro exI [of _ m]) (simp add: TradingDayDate_def)
qed

section \<open>Adding trading days\<close>

definition trading_days :: "calendar \<Rightarrow> int \<Rightarrow> int \<Rightarrow> nat" where
  "trading_days cal a b = card {j. a < j \<and> j \<le> b \<and> \<not> no_trading cal j}"

lemma trading_days_next:
  assumes "a \<le> b"
  shows "trading_days cal a (b + 1) = trading_days cal a b + (if no_trading cal (b + 1) then 0 else 1)"
proof -
  have "{j. a < j \<and> j \<le> b + 1 \<and> \<not> no_trading cal j} =
      (if no_trading cal (b + 1) then {j. a < j \<and> j \<le> b \<and> \<not> no_trading cal j}
       else insert (b + 1) {j. a < j \<and> j \<le> b \<and> \<not> no_trading cal j})"
    using assms by (auto simp: zle_add1_eq_le order_le_less)
  moreover have "finite {j. a < j \<and> j \<le> b \<and> \<not> no_trading cal j}"
    by (rule finite_subset [of _ "{a..b}"]) auto
  ultimately show ?thesis by (simp add: trading_days_def)
qed

lemma trading_days_self [simp]: "trading_days cal a a = 0"
proof -
  have "{j. a < j \<and> j \<le> a \<and> \<not> no_trading cal j} = {}" by auto
  then show ?thesis by (simp only: trading_days_def card.empty)
qed

text \<open>when the walk forward returns for a well-formed start date, exactly \<open>n\<close> trading days lie after
  the start and up to the result; and it does return whenever there are \<open>n\<close> open days ahead.\<close>

theorem add_trading_days_counts:
  assumes "parse_compact td = Some a" "0 \<le> n" "int (trading_days cal a (a + int k)) \<ge> n"
  shows "\<exists>b. AddTradingDays cal td n = Some (format_compact b) \<and> a \<le> b \<and> b \<le> a + int k \<and> int (trading_days cal a b) = n"
proof -
  let ?b = "\<lambda>(_, added). added < n"
  have run: "\<exists>b. while_option ?b (add_step cal) (t, c) = Some (b, n) \<and> a \<le> b \<and> b \<le> a + int k \<and> int (trading_days cal a b) = n"
    if "a \<le> t" "t + int i = a + int k" "c = int (trading_days cal a t)" "c \<le> n" for t c i
    using that
  proof (induction i arbitrary: t c)
    case 0
    then have "c = n" using assms(3) by simp
    then show ?case using 0 by (subst while_option_unfold) (auto intro: exI [of _ t])
  next
    case (Suc i)
    show ?case
    proof (cases "c < n")
      case True
      let ?c = "if no_trading cal (t + 1) then c else c + 1"
      have "while_option ?b (add_step cal) (t, c) = while_option ?b (add_step cal) (t + 1, ?c)"
        using True by (subst while_option_unfold) (simp add: add_step_def)
      moreover have "\<exists>b. while_option ?b (add_step cal) (t + 1, ?c) = Some (b, n) \<and> a \<le> b \<and> b \<le> a + int k \<and> int (trading_days cal a b) = n"
        using Suc.prems True by (intro Suc.IH) (auto simp: trading_days_next)
      ultimately show ?thesis by simp
    next
      case False
      then show ?thesis using Suc.prems by (subst while_option_unfold) (auto intro!: exI [of _ t])
    qed
  qed
  have "\<exists>b. while_option ?b (add_step cal) (a, 0) = Some (b, n) \<and> a \<le> b \<and> b \<le> a + int k \<and> int (trading_days cal a b) = n"
    using assms(2) by (intro run [of a k]) auto
  then show ?thesis using assms(1) by (auto simp: AddTradingDays_def)
qed

section \<open>Sessions\<close>

definition sane_windows :: "trade_time \<Rightarrow> bool" where
  "sane_windows tt \<longleftrightarrow> 830 \<le> FullOpen tt \<and> FullOpen tt \<le> 930 \<and> 1130 \<le> AfternoonStart tt \<and> 1457 \<le> TradeClose tt \<and>
     AfternoonStart tt \<le> TradeClose tt"

text \<open>with windows in their natural order the A-share session is active exactly on weekdays from 08:30 to
  the close, and whoever may trade continuously is in the active session.\<close>

lemma cn_active_window:
  assumes "sane_windows tt"
  shows "(IsActiveSession tt now \<longleftrightarrow> \<not> weekend (cn_day now) \<and> 830 \<le> cn_hhmm now \<and> cn_hhmm now < TradeClose tt) \<and>
    (IsContinuousTrade tt now \<longrightarrow> IsActiveSession tt now)"
  using assms
  by (auto simp: IsActiveSession_def CurrentSession_def IsContinuousTrade_def weekday_window_def sane_windows_def Let_def)

text \<open>the regular US session lies in the extended one, that in the day of the 24-hour session, only
  the last trades on a day that is no trading day, and no regular session runs past the close of its day.\<close>

lemma us_windows_nested:
  "(Active env (UsRule ''RTH'') t \<longrightarrow> Active env (UsRule ''EXTENDED'') t \<and> TradingDay env (UsRule ''RTH'') t \<and>
      (\<exists>close. usMarketClose (ny_day env t) = Some close \<and> 930 \<le> hhmm (env_ny env t) t \<and> hhmm (env_ny env t) t < close)) \<and>
   (Active env (UsRule ''EXTENDED'') t \<longrightarrow> Active env (UsRule ''24H'') t \<and> TradingDay env (UsRule ''EXTENDED'') t)"
  by (auto simp: Let_def usMarketClose_def split: option.splits if_splits)

section \<open>The computus\<close>

text \<open>The anonymous Gregorian computus (Meeus, Jones, Butcher), whose correction term the code replaces.\<close>

definition computus :: "int \<Rightarrow> int" where
  "computus year = (case easter_core year of (a, h, l) \<Rightarrow>
     (let m = (a + 11 * h + 22 * l) div 451;
          month = (h + l - 7 * m + 114) div 31; day = (h + l - 7 * m + 114) mod 31 + 1
      in date year month day))"

text \<open>Both give the day \<open>s + 22\<close> of March, counted on into April, for their own \<open>s = h + l - 7 * m\<close>.\<close>

definition code_s :: "int \<Rightarrow> int" where
  "code_s year = (case easter_core year of (a, h, l) \<Rightarrow> h + l - 7 * ((a + 7 * h + 4 * l + 15) div 400))"

definition computus_s :: "int \<Rightarrow> int" where
  "computus_s year = (case easter_core year of (a, h, l) \<Rightarrow> h + l - 7 * ((a + 11 * h + 22 * l) div 451))"

definition of_march :: "int \<Rightarrow> int \<Rightarrow> int" where
  "of_march year s = date year ((s + 21) div 31 + 3) ((s + 21) mod 31 + 1)"

lemma easter_of_march: "easterSunday y = of_march y (code_s y)"
  by (cases "easter_core y") (simp only: easterSunday_def of_march_def code_s_def Let_def prod.case)

lemma computus_of_march: "computus y = of_march y (computus_s y)"
proof -
  have sh: "(s + 114) div 31 = (s + 21) div 31 + 3 \<and> (s + 114) mod 31 = (s + 21) mod 31" for s :: int
  proof -
    have "s + 114 = (s + 21) + 31 * 3" by simp
    then show ?thesis by (simp only: div_mult_self2 mod_mult_self2 add.commute)
  qed
  obtain a h l where c: "easter_core y = (a, h, l)" by (cases "easter_core y")
  show ?thesis
    using sh [of "h + l - 7 * ((a + 11 * h + 22 * l) div 451)"]
    by (simp only: computus_def of_march_def computus_s_def Let_def prod.case c)
qed

lemma date_march_april:
  "date y 3 d = day_number y 3 1 + (d - 1)" "date y 4 d = day_number y 3 1 + 31 + (d - 1)"
  by (simp_all add: date_def day_number_def month_lengths_def numeral_3_eq_3 numeral_2_eq_2)

lemma of_march_shift:
  assumes "0 \<le> s + 21" "s + 21 < 62"
  shows "of_march y s = day_number y 3 1 + (s + 21)"
proof (cases "s + 21 < 31")
  case True
  then have "(s + 21) div 31 = 0" "(s + 21) mod 31 = s + 21" using assms by simp_all
  then show ?thesis by (simp add: of_march_def date_march_april)
next
  case False
  then have "(s + 21) div 31 = 1" by (intro int_div_pos_eq [where r = "s - 10"]) (use assms in auto)
  moreover from this have "(s + 21) mod 31 = s - 10" by (simp add: minus_div_mult_eq_mod [symmetric])
  ultimately show ?thesis by (simp add: of_march_def date_march_april)
qed

definition late_years :: "int list" where
  "late_years = [1954, 1981, 2049, 2076, 2106, 2133]"

definition easter_row :: "int \<Rightarrow> bool" where
  "easter_row y = (let s = code_s y; t = computus_s y
     in 0 \<le> t + 21 \<and> s + 21 < 62 \<and> s = t + (if List.member late_years y then 7 else 0))"

lemma easter_table:
  "list_all easter_row [1900..1949]" "list_all easter_row [1950..1999]" "list_all easter_row [2000..2049]"
  "list_all easter_row [2050..2099]" "list_all easter_row [2100..2149]" "list_all easter_row [2150..2199]"
  by code_simp+

text \<open>C11: in the years 1900 to 2199, for which the code claims its Easter rule, it gives the computus except in
  1954, 1981, 2049, 2076, 2106 and 2133, where Easter (and with it the Good Friday on which the exchange
  is taken to be closed) comes out a week late.\<close>

theorem easter_agreement:
  "\<forall>y \<in> {1900..2199}. easterSunday y = computus y + (if y \<in> {1954, 1981, 2049, 2076, 2106, 2133} then 7 else 0)"
proof
  fix y :: int
  assume "y \<in> {1900..2199}"
  then have "y \<in> {1900..1949} \<or> y \<in> {1950..1999} \<or> y \<in> {2000..2049} \<or> y \<in> {2050..2099} \<or> y \<in> {2100..2149} \<or> y \<in> {2150..2199}"
    unfolding atLeastAtMost_iff by linarith
  then have row: "easter_row y" using easter_table unfolding list_all_iff set_upto by blast
  have M: "List.member late_years y \<longleftrightarrow> y \<in> {1954, 1981, 2049, 2076, 2106, 2133}"
    by (auto simp: late_years_def)
  have T: "0 \<le> computus_s y + 21 \<and> code_s y + 21 < 62 \<and>
    code_s y = computus_s y + (if y \<in> {1954, 1981, 2049, 2076, 2106, 2133} then 7 else 0)"
    using row unfolding easter_row_def Let_def M .
  note t = T [THEN conjunct1] T [THEN conjunct2, THEN conjunct1] T [THEN conjunct2, THEN conjunct2]
  have "0 \<le> code_s y + 21" "computus_s y + 21 < 62" using t by (simp_all split: if_splits)
  then show "easterSunday y = computus y + (if y \<in> {1954, 1981, 2049, 2076, 2106, 2133} then 7 else 0)"
    using t by (simp only: easter_of_march computus_of_march of_march_shift)
qed

text \<open>Independence Day 2026 falls on a Saturday; the code lets Friday the third of July trade a full
  day, where the exchange observes the holiday, as it did on 2020-07-03 and on 2021-12-24 for Christmas.\<close>

lemma saturday_holiday_trades:
  "usMarketClose (date 2026 7 3) = Some 1600 \<and> usMarketClose (date 2020 7 3) = Some 1600 \<and>
   usMarketClose (date 2021 12 24) = Some 1600"
  by code_simp

section \<open>Witnesses\<close>

theorem trading_day_date_found_witness:
  "\<exists>m. TradingDayDate (SetClosedDays [''20240501'']) (cn_instant 19844 10 0) = Some (format_compact m) \<and> m \<le> 19844"
proof -
  have d: "cn_day (cn_instant 19844 10 0) = 19844" by code_simp
  have l: "length (closedDays (SetClosedDays [''20240501''])) = 1" by (simp add: SetClosedDays_def)
  have "list_all (\<lambda>i. four_digit_year (19844 - i)) [0..13]" by code_simp
  then have "four_digit_year (19844 - i)" if "0 \<le> i" "i < 14" for i
    using that by (simp add: list_all_iff)
  then show ?thesis
    using trading_day_date_found [of "SetClosedDays [''20240501'']" "cn_instant 19844 10 0"] unfolding d l by auto
qed

theorem add_trading_days_counts_witness:
  "\<exists>b. AddTradingDays empty_calendar ''20240430'' 1 = Some (format_compact b) \<and> int (trading_days empty_calendar 19843 b) = 1"
proof -
  have p: "parse_compact ''20240430'' = Some 19843" by code_simp
  have "\<not> no_trading empty_calendar 19844" by (simp add: no_trading_def isClosedDay_def empty_calendar_def weekend_def weekday_def)
  then have "trading_days empty_calendar 19843 (19843 + int 1) = 1"
    using trading_days_next [of 19843 19843 empty_calendar] by simp
  then show ?thesis using add_trading_days_counts [OF p, of 1 empty_calendar 1] by auto
qed

theorem easter_agreement_witness: "easterSunday 1981 = computus 1981 + 7"
  using bspec [OF easter_agreement, of 1981] by simp

end
