(* ===== verification/SellDiscipline.thy ===== *)
theory SellDiscipline
  imports GoTime Config
begin

text \<open>
  The sell discipline of \<open>internal/signalctl/sell.go\<close>: which line a position has touched, the fixed
  observation window it then sits in, the extension while a live long signal persists, and the disposal
  that is confirmed when the window settles. A texts' format arguments are kept (\<open>sell_reason\<close>), the
  text itself is not. An instant is in nanoseconds; \<open>zero_time\<close> is Go's zero \<open>time.Time\<close>. \<open>z\<close> is the offset
  of the zone the caller's clock is in.
\<close>

datatype sell_line = SellLineNone | SellLineStopLoss | SellLineTakeProfit | SellLineTrail | SellLineDeepBreach

datatype sell_action = SellActionClose | SellActionTrim

definition zero_time :: int where
  "zero_time = - 62135596800 * second"

record signal_fresh =
  sf_Active :: bool
  sf_At :: int

record bear_confirm =
  bc_Hit :: bool
  bc_Verified :: string

definition BearVerifiedDual :: string where
  "BearVerifiedDual = ''dual''"

record sell_input =
  in_Code :: string
  in_EntryPrice :: f64
  in_HighPrice :: f64
  in_CurPrice :: f64
  in_Bull :: signal_fresh
  in_Bear :: bear_confirm
  in_Evidence :: "string list"

text \<open>The texts of the source, with what they print.\<close>

datatype sell_reason =
    HardBearExit string
  | TakeProfitHeld
  | EnteredWindow sell_line f64 int string
  | WaitingInWindow int
  | DeepSettled string
  | Extended int int string
  | ProfitSettled string
  | StopTrimmed string
  | StopSettled string
  | ReplayProfit string
  | ReplayDeep string
  | ReplayTrim string
  | ReplayStop string

record sell_disposal =
  sd_Code :: string
  sd_Action :: sell_action
  sd_Reason :: sell_reason
  sd_Line :: sell_line
  sd_PnlPct :: f64
  sd_At :: int
  sd_Shadow :: bool

record sell_state =
  ss_Line :: sell_line
  ss_FirstTouch :: int
  ss_SettleStart :: int
  ss_WindowMin :: int
  ss_Settled :: bool
  ss_Confirmed :: bool
  ss_ConfirmedAction :: "sell_action option"
  ss_HighPrice :: f64
  ss_Extends :: int

record sell_params =
  sp_sl :: f64
  sp_tp :: f64
  sp_pb :: f64
  sp_dm :: f64
  sp_exitMin :: int
  sp_trailMin :: int
  sp_bullMaxAge :: int

definition sellParamsOf :: "discipline_config \<Rightarrow> sell_params" where
  "sellParamsOf cfg =
     \<lparr>sp_sl = (if 0 < StopLossPct cfg then StopLossPct cfg else Fin 6),
      sp_tp = (if 0 < TakeProfitPct cfg then TakeProfitPct cfg else Fin 15),
      sp_pb = (if 0 < MaxPullbackPct cfg then MaxPullbackPct cfg else Fin 6),
      sp_dm = (if 0 < DeepStopMult cfg then DeepStopMult cfg else Fin 2),
      sp_exitMin = (if 0 < ExitConfirmMin cfg then ExitConfirmMin cfg else 15),
      sp_trailMin = (if 0 < TrailConfirmMin cfg then TrailConfirmMin cfg else 45),
      sp_bullMaxAge = (if 0 < SellSignalMaxAgeSec cfg then wrap64 (SellSignalMaxAgeSec cfg * second) else 5 * minute)\<rparr>"

definition bullLive :: "sell_input \<Rightarrow> int \<Rightarrow> sell_params \<Rightarrow> bool" where
  "bullLive i now p \<longleftrightarrow> sf_Active (in_Bull i) \<and>
     (sf_At (in_Bull i) = zero_time \<or> time_sub now (sf_At (in_Bull i)) \<le> sp_bullMaxAge p)"

definition bearHard :: "sell_input \<Rightarrow> bool" where
  "bearHard i \<longleftrightarrow> bc_Hit (in_Bear i) \<and> bc_Verified (in_Bear i) = BearVerifiedDual"

definition evidenceSuffix :: "string list \<Rightarrow> string" where
  "evidenceSuffix evi = concat (map (\<lambda>e. if e = [] then [] else [CHR 0xEF, CHR 0xBC, CHR 0x9B] @ e) evi)"

definition firstOf :: "sell_line \<Rightarrow> sell_line \<Rightarrow> sell_line" where
  "firstOf cur detected = (if cur \<noteq> SellLineNone then cur else detected)"

text \<open>
  The grid of windows anchored at 09:30. \<open>int(d.Minutes())\<close> of a non-negative duration is its number
  of whole minutes (the float is exact enough not to round up); a negative one counts as 0.
\<close>

definition alignSettleSell :: "int \<Rightarrow> int \<Rightarrow> int \<Rightarrow> int" where
  "alignSettleSell z t winMin =
     (let win = (if winMin \<le> 0 then 15 else winMin);
          base = (local_day z t * 86400 + 9 * 3600 + 30 * 60 - z) * second;
          off = max 0 (time_sub t base div minute);
          next = wrap64 ((off div win + 1) * win)
      in base + wrap64 (next * minute))"

definition confirmedReplay :: "sell_state \<Rightarrow> string \<Rightarrow> f64 \<Rightarrow> int \<Rightarrow> sell_params \<Rightarrow> string \<Rightarrow> sell_disposal" where
  "confirmedReplay st code pnl now p evi =
     (let action = (case ss_ConfirmedAction st of Some a \<Rightarrow> a
            | None \<Rightarrow> if ss_Line st = SellLineStopLoss \<and> - Fin 2 * sp_sl p < pnl then SellActionTrim else SellActionClose);
          reason = (if ss_Line st = SellLineTakeProfit \<or> ss_Line st = SellLineTrail then ReplayProfit evi
            else if ss_Line st = SellLineDeepBreach then ReplayDeep evi
            else if action = SellActionTrim then ReplayTrim evi else ReplayStop evi)
      in \<lparr>sd_Code = code, sd_Action = action, sd_Reason = reason, sd_Line = ss_Line st, sd_PnlPct = pnl, sd_At = now, sd_Shadow = False\<rparr>)"

definition new_sell_state :: "f64 \<Rightarrow> sell_state" where
  "new_sell_state high = \<lparr>ss_Line = SellLineNone, ss_FirstTouch = zero_time, ss_SettleStart = zero_time, ss_WindowMin = 0,
     ss_Settled = False, ss_Confirmed = False, ss_ConfirmedAction = None, ss_HighPrice = high, ss_Extends = 0\<rparr>"

text \<open>How far the price is below the high, in percent; the profit in percent.\<close>

definition pullback :: "sell_state \<Rightarrow> sell_input \<Rightarrow> f64" where
  "pullback st i = (ss_HighPrice st - in_CurPrice i) / ss_HighPrice st * Fin 100"

definition pnl_pct :: "sell_input \<Rightarrow> f64" where
  "pnl_pct i = (in_CurPrice i - in_EntryPrice i) / in_EntryPrice i * Fin 100"

text \<open>The state a probe starts from: created or with the high raised.\<close>

definition probed_state :: "sell_state option \<Rightarrow> sell_input \<Rightarrow> sell_state" where
  "probed_state prev i =
     (let st = (case prev of Some st \<Rightarrow> st
            | None \<Rightarrow> new_sell_state (if in_HighPrice i \<le> 0 then in_EntryPrice i else in_HighPrice i))
      in if ss_HighPrice st < in_CurPrice i then st\<lparr>ss_HighPrice := in_CurPrice i\<rparr> else st)"

definition close_at :: "sell_state \<Rightarrow> sell_input \<Rightarrow> sell_action \<Rightarrow> sell_reason \<Rightarrow> int \<Rightarrow> sell_disposal" where
  "close_at st i action reason now = \<lparr>sd_Code = in_Code i, sd_Action = action, sd_Reason = reason, sd_Line = ss_Line st,
     sd_PnlPct = pnl_pct i, sd_At = now, sd_Shadow = False\<rparr>"

definition confirm :: "sell_action \<Rightarrow> sell_state \<Rightarrow> sell_state" where
  "confirm action st = st\<lparr>ss_Settled := True, ss_Confirmed := True, ss_ConfirmedAction := Some action\<rparr>"

type_synonym probe_result = "sell_state \<times> sell_disposal option \<times> sell_reason option"

text \<open>The part from the touched line on: lock it, wait, settle.\<close>

definition settle_probe :: "int \<Rightarrow> sell_state \<Rightarrow> sell_input \<Rightarrow> int \<Rightarrow> sell_params \<Rightarrow> sell_line \<Rightarrow> probe_result" where
  "settle_probe z st i now p line =
     (let evi = evidenceSuffix (in_Evidence i)
      in if ss_Line st = SellLineNone then
           (if line = SellLineNone then (st, None, None)
            else let win = (if line = SellLineTrail then sp_trailMin p else sp_exitMin p)
              in (st\<lparr>ss_Line := line, ss_FirstTouch := now, ss_WindowMin := win, ss_SettleStart := alignSettleSell z now win\<rparr>,
                  None, Some (EnteredWindow line (pnl_pct i) win evi)))
         else let st = (if line = SellLineDeepBreach then st\<lparr>ss_Line := SellLineDeepBreach, ss_Settled := False, ss_Confirmed := False\<rparr> else st)
           in if now < ss_SettleStart st then (st, None, Some (WaitingInWindow (ss_SettleStart st)))
              else if ss_Line st = SellLineDeepBreach then
                (let st = confirm SellActionClose st in (st, Some (close_at st i SellActionClose (DeepSettled evi) now), None))
              else if bullLive i now p then
                (let st = st\<lparr>ss_Extends := ss_Extends st + 1, ss_SettleStart := ss_SettleStart st + wrap64 (ss_WindowMin st * minute)\<rparr>
                 in (st, None, Some (Extended (ss_Extends st) (ss_SettleStart st) evi)))
              else
                (let action = (if ss_Line st = SellLineStopLoss then SellActionTrim else SellActionClose);
                     reason = (if ss_Line st = SellLineTakeProfit \<or> ss_Line st = SellLineTrail then ProfitSettled evi
                       else if ss_Line st = SellLineStopLoss then StopTrimmed evi else StopSettled evi);
                     st = confirm action st
                 in (st, Some (close_at st i action reason now), None)))"

text \<open>\<open>sellProbe\<close>; \<open>None\<close> as state is Go's \<open>nil\<close>.\<close>

definition sellProbe ::
  "int \<Rightarrow> sell_state option \<Rightarrow> sell_input \<Rightarrow> int \<Rightarrow> sell_params \<Rightarrow> sell_state option \<times> sell_disposal option \<times> sell_reason option" where
  "sellProbe z prev i now p =
     (if in_EntryPrice i \<le> 0 \<or> in_CurPrice i \<le> 0 then (prev, None, None)
      else
        let st = probed_state prev i; pnl = pnl_pct i; live = bullLive i now p; evi = evidenceSuffix (in_Evidence i);
            trail0 = (\<lambda>line. if line = SellLineNone \<and> ss_Line st = SellLineNone \<and> in_EntryPrice i < ss_HighPrice st \<and> sp_pb p \<le> pullback st i
                       then SellLineTrail else line);
            go = (\<lambda>line. case settle_probe z st i now p (trail0 line) of (st, d, r) \<Rightarrow> (Some st, d, r))
        in if ss_Settled st \<and> ss_Confirmed st then (Some st, Some (confirmedReplay st (in_Code i) pnl now p evi), None)
           else if pnl \<le> - sp_sl p * sp_dm p then go SellLineDeepBreach
           else if pnl \<le> - sp_sl p then
             (if bearHard i then
                (let st = (confirm SellActionClose st)\<lparr>ss_Line := firstOf (ss_Line st) SellLineStopLoss\<rparr>
                 in (Some st, Some (close_at st i SellActionClose (HardBearExit evi) now), None))
              else go SellLineStopLoss)
           else if sp_tp p \<le> pnl then
             (if live then (Some st, None, Some TakeProfitHeld)
              else go (if 0 < ss_HighPrice st \<and> sp_pb p \<le> pullback st i then SellLineTrail else SellLineTakeProfit))
           else go SellLineNone)"

end
