(* ===== verification/SellFacts.thy ===== *)
theory SellFacts
  imports SellDiscipline Interfaces
begin

text \<open>
  What the sell discipline promises over a run of probes of one position: a confirmed action is final, no
  soft exit happens before its window has settled, and a deep breach is not talked out of its exit.
\<close>

section \<open>Cases of a probe\<close>

definition priced :: "sell_input \<Rightarrow> bool" where
  "priced i \<longleftrightarrow> \<not> in_EntryPrice i \<le> 0 \<and> \<not> in_CurPrice i \<le> 0"

lemma probed_fields [simp]:
  "ss_Line (probed_state (Some st) i) = ss_Line st" "ss_Settled (probed_state (Some st) i) = ss_Settled st"
  "ss_Confirmed (probed_state (Some st) i) = ss_Confirmed st" "ss_FirstTouch (probed_state (Some st) i) = ss_FirstTouch st"
  "ss_ConfirmedAction (probed_state (Some st) i) = ss_ConfirmedAction st"
  "ss_SettleStart (probed_state (Some st) i) = ss_SettleStart st" "ss_WindowMin (probed_state (Some st) i) = ss_WindowMin st"
  by (simp_all add: probed_state_def Let_def)

lemma probed_new [simp]:
  "ss_Line (probed_state None i) = SellLineNone" "\<not> ss_Confirmed (probed_state None i)"
  by (simp_all add: probed_state_def new_sell_state_def Let_def)

lemma sellProbe_cases:
  obtains (unpriced) "\<not> priced i" "sellProbe z prev i now p = (prev, None, None)"
  | (replay) "priced i" "ss_Settled (probed_state prev i)" "ss_Confirmed (probed_state prev i)"
      "sellProbe z prev i now p = (Some (probed_state prev i),
         Some (confirmedReplay (probed_state prev i) (in_Code i) (pnl_pct i) now p (evidenceSuffix (in_Evidence i))), None)"
  | (hard) st where "priced i" "bearHard i" "\<not> (ss_Settled (probed_state prev i) \<and> ss_Confirmed (probed_state prev i))"
      "st = (confirm SellActionClose (probed_state prev i))\<lparr>ss_Line := firstOf (ss_Line (probed_state prev i)) SellLineStopLoss\<rparr>"
      "sellProbe z prev i now p = (Some st, Some (close_at st i SellActionClose (HardBearExit (evidenceSuffix (in_Evidence i))) now), None)"
  | (held) "priced i" "bullLive i now p" "sp_tp p \<le> pnl_pct i" "\<not> (ss_Settled (probed_state prev i) \<and> ss_Confirmed (probed_state prev i))"
      "sellProbe z prev i now p = (Some (probed_state prev i), None, Some TakeProfitHeld)"
  | (settle) line st d r where "priced i" "\<not> (ss_Settled (probed_state prev i) \<and> ss_Confirmed (probed_state prev i))"
      "settle_probe z (probed_state prev i) i now p line = (st, d, r)" "sellProbe z prev i now p = (Some st, d, r)"
      "pnl_pct i \<le> - sp_sl p * sp_dm p \<Longrightarrow> line = SellLineDeepBreach"
proof -
  let ?st = "probed_state prev i" and ?pnl = "pnl_pct i"
  define tr where "tr = (\<lambda>line. if line = SellLineNone \<and> ss_Line ?st = SellLineNone \<and> in_EntryPrice i < ss_HighPrice ?st \<and> sp_pb p \<le> pullback ?st i
                       then SellLineTrail else line)"
  define go where "go = (\<lambda>line. case settle_probe z ?st i now p (tr line) of (st, d, r) \<Rightarrow> (Some st, d, r))"
  have go: thesis if e: "sellProbe z prev i now p = go line" and o: "priced i" "\<not> (ss_Settled ?st \<and> ss_Confirmed ?st)"
      and deep: "?pnl \<le> - sp_sl p * sp_dm p \<Longrightarrow> line = SellLineDeepBreach" for line
  proof -
    obtain st d r where w: "settle_probe z ?st i now p (tr line) = (st, d, r)" by (cases "settle_probe z ?st i now p (tr line)")
    show thesis by (rule settle [OF o w]) (use deep in \<open>simp_all add: e go_def w, simp add: tr_def\<close>)
  qed
  note body = sellProbe_def [of z prev i now p] Let_def go_def tr_def
  consider "\<not> priced i" | "priced i" "ss_Settled ?st \<and> ss_Confirmed ?st"
    | "priced i" "\<not> (ss_Settled ?st \<and> ss_Confirmed ?st)" "?pnl \<le> - sp_sl p * sp_dm p"
    | "priced i" "\<not> (ss_Settled ?st \<and> ss_Confirmed ?st)" "\<not> ?pnl \<le> - sp_sl p * sp_dm p" "?pnl \<le> - sp_sl p"
    | "priced i" "\<not> (ss_Settled ?st \<and> ss_Confirmed ?st)" "\<not> ?pnl \<le> - sp_sl p * sp_dm p" "\<not> ?pnl \<le> - sp_sl p" "sp_tp p \<le> ?pnl"
    | "priced i" "\<not> (ss_Settled ?st \<and> ss_Confirmed ?st)" "\<not> ?pnl \<le> - sp_sl p * sp_dm p" "\<not> ?pnl \<le> - sp_sl p" "\<not> sp_tp p \<le> ?pnl"
    by argo
  then show thesis
  proof cases
    case 1
    show thesis by (rule unpriced [OF 1]) (use 1 in \<open>auto simp: body priced_def\<close>)
  next
    case 2
    show thesis by (rule replay [OF 2(1)]) (use 2 in \<open>simp_all add: body priced_def\<close>)
  next
    case 3
    show thesis by (rule go [OF _ 3(1,2), of SellLineDeepBreach])
        (use 3 in \<open>auto simp: body priced_def\<close>)
  next
    case 4
    show thesis
    proof (cases "bearHard i")
      case True
      show thesis by (rule hard [OF 4(1) True 4(2) refl]) (use 4 True in \<open>auto simp: body priced_def\<close>)
    next
      case False
      show thesis by (rule go [OF _ 4(1,2), of SellLineStopLoss])
        (use 4 False in \<open>auto simp: body priced_def\<close>)
    qed
  next
    case 5
    show thesis
    proof (cases "bullLive i now p")
      case True
      show thesis by (rule held [OF 5(1) True 5(5,2)]) (use 5 True in \<open>auto simp: body priced_def\<close>)
    next
      case False
      show thesis by (rule go [OF _ 5(1,2), of "if 0 < ss_HighPrice ?st \<and> sp_pb p \<le> pullback ?st i then SellLineTrail else SellLineTakeProfit"])
          (use 5 False in \<open>auto simp: body priced_def\<close>)
    qed
  next
    case 6
    show thesis by (rule go [OF _ 6(1,2), of SellLineNone])
        (use 6 in \<open>auto simp: body priced_def\<close>)
  qed
qed

lemma settle_cases:
  assumes "settle_probe z st i now p line = (st', d, r)"
  obtains (untouched) "ss_Line st = SellLineNone" "st' = st" "d = None"
  | (touched) win where "ss_Line st = SellLineNone" "line \<noteq> SellLineNone" "d = None"
      "win = (if line = SellLineTrail then sp_trailMin p else sp_exitMin p)"
      "st' = st\<lparr>ss_Line := line, ss_FirstTouch := now, ss_WindowMin := win, ss_SettleStart := alignSettleSell z now win\<rparr>"
  | (waiting) "ss_Line st \<noteq> SellLineNone" "now < ss_SettleStart st" "d = None"
      "ss_FirstTouch st' = ss_FirstTouch st" "ss_WindowMin st' = ss_WindowMin st" "ss_SettleStart st' = ss_SettleStart st"
      "ss_Line st' \<noteq> SellLineNone"
  | (extended) "ss_Line st \<noteq> SellLineNone" "bullLive i now p" "d = None" "ss_Line st \<noteq> SellLineDeepBreach" "line \<noteq> SellLineDeepBreach"
      "ss_FirstTouch st' = ss_FirstTouch st" "ss_WindowMin st' = ss_WindowMin st"
      "ss_SettleStart st' = ss_SettleStart st + wrap64 (ss_WindowMin st * minute)" "ss_Line st' = ss_Line st"
  | (settled) a where "ss_Line st \<noteq> SellLineNone" "ss_SettleStart st \<le> now" "ss_Settled st'" "ss_Confirmed st'"
      "ss_ConfirmedAction st' = Some a" "r = None" "\<exists>x. d = Some x \<and> sd_Action x = a" "ss_Line st' \<noteq> SellLineNone"
      "ss_Line st = SellLineDeepBreach \<or> line = SellLineDeepBreach \<Longrightarrow> a = SellActionClose"
proof -
  show thesis
  proof (cases "ss_Line st = SellLineNone")
    case True
    note fresh = True
    show thesis
    proof (cases "line = SellLineNone")
      case True
      then show thesis using assms fresh by (intro untouched [OF fresh]) (simp_all add: settle_probe_def Let_def)
    next
      case False
      then show thesis
        using assms fresh
        by (intro touched [OF fresh False])
          (auto simp: settle_probe_def Let_def)
    qed
  next
    case False
    define s2 where "s2 = (if line = SellLineDeepBreach then st\<lparr>ss_Line := SellLineDeepBreach, ss_Settled := False, ss_Confirmed := False\<rparr> else st)"
    have s2: "ss_SettleStart s2 = ss_SettleStart st" "ss_FirstTouch s2 = ss_FirstTouch st" "ss_WindowMin s2 = ss_WindowMin st"
        "ss_Line s2 \<noteq> SellLineNone" "ss_Line s2 = SellLineDeepBreach \<longleftrightarrow> ss_Line st = SellLineDeepBreach \<or> line = SellLineDeepBreach"
      using False by (auto simp: s2_def)
    have deep: "s2 = st" if "ss_Line s2 \<noteq> SellLineDeepBreach"
      using that by (auto simp: s2_def split: if_splits)
    note body = assms [unfolded settle_probe_def, folded s2_def, unfolded Let_def, simplified False if_False]
    consider "now < ss_SettleStart s2" | "\<not> now < ss_SettleStart s2" "ss_Line s2 = SellLineDeepBreach"
      | "\<not> now < ss_SettleStart s2" "ss_Line s2 \<noteq> SellLineDeepBreach" "bullLive i now p"
      | "\<not> now < ss_SettleStart s2" "ss_Line s2 \<noteq> SellLineDeepBreach" "\<not> bullLive i now p" by blast
    then show thesis
    proof cases
      case 1
      then have "st' = s2" "d = None" using body by simp_all
      then show thesis using 1 False s2 by (intro waiting) simp_all
    next
      case 2
      then have "st' = confirm SellActionClose s2" "d = Some (close_at st' i SellActionClose (DeepSettled (evidenceSuffix (in_Evidence i))) now)" "r = None"
        using body by auto
      then show thesis using 2(1) False s2(1,4) by (intro settled [of SellActionClose]) (simp_all add: confirm_def close_at_def)
    next
      case 3
      then have "st' = s2\<lparr>ss_Extends := ss_Extends s2 + 1, ss_SettleStart := ss_SettleStart s2 + wrap64 (ss_WindowMin s2 * minute)\<rparr>" "d = None"
        using body by auto
      moreover have "s2 = st" using deep 3(2) by blast
      ultimately show thesis using 3(3) False s2(5) 3(2) by (intro extended) simp_all
    next
      case 4
      define a where "a = (if ss_Line s2 = SellLineStopLoss then SellActionTrim else SellActionClose)"
      have "st' = confirm a s2" "r = None" "\<exists>reason. d = Some (close_at st' i a reason now)"
        using body 4 by (auto simp: a_def)
      then show thesis
        using 4(1,2) False s2(1,4) s2(5) [THEN iffD2] by (intro settled [of a]) (auto simp: confirm_def close_at_def)
    qed
  qed
qed

section \<open>A confirmed action is final\<close>

definition sell_step :: "int \<Rightarrow> sell_params \<Rightarrow> sell_state option \<Rightarrow> sell_input \<times> int \<Rightarrow> sell_state option" where
  "sell_step z p prev q = (case q of (i, now) \<Rightarrow> fst (sellProbe z prev i now p))"

definition confirmed_as :: "sell_action \<Rightarrow> sell_state option \<Rightarrow> bool" where
  "confirmed_as a st \<longleftrightarrow> (\<exists>s. st = Some s \<and> ss_Settled s \<and> ss_Confirmed s \<and> ss_ConfirmedAction s = Some a)"

definition action_known :: "sell_state option \<Rightarrow> bool" where
  "action_known st \<longleftrightarrow> (\<forall>s. st = Some s \<longrightarrow> ss_Settled s \<and> ss_Confirmed s \<longrightarrow> ss_ConfirmedAction s \<noteq> None)"

lemma confirmed_step: "confirmed_as a st \<Longrightarrow> confirmed_as a (sell_step z p st q)"
  unfolding confirmed_as_def sell_step_def
  by (cases q; cases rule: sellProbe_cases [of "fst q" z st "snd q" p]) auto

lemma action_known_probed: "action_known prev \<Longrightarrow> action_known (Some (probed_state prev i))"
  by (cases prev) (auto simp: action_known_def)

lemma probe_confirms:
  assumes "action_known prev" "sellProbe z prev i now p = (st, Some d, r)"
  shows "confirmed_as (sd_Action d) st"
proof (cases rule: sellProbe_cases [of i z prev now p])
  case replay
  then show ?thesis using assms action_known_probed [OF assms(1), of i]
    by (auto simp: confirmed_as_def confirmedReplay_def action_known_def Let_def)
next
  case (settle line st' d' r')
  show ?thesis
    using settle(3) by (cases rule: settle_cases) (use settle assms in \<open>auto simp: confirmed_as_def\<close>)
qed (use assms(2) in \<open>auto simp: confirmed_as_def confirm_def close_at_def\<close>)

lemma probe_confirms_step:
  "action_known prev \<Longrightarrow> fst (snd (sellProbe z prev i now p)) = Some d \<Longrightarrow> confirmed_as (sd_Action d) (sell_step z p prev (i, now))"
  by (cases "sellProbe z prev i now p") (auto simp: sell_step_def intro: probe_confirms)

lemma settle_action_known:
  "action_known (Some st) \<Longrightarrow> settle_probe z st i now p line = (st', d, r) \<Longrightarrow> action_known (Some st')"
  unfolding settle_probe_def Let_def action_known_def
  by (auto simp: confirm_def split: if_splits)

lemma action_known_step: "action_known st \<Longrightarrow> action_known (sell_step z p st q)"
  unfolding sell_step_def
  by (cases q; cases rule: sellProbe_cases [of "fst q" z st "snd q" p])
    (use action_known_probed [of st "fst q"] settle_action_known in \<open>auto simp: action_known_def confirm_def\<close>)

interpretation confirmed_probes: invariant_system "sell_step z p" "confirmed_as a" for z p a
  by unfold_locales (rule confirmed_step)

interpretation known_actions: invariant_system "sell_step z p" action_known for z p
  by unfold_locales (rule action_known_step)

text \<open>C12: once a probe of a position answered with a disposal, every later probe with prices answers with the same
  action, whatever the prices, signals and evidence in between: a trimmed stop is never turned into a close
  by a deeper fall, nor a close into holding on by a recovery.\<close>

theorem sell_action_final:
  assumes "fst (snd (sellProbe z (foldl (sell_step z p) None ops) i now p)) = Some d" "priced i'"
  shows "\<exists>d'. fst (snd (sellProbe z (foldl (sell_step z p) None (ops @ (i, now) # later)) i' now' p)) = Some d' \<and> sd_Action d' = sd_Action d"
proof -
  have "action_known (foldl (sell_step z p) None ops)" by (rule known_actions.inv_run) (simp add: action_known_def)
  then have "confirmed_as (sd_Action d) (sell_step z p (foldl (sell_step z p) None ops) (i, now))"
    by (rule probe_confirms_step) (rule assms(1))
  then have "confirmed_as (sd_Action d) (foldl (sell_step z p) None (ops @ (i, now) # later))"
    by (simp add: confirmed_probes.inv_run)
  then obtain s where s: "foldl (sell_step z p) None (ops @ (i, now) # later) = Some s" "ss_Settled s" "ss_Confirmed s"
      "ss_ConfirmedAction s = Some (sd_Action d)"
    unfolding confirmed_as_def by blast
  show ?thesis
    unfolding s(1) using assms(2) s(2-) by (simp add: sellProbe_def priced_def Let_def confirmedReplay_def)
qed

section \<open>The window grid\<close>

text \<open>a line touched after 09:30 settles at the next point of the grid of windows from 09:30: later than the touch,
  at most one window later.\<close>

theorem settle_on_grid:
  assumes "0 < win" "win \<le> 1000000" "(local_day z t * 86400 + 34200 - z) * second \<le> t"
  shows "t < alignSettleSell z t win \<and> alignSettleSell z t win \<le> t + win * minute \<and>
    (win * minute) dvd (alignSettleSell z t win - (local_day z t * 86400 + 34200 - z) * second)"
proof -
  define base where "base = (local_day z t * 86400 + 34200 - z) * second"
  define d where "d = t - base"
  define off where "off = d div minute"
  have d0: "0 \<le> d" using assms(3) by (simp add: d_def base_def)
  have "t div second + z < (local_day z t + 1) * 86400"
    using div_mult_mod_eq [of "t div second + z" 86400] pos_mod_bound [of 86400 "t div second + z"]
    by (simp add: local_day_def local_secs_def algebra_simps)
  then have "t < ((local_day z t + 1) * 86400 - z) * second"
    using div_mult_mod_eq [of t second] pos_mod_bound [of second t] by (simp add: algebra_simps)
  then have d1: "d < 86400 * second" by (simp add: d_def base_def algebra_simps)
  have off0: "0 \<le> off" "off * minute \<le> d" "d < (off + 1) * minute"
    using d0 div_mult_mod_eq [of d minute] pos_mod_bound [of minute d] pos_mod_sign [of minute d]
    by (simp_all add: off_def pos_imp_zdiv_nonneg_iff algebra_simps)
  define n where "n = (off div win + 1) * win"
  have n: "off < n" "n \<le> off + win"
    using assms(1) div_mult_mod_eq [of off win] pos_mod_bound [of win off] pos_mod_sign [of win off]
    unfolding n_def distrib_right by linarith+
  have offb: "off < 1440" using off0(2) d1 by simp
  have w1: "wrap64 ((off div win + 1) * win) = n" unfolding n_def [symmetric] using n off0(1) offb assms(2) by (intro wrap64_id) auto
  have w2: "wrap64 (n * minute) = n * minute" using n off0(1) offb assms(2) by (intro wrap64_id) auto
  have b: "(local_day z t * 86400 + 9 * 3600 + 30 * 60 - z) * second = base" by (simp add: base_def)
  have "time_sub t base = d" using d0 d1 by (simp add: time_sub_def sat64_def d_def)
  then have o: "max 0 (time_sub t base div minute) = off" using off0(1) by (simp add: off_def)
  have "(if win \<le> 0 then 15 else win) = win" using assms(1) by simp
  then have "alignSettleSell z t win = base + n * minute"
    unfolding alignSettleSell_def Let_def b by (simp only: o w1 w2)
  moreover have "d < n * minute" using off0(3) n(1) by simp
  moreover have "n * minute \<le> d + win * minute" using off0(2) n(2) by simp
  moreover have "win * minute dvd n * minute" by (simp add: n_def)
  ultimately show ?thesis unfolding base_def [symmetric] by (simp add: d_def)
qed

section \<open>No soft exit before its window\<close>

definition windows_ok :: "sell_params \<Rightarrow> bool" where
  "windows_ok p \<longleftrightarrow> 0 < sp_exitMin p \<and> sp_exitMin p \<le> 1000000 \<and> 0 < sp_trailMin p \<and> sp_trailMin p \<le> 1000000"

definition locked_line :: "sell_state option \<Rightarrow> sell_line" where
  "locked_line st = (case st of None \<Rightarrow> SellLineNone | Some s \<Rightarrow> ss_Line s)"

definition probed_run :: "int \<Rightarrow> sell_params \<Rightarrow> (sell_input \<times> int) list \<Rightarrow> sell_state option" where
  "probed_run z p ops = foldl (sell_step z p) None ops"

text \<open>The probe at \<open>t\<close> is the touch of a run: no line is locked before it, one is from it on.\<close>

definition touch_of :: "int \<Rightarrow> sell_params \<Rightarrow> (sell_input \<times> int) list \<Rightarrow> int \<Rightarrow> sell_line \<Rightarrow> bool" where
  "touch_of z p ops t line \<longleftrightarrow> (\<exists>pre i post. ops = pre @ (i, t) # post \<and>
     (\<forall>n \<le> length pre. locked_line (probed_run z p (take n pre)) = SellLineNone) \<and>
     locked_line (probed_run z p (pre @ [(i, t)])) = line \<and>
     (\<forall>n \<le> length post. locked_line (probed_run z p (pre @ (i, t) # take n post)) \<noteq> SellLineNone))"

definition line_window :: "sell_params \<Rightarrow> sell_line \<Rightarrow> int" where
  "line_window p line = (if line = SellLineTrail then sp_trailMin p else sp_exitMin p)"

lemma probed_run_snoc: "probed_run z p (ops @ [(i, now)]) = fst (sellProbe z (probed_run z p ops) i now p)"
  by (simp add: probed_run_def sell_step_def)

lemma touch_later:
  assumes "touch_of z p ops t line" "locked_line (probed_run z p (ops @ [q])) \<noteq> SellLineNone"
  shows "touch_of z p (ops @ [q]) t line"
proof -
  obtain pre i post where o: "ops = pre @ (i, t) # post"
    and r: "\<forall>n \<le> length pre. locked_line (probed_run z p (take n pre)) = SellLineNone"
      "locked_line (probed_run z p (pre @ [(i, t)])) = line"
      "\<forall>n \<le> length post. locked_line (probed_run z p (pre @ (i, t) # take n post)) \<noteq> SellLineNone"
    using assms(1) unfolding touch_of_def by blast
  have "\<forall>n \<le> length (post @ [q]). locked_line (probed_run z p (pre @ (i, t) # take n (post @ [q]))) \<noteq> SellLineNone"
    using r(3) assms(2) by (auto simp: o le_Suc_eq)
  then show ?thesis unfolding touch_of_def using o r(1,2) by (intro exI [of _ pre] exI [of _ i] exI [of _ "post @ [q]"]) simp
qed

lemma touch_now:
  assumes "\<forall>n \<le> length ops. locked_line (probed_run z p (take n ops)) = SellLineNone"
    and "locked_line (probed_run z p (ops @ [(i, t)])) = line" "line \<noteq> SellLineNone"
  shows "touch_of z p (ops @ [(i, t)]) t line"
  unfolding touch_of_def using assms by (intro exI [of _ ops] exI [of _ i] exI [of _ "[]"]) simp

text \<open>A position without a locked line never had one; a locked line that is not settled carries the window of its touch.\<close>

definition in_window :: "int \<Rightarrow> sell_params \<Rightarrow> (sell_input \<times> int) list \<Rightarrow> sell_state \<Rightarrow> bool" where
  "in_window z p ops s \<longleftrightarrow> ss_Settled s \<and> ss_Confirmed s \<or>
     (if ss_Line s = SellLineNone then \<forall>n \<le> length ops. locked_line (probed_run z p (take n ops)) = SellLineNone
      else \<exists>line. touch_of z p ops (ss_FirstTouch s) line \<and> ss_WindowMin s = line_window p line \<and>
        alignSettleSell z (ss_FirstTouch s) (line_window p line) \<le> ss_SettleStart s)"

lemma in_window_None:
  assumes "probed_run z p ops = None"
  shows "\<forall>n \<le> length ops. locked_line (probed_run z p (take n ops)) = SellLineNone"
  using assms
proof (induction ops rule: rev_induct)
  case (snoc q ops)
  have "probed_run z p ops = None"
    using snoc.prems probed_run_snoc [of z p ops "fst q" "snd q"]
    by (cases rule: sellProbe_cases [of "fst q" z "probed_run z p ops" "snd q" p]) auto
  then show ?case using snoc by (auto simp: le_Suc_eq locked_line_def)
qed (simp add: probed_run_def locked_line_def)

definition run_in_window :: "int \<Rightarrow> sell_params \<Rightarrow> (sell_input \<times> int) list \<Rightarrow> bool" where
  "run_in_window z p ops \<longleftrightarrow> (\<forall>s. probed_run z p ops = Some s \<longrightarrow> in_window z p ops s)"

lemma in_window_probed:
  assumes "run_in_window z p ops"
  shows "in_window z p ops (probed_state (probed_run z p ops) i)"
proof (cases "probed_run z p ops")
  case None
  then show ?thesis using in_window_None [OF None] by (simp add: in_window_def)
next
  case (Some s)
  then have "in_window z p ops s" using assms by (simp add: run_in_window_def)
  then show ?thesis unfolding Some in_window_def probed_fields .
qed

lemma in_window_kept:
  assumes "in_window z p ops s" "probed_run z p (ops @ [q]) = Some s'"
    and "ss_Settled s \<and> ss_Confirmed s \<longrightarrow> ss_Settled s' \<and> ss_Confirmed s'"
    and "ss_Line s = SellLineNone \<longleftrightarrow> ss_Line s' = SellLineNone" "ss_FirstTouch s' = ss_FirstTouch s"
      "ss_WindowMin s' = ss_WindowMin s" "ss_SettleStart s \<le> ss_SettleStart s'"
  shows "in_window z p (ops @ [q]) s'"
proof (cases "ss_Settled s \<and> ss_Confirmed s \<or> ss_Line s = SellLineNone")
  case True
  then show ?thesis using assms by (auto simp: in_window_def locked_line_def le_Suc_eq)
next
  case False
  have "locked_line (probed_run z p (ops @ [q])) \<noteq> SellLineNone" using False assms(2,4) by (simp add: locked_line_def)
  then show ?thesis
    using False assms touch_later [of z p ops "ss_FirstTouch s" _ q] by (fastforce simp: in_window_def)
qed

lemma in_window_step:
  assumes "run_in_window z p ops" "windows_ok p"
  shows "run_in_window z p (ops @ [(i, now)])"
proof -
  let ?prev = "probed_run z p ops" and ?q = "(i, now)"
  let ?st = "probed_state ?prev i"
  note run = probed_run_snoc [of z p ops i now]
  have ip: "in_window z p ops ?st" by (rule in_window_probed [OF assms(1)])
  show ?thesis
  proof (cases rule: sellProbe_cases [of i z ?prev now p])
    case unpriced
    then have same: "probed_run z p (ops @ [?q]) = ?prev" using run by simp
    have "in_window z p (ops @ [?q]) s" if "?prev = Some s" for s
      using in_window_kept [of z p ops s ?q s] assms(1) same that by (simp add: run_in_window_def)
    then show ?thesis unfolding run_in_window_def same by blast
  next
    case replay
    then show ?thesis using run by (simp add: run_in_window_def in_window_def)
  next
    case (hard st)
    then show ?thesis using run by (simp add: run_in_window_def in_window_def confirm_def)
  next
    case held
    then have same: "probed_run z p (ops @ [?q]) = Some ?st" using run by simp
    show ?thesis using in_window_kept [OF ip same] same by (simp add: run_in_window_def)
  next
    case (settle line st d r)
    have now: "probed_run z p (ops @ [?q]) = Some st" using run settle(4) by simp
    have "in_window z p (ops @ [?q]) st"
      using settle(3)
    proof (cases rule: settle_cases)
      case untouched
      then show ?thesis using in_window_kept [OF ip now] by simp
    next
      case (touched win)
      have "touch_of z p (ops @ [?q]) now line"
        using ip settle(2) touched now by (intro touch_now) (auto simp: in_window_def locked_line_def)
      then show ?thesis unfolding in_window_def using touched by (auto simp: line_window_def intro!: exI [of _ line])
    next
      case waiting
      then show ?thesis using in_window_kept [OF ip now] settle(2) by simp
    next
      case extended
      have "ss_WindowMin ?st = sp_exitMin p \<or> ss_WindowMin ?st = sp_trailMin p"
        using ip settle(2) extended(1) by (auto simp: in_window_def line_window_def split: if_splits)
      then have "0 \<le> wrap64 (ss_WindowMin ?st * minute)"
        using assms(2) by (subst wrap64_id) (auto simp: windows_ok_def)
      then show ?thesis using in_window_kept [OF ip now] extended settle(2) by simp
    next
      case (settled a)
      then show ?thesis by (simp add: in_window_def)
    qed
    then show ?thesis using now by (simp add: run_in_window_def)
  qed
qed

lemma runs_in_window:
  assumes "windows_ok p"
  shows "run_in_window z p ops"
proof (induction ops rule: rev_induct)
  case (snoc q ops)
  then show ?case using in_window_step [OF _ assms] by (cases q) simp
qed (simp add: run_in_window_def probed_run_def)

definition soft_exit :: "sell_disposal \<Rightarrow> bool" where
  "soft_exit d \<longleftrightarrow> (case sd_Reason d of DeepSettled _ \<Rightarrow> True | ProfitSettled _ \<Rightarrow> True | StopTrimmed _ \<Rightarrow> True | StopSettled _ \<Rightarrow> True | _ \<Rightarrow> False)"

text \<open>C13: over any run of probes from a fresh position, an exit that is not the immediate one on doubly verified bad news
  (and not the repetition of a confirmed one) belongs to a touch: an earlier probe \<open>q\<close> at which the
  position had no line and had had none, which locked one, and since which a line stayed locked at every
  probe. The window of the line locked there (45 minutes by default for a pullback, 15 for the others),
  laid out on the grid from the moment of that touch, is over when the exit comes.\<close>

theorem no_exit_before_window:
  assumes "windows_ok p" "sellProbe z (foldl (sell_step z p) None ops) i now p = (st, Some d, r)" "soft_exit d"
  shows "\<exists>pre q post line. ops = pre @ q # post \<and>
      (\<forall>n \<le> length pre. locked_line (foldl (sell_step z p) None (take n pre)) = SellLineNone) \<and>
      locked_line (foldl (sell_step z p) None (pre @ [q])) = line \<and>
      (\<forall>n \<le> length post. locked_line (foldl (sell_step z p) None (pre @ q # take n post)) \<noteq> SellLineNone) \<and>
      alignSettleSell z (snd q) (if line = SellLineTrail then sp_trailMin p else sp_exitMin p) \<le> now"
proof -
  let ?prev = "probed_run z p ops"
  have ip: "in_window z p ops (probed_state ?prev i)" by (rule in_window_probed [OF runs_in_window [OF assms(1)]])
  have "\<exists>t line. touch_of z p ops t line \<and> alignSettleSell z t (line_window p line) \<le> now"
  proof (cases rule: sellProbe_cases [of i z ?prev now p])
    case (settle line st' d' r')
    show ?thesis
      using settle(3)
    proof (cases rule: settle_cases)
      case (settled a)
      then show ?thesis using ip settle(2) by (fastforce simp: in_window_def)
    qed (use settle assms(2) in \<open>auto simp: probed_run_def\<close>)
  qed (use assms(2,3) in \<open>auto simp: probed_run_def soft_exit_def close_at_def confirmedReplay_def Let_def split: if_splits\<close>)
  then obtain t line pre i' post where "ops = pre @ (i', t) # post"
    "\<forall>n \<le> length pre. locked_line (probed_run z p (take n pre)) = SellLineNone"
    "locked_line (probed_run z p (pre @ [(i', t)])) = line"
    "\<forall>n \<le> length post. locked_line (probed_run z p (pre @ (i', t) # take n post)) \<noteq> SellLineNone"
    "alignSettleSell z t (line_window p line) \<le> now"
    unfolding touch_of_def by blast
  then show ?thesis
    unfolding probed_run_def line_window_def by (intro exI [of _ pre] exI [of _ "(i', t)"] exI [of _ post] exI [of _ line]) simp
qed

text \<open>when a deep breach (the one just measured or the one already locked) meets its settlement point, the position
  is closed in full, live long signals notwithstanding; only a price back above the take-profit line with
  a live signal, or a disposal confirmed before, comes first.\<close>

theorem deep_breach_exits:
  assumes "priced i" "ss_Line st \<noteq> SellLineNone" "ss_SettleStart st \<le> now" "\<not> (ss_Settled st \<and> ss_Confirmed st)"
    and "ss_Line st = SellLineDeepBreach \<or> pnl_pct i \<le> - sp_sl p * sp_dm p" "\<not> (sp_tp p \<le> pnl_pct i \<and> bullLive i now p)"
  shows "\<exists>st' d. sellProbe z (Some st) i now p = (Some st', Some d, None) \<and> sd_Action d = SellActionClose"
proof (cases rule: sellProbe_cases [of i z "Some st" now p])
  case (settle line st' d r)
  have line: "ss_Line st = SellLineDeepBreach \<or> line = SellLineDeepBreach" using assms(5) settle(5) by blast
  show ?thesis
    using settle(3)
  proof (cases rule: settle_cases)
    case (settled a)
    then show ?thesis using settle(4) line by auto
  qed (use assms line in auto)
qed (use assms in \<open>auto simp: close_at_def\<close>)

section \<open>Concrete runs\<close>

definition usual_params :: sell_params where
  "usual_params = \<lparr>sp_sl = Fin 6, sp_tp = Fin 15, sp_pb = Fin 6, sp_dm = Fin 2, sp_exitMin = 15, sp_trailMin = 45, sp_bullMaxAge = 5 * minute\<rparr>"

definition at_price :: "f64 \<Rightarrow> sell_input" where
  "at_price x = \<lparr>in_Code = ''600000'', in_EntryPrice = Fin 64, in_HighPrice = Fin 64, in_CurPrice = x,
     in_Bull = \<lparr>sf_Active = False, sf_At = zero_time\<rparr>, in_Bear = \<lparr>bc_Hit = False, bc_Verified = []\<rparr>, in_Evidence = []\<rparr>"

definition noon :: int where
  "noon = 19844 * 86400 * second"

lemma rnd_dyadic:
  assumes "x = of_int m * pow2 e" "\<bar>m\<bar> \<le> 2 ^ 53" "- 1074 \<le> e" "\<bar>x\<bar> < 1000"
  shows "rnd x = Fin x"
proof -
  have "(1000 :: rat) < f64max" by (simp add: f64max_def pow2_def)
  then show ?thesis using rq_grid [OF assms(1-3)] assms(4) by (simp add: rnd_def Let_def abs_less_iff)
qed

lemma sample_pnl:
  "pnl_pct (at_price (Fin 60)) = Fin (- (25 / 4))" "pnl_pct (at_price (Fin 48)) = Fin (- 25)"
proof -
  have "rnd (- (1 / 16)) = Fin (- (1 / 16))" by (rule rnd_dyadic [of _ "- 1" "- 4"]) (simp_all add: pow2_def)
  moreover have "rnd (- (25 / 4)) = Fin (- (25 / 4))" by (rule rnd_dyadic [of _ "- 25" "- 2"]) (simp_all add: pow2_def)
  moreover have "rnd (- (1 / 4)) = Fin (- (1 / 4))" by (rule rnd_dyadic [of _ "- 1" "- 2"]) (simp_all add: pow2_def)
  ultimately show "pnl_pct (at_price (Fin 60)) = Fin (- (25 / 4))" "pnl_pct (at_price (Fin 48)) = Fin (- 25)"
    using rnd_numeral(2) [of "num.Bit0 num.One"] rnd_numeral(2) [of "num.Bit0 (num.Bit0 (num.Bit0 (num.Bit0 num.One)))"]
    by (simp_all add: pnl_pct_def at_price_def minus_f64_def divide_f64_def times_f64_def)
qed

lemma sample_limits:
  "- sp_sl usual_params * sp_dm usual_params = Fin (- 12)" "Fin (- 6) * sp_dm usual_params = Fin (- 12)" "- sp_sl usual_params = Fin (- 6)" "sp_tp usual_params = Fin 15"
  by (simp_all add: usual_params_def uminus_f64_def times_f64_def)

lemma sample_input [simp]:
  "in_EntryPrice (at_price x) = Fin 64" "in_HighPrice (at_price x) = Fin 64" "in_CurPrice (at_price x) = x" "in_Code (at_price x) = ''600000''"
  "in_Evidence (at_price x) = []" "\<not> bullLive (at_price x) t p" "\<not> bearHard (at_price x)"
  by (simp_all add: at_price_def bullLive_def bearHard_def)

text \<open>A fall by a sixteenth at 12:00, seen again at 12:20.\<close>

lemma noon_touch:
  "foldl (sell_step 43200 usual_params) None [(at_price (Fin 60), noon)]
     = Some ((new_sell_state (Fin 64))\<lparr>ss_Line := SellLineStopLoss, ss_FirstTouch := noon, ss_WindowMin := 15, ss_SettleStart := noon + 15 * minute\<rparr>)"
proof -
  have "alignSettleSell 43200 noon 15 = noon + 15 * minute" by code_simp
  then show ?thesis
    by (simp add: sell_step_def sellProbe_def settle_probe_def probed_state_def sample_pnl sample_limits new_sell_state_def zero_f64_def Let_def)
      (simp add: usual_params_def)
qed

lemma noon_run:
  "fst (snd (sellProbe 43200 (foldl (sell_step 43200 usual_params) None [(at_price (Fin 60), noon)]) (at_price (Fin 60)) (noon + 20 * minute) usual_params))
     = Some \<lparr>sd_Code = ''600000'', sd_Action = SellActionTrim, sd_Reason = StopTrimmed [], sd_Line = SellLineStopLoss, sd_PnlPct = Fin (- (25 / 4)),
         sd_At = noon + 20 * minute, sd_Shadow = False\<rparr>"
  unfolding noon_touch
  by (simp add: sellProbe_def settle_probe_def probed_state_def sample_pnl sample_limits new_sell_state_def zero_f64_def Let_def confirm_def close_at_def
      evidenceSuffix_def)

theorem sell_action_final_witness:
  "\<exists>d'. fst (snd (sellProbe 43200 (foldl (sell_step 43200 usual_params) None ([(at_price (Fin 60), noon)] @ (at_price (Fin 60), noon + 20 * minute) # []))
       (at_price (Fin 48)) (noon + 21 * minute) usual_params)) = Some d' \<and> sd_Action d' = SellActionTrim"
proof -
  have "priced (at_price (Fin 48))" by (simp add: priced_def zero_f64_def)
  then show ?thesis using sell_action_final [OF noon_run, of "at_price (Fin 48)" "[]"] by simp
qed

theorem settle_on_grid_witness: "noon < alignSettleSell 43200 noon 15"
proof -
  have "(local_day 43200 noon * 86400 + 34200 - 43200) * second \<le> noon" by code_simp
  then show ?thesis using settle_on_grid [of 15 43200 noon] by simp
qed

theorem no_exit_before_window_witness:
  "\<exists>pre q post line. [(at_price (Fin 60), noon)] = pre @ q # post \<and>
      locked_line (foldl (sell_step 43200 usual_params) None (pre @ [q])) = line \<and>
      alignSettleSell 43200 (snd q) (if line = SellLineTrail then 45 else 15) \<le> noon + 20 * minute"
proof -
  obtain st r where run: "sellProbe 43200 (foldl (sell_step 43200 usual_params) None [(at_price (Fin 60), noon)]) (at_price (Fin 60)) (noon + 20 * minute) usual_params
     = (st, Some \<lparr>sd_Code = ''600000'', sd_Action = SellActionTrim, sd_Reason = StopTrimmed [], sd_Line = SellLineStopLoss, sd_PnlPct = Fin (- (25 / 4)),
         sd_At = noon + 20 * minute, sd_Shadow = False\<rparr>, r)"
    using noon_run by (metis prod.collapse)
  have "windows_ok usual_params" by (simp add: windows_ok_def usual_params_def)
  then have "\<exists>pre q post line. [(at_price (Fin 60), noon)] = pre @ q # post \<and>
      (\<forall>n \<le> length pre. locked_line (foldl (sell_step 43200 usual_params) None (take n pre)) = SellLineNone) \<and>
      locked_line (foldl (sell_step 43200 usual_params) None (pre @ [q])) = line \<and>
      (\<forall>n \<le> length post. locked_line (foldl (sell_step 43200 usual_params) None (pre @ q # take n post)) \<noteq> SellLineNone) \<and>
      alignSettleSell 43200 (snd q) (if line = SellLineTrail then sp_trailMin usual_params else sp_exitMin usual_params) \<le> noon + 20 * minute"
    by (rule no_exit_before_window [OF _ run]) (simp add: soft_exit_def)
  moreover have "sp_trailMin usual_params = 45" "sp_exitMin usual_params = 15" by (simp_all add: usual_params_def)
  ultimately show ?thesis by metis
qed

theorem deep_breach_exits_witness:
  "\<exists>st' d. sellProbe 43200 (Some ((new_sell_state (Fin 64))\<lparr>ss_Line := SellLineStopLoss, ss_SettleStart := noon\<rparr>)) (at_price (Fin 48)) noon usual_params
     = (Some st', Some d, None) \<and> sd_Action d = SellActionClose"
  by (rule deep_breach_exits) (simp_all add: new_sell_state_def priced_def sample_pnl sample_limits zero_f64_def)

end
