(* ===== verification/SignalCtl.thy ===== *)
theory SignalCtl
  imports SellDiscipline Markets
begin

text \<open>
  The signal controller of \<open>internal/signalctl/signalctl.go\<close> and the controller half of \<open>sell.go\<close>: admission of
  a strategy's signal (strategy list, blacklists), the confirmation window of a buy, the ring of recorded
  decisions, and the sell states it keeps per position. Each operation is one atomic step (the code holds
  the mutex for the state it touches). The audit file is not modelled: it is written beside the ring and
  a failure of it is ignored.
\<close>

section \<open>Signals, policies, decisions\<close>

text \<open>The fields of \<open>combat_agent.Signal\<close> the controller reads.\<close>

record signal =
  sg_Code :: string
  sg_Name :: string
  sg_Strategy :: string
  sg_Direction :: string
  sg_Action :: string
  sg_Confidence :: f64
  sg_Sector :: string
  sg_StrategyID :: string
  sg_StrategyType :: string

datatype channel = ChannelLive | ChannelPaper

datatype verdict = VerdictPass | VerdictHold | VerdictBlock

datatype stage = NoStage | StageStrategy | StageCodeBlacklist | StageSectorBlack | StageConfirm | StagePassthrough | StageSell

text \<open>The reasons, with the values their texts print.\<close>

datatype ctl_reason =
    NoReason
  | UnknownSource
  | NotInDefaultSet string
  | NotListed string
  | CodeBlacklisted string
  | SectorBlacklisted string
  | ProbeStarted
  | WindowNotFull int int
  | SellReason sell_reason

record decision =
  d_Channel :: channel
  d_Account :: string
  d_Verdict :: verdict
  d_Stage :: stage
  d_Code :: string
  d_Name :: string
  d_Strategy :: string
  d_SKey :: string
  d_Reason :: ctl_reason
  d_Shadow :: bool
  d_At :: int

record policy =
  p_Strategies :: "string list"
  p_CodeBlacklist :: "string list"
  p_SectorBlacklist :: "string list"
  p_ShadowBlacklist :: bool
  p_Discipline :: discipline_config

record probe_key =
  k_ch :: channel
  k_account :: string
  k_strategy :: string
  k_code :: string

record sell_key =
  sk_ch :: channel
  sk_account :: string
  sk_code :: string

record controller =
  probes :: "probe_key \<rightharpoonup> int"
  sellStates :: "sell_key \<rightharpoonup> sell_state"
  ring :: "decision list"
  ring_cap :: nat

definition NewController :: controller where
  "NewController = \<lparr>probes = Map.empty, sellStates = Map.empty, ring = [], ring_cap = 512\<rparr>"

section \<open>Names and keys\<close>

definition NormalizeStrategyName :: "string \<Rightarrow> string" where
  "NormalizeStrategyName name =
     (if name \<in> {''dragon'', [CHR 0xE9, CHR 0xBE, CHR 0x99, CHR 0xE5, CHR 0xA4, CHR 0xB4]} then [CHR 0xE9, CHR 0xBE, CHR 0x99, CHR 0xE5, CHR 0xA4, CHR 0xB4]
      else if name \<in> {''double_bump'', ''DoubleBump'', [CHR 0xE5, CHR 0x8F, CHR 0x8C, CHR 0xE5, CHR 0x93, CHR 0x8D, CHR 0xE7, CHR 0x82, CHR 0xAE], [CHR 0xE5, CHR 0x8F, CHR 0x8C, CHR 0xE7, CHR 0xAA, CHR 0x81, CHR 0xE7, CHR 0xA0, CHR 0xB4], [CHR 0xE5, CHR 0x8F, CHR 0x8C, CHR 0xE5, CHR 0x87, CHR 0xB8]} then [CHR 0xE5, CHR 0x8F, CHR 0x8C, CHR 0xE5, CHR 0x93, CHR 0x8D, CHR 0xE7, CHR 0x82, CHR 0xAE]
      else if name \<in> {''n_shape'', ''NShape'', [CHR ''N'', CHR 0xE5, CHR 0xBD, CHR 0xA2, CHR 0xE8, CHR 0xB6, CHR 0x85, CHR 0xE7, CHR 0x9F, CHR 0xAD], [CHR ''N'', CHR 0xE5, CHR 0xAD, CHR 0x97, CHR 0xE5, CHR 0x9E, CHR 0x8B], [CHR ''N'', CHR 0xE5, CHR 0xAD, CHR 0x97]} then [CHR ''N'', CHR 0xE5, CHR 0xBD, CHR 0xA2]
      else if name \<in> {''dragon_return'', ''DragonReturn'', [CHR 0xE9, CHR 0xBE, CHR 0x99, CHR 0xE5, CHR 0x9B, CHR 0x9E, CHR 0xE5, CHR 0xA4, CHR 0xB4]} then [CHR 0xE9, CHR 0xBE, CHR 0x99, CHR 0xE5, CHR 0x9B, CHR 0x9E, CHR 0xE5, CHR 0xA4, CHR 0xB4]
      else if name \<in> {''momentum'', ''Momentum'', [CHR 0xE5, CHR 0x8A, CHR 0xA8, CHR 0xE9, CHR 0x87, CHR 0x8F]} then [CHR 0xE5, CHR 0x8A, CHR 0xA8, CHR 0xE9, CHR 0x87, CHR 0x8F]
      else if name \<in> {''high_churn'', ''HighChurn'', [CHR 0xE9, CHR 0xAB, CHR 0x98, CHR 0xE4, CHR 0xBD, CHR 0x8D, CHR 0xE6, CHR 0xBB, CHR 0x9E, CHR 0xE6, CHR 0xB6, CHR 0xA8]} then [CHR 0xE9, CHR 0xAB, CHR 0x98, CHR 0xE4, CHR 0xBD, CHR 0x8D, CHR 0xE6, CHR 0xBB, CHR 0x9E, CHR 0xE6, CHR 0xB6, CHR 0xA8]
      else if name \<in> {''break_down'', ''BreakDown'', [CHR 0xE6, CHR 0x94, CHR 0xBE, CHR 0xE9, CHR 0x87, CHR 0x8F, CHR 0xE7, CHR 0xA0, CHR 0xB4, CHR 0xE4, CHR 0xBD, CHR 0x8D], [CHR 0xE7, CHR 0xA0, CHR 0xB4, CHR 0xE4, CHR 0xBD, CHR 0x8D]} then [CHR 0xE6, CHR 0x94, CHR 0xBE, CHR 0xE9, CHR 0x87, CHR 0x8F, CHR 0xE7, CHR 0xA0, CHR 0xB4, CHR 0xE4, CHR 0xBD, CHR 0x8D]
      else if name \<in> {''leader_decay'', ''LeaderDecay'', [CHR 0xE9, CHR 0xBE, CHR 0x99, CHR 0xE5, CHR 0xA4, CHR 0xB4, CHR 0xE6, CHR 0x96, CHR 0xAD, CHR 0xE6, CHR 0x9D, CHR 0xBF], [CHR 0xE6, CHR 0x96, CHR 0xAD, CHR 0xE6, CHR 0x9D, CHR 0xBF]} then [CHR 0xE9, CHR 0xBE, CHR 0x99, CHR 0xE5, CHR 0xA4, CHR 0xB4, CHR 0xE6, CHR 0x96, CHR 0xAD, CHR 0xE6, CHR 0x9D, CHR 0xBF]
      else if name \<in> {''good_news_fade'', ''GoodNewsFade'', [CHR 0xE5, CHR 0x88, CHR 0xA9, CHR 0xE5, CHR 0xA5, CHR 0xBD, CHR 0xE5, CHR 0x85, CHR 0x91, CHR 0xE7, CHR 0x8E, CHR 0xB0, CHR 0xE7, CHR 0xA0, CHR 0xB8, CHR 0xE7, CHR 0x9B, CHR 0x98], [CHR 0xE5, CHR 0x88, CHR 0xA9, CHR 0xE5, CHR 0xA5, CHR 0xBD, CHR 0xE5, CHR 0x85, CHR 0x91, CHR 0xE7, CHR 0x8E, CHR 0xB0]} then [CHR 0xE5, CHR 0x88, CHR 0xA9, CHR 0xE5, CHR 0xA5, CHR 0xBD, CHR 0xE5, CHR 0x85, CHR 0x91, CHR 0xE7, CHR 0x8E, CHR 0xB0, CHR 0xE7, CHR 0xA0, CHR 0xB8, CHR 0xE7, CHR 0x9B, CHR 0x98]
      else name)"

definition display_key :: "string \<Rightarrow> string option" where
  "display_key name = map_of
     [([CHR 0xE9, CHR 0xBE, CHR 0x99, CHR 0xE5, CHR 0xA4, CHR 0xB4], ''dragon''), ([CHR 0xE5, CHR 0x8F, CHR 0x8C, CHR 0xE5, CHR 0x93, CHR 0x8D, CHR 0xE7, CHR 0x82, CHR 0xAE], ''double_bump''), ([CHR ''N'', CHR 0xE5, CHR 0xBD, CHR 0xA2], ''n_shape''), ([CHR 0xE9, CHR 0xBE, CHR 0x99, CHR 0xE5, CHR 0x9B, CHR 0x9E, CHR 0xE5, CHR 0xA4, CHR 0xB4], ''dragon_return''), ([CHR 0xE5, CHR 0x8A, CHR 0xA8, CHR 0xE9, CHR 0x87, CHR 0x8F], ''momentum''),
      ([CHR 0xE9, CHR 0xAB, CHR 0x98, CHR 0xE4, CHR 0xBD, CHR 0x8D, CHR 0xE6, CHR 0xBB, CHR 0x9E, CHR 0xE6, CHR 0xB6, CHR 0xA8], ''high_churn''), ([CHR 0xE6, CHR 0x94, CHR 0xBE, CHR 0xE9, CHR 0x87, CHR 0x8F, CHR 0xE7, CHR 0xA0, CHR 0xB4, CHR 0xE4, CHR 0xBD, CHR 0x8D], ''break_down''), ([CHR 0xE9, CHR 0xBE, CHR 0x99, CHR 0xE5, CHR 0xA4, CHR 0xB4, CHR 0xE6, CHR 0x96, CHR 0xAD, CHR 0xE6, CHR 0x9D, CHR 0xBF], ''leader_decay''), ([CHR 0xE5, CHR 0x88, CHR 0xA9, CHR 0xE5, CHR 0xA5, CHR 0xBD, CHR 0xE5, CHR 0x85, CHR 0x91, CHR 0xE7, CHR 0x8E, CHR 0xB0, CHR 0xE7, CHR 0xA0, CHR 0xB8, CHR 0xE7, CHR 0x9B, CHR 0x98], ''good_news_fade'')] name"

definition StrategyKeyOf :: "signal \<Rightarrow> string" where
  "StrategyKeyOf sig =
     (if sg_StrategyType sig \<noteq> [] then sg_StrategyType sig
      else if sg_StrategyID sig \<noteq> [] then sg_StrategyID sig
      else case display_key (NormalizeStrategyName (sg_Strategy sig)) of Some k \<Rightarrow> k | None \<Rightarrow> sg_Strategy sig)"

definition AdmitStrategy :: "policy \<Rightarrow> signal \<Rightarrow> bool \<times> ctl_reason" where
  "AdmitStrategy pol sig =
     (let key = StrategyKeyOf sig
      in if key = [] then (False, UnknownSource)
         else if p_Strategies pol = [] then
           (if key \<in> {''dragon'', ''double_bump'', ''n_shape'', ''dragon_return'', ''factor'', ''pattern''} then (True, NoReason)
            else if has_prefix key ''fac_'' \<or> has_prefix key ''pat_'' then (True, NoReason)
            else (False, NotInDefaultSet key))
         else if list_ex (\<lambda>s. s = key \<or> s = sg_Strategy sig \<or> s = sg_StrategyID sig) (p_Strategies pol) then (True, NoReason)
         else (False, NotListed key))"

definition isTradeBuy :: "signal \<Rightarrow> bool" where
  "isTradeBuy s \<longleftrightarrow> sg_Direction s \<noteq> [CHR 0xE5, CHR 0x81, CHR 0x9A, CHR 0xE7, CHR 0xA9, CHR 0xBA] \<and> (sg_Action s = ''buy'' \<or> sg_Action s = [CHR 0xE4, CHR 0xB9, CHR 0xB0, CHR 0xE5, CHR 0x85, CHR 0xA5])"

definition inStringList :: "string list \<Rightarrow> string \<Rightarrow> bool" where
  "inStringList xs v \<longleftrightarrow> list_ex (\<lambda>x. trim_space x = v) xs"

section \<open>Windows\<close>

definition low_window :: "discipline_config \<Rightarrow> int" where
  "low_window d = wrap64 (BuyConfirmMin d * minute)"

definition high_window :: "discipline_config \<Rightarrow> int" where
  "high_window d = wrap64 (BuyConfirmHighSec d * second)"

definition maxConfirmWindow :: "discipline_config \<Rightarrow> int" where
  "maxConfirmWindow d = wrap64 (max (low_window d) (high_window d) + 5 * minute)"

definition highConfThreshold :: "discipline_config \<Rightarrow> f64" where
  "highConfThreshold d = (if HighConfThreshold d \<le> 0 then Fin 85 else HighConfThreshold d)"

definition confirm_window :: "discipline_config \<Rightarrow> signal \<Rightarrow> int" where
  "confirm_window d sig = (if highConfThreshold d \<le> sg_Confidence sig * Fin 100 then high_window d else low_window d)"

section \<open>Recording\<close>

definition record_decision :: "decision \<Rightarrow> controller \<Rightarrow> controller" where
  "record_decision d c =
     (let r = ring c @ [d] in c\<lparr>ring := if ring_cap c < length r then drop (length r - ring_cap c) r else r\<rparr>)"

definition Recent :: "int \<Rightarrow> controller \<Rightarrow> decision list" where
  "Recent limit c = (let n = (if limit \<le> 0 \<or> int (length (ring c)) < limit then length (ring c) else nat limit) in take n (rev (ring c)))"

section \<open>Admission\<close>

definition probe_of :: "channel \<Rightarrow> string \<Rightarrow> signal \<Rightarrow> probe_key" where
  "probe_of ch account sig = \<lparr>k_ch = ch, k_account = account, k_strategy = StrategyKeyOf sig, k_code = sg_Code sig\<rparr>"

definition fresh_decision :: "channel \<Rightarrow> string \<Rightarrow> signal \<Rightarrow> int \<Rightarrow> decision" where
  "fresh_decision ch account sig now = \<lparr>d_Channel = ch, d_Account = account, d_Verdict = VerdictPass, d_Stage = NoStage, d_Code = sg_Code sig,
     d_Name = sg_Name sig, d_Strategy = sg_Strategy sig, d_SKey = StrategyKeyOf sig, d_Reason = NoReason, d_Shadow = False, d_At = now\<rparr>"

definition blockOrShadow :: "decision \<Rightarrow> policy \<Rightarrow> controller \<Rightarrow> controller \<times> decision" where
  "blockOrShadow d pol c =
     (let d = (if p_ShadowBlacklist pol then d\<lparr>d_Shadow := True\<rparr> else d\<lparr>d_Verdict := VerdictBlock\<rparr>) in (record_decision d c, d))"

text \<open>The confirmation window, from the probe on.\<close>

definition confirm_step :: "decision \<Rightarrow> probe_key \<Rightarrow> int \<Rightarrow> int \<Rightarrow> controller \<Rightarrow> controller \<times> decision" where
  "confirm_step d key win now c =
     (case probes c key of
        None \<Rightarrow>
          (let d = d\<lparr>d_Verdict := VerdictHold, d_Stage := StageConfirm, d_Reason := ProbeStarted\<rparr>
           in (record_decision d (c\<lparr>probes := (probes c)(key \<mapsto> now)\<rparr>), d))
      | Some since \<Rightarrow>
          (if time_sub now since < win then
             (let d = d\<lparr>d_Verdict := VerdictHold, d_Stage := StageConfirm, d_Reason := WindowNotFull (time_sub now since) win\<rparr>
              in (record_decision d c, d))
           else (c\<lparr>probes := (probes c)(key := None)\<rparr>, d)))"

definition Admit :: "channel \<Rightarrow> string \<Rightarrow> signal \<Rightarrow> policy \<Rightarrow> int \<Rightarrow> controller \<Rightarrow> controller \<times> decision" where
  "Admit ch account sig pol now c =
     (let d = fresh_decision ch account sig now; disc = p_Discipline pol
      in if \<not> isTradeBuy sig then (c, d\<lparr>d_Stage := StagePassthrough\<rparr>)
         else if \<not> fst (AdmitStrategy pol sig) then
           (let d = d\<lparr>d_Verdict := VerdictBlock, d_Stage := StageStrategy, d_Reason := snd (AdmitStrategy pol sig)\<rparr>
            in (record_decision d c, d))
         else if CodeInBlacklist (p_CodeBlacklist pol) (sg_Code sig) then
           blockOrShadow (d\<lparr>d_Stage := StageCodeBlacklist, d_Reason := CodeBlacklisted (sg_Code sig)\<rparr>) pol c
         else if sg_Sector sig \<noteq> [] \<and> inStringList (p_SectorBlacklist pol) (sg_Sector sig) then
           blockOrShadow (d\<lparr>d_Stage := StageSectorBlack, d_Reason := SectorBlacklisted (sg_Sector sig)\<rparr>) pol c
         else if low_window disc \<le> 0 \<and> high_window disc \<le> 0 then (c, d)
         else confirm_step d (probe_of ch account sig) (confirm_window disc sig) now c)"

text \<open>The first half of \<open>Evaluate\<close>: probes of this channel and account whose buy is not in the round, or that are too old, go.\<close>

definition drop_probes :: "channel \<Rightarrow> string \<Rightarrow> signal list \<Rightarrow> policy \<Rightarrow> int \<Rightarrow> controller \<Rightarrow> controller" where
  "drop_probes ch account sigs pol now c =
     (let seen = map (probe_of ch account) (filter isTradeBuy sigs)
      in c\<lparr>probes := (\<lambda>k. case probes c k of None \<Rightarrow> None
          | Some since \<Rightarrow> if k_ch k = ch \<and> k_account k = account \<and>
              (k \<notin> set seen \<or> maxConfirmWindow (p_Discipline pol) < time_sub now since) then None else Some since)\<rparr>)"

fun admit_all :: "channel \<Rightarrow> string \<Rightarrow> signal list \<Rightarrow> policy \<Rightarrow> int \<Rightarrow> controller \<Rightarrow> controller \<times> decision list" where
  "admit_all ch account [] pol now c = (c, [])"
| "admit_all ch account (s # sigs) pol now c =
     (case Admit ch account s pol now c of (c, d) \<Rightarrow> case admit_all ch account sigs pol now c of (c, ds) \<Rightarrow> (c, d # ds))"

definition Evaluate :: "channel \<Rightarrow> string \<Rightarrow> signal list \<Rightarrow> policy \<Rightarrow> int \<Rightarrow> controller \<Rightarrow> controller \<times> decision list" where
  "Evaluate ch account sigs pol now c = admit_all ch account sigs pol now (drop_probes ch account sigs pol now c)"

section \<open>Sell judgement\<close>

record sell_verdict =
  v_Disposal :: "sell_disposal option"
  v_HoldReason :: "sell_reason option"
  v_Line :: sell_line
  v_Settled :: bool
  v_Extends :: int
  v_Valid :: bool

definition no_verdict :: sell_verdict where
  "no_verdict = \<lparr>v_Disposal = None, v_HoldReason = None, v_Line = SellLineNone, v_Settled = False, v_Extends = 0, v_Valid = False\<rparr>"

definition sell_key_of :: "channel \<Rightarrow> string \<Rightarrow> string \<Rightarrow> sell_key" where
  "sell_key_of ch account code = \<lparr>sk_ch = ch, sk_account = account, sk_code = code\<rparr>"

definition sell_record :: "channel \<Rightarrow> string \<Rightarrow> string \<Rightarrow> verdict \<Rightarrow> sell_reason \<Rightarrow> int \<Rightarrow> decision" where
  "sell_record ch account code v r now = \<lparr>d_Channel = ch, d_Account = account, d_Verdict = v, d_Stage = StageSell, d_Code = code, d_Name = [],
     d_Strategy = [CHR 0xE5, CHR 0x8D, CHR 0x96, CHR 0xE5, CHR 0x87, CHR 0xBA, CHR 0xE7, CHR 0xBA, CHR 0xAA, CHR 0xE5, CHR 0xBE, CHR 0x8B], d_SKey = ''sell_discipline'', d_Reason = SellReason r, d_Shadow = False, d_At = now\<rparr>"

text \<open>Whether a probe moved the state: the condition of a recorded hold.\<close>

definition sell_moved :: "sell_state option \<Rightarrow> sell_state \<Rightarrow> bool" where
  "sell_moved prev st \<longleftrightarrow> (case prev of None \<Rightarrow> True
     | Some old \<Rightarrow> ss_Line st \<noteq> ss_Line old \<or> ss_SettleStart st \<noteq> ss_SettleStart old \<or> ss_Settled st \<noteq> ss_Settled old)"

definition JudgeSellView :: "int \<Rightarrow> channel \<Rightarrow> string \<Rightarrow> sell_input \<Rightarrow> policy \<Rightarrow> int \<Rightarrow> controller \<Rightarrow> controller \<times> sell_verdict" where
  "JudgeSellView z ch account i pol now c =
     (let key = sell_key_of ch account (in_Code i); prev = sellStates c key
      in case sellProbe z prev i now (sellParamsOf (p_Discipline pol)) of
           (None, _, _) \<Rightarrow> (c, no_verdict)
         | (Some st, disposal, hold) \<Rightarrow>
             (let c = c\<lparr>sellStates := (sellStates c)(key \<mapsto> st)\<rparr>;
                  c = (case disposal of Some d \<Rightarrow> record_decision (sell_record ch account (in_Code i) VerdictPass (sd_Reason d) now) c
                       | None \<Rightarrow> (case hold of Some r \<Rightarrow>
                             if sell_moved prev st then record_decision (sell_record ch account (in_Code i) VerdictHold r now) c else c
                           | None \<Rightarrow> c))
              in (c, \<lparr>v_Disposal = disposal, v_HoldReason = hold, v_Line = ss_Line st, v_Settled = ss_Settled st, v_Extends = ss_Extends st,
                     v_Valid = True\<rparr>)))"

definition JudgeSell :: "int \<Rightarrow> channel \<Rightarrow> string \<Rightarrow> sell_input \<Rightarrow> policy \<Rightarrow> int \<Rightarrow> controller \<Rightarrow> controller \<times> sell_disposal option" where
  "JudgeSell z ch account i pol now c = (case JudgeSellView z ch account i pol now c of (c, v) \<Rightarrow> (c, v_Disposal v))"

definition PruneSellStates :: "channel \<Rightarrow> string \<Rightarrow> (string \<Rightarrow> bool) \<Rightarrow> controller \<Rightarrow> controller" where
  "PruneSellStates ch account held c =
     c\<lparr>sellStates := (\<lambda>k. if sk_ch k = ch \<and> sk_account k = account \<and> \<not> held (sk_code k) then None else sellStates c k)\<rparr>"

definition ResetSell :: "controller \<Rightarrow> controller" where
  "ResetSell c = c\<lparr>sellStates := Map.empty\<rparr>"

end
