(* ===== verification/SignalFacts.thy ===== *)
theory SignalFacts
  imports SignalCtl SellFacts
begin

text \<open>
  What the controller promises over every sequence of its operations: a buy passes the window only when
  its signal was there without a break since the probe started, the ring stays within its
  capacity, and the sell states of the positions evolve independently, each as its own run of probes.
\<close>

section \<open>Operations and runs\<close>

datatype ctl_op =
    OpEvaluate channel string "signal list" policy int
  | OpAdmit channel string signal policy int
  | OpJudge channel string sell_input policy int
  | OpPrune channel string "string \<Rightarrow> bool"
  | OpReset

fun ctl_step :: "int \<Rightarrow> controller \<Rightarrow> ctl_op \<Rightarrow> controller" where
  "ctl_step z c (OpEvaluate ch account sigs pol now) = fst (Evaluate ch account sigs pol now c)"
| "ctl_step z c (OpAdmit ch account sig pol now) = fst (Admit ch account sig pol now c)"
| "ctl_step z c (OpJudge ch account i pol now) = fst (JudgeSellView z ch account i pol now c)"
| "ctl_step z c (OpPrune ch account held) = PruneSellStates ch account held c"
| "ctl_step z c OpReset = ResetSell c"

lemma record_fields [simp]:
  "probes (record_decision d c) = probes c" "sellStates (record_decision d c) = sellStates c" "ring_cap (record_decision d c) = ring_cap c"
  by (simp_all add: record_decision_def Let_def)

lemma block_fields [simp]:
  "probes (fst (blockOrShadow d pol c)) = probes c" "sellStates (fst (blockOrShadow d pol c)) = sellStates c"
  "d_Stage (snd (blockOrShadow d pol c)) = d_Stage d"
  by (simp_all add: blockOrShadow_def Let_def)

lemma confirm_sell [simp]: "sellStates (fst (confirm_step d k w now c)) = sellStates c"
  by (simp add: confirm_step_def Let_def split: option.split)

lemma admit_sell [simp]: "sellStates (fst (Admit ch account s pol now c)) = sellStates c"
  by (simp add: Admit_def Let_def)

lemma admit_all_sell [simp]: "sellStates (fst (admit_all ch account sigs pol now c)) = sellStates c"
proof (induction sigs arbitrary: c)
  case (Cons s sigs)
  obtain c1 d where "Admit ch account s pol now c = (c1, d)" by fastforce
  then show ?case using Cons.IH [of c1] admit_sell [of ch account s pol now c] by (simp add: case_prod_beta)
qed simp

lemma evaluate_sell [simp]: "sellStates (fst (Evaluate ch account sigs pol now c)) = sellStates c"
  by (simp add: Evaluate_def drop_probes_def Let_def)

lemma judge_probes [simp]: "probes (fst (JudgeSellView z ch account i pol now c)) = probes c"
  by (auto simp: JudgeSellView_def Let_def split: prod.splits option.splits)

lemma prune_probes [simp]: "probes (PruneSellStates ch account held c) = probes c" "probes (ResetSell c) = probes c"
  by (simp_all add: PruneSellStates_def ResetSell_def)

section \<open>The window needs an unbroken signal\<close>

text \<open>A step that starts the probe of a key at an instant; a step that leaves the signal of a key standing.\<close>

fun starts :: "probe_key \<Rightarrow> int \<Rightarrow> ctl_op \<Rightarrow> bool" where
  "starts k t (OpEvaluate ch account sigs pol now) \<longleftrightarrow> now = t \<and> (\<exists>s \<in> set sigs. isTradeBuy s \<and> probe_of ch account s = k)"
| "starts k t (OpAdmit ch account s pol now) \<longleftrightarrow> now = t \<and> isTradeBuy s \<and> probe_of ch account s = k"
| "starts k t _ \<longleftrightarrow> False"

fun stands :: "probe_key \<Rightarrow> ctl_op \<Rightarrow> bool" where
  "stands k (OpEvaluate ch account sigs pol now) \<longleftrightarrow>
     (k_ch k = ch \<and> k_account k = account \<longrightarrow> (\<exists>s \<in> set sigs. isTradeBuy s \<and> probe_of ch account s = k))"
| "stands k _ \<longleftrightarrow> True"

definition tracked_since :: "ctl_op list \<Rightarrow> probe_key \<Rightarrow> int \<Rightarrow> bool" where
  "tracked_since ops k t \<longleftrightarrow> (\<exists>pre start post. ops = pre @ start # post \<and> starts k t start \<and> (\<forall>o' \<in> set post. stands k o'))"

definition all_tracked :: "ctl_op list \<Rightarrow> controller \<Rightarrow> bool" where
  "all_tracked ops c \<longleftrightarrow> (\<forall>k t. probes c k = Some t \<longrightarrow> tracked_since ops k t)"

lemma tracked_snoc: "tracked_since ops k t \<Longrightarrow> stands k q \<Longrightarrow> tracked_since (ops @ [q]) k t"
  unfolding tracked_since_def by fastforce

lemma tracked_start: "starts k t q \<Longrightarrow> tracked_since (ops @ [q]) k t"
  unfolding tracked_since_def by fastforce

lemma all_tracked_same: "all_tracked ops c \<Longrightarrow> probes c' = probes c \<Longrightarrow> all_tracked ops c'"
  by (simp add: all_tracked_def)

lemma confirm_tracked:
  assumes "all_tracked ops c" "tracked_since ops k now"
  shows "all_tracked ops (fst (confirm_step d k w now c))"
  using assms by (auto simp: confirm_step_def all_tracked_def Let_def split: option.split)

lemma admit_tracked:
  assumes "all_tracked ops c" "isTradeBuy s \<Longrightarrow> tracked_since ops (probe_of ch account s) now"
  shows "all_tracked ops (fst (Admit ch account s pol now c))"
  using assms by (auto simp: Admit_def Let_def intro!: confirm_tracked intro: all_tracked_same)

lemma admit_all_tracked:
  assumes "all_tracked ops c" "\<And>s. s \<in> set sigs \<Longrightarrow> isTradeBuy s \<Longrightarrow> tracked_since ops (probe_of ch account s) now"
  shows "all_tracked ops (fst (admit_all ch account sigs pol now c))"
  using assms
proof (induction sigs arbitrary: c)
  case (Cons s sigs)
  have "all_tracked ops (fst (Admit ch account s pol now c))"
    using Cons.prems by (intro admit_tracked) auto
  then have "all_tracked ops (fst (admit_all ch account sigs pol now (fst (Admit ch account s pol now c))))"
    using Cons.prems(2) by (intro Cons.IH) auto
  then show ?case by (simp add: case_prod_beta)
qed simp

lemma drop_tracked:
  assumes "all_tracked ops c"
  shows "all_tracked (ops @ [OpEvaluate ch account sigs pol now]) (drop_probes ch account sigs pol now c)"
  using assms unfolding all_tracked_def drop_probes_def Let_def
  by (auto split: option.splits if_splits intro!: tracked_snoc)

lemma step_tracked:
  assumes "all_tracked ops c"
  shows "all_tracked (ops @ [q]) (ctl_step z c q)"
proof (cases q)
  case (OpEvaluate ch account sigs pol now)
  have "tracked_since (ops @ [q]) (probe_of ch account s) now" if "s \<in> set sigs" "isTradeBuy s" for s
    using that OpEvaluate by (intro tracked_start) auto
  then show ?thesis
    using drop_tracked [OF assms] OpEvaluate by (simp add: Evaluate_def admit_all_tracked)
next
  case (OpAdmit ch account s pol now)
  have "all_tracked (ops @ [q]) c"
    using assms OpAdmit by (auto simp: all_tracked_def intro: tracked_snoc)
  then show ?thesis
    using OpAdmit by (auto intro!: admit_tracked tracked_start)
qed (use assms in \<open>auto simp: all_tracked_def intro: tracked_snoc\<close>)

lemma run_tracked: "all_tracked ops (foldl (ctl_step z) NewController ops)"
proof (induction ops rule: rev_induct)
  case Nil
  then show ?case by (simp add: all_tracked_def NewController_def)
next
  case (snoc q ops)
  then show ?case using step_tracked [OF snoc] by simp
qed

lemma admit_pass:
  assumes "isTradeBuy s" "d_Verdict (snd (Admit ch account s pol now c)) = VerdictPass" "\<not> d_Shadow (snd (Admit ch account s pol now c))"
    and "0 < low_window (p_Discipline pol) \<or> 0 < high_window (p_Discipline pol)"
  shows "fst (AdmitStrategy pol s) \<and> \<not> CodeInBlacklist (p_CodeBlacklist pol) (sg_Code s) \<and>
    (\<exists>t. probes c (probe_of ch account s) = Some t \<and> confirm_window (p_Discipline pol) s \<le> time_sub now t)"
  using assms
  by (auto simp: Admit_def blockOrShadow_def confirm_step_def fresh_decision_def Let_def split: if_splits option.splits)

lemma admit_all_nth:
  assumes "all_tracked ops c" "\<And>s. s \<in> set sigs \<Longrightarrow> isTradeBuy s \<Longrightarrow> tracked_since ops (probe_of ch account s) now" "i < length sigs"
  shows "\<exists>c'. all_tracked ops c' \<and> snd (admit_all ch account sigs pol now c) ! i = snd (Admit ch account (sigs ! i) pol now c')"
  using assms
proof (induction sigs arbitrary: c i)
  case (Cons s sigs)
  show ?case
  proof (cases i)
    case 0
    then show ?thesis using Cons.prems(1) by (auto simp: case_prod_beta)
  next
    case (Suc j)
    have "all_tracked ops (fst (Admit ch account s pol now c))"
      using Cons.prems by (intro admit_tracked) auto
    then show ?thesis
      using Cons.IH [of "fst (Admit ch account s pol now c)" j] Cons.prems(2,3) Suc by (auto simp: case_prod_beta)
  qed
qed simp

text \<open>C14: in every history of the controller, a buy that a round lets pass (and not as a shadow hit) is
  admitted by the strategy list, is on no code blacklist, and its signal stood without a break in every
  round of its channel and account from the probe's start to this one, for at least the window.\<close>

theorem buy_needs_full_window:
  assumes "i < length sigs" "isTradeBuy (sigs ! i)"
    and "0 < low_window (p_Discipline pol) \<or> 0 < high_window (p_Discipline pol)"
    and "d = snd (Evaluate ch account sigs pol now (foldl (ctl_step z) NewController ops)) ! i"
    and "d_Verdict d = VerdictPass" "\<not> d_Shadow d"
  shows "fst (AdmitStrategy pol (sigs ! i)) \<and> \<not> CodeInBlacklist (p_CodeBlacklist pol) (sg_Code (sigs ! i)) \<and>
    (\<exists>t. tracked_since (ops @ [OpEvaluate ch account sigs pol now]) (probe_of ch account (sigs ! i)) t \<and>
         confirm_window (p_Discipline pol) (sigs ! i) \<le> time_sub now t)"
proof -
  let ?ops = "ops @ [OpEvaluate ch account sigs pol now]"
  have "tracked_since ?ops (probe_of ch account s) now" if "s \<in> set sigs" "isTradeBuy s" for s
    using that by (intro tracked_start) auto
  then obtain c' where c': "all_tracked ?ops c'" "d = snd (Admit ch account (sigs ! i) pol now c')"
    using admit_all_nth [OF drop_tracked [OF run_tracked [of ops z]] _ assms(1), where account = account and ch = ch and now = now and pol = pol]
      assms(4) unfolding Evaluate_def by metis
  show ?thesis
    using admit_pass [OF assms(2) assms(5,6) [unfolded c'(2)] assms(3)] c'(1) by (auto simp: all_tracked_def)
qed

text \<open>In shadow mode a blacklisted code passes at once: the hit returns before the window is looked at.\<close>

lemma shadow_hit_skips_window:
  assumes "isTradeBuy s" "fst (AdmitStrategy pol s)" "CodeInBlacklist (p_CodeBlacklist pol) (sg_Code s)" "p_ShadowBlacklist pol"
  shows "d_Verdict (snd (Admit ch account s pol now NewController)) = VerdictPass"
  using assms by (simp add: Admit_def blockOrShadow_def fresh_decision_def Let_def)

section \<open>The ring\<close>

lemma record_ring: "ring (record_decision d c) = drop (Suc (length (ring c)) - ring_cap c) (ring c @ [d])"
  by (simp add: record_decision_def Let_def)

definition ring_ok :: "controller \<Rightarrow> bool" where
  "ring_ok c \<longleftrightarrow> length (ring c) \<le> ring_cap c \<and> ring_cap c = 512"

lemma ring_ok_record [simp]: "ring_ok c \<Longrightarrow> ring_ok (record_decision d c)"
  by (simp add: ring_ok_def record_ring)

lemma ring_ok_update [simp]:
  "ring_ok (c\<lparr>probes := ps\<rparr>) = ring_ok c" "ring_ok (c\<lparr>sellStates := ss\<rparr>) = ring_ok c"
  by (simp_all add: ring_ok_def)

lemma ring_ok_admit: "ring_ok c \<Longrightarrow> ring_ok (fst (Admit ch account s pol now c))"
  by (simp add: Admit_def blockOrShadow_def confirm_step_def Let_def split: option.split)

lemma ring_ok_admit_all: "ring_ok c \<Longrightarrow> ring_ok (fst (admit_all ch account sigs pol now c))"
  by (induction sigs arbitrary: c) (auto simp: case_prod_beta intro: ring_ok_admit)

lemma ring_ok_judge: "ring_ok c \<Longrightarrow> ring_ok (fst (JudgeSellView z ch account i pol now c))"
  by (auto simp: JudgeSellView_def Let_def split: prod.splits option.splits)

lemma ring_ok_step: "ring_ok c \<Longrightarrow> ring_ok (ctl_step z c q)"
  by (cases q) (auto simp: Evaluate_def drop_probes_def Let_def PruneSellStates_def ResetSell_def intro: ring_ok_admit ring_ok_admit_all ring_ok_judge)

interpretation ctl_ring: invariant_system "ctl_step z" ring_ok for z
  by unfold_locales (rule ring_ok_step)

text \<open>after every history the record of decisions holds at most 512 of them, and recording one more puts it
  first in what \<open>Recent\<close> shows, before the most recent of what it showed before.\<close>

lemma recent_shows_latest:
  assumes "c = foldl (ctl_step z) NewController ops" "0 < n" "n \<le> 512"
  shows "length (Recent 0 c) \<le> 512 \<and> Recent n (record_decision d c) = d # take (nat n - 1) (Recent 0 c)"
proof -
  have ok: "ring_ok c" unfolding assms(1) by (rule ctl_ring.inv_run) (simp add: ring_ok_def NewController_def)
  have "rev (ring (record_decision d c)) = take 512 (d # rev (ring c))"
    using ok by (cases "length (ring c) \<le> 511") (auto simp: record_ring ring_ok_def rev_drop take_Cons' le_Suc_eq)
  moreover have "length (ring (record_decision d c)) = min 512 (Suc (length (ring c)))"
    using ok by (simp add: record_ring ring_ok_def)
  ultimately show ?thesis
    using ok assms(2,3) by (auto simp: Recent_def Let_def ring_ok_def take_Cons' min_def)
qed

section \<open>Sell states evolve independently\<close>

text \<open>What the operations mean for one position alone.\<close>

fun position_step :: "int \<Rightarrow> sell_key \<Rightarrow> sell_state option \<Rightarrow> ctl_op \<Rightarrow> sell_state option" where
  "position_step z k st (OpJudge ch account i pol now) =
     (if sell_key_of ch account (in_Code i) = k then sell_step z (sellParamsOf (p_Discipline pol)) st (i, now) else st)"
| "position_step z k st (OpPrune ch account held) =
     (if sk_ch k = ch \<and> sk_account k = account \<and> \<not> held (sk_code k) then None else st)"
| "position_step z k st OpReset = None"
| "position_step z k st _ = st"

lemma probe_keeps_state: "fst (sellProbe z (Some st) i now p) \<noteq> None"
  by (cases rule: sellProbe_cases [of i z "Some st" now p]) auto

lemma judge_states:
  "sellStates (fst (JudgeSellView z ch account i pol now c)) k =
     (if sell_key_of ch account (in_Code i) = k then sell_step z (sellParamsOf (p_Discipline pol)) (sellStates c k) (i, now) else sellStates c k)"
proof -
  let ?r = "sellProbe z (sellStates c (sell_key_of ch account (in_Code i))) i now (sellParamsOf (p_Discipline pol))"
  obtain st d h where r: "?r = (st, d, h)" by (metis prod.collapse)
  have "sellStates c (sell_key_of ch account (in_Code i)) = None" if "st = None"
    using r that probe_keeps_state by (metis fst_conv not_None_eq)
  then show ?thesis
    using r by (auto simp: JudgeSellView_def sell_step_def Let_def split: option.splits)
qed

text \<open>after every history the sell state of a position is what its own probes made of it, in their order:
  signals of other positions, channels and accounts, admissions and rounds never touch it; only
  its own probe, its leaving the holdings, and a reset do.\<close>

theorem sell_states_independent:
  "sellStates (foldl (ctl_step z) NewController ops) k = foldl (position_step z k) None ops"
proof (induction ops rule: rev_induct)
  case Nil
  then show ?case by (simp add: NewController_def)
next
  case (snoc q ops)
  then show ?case by (cases q) (simp_all add: judge_states PruneSellStates_def ResetSell_def)
qed

text \<open>A round without a price leaves a known position's view valid, though nothing was judged.\<close>

lemma unpriced_view_valid:
  assumes "\<not> priced i" "sellStates c (sell_key_of ch account (in_Code i)) = Some st"
  shows "v_Valid (snd (JudgeSellView z ch account i pol now c))"
  using assms by (simp add: JudgeSellView_def sellProbe_def priced_def Let_def)

section \<open>Concrete runs\<close>

definition listed_policy :: policy where
  "listed_policy = \<lparr>p_Strategies = [''dragon''], p_CodeBlacklist = [], p_SectorBlacklist = [], p_ShadowBlacklist = False,
     p_Discipline = DefaultDisciplineConfig\<rparr>"

definition dragon_buy :: signal where
  "dragon_buy = \<lparr>sg_Code = ''600000'', sg_Name = [], sg_Strategy = [], sg_Direction = [], sg_Action = ''buy'', sg_Confidence = Fin 0,
     sg_Sector = [], sg_StrategyID = [], sg_StrategyType = ''dragon''\<rparr>"

definition first_round :: ctl_op where
  "first_round = OpEvaluate ChannelLive ''u1'' [dragon_buy] listed_policy 0"

lemma sample_round [simp]:
  "isTradeBuy dragon_buy" "AdmitStrategy listed_policy dragon_buy = (True, NoReason)" "\<not> CodeInBlacklist (p_CodeBlacklist listed_policy) code"
  "sg_Sector dragon_buy = []" "confirm_window (p_Discipline listed_policy) dragon_buy = 5 * minute" "low_window (p_Discipline listed_policy) = 5 * minute"
  "maxConfirmWindow (p_Discipline listed_policy) = 10 * minute"
proof -
  show "AdmitStrategy listed_policy dragon_buy = (True, NoReason)"
    by (simp add: AdmitStrategy_def StrategyKeyOf_def dragon_buy_def listed_policy_def)
qed (simp_all add: isTradeBuy_def dragon_buy_def listed_policy_def CodeInBlacklist_def confirm_window_def low_window_def high_window_def
    maxConfirmWindow_def highConfThreshold_def DefaultDisciplineConfig_def wrap64_id zero_f64_def times_f64_def)

lemma after_first:
  "probes (foldl (ctl_step 0) NewController [first_round]) = [probe_of ChannelLive ''u1'' dragon_buy \<mapsto> 0]"
  by (simp add: first_round_def Evaluate_def drop_probes_def Admit_def confirm_step_def NewController_def Let_def)

lemma second_round:
  "d_Verdict (snd (Evaluate ChannelLive ''u1'' [dragon_buy] listed_policy (6 * minute) (foldl (ctl_step 0) NewController [first_round])) ! 0) = VerdictPass"
  "\<not> d_Shadow (snd (Evaluate ChannelLive ''u1'' [dragon_buy] listed_policy (6 * minute) (foldl (ctl_step 0) NewController [first_round])) ! 0)"
  unfolding Evaluate_def
  by (simp_all add: after_first drop_probes_def Admit_def confirm_step_def fresh_decision_def probe_of_def time_sub_def sat64_def case_prod_beta Let_def del: foldl_Cons)

theorem buy_needs_full_window_witness:
  "\<exists>t. tracked_since [first_round, OpEvaluate ChannelLive ''u1'' [dragon_buy] listed_policy (6 * minute)] (probe_of ChannelLive ''u1'' dragon_buy) t \<and>
     5 * minute \<le> time_sub (6 * minute) t"
  using buy_needs_full_window [of 0 "[dragon_buy]" listed_policy _ ChannelLive "''u1''" "6 * minute" 0 "[first_round]", OF _ _ _ refl second_round]
  by simp

end
