(* ===== verification/Gate.thy ===== *)
theory Gate
  imports LedgerQueries Sessions SignalCtl
begin

text \<open>
  The live-order risk gate of \<open>internal/risk/gate.go\<close>: seventeen checks in their order, the first that
  objects decides, its hit is recorded in the ledger. The evidence sources the assembly layer wires in
  (cross-check prices, exchange rules, trading status, borrow and liquidation evidence) are functions of the
  gate, \<open>None\<close> when not wired. A rejection keeps what its text prints as a \<open>gate_reason\<close>; \<open>ge_text\<close> is the
  rendering of the text itself (\<open>fmt.Sprintf\<close>), which only the ledger's last-reason column sees.
  Also \<open>M8CheckWith\<close> of \<open>internal/risk/risk.go\<close>.
\<close>

section \<open>Orders, reasons, verdicts\<close>

record live_order =
  lo_SignalID :: string
  lo_Code :: string
  lo_Name :: string
  lo_Strategy :: string
  lo_StrategyID :: string
  lo_StrategyType :: string
  lo_Side :: string
  lo_Price :: f64
  lo_Qty :: f64
  lo_Amount :: f64
  lo_Market :: string
  lo_StalenessMs :: int
  lo_CurrentPrice :: f64
  lo_PrevClose :: f64

datatype gate_reason =
    BadSide string
  | ShortMarketUnsupported string string
  | StName string
  | BlacklistedCode string string
  | OrderAmountOver f64 f64 string string f64
  | T1Locked f64 f64 f64 f64 f64
  | LimitUpChase f64 f64 f64 f64
  | LimitDownChase f64 f64 f64 f64
  | StaleQuote int int
  | PriceDeviates string f64 f64 f64 f64
  | DayLossHit f64 f64 f64
  | Concentrated f64 f64 f64 f64 string string
  | ReadBuyFills store_error
  | ReadFrozen store_error
  | ReadSellFills store_error
  | ReadPositions store_error
  | DailyBuysReached int int
  | BudgetShort f64 f64 f64 f64 f64 f64
  | FundsShort f64 f64 f64 f64 f64 f64 f64
  | BrokerFundsShort bool f64 f64 string f64 f64
  | BrokerFundsUndated f64 f64
  | NotWhitelisted string
  | PositionsFull int int
  | BelowMinNotional f64 f64 string string f64
  | OffStep f64 f64
  | TooManyDecimals f64
  | HaltShown
  | NoHaltEvidence
  | ShortDisabled string f64
  | NoBorrowSource
  | NotBorrowable string
  | LiqTooNear string

datatype gate = G_st | G_blacklist | G_max_order_amount | G_t1_sellable | G_limit_up_down | G_stale_quote | G_price_cross_check
  | G_day_loss | G_concentration | G_buy_discipline | G_whitelist | G_max_positions | G_min_notional | G_lot_precision | G_market_halt
  | G_short_borrow | G_liq_distance | G_side_unknown | G_short_side_market_unsupported

fun gate_name :: "gate \<Rightarrow> string" where
  "gate_name G_st = ''st''"
| "gate_name G_blacklist = ''blacklist''"
| "gate_name G_max_order_amount = ''max_order_amount''"
| "gate_name G_t1_sellable = ''t1_sellable''"
| "gate_name G_limit_up_down = ''limit_up_down''"
| "gate_name G_stale_quote = ''stale_quote''"
| "gate_name G_price_cross_check = ''price_cross_check''"
| "gate_name G_day_loss = ''day_loss''"
| "gate_name G_concentration = ''concentration''"
| "gate_name G_buy_discipline = ''buy_discipline''"
| "gate_name G_whitelist = ''whitelist''"
| "gate_name G_max_positions = ''max_positions''"
| "gate_name G_min_notional = ''min_notional''"
| "gate_name G_lot_precision = ''lot_precision''"
| "gate_name G_market_halt = ''market_halt''"
| "gate_name G_short_borrow = ''short_borrow''"
| "gate_name G_liq_distance = ''liq_distance''"
| "gate_name G_side_unknown = ''side_unknown''"
| "gate_name G_short_side_market_unsupported = ''short_side_market_unsupported''"

text \<open>Which hits alert: the legacy guards stay silent.\<close>

fun gate_alert :: "gate \<Rightarrow> bool" where
  "gate_alert g = (g \<notin> {G_st, G_blacklist, G_t1_sellable, G_buy_discipline, G_whitelist, G_max_positions})"

record gate_verdict =
  gv_Pass :: bool
  gv_Gate :: "gate option"
  gv_Reason :: "gate_reason option"
  gv_Alerted :: bool
  gv_Blocked :: bool

record symbol_rules =
  MinNotional :: f64
  StepSize :: f64
  TickSize :: f64

record gate_env =
  ge_store :: bool
  ge_userID :: string
  ge_now :: int
  ge_onGate :: bool
  ge_clock :: clock_env
  ge_crossPrice :: "(string \<Rightarrow> f64 option) option"
  ge_symbolRules :: "(string \<Rightarrow> symbol_rules option) option"
  ge_haltEvidence :: "(string \<Rightarrow> bool \<times> bool) option"
  ge_borrowEvidence :: "(string \<Rightarrow> string \<Rightarrow> bool \<times> string) option"
  ge_liqEvidence :: "(string \<Rightarrow> string \<Rightarrow> bool \<times> string) option"
  ge_text :: "gate_reason \<Rightarrow> string"

definition gate_today :: "gate_env \<Rightarrow> string" where
  "gate_today g = DayOf (ge_now g)"

definition marketToday :: "gate_env \<Rightarrow> string \<Rightarrow> string" where
  "marketToday g market = format_day (local_day (Loc (ge_clock g) (Session market) (ge_now g)) (ge_now g))"

definition filterPosesByMarket :: "real_position list \<Rightarrow> string \<Rightarrow> real_position list" where
  "filterPosesByMarket ps market = filter (\<lambda>p. normalize_market (p_Market p) = normalize_market market) ps"

definition opens_exposure :: "string \<Rightarrow> bool" where
  "opens_exposure side \<longleftrightarrow> side = SideBuy \<or> side = SideShortOpen"

text \<open>The order's amount, or quantity times price when it is not given.\<close>

definition order_amount :: "live_order \<Rightarrow> f64" where
  "order_amount q = (if lo_Amount q \<le> 0 then lo_Price q * lo_Qty q else lo_Amount q)"

section \<open>The single checks\<close>

definition checkST :: "live_order \<Rightarrow> gate_reason option" where
  "checkST q = (if lo_Market q \<noteq> CN then None else if lo_Side q \<noteq> SideBuy then None
     else if IsSTStock (lo_Name q) then Some (StName (lo_Name q)) else None)"

definition checkBlacklist :: "broker_config \<Rightarrow> live_order \<Rightarrow> gate_reason option" where
  "checkBlacklist cfg q = (if \<not> opens_exposure (lo_Side q) then None
     else if CodeInBlacklist (BrokerBlacklist cfg) (lo_Code q) then Some (BlacklistedCode (lo_Side q) (lo_Code q)) else None)"

definition checkT1Sellable :: "gate_env \<Rightarrow> broker_config \<Rightarrow> live_order \<Rightarrow> db \<Rightarrow> gate_reason option" where
  "checkT1Sellable g cfg q d =
     (if lo_Market q \<noteq> CN then None
      else if lo_Side q \<noteq> SideSell \<or> \<not> BrokerEnforceT1 cfg \<or> \<not> ge_store g then None
      else case RealPositionByCodeForUser d (ge_userID g) (lo_Code q) of
        Inr (Some p) \<Rightarrow>
          (if 0 < p_Qty p then
             let bought = TodayBoughtQty d (ge_userID g) (lo_Code q) (gate_today g);
                 openSell = SumOpenSellQty d (ge_userID g) (lo_Code q) (gate_today g);
                 sellable = p_Qty p - bought - openSell;
                 sellable = (if sellable < 0 then 0 else sellable)
             in if sellable < lo_Qty q then Some (T1Locked sellable (lo_Qty q) (p_Qty p) bought openSell) else None
           else None)
      | _ \<Rightarrow> None)"

definition checkMaxOrderAmount :: "broker_config \<Rightarrow> live_order \<Rightarrow> gate_reason option" where
  "checkMaxOrderAmount cfg q =
     (let lim = MaxOrderAmount (BrokerRiskGate cfg); amt = order_amount q
      in if lim \<le> 0 then None
         else if lim < amt then Some (OrderAmountOver amt lim (lo_Side q) (lo_Code q) (lo_Qty q)) else None)"

definition checkLimitPrice :: "broker_config \<Rightarrow> live_order \<Rightarrow> gate_reason option" where
  "checkLimitPrice cfg q =
     (if lo_Market q \<noteq> CN then None
      else if lo_PrevClose q \<le> 0 \<or> lo_Price q \<le> 0 then None
      else
        let pct = LimitUpPct (lo_Code q) (lo_Name q);
            limitUp = lo_PrevClose q * (1 + pct / Fin 100);
            limitDown = lo_PrevClose q * (1 - pct / Fin 100)
        in if lo_Side q = SideBuy \<and> LimitUpBlockBuy (BrokerRiskGate cfg) \<and> limitUp \<le> lo_Price q then
             Some (LimitUpChase (lo_Price q) limitUp (lo_PrevClose q) pct)
           else if lo_Side q = SideSell \<and> LimitDownBlockSell (BrokerRiskGate cfg) \<and> lo_Price q \<le> limitDown then
             Some (LimitDownChase (lo_Price q) limitDown (lo_PrevClose q) pct)
           else None)"

definition checkStaleQuote :: "broker_config \<Rightarrow> live_order \<Rightarrow> gate_reason option" where
  "checkStaleQuote cfg q =
     (let lim = StaleQuoteMs (BrokerRiskGate cfg)
      in if lim \<le> 0 \<or> lo_StalenessMs q < 0 then None
         else if lim < lo_StalenessMs q then Some (StaleQuote (lo_StalenessMs q) lim) else None)"

text \<open>The deviation beyond the threshold, whether it is enforced or only noted.\<close>

definition cross_deviation :: "gate_env \<Rightarrow> broker_config \<Rightarrow> live_order \<Rightarrow> gate_reason option" where
  "cross_deviation g cfg q =
     (let pct = CrossCheckPct (BrokerRiskGate cfg)
      in if lo_Market q \<noteq> CN then None
         else if pct \<le> 0 \<or> lo_Price q \<le> 0 then None
         else case ge_crossPrice g of
             None \<Rightarrow> None
           | Some source \<Rightarrow>
               (case source (lo_Code q) of
                  None \<Rightarrow> None
                | Some cross \<Rightarrow>
                    (if cross \<le> 0 then None
                     else let dev = (lo_Price q - cross) / cross * Fin 100; dev = (if dev < 0 then - dev else dev)
                          in if dev \<le> pct then None else Some (PriceDeviates (lo_Code q) (lo_Price q) cross dev pct))))"

definition checkPriceCross :: "gate_env \<Rightarrow> broker_config \<Rightarrow> live_order \<Rightarrow> gate_reason option" where
  "checkPriceCross g cfg q = (if CrossCheckEnforce (BrokerRiskGate cfg) then cross_deviation g cfg q else None)"

text \<open>The shadow mode's note in the ledger; a failed write is ignored.\<close>

definition cross_note :: "gate_env \<Rightarrow> string \<Rightarrow> broker_config \<Rightarrow> live_order \<Rightarrow> db \<Rightarrow> db" where
  "cross_note g stamp cfg q d =
     (if CrossCheckEnforce (BrokerRiskGate cfg) \<or> \<not> ge_store g then d
      else case cross_deviation g cfg q of
          None \<Rightarrow> d
        | Some r \<Rightarrow> (case RecordRiskGate d stamp (ge_userID g) (gate_today g) ''price_cross_check'' (''[shadow] '' @ ge_text g r) of
              Inl _ \<Rightarrow> d | Inr d' \<Rightarrow> d'))"

definition checkDayLoss :: "gate_env \<Rightarrow> broker_config \<Rightarrow> live_order \<Rightarrow> db \<Rightarrow> gate_reason option" where
  "checkDayLoss g cfg q d =
     (let lim = DayLossLimitPct (BrokerRiskGate cfg)
      in if lim \<le> 0 \<or> \<not> ge_store g \<or> \<not> opens_exposure (lo_Side q) then None
         else case TodayRealizedPnlForMarket d (ge_userID g) (marketToday g (lo_Market q)) (lo_Market q) of
             Inl _ \<Rightarrow> None
           | Inr pnl \<Rightarrow>
               (if 0 \<le> pnl then None
                else
                  let own = (if 0 < BrokerInitialCapital cfg then BrokerInitialCapital cfg else 0);
                      base = (case TotalAssetsForMarket d (ge_userID g) (lo_Market q) of
                                Inl _ \<Rightarrow> own | Inr tot \<Rightarrow> if 0 < tot then tot else own);
                      lossPct = - pnl / base * Fin 100
                  in if base \<le> 0 then None
                     else if lim \<le> lossPct then Some (DayLossHit (- pnl) lossPct lim) else None))"

definition held_value :: "gate_env \<Rightarrow> live_order \<Rightarrow> db \<Rightarrow> f64" where
  "held_value g q d =
     (case RealPositionByCodeForUser d (ge_userID g) (lo_Code q) of
        Inr (Some p) \<Rightarrow>
          (if 0 < p_Qty p then
             let price = (if p_CurPrice p \<le> 0 then p_CostPrice p else p_CurPrice p) in if 0 < price then price * p_Qty p else 0
           else 0)
      | _ \<Rightarrow> 0)"

definition checkConcentration :: "gate_env \<Rightarrow> broker_config \<Rightarrow> live_order \<Rightarrow> db \<Rightarrow> gate_reason option" where
  "checkConcentration g cfg q d =
     (let lim = SingleStockValuePct (BrokerRiskGate cfg)
      in if lim \<le> 0 \<or> \<not> ge_store g \<or> \<not> opens_exposure (lo_Side q) then None
         else case TotalAssetsForMarket d (ge_userID g) (lo_Market q) of
             Inl _ \<Rightarrow> None
           | Inr tot \<Rightarrow>
               (if tot \<le> 0 then None
                else let proj = held_value g q d + lo_Amount q
                     in if lim < proj / tot * Fin 100 then
                          Some (Concentrated proj tot (proj / tot * Fin 100) lim (lo_Side q) (lo_Code q))
                        else None))"

definition signal_of_order :: "live_order \<Rightarrow> signal" where
  "signal_of_order q = \<lparr>sg_Code = lo_Code q, sg_Name = [], sg_Strategy = lo_Strategy q, sg_Direction = [], sg_Action = [],
     sg_Confidence = 0, sg_Sector = [], sg_StrategyID = lo_StrategyID q, sg_StrategyType = lo_StrategyType q\<rparr>"

definition list_policy :: "string list \<Rightarrow> policy" where
  "list_policy xs = \<lparr>p_Strategies = xs, p_CodeBlacklist = [], p_SectorBlacklist = [], p_ShadowBlacklist = False,
     p_Discipline = DefaultDisciplineConfig\<rparr>"

definition checkWhitelist :: "broker_config \<Rightarrow> live_order \<Rightarrow> gate_reason option" where
  "checkWhitelist cfg q =
     (if \<not> opens_exposure (lo_Side q) \<or> lo_Strategy q = [] then None
      else if fst (AdmitStrategy (list_policy (BrokerStrategies cfg)) (signal_of_order q)) then None
      else Some (NotWhitelisted (lo_Strategy q)))"

definition checkMaxPositions :: "gate_env \<Rightarrow> broker_config \<Rightarrow> live_order \<Rightarrow> db \<Rightarrow> gate_reason option" where
  "checkMaxPositions g cfg q d =
     (if BrokerMaxPositions cfg \<le> 0 \<or> \<not> opens_exposure (lo_Side q) \<or> \<not> ge_store g then None
      else case RealPositionsForUser d (ge_userID g) of
          Inl e \<Rightarrow> Some (ReadPositions e)
        | Inr ps \<Rightarrow> (let n = int (length (filterPosesByMarket ps (lo_Market q)))
            in if BrokerMaxPositions cfg \<le> n then Some (PositionsFull n (BrokerMaxPositions cfg)) else None))"

section \<open>Buy discipline\<close>

text \<open>Whether the broker's snapshot is dated within the last ten minutes; \<open>None\<close> when its date does not parse.\<close>

definition snapshot_fresh :: "gate_env \<Rightarrow> real_account \<Rightarrow> bool option" where
  "snapshot_fresh g acc = map_option (\<lambda>stated. time_sub (ge_now g) stated \<le> 10 * minute) (parse_cn_datetime (a_UpdatedAt acc))"

definition held_cost :: "real_position list \<Rightarrow> f64" where
  "held_cost ps = foldl (\<lambda>a p. a + p_CostPrice p * p_Qty p) 0 ps"

text \<open>The third gate: what is left of the initial capital by the local books.\<close>

definition checkLocalFunds :: "gate_env \<Rightarrow> broker_config \<Rightarrow> live_order \<Rightarrow> db \<Rightarrow> f64 \<Rightarrow> gate_reason option" where
  "checkLocalFunds g cfg q d frozen =
     (let acc = GetRealAccountForMarket d (ge_userID g) (lo_Market q); amount = order_amount q
      in if BrokerInitialCapital cfg \<le> 0 then None
         else if 0 < a_AvailableCash acc \<and> snapshot_fresh g acc = Some True then None
         else case RealPositionsForUser d (ge_userID g) of
             Inl e \<Rightarrow> Some (ReadPositions e)
           | Inr ps \<Rightarrow>
               (let held = held_cost (filterPosesByMarket ps (lo_Market q));
                    pnl = (case TodayRealizedPnlForMarket d (ge_userID g) (marketToday g (lo_Market q)) (lo_Market q) of Inl _ \<Rightarrow> 0 | Inr x \<Rightarrow> x);
                    avail0 = BrokerInitialCapital cfg - held - frozen + pnl;
                    avail = avail0 - EffectiveReserve (moneyOf cfg) avail0
                in if avail < amount then
                     Some (FundsShort avail (BrokerInitialCapital cfg) held frozen pnl (EffectiveReserve (moneyOf cfg) avail) amount)
                   else None))"

text \<open>The fourth gate: the broker's own available cash, halved when the snapshot is old or undated.\<close>

definition checkBrokerFunds :: "gate_env \<Rightarrow> broker_config \<Rightarrow> live_order \<Rightarrow> db \<Rightarrow> f64 \<Rightarrow> gate_reason option" where
  "checkBrokerFunds g cfg q d frozen =
     (let acc = GetRealAccountForMarket d (ge_userID g) (lo_Market q); amount = order_amount q; cash = a_AvailableCash acc
      in if \<not> 0 < cash then None
         else case snapshot_fresh g acc of
             None \<Rightarrow> (if cash * Fin (1 / 2) < amount then Some (BrokerFundsUndated (cash * Fin (1 / 2)) amount) else None)
           | Some fresh \<Rightarrow>
               (let cap0 = (if fresh then cash else cash * Fin (1 / 2));
                    frozenDed = (if TrustBrokerFreezeEnabled (moneyOf cfg) then 0 else frozen);
                    cap1 = (if TrustBrokerFreezeEnabled (moneyOf cfg) then cap0 else cap0 - frozenDed);
                    reserveDed = EffectiveReserve (moneyOf cfg) cap1;
                    cap = cap1 - reserveDed
                in if cap < amount then Some (BrokerFundsShort fresh cap amount (a_UpdatedAt acc) frozenDed reserveDed) else None))"

text \<open>The second gate: what the day's buys and open buys occupy, less the day's sales, floored at 0.\<close>

definition occupied :: "f64 \<Rightarrow> f64 \<Rightarrow> f64 \<Rightarrow> f64" where
  "occupied filledAmt frozen sellProceeds =
     (let x = filledAmt + frozen - sellProceeds in if x < 0 then 0 else x)"

definition checkBudget :: "broker_config \<Rightarrow> live_order \<Rightarrow> f64 \<Rightarrow> f64 \<Rightarrow> f64 \<Rightarrow> gate_reason option" where
  "checkBudget cfg q filledAmt frozen sellProceeds =
     (let occ = occupied filledAmt frozen sellProceeds; lim = BrokerDailyBudget cfg
      in if \<not> 0 < lim then None
         else if lim < occ + order_amount q then Some (BudgetShort filledAmt frozen sellProceeds occ (order_amount q) lim) else None)"

definition checkDailyBuys :: "gate_env \<Rightarrow> broker_config \<Rightarrow> live_order \<Rightarrow> db \<Rightarrow> gate_reason option" where
  "checkDailyBuys g cfg q d =
     (if BrokerDailyMaxBuys cfg \<le> 0 then None
      else case CountBuyFilledOrdersByDayForMarket d (ge_userID g) (marketToday g (lo_Market q)) (lo_Market q) of
          Inl e \<Rightarrow> Some (ReadBuyFills e)
        | Inr n \<Rightarrow> if BrokerDailyMaxBuys cfg \<le> n then Some (DailyBuysReached (BrokerDailyMaxBuys cfg) n) else None)"

definition checkBuyDiscipline :: "gate_env \<Rightarrow> broker_config \<Rightarrow> live_order \<Rightarrow> db \<Rightarrow> gate_reason option" where
  "checkBuyDiscipline g cfg q d =
     (let today = marketToday g (lo_Market q); user = ge_userID g; m = lo_Market q
      in if lo_Side q \<noteq> SideBuy \<or> \<not> ge_store g then None
         else case SumBuyFilledAmountByDayForMarket d user today m of Inl e \<Rightarrow> Some (ReadBuyFills e) | Inr filledAmt \<Rightarrow>
         (case LocalBuyFrozenForMarket d user today m of Inl e \<Rightarrow> Some (ReadFrozen e) | Inr frozen \<Rightarrow>
         (case SumSellFilledAmountByDayForMarket d user today m of Inl e \<Rightarrow> Some (ReadSellFills e) | Inr sellProceeds \<Rightarrow>
         (case checkDailyBuys g cfg q d of Some r \<Rightarrow> Some r | None \<Rightarrow>
         (case checkBudget cfg q filledAmt frozen sellProceeds of Some r \<Rightarrow> Some r | None \<Rightarrow>
         (case checkLocalFunds g cfg q d frozen of Some r \<Rightarrow> Some r | None \<Rightarrow> checkBrokerFunds g cfg q d frozen))))))"

section \<open>Exchange rules, halts, shorts\<close>

definition checkMinNotional :: "gate_env \<Rightarrow> live_order \<Rightarrow> gate_reason option" where
  "checkMinNotional g q =
     (if lo_Market q \<noteq> CRYPTO then None
      else case ge_symbolRules g of None \<Rightarrow> None
        | Some source \<Rightarrow> (case source (lo_Code q) of None \<Rightarrow> None
            | Some rules \<Rightarrow>
                (if MinNotional rules \<le> 0 then None
                 else if order_amount q < MinNotional rules then
                   Some (BelowMinNotional (order_amount q) (MinNotional rules) (lo_Side q) (lo_Code q) (lo_Qty q)) else None)))"

text \<open>
  The decimals of the shortest decimal text that reads back as the same float
  (\<open>strconv.FormatFloat(v, 'f', -1, 64)\<close>): the least number of places with a nearest decimal that rounds to it.
\<close>

definition reads_back :: "rat \<Rightarrow> nat \<Rightarrow> bool" where
  "reads_back r p \<longleftrightarrow> rnd (of_int \<lfloor>r * 10 ^ p\<rfloor> / 10 ^ p) = Fin r \<or> rnd (of_int \<lceil>r * 10 ^ p\<rceil> / 10 ^ p) = Fin r"

definition decimalPlaces :: "f64 \<Rightarrow> nat" where
  "decimalPlaces v = (case v of Fin r \<Rightarrow> (case find (reads_back r) [0..<1100] of Some p \<Rightarrow> p | None \<Rightarrow> 1100) | _ \<Rightarrow> 0)"

definition checkLotPrecision :: "gate_env \<Rightarrow> live_order \<Rightarrow> gate_reason option" where
  "checkLotPrecision g q =
     (if lo_Market q = CRYPTO then
        (if lo_Qty q \<le> 0 then None
         else case ge_symbolRules g of None \<Rightarrow> None
           | Some source \<Rightarrow> (case source (lo_Code q) of None \<Rightarrow> None
               | Some rules \<Rightarrow>
                   (if StepSize rules \<le> 0 then None
                    else let ratio = lo_Qty q / StepSize rules; off = ratio - fround ratio
                         in if lit (1 / 10 ^ 6) < off \<or> off < - lit (1 / 10 ^ 6) then Some (OffStep (lo_Qty q) (StepSize rules)) else None)))
      else if lo_Market q = US then
        (if 0 < lo_Price q \<and> 2 < decimalPlaces (lo_Price q) then Some (TooManyDecimals (lo_Price q)) else None)
      else None)"

definition checkMarketHalt :: "gate_env \<Rightarrow> live_order \<Rightarrow> gate_reason option" where
  "checkMarketHalt g q =
     (case ge_haltEvidence g of None \<Rightarrow> None
      | Some source \<Rightarrow>
          (if lo_Market q \<noteq> US then None
           else case source (lo_Code q) of (hasEvidence, halted) \<Rightarrow>
             (if halted then Some HaltShown else if \<not> hasEvidence then Some NoHaltEvidence else None)))"

definition checkShortBorrow :: "gate_env \<Rightarrow> broker_config \<Rightarrow> live_order \<Rightarrow> gate_reason option" where
  "checkShortBorrow g cfg q =
     (if lo_Side q \<noteq> SideShortOpen then None
      else if shortMarginOf cfg \<le> 0 then Some (ShortDisabled (lo_Market q) (shortMarginOf cfg))
      else case ge_borrowEvidence g of None \<Rightarrow> Some NoBorrowSource
        | Some source \<Rightarrow> (case source (lo_Market q) (lo_Code q) of (avail, detail) \<Rightarrow>
            (if \<not> avail then Some (NotBorrowable (if detail = [] then [CHR 0xE8, CHR 0xAF, CHR 0x81, CHR 0xE6, CHR 0x8D, CHR 0xAE, CHR 0xE6, CHR 0xBA, CHR 0x90, CHR 0xE5, CHR 0x88, CHR 0xA4, CHR 0xE5, CHR 0xAE, CHR 0x9A, CHR 0xE4, CHR 0xB8, CHR 0x8D, CHR 0xE5, CHR 0x8F, CHR 0xAF, CHR 0xE5, CHR 0x80, CHR 0x9F] else detail)) else None)))"

definition checkLiqDistance :: "gate_env \<Rightarrow> broker_config \<Rightarrow> live_order \<Rightarrow> gate_reason option" where
  "checkLiqDistance g cfg q =
     (if lo_Side q \<noteq> SideShortOpen then None
      else if liqDistMinPctOf cfg \<le> 0 then None
      else case ge_liqEvidence g of None \<Rightarrow> None
        | Some source \<Rightarrow> (case source (lo_Market q) (lo_Code q) of (ok, detail) \<Rightarrow>
            (if \<not> ok then Some (LiqTooNear (if detail = [] then [CHR 0xE8, CHR 0xAF, CHR 0x81, CHR 0xE6, CHR 0x8D, CHR 0xAE, CHR 0xE6, CHR 0xBA, CHR 0x90, CHR 0xE5, CHR 0x88, CHR 0xA4, CHR 0xE5, CHR 0xAE, CHR 0x9A, CHR 0xE5, CHR 0xBC, CHR 0xBA, CHR 0xE5, CHR 0xB9, CHR 0xB3, CHR 0xE8, CHR 0xB7, CHR 0x9D, CHR 0xE7, CHR 0xA6, CHR 0xBB, CHR 0xE4, CHR 0xB8, CHR 0x8D, CHR 0xE8, CHR 0xB6, CHR 0xB3] else detail)) else None)))"

section \<open>The gate\<close>

record gate_input =
  gi_env :: gate_env
  gi_cfg :: broker_config
  gi_order :: live_order

fun check :: "gate \<Rightarrow> gate_input \<Rightarrow> db \<Rightarrow> gate_reason option" where
  "check G_st x d = checkST (gi_order x)"
| "check G_blacklist x d = checkBlacklist (gi_cfg x) (gi_order x)"
| "check G_max_order_amount x d = checkMaxOrderAmount (gi_cfg x) (gi_order x)"
| "check G_t1_sellable x d = checkT1Sellable (gi_env x) (gi_cfg x) (gi_order x) d"
| "check G_limit_up_down x d = checkLimitPrice (gi_cfg x) (gi_order x)"
| "check G_stale_quote x d = checkStaleQuote (gi_cfg x) (gi_order x)"
| "check G_price_cross_check x d = checkPriceCross (gi_env x) (gi_cfg x) (gi_order x)"
| "check G_day_loss x d = checkDayLoss (gi_env x) (gi_cfg x) (gi_order x) d"
| "check G_concentration x d = checkConcentration (gi_env x) (gi_cfg x) (gi_order x) d"
| "check G_buy_discipline x d = checkBuyDiscipline (gi_env x) (gi_cfg x) (gi_order x) d"
| "check G_whitelist x d = checkWhitelist (gi_cfg x) (gi_order x)"
| "check G_max_positions x d = checkMaxPositions (gi_env x) (gi_cfg x) (gi_order x) d"
| "check G_min_notional x d = checkMinNotional (gi_env x) (gi_order x)"
| "check G_lot_precision x d = checkLotPrecision (gi_env x) (gi_order x)"
| "check G_market_halt x d = checkMarketHalt (gi_env x) (gi_order x)"
| "check G_short_borrow x d = checkShortBorrow (gi_env x) (gi_cfg x) (gi_order x)"
| "check G_liq_distance x d = checkLiqDistance (gi_env x) (gi_cfg x) (gi_order x)"
| "check G_side_unknown x d = None"
| "check G_short_side_market_unsupported x d = None"

definition live_gates :: "gate list" where
  "live_gates = [G_st, G_blacklist, G_max_order_amount, G_t1_sellable, G_limit_up_down, G_stale_quote, G_price_cross_check, G_day_loss,
     G_concentration, G_buy_discipline, G_whitelist, G_max_positions, G_min_notional, G_lot_precision, G_market_halt, G_short_borrow, G_liq_distance]"

text \<open>What running a check writes.\<close>

definition check_effect :: "string \<Rightarrow> gate \<Rightarrow> gate_input \<Rightarrow> db \<Rightarrow> db" where
  "check_effect stamp c x d = (if c = G_price_cross_check then cross_note (gi_env x) stamp (gi_cfg x) (gi_order x) d else d)"

fun run_checks :: "string \<Rightarrow> gate list \<Rightarrow> gate_input \<Rightarrow> db \<Rightarrow> db \<times> (gate \<times> gate_reason) option" where
  "run_checks stamp [] x d = (d, None)"
| "run_checks stamp (c # cs) x d =
     (case check c x d of
        Some r \<Rightarrow> (check_effect stamp c x d, Some (c, r))
      | None \<Rightarrow> run_checks stamp cs x (check_effect stamp c x d))"

text \<open>\<open>verdict\<close>: record the hit (errors ignored), alert.\<close>

definition block_verdict :: "gate_env \<Rightarrow> string \<Rightarrow> string \<Rightarrow> gate \<Rightarrow> gate_reason \<Rightarrow> db \<Rightarrow> db \<times> gate_verdict" where
  "block_verdict g stamp market c r d =
     ((if ge_store g then
         (case RecordRiskGate d stamp (ge_userID g) (marketToday g market) (gate_name c) (ge_text g r) of Inl _ \<Rightarrow> d | Inr d' \<Rightarrow> d')
       else d),
      \<lparr>gv_Pass = False, gv_Gate = Some c, gv_Reason = Some r, gv_Alerted = (gate_alert c \<and> ge_onGate g), gv_Blocked = True\<rparr>)"

definition pass_verdict :: gate_verdict where
  "pass_verdict = \<lparr>gv_Pass = True, gv_Gate = None, gv_Reason = None, gv_Alerted = False, gv_Blocked = False\<rparr>"

definition CheckLiveOrder :: "gate_env \<Rightarrow> string \<Rightarrow> broker_config \<Rightarrow> live_order \<Rightarrow> db \<Rightarrow> db \<times> gate_verdict" where
  "CheckLiveOrder g stamp cfg q0 d =
     (let q = q0\<lparr>lo_Market := NormalizeMarketKey (lo_Market q0)\<rparr>; m = lo_Market q; side = lo_Side q
      in if side \<notin> {SideBuy, SideSell, SideShortOpen, SideShortCover} then block_verdict g stamp m G_side_unknown (BadSide side) d
         else if IsShortSide side \<and> m \<noteq> US \<and> m \<noteq> CRYPTO then
           block_verdict g stamp m G_short_side_market_unsupported (ShortMarketUnsupported side m) d
         else case run_checks stamp live_gates \<lparr>gi_env = g, gi_cfg = cfg, gi_order = q\<rparr> d of
             (d', None) \<Rightarrow> (d', pass_verdict)
           | (d', Some (c, r)) \<Rightarrow> block_verdict g stamp m c r d')"

section \<open>The portfolio fallback\<close>

record rules_config =
  M8Enabled :: bool
  M8PortfolioDrawdownPct :: f64

datatype m8_result = M8Pass | M8SellAll f64

definition M8CheckWith :: "rules_config option \<Rightarrow> f64 \<Rightarrow> f64 \<Rightarrow> m8_result" where
  "M8CheckWith cfg currentTotal peakTotal =
     (case cfg of None \<Rightarrow> M8Pass
      | Some rc \<Rightarrow>
          (let thr = M8PortfolioDrawdownPct rc; thr = (if 0 < thr then - thr else thr)
           in if \<not> M8Enabled rc \<or> 0 \<le> thr \<or> peakTotal \<le> 0 then M8Pass
              else let drawdown = (currentTotal - peakTotal) / peakTotal * Fin 100
                   in if drawdown \<le> thr then M8SellAll drawdown else M8Pass))"

end
