(* ===== verification/GateFacts.thy ===== *)
theory GateFacts
  imports Gate Interfaces LedgerFacts
begin

text \<open>
  What the gate promises: the first objecting check decides and only its hit is written; exits pass all the
  checks that limit new exposure; what passes respects the sellable quantity and the buying limits.
\<close>

section \<open>No check reads the table of hits\<close>

lemma reads_ignore_gates [simp]:
  "RealPositionByCodeForUser (d\<lparr>gates := h\<rparr>) = RealPositionByCodeForUser d"
  "RealPositionsForUser (d\<lparr>gates := h\<rparr>) = RealPositionsForUser d"
  "TodayBoughtQty (d\<lparr>gates := h\<rparr>) = TodayBoughtQty d"
  "SumOpenSellQty (d\<lparr>gates := h\<rparr>) = SumOpenSellQty d"
  "SumFilledQty (d\<lparr>gates := h\<rparr>) = SumFilledQty d"
  "SumBuyFilledAmountByDayForMarket (d\<lparr>gates := h\<rparr>) = SumBuyFilledAmountByDayForMarket d"
  "SumSellFilledAmountByDayForMarket (d\<lparr>gates := h\<rparr>) = SumSellFilledAmountByDayForMarket d"
  "CountBuyFilledOrdersByDayForMarket (d\<lparr>gates := h\<rparr>) = CountBuyFilledOrdersByDayForMarket d"
  "GetRealAccountForMarket (d\<lparr>gates := h\<rparr>) = GetRealAccountForMarket d"
  "ListFillsByDay (d\<lparr>gates := h\<rparr>) = ListFillsByDay d"
  by (intro ext; simp add: RealPositionByCodeForUser_def RealPositionsForUser_def TodayBoughtQty_def SumOpenSellQty_def
      SumOpenSellQtyForMarket_def SumFilledQty_def SumBuyFilledAmountByDayForMarket_def SumSellFilledAmountByDayForMarket_def
      CountBuyFilledOrdersByDayForMarket_def GetRealAccountForMarket_def ListFillsByDay_def coalesce_sum_def Let_def cong: option.case_cong)+

lemma frozen_ignores_gates [simp]: "LocalBuyFrozenForMarket (d\<lparr>gates := h\<rparr>) = LocalBuyFrozenForMarket d"
proof -
  have "frozen_of (d\<lparr>gates := h\<rparr>) = frozen_of d" by (intro ext) (simp add: frozen_of_def)
  then show ?thesis by (intro ext) (simp add: LocalBuyFrozenForMarket_def)
qed

lemma pnl_ignores_gates [simp]: "TodayRealizedPnlForMarket (d\<lparr>gates := h\<rparr>) = TodayRealizedPnlForMarket d"
proof -
  have "fill_pnl (d\<lparr>gates := h\<rparr>) = fill_pnl d"
    by (intro ext) (simp add: fill_pnl_def costBasisFor_def costBasisForShort_def cost_basis_def)
  then show ?thesis by (intro ext) (simp add: TodayRealizedPnlForMarket_def)
qed

lemma assets_ignore_gates [simp]: "TotalAssetsForMarket (d\<lparr>gates := h\<rparr>) = TotalAssetsForMarket d"
  by (intro ext) (simp add: TotalAssetsForMarket_def)

lemmas gate_reads = checkT1Sellable_def checkDayLoss_def checkConcentration_def held_value_def checkMaxPositions_def checkBuyDiscipline_def
  checkDailyBuys_def checkLocalFunds_def checkBrokerFunds_def

lemma check_ignores_gates [simp]: "check c x (d\<lparr>gates := h\<rparr>) = check c x d"
  by (cases c) (simp_all add: gate_reads Let_def cong: option.case_cong sum.case_cong if_cong)

lemma record_only_gates:
  assumes "RecordRiskGate d t u day g r = Inr d'"
  shows "d' = d\<lparr>gates := gates d'\<rparr>"
  using assms by (auto simp: RecordRiskGate_def split: if_splits)

lemma effect_only_gates: "check_effect stamp c x d = d\<lparr>gates := gates (check_effect stamp c x d)\<rparr>"
  using record_only_gates by (auto simp: check_effect_def cross_note_def split: option.split sum.split)

lemma check_after_effect [simp]: "check c x (check_effect stamp b y d) = check c x d"
  by (subst effect_only_gates) simp

lemma effect_any_gates: "\<exists>h'. check_effect stamp c x (d\<lparr>gates := h\<rparr>) = d\<lparr>gates := h'\<rparr>"
  using effect_only_gates [of stamp c x "d\<lparr>gates := h\<rparr>"] by auto

lemma run_ignores_gates: "snd (run_checks stamp cs x (d\<lparr>gates := h\<rparr>)) = snd (run_checks stamp cs x d)"
proof (induction cs arbitrary: h)
  case (Cons c cs)
  obtain h1 where h1: "check_effect stamp c x (d\<lparr>gates := h\<rparr>) = d\<lparr>gates := h1\<rparr>" using effect_any_gates by blast
  have h2: "snd (run_checks stamp cs x (check_effect stamp c x d)) = snd (run_checks stamp cs x d)"
    by (subst effect_only_gates) (rule Cons.IH)
  show ?case using h2 by (simp add: h1 Cons.IH split: option.split)
qed simp

lemma run_after_effect [simp]: "snd (run_checks stamp cs x (check_effect stamp b y d)) = snd (run_checks stamp cs x d)"
  by (subst effect_only_gates) (rule run_ignores_gates)

lemma run_Cons:
  "snd (run_checks stamp (c # cs) x d) = (case check c x d of None \<Rightarrow> snd (run_checks stamp cs x d) | Some r \<Rightarrow> Some (c, r))"
  by (simp split: option.split)

interpretation live_checks: guarded_sequence "\<lambda>c (x, d). check c x d" "\<lambda>cs (x, d). snd (run_checks stamp cs x d)" for stamp
proof (unfold_locales, goal_cases)
  case (1 q)
  show ?case by (cases q) simp
next
  case (2 c cs q)
  show ?case by (cases q) (simp only: prod.case run_Cons)
qed

lemma run_gates_only: "\<exists>h. fst (run_checks stamp cs x d) = d\<lparr>gates := h\<rparr>"
proof (induction cs arbitrary: d)
  case Nil
  have "d = d\<lparr>gates := gates d\<rparr>" by simp
  then show ?case unfolding run_checks.simps fst_conv by blast
next
  case (Cons c cs)
  obtain h1 where h1: "check_effect stamp c x d = d\<lparr>gates := h1\<rparr>" using effect_only_gates by blast
  obtain h2 where "fst (run_checks stamp cs x (d\<lparr>gates := h1\<rparr>)) = d\<lparr>gates := h1\<rparr>\<lparr>gates := h2\<rparr>" using Cons.IH by blast
  then show ?case by (cases "check c x d") (auto simp: h1)
qed

section \<open>The first objection decides\<close>

definition entry_input :: "gate_env \<Rightarrow> broker_config \<Rightarrow> live_order \<Rightarrow> gate_input" where
  "entry_input g cfg q = \<lparr>gi_env = g, gi_cfg = cfg, gi_order = q\<lparr>lo_Market := NormalizeMarketKey (lo_Market q)\<rparr>\<rparr>"

definition entry_admits :: "live_order \<Rightarrow> bool" where
  "entry_admits q \<longleftrightarrow> lo_Side q \<in> {SideBuy, SideSell, SideShortOpen, SideShortCover} \<and>
     (IsShortSide (lo_Side q) \<longrightarrow> NormalizeMarketKey (lo_Market q) \<in> {US, CRYPTO})"

lemma gate_admitted:
  assumes "entry_admits q"
  shows "CheckLiveOrder g stamp cfg q d =
    (case run_checks stamp live_gates (entry_input g cfg q) d of
       (d', None) \<Rightarrow> (d', pass_verdict)
     | (d', Some (c, r)) \<Rightarrow> block_verdict g stamp (NormalizeMarketKey (lo_Market q)) c r d')"
  using assms by (auto simp: CheckLiveOrder_def entry_admits_def entry_input_def Let_def)

lemma gate_refused: "\<not> entry_admits q \<Longrightarrow> \<not> gv_Pass (snd (CheckLiveOrder g stamp cfg q d))"
  by (auto simp: CheckLiveOrder_def entry_admits_def block_verdict_def Let_def)

lemma pass_iff:
  "gv_Pass (snd (CheckLiveOrder g stamp cfg q d)) \<longleftrightarrow>
     entry_admits q \<and> (\<forall>c \<in> set live_gates. check c (entry_input g cfg q) d = None)"
proof (cases "entry_admits q")
  case True
  have "snd (run_checks stamp live_gates (entry_input g cfg q) d) = None \<longleftrightarrow> (\<forall>c \<in> set live_gates. check c (entry_input g cfg q) d = None)"
    using live_checks.first_None [of stamp live_gates "(entry_input g cfg q, d)"] by simp
  then show ?thesis
    using True by (auto simp: gate_admitted pass_verdict_def block_verdict_def split: prod.splits option.splits)
qed (simp add: gate_refused)

lemma gate_of_verdict:
  assumes "entry_admits q"
  shows "gv_Gate (snd (CheckLiveOrder g stamp cfg q d)) = map_option fst (snd (run_checks stamp live_gates (entry_input g cfg q) d))"
  using assms by (auto simp: gate_admitted pass_verdict_def block_verdict_def split: prod.splits option.splits)

text \<open>C15: an order passes exactly if its side is one of the four, a short is in a market that has shorts, and
  none of the seventeen checks objects; otherwise the verdict names the first check in the list that objects,
  whatever the shadow notes written on the way.\<close>

theorem first_objection_decides:
  "(gv_Pass (snd (CheckLiveOrder g stamp cfg q d)) \<longleftrightarrow>
     entry_admits q \<and> (\<forall>c \<in> set live_gates. check c (entry_input g cfg q) d = None)) \<and>
   (entry_admits q \<and> gv_Gate (snd (CheckLiveOrder g stamp cfg q d)) = Some c \<longrightarrow>
     check c (entry_input g cfg q) d \<noteq> None \<and>
     (\<exists>xs ys. live_gates = xs @ c # ys \<and> (\<forall>b \<in> set xs. check b (entry_input g cfg q) d = None)))"
proof (intro conjI impI)
  assume a: "entry_admits q \<and> gv_Gate (snd (CheckLiveOrder g stamp cfg q d)) = Some c"
  then obtain r where "snd (run_checks stamp live_gates (entry_input g cfg q) d) = Some (c, r)"
    by (auto simp: gate_of_verdict)
  then have "\<exists>xs ys. live_gates = xs @ c # ys \<and> check c (entry_input g cfg q) d = Some r \<and>
      (\<forall>b \<in> set xs. check b (entry_input g cfg q) d = None)"
    using live_checks.first_Some [of stamp live_gates "(entry_input g cfg q, d)" c r] by simp
  then show "check c (entry_input g cfg q) d \<noteq> None"
    "\<exists>xs ys. live_gates = xs @ c # ys \<and> (\<forall>b \<in> set xs. check b (entry_input g cfg q) d = None)" by auto
qed (rule pass_iff)

lemma passed: "gv_Pass (snd (CheckLiveOrder g stamp cfg q d)) \<Longrightarrow> c \<in> set live_gates \<Longrightarrow> check c (entry_input g cfg q) d = None"
  by (simp add: pass_iff)

section \<open>Exits\<close>

definition exposure_gates :: "gate set" where
  "exposure_gates = {G_st, G_blacklist, G_day_loss, G_concentration, G_buy_discipline, G_whitelist, G_max_positions, G_short_borrow, G_liq_distance}"

lemma exits_skip:
  assumes "lo_Side (gi_order x) = SideSell \<or> lo_Side (gi_order x) = SideShortCover" "c \<in> exposure_gates"
  shows "check c x d = None"
  using assms by (auto simp: exposure_gates_def checkST_def checkBlacklist_def checkDayLoss_def checkConcentration_def checkBuyDiscipline_def
      checkWhitelist_def checkMaxPositions_def checkShortBorrow_def checkLiqDistance_def opens_exposure_def)

text \<open>C16: no check that limits new exposure ever blocks an exit: a sale or a cover is rejected only by the amount cap,
  the price and quote checks, the exchange's own rules and the trading status, a sale also by T+1 and the
  limit-down rule.\<close>

theorem exits_stay_open:
  assumes "lo_Side q = SideSell \<or> lo_Side q = SideShortCover" "gv_Gate (snd (CheckLiveOrder g stamp cfg q d)) = Some c" "entry_admits q"
  shows "c \<in> {G_max_order_amount, G_stale_quote, G_price_cross_check, G_min_notional, G_lot_precision, G_market_halt} \<or>
    (lo_Side q = SideSell \<and> c \<in> {G_t1_sellable, G_limit_up_down})"
proof -
  obtain r where r: "snd (run_checks stamp live_gates (entry_input g cfg q) d) = Some (c, r)"
    using assms(2,3) by (auto simp: gate_of_verdict)
  then have "\<exists>xs ys. live_gates = xs @ c # ys \<and> check c (entry_input g cfg q) d = Some r \<and> (\<forall>b \<in> set xs. check b (entry_input g cfg q) d = None)"
    using live_checks.first_Some [of stamp live_gates "(entry_input g cfg q, d)" c r] by simp
  then have c: "check c (entry_input g cfg q) d = Some r" "c \<in> set live_gates"
    unfolding in_set_conv_decomp by blast+
  then have "c \<notin> exposure_gates"
    using assms(1) exits_skip [of "entry_input g cfg q" c d] by (auto simp: entry_input_def)
  moreover have "c \<noteq> G_t1_sellable \<and> c \<noteq> G_limit_up_down" if "lo_Side q = SideShortCover"
    using c(1) that by (auto simp: entry_input_def checkT1Sellable_def checkLimitPrice_def split: if_splits)
  ultimately show ?thesis using c(2) assms(1) by (auto simp: live_gates_def exposure_gates_def)
qed

section \<open>What passes respects the limits\<close>

text \<open>C17: an A-share sale that passes is at most what is sellable: the position less what was bought today and
  less what open sell orders already claim.\<close>

theorem passed_sale_is_sellable:
  assumes "gv_Pass (snd (CheckLiveOrder g stamp cfg q d))" "lo_Side q = SideSell" "NormalizeMarketKey (lo_Market q) = CN"
    and "BrokerEnforceT1 cfg" "ge_store g" "RealPositionByCodeForUser d (ge_userID g) (lo_Code q) = Inr (Some p)" "0 < p_Qty p"
    and "sellable = p_Qty p - TodayBoughtQty d (ge_userID g) (lo_Code q) (gate_today g) - SumOpenSellQty d (ge_userID g) (lo_Code q) (gate_today g)"
  shows "\<not> (if sellable < 0 then 0 else sellable) < lo_Qty q"
  using passed [OF assms(1), of G_t1_sellable] assms(2-8)
  by (auto simp: live_gates_def entry_input_def checkT1Sellable_def Let_def split: if_splits)

lemma discipline_passes:
  assumes "checkBuyDiscipline g cfg q d = None" "lo_Side q = SideBuy" "ge_store g"
  obtains filledAmt frozen sellProceeds where
    "SumBuyFilledAmountByDayForMarket d (ge_userID g) (marketToday g (lo_Market q)) (lo_Market q) = Inr filledAmt"
    "LocalBuyFrozenForMarket d (ge_userID g) (marketToday g (lo_Market q)) (lo_Market q) = Inr frozen"
    "SumSellFilledAmountByDayForMarket d (ge_userID g) (marketToday g (lo_Market q)) (lo_Market q) = Inr sellProceeds"
    "checkDailyBuys g cfg q d = None" "checkBudget cfg q filledAmt frozen sellProceeds = None"
    "checkLocalFunds g cfg q d frozen = None" "checkBrokerFunds g cfg q d frozen = None"
  using assms by (auto simp: checkBuyDiscipline_def Let_def split: sum.splits option.splits)

text \<open>C18: a buy that passes found the three books readable, and with a daily budget the net of the day's buys, open
  buys and sales plus this order does not exceed it; with a daily count fewer buy orders than the count
  were filled; with a cap on positions fewer are held; and it does not exceed the broker's fresh cash
  when that is trusted and nothing is reserved.\<close>

theorem passed_buy_within_limits:
  assumes "gv_Pass (snd (CheckLiveOrder g stamp cfg q d))" "lo_Side q = SideBuy" "ge_store g" "m = NormalizeMarketKey (lo_Market q)"
    and "user = ge_userID g" "today = marketToday g m"
  shows "\<exists>filledAmt frozen sellProceeds.
      SumBuyFilledAmountByDayForMarket d user today m = Inr filledAmt \<and> LocalBuyFrozenForMarket d user today m = Inr frozen \<and>
      SumSellFilledAmountByDayForMarket d user today m = Inr sellProceeds \<and>
      (0 < BrokerDailyBudget cfg \<longrightarrow> \<not> BrokerDailyBudget cfg < occupied filledAmt frozen sellProceeds + order_amount q) \<and>
      (0 < BrokerDailyMaxBuys cfg \<longrightarrow> (\<exists>n. CountBuyFilledOrdersByDayForMarket d user today m = Inr n \<and> n < BrokerDailyMaxBuys cfg)) \<and>
      (0 < BrokerMaxPositions cfg \<longrightarrow> (\<exists>ps. RealPositionsForUser d user = Inr ps \<and> int (length (filterPosesByMarket ps m)) < BrokerMaxPositions cfg)) \<and>
      (let acc = GetRealAccountForMarket d user m in 0 < a_AvailableCash acc \<and> snapshot_fresh g acc = Some True \<and>
         TrustBrokerFreezeEnabled (moneyOf cfg) \<longrightarrow>
         \<not> a_AvailableCash acc - EffectiveReserve (moneyOf cfg) (a_AvailableCash acc) < order_amount q)"
proof -
  let ?q = "q\<lparr>lo_Market := m\<rparr>"
  have e: "checkBuyDiscipline g cfg ?q d = None" "checkMaxPositions g cfg ?q d = None"
    using passed [OF assms(1), of G_buy_discipline] passed [OF assms(1), of G_max_positions]
    by (simp_all add: live_gates_def entry_input_def assms(4))
  have am: "order_amount ?q = order_amount q" by (simp add: order_amount_def)
  obtain filledAmt frozen sellProceeds where
    b: "SumBuyFilledAmountByDayForMarket d user today m = Inr filledAmt" "LocalBuyFrozenForMarket d user today m = Inr frozen"
      "SumSellFilledAmountByDayForMarket d user today m = Inr sellProceeds"
    and c: "checkDailyBuys g cfg ?q d = None" "checkBudget cfg ?q filledAmt frozen sellProceeds = None"
      "checkBrokerFunds g cfg ?q d frozen = None"
    by (rule discipline_passes [OF e(1)]) (use assms in auto)
  have "\<exists>n. CountBuyFilledOrdersByDayForMarket d user today m = Inr n \<and> n < BrokerDailyMaxBuys cfg" if "0 < BrokerDailyMaxBuys cfg"
    using c(1) that assms(5,6) by (auto simp: checkDailyBuys_def split: sum.splits if_splits)
  moreover have "\<exists>ps. RealPositionsForUser d user = Inr ps \<and> int (length (filterPosesByMarket ps m)) < BrokerMaxPositions cfg"
    if "0 < BrokerMaxPositions cfg"
    using e(2) that assms(2,3,5) by (auto simp: checkMaxPositions_def opens_exposure_def Let_def split: sum.splits if_splits)
  moreover have "\<not> BrokerDailyBudget cfg < occupied filledAmt frozen sellProceeds + order_amount q" if "0 < BrokerDailyBudget cfg"
    using c(2) that by (auto simp: checkBudget_def am Let_def split: if_splits)
  moreover have "let acc = GetRealAccountForMarket d user m in 0 < a_AvailableCash acc \<and> snapshot_fresh g acc = Some True \<and>
         TrustBrokerFreezeEnabled (moneyOf cfg) \<longrightarrow>
         \<not> a_AvailableCash acc - EffectiveReserve (moneyOf cfg) (a_AvailableCash acc) < order_amount q"
    using c(3) assms(5) by (auto simp: checkBrokerFunds_def am Let_def split: option.splits if_splits)
  ultimately show ?thesis using b by blast
qed

text \<open>C19: no short is opened without evidence: in whichever market and with whatever sources, a short-open passes
  only if the market's profile has a margin rate and a wired source says the code can be borrowed.\<close>

theorem short_open_needs_evidence:
  assumes "gv_Pass (snd (CheckLiveOrder g stamp cfg q d))" "lo_Side q = SideShortOpen"
  shows "NormalizeMarketKey (lo_Market q) \<in> {US, CRYPTO} \<and> \<not> shortMarginOf cfg \<le> 0 \<and>
    (\<exists>source. ge_borrowEvidence g = Some source \<and> fst (source (NormalizeMarketKey (lo_Market q)) (lo_Code q)))"
proof -
  have "entry_admits q" using assms(1) by (simp add: pass_iff)
  then show ?thesis
    using passed [OF assms(1), of G_short_borrow] assms(2)
    by (auto simp: live_gates_def entry_input_def entry_admits_def IsShortSide_def checkShortBorrow_def split: option.splits if_splits prod.splits)
qed

section \<open>Concrete runs\<close>

definition open_limits :: risk_gate_config where
  "open_limits = \<lparr>DayLossLimitPct = 0, SingleStockValuePct = 0, StaleQuoteMs = 0, LimitUpBlockBuy = False, LimitDownBlockSell = False,
     MaxOrderAmount = 0, CrossCheckPct = 0, CrossCheckShadow = None, SlippagePassthrough = 0\<rparr>"

definition plain_qmt :: "risk_gate_config \<Rightarrow> broker_config" where
  "plain_qmt limits = QMT \<lparr>q_Enabled = True, q_Mode = ''auto'', q_GatewayURL = ''http'', q_Token = [], q_PriceType = [], q_FixedAmount = 0,
     q_MaxPositions = 0, q_InitialCapital = 0, q_Strategies = [], q_TimeoutSec = 5, q_MissHeartbeatSec = 30, q_DailyMaxBuys = 0,
     q_DailyBudgetAmount = Fin 5000, q_Blacklist = [], q_Discipline = DefaultDisciplineConfig, q_Halted = False, q_CancelStaleSec = 0,
     q_CloseSweepAt = 0, q_EnforceT1 = None, q_Money = zero_money, q_RiskGate = limits\<rparr>"

definition short_profile :: binance_profile where
  "short_profile = \<lparr>bp_Enabled = True, bp_TradingSession = ''RTH'', bp_FixedAmount = 0, bp_MaxPositions = 0, bp_DailyMaxBuys = 0,
     bp_DailyBudgetAmount = 0, bp_Strategies = [], bp_Blacklist = [], bp_ShortMarginRate = Fin 1, bp_ProductType = [], bp_Leverage = 1,
     bp_LiqDistMinPct = 0, bp_Paper = False\<rparr>"

definition plain_binance :: broker_config where
  "plain_binance = Binance \<lparr>v_Cfg = \<lparr>b_Enabled = True, b_DataPlane = True, b_Mode = ''auto'', b_APIKey = ''k'', b_APISecret = ''s'', b_BaseURL = [],
     b_MissHeartbeatSec = 30, b_CancelStaleSec = 0, b_Halted = False, b_Stock = short_profile, b_Spot = short_profile, b_RiskGate = open_limits\<rparr>,
     v_Market = ''US''\<rparr>"

definition plain_env :: gate_env where
  "plain_env = \<lparr>ge_store = True, ge_userID = ''u1'', ge_now = 0, ge_onGate = False,
     ge_clock = \<lparr>env_tt = defaultTradeTime, env_cal = empty_calendar, env_ny = (\<lambda>_. 0)\<rparr>,
     ge_crossPrice = None, ge_symbolRules = None, ge_haltEvidence = None, ge_borrowEvidence = Some (\<lambda>m c. (True, [])), ge_liqEvidence = None,
     ge_text = (\<lambda>_. [])\<rparr>"

definition plain_order :: "string \<Rightarrow> string \<Rightarrow> live_order" where
  "plain_order market side = \<lparr>lo_SignalID = ''S1'', lo_Code = ''600000'', lo_Name = ''A'', lo_Strategy = [], lo_StrategyID = [], lo_StrategyType = [],
     lo_Side = side, lo_Price = Fin 10, lo_Qty = Fin 100, lo_Amount = Fin 1000, lo_Market = market, lo_StalenessMs = - 1,
     lo_CurrentPrice = 0, lo_PrevClose = 0\<rparr>"

definition plain_db :: db where
  "plain_db = (empty_db (\<lambda>_. False) (\<lambda>_. 0))\<lparr>positions := [\<lparr>p_Market = ''CN'', p_Currency = ''CNY'', p_Side = ''long'', p_TsCode = ''600000'', p_Name = ''A'',
     p_Qty = Fin 200, p_CostPrice = Fin 9, p_Amount = Fin 1800, p_HighestPrice = Fin 9, p_Strategy = [], p_SignalID = [], p_UpdatedAt = [],
     p_BuyDate = [], p_CurPrice = 0, p_UserID = ''u1''\<rparr>]\<rparr>"

lemma market_keys [simp]: "NormalizeMarketKey ''CN'' = CN" "NormalizeMarketKey ''US'' = US"
  by code_simp+

lemma plain_admitted [simp]: "entry_admits (plain_order ''CN'' SideSell)" "entry_admits (plain_order ''CN'' SideBuy)" "entry_admits (plain_order ''US'' SideShortOpen)"
  by (simp_all add: entry_admits_def plain_order_def IsShortSide_def)

lemmas plain_defs = plain_qmt_def plain_binance_def plain_env_def plain_order_def plain_db_def open_limits_def short_profile_def empty_db_def

lemmas gate_checks = checkST_def checkBlacklist_def checkMaxOrderAmount_def checkLimitPrice_def checkStaleQuote_def checkPriceCross_def
  gate_reads checkBudget_def opens_exposure_def checkWhitelist_def checkMinNotional_def checkLotPrecision_def checkMarketHalt_def
  checkShortBorrow_def checkLiqDistance_def CrossCheckEnforce_def Let_def

lemma plain_db_fields [simp]:
  "accounts plain_db = []" "fills plain_db = []" "orders plain_db = []" "\<not> db_down plain_db t"
  by (simp_all add: plain_db_def empty_db_def)

lemma plain_reads [simp]:
  "SumBuyFilledAmountByDayForMarket plain_db user day m = Inr 0" "SumSellFilledAmountByDayForMarket plain_db user day m = Inr 0"
  "LocalBuyFrozenForMarket plain_db user day m = Inr 0" "a_AvailableCash (GetRealAccountForMarket plain_db user m) = 0"
  "TodayBoughtQty plain_db user code day = 0" "SumOpenSellQty plain_db user code day = 0"
  by (simp_all add: SumBuyFilledAmountByDayForMarket_def SumSellFilledAmountByDayForMarket_def LocalBuyFrozenForMarket_def
      GetRealAccountForMarket_def zero_account_def TodayBoughtQty_def SumOpenSellQty_def SumOpenSellQtyForMarket_def coalesce_sum_def Let_def)

lemma plain_qmt_fields [simp]:
  "BrokerRiskGate (plain_qmt l) = l" "moneyOf (plain_qmt l) = zero_money" "BrokerEnforceT1 (plain_qmt l)" "BrokerBlacklist (plain_qmt l) = []"
  "BrokerMaxPositions (plain_qmt l) = 0" "BrokerInitialCapital (plain_qmt l) = 0" "BrokerDailyMaxBuys (plain_qmt l) = 0"
  "BrokerDailyBudget (plain_qmt l) = Fin 5000" "shortMarginOf (plain_qmt l) = 0" "liqDistMinPctOf (plain_qmt l) = 0"
  by (simp_all add: plain_qmt_def EnforceT1Enabled_def)

lemma plain_binance_fields [simp]:
  "BrokerRiskGate plain_binance = open_limits" "BrokerBlacklist plain_binance = []" "BrokerMaxPositions plain_binance = 0"
  "shortMarginOf plain_binance = Fin 1" "liqDistMinPctOf plain_binance = 0"
  by (simp_all add: plain_binance_def short_profile_def profile_def)

lemma plain_holding:
  "\<exists>p. RealPositionByCodeForUser plain_db ''u1'' ''600000'' = Inr (Some p) \<and> p_Qty p = Fin 200"
  by (simp add: plain_db_def empty_db_def RealPositionByCodeForUser_def loaded_def)

lemma plain_name [simp]: "\<not> IsSTStock ''A''" "\<not> CodeInBlacklist [] code"
  by (code_simp, simp add: CodeInBlacklist_def)

lemma plain_order_fields [simp]:
  "lo_Side (plain_order m side) = side" "lo_Qty (plain_order m side) = Fin 100" "lo_Code (plain_order m side) = ''600000''"
  "lo_Market (plain_order m side) = m" "order_amount (plain_order m side) = Fin 1000" "order_amount (plain_order m side\<lparr>lo_Market := k\<rparr>) = Fin 1000"
  "lo_Name (plain_order m side) = ''A''" "lo_Strategy (plain_order m side) = []" "lo_PrevClose (plain_order m side) = 0"
  "lo_StalenessMs (plain_order m side) = - 1" "lo_Price (plain_order m side) = Fin 10"
  by (simp_all add: plain_order_def order_amount_def zero_f64_def)

lemma plain_env_fields [simp]:
  "ge_store plain_env" "ge_userID plain_env = ''u1''" "ge_borrowEvidence plain_env = Some (\<lambda>m c. (True, []))" "ge_crossPrice plain_env = None"
  "ge_symbolRules plain_env = None" "ge_haltEvidence plain_env = None" "ge_liqEvidence plain_env = None"
  by (simp_all add: plain_env_def)

lemma cents: "decimalPlaces (Fin 10) = 0"
proof -
  have e: "[0..<1100] = 0 # [Suc 0..<1100]" by (rule upt_conv_Cons) simp
  have "reads_back 10 0" by (simp add: reads_back_def)
  then show ?thesis unfolding decimalPlaces_def f64.case e find.simps by (simp only: if_True option.case)
qed

lemma plain_passes:
  "gv_Pass (snd (CheckLiveOrder plain_env [] (plain_qmt open_limits) (plain_order ''CN'' SideSell) plain_db))"
  "gv_Pass (snd (CheckLiveOrder plain_env [] (plain_qmt open_limits) (plain_order ''CN'' SideBuy) plain_db))"
proof -
  obtain p where p: "RealPositionByCodeForUser plain_db ''u1'' ''600000'' = Inr (Some p)" "p_Qty p = Fin 200" using plain_holding by blast
  have "check c (entry_input plain_env (plain_qmt open_limits) (plain_order ''CN'' SideSell)) plain_db = None" for c
    by (cases c) (simp_all add: entry_input_def gate_checks open_limits_def minus_f64_def zero_f64_def p)
  moreover have "check c (entry_input plain_env (plain_qmt open_limits) (plain_order ''CN'' SideBuy)) plain_db = None" for c
    by (cases c) (simp_all add: entry_input_def gate_checks open_limits_def minus_f64_def plus_f64_def zero_f64_def occupied_def)
  ultimately show "gv_Pass (snd (CheckLiveOrder plain_env [] (plain_qmt open_limits) (plain_order ''CN'' SideSell) plain_db))"
    "gv_Pass (snd (CheckLiveOrder plain_env [] (plain_qmt open_limits) (plain_order ''CN'' SideBuy) plain_db))"
    unfolding pass_iff by simp_all
qed

lemma plain_short: "gv_Pass (snd (CheckLiveOrder plain_env [] plain_binance (plain_order ''US'' SideShortOpen) plain_db))"
proof -
  have "check c (entry_input plain_env plain_binance (plain_order ''US'' SideShortOpen)) plain_db = None" for c
    by (cases c) (simp_all add: entry_input_def gate_checks open_limits_def zero_f64_def cents)
  then show ?thesis unfolding pass_iff by simp
qed

lemma capped_sale:
  "gv_Gate (snd (CheckLiveOrder plain_env [] (plain_qmt (open_limits\<lparr>MaxOrderAmount := Fin 100\<rparr>)) (plain_order ''CN'' SideSell) plain_db)) = Some G_max_order_amount"
  by (simp add: gate_of_verdict live_gates_def entry_input_def)
    (simp add: gate_checks open_limits_def zero_f64_def)

theorem first_objection_decides_witness:
  "\<exists>xs ys. live_gates = xs @ G_max_order_amount # ys \<and>
     (\<forall>b \<in> set xs. check b (entry_input plain_env (plain_qmt (open_limits\<lparr>MaxOrderAmount := Fin 100\<rparr>)) (plain_order ''CN'' SideSell)) plain_db = None)"
  using first_objection_decides [of plain_env "[]" "plain_qmt (open_limits\<lparr>MaxOrderAmount := Fin 100\<rparr>)" "plain_order ''CN'' SideSell" plain_db
      G_max_order_amount] capped_sale by simp

theorem exits_stay_open_witness: "G_max_order_amount \<notin> exposure_gates \<and> G_max_order_amount \<in> {G_max_order_amount, G_t1_sellable}"
  using exits_stay_open [OF _ capped_sale] by (simp add: plain_order_def exposure_gates_def)

theorem passed_sale_is_sellable_witness: "\<not> Fin 200 < lo_Qty (plain_order ''CN'' SideSell)"
proof -
  obtain p where p: "RealPositionByCodeForUser plain_db ''u1'' ''600000'' = Inr (Some p)" "p_Qty p = Fin 200" using plain_holding by blast
  then show ?thesis
    using passed_sale_is_sellable [OF plain_passes(1), of p] p by (simp add: minus_f64_def zero_f64_def)
qed

theorem passed_buy_within_limits_witness: "\<not> Fin 5000 < occupied 0 0 0 + Fin 1000"
  using passed_buy_within_limits [OF plain_passes(2) _ _ refl refl refl] by (simp add: zero_f64_def)

theorem short_open_needs_evidence_witness: "\<not> shortMarginOf plain_binance \<le> 0"
  using short_open_needs_evidence [OF plain_short] by simp

end
