(* ===== verification/Trader.thy ===== *)
theory Trader
  imports Gate
begin

text \<open>
  The trade execution controller of \<open>internal/trading/controller.go\<close> with the executor interface of
  \<open>executor.go\<close> and the market router of \<open>router.go\<close>: the guarded, idempotent order path, the circuit
  breaker, the queued configuration, manual cancel, halt, the cancel sweep and reconciliation.

  The gateway and the exchange are outside the repository: what a call to them answers is an argument of the
  operation. The two calls an order makes (prepare, then send and book the answer) are separate
  definitions, because order reports may arrive between them. \<open>tr_sent\<close> and \<open>tr_cancels\<close> are the calls
  made so far. Every \<open>time.Now()\<close> is an argument. The settlement fields of the struct belong to \<open>settlement.go\<close>
  and are left out, as are log lines, metrics and the opslog.
\<close>

section \<open>Requests, answers, executors\<close>

record order_request =
  r_SignalID :: string
  r_Code :: string
  r_Name :: string
  r_Strategy :: string
  r_StrategyID :: string
  r_StrategyType :: string
  r_Side :: string
  r_PriceType :: string
  r_Price :: f64
  r_Qty :: f64
  r_Amount :: f64
  r_CreatedAt :: string
  r_StalenessMs :: int
  r_PrevClose :: f64
  r_CurrentPrice :: f64
  r_Market :: string
  r_TradingSession :: string
  r_TimeInForce :: string
  r_Notional :: f64
  r_QuoteAsset :: string

record order_result =
  or_OK :: bool
  or_OrderID :: string
  or_Err :: string

record gateway_state =
  gs_Connected :: bool
  gs_Positions :: "real_position list"
  gs_Orders :: "real_order list"

text \<open>What a call returns: an error, or a result (which may be Go's \<open>nil\<close>).\<close>

datatype send_outcome = SendErr string | Returned "order_result option"

datatype executor = NoopExecutor | QMTClient string string int | BinanceExecutor binance_view | OtherExecutor

definition noop_result :: order_result where
  "noop_result = \<lparr>or_OK = False, or_OrderID = [], or_Err = ''qmt disabled (noop executor)''\<rparr>"

text \<open>The answers of an executor, given what the outside would answer.\<close>

fun exec_place :: "executor \<Rightarrow> send_outcome \<Rightarrow> send_outcome" where
  "exec_place NoopExecutor answer = Returned (Some noop_result)"
| "exec_place _ answer = answer"

fun exec_cancel :: "executor \<Rightarrow> bool \<Rightarrow> bool" where
  "exec_cancel NoopExecutor answer = True"
| "exec_cancel _ answer = answer"

fun exec_state :: "executor \<Rightarrow> gateway_state option \<Rightarrow> gateway_state option" where
  "exec_state NoopExecutor answer = Some \<lparr>gs_Connected = False, gs_Positions = [], gs_Orders = []\<rparr>"
| "exec_state _ answer = answer"

fun exec_health :: "executor \<Rightarrow> bool \<Rightarrow> bool" where
  "exec_health NoopExecutor answer = False"
| "exec_health _ answer = answer"

section \<open>The state\<close>

datatype trader_alert = AlertTripped string | AlertRecovered | AlertProbeFailed

record trader =
  tr_db :: db
  tr_hasStore :: bool
  tr_cfg :: broker_config
  tr_pending :: "broker_config option"
  tr_broker :: string
  tr_userID :: string
  tr_exec :: executor
  tr_tripped :: bool
  tr_tripAt :: int
  tr_tripReason :: string
  tr_lastHealthAt :: int
  tr_lastHealthy :: bool
  tr_lastFailAt :: int
  tr_lastLatencyMs :: int
  tr_lastReportAt :: int
  tr_lastReportKind :: string
  tr_warned :: bool
  tr_lastSweepAt :: int
  tr_lastCloseSweepDay :: string
  tr_lastStaleSweepAt :: int
  tr_lastReconcileAt :: int
  tr_onAlert :: bool
  tr_alerts :: "trader_alert list"
  tr_sent :: "order_request list"
  tr_cancels :: "string list"

definition NewController_trading :: "executor \<Rightarrow> bool \<Rightarrow> db \<Rightarrow> string \<Rightarrow> broker_config \<Rightarrow> bool \<Rightarrow> string \<Rightarrow> trader" where
  "NewController_trading exec hasStore d userID cfg onAlert broker =
     \<lparr>tr_db = d, tr_hasStore = hasStore, tr_cfg = cfg, tr_pending = None, tr_broker = (if broker = [] then ''qmt'' else broker), tr_userID = userID,
      tr_exec = exec, tr_tripped = False, tr_tripAt = zero_time, tr_tripReason = [], tr_lastHealthAt = zero_time, tr_lastHealthy = False,
      tr_lastFailAt = zero_time, tr_lastLatencyMs = 0, tr_lastReportAt = zero_time, tr_lastReportKind = [], tr_warned = False, tr_lastSweepAt = zero_time,
      tr_lastCloseSweepDay = [], tr_lastStaleSweepAt = zero_time, tr_lastReconcileAt = zero_time, tr_onAlert = onAlert, tr_alerts = [],
      tr_sent = [], tr_cancels = []\<rparr>"

section \<open>Configuration\<close>

definition UpdateConfig :: "broker_config \<Rightarrow> trader \<Rightarrow> trader" where
  "UpdateConfig cfg c = c\<lparr>tr_cfg := cfg\<rparr>"

definition QueueConfigUpdate :: "broker_config \<Rightarrow> trader \<Rightarrow> trader" where
  "QueueConfigUpdate cfg c = c\<lparr>tr_pending := Some cfg\<rparr>"

fun is_binance :: "executor \<Rightarrow> bool" where
  "is_binance (BinanceExecutor v) = True"
| "is_binance _ = False"

fun is_client :: "executor \<Rightarrow> bool" where
  "is_client (QMTClient u t n) = True"
| "is_client _ = False"

fun binance_wanted :: "broker_config \<Rightarrow> binance_view option" where
  "binance_wanted (QMT q) = None"
| "binance_wanted (Binance v) = (if BrokerEnabled (Binance v) \<and> b_APIKey (v_Cfg v) \<noteq> [] \<and> b_APISecret (v_Cfg v) \<noteq> [] then Some v else None)"

fun client_wanted :: "broker_config \<Rightarrow> executor option" where
  "client_wanted (QMT q) = (if q_Enabled q \<and> q_GatewayURL q \<noteq> []
     then Some (QMTClient (q_GatewayURL q) (q_Token q) (wrap64 (q_TimeoutSec q * second))) else None)"
| "client_wanted (Binance v) = None"

definition rebuildExecutorLocked :: "broker_config \<Rightarrow> trader \<Rightarrow> trader" where
  "rebuildExecutorLocked cfg c =
     (if tr_broker c = ''binance'' then
        (case binance_wanted cfg of
           Some v \<Rightarrow> if \<not> is_binance (tr_exec c) then c\<lparr>tr_exec := BinanceExecutor v\<rparr> else c
         | None \<Rightarrow> if is_binance (tr_exec c) then c\<lparr>tr_exec := NoopExecutor\<rparr> else c)
      else
        (case client_wanted cfg of
           Some e \<Rightarrow> if \<not> is_client (tr_exec c) then c\<lparr>tr_exec := e\<rparr> else c
         | None \<Rightarrow> if is_client (tr_exec c) then c\<lparr>tr_exec := NoopExecutor\<rparr> else c))"

definition ApplyPendingConfig :: "trader \<Rightarrow> trader \<times> bool" where
  "ApplyPendingConfig c =
     (case tr_pending c of
        None \<Rightarrow> (c, False)
      | Some cfg \<Rightarrow> (rebuildExecutorLocked cfg (c\<lparr>tr_pending := None, tr_cfg := cfg\<rparr>), True))"

fun gatewayLabel :: "broker_config \<Rightarrow> string" where
  "gatewayLabel (QMT q) = q_GatewayURL q"
| "gatewayLabel (Binance v) = (if b_APIKey (v_Cfg v) = [] \<or> b_APISecret (v_Cfg v) = [] then [] else b_BaseURL (v_Cfg v))"

text \<open>\<open>b_BaseURL\<close> is the REST root that the testnet flag chooses.\<close>

definition MarketKey :: "trader \<Rightarrow> string" where
  "MarketKey c = (case tr_cfg c of Binance v \<Rightarrow> if v_Market v \<noteq> [] then v_Market v else CN | QMT q \<Rightarrow> CN)"

definition orderInScope :: "trader \<Rightarrow> real_order \<Rightarrow> bool" where
  "orderInScope c q \<longleftrightarrow> tr_broker c \<noteq> ''binance'' \<or> (if o_Market q = [] then CN else o_Market q) = MarketKey c"

text \<open>
  The available cash with whether it is fresh. The row's time text is read in the process's zone, whose offset
  is \<open>z\<close> (the zone \<open>UpsertRealAccount\<close> stamps it in).
\<close>

definition parse_local :: "int \<Rightarrow> string \<Rightarrow> int option" where
  "parse_local z s = map_option (\<lambda>t. t + (cn_offset - z) * second) (parse_cn_datetime s)"

definition AvailableCash :: "int \<Rightarrow> int \<Rightarrow> trader \<Rightarrow> f64 \<times> bool" where
  "AvailableCash z now c =
     (if \<not> tr_hasStore c then (0, False)
      else let acc = GetRealAccount (tr_db c) (tr_userID c)
           in (a_AvailableCash acc,
               case parse_local z (a_UpdatedAt acc) of None \<Rightarrow> False | Some updated \<Rightarrow> \<not> 30 * minute < time_sub now updated))"

definition SetLastReport :: "string \<Rightarrow> int \<Rightarrow> trader \<Rightarrow> trader" where
  "SetLastReport kind now c = c\<lparr>tr_lastReportAt := now, tr_lastReportKind := kind\<rparr>"

section \<open>The circuit breaker\<close>

definition fireOnAlert :: "trader_alert \<Rightarrow> trader \<Rightarrow> trader" where
  "fireOnAlert a c = (if tr_onAlert c then c\<lparr>tr_alerts := tr_alerts c @ [a]\<rparr> else c)"

definition setTripped :: "bool \<Rightarrow> string \<Rightarrow> int \<Rightarrow> trader \<Rightarrow> trader" where
  "setTripped trip reason now c =
     (let changed = (tr_tripped c \<noteq> trip);
          c = (if trip then c\<lparr>tr_tripped := True, tr_tripAt := now, tr_tripReason := reason\<rparr>
               else c\<lparr>tr_tripped := False, tr_tripReason := []\<rparr>)
      in if \<not> changed then c else fireOnAlert (if trip then AlertTripped reason else AlertRecovered) c)"

definition SetTripped :: "string \<Rightarrow> int \<Rightarrow> trader \<Rightarrow> trader" where
  "SetTripped reason now c = setTripped True reason now c"

definition heartbeat_reason :: string where
  "heartbeat_reason = [CHR 0xE7, CHR 0xBD, CHR 0x91, CHR 0xE5, CHR 0x85, CHR 0xB3, CHR 0xE5, CHR 0xBF, CHR 0x83, CHR 0xE8, CHR 0xB7, CHR 0xB3, CHR 0xE8, CHR 0xBF, CHR 0x9E, CHR 0xE7, CHR 0xBB, CHR 0xAD, CHR 0xE5, CHR 0xA4, CHR 0xB1, CHR 0xE8, CHR 0x81, CHR 0x94, CHR 0xE8, CHR 0xB6, CHR 0x85, CHR 0xE8, CHR 0xBF, CHR 0x87, CHR '' '']"

text \<open>Go's division of a duration by 2 truncates; the interval is used only when positive.\<close>

definition probe_interval :: "broker_config \<Rightarrow> int" where
  "probe_interval cfg = (let i = wrap64 (BrokerMissHeartbeat cfg * second) in if i < 2 then 60 * second else i div 2)"

definition miss_window :: "broker_config \<Rightarrow> int" where
  "miss_window cfg = (let w = wrap64 (BrokerMissHeartbeat cfg * second) in if w \<le> 0 then 120 * second else w)"

definition probe_due :: "int \<Rightarrow> trader \<Rightarrow> bool" where
  "probe_due now c \<longleftrightarrow> BrokerEnabled (tr_cfg c) \<and> gatewayLabel (tr_cfg c) \<noteq> [] \<and> probe_interval (tr_cfg c) \<le> time_sub now (tr_lastHealthAt c)"

text \<open>What a finished probe does; \<open>now'\<close> is the instant the answer came.\<close>

definition probe_answer :: "bool \<Rightarrow> int \<Rightarrow> trader \<Rightarrow> trader" where
  "probe_answer ok now' c =
     (if ok then
        (let c = c\<lparr>tr_lastFailAt := zero_time\<rparr>
         in if \<not> tr_tripped c then c\<lparr>tr_lastHealthy := True, tr_warned := False\<rparr> else setTripped False [] now' c)
      else
        (let firstFail = tr_lastHealthy c \<and> \<not> tr_warned c;
             runStart = tr_lastFailAt c;
             c = c\<lparr>tr_lastFailAt := (if runStart = zero_time then now' else runStart), tr_lastHealthy := False,
                   tr_warned := (tr_warned c \<or> firstFail)\<rparr>;
             c = (if firstFail then fireOnAlert AlertProbeFailed c else c)
         in if runStart = zero_time then c
            else if miss_window (tr_cfg c) \<le> time_sub now' runStart then setTripped True heartbeat_reason now' c else c))"

definition HealthCheck :: "int \<Rightarrow> int \<Rightarrow> bool \<Rightarrow> trader \<Rightarrow> trader" where
  "HealthCheck now now' answer c =
     (if \<not> probe_due now c then c
      else probe_answer (exec_health (tr_exec c) answer) now'
             (c\<lparr>tr_lastHealthAt := now, tr_lastLatencyMs := time_sub now' now div 1000000\<rparr>))"

section \<open>Placing an order\<close>

datatype place_error =
    BreakerOpen string
  | BrokerDisabled
  | KillSwitch
  | StoreNotSet
  | GateBlocked "gate_reason option"
  | PlaceStoreError store_error
  | SendError string
  | NilResult
  | MarketNotWired string

definition live_order_of :: "order_request \<Rightarrow> live_order" where
  "live_order_of req = \<lparr>lo_SignalID = r_SignalID req, lo_Code = r_Code req, lo_Name = r_Name req, lo_Strategy = r_Strategy req,
     lo_StrategyID = r_StrategyID req, lo_StrategyType = r_StrategyType req, lo_Side = r_Side req, lo_Price = r_Price req, lo_Qty = r_Qty req,
     lo_Amount = r_Amount req, lo_Market = r_Market req, lo_StalenessMs = r_StalenessMs req, lo_CurrentPrice = r_CurrentPrice req,
     lo_PrevClose = r_PrevClose req\<rparr>"

definition placeholder_row :: "string \<Rightarrow> order_request \<Rightarrow> real_order" where
  "placeholder_row userID req = \<lparr>o_OrderID = ''pend:'' @ r_SignalID req, o_SignalID = r_SignalID req, o_Code = r_Code req, o_Side = r_Side req,
     o_Status = st_reported, o_Price = r_Price req, o_Qty = r_Qty req, o_CreatedAt = r_CreatedAt req, o_UserID = userID, o_Market = r_Market req,
     o_Currency = []\<rparr>"

definition duplicate_result :: order_result where
  "duplicate_result = \<lparr>or_OK = False, or_OrderID = [], or_Err = ''duplicate signal_id (already ordered)''\<rparr>"

definition with_price_type :: "broker_config \<Rightarrow> order_request \<Rightarrow> order_request" where
  "with_price_type cfg req =
     (if r_PriceType req \<noteq> [] then req
      else let pt = (case cfg of QMT q \<Rightarrow> q_PriceType q | Binance v \<Rightarrow> []) in req\<lparr>r_PriceType := (if pt = [] then ''market'' else pt)\<rparr>)"

text \<open>The gate of the controller reads its ledger and account.\<close>

definition trader_gate :: "gate_env \<Rightarrow> trader \<Rightarrow> gate_env" where
  "trader_gate g c = g\<lparr>ge_store := tr_hasStore c, ge_userID := tr_userID c, ge_onGate := tr_onAlert c\<rparr>"

text \<open>The placeholder: inserted, or an existing row released for a retry; \<open>False\<close> for a true duplicate.\<close>

definition claim_signal :: "db \<Rightarrow> string \<Rightarrow> order_request \<Rightarrow> (bool \<times> db) res" where
  "claim_signal d userID req =
     (case UpsertRealOrder d (placeholder_row userID req) of
        Inl e \<Rightarrow> Inl e
      | Inr (existed, d') \<Rightarrow> if existed then ResetFailedRealOrder d' userID (r_SignalID req) else Inr (True, d'))"

text \<open>Up to the send: an error, the duplicate's answer, or the request to send.\<close>

definition place_prepare :: "gate_env \<Rightarrow> string \<Rightarrow> trader \<Rightarrow> order_request \<Rightarrow> trader \<times> (place_error + order_result + order_request)" where
  "place_prepare g stamp c req =
     (if tr_tripped c then (c, Inl (BreakerOpen (tr_tripReason c)))
      else if \<not> BrokerEnabled (tr_cfg c) then (c, Inl BrokerDisabled)
      else if BrokerHalted (tr_cfg c) then (c, Inl KillSwitch)
      else if \<not> tr_hasStore c then (c, Inl StoreNotSet)
      else case CheckLiveOrder (trader_gate g c) stamp (tr_cfg c) (live_order_of req) (tr_db c) of (d1, v) \<Rightarrow>
        (let c = c\<lparr>tr_db := d1\<rparr>
         in if \<not> gv_Pass v then (c, Inl (GateBlocked (gv_Reason v)))
            else case claim_signal d1 (tr_userID c) req of
                Inl e \<Rightarrow> (c, Inl (PlaceStoreError e))
              | Inr (False, d2) \<Rightarrow> (c\<lparr>tr_db := d2\<rparr>, Inr (Inl duplicate_result))
              | Inr (True, d2) \<Rightarrow> (c\<lparr>tr_db := d2\<rparr>, Inr (Inr (with_price_type (tr_cfg c) req)))))"

definition ignore_error :: "db \<Rightarrow> db res \<Rightarrow> db" where
  "ignore_error d r = (case r of Inl _ \<Rightarrow> d | Inr d' \<Rightarrow> d')"

definition send_failed :: "order_request \<Rightarrow> trader \<Rightarrow> trader" where
  "send_failed req c = c\<lparr>tr_db := ignore_error (tr_db c) (MarkRealOrderSendFailed (tr_db c) (tr_userID c) (r_SignalID req))\<rparr>"

text \<open>From the send on; a \<open>nil\<close> result is dereferenced and panics.\<close>

definition place_finish :: "trader \<Rightarrow> order_request \<Rightarrow> send_outcome \<Rightarrow> trader \<times> (place_error + order_result)" where
  "place_finish c req outcome =
     (let c = c\<lparr>tr_sent := tr_sent c @ [req]\<rparr>
      in case exec_place (tr_exec c) outcome of
           SendErr e \<Rightarrow> (send_failed req c, Inl (SendError e))
         | Returned None \<Rightarrow> (c, Inl NilResult)
         | Returned (Some res) \<Rightarrow>
             (if \<not> or_OK res then (send_failed req c, Inr res)
              else if or_OrderID res \<noteq> [] then
                (c\<lparr>tr_db := ignore_error (tr_db c) (UpdateRealOrderBySignalID (tr_db c) (tr_userID c) (r_SignalID req) (or_OrderID res) st_reported)\<rparr>,
                 Inr res)
              else (c, Inr res)))"

definition placeOrder :: "gate_env \<Rightarrow> string \<Rightarrow> send_outcome \<Rightarrow> trader \<Rightarrow> order_request \<Rightarrow> trader \<times> (place_error + order_result)" where
  "placeOrder g stamp outcome c req =
     (case place_prepare g stamp c req of
        (c, Inl e) \<Rightarrow> (c, Inl e)
      | (c, Inr (Inl res)) \<Rightarrow> (c, Inr res)
      | (c, Inr (Inr req')) \<Rightarrow> place_finish c req' outcome)"

section \<open>Cancelling\<close>

text \<open>The executor's cancel key: spot orders need the symbol.\<close>

definition cancelArg :: "trader \<Rightarrow> string \<Rightarrow> string" where
  "cancelArg c orderID =
     (case tr_exec c of
        BinanceExecutor v \<Rightarrow>
          (if v_Market v \<noteq> CRYPTO \<or> \<not> tr_hasStore c \<or> CHR '':'' \<in> set orderID then orderID
           else case RealOrdersForUser (tr_db c) (tr_userID c) of
               Inl _ \<Rightarrow> orderID
             | Inr rows \<Rightarrow> (case find (\<lambda>q. o_OrderID q = orderID \<and> o_Code q \<noteq> []) rows of
                   None \<Rightarrow> orderID | Some q \<Rightarrow> to_upper (o_Code q) @ '':'' @ orderID))
      | _ \<Rightarrow> orderID)"

text \<open>One cancel call and the local mark that follows it; says whether the call and the mark succeeded.\<close>

definition cancel_one :: "(string \<Rightarrow> bool) \<Rightarrow> string \<Rightarrow> trader \<Rightarrow> trader \<times> bool \<times> bool" where
  "cancel_one answer orderID c =
     (let arg = cancelArg c orderID; c = c\<lparr>tr_cancels := tr_cancels c @ [arg]\<rparr>
      in if \<not> exec_cancel (tr_exec c) (answer arg) then (c, False, False)
         else case UpdateRealOrderStatusMonotonic (tr_db c) (tr_userID c) orderID st_cancelled of
             Inl _ \<Rightarrow> (c, True, False)
           | Inr (ok, d) \<Rightarrow> (c\<lparr>tr_db := d\<rparr>, True, ok))"

datatype cancel_result = CancelDisabled | CancelRefused | CancelDone

definition CancelOrder :: "(string \<Rightarrow> bool) \<Rightarrow> string \<Rightarrow> trader \<Rightarrow> trader \<times> cancel_result" where
  "CancelOrder answer orderID c =
     (if \<not> BrokerEnabled (tr_cfg c) then (c, CancelDisabled)
      else if \<not> tr_hasStore c then
        (let arg = cancelArg c orderID; c = c\<lparr>tr_cancels := tr_cancels c @ [arg]\<rparr>
         in (c, if exec_cancel (tr_exec c) (answer arg) then CancelDone else CancelRefused))
      else case cancel_one answer orderID c of (c, sent, _) \<Rightarrow> (c, if sent then CancelDone else CancelRefused))"

definition pend_prefix :: string where
  "pend_prefix = ''pend:''"

definition halt_target :: "trader \<Rightarrow> real_order \<Rightarrow> bool" where
  "halt_target c q \<longleftrightarrow> (o_Status q = st_reported \<or> o_Status q = st_partial) \<and> \<not> has_prefix (o_OrderID q) pend_prefix \<and> orderInScope c q"

fun halt_each :: "(string \<Rightarrow> bool) \<Rightarrow> real_order list \<Rightarrow> trader \<Rightarrow> trader \<times> nat" where
  "halt_each answer [] c = (c, 0)"
| "halt_each answer (q # qs) c =
     (if \<not> halt_target c q then halt_each answer qs c
      else case cancel_one answer (o_OrderID q) c of (c, _, ok) \<Rightarrow>
        case halt_each answer qs c of (c, n) \<Rightarrow> (c, if ok then Suc n else n))"

definition HaltAll :: "(string \<Rightarrow> bool) \<Rightarrow> trader \<Rightarrow> trader \<times> nat" where
  "HaltAll answer c =
     (if \<not> tr_hasStore c then (c, 0)
      else case RealOrdersForUser (tr_db c) (tr_userID c) of
          Inl _ \<Rightarrow> (c, 0)
        | Inr rows \<Rightarrow> halt_each answer rows c)"

section \<open>The cancel sweep\<close>

text \<open>\<open>time.Parse(time.RFC3339, s)\<close>, as Go reads it.\<close>

definition parse_zone :: "string \<Rightarrow> int option" where
  "parse_zone r = (if r = ''Z'' then Some 0
     else case r of
       [s, h1, h2, c, m1, m2] \<Rightarrow>
         (case (num2 h1 h2, num2 m1 m2) of
            (Some h, Some m) \<Rightarrow>
              if (s = CHR ''+'' \<or> s = CHR ''-'') \<and> c = CHR '':'' \<and> h \<le> 24 \<and> m \<le> 60
              then Some ((if s = CHR ''-'' then - 1 else 1) * (h * 3600 + m * 60)) else None
          | _ \<Rightarrow> None)
     | _ \<Rightarrow> None)"

definition split_frac :: "string \<Rightarrow> int \<times> string" where
  "split_frac r = (case r of
     c # d # _ \<Rightarrow> if (c = CHR ''.'' \<or> c = CHR '','') \<and> is_digit d
       then (digits_val (take 9 (takeWhile is_digit (tl r) @ ''000000000'')), dropWhile is_digit (tl r)) else (0, r)
   | _ \<Rightarrow> (0, r))"

definition parse_time_zone :: "string \<Rightarrow> (int \<times> int \<times> int) option" where
  "parse_time_zone r = (case parse_hour r of
     Some (h, c1 # n1 # n2 # c2 # e1 # e2 # r') \<Rightarrow>
       (case (num2 n1 n2, num2 e1 e2, split_frac r') of
          (Some n, Some e, (f, zs)) \<Rightarrow>
            (if c1 = CHR '':'' \<and> c2 = CHR '':'' \<and> h < 24 \<and> n < 60 \<and> e < 60
             then map_option (\<lambda>z. (h * 3600 + n * 60 + e, f, z)) (parse_zone zs) else None)
        | _ \<Rightarrow> None)
   | _ \<Rightarrow> None)"

definition parse_rfc3339 :: "string \<Rightarrow> int option" where
  "parse_rfc3339 s = (case s of
     y1 # y2 # y3 # y4 # s1 # m1 # m2 # s2 # d1 # d2 # tt # r \<Rightarrow>
       (case (num2 y1 y2, num2 y3 y4, num2 m1 m2, num2 d1 d2, parse_time_zone r) of
          (Some ya, Some yb, Some m, Some d, Some (c, f, z)) \<Rightarrow>
            (let y = 100 * ya + yb
             in if s1 = CHR ''-'' \<and> s2 = CHR ''-'' \<and> tt = CHR ''T'' \<and> valid_date y m d
                then Some ((day_number y m d * 86400 + c - z) * second + f) else None)
        | _ \<Rightarrow> None)
   | _ \<Rightarrow> None)"

record sweep_result =
  sw_Cancelled :: nat
  sw_Demoted :: nat
  sw_Skipped :: nat
  sw_Errors :: nat
  sw_CloseSweep :: bool

definition stale_secs :: "broker_config \<Rightarrow> int" where
  "stale_secs cfg = (if BrokerCancelStaleSec cfg = 0 then 120 else BrokerCancelStaleSec cfg)"

text \<open>The day-crossing local sweep, throttled on its own and run whatever the switches say.\<close>

definition stale_sweep :: "clock_env \<Rightarrow> int \<Rightarrow> trader \<Rightarrow> trader" where
  "stale_sweep env now c =
     (if \<not> tr_hasStore c \<or> time_sub now (tr_lastStaleSweepAt c) < 30 * second then c
      else let beforeDay = format_day (local_day (Loc env (Session (MarketKey c)) now) now); c = c\<lparr>tr_lastStaleSweepAt := now\<rparr>
           in case SweepStaleBuyOrders (tr_db c) (tr_userID c) beforeDay (MarketKey c) of
                Inl _ \<Rightarrow> c
              | Inr (n, d) \<Rightarrow> c\<lparr>tr_db := d\<rparr>)"

definition close_due :: "clock_env \<Rightarrow> int \<Rightarrow> trader \<Rightarrow> bool" where
  "close_due env now c \<longleftrightarrow>
     (let closeAt = (if BrokerCloseSweepAt (tr_cfg c) = 0 then 1452 else BrokerCloseSweepAt (tr_cfg c))
      in 0 < closeAt \<and> closeAt \<le> hhmm cn_offset now \<and> IsTradingDay (env_cal env) now \<and> tr_lastCloseSweepDay c \<noteq> DayCompactOf now)"

text \<open>One row of the sweep; \<open>age\<close> is a duration (\<open>wrap64 (stale * second)\<close> the limit).\<close>

definition sweep_one :: "(string \<Rightarrow> bool) \<Rightarrow> int \<Rightarrow> int \<Rightarrow> bool \<Rightarrow> real_order \<Rightarrow> trader \<times> sweep_result \<Rightarrow> trader \<times> sweep_result" where
  "sweep_one answer now stale closing q cw = (case cw of (c, w) \<Rightarrow>
     if o_Status q \<noteq> st_reported \<and> o_Status q \<noteq> st_partial then (c, w)
     else if \<not> orderInScope c q then (c, w)
     else case parse_rfc3339 (o_CreatedAt q) of
         None \<Rightarrow> (c, w\<lparr>sw_Skipped := sw_Skipped w + 1\<rparr>)
       | Some created \<Rightarrow>
           (let overdue = (0 < stale \<and> wrap64 (stale * second) < time_sub now created)
            in if has_prefix (o_OrderID q) pend_prefix then
                 (if overdue then
                    (case MarkRealOrderSendFailed (tr_db c) (tr_userID c) (o_SignalID q) of
                       Inl _ \<Rightarrow> (c, w\<lparr>sw_Errors := sw_Errors w + 1\<rparr>)
                     | Inr d \<Rightarrow> (c\<lparr>tr_db := d\<rparr>, w\<lparr>sw_Demoted := sw_Demoted w + 1\<rparr>))
                  else (c, w))
               else if \<not> (overdue \<or> closing) then (c, w)
               else case cancel_one answer (o_OrderID q) c of (c, sent, ok) \<Rightarrow>
                   (c, if ok then w\<lparr>sw_Cancelled := sw_Cancelled w + 1\<rparr> else w\<lparr>sw_Errors := sw_Errors w + 1\<rparr>)))"

definition SweepOrders :: "clock_env \<Rightarrow> (string \<Rightarrow> bool) \<Rightarrow> int \<Rightarrow> trader \<Rightarrow> trader \<times> sweep_result option" where
  "SweepOrders env answer now c0 =
     (let c = stale_sweep env now c0
      in if \<not> BrokerEnabled (tr_cfg c) \<or> \<not> tr_hasStore c \<or> tr_tripped c then (c, None)
         else if time_sub now (tr_lastSweepAt c) < 30 * second then (c, None)
         else
           let c = c\<lparr>tr_lastSweepAt := now\<rparr>; stale = stale_secs (tr_cfg c); closing = close_due env now c;
               c = (if closing then c\<lparr>tr_lastCloseSweepDay := DayCompactOf now\<rparr> else c)
           in if stale < 0 \<and> \<not> closing then (c, None)
              else case RealOrdersForUser (tr_db c) (tr_userID c) of
                  Inl _ \<Rightarrow> (c, None)
                | Inr rows \<Rightarrow>
                    (case foldl (\<lambda>cw q. sweep_one answer now stale closing q cw)
                        (c, \<lparr>sw_Cancelled = 0, sw_Demoted = 0, sw_Skipped = 0, sw_Errors = 0, sw_CloseSweep = closing\<rparr>) rows of
                       (c, w) \<Rightarrow> (c, Some w)))"

section \<open>Reconciliation\<close>

definition Reconcile :: "string \<Rightarrow> gateway_state option \<Rightarrow> trader \<Rightarrow> trader" where
  "Reconcile now answer c =
     (case exec_state (tr_exec c) answer of
        None \<Rightarrow> c
      | Some st \<Rightarrow>
          (if \<not> tr_hasStore c then c
           else if gs_Positions st = [] \<and> \<not> gs_Connected st then c
           else case ReconcilePositionsForUser (tr_db c) now (tr_userID c) (MarketKey c) (gs_Positions st) of
               Inl _ \<Rightarrow> c
             | Inr (_, d) \<Rightarrow> c\<lparr>tr_db := d\<rparr>))"

section \<open>The router\<close>

type_synonym router = "string \<rightharpoonup> trader"

definition market_or_cn :: "string \<Rightarrow> string" where
  "market_or_cn market = (if market = [] then CN else market)"

definition Register :: "string \<Rightarrow> trader option \<Rightarrow> router \<Rightarrow> router" where
  "Register market c r = (case c of None \<Rightarrow> r | Some t \<Rightarrow> r(market_or_cn market \<mapsto> t))"

definition ControllerFor :: "string \<Rightarrow> router \<Rightarrow> trader option" where
  "ControllerFor market r = r (market_or_cn market)"

definition router_PlaceOrder :: "gate_env \<Rightarrow> string \<Rightarrow> send_outcome \<Rightarrow> router \<Rightarrow> order_request \<Rightarrow> router \<times> (place_error + order_result)" where
  "router_PlaceOrder g stamp outcome r req =
     (case ControllerFor (r_Market req) r of
        None \<Rightarrow> (r, Inl (MarketNotWired (market_or_cn (r_Market req))))
      | Some t \<Rightarrow> (case placeOrder g stamp outcome t req of (t', res) \<Rightarrow> (r(market_or_cn (r_Market req) \<mapsto> t'), res)))"

end
