(* ===== verification/TraderFacts.thy ===== *)
theory TraderFacts
  imports Trader GateFacts
begin

text \<open>
  What the controller promises: a signal whose order was accepted is not sent a second time, whatever
  is interleaved with the send, unless its row was released before; the circuit breaker trips exactly on an outage as long as the window; the
  sweep cancels only overdue orders of its own market. Also the behaviours that depart from the comments.
\<close>

section \<open>Parts of the ledger the controller leaves alone\<close>

lemma gate_changes_hits: "\<exists>h. fst (CheckLiveOrder g stamp cfg q d) = d\<lparr>gates := h\<rparr>"
proof -
  have b: "\<exists>h. fst (block_verdict g stamp m c r (d\<lparr>gates := k\<rparr>)) = d\<lparr>gates := h\<rparr>" for m c r k
  proof -
    have "\<exists>h. x = d\<lparr>gates := h\<rparr>" if "RecordRiskGate (d\<lparr>gates := k\<rparr>) t u day n s = Inr x" for t u day n s x
      using record_only_gates [OF that] by (metis db.update_convs(5) db.surjective)
    then show ?thesis by (auto simp: block_verdict_def split: sum.split)
  qed
  obtain k where k: "fst (run_checks stamp live_gates (entry_input g cfg q) d) = d\<lparr>gates := k\<rparr>" using run_gates_only by blast
  have d: "d = d\<lparr>gates := gates d\<rparr>" by simp
  show ?thesis
    using b [of _ _ _ "gates d"] b [of _ _ _ k] k
    by (auto simp: CheckLiveOrder_def entry_input_def Let_def split: prod.splits option.splits)
qed

lemma gate_keeps_orders [simp]: "orders (fst (CheckLiveOrder g stamp cfg q d)) = orders d"
  using gate_changes_hits [of g stamp cfg q d] by auto

lemma fill_keeps_orders: "ApplyRealFill d now f = Inr d' \<Longrightarrow> orders d' = orders d"
  by (cases rule: ApplyRealFill_cases, assumption) (auto dest: claim_frame)

lemma upsert_position_orders [simp]: "orders (upsert_position k p d) = orders d"
  by (simp add: upsert_position_def)

lemma reconcile_all_orders: "reconcile_all u ps d = Inr d' \<Longrightarrow> orders d' = orders d"
  by (induction ps arbitrary: d) (auto dest: claim_frame split: sum.splits)

lemma reconcile_keeps_orders: "ReconcilePositionsForUser d now u m ps = Inr (n, d') \<Longrightarrow> orders d' = orders d"
  by (elim ReconcileE) (auto dest: reconcile_all_orders)

lemma alert_fields [simp]:
  "tr_db (fireOnAlert a c) = tr_db c" "tr_userID (fireOnAlert a c) = tr_userID c" "tr_sent (fireOnAlert a c) = tr_sent c"
  "tr_cfg (fireOnAlert a c) = tr_cfg c" "tr_exec (fireOnAlert a c) = tr_exec c" "tr_tripped (fireOnAlert a c) = tr_tripped c"
  "tr_lastFailAt (fireOnAlert a c) = tr_lastFailAt c" "tr_cancels (fireOnAlert a c) = tr_cancels c" "tr_broker (fireOnAlert a c) = tr_broker c"
  by (simp_all add: fireOnAlert_def)

lemma tripped_fields [simp]:
  "tr_db (setTripped b r t c) = tr_db c" "tr_userID (setTripped b r t c) = tr_userID c" "tr_sent (setTripped b r t c) = tr_sent c"
  "tr_cfg (setTripped b r t c) = tr_cfg c" "tr_exec (setTripped b r t c) = tr_exec c" "tr_tripped (setTripped b r t c) = b"
  "tr_lastFailAt (setTripped b r t c) = tr_lastFailAt c" "tr_cancels (setTripped b r t c) = tr_cancels c"
  by (simp_all add: setTripped_def Let_def)

lemma probe_fields [simp]:
  "tr_db (HealthCheck t t' b c) = tr_db c" "tr_userID (HealthCheck t t' b c) = tr_userID c" "tr_sent (HealthCheck t t' b c) = tr_sent c"
  "tr_cfg (HealthCheck t t' b c) = tr_cfg c" "tr_exec (HealthCheck t t' b c) = tr_exec c"
  by (simp_all add: HealthCheck_def probe_answer_def Let_def)

lemma rebuild_fields [simp]:
  "tr_db (rebuildExecutorLocked cfg c) = tr_db c" "tr_userID (rebuildExecutorLocked cfg c) = tr_userID c"
  "tr_sent (rebuildExecutorLocked cfg c) = tr_sent c"
  by (simp_all add: rebuildExecutorLocked_def split: option.split)

lemma pending_fields [simp]:
  "tr_db (fst (ApplyPendingConfig c)) = tr_db c" "tr_userID (fst (ApplyPendingConfig c)) = tr_userID c"
  "tr_sent (fst (ApplyPendingConfig c)) = tr_sent c"
  by (simp_all add: ApplyPendingConfig_def split: option.split)

lemma reconcile_fields [simp]:
  "orders (tr_db (Reconcile now st c)) = orders (tr_db c)" "tr_userID (Reconcile now st c) = tr_userID c" "tr_sent (Reconcile now st c) = tr_sent c"
  by (auto simp: Reconcile_def reconcile_keeps_orders split: option.splits sum.splits)

section \<open>Properties of the orders, carried through every operation\<close>

text \<open>
  A property of the ledger that depends on the orders only and is kept by the order operations in
  \<open>allowed\<close> is kept by every controller operation that uses only those.
\<close>

locale order_property =
  fixes holds :: "db \<Rightarrow> bool" and allowed :: "order_op \<Rightarrow> bool"
  assumes step: "holds d \<Longrightarrow> allowed op \<Longrightarrow> holds (order_step d op)"
    and frame: "orders d' = orders d \<Longrightarrow> holds d \<Longrightarrow> holds d'"
begin

lemma keep_orders: "orders d' = orders d \<Longrightarrow> holds d' \<longleftrightarrow> holds d"
  using frame [of d d'] frame [of d' d] by auto

lemma upsert_keeps: "UpsertRealOrder d n = Inr (b, d') \<Longrightarrow> allowed (Op_upsert n) \<Longrightarrow> holds d \<Longrightarrow> holds d'"
  using step [of d "Op_upsert n"] by simp

lemma reset_keeps: "ResetFailedRealOrder d u s = Inr (b, d') \<Longrightarrow> allowed (Op_reset u s) \<Longrightarrow> holds d \<Longrightarrow> holds d'"
  using step [of d "Op_reset u s"] by simp

lemma failed_keeps: "MarkRealOrderSendFailed d u s = Inr d' \<Longrightarrow> allowed (Op_send_failed u s) \<Longrightarrow> holds d \<Longrightarrow> holds d'"
  using step [of d "Op_send_failed u s"] by simp

lemma backfill_keeps: "UpdateRealOrderBySignalID d u s i st = Inr d' \<Longrightarrow> allowed (Op_backfill u s i st) \<Longrightarrow> holds d \<Longrightarrow> holds d'"
  using step [of d "Op_backfill u s i st"] by simp

lemma status_keeps: "UpdateRealOrderStatusMonotonic d u i st = Inr (b, d') \<Longrightarrow> allowed (Op_monotonic u i st) \<Longrightarrow> holds d \<Longrightarrow> holds d'"
  using step [of d "Op_monotonic u i st"] by simp

lemma sweep_keeps: "SweepStaleBuyOrders d u b m = Inr (n, d') \<Longrightarrow> allowed (Op_sweep u b m) \<Longrightarrow> holds d \<Longrightarrow> holds d'"
  using step [of d "Op_sweep u b m"] by simp

lemma claim_signal_keeps:
  assumes "claim_signal d u req = Inr (b, d')" "holds d"
    and "allowed (Op_upsert (placeholder_row u req))" "allowed (Op_reset u (r_SignalID req))"
  shows "holds d'"
proof -
  have u: "holds x" if "UpsertRealOrder d (placeholder_row u req) = Inr (e, x)" for e x using that assms(3,2) by (rule upsert_keeps)
  then show ?thesis using assms(1) reset_keeps [OF _ assms(4)] by (auto simp: claim_signal_def split: sum.splits if_splits)
qed

lemma prepare_keeps:
  assumes "holds (tr_db c)" "allowed (Op_upsert (placeholder_row (tr_userID c) req))" "allowed (Op_reset (tr_userID c) (r_SignalID req))"
  shows "holds (tr_db (fst (place_prepare g stamp c req)))"
proof -
  obtain d1 v where v: "CheckLiveOrder (trader_gate g c) stamp (tr_cfg c) (live_order_of req) (tr_db c) = (d1, v)" by fastforce
  then have "orders d1 = orders (tr_db c)" by (metis fst_conv gate_keeps_orders)
  then have h: "holds d1" using assms(1) frame by blast
  have "holds d2" if "claim_signal d1 (tr_userID c) req = Inr (b, d2)" for b d2 using that h assms(2,3) by (rule claim_signal_keeps)
  then show ?thesis using assms(1) h by (auto simp: place_prepare_def v Let_def split: sum.split bool.split)
qed

lemma send_failed_keeps: "holds (tr_db c) \<Longrightarrow> allowed (Op_send_failed (tr_userID c) (r_SignalID req)) \<Longrightarrow> holds (tr_db (send_failed req c))"
  by (auto simp: send_failed_def ignore_error_def split: sum.split intro: failed_keeps)

lemma finish_keeps:
  assumes "holds (tr_db c)" "allowed (Op_send_failed (tr_userID c) (r_SignalID req))"
    and "\<And>i. allowed (Op_backfill (tr_userID c) (r_SignalID req) i st_reported)"
  shows "holds (tr_db (fst (place_finish c req outcome)))"
proof -
  have "holds (tr_db (send_failed req (c\<lparr>tr_sent := x\<rparr>)))" for x using assms by (intro send_failed_keeps) simp_all
  then show ?thesis
    using assms by (auto simp: place_finish_def ignore_error_def Let_def split: send_outcome.split option.split sum.split intro: backfill_keeps)
qed

lemma cancel_keeps:
  assumes "holds (tr_db c)" "\<And>i. allowed (Op_monotonic (tr_userID c) i st_cancelled)"
  shows "holds (tr_db (fst (cancel_one answer i c)))"
  using assms by (auto simp: cancel_one_def Let_def split: sum.split intro: status_keeps)

end


section \<open>The orders of one signal\<close>

definition order_row :: "(string \<Rightarrow> bool) \<Rightarrow> string \<Rightarrow> string \<Rightarrow> db \<Rightarrow> bool" where
  "order_row P u s d \<longleftrightarrow> list_ex (by_signal u s) (orders d) \<and> list_all (\<lambda>r. by_signal u s r \<longrightarrow> P (o_Status r)) (orders d)"

text \<open>An order stands while its row is neither a failed send nor cancelled; it is done when filled, partly cancelled or void.\<close>

definition standing_status :: "string \<Rightarrow> bool" where
  "standing_status st \<longleftrightarrow> st \<noteq> st_send_failed \<and> st \<noteq> st_cancelled"

definition done_status :: "string \<Rightarrow> bool" where
  "done_status st \<longleftrightarrow> st = st_filled \<or> st = st_part_cancelled \<or> st = st_void"

lemma done_stands: "done_status st \<Longrightarrow> standing_status st"
  by (auto simp: done_status_def standing_status_def status_defs)

lemma stands_facts [simp]: "standing_status st_reported" "standing_status st_void" "\<not> standing_status st_send_failed" "\<not> standing_status st_cancelled"
  "\<not> done_status st_reported" "\<not> done_status st_partial"
  by (simp_all add: standing_status_def done_status_def status_defs)

lemma done_rank: "done_status st \<Longrightarrow> orderStatusRank st = 6"
  by (auto simp: done_status_def orderStatusRank_def)

lemma row_found: "order_row P u s d \<Longrightarrow> find (by_signal u s) (orders d) = Some r \<Longrightarrow> P (o_Status r)"
  by (auto simp: order_row_def list_all_iff dest!: find_SomeD)

lemma row_exists: "order_row P u s d \<Longrightarrow> \<exists>r. find (by_signal u s) (orders d) = Some r"
  by (auto simp: order_row_def list_ex_iff find_None split: option.splits intro: ccontr)

lemma list_ex_map_same: "(\<And>x. p (g x) = p x) \<Longrightarrow> list_ex p (map g xs) = list_ex p xs"
  by (induction xs) simp_all

lemma row_update:
  assumes "order_row P u s d" "\<And>r. by_signal u s (f r) = by_signal u s r"
    and "\<And>r. r \<in> set (orders d) \<Longrightarrow> by_signal u s r \<Longrightarrow> Q r \<Longrightarrow> P (o_Status r) \<Longrightarrow> P (o_Status (f r))"
  shows "order_row P u s (d\<lparr>orders := update_where Q f (orders d)\<rparr>)"
proof -
  have "by_signal u s (if Q r then f r else r) = by_signal u s r" for r using assms(2) by simp
  then have "list_ex (by_signal u s) (update_where Q f (orders d)) = list_ex (by_signal u s) (orders d)"
    by (simp add: update_where_def list_ex_map_same)
  moreover have "list_all (\<lambda>r. by_signal u s r \<longrightarrow> P (o_Status r)) (update_where Q f (orders d))"
    using assms unfolding order_row_def list_all_iff by (auto simp: set_update_where)
  ultimately show ?thesis using assms(1) by (simp add: order_row_def)
qed

lemma row_insert:
  assumes "order_row P u s d"
  shows "order_row P u s (d\<lparr>orders := snd (insert_or_ignore n (orders d))\<rparr>)"
  using assms by (auto simp: order_row_def insert_or_ignore_def list_ex_iff by_signal_def)

lemma row_set_status:
  assumes "order_row P u s d" "\<And>r. r \<in> set (orders d) \<Longrightarrow> by_signal u s r \<Longrightarrow> Q r \<Longrightarrow> P (o_Status r) \<Longrightarrow> P st"
  shows "order_row P u s (set_status Q st d)"
  unfolding set_status_def by (rule row_update [OF assms(1)]) (use assms(2) in auto)

lemma row_set_order_id:
  assumes "set_order_id Q i st d = Inr d'" "order_row P u s d"
    and "\<And>r. r \<in> set (orders d) \<Longrightarrow> by_signal u s r \<Longrightarrow> Q r \<Longrightarrow> P (o_Status r) \<Longrightarrow> P st"
  shows "order_row P u s d'"
proof -
  have "d' = d\<lparr>orders := update_where Q (\<lambda>r. r\<lparr>o_OrderID := i, o_Status := st\<rparr>) (orders d)\<rparr>"
    using assms(1) by (auto simp: set_order_id_def split: if_splits)
  then show ?thesis using assms(3) by (auto simp: by_signal_def intro!: row_update [OF assms(2)])
qed

text \<open>The order operations that leave the order of \<open>(u, s)\<close> in a status of \<open>P\<close>.\<close>

fun op_within :: "(string \<Rightarrow> bool) \<Rightarrow> string \<Rightarrow> string \<Rightarrow> order_op \<Rightarrow> bool" where
  "op_within P u s (Op_backfill v t i st) \<longleftrightarrow> (v = u \<and> t = s \<longrightarrow> P st)"
| "op_within P u s (Op_send_failed v t) \<longleftrightarrow> (v = u \<and> t = s \<longrightarrow> P st_send_failed)"
| "op_within P u s (Op_advance v t st) \<longleftrightarrow> (v = u \<and> t = s \<longrightarrow> P st)"
| "op_within P u s (Op_monotonic v i st) \<longleftrightarrow> (v = u \<longrightarrow> P st)"
| "op_within P u s (Op_report n) \<longleftrightarrow> (o_UserID n = u \<and> o_SignalID n = s \<longrightarrow> P (o_Status n))"
| "op_within P u s (Op_reset v t) \<longleftrightarrow> P st_reported"
| "op_within P u s (Op_sweep v b m) \<longleftrightarrow> P st_void"
| "op_within P u s (Op_upsert n) \<longleftrightarrow> True"

text \<open>Those that do not release it: it stays neither a failed send nor cancelled.\<close>

abbreviation quiet_op :: "string \<Rightarrow> string \<Rightarrow> order_op \<Rightarrow> bool" where
  "quiet_op \<equiv> op_within standing_status"

lemma by_signal_renumber [simp]: "by_signal u s (r\<lparr>o_OrderID := i\<rparr>) = by_signal u s r"
  by (simp add: by_signal_def)

lemma by_signal_same: "by_signal u s r \<Longrightarrow> by_signal v t r \<Longrightarrow> v = u \<and> t = s"
  by (auto simp: by_signal_def)

lemma by_signal_owner: "by_signal u s r \<Longrightarrow> by_order_id v i r \<Longrightarrow> v = u"
  by (simp add: by_signal_def by_order_id_def)

lemma stamp_keys [simp]: "o_UserID (stamp_order n) = o_UserID n" "o_SignalID (stamp_order n) = o_SignalID n" "o_Status (stamp_order n) = o_Status n"
  by (simp_all add: stamp_order_def Let_def)

lemma row_step:
  assumes "order_row P u s d" "op_within P u s op"
  shows "order_row P u s (order_step d op)"
proof (cases op)
  case (Op_upsert n)
  have "snd (insert_or_ignore (stamp_order n) (orders d)) = rows \<Longrightarrow> order_row P u s (d\<lparr>orders := rows\<rparr>)" for rows
    using row_insert [OF assms(1)] by auto
  then show ?thesis using assms(1) Op_upsert by (auto simp: UpsertRealOrder_def split: prod.split)
next
  case (Op_backfill v t i st)
  have "order_row P u s d'" if "set_order_id (by_signal v t) i st d = Inr d'" for d'
    using that assms(1) by (rule row_set_order_id) (use assms(2) Op_backfill in \<open>auto dest: by_signal_same\<close>)
  then show ?thesis using assms(1) Op_backfill by (auto simp: UpdateRealOrderBySignalID_def split: option.split sum.split)
next
  case (Op_send_failed v t)
  have "order_row P u s (d\<lparr>orders := update_where (\<lambda>r. by_signal v t r \<and> o_Status r = st_reported) (\<lambda>r. r\<lparr>o_Status := st_send_failed\<rparr>) (orders d)\<rparr>)"
    using assms(1) by (rule row_update) (use assms(2) Op_send_failed in \<open>auto dest: by_signal_same\<close>)
  then show ?thesis using assms(1) Op_send_failed by (auto simp: MarkRealOrderSendFailed_def)
next
  case (Op_reset v t)
  have "order_row P u s d'" if "set_order_id (retry_eligible d v t) i st_reported d = Inr d'" for i d'
    using that assms(1) by (rule row_set_order_id) (use assms(2) Op_reset in simp)
  then show ?thesis using assms(1) Op_reset by (auto simp: ResetFailedRealOrder_def Let_def split: option.split sum.split)
next
  case (Op_advance v t st)
  have "order_row P u s (set_status (by_signal v t) st d)"
    using assms(1) by (rule row_set_status) (use assms(2) Op_advance in \<open>auto dest: by_signal_same\<close>)
  then show ?thesis using assms(1) Op_advance by (auto simp: AdvanceRealOrderStatus_def split: option.split)
next
  case (Op_monotonic v i st)
  have "order_row P u s (set_status (by_order_id v i) st d)"
    using assms(1) by (rule row_set_status) (use assms(2) Op_monotonic in \<open>auto dest: by_signal_owner\<close>)
  then show ?thesis using assms(1) Op_monotonic by (auto simp: UpdateRealOrderStatusMonotonic_def split: option.split)
next
  case (Op_report n)
  have "order_row P u s (set_status (by_signal (o_UserID n) (o_SignalID n)) (o_Status n) d)"
    using assms(1) by (rule row_set_status) (use assms(2) Op_report in \<open>auto dest: by_signal_same\<close>)
  moreover have "snd (insert_or_ignore (stamp_order n) (orders d)) = rows \<Longrightarrow> order_row P u s (d\<lparr>orders := rows\<rparr>)" for rows
    using row_insert [OF assms(1)] by auto
  ultimately show ?thesis using assms(1) Op_report by (auto simp: ApplyOrderReportTx_def Let_def split: option.split prod.split bool.split)
next
  case (Op_sweep v b m)
  have "order_row P u s (set_status (stale_buy v m' b) st_void d)" for m'
    using assms(1) by (rule row_set_status) (use assms(2) Op_sweep in simp)
  then show ?thesis using assms(1) Op_sweep by (auto simp: SweepStaleBuyOrders_def Let_def)
qed

interpretation standing: order_property "order_row standing_status u s" "quiet_op u s" for u s
proof unfold_locales
  show "order_row standing_status u s (order_step d op)" if "order_row standing_status u s d" "quiet_op u s op" for d op
    using that by (rule row_step)
qed (simp add: order_row_def)

text \<open>No operation takes a row out of the table.\<close>

interpretation present: order_property "order_row (\<lambda>_. True) u s" "\<lambda>_. True" for u s
proof unfold_locales
  show "order_row (\<lambda>_. True) u s (order_step d op)" if "order_row (\<lambda>_. True) u s d" for d op
    using that by (rule row_step) (cases op; simp)
qed (simp add: order_row_def)


text \<open>A done order is left by no operation whatever, as long as backfills carry an open status.\<close>

fun backfills_open :: "order_op \<Rightarrow> bool" where
  "backfills_open (Op_backfill v t i st) \<longleftrightarrow> orderStatusRank st < 6"
| "backfills_open _ \<longleftrightarrow> True"

definition order_done :: "string \<Rightarrow> string \<Rightarrow> db \<Rightarrow> bool" where
  "order_done u s d \<longleftrightarrow> orders_wf (orders d) \<and> order_row done_status u s d"

lemma done_only:
  assumes "order_done u s d" "r \<in> set (orders d)" "q \<in> set (orders d)" "by_signal u s r" "Q r" "Q q"
    and "\<And>a b. a \<in> set (orders d) \<Longrightarrow> b \<in> set (orders d) \<Longrightarrow> Q a \<Longrightarrow> Q b \<Longrightarrow> a = b"
  shows "orderStatusRank (o_Status q) = 6"
proof -
  have "r = q" using assms by blast
  then show ?thesis using assms(1,2,4) by (auto simp: order_done_def order_row_def list_all_iff done_rank)
qed

lemma done_step:
  assumes "order_done u s d" "backfills_open op"
  shows "order_done u s (order_step d op)"
proof -
  have wf: "orders_wf (orders d)" and row: "order_row done_status u s d" using assms(1) by (simp_all add: order_done_def)
  note rank = rank_range(2)
  have six: "orderStatusRank (o_Status q) = 6" if "find Q (orders d) = Some q" "r \<in> set (orders d)" "by_signal u s r" "Q r"
    "\<And>a b. a \<in> set (orders d) \<Longrightarrow> b \<in> set (orders d) \<Longrightarrow> Q a \<Longrightarrow> Q b \<Longrightarrow> a = b" for Q q r
    using done_only [OF assms(1), of r q Q] find_SomeD [OF that(1)] that(2-5) by blast
  have "order_row done_status u s (order_step d op)"
  proof (cases op)
    case (Op_upsert n)
    have "snd (insert_or_ignore (stamp_order n) (orders d)) = rows \<Longrightarrow> order_row done_status u s (d\<lparr>orders := rows\<rparr>)" for rows
      using row_insert [OF row] by auto
    then show ?thesis using row Op_upsert by (auto simp: UpsertRealOrder_def split: prod.split)
  next
    case (Op_backfill v t i st)
    have "order_row done_status u s d'"
      if "set_order_id (by_signal v t) i st d = Inr d'" "find (by_signal v t) (orders d) = Some q" "\<not> orderStatusRank st < orderStatusRank (o_Status q)" for d' q
      using that(1) row
    proof (rule row_set_order_id)
      fix r assume "r \<in> set (orders d)" "by_signal u s r" "by_signal v t r"
      then have "orderStatusRank (o_Status q) = 6" using by_signal_unique [OF wf] by (intro six [OF that(2)])
      then show "done_status st" using that(3) assms(2) Op_backfill by simp
    qed
    then show ?thesis using row Op_backfill by (auto simp: UpdateRealOrderBySignalID_def split: option.split sum.split)
  next
    case (Op_send_failed v t)
    have "order_row done_status u s (d\<lparr>orders := update_where (\<lambda>r. by_signal v t r \<and> o_Status r = st_reported) (\<lambda>r. r\<lparr>o_Status := st_send_failed\<rparr>) (orders d)\<rparr>)"
      using row by (rule row_update) auto
    then show ?thesis using row Op_send_failed by (auto simp: MarkRealOrderSendFailed_def)
  next
    case (Op_reset v t)
    have "order_row done_status u s d'" if "set_order_id (retry_eligible d v t) i st_reported d = Inr d'" for i d'
      using that row by (rule row_set_order_id) (auto simp: retry_eligible_def dest: done_stands)
    then show ?thesis using row Op_reset by (auto simp: ResetFailedRealOrder_def Let_def split: option.split sum.split)
  next
    case (Op_advance v t st)
    have "order_row done_status u s (set_status (by_signal v t) st d)"
      if "find (by_signal v t) (orders d) = Some q" "\<not> orderStatusRank st \<le> orderStatusRank (o_Status q)" for q
      using row
    proof (rule row_set_status)
      fix r assume "r \<in> set (orders d)" "by_signal u s r" "by_signal v t r"
      then have "orderStatusRank (o_Status q) = 6" using by_signal_unique [OF wf] by (intro six [OF that(1)])
      then show "done_status st" using that(2) rank [of st] by simp
    qed
    then show ?thesis using row Op_advance by (auto simp: AdvanceRealOrderStatus_def split: option.split)
  next
    case (Op_monotonic v i st)
    have "order_row done_status u s (set_status (by_order_id v i) st d)"
      if "find (by_order_id v i) (orders d) = Some q" "\<not> orderStatusRank st \<le> orderStatusRank (o_Status q)" for q
      using row
    proof (rule row_set_status)
      fix r assume "r \<in> set (orders d)" "by_signal u s r" "by_order_id v i r"
      then have "orderStatusRank (o_Status q) = 6" using by_order_id_unique [OF wf] by (intro six [OF that(1)])
      then show "done_status st" using that(2) rank [of st] by simp
    qed
    then show ?thesis using row Op_monotonic by (auto simp: UpdateRealOrderStatusMonotonic_def split: option.split)
  next
    case (Op_report n)
    let ?Q = "by_signal (o_UserID n) (o_SignalID n)"
    have "order_row done_status u s (set_status ?Q (o_Status n) d)"
      if "find ?Q (orders d) = Some q" "\<not> orderStatusRank (o_Status n) \<le> orderStatusRank (o_Status q)" for q
      using row
    proof (rule row_set_status)
      fix r assume "r \<in> set (orders d)" "by_signal u s r" "?Q r"
      then have "orderStatusRank (o_Status q) = 6" using by_signal_unique [OF wf] by (intro six [OF that(1)])
      then show "done_status (o_Status n)" using that(2) rank [of "o_Status n"] by simp
    qed
    moreover have "snd (insert_or_ignore (stamp_order n) (orders d)) = rows \<Longrightarrow> order_row done_status u s (d\<lparr>orders := rows\<rparr>)" for rows
      using row_insert [OF row] by auto
    ultimately show ?thesis using row Op_report by (auto simp: ApplyOrderReportTx_def Let_def split: option.split prod.split bool.split)
  next
    case (Op_sweep v b m)
    have "order_row done_status u s (set_status (stale_buy v m' b) st_void d)" for m'
      using row by (rule row_set_status) (simp add: done_status_def)
    then show ?thesis using row Op_sweep by (auto simp: SweepStaleBuyOrders_def Let_def)
  qed
  then show ?thesis using order_step_wf [OF wf] by (simp add: order_done_def)
qed

interpretation finished: order_property "order_done u s" backfills_open for u s
proof unfold_locales
  show "order_done u s (order_step d op)" if "order_done u s d" "backfills_open op" for d op
    using that by (rule done_step)
qed (simp add: order_done_def order_row_def)


section \<open>No signal is sent twice\<close>

datatype trader_op =
    Do_place gate_env string send_outcome order_request
  | Do_ledger order_op
  | Do_fill string real_fill
  | Do_probe int int bool
  | Do_trip string int
  | Do_queue broker_config
  | Do_apply
  | Do_reconcile string "gateway_state option"
  | Do_cancel "string \<Rightarrow> bool" string
  | Do_halt "string \<Rightarrow> bool"
  | Do_sweep clock_env "string \<Rightarrow> bool" int

fun trader_step :: "trader \<Rightarrow> trader_op \<Rightarrow> trader" where
  "trader_step c (Do_place g stamp outcome req) = fst (placeOrder g stamp outcome c req)"
| "trader_step c (Do_ledger op) = c\<lparr>tr_db := order_step (tr_db c) op\<rparr>"
| "trader_step c (Do_fill now f) = c\<lparr>tr_db := ignore_error (tr_db c) (ApplyRealFill (tr_db c) now f)\<rparr>"
| "trader_step c (Do_probe now now' answer) = HealthCheck now now' answer c"
| "trader_step c (Do_trip reason now) = SetTripped reason now c"
| "trader_step c (Do_queue cfg) = QueueConfigUpdate cfg c"
| "trader_step c Do_apply = fst (ApplyPendingConfig c)"
| "trader_step c (Do_reconcile now st) = Reconcile now st c"
| "trader_step c (Do_cancel answer i) = fst (CancelOrder answer i c)"
| "trader_step c (Do_halt answer) = fst (HaltAll answer c)"
| "trader_step c (Do_sweep env answer now) = fst (SweepOrders env answer now c)"

definition sends_of :: "string \<Rightarrow> trader \<Rightarrow> order_request list" where
  "sends_of s c = filter (\<lambda>r. r_SignalID r = s) (tr_sent c)"

text \<open>What a single send of another signal, or a refused one, leaves as it was.\<close>

lemma prepare_fields [simp]:
  "tr_userID (fst (place_prepare g stamp c req)) = tr_userID c" "tr_sent (fst (place_prepare g stamp c req)) = tr_sent c"
  by (auto simp: place_prepare_def Let_def split: prod.split sum.split bool.split)

lemma finish_fields [simp]:
  "tr_userID (fst (place_finish c req outcome)) = tr_userID c" "tr_sent (fst (place_finish c req outcome)) = tr_sent c @ [req]"
  by (auto simp: place_finish_def send_failed_def Let_def split: send_outcome.split option.split)

lemma cancel_fields [simp]:
  "tr_userID (fst (cancel_one answer i c)) = tr_userID c" "tr_sent (fst (cancel_one answer i c)) = tr_sent c"
  "tr_cfg (fst (cancel_one answer i c)) = tr_cfg c" "tr_broker (fst (cancel_one answer i c)) = tr_broker c"
  "tr_cancels (fst (cancel_one answer i c)) = tr_cancels c @ [cancelArg c i]"
  by (auto simp: cancel_one_def Let_def split: sum.split)

lemma halt_each_fields [simp]:
  "tr_userID (fst (halt_each answer qs c)) = tr_userID c \<and> tr_sent (fst (halt_each answer qs c)) = tr_sent c"
proof (induction qs arbitrary: c)
  case (Cons q qs)
  have "fst (halt_each answer (q # qs) c) = fst (halt_each answer qs (if halt_target c q then fst (cancel_one answer (o_OrderID q) c) else c))"
    by (simp split: prod.split)
  then show ?case using Cons.IH by simp
qed simp

lemma sweep_one_user [simp]:
  "tr_userID (fst (sweep_one answer now stale closing q cw)) = tr_userID (fst cw) \<and> tr_sent (fst (sweep_one answer now stale closing q cw)) = tr_sent (fst cw)"
proof -
  obtain c w where cw: "cw = (c, w)" by fastforce
  obtain c' b e where k: "cancel_one answer (o_OrderID q) c = (c', b, e)" by (metis prod.exhaust)
  then have "tr_userID c' = tr_userID c" "tr_sent c' = tr_sent c" by (metis fst_conv cancel_fields(1), metis fst_conv cancel_fields(2))
  then show ?thesis by (simp add: sweep_one_def cw k Let_def split: option.split sum.split)
qed

lemma sweep_fold_user [simp]:
  "tr_userID (fst (foldl (\<lambda>cw q. sweep_one answer now stale closing q cw) cw rows)) = tr_userID (fst cw) \<and>
   tr_sent (fst (foldl (\<lambda>cw q. sweep_one answer now stale closing q cw) cw rows)) = tr_sent (fst cw)"
  by (induction rows arbitrary: cw) simp_all

lemma stale_sweep_fields [simp]:
  "tr_userID (stale_sweep env now c) = tr_userID c" "tr_sent (stale_sweep env now c) = tr_sent c" "tr_cfg (stale_sweep env now c) = tr_cfg c"
  "tr_cancels (stale_sweep env now c) = tr_cancels c" "tr_broker (stale_sweep env now c) = tr_broker c" "tr_tripped (stale_sweep env now c) = tr_tripped c"
  by (auto simp: stale_sweep_def Let_def split: sum.split)

lemma SweepOrders_fields [simp]:
  "tr_userID (fst (SweepOrders env answer now c)) = tr_userID c \<and> tr_sent (fst (SweepOrders env answer now c)) = tr_sent c"
proof -
  have f: "tr_userID c2 = tr_userID c1 \<and> tr_sent c2 = tr_sent c1"
    if "foldl (\<lambda>cw q. sweep_one answer now stale closing q cw) (c1, w) rows = (c2, w2)" for stale closing c1 w rows c2 w2
    using sweep_fold_user [of answer now stale closing "(c1, w)" rows] that by simp
  show ?thesis by (auto simp: SweepOrders_def Let_def dest: f split: sum.split prod.split)
qed

lemma cancel_order_fields [simp]:
  "tr_userID (fst (CancelOrder answer i c)) = tr_userID c" "tr_sent (fst (CancelOrder answer i c)) = tr_sent c"
  using cancel_fields(1,2) [of answer i c] by (cases "cancel_one answer i c", auto simp: CancelOrder_def Let_def simp del: cancel_fields)+

lemma halt_fields [simp]: "tr_userID (fst (HaltAll answer c)) = tr_userID c" "tr_sent (fst (HaltAll answer c)) = tr_sent c"
  by (auto simp: HaltAll_def split: sum.split)

lemma trip_fields [simp]:
  "tr_db (SetTripped r t c) = tr_db c" "tr_userID (SetTripped r t c) = tr_userID c" "tr_sent (SetTripped r t c) = tr_sent c"
  "tr_db (QueueConfigUpdate cfg c) = tr_db c" "tr_userID (QueueConfigUpdate cfg c) = tr_userID c" "tr_sent (QueueConfigUpdate cfg c) = tr_sent c"
  by (simp_all add: SetTripped_def QueueConfigUpdate_def)


lemma placeOrder_fst:
  "fst (placeOrder g stamp outcome c req) = (case place_prepare g stamp c req of
     (c1, Inr (Inr req')) \<Rightarrow> fst (place_finish c1 req' outcome) | (c1, _) \<Rightarrow> c1)"
  by (simp add: placeOrder_def split: prod.split sum.split)

lemma placeOrder_user [simp]: "tr_userID (fst (placeOrder g stamp outcome c req)) = tr_userID c"
proof -
  obtain c1 x where c1: "place_prepare g stamp c req = (c1, x)" by fastforce
  then have "tr_userID c1 = tr_userID c" using prepare_fields(1) [of g stamp c req] by simp
  then show ?thesis by (simp add: placeOrder_fst c1 split: sum.split)
qed

lemma trader_step_user: "tr_userID (trader_step c op) = tr_userID c"
  by (cases op) simp_all

context order_property
begin

lemma halt_keeps:
  assumes "\<And>i. allowed (Op_monotonic (tr_userID c) i st_cancelled)" "holds (tr_db c)"
  shows "holds (tr_db (fst (halt_each answer qs c)))"
  using assms
proof (induction qs arbitrary: c)
  case (Cons q qs)
  have "fst (halt_each answer (q # qs) c) = fst (halt_each answer qs (if halt_target c q then fst (cancel_one answer (o_OrderID q) c) else c))"
    by (simp split: prod.split)
  then show ?case using Cons.prems cancel_keeps [OF Cons.prems(2,1)] by (simp add: Cons.IH)
qed simp

lemma cancel_order_keeps:
  assumes "\<And>i. allowed (Op_monotonic (tr_userID c) i st_cancelled)" "holds (tr_db c)"
  shows "holds (tr_db (fst (CancelOrder answer i c)))"
  using assms cancel_keeps [OF assms(2,1), of answer i]
  by (cases "cancel_one answer i c") (auto simp: CancelOrder_def Let_def)

lemma halt_all_keeps:
  assumes "\<And>i. allowed (Op_monotonic (tr_userID c) i st_cancelled)" "holds (tr_db c)"
  shows "holds (tr_db (fst (HaltAll answer c)))"
  using assms halt_keeps by (auto simp: HaltAll_def split: sum.split)

lemma sweep_one_keeps:
  assumes "\<And>i. allowed (Op_monotonic (tr_userID (fst cw)) i st_cancelled)" "\<And>s. allowed (Op_send_failed (tr_userID (fst cw)) s)"
    and "holds (tr_db (fst cw))"
  shows "holds (tr_db (fst (sweep_one answer now stale closing q cw)))"
proof -
  obtain c w where cw: "cw = (c, w)" by fastforce
  obtain c' b e where k: "cancel_one answer (o_OrderID q) c = (c', b, e)" by (metis prod.exhaust)
  then have "holds (tr_db c')" using cancel_keeps [of c answer "o_OrderID q"] assms cw by simp
  then show ?thesis using assms by (auto simp: sweep_one_def cw k Let_def split: option.split sum.split intro: failed_keeps)
qed

lemma sweep_fold_keeps:
  assumes "\<And>i. allowed (Op_monotonic (tr_userID (fst cw)) i st_cancelled)" "\<And>s. allowed (Op_send_failed (tr_userID (fst cw)) s)"
    and "holds (tr_db (fst cw))"
  shows "holds (tr_db (fst (foldl (\<lambda>cw q. sweep_one answer now stale closing q cw) cw rows)))"
  using assms by (induction rows arbitrary: cw) (simp_all add: sweep_one_keeps)

lemma sweep_orders_keeps:
  assumes "\<And>i. allowed (Op_monotonic (tr_userID c) i st_cancelled)" "\<And>s. allowed (Op_send_failed (tr_userID c) s)"
    and "\<And>b m. allowed (Op_sweep (tr_userID c) b m)" "holds (tr_db c)"
  shows "holds (tr_db (fst (SweepOrders env answer now c)))"
proof -
  have s: "holds (tr_db (stale_sweep env now c))"
    using assms(3,4) by (auto simp: stale_sweep_def Let_def split: sum.split intro: sweep_keeps)
  have f: "holds (tr_db c2)"
    if "foldl (\<lambda>cw q. sweep_one answer now stale closing q cw) (c1, w) rows = (c2, w2)" "tr_userID c1 = tr_userID c" "holds (tr_db c1)"
    for stale closing c1 w rows c2 w2
    using sweep_fold_keeps [of "(c1, w)" answer now stale closing rows] that assms(1,2) by simp
  show ?thesis using s by (auto simp: SweepOrders_def Let_def split: sum.split prod.split elim!: f)
qed

lemma frame_step:
  assumes "holds (tr_db c)"
  shows "holds (tr_db (trader_step c (Do_fill now f)))" "holds (tr_db (trader_step c (Do_reconcile t st)))"
proof -
  have "orders (tr_db (trader_step c (Do_fill now f))) = orders (tr_db c)"
    by (auto simp: ignore_error_def fill_keeps_orders split: sum.split)
  then show "holds (tr_db (trader_step c (Do_fill now f)))" using frame assms by blast
  have "orders (tr_db (trader_step c (Do_reconcile t st))) = orders (tr_db c)" by simp
  then show "holds (tr_db (trader_step c (Do_reconcile t st)))" using frame assms by blast
qed

lemma place_keeps:
  assumes "holds (tr_db c)" "\<And>op. allowed op"
  shows "holds (tr_db (fst (placeOrder g stamp outcome c req)))"
proof -
  obtain c1 x where c1: "place_prepare g stamp c req = (c1, x)" by fastforce
  then have "holds (tr_db c1)" using prepare_keeps [OF assms(1), of req g stamp] assms(2) by simp
  then show ?thesis using finish_keeps assms(2) by (simp add: placeOrder_fst c1 split: sum.split)
qed

text \<open>What every order operation keeps, every controller operation keeps.\<close>

lemma step_keeps:
  assumes "holds (tr_db c)" "\<And>op. allowed op"
  shows "holds (tr_db (trader_step c op))"
proof (cases op)
  case (Do_place g stamp outcome req)
  then show ?thesis using place_keeps [OF assms] by simp
next
  case (Do_fill now f)
  then show ?thesis using frame_step(1) [OF assms(1)] by simp
next
  case (Do_reconcile now st)
  then show ?thesis using frame_step(2) [OF assms(1)] by simp
qed (use assms step cancel_order_keeps halt_all_keeps sweep_orders_keeps in simp_all)

end

text \<open>A standing order is found as a duplicate; a request that is to be sent leaves a standing row.\<close>

definition released :: "string \<Rightarrow> string \<Rightarrow> db \<Rightarrow> bool" where
  "released u s d \<longleftrightarrow> list_ex (retry_eligible d u s) (orders d)"

lemma unreleased_refused:
  assumes "order_row (\<lambda>_. True) u (r_SignalID req) d" "\<not> released u (r_SignalID req) d" "claim_signal d u req = Inr (b, d')"
  shows "\<not> b"
proof -
  have row: "list_ex (by_signal u (r_SignalID req)) (orders d)" "find (retry_eligible d u (r_SignalID req)) (orders d) = None"
    using assms(1,2) by (auto simp: order_row_def released_def list_ex_iff find_None)
  have "list_ex (\<lambda>r. o_OrderID r = i \<or> by_signal u (r_SignalID req) r) (orders d)" for i
    using row(1) by (auto simp: list_ex_iff)
  then have "insert_or_ignore (stamp_order (placeholder_row u req)) (orders d) = (False, orders d)"
    by (simp add: insert_or_ignore_def) (simp add: placeholder_row_def)
  then show ?thesis using assms(3) row(2)
    by (auto simp: claim_signal_def UpsertRealOrder_def ResetFailedRealOrder_def split: if_splits sum.splits)
qed

lemma standing_unreleased:
  "order_row standing_status u s d \<Longrightarrow> order_row (\<lambda>_. True) u s d \<and> \<not> released u s d"
  by (auto simp: order_row_def released_def list_all_iff list_ex_iff retry_eligible_def standing_status_def)

lemma standing_refused:
  assumes "order_row standing_status u (r_SignalID req) d" "claim_signal d u req = Inr (b, d')"
  shows "\<not> b"
  using unreleased_refused [OF _ _ assms(2)] standing_unreleased [OF assms(1)] by blast

lemma claimed_stands:
  assumes "claim_signal d u req = Inr (True, d')" "orders_wf (orders d)"
  shows "order_row standing_status u (r_SignalID req) d'"
proof -
  let ?n = "stamp_order (placeholder_row u req)" and ?s = "r_SignalID req"
  have n: "by_signal u ?s ?n" "o_Status ?n = st_reported" "o_UserID ?n = u" "o_SignalID ?n = ?s"
    by (simp_all add: by_signal_def placeholder_row_def)
  from assms(1) obtain e d1 where e: "UpsertRealOrder d (placeholder_row u req) = Inr (e, d1)"
    "if e then ResetFailedRealOrder d1 u ?s = Inr (True, d') else d' = d1"
    by (auto simp: claim_signal_def split: sum.splits if_splits)
  show ?thesis
  proof (cases e)
    case False
    then have "d' = d\<lparr>orders := orders d @ [?n]\<rparr>" "\<not> list_ex (by_signal u ?s) (orders d)"
      using e n(3,4) by (auto simp: UpsertRealOrder_def insert_or_ignore_def list_ex_iff split: if_splits)
    then show ?thesis using n by (auto simp: order_row_def list_ex_iff list_all_iff)
  next
    case True
    then have "d1 = d" using e(1) by (auto simp: UpsertRealOrder_def insert_or_ignore_def split: if_splits)
    then have "ResetFailedRealOrder d u ?s = Inr (True, d')" using e(2) True by simp
    then obtain r where r: "find (by_signal u ?s) (orders d) = Some r"
      "d' = d\<lparr>orders := map (\<lambda>q. if q = r then r\<lparr>o_OrderID := ''pend:'' @ ?s @ '':'' @ itoa (next_attempt ?s (o_OrderID r)),
                                                o_Status := st_reported\<rparr> else q) (orders d)\<rparr>"
      using assms(2) by (rule ResetE)
    then have "r \<in> set (orders d)" "by_signal u ?s r" by (auto dest!: find_SomeD)
    then show ?thesis using by_signal_unique [OF assms(2)]
      by (auto simp: r(2) order_row_def list_ex_iff list_all_iff)
  qed
qed

lemma prepared:
  assumes "place_prepare g stamp c req = (c', Inr (Inr req'))"
  obtains d1 where "orders d1 = orders (tr_db c)" "claim_signal d1 (tr_userID c) req = Inr (True, tr_db c')" "tr_userID c' = tr_userID c"
    "r_SignalID req' = r_SignalID req" "tr_sent c' = tr_sent c" "\<not> tr_tripped c" "BrokerEnabled (tr_cfg c)" "\<not> BrokerHalted (tr_cfg c)"
    "gv_Pass (snd (CheckLiveOrder (trader_gate g c) stamp (tr_cfg c) (live_order_of req) (tr_db c)))" "fills d1 = fills (tr_db c)"
proof -
  obtain d1 v where v: "CheckLiveOrder (trader_gate g c) stamp (tr_cfg c) (live_order_of req) (tr_db c) = (d1, v)" by fastforce
  then obtain h where h: "d1 = (tr_db c)\<lparr>gates := h\<rparr>" using gate_changes_hits by (metis fst_conv)
  then have "orders d1 = orders (tr_db c)" "fills d1 = fills (tr_db c)" by simp_all
  moreover obtain d2 where "claim_signal d1 (tr_userID c) req = Inr (True, d2)" "c' = c\<lparr>tr_db := d2\<rparr>" "req' = with_price_type (tr_cfg c) req"
    "\<not> tr_tripped c" "BrokerEnabled (tr_cfg c)" "\<not> BrokerHalted (tr_cfg c)" "gv_Pass v"
    using assms by (auto simp: place_prepare_def v Let_def split: if_splits sum.splits bool.splits)
  ultimately show ?thesis by (intro that [of d1]) (auto simp: v with_price_type_def Let_def)
qed


fun quiet :: "string \<Rightarrow> string \<Rightarrow> trader_op \<Rightarrow> bool" where
  "quiet u s (Do_ledger op) \<longleftrightarrow> quiet_op u s op"
| "quiet u s (Do_cancel answer i) \<longleftrightarrow> False"
| "quiet u s (Do_halt answer) \<longleftrightarrow> False"
| "quiet u s (Do_sweep env answer now) \<longleftrightarrow> False"
| "quiet u s _ \<longleftrightarrow> True"

fun ledger_sound :: "trader_op \<Rightarrow> bool" where
  "ledger_sound (Do_ledger op) \<longleftrightarrow> backfills_open op"
| "ledger_sound _ \<longleftrightarrow> True"

lemma sends_set [simp]: "sends_of s (c\<lparr>tr_db := d\<rparr>) = sends_of s c"
  by (simp add: sends_of_def)

lemma place_sends:
  assumes "r_SignalID req = s \<Longrightarrow> order_row (\<lambda>_. True) (tr_userID c) s (tr_db c) \<and> \<not> released (tr_userID c) s (tr_db c)"
  shows "sends_of s (fst (placeOrder g stamp outcome c req)) = sends_of s c"
proof (cases "place_prepare g stamp c req")
  case (Pair c1 x)
  have c1: "tr_sent c1 = tr_sent c" using prepare_fields(2) [of g stamp c req] Pair by simp
  show ?thesis
  proof (cases "\<exists>req'. x = Inr (Inr req')")
    case True
    then obtain req' where x: "x = Inr (Inr req')" by blast
    obtain d1 where d1: "orders d1 = orders (tr_db c)" "claim_signal d1 (tr_userID c) req = Inr (True, tr_db c1)" "r_SignalID req' = r_SignalID req"
      "fills d1 = fills (tr_db c)" by (rule prepared [OF Pair [unfolded x]])
    have same: "retry_eligible d1 = retry_eligible (tr_db c)"
      by (intro ext) (simp add: retry_eligible_def has_fill_def d1(4))
    then have "order_row (\<lambda>_. True) (tr_userID c) s d1 \<and> \<not> released (tr_userID c) s d1" if "r_SignalID req = s"
      using assms that unfolding order_row_def released_def same d1(1) by blast
    then have "r_SignalID req \<noteq> s" using unreleased_refused [OF _ _ d1(2)] by blast
    then show ?thesis by (simp add: placeOrder_fst Pair x sends_of_def c1 d1(3))
  qed (auto simp: placeOrder_fst Pair sends_of_def c1 split: sum.split)
qed

text \<open>Any run at all: while the order is there and never released, its signal is not sent.\<close>

lemma unreleased_run:
  assumes "order_row (\<lambda>_. True) (tr_userID c) s (tr_db c)"
    and "\<forall>n < length ops. \<not> released (tr_userID c) s (tr_db (foldl trader_step c (take n ops)))"
  shows "sends_of s (foldl trader_step c ops) = sends_of s c"
  using assms
proof (induction ops arbitrary: c)
  case (Cons op ops)
  let ?c = "trader_step c op"
  have "\<not> released (tr_userID c) s (tr_db c)" using Cons.prems(2) by (metis foldl_Nil length_greater_0_conv list.distinct(1) take0)
  then have "sends_of s ?c = sends_of s c"
    using place_sends Cons.prems(1) by (cases op) (simp_all add: sends_of_def)
  moreover have "\<not> released (tr_userID c) s (tr_db (foldl trader_step ?c (take n ops)))" if "n < length ops" for n
    using Cons.prems(2) that by (metis Suc_less_eq foldl_Cons length_Cons take_Suc_Cons)
  moreover have "order_row (\<lambda>_. True) (tr_userID c) s (tr_db ?c)" by (rule present.step_keeps [OF Cons.prems(1) TrueI])
  ultimately show ?case using Cons.IH [of ?c] by (simp add: trader_step_user)
qed simp

lemma present_run:
  assumes "order_row (\<lambda>_. True) (tr_userID c) s (tr_db c)"
  shows "order_row (\<lambda>_. True) (tr_userID c) s (tr_db (foldl trader_step c ops)) \<and> tr_userID (foldl trader_step c ops) = tr_userID c"
  using assms
proof (induction ops arbitrary: c)
  case (Cons op ops)
  then show ?case using present.step_keeps [OF Cons.prems TrueI, of op] Cons.IH [of "trader_step c op"] by (simp add: trader_step_user)
qed simp

lemma quiet_keeps:
  assumes "order_row standing_status (tr_userID c) s (tr_db c)" "quiet (tr_userID c) s op"
  shows "order_row standing_status (tr_userID c) s (tr_db (trader_step c op)) \<and> sends_of s (trader_step c op) = sends_of s c
    \<and> tr_userID (trader_step c op) = tr_userID c"
proof (cases op)
  case (Do_place g stamp outcome req)
  let ?u = "tr_userID c"
  have p: "order_row standing_status ?u s (tr_db (fst (place_prepare g stamp c req)))"
    using assms(1) by (intro standing.prepare_keeps) simp_all
  have "order_row standing_status ?u s (tr_db (fst (placeOrder g stamp outcome c req))) \<and> tr_userID (fst (placeOrder g stamp outcome c req)) = ?u"
  proof (cases "place_prepare g stamp c req")
    case (Pair c1 x)
    have c1: "tr_userID c1 = ?u" "order_row standing_status ?u s (tr_db c1)"
      using prepare_fields(1) [of g stamp c req] p Pair by simp_all
    show ?thesis
    proof (cases "\<exists>req'. x = Inr (Inr req')")
      case True
      then obtain req' where x: "x = Inr (Inr req')" by blast
      obtain d1 where d1: "orders d1 = orders (tr_db c)" "claim_signal d1 ?u req = Inr (True, tr_db c1)" "r_SignalID req' = r_SignalID req"
        by (rule prepared [OF Pair [unfolded x]])
      have "order_row standing_status ?u s d1" using standing.frame [OF d1(1)] assms(1) by blast
      then have "r_SignalID req' \<noteq> s" using standing_refused [OF _ d1(2)] d1(3) by auto
      then have "order_row standing_status ?u s (tr_db (fst (place_finish c1 req' outcome)))"
        using c1 by (intro standing.finish_keeps) simp_all
      then show ?thesis using c1 by (simp add: placeOrder_fst Pair x)
    qed (use c1 in \<open>auto simp: placeOrder_fst Pair split: sum.split\<close>)
  qed
  then show ?thesis using assms(1) place_sends standing_unreleased Do_place by simp
next
  case (Do_ledger op)
  then show ?thesis using standing.step [OF assms(1)] assms(2) by simp
next
  case (Do_fill now f)
  then show ?thesis using standing.frame_step(1) [OF assms(1)] by simp
next
  case (Do_reconcile now st)
  then show ?thesis using standing.frame_step(2) [OF assms(1)] by (simp add: sends_of_def)
qed (use assms in \<open>simp_all add: sends_of_def\<close>)

lemma quiet_run:
  assumes "order_row standing_status u s (tr_db c)" "list_all (quiet u s) ops" "tr_userID c = u"
  shows "order_row standing_status u s (tr_db (foldl trader_step c ops)) \<and> sends_of s (foldl trader_step c ops) = sends_of s c
    \<and> tr_userID (foldl trader_step c ops) = u"
  using assms
proof (induction ops arbitrary: c)
  case (Cons op ops)
  then show ?case using quiet_keeps [of c s op] by simp
qed simp

lemma done_keeps:
  assumes "order_done (tr_userID c) s (tr_db c)" "ledger_sound op"
  shows "order_done (tr_userID c) s (tr_db (trader_step c op)) \<and> sends_of s (trader_step c op) = sends_of s c
    \<and> tr_userID (trader_step c op) = tr_userID c"
proof -
  let ?u = "tr_userID c"
  have standing_status: "order_row standing_status ?u s (tr_db c)" using assms(1) done_stands by (auto simp: order_done_def order_row_def list_all_iff)
  show ?thesis
  proof (cases op)
    case (Do_place g stamp outcome req)
    have p: "order_done ?u s (tr_db (fst (place_prepare g stamp c req)))"
      using assms(1) by (intro finished.prepare_keeps) simp_all
    then have f: "order_done ?u s (tr_db (fst (place_finish c1 req' outcome)))" if "c1 = fst (place_prepare g stamp c req)" for c1 req'
      unfolding that by (intro finished.finish_keeps) simp_all
    obtain c1 x where c1: "place_prepare g stamp c req = (c1, x)" by fastforce
    have "tr_userID c1 = ?u" using prepare_fields(1) [of g stamp c req] c1 by simp
    then have "order_done ?u s (tr_db (fst (placeOrder g stamp outcome c req))) \<and> tr_userID (fst (placeOrder g stamp outcome c req)) = ?u"
      using p f c1 by (simp add: placeOrder_fst split: sum.split)
    then show ?thesis using place_sends [of req s c] standing_unreleased [OF standing_status] Do_place by simp
  next
    case (Do_ledger op)
    then show ?thesis using finished.step [OF assms(1)] assms(2) by simp
  next
    case (Do_fill now f)
    then show ?thesis using finished.frame_step(1) [OF assms(1)] by simp
  next
    case (Do_reconcile now st)
    then show ?thesis using finished.frame_step(2) [OF assms(1)] by (simp add: sends_of_def)
  next
    case (Do_cancel answer i)
    then show ?thesis using finished.cancel_order_keeps [OF _ assms(1)] by (simp add: sends_of_def)
  next
    case (Do_halt answer)
    then show ?thesis using finished.halt_all_keeps [OF _ assms(1)] by (simp add: sends_of_def)
  next
    case (Do_sweep env answer now)
    then show ?thesis using finished.sweep_orders_keeps [OF _ _ _ assms(1)] by (simp add: sends_of_def)
  qed (use assms in \<open>simp_all add: sends_of_def\<close>)
qed

lemma done_run:
  assumes "order_done u s (tr_db c)" "list_all ledger_sound ops" "tr_userID c = u"
  shows "sends_of s (foldl trader_step c ops) = sends_of s c"
  using assms
proof (induction ops arbitrary: c)
  case (Cons op ops)
  then show ?case using done_keeps [of c s op] by simp
qed simp

lemma accepted_keeps:
  assumes "place_finish c req outcome = (c', Inr res)" "or_OK res" "order_row standing_status (tr_userID c) s (tr_db c)"
  shows "order_row standing_status (tr_userID c) s (tr_db c') \<and> tr_userID c' = tr_userID c \<and> tr_sent c' = tr_sent c @ [req]"
  using assms by (auto simp: place_finish_def ignore_error_def Let_def split: send_outcome.splits option.splits if_splits sum.splits
      intro: standing.backfill_keeps)

text \<open>C20: an order that the executor accepted is sent once, and a second time only after it was
  released. Whatever runs between its placeholder and the answer and after it - the same signal again,
  other orders, reports, fills, probes, configuration changes, reconciliations, cancels, halts, sweeps -, a
  further send of its signal means that its row was releasable at an earlier moment of the run: a failed send
  (which an overdue placeholder becomes in a sweep too), or cancelled without a fill. Operations other
  than cancels, halts, sweeps and reports or marks of these statuses never get it there; and once it is filled,
  partly cancelled or void, cancels, halts and sweeps do not release it either.\<close>

theorem no_second_send:
  assumes "place_prepare g stamp c req = (c1, Inr (Inr req'))" "orders_wf (orders (tr_db c))"
    and "place_finish (foldl trader_step c1 between) req' outcome = (c2, Inr res)" "or_OK res"
    and "c3 = foldl trader_step c2 after" "u = tr_userID c" "s = r_SignalID req"
  shows "(sends_of s c3 \<noteq> sends_of s c @ [req'] \<longrightarrow>
      (\<exists>n < length between. released u s (tr_db (foldl trader_step c1 (take n between)))) \<or>
      (\<exists>n < length after. released u s (tr_db (foldl trader_step c2 (take n after))))) \<and>
    (list_all (quiet u s) (between @ after) \<longrightarrow> sends_of s c3 = sends_of s c @ [req']) \<and>
    (order_done u s (tr_db c3) \<and> list_all ledger_sound later \<longrightarrow>
      sends_of s (foldl trader_step c3 later) = sends_of s c3)"
proof -
  let ?b = "foldl trader_step c1 between"
  obtain d1 where d1: "orders d1 = orders (tr_db c)" "claim_signal d1 (tr_userID c) req = Inr (True, tr_db c1)" "tr_userID c1 = u"
    "r_SignalID req' = s" "tr_sent c1 = tr_sent c" using prepared [OF assms(1)] assms(6,7) by metis
  have st: "order_row standing_status u s (tr_db c1)" using claimed_stands [OF d1(2)] assms(2,6,7) d1(1) by simp
  have c2: "c2 = fst (place_finish ?b req' outcome)" using assms(3) by simp
  have pres: "order_row (\<lambda>_. True) u s (tr_db ?b)" "tr_userID ?b = u"
    using present_run [of c1 s between] standing_unreleased [OF st] d1(3) by simp_all
  have p2: "order_row (\<lambda>_. True) u s (tr_db c2)" "tr_userID c2 = u" "tr_sent c2 = tr_sent ?b @ [req']"
    using present.finish_keeps [OF pres(1)] pres(2) by (simp_all add: c2)
  have u3: "tr_userID c3 = u" using present_run [of c2 s after] p2(1,2) assms(5) by simp
  have once: "sends_of s c3 = sends_of s c @ [req']"
    if "sends_of s ?b = sends_of s c1" "sends_of s c3 = sends_of s c2"
    using that p2(3) d1(4,5) by (simp add: sends_of_def)
  have "sends_of s c3 = sends_of s c @ [req']"
    if "\<forall>n < length between. \<not> released u s (tr_db (foldl trader_step c1 (take n between)))"
      "\<forall>n < length after. \<not> released u s (tr_db (foldl trader_step c2 (take n after)))"
    using that unreleased_run [of c1 s between] unreleased_run [of c2 s after] standing_unreleased [OF st] d1(3) p2 assms(5)
    by (intro once) simp_all
  moreover have "sends_of s c3 = sends_of s c @ [req']" if "list_all (quiet u s) (between @ after)"
  proof (rule once)
    have q: "order_row standing_status u s (tr_db ?b)" "sends_of s ?b = sends_of s c1"
      using quiet_run [OF st, of between] that d1(3) by simp_all
    show "sends_of s ?b = sends_of s c1" by (rule q(2))
    have "order_row standing_status u s (tr_db c2)" using accepted_keeps [OF assms(3,4)] q(1) pres(2) by simp
    then show "sends_of s c3 = sends_of s c2" using quiet_run [of u s c2 after] that p2(2) assms(5) by simp
  qed
  moreover have "sends_of s (foldl trader_step c3 later) = sends_of s c3" if "order_done u s (tr_db c3)" "list_all ledger_sound later"
    using done_run [OF that] u3 by simp
  ultimately show ?thesis by blast
qed


section \<open>The circuit breaker\<close>

definition probe_step :: "trader \<Rightarrow> int \<times> int \<times> bool \<Rightarrow> trader" where
  "probe_step c p = (case p of (now, now', answer) \<Rightarrow> HealthCheck now now' answer c)"

text \<open>The probes that really ran, as the instant of the answer with its result.\<close>

fun performed :: "trader \<Rightarrow> (int \<times> int \<times> bool) list \<Rightarrow> (int \<times> bool) list" where
  "performed c [] = []"
| "performed c ((now, now', answer) # ps) =
     (if probe_due now c then [(now', exec_health (tr_exec c) answer)] else []) @ performed (HealthCheck now now' answer c) ps"

text \<open>The specification: the failures since the last success, and whether one came a window after the first.\<close>

definition failing_run :: "(int \<times> bool) list \<Rightarrow> int list" where
  "failing_run h = rev (map fst (takeWhile (\<lambda>p. \<not> snd p) (rev h)))"

definition outage :: "int \<Rightarrow> (int \<times> bool) list \<Rightarrow> bool" where
  "outage window h = (case failing_run h of [] \<Rightarrow> False | t # ts \<Rightarrow> list_ex (\<lambda>t'. window \<le> time_sub t' t) ts)"

definition run_start :: "(int \<times> bool) list \<Rightarrow> int" where
  "run_start h = (case failing_run h of [] \<Rightarrow> zero_time | t # ts \<Rightarrow> t)"

lemma failing_snoc [simp]: "failing_run (h @ [(t, ok)]) = (if ok then [] else failing_run h @ [t])"
  by (simp add: failing_run_def)

lemma probe_answer_spec:
  assumes "tr_tripped c = outage (miss_window (tr_cfg c)) h" "tr_lastFailAt c = run_start h" "t \<noteq> zero_time"
    and "\<forall>s \<in> set (failing_run h). s \<noteq> zero_time"
  shows "tr_tripped (probe_answer ok t c) = outage (miss_window (tr_cfg c)) (h @ [(t, ok)]) \<and>
    tr_lastFailAt (probe_answer ok t c) = run_start (h @ [(t, ok)])"
proof (cases ok)
  case True
  then show ?thesis by (simp add: probe_answer_def outage_def run_start_def Let_def)
next
  case False
  then show ?thesis
    using assms by (cases "failing_run h") (auto simp: probe_answer_def outage_def run_start_def Let_def)
qed

lemma performed_app: "performed c (ps @ qs) = performed c ps @ performed (foldl probe_step c ps) qs"
  by (induction ps arbitrary: c) (auto simp: probe_step_def)

lemma performed_times: "(t, ok) \<in> set (performed c ps) \<Longrightarrow> \<exists>now answer. (now, t, answer) \<in> set ps"
  by (induction ps arbitrary: c) (auto split: if_splits, blast+)

lemma failing_times: "t \<in> set (failing_run h) \<Longrightarrow> \<exists>ok. (t, ok) \<in> set h"
  by (auto simp: failing_run_def dest!: set_takeWhileD)

lemma probe_run_fields [simp]:
  "tr_cfg (foldl probe_step c ps) = tr_cfg c \<and> tr_exec (foldl probe_step c ps) = tr_exec c"
  by (induction ps arbitrary: c) (auto simp: probe_step_def split: prod.splits)

lemma breaker_run:
  assumes "\<not> tr_tripped c" "tr_lastFailAt c = zero_time" "\<forall>(now, now', answer) \<in> set ps. now' \<noteq> zero_time"
  shows "tr_tripped (foldl probe_step c ps) = outage (miss_window (tr_cfg c)) (performed c ps) \<and>
    tr_lastFailAt (foldl probe_step c ps) = run_start (performed c ps)"
  using assms(3)
proof (induction ps rule: rev_induct)
  case Nil
  then show ?case using assms(1,2) by (simp add: outage_def run_start_def failing_run_def)
next
  case (snoc p ps)
  obtain now now' answer where p: "p = (now, now', answer)" by (cases p)
  let ?c = "foldl probe_step c ps" and ?h = "performed c ps"
  let ?c' = "?c\<lparr>tr_lastHealthAt := now, tr_lastLatencyMs := time_sub now' now div 1000000\<rparr>"
  have IH: "tr_tripped ?c = outage (miss_window (tr_cfg c)) ?h" "tr_lastFailAt ?c = run_start ?h" using snoc by auto
  have nz: "now' \<noteq> zero_time" using snoc.prems p by simp
  have "\<forall>s \<in> set (failing_run ?h). s \<noteq> zero_time"
    using snoc.prems failing_times performed_times by fastforce
  then have "tr_tripped (probe_answer ok now' ?c') = outage (miss_window (tr_cfg c)) (?h @ [(now', ok)]) \<and>
      tr_lastFailAt (probe_answer ok now' ?c') = run_start (?h @ [(now', ok)])" for ok
    using probe_answer_spec [of ?c' ?h now' ok] IH nz by simp
  then have "tr_tripped (HealthCheck now now' answer ?c) = outage (miss_window (tr_cfg c)) (performed c (ps @ [p])) \<and>
      tr_lastFailAt (HealthCheck now now' answer ?c) = run_start (performed c (ps @ [p]))"
    using IH by (simp add: p performed_app HealthCheck_def [of now now' answer ?c])
  moreover have "foldl probe_step c (ps @ [p]) = HealthCheck now now' answer ?c" by (simp add: p probe_step_def)
  ultimately show ?case by (simp only:)
qed

text \<open>C21: the breaker implements its specification: after any probes of a fresh controller it is open exactly if the
  failures since the last success include one that came at least a window after the first of them; a
  single failure, however late, never opens it, and a success always closes it.\<close>

theorem breaker_refines_spec:
  assumes "\<forall>(now, now', answer) \<in> set ps. now' \<noteq> zero_time"
    and "c = NewController_trading exec hasStore d userID cfg onAlert broker"
  shows "tr_tripped (foldl probe_step c ps) \<longleftrightarrow> outage (miss_window cfg) (performed c ps)"
  using breaker_run [of c ps] assms by (simp add: NewController_trading_def)

section \<open>The sweep\<close>

definition overdue :: "trader \<Rightarrow> int \<Rightarrow> real_order \<Rightarrow> bool" where
  "overdue c now q \<longleftrightarrow> 0 < stale_secs (tr_cfg c) \<and>
     (case parse_rfc3339 (o_CreatedAt q) of None \<Rightarrow> False | Some t \<Rightarrow> wrap64 (stale_secs (tr_cfg c) * second) < time_sub now t)"

definition names_order :: "string \<Rightarrow> real_order \<Rightarrow> bool" where
  "names_order arg q \<longleftrightarrow> arg = o_OrderID q \<or> (\<exists>sym. arg = sym @ '':'' @ o_OrderID q)"

definition sweepable :: "trader \<Rightarrow> int \<Rightarrow> bool \<Rightarrow> real_order \<Rightarrow> bool" where
  "sweepable c now closing q \<longleftrightarrow> (o_Status q = st_reported \<or> o_Status q = st_partial) \<and> orderInScope c q \<and>
     \<not> has_prefix (o_OrderID q) pend_prefix \<and> parse_rfc3339 (o_CreatedAt q) \<noteq> None \<and> (closing \<or> overdue c now q)"

lemma close_due_swept: "close_due env now (c\<lparr>tr_lastSweepAt := t\<rparr>) = close_due env now c"
  by (simp add: close_due_def)

lemma cancelArg_names: "names_order (cancelArg c (o_OrderID q)) q"
  by (auto simp: cancelArg_def names_order_def split: executor.split sum.split option.split)

lemma scope_same: "tr_broker c = tr_broker c' \<Longrightarrow> tr_cfg c = tr_cfg c' \<Longrightarrow> orderInScope c q = orderInScope c' q"
  by (simp add: orderInScope_def MarketKey_def)

lemma sweep_one_cancels:
  assumes "tr_cfg (fst cw) = tr_cfg c0" "tr_broker (fst cw) = tr_broker c0"
    and "cw' = sweep_one answer now (stale_secs (tr_cfg c0)) closing q cw"
  shows "tr_cfg (fst cw') = tr_cfg c0 \<and> tr_broker (fst cw') = tr_broker c0 \<and>
    (tr_cancels (fst cw') = tr_cancels (fst cw) \<or>
     (\<exists>arg. tr_cancels (fst cw') = tr_cancels (fst cw) @ [arg] \<and> names_order arg q \<and> sweepable c0 now closing q))"
proof -
  obtain c w where cw: "cw = (c, w)" by fastforce
  obtain c' b e where k: "cancel_one answer (o_OrderID q) c = (c', b, e)" by (metis prod.exhaust)
  then have c': "tr_cfg c' = tr_cfg c" "tr_broker c' = tr_broker c" "tr_cancels c' = tr_cancels c @ [cancelArg c (o_OrderID q)]"
    using cancel_fields(3-5) [of answer "o_OrderID q" c] by simp_all
  have sc: "orderInScope c q = orderInScope c0 q" using assms(1,2) cw by (intro scope_same) simp_all
  show ?thesis
    using assms c' sc cancelArg_names [of c q]
    by (auto simp: sweep_one_def cw k sweepable_def overdue_def Let_def split: option.split sum.split)
qed

lemma sweep_fold_cancels:
  assumes "tr_cfg (fst cw) = tr_cfg c0" "tr_broker (fst cw) = tr_broker c0"
  shows "\<exists>args. tr_cancels (fst (foldl (\<lambda>cw q. sweep_one answer now (stale_secs (tr_cfg c0)) closing q cw) cw rows)) = tr_cancels (fst cw) @ args \<and>
    (\<forall>arg \<in> set args. \<exists>q \<in> set rows. names_order arg q \<and> sweepable c0 now closing q)"
  using assms
proof (induction rows arbitrary: cw)
  case (Cons q rows)
  let ?cw = "sweep_one answer now (stale_secs (tr_cfg c0)) closing q cw"
  have one: "tr_cfg (fst ?cw) = tr_cfg c0 \<and> tr_broker (fst ?cw) = tr_broker c0 \<and>
    (tr_cancels (fst ?cw) = tr_cancels (fst cw) \<or>
     (\<exists>arg. tr_cancels (fst ?cw) = tr_cancels (fst cw) @ [arg] \<and> names_order arg q \<and> sweepable c0 now closing q))"
    using Cons.prems by (intro sweep_one_cancels) auto
  then obtain args where "tr_cancels (fst (foldl (\<lambda>cw q. sweep_one answer now (stale_secs (tr_cfg c0)) closing q cw) ?cw rows)) = tr_cancels (fst ?cw) @ args"
    "\<forall>arg \<in> set args. \<exists>q \<in> set rows. names_order arg q \<and> sweepable c0 now closing q" using Cons.IH [of ?cw] by blast
  then show ?case using one by (auto intro: exI [of _ "_ # args"])
qed simp

lemma order_rows_sub: "RealOrdersForUser d u = Inr rows \<Longrightarrow> set rows = {r \<in> set (orders d). o_UserID r = [] \<or> o_UserID r = u}"
proof -
  have i: "set (insert_order x xs) = insert x (set xs)" for x xs by (induction xs) auto
  have "set (foldr insert_order xs []) = set xs" for xs by (induction xs) (simp_all add: i)
  then show "RealOrdersForUser d u = Inr rows \<Longrightarrow> set rows = {r \<in> set (orders d). o_UserID r = [] \<or> o_UserID r = u}"
    by (auto simp: RealOrdersForUser_def split: if_splits)
qed


text \<open>C22: a sweep asks the executor to cancel only orders of its own account and market that are reported or partly
  filled, already have a broker number, and are overdue or swept at the close; it asks nothing at all when
  the channel is off, the breaker is open or the last sweep is less than 30 seconds ago.\<close>

theorem sweep_cancels_only_stale:
  assumes "c1 = stale_sweep env now c" "c' = fst (SweepOrders env answer now c)"
  shows "\<exists>args. tr_cancels c' = tr_cancels c @ args \<and>
    (\<forall>arg \<in> set args. \<exists>q \<in> set (orders (tr_db c1)). names_order arg q \<and> (o_UserID q = [] \<or> o_UserID q = tr_userID c) \<and>
       sweepable c now (close_due env now c1) q) \<and>
    (args \<noteq> [] \<longrightarrow> BrokerEnabled (tr_cfg c) \<and> tr_hasStore c1 \<and> \<not> tr_tripped c \<and> 30 * second \<le> time_sub now (tr_lastSweepAt c1))"
proof (cases "BrokerEnabled (tr_cfg c) \<and> tr_hasStore c1 \<and> \<not> tr_tripped c \<and> 30 * second \<le> time_sub now (tr_lastSweepAt c1)")
  case False
  then have "tr_cancels c' = tr_cancels c" using assms by (auto simp: SweepOrders_def Let_def)
  then show ?thesis by simp
next
  case True
  let ?closing = "close_due env now c1"
  let ?c2 = "if ?closing then c1\<lparr>tr_lastSweepAt := now, tr_lastCloseSweepDay := DayCompactOf now\<rparr> else c1\<lparr>tr_lastSweepAt := now\<rparr>"
  have f: "tr_cfg ?c2 = tr_cfg c" "tr_broker ?c2 = tr_broker c" "tr_cancels ?c2 = tr_cancels c" "tr_userID ?c2 = tr_userID c" "tr_db ?c2 = tr_db c1"
    using assms(1) by simp_all
  have tr: "tr_tripped c1 = tr_tripped c" using assms(1) by simp
  have cd: "close_due env now (c1\<lparr>tr_lastSweepAt := now\<rparr>) = ?closing" by (rule close_due_swept)
  show ?thesis
  proof (cases "(stale_secs (tr_cfg c) < 0 \<and> \<not> ?closing) \<or> (\<exists>e. RealOrdersForUser (tr_db c1) (tr_userID c) = Inl e)")
    case True
    have none: "tr_cancels c' = tr_cancels c" if "stale_secs (tr_cfg c) < 0" "\<not> ?closing"
      using that assms cd by (simp add: SweepOrders_def Let_def)
    have failed: "tr_cancels c' = tr_cancels c" if "RealOrdersForUser (tr_db c1) (tr_userID c) = Inl e" for e
      using that assms cd by (simp add: SweepOrders_def Let_def)
    have "tr_cancels c' = tr_cancels c" using True none failed by blast
    then show ?thesis by simp
  next
    case False
    then obtain rows where r: "RealOrdersForUser (tr_db c1) (tr_userID c) = Inr rows" by (cases "RealOrdersForUser (tr_db c1) (tr_userID c)") auto
    let ?w = "\<lparr>sw_Cancelled = 0, sw_Demoted = 0, sw_Skipped = 0, sw_Errors = 0, sw_CloseSweep = ?closing\<rparr>"
    have "c' = fst (foldl (\<lambda>cw q. sweep_one answer now (stale_secs (tr_cfg c)) ?closing q cw) (?c2, ?w) rows)"
      using True False r assms(2) f cd tr unfolding assms(1) [symmetric]
      by (cases ?closing) (simp_all add: SweepOrders_def Let_def assms(1) [symmetric] split: prod.split)
    moreover obtain args where
      "tr_cancels (fst (foldl (\<lambda>cw q. sweep_one answer now (stale_secs (tr_cfg c)) ?closing q cw) (?c2, ?w) rows)) = tr_cancels ?c2 @ args"
      "\<forall>arg \<in> set args. \<exists>q \<in> set rows. names_order arg q \<and> sweepable c now ?closing q"
      using sweep_fold_cancels [of "(?c2, ?w)" c answer now ?closing rows] f(1,2) by auto
    ultimately show ?thesis using True f(3) order_rows_sub [OF r] by auto
  qed
qed

section \<open>Departures from the comments\<close>

text \<open>The close sweep is marked as done before the orders are read: a failing read drops it for the day.\<close>

lemma close_sweep_lost_on_read_error:
  assumes "c1 = stale_sweep env now c" "BrokerEnabled (tr_cfg c)" "tr_hasStore c1" "\<not> tr_tripped c" "30 * second \<le> time_sub now (tr_lastSweepAt c1)"
    and "close_due env now c1" "db_down (tr_db c1) T_orders" "DayCompactOf now' = DayCompactOf now"
  shows "tr_cancels (fst (SweepOrders env answer now c)) = tr_cancels c \<and> \<not> close_due env now' (fst (SweepOrders env answer now c))"
proof -
  have "close_due env now (c1\<lparr>tr_lastSweepAt := now\<rparr>)" using assms(6) by (simp add: close_due_swept)
  then have "fst (SweepOrders env answer now c) = c1\<lparr>tr_lastSweepAt := now, tr_lastCloseSweepDay := DayCompactOf now\<rparr>"
    using assms(1-7) by (simp add: SweepOrders_def RealOrdersForUser_def Let_def)
  then show ?thesis using assms(1,8) by (simp add: close_due_def Let_def)
qed

text \<open>Without a broker a halt marks the orders cancelled although nothing was cancelled anywhere.\<close>

lemma noop_cancel_succeeds: "tr_exec c = NoopExecutor \<Longrightarrow> fst (snd (cancel_one answer i c))"
  by (auto simp: cancel_one_def Let_def split: sum.split)

text \<open>A configuration with new credentials keeps the executor of the old ones.\<close>

lemma rebuild_keeps_credentials:
  "tr_broker c = ''binance'' \<Longrightarrow> tr_exec c = BinanceExecutor v \<Longrightarrow> binance_wanted cfg = Some w \<Longrightarrow>
    tr_exec (rebuildExecutorLocked cfg c) = BinanceExecutor v"
  by (simp add: rebuildExecutorLocked_def)

text \<open>
  An account row stamped by a process in UTC+9 69 minutes ago counts as fresh for the gate, which reads
  it as Beijing time, and as stale for the controller, which reads it in the process's zone.
\<close>

definition seoul_stamp :: real_account where
  "seoul_stamp = \<lparr>a_UserID = ''u1'', a_Market = ''CN'', a_AvailableCash = 0, a_FrozenCash = 0, a_TotalAsset = 0, a_MarketValue = 0,
     a_UpdatedAt = ''2026-03-02 12:00:00''\<rparr>"

lemma zones_disagree:
  "\<exists>now. map_option (\<lambda>t. time_sub now t) (parse_local (9 * 3600) (a_UpdatedAt seoul_stamp)) = Some (69 * minute) \<and>
     snapshot_fresh (plain_env\<lparr>ge_now := now\<rparr>) seoul_stamp = Some True"
proof -
  have "map_option (\<lambda>t. time_sub (1772420400000000000 + 69 * minute) t) (parse_local (9 * 3600) (a_UpdatedAt seoul_stamp)) = Some (69 * minute)"
    by code_simp
  moreover have "snapshot_fresh (plain_env\<lparr>ge_now := 1772420400000000000 + 69 * minute\<rparr>) seoul_stamp = Some True"
    by code_simp
  ultimately show ?thesis by blast
qed


section \<open>Concrete runs\<close>

definition plain_request :: order_request where
  "plain_request = \<lparr>r_SignalID = ''S1'', r_Code = ''600000'', r_Name = ''A'', r_Strategy = [], r_StrategyID = [], r_StrategyType = [],
     r_Side = SideBuy, r_PriceType = ''market'', r_Price = Fin 10, r_Qty = Fin 100, r_Amount = Fin 1000, r_CreatedAt = ''2026-03-02T10:00:00+08:00'',
     r_StalenessMs = - 1, r_PrevClose = 0, r_CurrentPrice = 0, r_Market = ''CN'', r_TradingSession = [], r_TimeInForce = [], r_Notional = 0,
     r_QuoteAsset = []\<rparr>"

definition plain_trader :: "db \<Rightarrow> trader" where
  "plain_trader d = NewController_trading OtherExecutor True d ''u1'' (plain_qmt open_limits) False []"

definition plain_answer :: send_outcome where
  "plain_answer = Returned (Some \<lparr>or_OK = True, or_OrderID = ''77'', or_Err = []\<rparr>)"

definition plain_row :: "string \<Rightarrow> string \<Rightarrow> real_order" where
  "plain_row i st = (stamp_order (placeholder_row ''u1'' plain_request))\<lparr>o_OrderID := i, o_Status := st\<rparr>"

lemma plain_trader_fields [simp]:
  "tr_db (plain_trader d) = d" "tr_cfg (plain_trader d) = plain_qmt open_limits" "tr_userID (plain_trader d) = ''u1''" "tr_sent (plain_trader d) = []"
  "\<not> tr_tripped (plain_trader d)" "tr_hasStore (plain_trader d)" "tr_exec (plain_trader d) = OtherExecutor" "tr_cancels (plain_trader d) = []"
  "trader_gate plain_env (plain_trader d) = plain_env" "tr_broker (plain_trader d) = ''qmt''" "tr_lastFailAt (plain_trader d) = zero_time"
  by (simp_all add: plain_trader_def NewController_trading_def trader_gate_def plain_env_def)

lemma plain_enabled [simp]: "BrokerEnabled (plain_qmt l)" "\<not> BrokerHalted (plain_qmt l)"
  by (simp_all add: plain_qmt_def)

lemma plain_request_fields [simp]:
  "live_order_of plain_request = plain_order ''CN'' SideBuy" "r_SignalID plain_request = ''S1''" "with_price_type cfg plain_request = plain_request"
  by (simp_all add: live_order_of_def plain_request_def plain_order_def with_price_type_def)

lemma plain_row_fields [simp]:
  "o_OrderID (plain_row i st) = i" "o_Status (plain_row i st) = st" "by_signal ''u1'' ''S1'' (plain_row i st)"
  "(plain_row i st)\<lparr>o_Status := st'\<rparr> = plain_row i st'" "(plain_row i st)\<lparr>o_OrderID := j, o_Status := st'\<rparr> = plain_row j st'"
  by (simp_all add: plain_row_def by_signal_def placeholder_row_def)

lemma plain_prepared:
  obtains h where "place_prepare plain_env [] (plain_trader plain_db) plain_request =
    ((plain_trader plain_db)\<lparr>tr_db := plain_db\<lparr>gates := h, orders := [plain_row ''pend:S1'' st_reported]\<rparr>\<rparr>, Inr (Inr plain_request))"
proof -
  obtain h where h: "fst (CheckLiveOrder plain_env [] (plain_qmt open_limits) (plain_order ''CN'' SideBuy) plain_db) = plain_db\<lparr>gates := h\<rparr>"
    using gate_changes_hits by blast
  then obtain v where v: "CheckLiveOrder plain_env [] (plain_qmt open_limits) (plain_order ''CN'' SideBuy) plain_db = (plain_db\<lparr>gates := h\<rparr>, v)" "gv_Pass v"
    using plain_passes(2) by (cases "CheckLiveOrder plain_env [] (plain_qmt open_limits) (plain_order ''CN'' SideBuy) plain_db") auto
  have "claim_signal (plain_db\<lparr>gates := h\<rparr>) ''u1'' plain_request = Inr (True, plain_db\<lparr>gates := h, orders := [plain_row ''pend:S1'' st_reported]\<rparr>)"
    by (simp add: claim_signal_def UpsertRealOrder_def insert_or_ignore_def plain_row_def)
      (simp add: placeholder_row_def stamp_order_def Let_def)
  then show ?thesis by (intro that [of h]) (simp add: place_prepare_def v Let_def)
qed

lemma plain_finished:
  "place_finish ((plain_trader plain_db)\<lparr>tr_db := plain_db\<lparr>gates := h, orders := [plain_row ''pend:S1'' st_reported]\<rparr>\<rparr>) plain_request plain_answer =
     ((plain_trader plain_db)\<lparr>tr_db := plain_db\<lparr>gates := h, orders := [plain_row ''77'' st_reported]\<rparr>, tr_sent := [plain_request]\<rparr>,
      Inr \<lparr>or_OK = True, or_OrderID = ''77'', or_Err = []\<rparr>)"
  by (simp add: place_finish_def plain_answer_def ignore_error_def UpdateRealOrderBySignalID_def set_order_id_def update_where_def)

theorem no_second_send_witness:
  "\<exists>c1 c2 c3. place_prepare plain_env [] (plain_trader plain_db) plain_request = (c1, Inr (Inr plain_request)) \<and>
     c2 = fst (place_finish c1 plain_request plain_answer) \<and>
     c3 = foldl trader_step c2 [Do_place plain_env [] plain_answer plain_request, Do_ledger (Op_advance ''u1'' ''S1'' st_filled)] \<and>
     sends_of ''S1'' c3 = [plain_request] \<and>
     sends_of ''S1'' (foldl trader_step c3 [Do_halt (\<lambda>_. True), Do_place plain_env [] plain_answer plain_request]) = [plain_request]"
proof -
  obtain h where p: "place_prepare plain_env [] (plain_trader plain_db) plain_request =
    ((plain_trader plain_db)\<lparr>tr_db := plain_db\<lparr>gates := h, orders := [plain_row ''pend:S1'' st_reported]\<rparr>\<rparr>, Inr (Inr plain_request))"
    (is "_ = (?c1, _)") by (rule plain_prepared)
  let ?c2 = "(plain_trader plain_db)\<lparr>tr_db := plain_db\<lparr>gates := h, orders := [plain_row ''77'' st_reported]\<rparr>, tr_sent := [plain_request]\<rparr>"
  let ?again = "trader_step ?c2 (Do_place plain_env [] plain_answer plain_request)"
  let ?c3 = "foldl trader_step ?c2 [Do_place plain_env [] plain_answer plain_request, Do_ledger (Op_advance ''u1'' ''S1'' st_filled)]"
  have row: "order_row (\<lambda>st. st = st_reported) ''u1'' ''S1'' (tr_db ?c2)" by (simp add: order_row_def)
  have "\<exists>k. tr_db ?again = (tr_db ?c2)\<lparr>gates := k\<rparr>"
  proof -
    obtain d1 v where v: "CheckLiveOrder (trader_gate plain_env ?c2) [] (plain_qmt open_limits) (plain_order ''CN'' SideBuy) (tr_db ?c2) = (d1, v)"
      by fastforce
    then obtain k where k: "d1 = (tr_db ?c2)\<lparr>gates := k\<rparr>" using gate_changes_hits by (metis fst_conv)
    have "claim_signal d1 ''u1'' plain_request = Inr (False, d1)"
      by (simp add: claim_signal_def UpsertRealOrder_def ResetFailedRealOrder_def insert_or_ignore_def retry_eligible_def k)
        (simp add: placeholder_row_def stamp_order_def retry_eligible_def status_defs Let_def)
    then show ?thesis
      using v by (auto simp: placeOrder_fst place_prepare_def k Let_def)
  qed
  then obtain k where k: "tr_db ?again = (tr_db ?c2)\<lparr>gates := k\<rparr>" by blast
  have finished: "order_done ''u1'' ''S1'' (tr_db ?c3)"
    by (simp add: k AdvanceRealOrderStatus_def set_status_def update_where_def order_done_def orders_wf_def order_row_def done_status_def del: trader_step.simps(1))
  have answered: "place_finish (foldl trader_step ?c1 []) plain_request plain_answer = (?c2, Inr \<lparr>or_OK = True, or_OrderID = ''77'', or_Err = []\<rparr>)"
    using plain_finished [of h] by simp
  have ids: "tr_userID (plain_trader plain_db) = ''u1''" "r_SignalID plain_request = ''S1''" by simp_all
  have quiet: "list_all (quiet ''u1'' ''S1'') ([] @ [Do_place plain_env [] plain_answer plain_request, Do_ledger (Op_advance ''u1'' ''S1'' st_filled)])"
    by (simp add: standing_status_def status_defs)
  have wf: "orders_wf (orders (tr_db (plain_trader plain_db)))" by (simp add: orders_wf_def)
  have "or_OK \<lparr>or_OK = True, or_OrderID = ''77'', or_Err = []\<rparr>" by simp
  note sent_once = no_second_send [OF p wf answered this refl [of ?c3] ids(1) [symmetric] ids(2) [symmetric],
      of "[Do_halt (\<lambda>_. True), Do_place plain_env [] plain_answer plain_request]", THEN conjunct2]
  note run = mp [OF conjunct1 [OF sent_once] quiet] and later = mp [OF conjunct2 [OF sent_once] conjI [OF finished]]
  have none: "sends_of ''S1'' (plain_trader plain_db) = []" by (simp add: sends_of_def)
  have sent: "fst (place_finish ?c1 plain_request plain_answer) = ?c2" using plain_finished [of h] by simp
  have first: "sends_of ''S1'' ?c3 = [plain_request]" using run unfolding none by (simp only: append.simps)
  have "list_all ledger_sound [Do_halt (\<lambda>_. True), Do_place plain_env [] plain_answer plain_request]" by simp
  then have twice: "sends_of ''S1'' ?c3 = [plain_request] \<and>
    sends_of ''S1'' (foldl trader_step ?c3 [Do_halt (\<lambda>_. True), Do_place plain_env [] plain_answer plain_request]) = [plain_request]"
    using first later by (simp only: simp_thms)
  show ?thesis by (intro exI conjI) (rule p, rule sent [symmetric], rule refl, rule conjunct1 [OF twice], rule conjunct2 [OF twice])
qed

text \<open>A gateway that is silent from the first probe on.\<close>

definition silent :: "(int \<times> int \<times> bool) list" where
  "silent = [(0, second, False), (20 * second, 21 * second, False), (40 * second, 41 * second, False)]"

lemma plain_heartbeat [simp]: "miss_window (plain_qmt l) = 30 * second" "probe_interval (plain_qmt l) = 15 * second" "gatewayLabel (plain_qmt l) \<noteq> []"
  by (simp_all add: plain_qmt_def miss_window_def probe_interval_def wrap64_def)

lemma silent_performed: "performed (plain_trader plain_db) silent = [(second, False), (21 * second, False), (41 * second, False)]"
proof -
  have first: "tr_lastHealthAt (plain_trader plain_db) = zero_time" by (simp add: plain_trader_def NewController_trading_def)
  have due: "probe_due now c \<longleftrightarrow> 15 * second \<le> time_sub now (tr_lastHealthAt c)" if "tr_cfg c = plain_qmt open_limits" for now c
    using that by (simp add: probe_due_def)
  have sub: "15 * second \<le> time_sub 0 zero_time" "15 * second \<le> time_sub (20 * second) 0" "15 * second \<le> time_sub (40 * second) (20 * second)"
    by code_simp+
  have at: "tr_lastHealthAt (HealthCheck now now' False c) = now" if "probe_due now c" for now now' c
    using that by (simp add: HealthCheck_def probe_answer_def setTripped_def fireOnAlert_def Let_def)
  show ?thesis using sub by (simp add: silent_def due first at)
qed

lemma silent_outage: "outage (30 * second) [(second, False), (21 * second, False), (41 * second, False)]"
  by code_simp

theorem breaker_refines_spec_witness:
  "tr_tripped (foldl probe_step (plain_trader plain_db) silent)"
proof -
  have nz: "\<forall>(now, now', answer) \<in> set silent. now' \<noteq> zero_time" by code_simp
  show ?thesis
    using breaker_refines_spec [OF nz plain_trader_def] silent_performed silent_outage by (simp del: One_nat_def)
qed

text \<open>An order of 10:00 that a sweep at 10:05 finds.\<close>

definition late_order :: real_order where
  "late_order = \<lparr>o_OrderID = ''77'', o_SignalID = ''S1'', o_Code = ''600000'', o_Side = SideBuy, o_Status = st_reported, o_Price = Fin 10,
     o_Qty = Fin 100, o_CreatedAt = ''2026-03-02T10:00:00+08:00'', o_UserID = ''u1'', o_Market = ''CN'', o_Currency = ''CNY''\<rparr>"

definition late_trader :: trader where
  "late_trader = plain_trader ((empty_db (\<lambda>_. False) (\<lambda>_. 0))\<lparr>orders := [late_order]\<rparr>)"

definition five_past_ten :: int where
  "five_past_ten = 1772417100 * second"

lemma late_swept: "tr_cancels (fst (SweepOrders (ge_clock plain_env) (\<lambda>_. True) five_past_ten late_trader)) = [''77'']"
  by code_simp

theorem sweep_cancels_only_stale_witness:
  "\<exists>q \<in> set (orders (tr_db (stale_sweep (ge_clock plain_env) five_past_ten late_trader))).
     names_order ''77'' q \<and> sweepable late_trader five_past_ten (close_due (ge_clock plain_env) five_past_ten (stale_sweep (ge_clock plain_env) five_past_ten late_trader)) q"
proof -
  have "tr_cancels late_trader = []" by (simp add: late_trader_def)
  then show ?thesis
    using sweep_cancels_only_stale [where env = "ge_clock plain_env" and now = five_past_ten and c = late_trader and answer = "\<lambda>_. True", OF refl refl] late_swept by auto
qed

end
