(* ===== verification/PaperState.thy ===== *)
theory PaperState
  imports "HOL-Library.AList" "HOL-Library.Signed_Division" SignalCtl LedgerTables
begin

text \<open>
  The state of the paper trading account (\<open>internal/paper\<close>): its configuration, positions, trades, orders,
  strategy pools, purchase discipline, and the separate short book, with the accounting helpers that all
  operations share (fees, marks, records, T+1, the re-entry cooldown).

  A Go map is an association list; its order is one order in which a \<open>range\<close> loop may visit the map. An
  operation reads the clock once (\<open>now\<close>). The persisted file itself is not modelled, the trimming that goes with it is. An
  order has no identifier here. Converting a \<open>float64\<close> beyond the range of \<open>int\<close> gives the most negative \<open>int\<close>, as on amd64.
\<close>

section \<open>Numbers\<close>

fun int_of_f64 :: "f64 \<Rightarrow> int" where
  "int_of_f64 (Fin a) = (let n = (if 0 \<le> a then \<lfloor>a\<rfloor> else \<lceil>a\<rceil>) in if - (2 ^ 63) \<le> n \<and> n < 2 ^ 63 then n else - (2 ^ 63))"
| "int_of_f64 _ = - (2 ^ 63)"

text \<open>\<open>Duration.Minutes\<close> and \<open>Duration.Seconds\<close>.\<close>

definition duration_in :: "int \<Rightarrow> int \<Rightarrow> f64" where
  "duration_in unit d = f64_of_int (d sdiv unit) + f64_of_int (d smod unit) / f64_of_int unit"

definition whole_lots :: "f64 \<Rightarrow> f64 \<Rightarrow> int" where
  "whole_lots amount price = wrap64 (int_of_f64 (amount / price / Fin 100) * 100)"

text \<open>A number as \<open>%.nf\<close> prints it.\<close>

definition shown :: "nat \<Rightarrow> f64 \<Rightarrow> f64" where
  "shown n x = (case x of Fin r \<Rightarrow> Fin (of_int (rhe (r * 10 ^ n)) / 10 ^ n) | _ \<Rightarrow> x)"

definition sum_values :: "('k \<times> f64) list \<Rightarrow> f64" where
  "sum_values m = foldl (\<lambda>a kv. a + snd kv) 0 m"

definition round2 :: "f64 \<Rightarrow> f64" where
  "round2 v = fround (v * Fin 100) / Fin 100"

section \<open>The records\<close>

record paper_config =
  pc_Enabled :: bool
  pc_FixedAmount :: f64
  pc_MaxPositions :: int
  pc_InitialCapital :: f64
  pc_AutoSell :: bool
  pc_SlippageBps :: f64
  pc_CommissionRate :: f64
  pc_StampTaxRate :: f64
  pc_MinCommission :: f64
  pc_ReentryCooldownMin :: int
  pc_ShortEnabled :: bool
  pc_ShortCapital :: f64
  pc_ShortMarginRate :: f64
  pc_ShortFeeAnnual :: f64
  pc_ShortFixedAmount :: f64
  pc_ShortStopLossPct :: f64

definition DefaultConfig_paper :: paper_config where
  "DefaultConfig_paper = \<lparr>pc_Enabled = False, pc_FixedAmount = Fin 10000, pc_MaxPositions = 0, pc_InitialCapital = Fin 100000, pc_AutoSell = True,
     pc_SlippageBps = Fin 5, pc_CommissionRate = lit (25/100000), pc_StampTaxRate = lit (5/10000), pc_MinCommission = Fin 5,
     pc_ReentryCooldownMin = 0, pc_ShortEnabled = True, pc_ShortCapital = 0, pc_ShortMarginRate = lit (1/2),
     pc_ShortFeeAnnual = lit (83/1000), pc_ShortFixedAmount = 0, pc_ShortStopLossPct = Fin 8\<rparr>"

text \<open>The account's rules (\<open>config.PaperConfig\<close>), the fields the assembly reads.\<close>

record paper_rules =
  pr_Enabled :: bool
  pr_FixedAmount :: f64
  pr_MaxPositions :: int
  pr_InitialCapital :: f64
  pr_AutoSell :: "bool option"
  pr_ShortEnabled :: "bool option"
  pr_ShortCapital :: f64
  pr_ShortMarginRate :: f64
  pr_ShortFeeAnnual :: f64
  pr_ShortFixedAmount :: f64
  pr_ShortStopLossPct :: f64

definition ConfigFromRules :: "paper_rules \<Rightarrow> paper_config" where
  "ConfigFromRules rp =
     (let d = DefaultConfig_paper in
      \<lparr>pc_Enabled = pr_Enabled rp, pc_FixedAmount = pr_FixedAmount rp, pc_MaxPositions = pr_MaxPositions rp,
       pc_InitialCapital = pr_InitialCapital rp, pc_AutoSell = (pr_AutoSell rp = None \<or> pr_AutoSell rp = Some True),
       pc_SlippageBps = 0, pc_CommissionRate = 0, pc_StampTaxRate = 0, pc_MinCommission = 0, pc_ReentryCooldownMin = 0,
       pc_ShortEnabled = (pr_ShortEnabled rp = None \<or> pr_ShortEnabled rp = Some True), pc_ShortCapital = pr_ShortCapital rp,
       pc_ShortMarginRate = (if pr_ShortMarginRate rp \<le> 0 then pc_ShortMarginRate d else pr_ShortMarginRate rp),
       pc_ShortFeeAnnual = (if pr_ShortFeeAnnual rp \<le> 0 then pc_ShortFeeAnnual d else pr_ShortFeeAnnual rp),
       pc_ShortFixedAmount = pr_ShortFixedAmount rp,
       pc_ShortStopLossPct = (if pr_ShortStopLossPct rp \<le> 0 then pc_ShortStopLossPct d else pr_ShortStopLossPct rp)\<rparr>)"

record paper_position =
  pp_Code :: string
  pp_Name :: string
  pp_Strategy :: string
  pp_StrategyType :: string
  pp_Qty :: int
  pp_CostPrice :: f64
  pp_Cost :: f64
  pp_SignalPrice :: f64
  pp_SignalAt :: int
  pp_FilledAt :: int
  pp_Mark :: f64
  pp_ATR :: f64

datatype paper_error =
    ErrDisabled
  | ErrNotHeld
  | ErrNoQuote
  | ErrHeld
  | ErrMaxPos
  | ErrLotTooSmall
  | ErrCash
  | ErrTPlusOne
  | ErrPoolDiscipline
  | ErrReentry f64 int
  | ErrLimitUp
  | ErrNoPool string
  | ErrShortDisabled
  | ErrShortNoCode
  | ErrShortHeldDup
  | ErrShortCash
  | ErrShortTPlusOne
  | ErrShortNoPosition
  | ErrShortLimitDown

text \<open>The reason texts of orders and trades; the formatted ones keep their arguments.\<close>

datatype paper_text =
    Plain string
  | CapReached int
  | PoolNotOpen string
  | SealedUp f64
  | SealedDown f64
  | Failed paper_error
  | AutoCloseRefused paper_error
  | AutoTrimRefused paper_error
  | StopLossAt f64

record paper_trade =
  pt_Code :: string
  pt_Name :: string
  pt_Strategy :: string
  pt_StrategyType :: string
  pt_Side :: string
  pt_Price :: f64
  pt_SignalPrice :: f64
  pt_Qty :: int
  pt_Amount :: f64
  pt_Time :: int
  pt_LatencySec :: int
  pt_Fee :: f64
  pt_Reason :: paper_text

record paper_order =
  po_Code :: string
  po_Name :: string
  po_Strategy :: string
  po_StrategyType :: string
  po_Side :: string
  po_Kind :: string
  po_SignalPrice :: f64
  po_Price :: f64
  po_Qty :: int
  po_Status :: string
  po_Reason :: paper_text
  po_CreatedAt :: int

record equity_point =
  eq_Date :: string
  eq_Value :: f64
  eq_Cash :: f64

record pool_perf =
  pf_Cost :: f64
  pf_Realized :: f64

record pool_buy_rule =
  br_MaxDailyBuys :: int
  br_CooldownMinutes :: int
  br_MinScore :: f64
  br_BudgetPctPerDay :: f64

record pool_discipline =
  pd_buysToday :: int
  pd_lastBuyAt :: int
  pd_spentToday :: f64
  pd_dayStartCash :: f64
  pd_day :: string

record short_position =
  sp_Code :: string
  sp_Name :: string
  sp_Strategy :: string
  sp_StrategyType :: string
  sp_Qty :: int
  sp_OpenPrice :: f64
  sp_MarginUsed :: f64
  sp_SignalPrice :: f64
  sp_FeeAccrued :: f64
  sp_Mark :: f64
  sp_SignalAt :: int
  sp_FilledAt :: int

record paper_quote =
  qt_Price :: f64
  qt_ChangePct :: f64

type_synonym quotes = "string \<rightharpoonup> paper_quote"

text \<open>The calls of the mirror into the report book.\<close>

datatype mirror = MirrorOpen paper_position | MirrorClose string f64 f64 paper_text

record paper =
  pe_cfg :: paper_config
  pe_cash :: f64
  pe_pools :: "(string \<times> f64) list"
  pe_poolTypes :: "string list"
  pe_poolPerf :: "(string \<times> pool_perf) list"
  pe_poolMaxPos :: "(string \<times> int) list"
  pe_poolBuyRules :: "(string \<times> pool_buy_rule) list"
  pe_poolGrp :: "(string \<times> string) list"
  pe_poolIR :: "(string \<times> f64) list"
  pe_poolDiscipline :: "(string \<times> pool_discipline) list"
  pe_extraPoolKeys :: "string list"
  pe_positions :: "(string \<times> paper_position) list"
  pe_trades :: "paper_trade list"
  pe_orders :: "paper_order list"
  pe_equity :: "equity_point list"
  pe_hasFilled :: bool
  pe_realized :: f64
  pe_hasPath :: bool
  pe_onOpen :: bool
  pe_onClose :: bool
  pe_mirrored :: "mirror list"
  pe_trimDone :: "(string \<times> string) list"
  pe_lastClose :: "(string \<times> int) list"
  pe_lastBuyReject :: "(string \<times> paper_text) list"
  pe_shorts :: "(string \<times> short_position) list"
  pe_shortCash :: f64
  pe_shortRealized :: f64
  pe_shortFeeDone :: "(string \<times> string) list"
  pe_shortOpenSeen :: "(string \<times> string) list"
  pe_labelFn :: "(string \<Rightarrow> string) option"

text \<open>An account without a file to restore.\<close>

definition New_paper :: "paper_config \<Rightarrow> bool \<Rightarrow> paper" where
  "New_paper cfg0 hasPath =
     (let cfg = cfg0\<lparr>pc_FixedAmount := (if pc_FixedAmount cfg0 \<le> 0 then Fin 10000 else pc_FixedAmount cfg0),
                     pc_InitialCapital := (if pc_InitialCapital cfg0 \<le> 0 then Fin 100000 else pc_InitialCapital cfg0)\<rparr>
      in \<lparr>pe_cfg = cfg, pe_cash = pc_InitialCapital cfg, pe_pools = [([], pc_InitialCapital cfg)], pe_poolTypes = [], pe_poolPerf = [],
          pe_poolMaxPos = [], pe_poolBuyRules = [], pe_poolGrp = [], pe_poolIR = [], pe_poolDiscipline = [], pe_extraPoolKeys = [],
          pe_positions = [], pe_trades = [], pe_orders = [], pe_equity = [], pe_hasFilled = False, pe_realized = 0, pe_hasPath = hasPath,
          pe_onOpen = False, pe_onClose = False, pe_mirrored = [], pe_trimDone = [], pe_lastClose = [], pe_lastBuyReject = [],
          pe_shorts = [], pe_shortCash = pc_ShortCapital cfg, pe_shortRealized = 0, pe_shortFeeDone = [], pe_shortOpenSeen = [],
          pe_labelFn = None\<rparr>)"

section \<open>Values of a position\<close>

definition pp_MarketValue :: "paper_position \<Rightarrow> f64" where
  "pp_MarketValue p = pp_Mark p * f64_of_int (pp_Qty p)"

definition pp_PnL :: "paper_position \<Rightarrow> f64" where
  "pp_PnL p = (pp_Mark p - pp_CostPrice p) * f64_of_int (pp_Qty p)"

definition pp_PnLPct :: "paper_position \<Rightarrow> f64" where
  "pp_PnLPct p = (if pp_Cost p \<le> 0 then 0 else (pp_MarketValue p - pp_Cost p) / pp_Cost p * Fin 100)"

definition pp_SlippagePct :: "paper_position \<Rightarrow> f64" where
  "pp_SlippagePct p = (if pp_SignalPrice p \<le> 0 then 0 else (pp_CostPrice p - pp_SignalPrice p) / pp_SignalPrice p * Fin 100)"

definition latency_of :: "int \<Rightarrow> int \<Rightarrow> int" where
  "latency_of signalAt now = (if signalAt = zero_time then 0
     else max 0 (int_of_f64 (duration_in second (time_sub now signalAt))))"

definition marketValueLocked :: "paper \<Rightarrow> f64" where
  "marketValueLocked e = foldl (\<lambda>a kp. a + pp_MarketValue (snd kp)) 0 (pe_positions e)"

definition sp_FloatPnl :: "short_position \<Rightarrow> f64" where
  "sp_FloatPnl s = (sp_OpenPrice s - sp_Mark s) * f64_of_int (sp_Qty s) - sp_FeeAccrued s"

definition sp_FloatPnlPct :: "short_position \<Rightarrow> f64" where
  "sp_FloatPnlPct s =
     (let base = sp_MarginUsed s; base = (if base \<le> 0 then sp_OpenPrice s * f64_of_int (sp_Qty s) else base)
      in if base \<le> 0 then 0 else sp_FloatPnl s / base * Fin 100)"

definition shortEquityLocked :: "paper \<Rightarrow> f64" where
  "shortEquityLocked e = foldl (\<lambda>a kv. a + (sp_MarginUsed (snd kv) + sp_FloatPnl (snd kv))) (pe_shortCash e) (pe_shorts e)"

section \<open>Fees and prices\<close>

definition commission :: "paper_config \<Rightarrow> f64 \<Rightarrow> f64" where
  "commission cfg amount =
     (if \<not> 0 < pc_CommissionRate cfg then 0
      else let fee = amount * pc_CommissionRate cfg
           in if 0 < pc_MinCommission cfg \<and> fee < pc_MinCommission cfg then pc_MinCommission cfg else fee)"

definition buyFeeLocked :: "paper_config \<Rightarrow> f64 \<Rightarrow> f64" where
  "buyFeeLocked cfg cost = (if pc_CommissionRate cfg \<le> 0 then 0
     else let fee = cost * pc_CommissionRate cfg
          in if 0 < pc_MinCommission cfg \<and> fee < pc_MinCommission cfg then pc_MinCommission cfg else fee)"

definition sellFeeLocked :: "paper_config \<Rightarrow> f64 \<Rightarrow> f64" where
  "sellFeeLocked cfg proceeds =
     (if 0 < pc_StampTaxRate cfg then commission cfg proceeds + proceeds * pc_StampTaxRate cfg else commission cfg proceeds)"

definition raised_price :: "paper_config \<Rightarrow> f64 \<Rightarrow> f64" where
  "raised_price cfg price = (if 0 < pc_SlippageBps cfg then price * (1 + pc_SlippageBps cfg / Fin 10000) else price)"

definition applySellPriceLocked :: "paper_config \<Rightarrow> f64 \<Rightarrow> f64" where
  "applySellPriceLocked cfg price = (if 0 < pc_SlippageBps cfg then price * (1 - pc_SlippageBps cfg / Fin 10000) else price)"

section \<open>Records, trimming, T+1, cooldown\<close>

definition recordOrderLocked :: "paper_order \<Rightarrow> paper \<Rightarrow> paper" where
  "recordOrderLocked o' e = e\<lparr>pe_orders := pe_orders e @ [o']\<rparr>"

definition recordBuyRejectLocked :: "paper_order \<Rightarrow> paper_text \<Rightarrow> paper \<Rightarrow> paper" where
  "recordBuyRejectLocked o' reason e =
     (if map_of (pe_lastBuyReject e) (po_Code o') = Some reason then e
      else recordOrderLocked (o'\<lparr>po_Reason := reason\<rparr>) (e\<lparr>pe_lastBuyReject := AList.update (po_Code o') reason (pe_lastBuyReject e)\<rparr>))"

definition retention :: int where
  "retention = 90 * 24 * 3600 * second"

definition capOrderLimit :: nat where
  "capOrderLimit = 2000"

definition trimTradesLocked :: "int \<Rightarrow> paper \<Rightarrow> paper" where
  "trimTradesLocked now e =
     (if pe_trades e = [] then e
      else let os = filter (\<lambda>o'. now - retention < po_CreatedAt o') (pe_orders e)
           in e\<lparr>pe_trades := filter (\<lambda>t. now - retention < pt_Time t) (pe_trades e),
                pe_orders := drop (length os - capOrderLimit) os\<rparr>)"

definition persist :: "int \<Rightarrow> paper \<Rightarrow> paper" where
  "persist now e = (if pe_hasPath e then trimTradesLocked now e else e)"

definition mirrorOpenLocked :: "paper_position \<Rightarrow> paper \<Rightarrow> paper" where
  "mirrorOpenLocked p e = (if pe_onOpen e then e\<lparr>pe_mirrored := pe_mirrored e @ [MirrorOpen p]\<rparr> else e)"

definition mirrorCloseLocked :: "string \<Rightarrow> f64 \<Rightarrow> int \<Rightarrow> paper_text \<Rightarrow> paper \<Rightarrow> paper" where
  "mirrorCloseLocked code price qty reason e =
     (if pe_onClose e then e\<lparr>pe_mirrored := pe_mirrored e @ [MirrorClose code price (f64_of_int qty) reason]\<rparr> else e)"

definition canSellToday :: "int \<Rightarrow> int \<Rightarrow> bool" where
  "canSellToday filledAt now \<longleftrightarrow> DayOf filledAt \<noteq> DayOf now"

definition canReEnter :: "paper \<Rightarrow> string \<Rightarrow> int \<Rightarrow> int \<Rightarrow> bool" where
  "canReEnter e code cooldown now =
     (if cooldown \<le> 0 then True
      else case map_of (pe_lastClose e) code of
          None \<Rightarrow> True
        | Some t \<Rightarrow> f64_of_int cooldown \<le> duration_in minute (time_sub now t))"

definition poolPositionCountLocked :: "paper \<Rightarrow> string \<Rightarrow> int" where
  "poolPositionCountLocked e poolKey = int (length (filter (\<lambda>kp. pp_StrategyType (snd kp) = poolKey) (pe_positions e)))"

text \<open>\<open>m[k]\<close> of a Go map with its zero value.\<close>

definition get_or :: "'v \<Rightarrow> ('k \<times> 'v) list \<Rightarrow> 'k \<Rightarrow> 'v" where
  "get_or z m k = (case map_of m k of None \<Rightarrow> z | Some v \<Rightarrow> v)"

definition pool_full :: "paper \<Rightarrow> string \<Rightarrow> bool" where
  "pool_full e poolKey \<longleftrightarrow> (let poolMax = get_or 0 (pe_poolMaxPos e) poolKey
     in 0 < poolMax \<and> poolMax \<le> poolPositionCountLocked e poolKey)"

definition no_perf :: pool_perf where
  "no_perf = \<lparr>pf_Cost = 0, pf_Realized = 0\<rparr>"

definition add_perf :: "string \<Rightarrow> (pool_perf \<Rightarrow> pool_perf) \<Rightarrow> paper \<Rightarrow> paper" where
  "add_perf key f e = e\<lparr>pe_poolPerf := AList.update key (f (get_or no_perf (pe_poolPerf e) key)) (pe_poolPerf e)\<rparr>"

section \<open>The purchase discipline of a pool\<close>

definition fresh_discipline :: "string \<Rightarrow> f64 \<Rightarrow> pool_discipline" where
  "fresh_discipline day cash = \<lparr>pd_buysToday = 0, pd_lastBuyAt = zero_time, pd_spentToday = 0, pd_dayStartCash = cash, pd_day = day\<rparr>"

definition discipline_of :: "string \<Rightarrow> int \<Rightarrow> paper \<Rightarrow> pool_discipline" where
  "discipline_of poolKey now e =
     (case map_of (pe_poolDiscipline e) poolKey of
        Some d \<Rightarrow> if pd_day d = DayOf now then d else fresh_discipline (DayOf now) (get_or 0 (pe_pools e) poolKey)
      | None \<Rightarrow> fresh_discipline (DayOf now) (get_or 0 (pe_pools e) poolKey))"

text \<open>Refused or not; the day's counter is set up either way.\<close>

definition rule_refuses :: "pool_buy_rule \<Rightarrow> pool_discipline \<Rightarrow> f64 \<Rightarrow> bool \<Rightarrow> int \<Rightarrow> bool" where
  "rule_refuses rule d confidence manual now \<longleftrightarrow>
     (0 < br_MaxDailyBuys rule \<and> br_MaxDailyBuys rule \<le> pd_buysToday d) \<or>
     (0 < br_CooldownMinutes rule \<and> pd_lastBuyAt d \<noteq> zero_time \<and>
        duration_in minute (time_sub now (pd_lastBuyAt d)) < f64_of_int (br_CooldownMinutes rule)) \<or>
     (0 < br_MinScore rule \<and> \<not> manual \<and> (if 1 < br_MinScore rule then confidence * Fin 100 else confidence) < br_MinScore rule)"

definition checkPoolDisciplinePre :: "string \<Rightarrow> f64 \<Rightarrow> bool \<Rightarrow> int \<Rightarrow> paper \<Rightarrow> paper \<times> bool" where
  "checkPoolDisciplinePre poolKey confidence manual now e =
     (let d = discipline_of poolKey now e; e = e\<lparr>pe_poolDiscipline := AList.update poolKey d (pe_poolDiscipline e)\<rparr>
      in (e, case map_of (pe_poolBuyRules e) poolKey of None \<Rightarrow> False | Some rule \<Rightarrow> rule_refuses rule d confidence manual now))"

definition zero_discipline :: pool_discipline where
  "zero_discipline = \<lparr>pd_buysToday = 0, pd_lastBuyAt = zero_time, pd_spentToday = 0, pd_dayStartCash = 0, pd_day = []\<rparr>"

definition checkPoolBudget :: "string \<Rightarrow> f64 \<Rightarrow> paper \<Rightarrow> bool" where
  "checkPoolBudget poolKey cost e =
     (case map_of (pe_poolBuyRules e) poolKey of
        None \<Rightarrow> False
      | Some rule \<Rightarrow>
          if br_BudgetPctPerDay rule \<le> 0 \<or> Fin 100 \<le> br_BudgetPctPerDay rule then False
          else let d = get_or zero_discipline (pe_poolDiscipline e) poolKey;
                   base = (if pd_dayStartCash d \<le> 0 then get_or 0 (pe_pools e) poolKey else pd_dayStartCash d)
               in base * br_BudgetPctPerDay rule / Fin 100 < pd_spentToday d + cost)"

definition recordPoolBuy :: "string \<Rightarrow> f64 \<Rightarrow> int \<Rightarrow> paper \<Rightarrow> paper" where
  "recordPoolBuy poolKey cost now e =
     (let d = discipline_of poolKey now e
      in e\<lparr>pe_poolDiscipline := AList.update poolKey
             (d\<lparr>pd_buysToday := pd_buysToday d + 1, pd_spentToday := pd_spentToday d + cost, pd_lastBuyAt := now\<rparr>) (pe_poolDiscipline e)\<rparr>)"

definition SetPoolBuyRule :: "string \<Rightarrow> pool_buy_rule option \<Rightarrow> int \<Rightarrow> paper \<Rightarrow> paper" where
  "SetPoolBuyRule poolKey rule now e =
     persist now (e\<lparr>pe_poolBuyRules := (case rule of None \<Rightarrow> AList.delete poolKey (pe_poolBuyRules e)
        | Some r \<Rightarrow> AList.update poolKey r (pe_poolBuyRules e))\<rparr>)"

definition ApplyPoolMinScore :: "string \<Rightarrow> f64 \<Rightarrow> int \<Rightarrow> paper \<Rightarrow> paper" where
  "ApplyPoolMinScore poolKey minScore now e =
     (if poolKey = [] then e
      else case map_of (pe_poolBuyRules e) poolKey of
          None \<Rightarrow> if minScore \<le> 0 then e
            else persist now (e\<lparr>pe_poolBuyRules := AList.update poolKey
                   \<lparr>br_MaxDailyBuys = 0, br_CooldownMinutes = 0, br_MinScore = minScore, br_BudgetPctPerDay = 0\<rparr> (pe_poolBuyRules e)\<rparr>)
        | Some r \<Rightarrow>
            (let r = r\<lparr>br_MinScore := minScore\<rparr>
             in persist now (e\<lparr>pe_poolBuyRules :=
                  (if br_MinScore r \<le> 0 \<and> br_MaxDailyBuys r \<le> 0 \<and> br_CooldownMinutes r \<le> 0 \<and> br_BudgetPctPerDay r \<le> 0
                   then AList.delete poolKey (pe_poolBuyRules e) else AList.update poolKey r (pe_poolBuyRules e))\<rparr>)))"

text \<open>The information ratio of a pool scales its fixed amount.\<close>

definition SetPoolIR :: "string \<Rightarrow> f64 \<Rightarrow> int \<Rightarrow> paper \<Rightarrow> paper" where
  "SetPoolIR poolKey ir now e = (if poolKey = [] then e
     else persist now (e\<lparr>pe_poolIR := (if feq ir 0 then AList.delete poolKey (pe_poolIR e) else AList.update poolKey ir (pe_poolIR e))\<rparr>))"

definition applyPoolIRLocked :: "paper \<Rightarrow> string \<Rightarrow> f64" where
  "applyPoolIRLocked e poolKey =
     (case map_of (pe_poolIR e) poolKey of
        None \<Rightarrow> 1
      | Some ir \<Rightarrow> if feq ir 0 then 1
          else let v = lit (3/5) + ir in if v < lit (3/5) then lit (3/5) else if Fin 2 < v then Fin 2 else v)"

definition SetPoolABGroup :: "string \<Rightarrow> string \<Rightarrow> int \<Rightarrow> paper \<Rightarrow> paper" where
  "SetPoolABGroup poolKey label now e = (if poolKey = [] then e
     else persist now (e\<lparr>pe_poolGrp := (if label = [] then AList.delete poolKey (pe_poolGrp e) else AList.update poolKey label (pe_poolGrp e))\<rparr>))"

definition PoolABGroup :: "paper \<Rightarrow> string \<Rightarrow> string" where
  "PoolABGroup e poolKey = get_or [] (pe_poolGrp e) poolKey"

definition PoolIR :: "paper \<Rightarrow> string \<Rightarrow> f64" where
  "PoolIR e poolKey = get_or 0 (pe_poolIR e) poolKey"

definition PoolIRScales :: "paper \<Rightarrow> (string \<times> f64) list" where
  "PoolIRScales e = map (\<lambda>(k, v). (k, applyPoolIRLocked e k)) (pe_poolIR e)"

end
