(* ===== verification/PaperShort.thy ===== *)
theory PaperShort
  imports PaperState
begin

text \<open>
  The short book of the paper account (\<open>internal/paper/short.go\<close>): opening against margin, covering, the daily
  lending fee and the forced cover on a rally. It has its own cash and shares only configuration, trades
  and orders with the long book.
\<close>

definition shortBookEnabledLocked :: "paper \<Rightarrow> bool" where
  "shortBookEnabledLocked e \<longleftrightarrow> pc_Enabled (pe_cfg e) \<and> pc_ShortEnabled (pe_cfg e) \<and> 0 < pc_ShortCapital (pe_cfg e)"

definition shortMarginRateLocked :: "paper \<Rightarrow> f64" where
  "shortMarginRateLocked e = (if 0 < pc_ShortMarginRate (pe_cfg e) then pc_ShortMarginRate (pe_cfg e) else lit (1/2))"

definition applyOpenShortPriceLocked :: "paper_config \<Rightarrow> f64 \<Rightarrow> f64" where
  "applyOpenShortPriceLocked cfg price = (if 0 < pc_SlippageBps cfg then price * (1 - pc_SlippageBps cfg / Fin 10000) else price)"

definition applyCoverPriceLocked :: "paper_config \<Rightarrow> f64 \<Rightarrow> f64" where
  "applyCoverPriceLocked cfg price = (if 0 < pc_SlippageBps cfg then price * (1 + pc_SlippageBps cfg / Fin 10000) else price)"

text \<open>The whole lots of an amount, and the margin they take.\<close>

definition short_lots :: "f64 \<Rightarrow> int" where
  "short_lots shares = int_of_f64 shares sdiv 100 * 100"

definition short_notional :: "paper \<Rightarrow> f64" where
  "short_notional e =
     (let notional = (if pc_ShortFixedAmount (pe_cfg e) \<le> 0 then pc_FixedAmount (pe_cfg e) else pc_ShortFixedAmount (pe_cfg e));
          cap = pe_shortCash e / shortMarginRateLocked e
      in if cap < notional then cap else notional)"

definition short_margin :: "paper \<Rightarrow> f64 \<Rightarrow> int \<Rightarrow> f64" where
  "short_margin e price qty = price * f64_of_int qty * shortMarginRateLocked e"

text \<open>The quantity that is opened at the quoted price \<open>p\<close>: fitted to the margin, once more when the slipped price needs more.\<close>

definition short_qty :: "paper \<Rightarrow> f64 \<Rightarrow> paper_error + int" where
  "short_qty e p =
     (let qty = short_lots (short_notional e / p); price = applyOpenShortPriceLocked (pe_cfg e) p
      in if qty < 100 then Inl ErrShortCash
         else if pe_shortCash e + lit (1 / 10 ^ 6) < short_margin e price qty then
           (let qty = short_lots (pe_shortCash e / shortMarginRateLocked e / price)
            in if qty < 100 then Inl ErrShortCash else Inr qty)
         else Inr qty)"

definition short_book :: "string \<Rightarrow> string \<Rightarrow> string \<Rightarrow> string \<Rightarrow> f64 \<Rightarrow> string \<Rightarrow> f64 \<Rightarrow> int \<Rightarrow> int \<Rightarrow> paper \<Rightarrow> paper" where
  "short_book code name strategy strategyType signalPrice kind p qty now e =
     (let price = applyOpenShortPriceLocked (pe_cfg e) p; margin = short_margin e price qty;
          sp = \<lparr>sp_Code = code, sp_Name = name, sp_Strategy = strategy, sp_StrategyType = strategyType, sp_Qty = qty, sp_OpenPrice = price,
                sp_MarginUsed = margin, sp_SignalPrice = signalPrice, sp_FeeAccrued = sellFeeLocked (pe_cfg e) (price * f64_of_int qty),
                sp_Mark = price, sp_SignalAt = now, sp_FilledAt = now\<rparr>;
          e = e\<lparr>pe_shortCash := pe_shortCash e - margin, pe_shorts := AList.update code sp (pe_shorts e),
                pe_shortOpenSeen := AList.update code (DayOf now) (pe_shortOpenSeen e), pe_hasFilled := True,
                pe_trades := pe_trades e @ [\<lparr>pt_Code = code, pt_Name = name, pt_Strategy = strategy, pt_StrategyType = strategyType,
                  pt_Side = ''short_open'', pt_Price = price, pt_SignalPrice = signalPrice, pt_Qty = qty, pt_Amount = price * f64_of_int qty,
                  pt_Time = now, pt_LatencySec = 0, pt_Fee = 0, pt_Reason = Plain kind\<rparr>]\<rparr>
      in persist now (recordOrderLocked \<lparr>po_Code = code, po_Name = name, po_Strategy = strategy, po_StrategyType = strategyType,
           po_Side = ''short'', po_Kind = kind, po_SignalPrice = signalPrice, po_Price = price, po_Qty = qty, po_Status = ''filled'',
           po_Reason = Plain kind, po_CreatedAt = now\<rparr> e))"

definition shortOpenLocked ::
  "string \<Rightarrow> string \<Rightarrow> string \<Rightarrow> string \<Rightarrow> f64 \<Rightarrow> quotes \<Rightarrow> string \<Rightarrow> int \<Rightarrow> paper \<Rightarrow> paper \<times> (paper_error + int)" where
  "shortOpenLocked code name strategy strategyType signalPrice quotes kind now e =
     (if \<not> shortBookEnabledLocked e then (e, Inl ErrShortDisabled)
      else if code = [] then (e, Inl ErrShortNoCode)
      else if map_of (pe_shorts e) code \<noteq> None then (e, Inl ErrShortHeldDup)
      else if map_of (pe_shortOpenSeen e) code = Some (DayOf now) then (e, Inl ErrShortHeldDup)
      else case quotes code of
          None \<Rightarrow> (e, Inl ErrNoQuote)
        | Some q \<Rightarrow>
            if qt_Price q \<le> 0 then (e, Inl ErrNoQuote)
            else if qt_ChangePct q \<le> - LimitUpPct code name then
              (recordBuyRejectLocked \<lparr>po_Code = code, po_Name = name, po_Strategy = strategy, po_StrategyType = strategyType,
                 po_Side = ''short'', po_Kind = kind, po_SignalPrice = signalPrice, po_Price = 0, po_Qty = 0, po_Status = ''rejected'',
                 po_Reason = Plain [], po_CreatedAt = now\<rparr> (SealedDown (shown 1 (qt_ChangePct q))) e, Inl ErrShortLimitDown)
            else case short_qty e (qt_Price q) of
                Inl err \<Rightarrow> (e, Inl err)
              | Inr qty \<Rightarrow> (short_book code name strategy strategyType signalPrice kind (qt_Price q) qty now e, Inr qty))"

definition ShortOpenManual :: "string \<Rightarrow> string \<Rightarrow> string \<Rightarrow> string \<Rightarrow> f64 \<Rightarrow> quotes \<Rightarrow> int \<Rightarrow> paper \<Rightarrow> paper \<times> (paper_error + int)" where
  "ShortOpenManual code name strategy strategyType signalPrice quotes now e =
     shortOpenLocked code name strategy strategyType signalPrice quotes [CHR 0xE6, CHR 0x89, CHR 0x8B, CHR 0xE5, CHR 0x8A, CHR 0xA8, CHR 0xE8, CHR 0x9E, CHR 0x8D, CHR 0xE5, CHR 0x88, CHR 0xB8] now e"

section \<open>Covering\<close>

definition short_close :: "short_position \<Rightarrow> string \<Rightarrow> f64 \<Rightarrow> paper_text \<Rightarrow> int \<Rightarrow> paper \<Rightarrow> paper \<times> f64" where
  "short_close sp code price reason now e =
     (let coverPrice = applyCoverPriceLocked (pe_cfg e) price; gross = coverPrice * f64_of_int (sp_Qty sp); fee = buyFeeLocked (pe_cfg e) gross;
          realized = (sp_OpenPrice sp - coverPrice) * f64_of_int (sp_Qty sp) - sp_FeeAccrued sp - fee;
          e = e\<lparr>pe_shortCash := pe_shortCash e + (sp_MarginUsed sp + realized), pe_shortRealized := pe_shortRealized e + realized,
                pe_trades := pe_trades e @ [\<lparr>pt_Code = sp_Code sp, pt_Name = sp_Name sp, pt_Strategy = sp_Strategy sp,
                  pt_StrategyType = sp_StrategyType sp, pt_Side = ''short_cover'', pt_Price = coverPrice, pt_SignalPrice = 0, pt_Qty = sp_Qty sp,
                  pt_Amount = gross, pt_Time = now, pt_LatencySec = 0, pt_Fee = fee, pt_Reason = reason\<rparr>]\<rparr>;
          e = recordOrderLocked \<lparr>po_Code = sp_Code sp, po_Name = sp_Name sp, po_Strategy = sp_Strategy sp, po_StrategyType = sp_StrategyType sp,
                po_Side = ''short'', po_Kind = [CHR 0xE8, CHR 0x9E, CHR 0x8D, CHR 0xE5, CHR 0x88, CHR 0xB8, CHR 0xE4, CHR 0xB9, CHR 0xB0, CHR 0xE5, CHR 0x9B, CHR 0x9E], po_SignalPrice = 0, po_Price = coverPrice, po_Qty = sp_Qty sp,
                po_Status = ''filled'', po_Reason = reason, po_CreatedAt = now\<rparr> e
      in (persist now (e\<lparr>pe_shorts := AList.delete code (pe_shorts e)\<rparr>), realized))"

definition shortCoverLocked :: "string \<Rightarrow> f64 \<Rightarrow> paper_text \<Rightarrow> quotes \<Rightarrow> int \<Rightarrow> paper \<Rightarrow> paper \<times> (paper_error + f64)" where
  "shortCoverLocked code price0 reason quotes now e =
     (case map_of (pe_shorts e) code of
        None \<Rightarrow> (e, Inl ErrShortNoPosition)
      | Some sp \<Rightarrow>
          (case (if price0 \<le> 0 then (case quotes code of None \<Rightarrow> None | Some q \<Rightarrow> if qt_Price q \<le> 0 then None else Some (qt_Price q))
                 else Some price0) of
             None \<Rightarrow> (e, Inl ErrNoQuote)
           | Some price \<Rightarrow>
               if \<not> canSellToday (sp_FilledAt sp) now then (e, Inl ErrShortTPlusOne)
               else (case short_close sp code price reason now e of (e, realized) \<Rightarrow> (e, Inr realized))))"

definition ShortCover :: "string \<Rightarrow> f64 \<Rightarrow> quotes \<Rightarrow> int \<Rightarrow> paper \<Rightarrow> paper \<times> (paper_error + f64)" where
  "ShortCover code price quotes now e = shortCoverLocked code price (Plain [CHR 0xE6, CHR 0x89, CHR 0x8B, CHR 0xE5, CHR 0x8A, CHR 0xA8, CHR 0xE4, CHR 0xB9, CHR 0xB0, CHR 0xE5, CHR 0x9B, CHR 0x9E]) quotes now e"

definition ShortCoverManual :: "string \<Rightarrow> quotes \<Rightarrow> int \<Rightarrow> paper \<Rightarrow> paper \<times> (paper_error + f64)" where
  "ShortCoverManual code quotes now e = shortCoverLocked code 0 (Plain [CHR 0xE6, CHR 0x89, CHR 0x8B, CHR 0xE5, CHR 0x8A, CHR 0xA8, CHR 0xE4, CHR 0xB9, CHR 0xB0, CHR 0xE5, CHR 0x9B, CHR 0x9E]) quotes now e"

section \<open>Marking, fees, the forced cover\<close>

definition marked_short :: "quotes \<Rightarrow> string \<times> short_position \<Rightarrow> string \<times> short_position" where
  "marked_short quotes kv = (case kv of (code, s) \<Rightarrow> (code, case quotes code of
       Some q \<Rightarrow> if 0 < qt_Price q then s\<lparr>sp_Mark := qt_Price q\<rparr> else s
     | None \<Rightarrow> s))"

definition remarked :: "quotes \<Rightarrow> string \<times> f64 \<Rightarrow> bool" where
  "remarked quotes cm = (case quotes (fst cm) of Some q \<Rightarrow> 0 < qt_Price q \<and> \<not> feq (snd cm) (qt_Price q) | None \<Rightarrow> False)"

definition shortMarkLocked :: "quotes \<Rightarrow> paper \<Rightarrow> paper \<times> bool" where
  "shortMarkLocked quotes e = (e\<lparr>pe_shorts := map (marked_short quotes) (pe_shorts e)\<rparr>,
     list_ex (\<lambda>(code, s). remarked quotes (code, sp_Mark s)) (pe_shorts e))"

fun accrue_each :: "f64 \<Rightarrow> string \<Rightarrow> (string \<times> short_position) list \<Rightarrow> (string \<times> string) list \<Rightarrow> (string \<times> short_position) list \<times> (string \<times> string) list \<times> bool" where
  "accrue_each daily day [] seen = ([], seen, False)"
| "accrue_each daily day ((code, s) # kvs) seen =
     (if map_of seen code = Some day then (case accrue_each daily day kvs seen of (r, seen, b) \<Rightarrow> ((code, s) # r, seen, b))
      else case accrue_each daily day kvs (AList.update code day seen) of (r, seen, b) \<Rightarrow>
        ((code, s\<lparr>sp_FeeAccrued := sp_FeeAccrued s + sp_OpenPrice s * f64_of_int (sp_Qty s) * daily\<rparr>) # r, seen, True))"

definition shortAccrueFeesLocked :: "int \<Rightarrow> paper \<Rightarrow> paper \<times> bool" where
  "shortAccrueFeesLocked now e =
     (if pe_shorts e = [] \<or> pc_ShortFeeAnnual (pe_cfg e) \<le> 0 then (e, False)
      else case accrue_each (pc_ShortFeeAnnual (pe_cfg e) / Fin 365) (DayOf now) (pe_shorts e) (pe_shortFeeDone e) of
        (shorts, seen, b) \<Rightarrow> (e\<lparr>pe_shorts := shorts, pe_shortFeeDone := seen\<rparr>, b))"

definition stop_hit :: "paper_config \<Rightarrow> short_position \<Rightarrow> bool" where
  "stop_hit cfg s \<longleftrightarrow> 0 < sp_Mark s \<and> sp_OpenPrice s * (1 + pc_ShortStopLossPct cfg / Fin 100) \<le> sp_Mark s"

fun stop_each :: "int \<Rightarrow> (string \<times> short_position) list \<Rightarrow> paper \<Rightarrow> paper \<times> nat" where
  "stop_each now [] e = (e, 0)"
| "stop_each now ((code, s) # kvs) e =
     (if stop_hit (pe_cfg e) s then
        (case shortCoverLocked code (sp_Mark s) (StopLossAt (pc_ShortStopLossPct (pe_cfg e))) Map.empty now e of
           (e', Inr _) \<Rightarrow> (case stop_each now kvs e' of (e, n) \<Rightarrow> (e, Suc n))
         | (e', Inl _) \<Rightarrow> stop_each now kvs e')
      else stop_each now kvs e)"

definition shortStopLossLocked :: "int \<Rightarrow> paper \<Rightarrow> paper \<times> nat" where
  "shortStopLossLocked now e = (if pc_ShortStopLossPct (pe_cfg e) \<le> 0 then (e, 0) else stop_each now (pe_shorts e) e)"

definition shortMarkToMarketLocked :: "quotes \<Rightarrow> int \<Rightarrow> paper \<Rightarrow> paper" where
  "shortMarkToMarketLocked quotes now e0 =
     (if pe_shorts e0 = [] then e0
      else case shortMarkLocked quotes e0 of (e1, b1) \<Rightarrow>
        (case shortAccrueFeesLocked now e1 of (e2, b2) \<Rightarrow>
          (case shortStopLossLocked now e2 of (e3, n) \<Rightarrow> if b1 \<or> b2 \<or> 0 < n then persist now e3 else e3)))"

section \<open>Views\<close>

record short_snapshot =
  ss_Enabled :: bool
  ss_Cash :: f64
  ss_Equity :: f64
  ss_Realized :: f64
  ss_MarginUsed :: f64
  ss_FloatingPnl :: f64
  ss_FeeAccrued :: f64
  ss_Positions :: "short_position list"

definition sum_shorts :: "(short_position \<Rightarrow> f64) \<Rightarrow> paper \<Rightarrow> f64" where
  "sum_shorts f e = foldl (\<lambda>a kv. a + f (snd kv)) 0 (pe_shorts e)"

definition ShortBook :: "paper \<Rightarrow> short_snapshot" where
  "ShortBook e = \<lparr>ss_Enabled = shortBookEnabledLocked e, ss_Cash = round2 (pe_shortCash e), ss_Equity = round2 (shortEquityLocked e),
     ss_Realized = round2 (pe_shortRealized e), ss_MarginUsed = round2 (sum_shorts sp_MarginUsed e), ss_FloatingPnl = round2 (sum_shorts sp_FloatPnl e),
     ss_FeeAccrued = round2 (sum_shorts sp_FeeAccrued e), ss_Positions = map snd (pe_shorts e)\<rparr>"

definition ShortHolds :: "string \<Rightarrow> paper \<Rightarrow> bool" where
  "ShortHolds code e \<longleftrightarrow> map_of (pe_shorts e) code \<noteq> None"

end
