(* ===== verification/PaperTrade.thy ===== *)
theory PaperTrade
  imports PaperShort
begin

text \<open>
  Trading on the long book (\<open>internal/paper/paper.go\<close>): automatic matching of signals, manual buys and sales, the
  automatic disposals, marking to market and the daily equity point. \<open>SellAction\<close> is from
  \<open>combat_agent/position_exits.go\<close>, \<open>ApplyUnifiedSell\<close> from \<open>unified_sell.go\<close>.
\<close>

section \<open>Signals\<close>

record paper_signal = signal +
  sg_AlertType :: string
  sg_Price :: f64
  sg_ATR :: f64
  sg_Reason :: string
  sg_GeneratedAt :: int

definition IsShortTactic :: "string \<Rightarrow> bool" where
  "IsShortTactic t \<longleftrightarrow> t \<in> {''high_churn'', ''break_down'', ''leader_decay'', ''good_news_fade''}"

datatype disposal = NoDisposal | Close | Trim

definition SellAction :: "paper_signal \<Rightarrow> disposal" where
  "SellAction s =
     (if sg_Direction s = [CHR 0xE5, CHR 0x81, CHR 0x9A, CHR 0xE7, CHR 0xA9, CHR 0xBA] then
        (if IsShortTactic (sg_StrategyType s) \<and> (sg_Action s = ''sell'' \<or> sg_Action s = [CHR 0xE5, CHR 0x8D, CHR 0x96, CHR 0xE5, CHR 0x87, CHR 0xBA]) then Close else NoDisposal)
      else if sg_AlertType s = [CHR 0xE6, CHR 0xB8, CHR 0x85, CHR 0xE4, CHR 0xBB, CHR 0x93] \<or> sg_AlertType s = [CHR 0xE5, CHR 0x88, CHR 0xA9, CHR 0xE7, CHR 0xA9, CHR 0xBA, CHR 0xE6, CHR 0x8A, CHR 0x9B, CHR 0xE5, CHR 0x94, CHR 0xAE] then Close
      else if sg_AlertType s = [CHR 0xE5, CHR 0x87, CHR 0x8F, CHR 0xE4, CHR 0xBB, CHR 0x93] then Trim
      else if sg_Action s = [CHR 0xE6, CHR 0xAD, CHR 0xA2, CHR 0xE7, CHR 0x9B, CHR 0x88] \<or> sg_Action s = [CHR 0xE6, CHR 0xAD, CHR 0xA2, CHR 0xE6, CHR 0x8D, CHR 0x9F] \<or> sg_Action s = ''sell'' \<or> sg_Action s = [CHR 0xE5, CHR 0x8D, CHR 0x96, CHR 0xE5, CHR 0x87, CHR 0xBA] then Close
      else NoDisposal)"

section \<open>Filling a buy\<close>

text \<open>The quantity, cost and fee of a buy at the slipped price: as asked, or what the pool still pays for.\<close>

definition shrunk_lots :: "paper \<Rightarrow> f64 \<Rightarrow> f64 \<Rightarrow> int" where
  "shrunk_lots e pool price =
     (let cfg = pe_cfg e;
          avail = (if 0 < pc_CommissionRate cfg \<and> pc_CommissionRate cfg < 1 then pool / (1 + pc_CommissionRate cfg) else pool);
          avail = (if 0 < pc_MinCommission cfg \<and> pool - pc_MinCommission cfg < avail then pool - pc_MinCommission cfg else avail)
      in whole_lots avail price)"

definition fit_qty :: "paper \<Rightarrow> f64 \<Rightarrow> f64 \<Rightarrow> bool \<Rightarrow> int \<Rightarrow> paper_error + int" where
  "fit_qty e pool price explicit qty =
     (let cost = f64_of_int qty * price
      in if pool < cost + buyFeeLocked (pe_cfg e) cost then
           (if explicit then Inl ErrCash
            else let qty = shrunk_lots e pool price; cost = f64_of_int qty * price
                 in if qty \<le> 0 then Inl ErrCash
                    else if pool < cost + buyFeeLocked (pe_cfg e) cost then Inl ErrCash else Inr qty)
         else Inr qty)"

definition buy_trade :: "string \<Rightarrow> string \<Rightarrow> string \<Rightarrow> string \<Rightarrow> f64 \<Rightarrow> f64 \<Rightarrow> int \<Rightarrow> int \<Rightarrow> int \<Rightarrow> f64 \<Rightarrow> string \<Rightarrow> paper_trade" where
  "buy_trade poolKey code name strategy signalPrice price qty now latency fee reason =
     \<lparr>pt_Code = code, pt_Name = name, pt_Strategy = strategy, pt_StrategyType = poolKey, pt_Side = ''buy'', pt_Price = price,
      pt_SignalPrice = signalPrice, pt_Qty = qty, pt_Amount = f64_of_int qty * price, pt_Time = now, pt_LatencySec = latency,
      pt_Fee = fee, pt_Reason = Plain reason\<rparr>"

text \<open>What a buy takes from pool and cash and adds to the pool's figures.\<close>

definition pay_for :: "string \<Rightarrow> f64 \<Rightarrow> f64 \<Rightarrow> int \<Rightarrow> paper \<Rightarrow> paper" where
  "pay_for poolKey cost fee now e =
     (let e = e\<lparr>pe_pools := AList.update poolKey (get_or 0 (pe_pools e) poolKey - cost - fee) (pe_pools e),
                pe_cash := pe_cash e - (cost + fee), pe_hasFilled := True\<rparr>
      in add_perf poolKey (\<lambda>f. f\<lparr>pf_Cost := pf_Cost f + cost\<rparr>) (recordPoolBuy poolKey cost now e))"

definition book_buy ::
  "string \<Rightarrow> string \<Rightarrow> string \<Rightarrow> string \<Rightarrow> f64 \<Rightarrow> int \<Rightarrow> int \<Rightarrow> f64 \<Rightarrow> int \<Rightarrow> string \<Rightarrow> paper \<Rightarrow> paper" where
  "book_buy poolKey code name strategy signalPrice signalAt now price qty reason e0 =
     (let cost = f64_of_int qty * price; fee = buyFeeLocked (pe_cfg e0) cost; e = pay_for poolKey cost fee now e0
      in e\<lparr>pe_positions := AList.update code \<lparr>pp_Code = code, pp_Name = name, pp_Strategy = strategy, pp_StrategyType = poolKey, pp_Qty = qty,
             pp_CostPrice = (cost + fee) / f64_of_int qty, pp_Cost = cost + fee, pp_SignalPrice = signalPrice, pp_SignalAt = signalAt,
             pp_FilledAt = now, pp_Mark = price, pp_ATR = 0\<rparr> (pe_positions e),
           pe_trades := pe_trades e @ [buy_trade poolKey code name strategy signalPrice price qty now (latency_of signalAt now) fee reason]\<rparr>)"

definition reentry_error :: "string \<Rightarrow> int \<Rightarrow> paper \<Rightarrow> paper_error option" where
  "reentry_error code now e =
     (let cd = pc_ReentryCooldownMin (pe_cfg e)
      in if 0 < cd \<and> \<not> canReEnter e code cd now
         then Some (ErrReentry (shown 0 (duration_in minute (time_sub now (get_or zero_time (pe_lastClose e) code)))) cd) else None)"

definition fillLocked ::
  "string \<Rightarrow> string \<Rightarrow> string \<Rightarrow> string \<Rightarrow> f64 \<Rightarrow> int \<Rightarrow> int \<Rightarrow> f64 \<Rightarrow> int \<Rightarrow> string \<Rightarrow> f64 \<Rightarrow> bool \<Rightarrow> paper \<Rightarrow> paper \<times> paper_error option" where
  "fillLocked poolKey code name strategy signalPrice signalAt now price0 qty0 reason confidence manual e0 =
     (if pool_full e0 poolKey then (e0, Some ErrMaxPos)
      else case checkPoolDisciplinePre poolKey confidence manual now e0 of
        (e, True) \<Rightarrow> (e, Some ErrPoolDiscipline)
      | (e, False) \<Rightarrow>
          (case reentry_error code now e of
             Some err \<Rightarrow> (e, Some err)
           | None \<Rightarrow>
               (let explicit = (0 < qty0);
                    qty = (if explicit then qty0 else whole_lots (pc_FixedAmount (pe_cfg e) * applyPoolIRLocked e poolKey) price0);
                    price = raised_price (pe_cfg e) price0
                in if qty \<le> 0 then (e, Some ErrLotTooSmall)
                   else if checkPoolBudget poolKey (f64_of_int qty * price) e then (e, Some ErrPoolDiscipline)
                   else case fit_qty e (get_or 0 (pe_pools e) poolKey) price explicit qty of
                       Inl err \<Rightarrow> (e, Some err)
                     | Inr n \<Rightarrow> (book_buy poolKey code name strategy signalPrice signalAt now price n reason e, None))))"

section \<open>Selling\<close>

definition book_sale :: "paper_position \<Rightarrow> f64 \<Rightarrow> int \<Rightarrow> f64 \<Rightarrow> paper_text \<Rightarrow> int \<Rightarrow> paper \<Rightarrow> paper" where
  "book_sale p price0 qty basis reason now e =
     (let price = applySellPriceLocked (pe_cfg e) price0; gross = price * f64_of_int qty; fee = sellFeeLocked (pe_cfg e) gross; net = gross - fee;
          key = pp_StrategyType p;
          e = e\<lparr>pe_pools := AList.update key (get_or 0 (pe_pools e) key + net) (pe_pools e), pe_cash := pe_cash e + net,
                pe_realized := pe_realized e + (net - basis)\<rparr>;
          e = add_perf key (\<lambda>f. f\<lparr>pf_Realized := pf_Realized f + (net - basis)\<rparr>) e
      in e\<lparr>pe_trades := pe_trades e @ [\<lparr>pt_Code = pp_Code p, pt_Name = pp_Name p, pt_Strategy = pp_Strategy p, pt_StrategyType = key,
             pt_Side = ''sell'', pt_Price = price, pt_SignalPrice = 0, pt_Qty = qty, pt_Amount = gross, pt_Time = now, pt_LatencySec = 0,
             pt_Fee = fee, pt_Reason = reason\<rparr>]\<rparr>)"

definition sellQtyLocked :: "string \<Rightarrow> paper_position \<Rightarrow> f64 \<Rightarrow> int \<Rightarrow> paper_text \<Rightarrow> int \<Rightarrow> paper \<Rightarrow> paper \<times> paper_error option" where
  "sellQtyLocked code p price qty reason now e =
     (if \<not> canSellToday (pp_FilledAt p) now then (e, Some ErrTPlusOne)
      else let part = pp_CostPrice p * f64_of_int qty; e = book_sale p price qty part reason now e
           in (persist now (e\<lparr>pe_positions := AList.update code (p\<lparr>pp_Cost := pp_Cost p - part, pp_Qty := pp_Qty p - qty\<rparr>) (pe_positions e)\<rparr>), None))"

definition sellAllLocked :: "paper_position \<Rightarrow> f64 \<Rightarrow> paper_text \<Rightarrow> int \<Rightarrow> paper \<Rightarrow> paper \<times> paper_error option" where
  "sellAllLocked p price reason now e =
     (if \<not> canSellToday (pp_FilledAt p) now then (e, Some ErrTPlusOne)
      else let sold = applySellPriceLocked (pe_cfg e) price; e = book_sale p price (pp_Qty p) (pp_Cost p) reason now e;
               e = mirrorCloseLocked (pp_Code p) sold (pp_Qty p) reason (e\<lparr>pe_positions := AList.delete (pp_Code p) (pe_positions e)\<rparr>)
           in (persist now (e\<lparr>pe_lastClose := AList.update (pp_Code p) now (pe_lastClose e)\<rparr>), None))"

definition sell_order :: "paper_position \<Rightarrow> string \<Rightarrow> f64 \<Rightarrow> f64 \<Rightarrow> int \<Rightarrow> string \<Rightarrow> paper_text \<Rightarrow> int \<Rightarrow> paper_order" where
  "sell_order p kind signalPrice price qty status reason now =
     \<lparr>po_Code = pp_Code p, po_Name = pp_Name p, po_Strategy = pp_Strategy p, po_StrategyType = pp_StrategyType p, po_Side = ''sell'',
      po_Kind = kind, po_SignalPrice = signalPrice, po_Price = price, po_Qty = qty, po_Status = status, po_Reason = reason, po_CreatedAt = now\<rparr>"

text \<open>A manual sale of everything, or of a quantity at a typed price (a price not positive means the quote's).\<close>

definition live_price :: "quotes \<Rightarrow> string \<Rightarrow> f64 option" where
  "live_price quotes code = (case quotes code of None \<Rightarrow> None | Some q \<Rightarrow> if 0 < qt_Price q then Some (qt_Price q) else None)"

definition Sell :: "string \<Rightarrow> quotes \<Rightarrow> int \<Rightarrow> paper \<Rightarrow> paper \<times> paper_error option" where
  "Sell code quotes now e =
     (if \<not> pc_Enabled (pe_cfg e) then (e, Some ErrDisabled)
      else case map_of (pe_positions e) code of
          None \<Rightarrow> (e, Some ErrNotHeld)
        | Some p \<Rightarrow>
            (case live_price quotes code of
               None \<Rightarrow> (e, Some ErrNoQuote)
             | Some price \<Rightarrow>
                 (case sellAllLocked p price (Plain [CHR 0xE6, CHR 0x89, CHR 0x8B, CHR 0xE5, CHR 0x8A, CHR 0xA8, CHR 0xE6, CHR 0xA8, CHR 0xA1, CHR 0xE6, CHR 0x8B, CHR 0x9F, CHR 0xE5, CHR 0x8D, CHR 0x96, CHR 0xE5, CHR 0x87, CHR 0xBA]) now e of
                    (e, Some err) \<Rightarrow> (e, Some err)
                  | (e, None) \<Rightarrow> (persist now (recordOrderLocked
                      (sell_order (p\<lparr>pp_Code := code\<rparr>) [CHR 0xE6, CHR 0x89, CHR 0x8B, CHR 0xE5, CHR 0x8A, CHR 0xA8, CHR 0xE5, CHR 0x8D, CHR 0x96, CHR 0xE5, CHR 0x87, CHR 0xBA] 0 price (pp_Qty p) ''filled'' (Plain [CHR 0xE6, CHR 0x89, CHR 0x8B, CHR 0xE5, CHR 0x8A, CHR 0xA8, CHR 0xE6, CHR 0xA8, CHR 0xA1, CHR 0xE6, CHR 0x8B, CHR 0x9F, CHR 0xE5, CHR 0x8D, CHR 0x96, CHR 0xE5, CHR 0x87, CHR 0xBA]) now) e), None))))"

definition SellEx :: "string \<Rightarrow> f64 \<Rightarrow> int \<Rightarrow> quotes \<Rightarrow> int \<Rightarrow> paper \<Rightarrow> paper \<times> paper_error option" where
  "SellEx code price0 qty quotes now e =
     (if \<not> pc_Enabled (pe_cfg e) then (e, Some ErrDisabled)
      else case map_of (pe_positions e) code of
          None \<Rightarrow> (e, Some ErrNotHeld)
        | Some p \<Rightarrow>
            if qty \<le> 0 then (e, Some ErrLotTooSmall)
            else (case (if price0 \<le> 0 then live_price quotes code else Some price0) of
                 None \<Rightarrow> (e, Some ErrNoQuote)
               | Some price \<Rightarrow>
                   if pp_Qty p \<le> qty then
                     (case sellAllLocked p price (Plain [CHR 0xE6, CHR 0x89, CHR 0x8B, CHR 0xE5, CHR 0x8A, CHR 0xA8, CHR 0xE6, CHR 0xA8, CHR 0xA1, CHR 0xE6, CHR 0x8B, CHR 0x9F, CHR 0xE5, CHR 0x8D, CHR 0x96, CHR 0xE5, CHR 0x87, CHR 0xBA]) now e of
                        (e, Some err) \<Rightarrow> (persist now e, Some err)
                      | (e, None) \<Rightarrow> (persist now (recordOrderLocked
                          (sell_order (p\<lparr>pp_Code := code\<rparr>) [CHR 0xE6, CHR 0x89, CHR 0x8B, CHR 0xE5, CHR 0x8A, CHR 0xA8, CHR 0xE5, CHR 0x8D, CHR 0x96, CHR 0xE5, CHR 0x87, CHR 0xBA] 0 price (pp_Qty p) ''filled'' (Plain [CHR 0xE6, CHR 0x89, CHR 0x8B, CHR 0xE5, CHR 0x8A, CHR 0xA8, CHR 0xE6, CHR 0xA8, CHR 0xA1, CHR 0xE6, CHR 0x8B, CHR 0x9F, CHR 0xE5, CHR 0x8D, CHR 0x96, CHR 0xE5, CHR 0x87, CHR 0xBA]) now) e), None))
                   else
                     (case sellQtyLocked code p price qty (Plain [CHR 0xE6, CHR 0x89, CHR 0x8B, CHR 0xE5, CHR 0x8A, CHR 0xA8, CHR 0xE6, CHR 0xA8, CHR 0xA1, CHR 0xE6, CHR 0x8B, CHR 0x9F, CHR 0xE5, CHR 0x87, CHR 0x8F, CHR 0xE4, CHR 0xBB, CHR 0x93]) now e of
                        (e, Some err) \<Rightarrow> (e, Some err)
                      | (e, None) \<Rightarrow> (persist now (recordOrderLocked
                          (sell_order (p\<lparr>pp_Code := code\<rparr>) [CHR 0xE6, CHR 0x89, CHR 0x8B, CHR 0xE5, CHR 0x8A, CHR 0xA8, CHR 0xE5, CHR 0x87, CHR 0x8F, CHR 0xE4, CHR 0xBB, CHR 0x93] 0 price qty ''partial'' (Plain [CHR 0xE6, CHR 0x89, CHR 0x8B, CHR 0xE5, CHR 0x8A, CHR 0xA8, CHR 0xE6, CHR 0xA8, CHR 0xA1, CHR 0xE6, CHR 0x8B, CHR 0x9F, CHR 0xE5, CHR 0x87, CHR 0x8F, CHR 0xE4, CHR 0xBB, CHR 0x93]) now) e), None))))"

definition auto_kind :: "paper_signal \<Rightarrow> string" where
  "auto_kind s = (if sg_AlertType s = [] then [CHR 0xE8, CHR 0x87, CHR 0xAA, CHR 0xE5, CHR 0x8A, CHR 0xA8, CHR 0xE5, CHR 0x8D, CHR 0x96, CHR 0xE5, CHR 0x87, CHR 0xBA] else [CHR 0xE8, CHR 0x87, CHR 0xAA, CHR 0xE5, CHR 0x8A, CHR 0xA8] @ sg_AlertType s)"

definition half_lots :: "int \<Rightarrow> int" where
  "half_lots qty = qty sdiv 2 sdiv 100 * 100"

definition autoSellLocked :: "paper_signal \<Rightarrow> disposal \<Rightarrow> quotes \<Rightarrow> int \<Rightarrow> paper \<Rightarrow> paper" where
  "autoSellLocked s act quotes now e =
     (if \<not> pc_AutoSell (pe_cfg e) then e
      else case (map_of (pe_positions e) (sg_Code s), live_price quotes (sg_Code s)) of
        (Some p, Some price) \<Rightarrow>
          (let kind = auto_kind s;
               mk = (\<lambda>status qty price reason. sell_order (p\<lparr>pp_Code := sg_Code s, pp_Name := sg_Name s\<rparr>) kind (sg_Price s) price qty status reason now)
           in case act of
                Close \<Rightarrow>
                  (case sellAllLocked p price (Plain kind) now e of
                     (e, Some err) \<Rightarrow> recordOrderLocked (mk ''rejected'' (pp_Qty p) 0 (AutoCloseRefused err)) e
                   | (e, None) \<Rightarrow> recordOrderLocked (mk ''filled'' (pp_Qty p) price (Plain (sg_Reason s))) e)
              | Trim \<Rightarrow>
                  (let today = DayCompactOf now; half = half_lots (pp_Qty p)
                   in if get_or [] (pe_trimDone e) (sg_Code s) = today \<or> half \<le> 0 then e
                      else case sellQtyLocked (sg_Code s) p price half (Plain kind) now e of
                          (e, Some err) \<Rightarrow> recordOrderLocked (mk ''rejected'' half 0 (AutoTrimRefused err)) e
                        | (e, None) \<Rightarrow> (recordOrderLocked (mk ''partial'' half price (Plain (sg_Reason s))) e)
                            \<lparr>pe_trimDone := AList.update (sg_Code s) today (pe_trimDone e)\<rparr>)
              | NoDisposal \<Rightarrow> e)
      | _ \<Rightarrow> e)"

definition ApplyUnifiedSell :: "string \<Rightarrow> disposal \<Rightarrow> f64 \<Rightarrow> string \<Rightarrow> int \<Rightarrow> paper \<Rightarrow> paper \<times> bool" where
  "ApplyUnifiedSell code act price reason now e =
     (if price \<le> 0 \<or> act = NoDisposal then (e, False)
      else case map_of (pe_positions e) code of
          None \<Rightarrow> (e, False)
        | Some p \<Rightarrow>
            if \<not> pc_AutoSell (pe_cfg e) then (e, False)
            else (persist now (autoSellLocked \<lparr>sg_Code = code, sg_Name = pp_Name p, sg_Strategy = pp_Strategy p, sg_Direction = [CHR 0xE5, CHR 0x81, CHR 0x9A, CHR 0xE5, CHR 0xA4, CHR 0x9A],
                    sg_Action = [], sg_Confidence = 0, sg_Sector = [], sg_StrategyID = [], sg_StrategyType = [], sg_AlertType = [CHR 0xE7, CHR 0xBB, CHR 0x9F, CHR 0xE4, CHR 0xB8, CHR 0x80, CHR 0xE8, CHR 0xA3, CHR 0x81, CHR 0xE5, CHR 0x86, CHR 0xB3],
                    sg_Price = price, sg_ATR = 0, sg_Reason = reason, sg_GeneratedAt = zero_time\<rparr> act
                    [code \<mapsto> \<lparr>qt_Price = price, qt_ChangePct = 0\<rparr>] now e), True))"

section \<open>Matching signals\<close>

definition shortOpenFromSignalLocked :: "paper_signal \<Rightarrow> quotes \<Rightarrow> int \<Rightarrow> paper \<Rightarrow> paper" where
  "shortOpenFromSignalLocked s quotes now e =
     (if map_of (pe_positions e) (sg_Code s) \<noteq> None then e
      else fst (shortOpenLocked (sg_Code s) (sg_Name s) (sg_Strategy s) (sg_StrategyType s) (sg_Price s) quotes [CHR 0xE5, CHR 0x81, CHR 0x9A, CHR 0xE7, CHR 0xA9, CHR 0xBA, CHR 0xE6, CHR 0x88, CHR 0x98, CHR 0xE6, CHR 0xB3, CHR 0x95, CHR 0xE8, CHR 0x87, CHR 0xAA, CHR 0xE5, CHR 0x8A, CHR 0xA8] now e))"

definition paper_buy_order :: "string \<Rightarrow> string \<Rightarrow> string \<Rightarrow> string \<Rightarrow> string \<Rightarrow> f64 \<Rightarrow> f64 \<Rightarrow> int \<Rightarrow> string \<Rightarrow> paper_text \<Rightarrow> int \<Rightarrow> paper_order" where
  "paper_buy_order code name strategy strategyType kind signalPrice price qty status reason now =
     \<lparr>po_Code = code, po_Name = name, po_Strategy = strategy, po_StrategyType = strategyType, po_Side = ''buy'', po_Kind = kind,
      po_SignalPrice = signalPrice, po_Price = price, po_Qty = qty, po_Status = status, po_Reason = reason, po_CreatedAt = now\<rparr>"

definition auto_reject :: "paper_signal \<Rightarrow> paper_text \<Rightarrow> int \<Rightarrow> paper \<Rightarrow> paper" where
  "auto_reject s reason now e = recordBuyRejectLocked
     (paper_buy_order (sg_Code s) (sg_Name s) (sg_Strategy s) (sg_StrategyType s) [CHR 0xE8, CHR 0x87, CHR 0xAA, CHR 0xE5, CHR 0x8A, CHR 0xA8, CHR 0xE6, CHR 0x92, CHR 0xAE, CHR 0xE5, CHR 0x90, CHR 0x88] (sg_Price s) 0 0 ''rejected'' (Plain []) now) reason e"

definition held_qty :: "paper \<Rightarrow> string \<Rightarrow> int" where
  "held_qty e code = (case map_of (pe_positions e) code of None \<Rightarrow> 0 | Some p \<Rightarrow> pp_Qty p)"

definition cap_reached :: "paper \<Rightarrow> bool" where
  "cap_reached e \<longleftrightarrow> 0 < pc_MaxPositions (pe_cfg e) \<and> pc_MaxPositions (pe_cfg e) \<le> int (length (pe_positions e))"

text \<open>An automatic buy: the conditions in their order, the fill, the records.\<close>

definition auto_buy :: "paper_signal \<Rightarrow> quotes \<Rightarrow> int \<Rightarrow> paper \<Rightarrow> paper" where
  "auto_buy s quotes now e =
     (let code = sg_Code s; key = sg_StrategyType s
      in if map_of (pe_positions e) code \<noteq> None then e
         else if cap_reached e then auto_reject s (CapReached (pc_MaxPositions (pe_cfg e))) now e
         else if key \<noteq> [] \<and> map_of (pe_pools e) key = None then auto_reject s (PoolNotOpen key) now e
         else case quotes code of
             None \<Rightarrow> auto_reject s (Plain [CHR 0xE8, CHR 0xA1, CHR 0x8C, CHR 0xE6, CHR 0x83, CHR 0x85, CHR 0xE7, CHR 0xBC, CHR 0xBA, CHR 0xE5, CHR 0xA4, CHR 0xB1, CHR 0xE8, CHR 0xB7, CHR 0xB3, CHR 0xE8, CHR 0xBF, CHR 0x87, CHR 0x28, CHR 0xE4, CHR 0xB8, CHR 0x8D, CHR 0xE4, CHR 0xBC, CHR 0xAA, CHR 0xE9, CHR 0x80, CHR 0xA0, CHR 0xE6, CHR 0x88, CHR 0x90, CHR 0xE4, CHR 0xBA, CHR 0xA4, CHR 0x29]) now e
           | Some q \<Rightarrow>
               if qt_Price q \<le> 0 then auto_reject s (Plain [CHR 0xE8, CHR 0xA1, CHR 0x8C, CHR 0xE6, CHR 0x83, CHR 0x85, CHR 0xE7, CHR 0xBC, CHR 0xBA, CHR 0xE5, CHR 0xA4, CHR 0xB1, CHR 0xE8, CHR 0xB7, CHR 0xB3, CHR 0xE8, CHR 0xBF, CHR 0x87, CHR 0x28, CHR 0xE4, CHR 0xB8, CHR 0x8D, CHR 0xE4, CHR 0xBC, CHR 0xAA, CHR 0xE9, CHR 0x80, CHR 0xA0, CHR 0xE6, CHR 0x88, CHR 0x90, CHR 0xE4, CHR 0xBA, CHR 0xA4, CHR 0x29]) now e
               else if LimitUpPct code (sg_Name s) \<le> qt_ChangePct q then auto_reject s (SealedUp (shown 1 (qt_ChangePct q))) now e
               else if pool_full e key then e
               else case fillLocked key code (sg_Name s) (sg_Strategy s) (sg_Price s) (sg_GeneratedAt s) now (qt_Price q) 0 (sg_Reason s) (sg_Confidence s) False e of
                   (e, Some err) \<Rightarrow> auto_reject s (Failed err) now e
                 | (e, None) \<Rightarrow>
                     (let e = recordOrderLocked (paper_buy_order code (sg_Name s) (sg_Strategy s) key [CHR 0xE8, CHR 0x87, CHR 0xAA, CHR 0xE5, CHR 0x8A, CHR 0xA8, CHR 0xE6, CHR 0x92, CHR 0xAE, CHR 0xE5, CHR 0x90, CHR 0x88] (sg_Price s) (qt_Price q)
                                 (held_qty e code) ''filled'' (Plain (sg_Reason s)) now)
                               (e\<lparr>pe_lastBuyReject := AList.delete code (pe_lastBuyReject e)\<rparr>)
                      in case map_of (pe_positions e) code of
                           None \<Rightarrow> e
                         | Some p \<Rightarrow> (let p = p\<lparr>pp_ATR := sg_ATR s\<rparr>
                             in mirrorOpenLocked p (e\<lparr>pe_positions := AList.update code p (pe_positions e)\<rparr>))))"

definition on_signal :: "quotes \<Rightarrow> int \<Rightarrow> paper \<Rightarrow> paper_signal \<Rightarrow> paper" where
  "on_signal quotes now e0 s =
     (let bear = (sg_Direction s = [CHR 0xE5, CHR 0x81, CHR 0x9A, CHR 0xE7, CHR 0xA9, CHR 0xBA] \<and> IsShortTactic (sg_StrategyType s));
          e = (if bear then shortOpenFromSignalLocked s quotes now e0 else e0)
      in if bear \<and> sg_Action s \<noteq> ''sell'' then e
         else if SellAction s \<noteq> NoDisposal then autoSellLocked s (SellAction s) quotes now e
         else if sg_Direction s = [CHR 0xE5, CHR 0x81, CHR 0x9A, CHR 0xE7, CHR 0xA9, CHR 0xBA] \<or> sg_Action s \<noteq> ''buy'' then e
         else auto_buy s quotes now
           (if map_of (pe_shorts e) (sg_Code s) \<noteq> None
            then fst (shortCoverLocked (sg_Code s) 0 (Plain [CHR 0xE5, CHR 0x81, CHR 0x9A, CHR 0xE5, CHR 0xA4, CHR 0x9A, CHR 0xE4, CHR 0xBF, CHR 0xA1, CHR 0xE5, CHR 0x8F, CHR 0xB7, CHR 0xE5, CHR 0x9B, CHR 0x9E, CHR 0xE8, CHR 0xA1, CHR 0xA5, CHR 0xE5, CHR 0xB9, CHR 0xB3, CHR 0xE4, CHR 0xBB, CHR 0x93]) quotes now e) else e))"

definition OnSignals :: "paper_signal list \<Rightarrow> quotes \<Rightarrow> int \<Rightarrow> paper \<Rightarrow> paper" where
  "OnSignals sigs quotes now e = (if \<not> pc_Enabled (pe_cfg e) then e else persist now (foldl (on_signal quotes now) e sigs))"

section \<open>Manual buys\<close>

definition sealed_up :: "quotes \<Rightarrow> string \<Rightarrow> string \<Rightarrow> bool" where
  "sealed_up quotes code name \<longleftrightarrow> (case quotes code of None \<Rightarrow> False | Some q \<Rightarrow> LimitUpPct code name \<le> qt_ChangePct q)"

definition manual_reason :: "string \<Rightarrow> string" where
  "manual_reason poolKey = (if poolKey = [] then [CHR 0xE6, CHR 0x89, CHR 0x8B, CHR 0xE5, CHR 0x8A, CHR 0xA8, CHR 0xE6, CHR 0xA8, CHR 0xA1, CHR 0xE6, CHR 0x8B, CHR 0x9F, CHR 0xE4, CHR 0xB9, CHR 0xB0, CHR 0xE5, CHR 0x85, CHR 0xA5] else [CHR 0xE6, CHR 0x89, CHR 0x8B, CHR 0xE5, CHR 0x8A, CHR 0xA8, CHR 0xE6, CHR 0xA8, CHR 0xA1, CHR 0xE6, CHR 0x8B, CHR 0x9F, CHR 0xE4, CHR 0xB9, CHR 0xB0, CHR 0xE5, CHR 0x85, CHR 0xA5, CHR 0x28, CHR 0xE5, CHR 0xBD, CHR 0x92] @ poolKey @ '')'')"

definition manual_fill ::
  "string \<Rightarrow> string \<Rightarrow> string \<Rightarrow> string \<Rightarrow> f64 \<Rightarrow> f64 \<Rightarrow> int \<Rightarrow> int \<Rightarrow> paper \<Rightarrow> paper \<times> paper_error option" where
  "manual_fill code name strategy poolKey signalPrice price qty now e0 =
     (if poolKey \<noteq> [] \<and> map_of (pe_pools e0) poolKey = None then (e0, Some (ErrNoPool poolKey))
      else case fillLocked poolKey code name strategy signalPrice now now price qty (manual_reason poolKey) 1 True e0 of
          (e, Some err) \<Rightarrow> (recordOrderLocked (paper_buy_order code name strategy poolKey [CHR 0xE6, CHR 0x89, CHR 0x8B, CHR 0xE5, CHR 0x8A, CHR 0xA8, CHR 0xE4, CHR 0xB9, CHR 0xB0, CHR 0xE5, CHR 0x85, CHR 0xA5] signalPrice 0 0 ''rejected'' (Failed err) now) e, Some err)
        | (e, None) \<Rightarrow>
            (let e = recordOrderLocked (paper_buy_order code name strategy poolKey [CHR 0xE6, CHR 0x89, CHR 0x8B, CHR 0xE5, CHR 0x8A, CHR 0xA8, CHR 0xE4, CHR 0xB9, CHR 0xB0, CHR 0xE5, CHR 0x85, CHR 0xA5] signalPrice price (held_qty e code) ''filled''
                       (Plain (manual_reason poolKey)) now) e
             in (persist now (case map_of (pe_positions e) code of None \<Rightarrow> e | Some p \<Rightarrow> mirrorOpenLocked p e), None)))"

definition BuyInPool :: "string \<Rightarrow> string \<Rightarrow> string \<Rightarrow> string \<Rightarrow> f64 \<Rightarrow> quotes \<Rightarrow> int \<Rightarrow> paper \<Rightarrow> paper \<times> paper_error option" where
  "BuyInPool code name strategy poolKey signalPrice quotes now e =
     (if sealed_up quotes code name then (e, Some ErrLimitUp)
      else if \<not> pc_Enabled (pe_cfg e) then (e, Some ErrDisabled)
      else if map_of (pe_positions e) code \<noteq> None then (e, Some ErrHeld)
      else if cap_reached e then (e, Some ErrMaxPos)
      else case live_price quotes code of
          None \<Rightarrow> (e, Some ErrNoQuote)
        | Some price \<Rightarrow> manual_fill code name strategy poolKey signalPrice price 0 now e)"

definition Buy :: "string \<Rightarrow> string \<Rightarrow> string \<Rightarrow> f64 \<Rightarrow> quotes \<Rightarrow> int \<Rightarrow> paper \<Rightarrow> paper \<times> paper_error option" where
  "Buy code name strategy signalPrice quotes now e = BuyInPool code name strategy [] signalPrice quotes now e"

definition addToPositionLocked ::
  "paper_position \<Rightarrow> string \<Rightarrow> string \<Rightarrow> string \<Rightarrow> f64 \<Rightarrow> f64 \<Rightarrow> int \<Rightarrow> string \<Rightarrow> int \<Rightarrow> paper \<Rightarrow> paper \<times> paper_error option" where
  "addToPositionLocked p code name strategy signalPrice price0 qty reason now e0 =
     (if qty \<le> 0 then (e0, Some ErrLotTooSmall)
      else let price = raised_price (pe_cfg e0) price0; cost = f64_of_int qty * price; fee = buyFeeLocked (pe_cfg e0) cost; key = pp_StrategyType p
           in if get_or 0 (pe_pools e0) key < cost + fee then (e0, Some ErrCash)
              else case checkPoolDisciplinePre key 1 True now e0 of
                  (e, True) \<Rightarrow> (e, Some ErrPoolDiscipline)
                | (e, False) \<Rightarrow>
                    if checkPoolBudget key cost e then (e, Some ErrPoolDiscipline)
                    else let e = pay_for key cost fee now e; total = pp_Cost p + (cost + fee); n = wrap64 (pp_Qty p + qty)
                         in (persist now (e\<lparr>pe_positions := AList.update code
                               (p\<lparr>pp_Cost := total, pp_Qty := n, pp_CostPrice := total / f64_of_int n, pp_Mark := price\<rparr>) (pe_positions e),
                               pe_trades := pe_trades e @ [buy_trade key code name strategy signalPrice price qty now 0 fee reason]\<rparr>), None))"

definition BuyExInPool :: "string \<Rightarrow> string \<Rightarrow> string \<Rightarrow> string \<Rightarrow> f64 \<Rightarrow> f64 \<Rightarrow> int \<Rightarrow> quotes \<Rightarrow> int \<Rightarrow> paper \<Rightarrow> paper \<times> paper_error option" where
  "BuyExInPool code name strategy poolKey signalPrice price0 qty quotes now e =
     (if sealed_up quotes code name then (e, Some ErrLimitUp)
      else if \<not> pc_Enabled (pe_cfg e) then (e, Some ErrDisabled)
      else case map_of (pe_positions e) code of
          Some p \<Rightarrow> addToPositionLocked p code name strategy signalPrice price0 qty [CHR 0xE6, CHR 0x89, CHR 0x8B, CHR 0xE5, CHR 0x8A, CHR 0xA8, CHR 0xE6, CHR 0xA8, CHR 0xA1, CHR 0xE6, CHR 0x8B, CHR 0x9F, CHR 0xE5, CHR 0x8A, CHR 0xA0, CHR 0xE4, CHR 0xBB, CHR 0x93] now e
        | None \<Rightarrow>
            if cap_reached e then (e, Some ErrMaxPos)
            else if qty \<le> 0 then (e, Some ErrLotTooSmall)
            else case (if price0 \<le> 0 then live_price quotes code else Some price0) of
                None \<Rightarrow> (e, Some ErrNoQuote)
              | Some price \<Rightarrow> manual_fill code name strategy poolKey signalPrice price qty now e)"

definition BuyEx :: "string \<Rightarrow> string \<Rightarrow> string \<Rightarrow> f64 \<Rightarrow> f64 \<Rightarrow> int \<Rightarrow> quotes \<Rightarrow> int \<Rightarrow> paper \<Rightarrow> paper \<times> paper_error option" where
  "BuyEx code name strategy signalPrice price qty quotes now e = BuyExInPool code name strategy [] signalPrice price qty quotes now e"

section \<open>Marks and equity\<close>

definition marked_position :: "quotes \<Rightarrow> string \<times> paper_position \<Rightarrow> string \<times> paper_position" where
  "marked_position quotes kp = (case kp of (code, p) \<Rightarrow> (code, case live_price quotes code of Some price \<Rightarrow> p\<lparr>pp_Mark := price\<rparr> | None \<Rightarrow> p))"

definition MarkToMarket :: "quotes \<Rightarrow> int \<Rightarrow> paper \<Rightarrow> paper" where
  "MarkToMarket quotes now e0 =
     (if \<not> pc_Enabled (pe_cfg e0) then e0
      else let e = e0\<lparr>pe_positions := map (marked_position quotes) (pe_positions e0)\<rparr>;
               e = (if list_ex (\<lambda>(code, p). remarked quotes (code, pp_Mark p)) (pe_positions e0) then persist now e else e)
           in shortMarkToMarketLocked quotes now e)"

definition Snapshot :: "int \<Rightarrow> paper \<Rightarrow> paper" where
  "Snapshot now e =
     (if \<not> pc_Enabled (pe_cfg e) \<or> \<not> pe_hasFilled e then e
      else let date = DayOf now; val = pe_cash e + marketValueLocked e + shortEquityLocked e;
               pt = \<lparr>eq_Date = date, eq_Value = val, eq_Cash = pe_cash e\<rparr>
           in if pe_equity e \<noteq> [] \<and> eq_Date (last (pe_equity e)) = date then
                (if feq (eq_Value (last (pe_equity e))) val \<and> feq (eq_Cash (last (pe_equity e))) (pe_cash e) then e
                 else persist now (e\<lparr>pe_equity := butlast (pe_equity e) @ [pt]\<rparr>))
              else persist now (e\<lparr>pe_equity := pe_equity e @ [pt]\<rparr>))"

end
