(* ===== verification/PaperPools.thy ===== *)
theory PaperPools
  imports PaperTrade
begin

text \<open>
  The strategy pools and the account-level operations of the paper account (\<open>internal/paper/paper.go\<close>, \<open>poolkey.go\<close>):
  dividing the cash, opening a pool for a library rule, custom allocations, deposits, reconfiguration and
  resets; and the T+0 layers of \<open>t0.go\<close>.
\<close>

section \<open>Which pool a strategy belongs to\<close>

definition IsRulePoolKey :: "string \<Rightarrow> bool" where
  "IsRulePoolKey key \<longleftrightarrow> has_prefix key ''fac_'' \<or> has_prefix key ''pat_''"

definition PoolKeyForStrategy :: "string \<Rightarrow> string \<Rightarrow> string" where
  "PoolKeyForStrategy strategy kind =
     (if has_prefix kind ''fac_'' \<or> has_prefix kind ''pat_'' then kind
      else if strategy \<in> {[CHR 0xE5, CHR 0x8F, CHR 0x8C, CHR 0xE5, CHR 0x93, CHR 0x8D, CHR 0xE7, CHR 0x82, CHR 0xAE], [CHR 0xE5, CHR 0x8F, CHR 0x8C, CHR 0xE7, CHR 0xAA, CHR 0x81, CHR 0xE7, CHR 0xA0, CHR 0xB4], [CHR 0xE5, CHR 0x8F, CHR 0x8C, CHR 0xE5, CHR 0x87, CHR 0xB8], ''double_bump''} then ''double_bump''
      else if strategy \<in> {[CHR 0xE9, CHR 0xBE, CHR 0x99, CHR 0xE5, CHR 0xA4, CHR 0xB4], ''dragon''} then ''dragon''
      else if strategy \<in> {[CHR ''N'', CHR 0xE5, CHR 0xBD, CHR 0xA2], [CHR ''N'', CHR 0xE5, CHR 0xBD, CHR 0xA2, CHR 0xE8, CHR 0xB6, CHR 0x85, CHR 0xE7, CHR 0x9F, CHR 0xAD], [CHR ''N'', CHR 0xE5, CHR 0xAD, CHR 0x97, CHR 0xE5, CHR 0x9E, CHR 0x8B], ''n_shape''} then ''n_shape''
      else if strategy \<in> {[CHR 0xE9, CHR 0xBE, CHR 0x99, CHR 0xE5, CHR 0x9B, CHR 0x9E, CHR 0xE5, CHR 0xA4, CHR 0xB4], ''dragon_return''} then ''dragon_return''
      else if strategy \<in> {[CHR 0xE5, CHR 0x8A, CHR 0xA8, CHR 0xE9, CHR 0x87, CHR 0x8F], ''momentum''} then ''momentum''
      else [])"

definition strategyPoolLabel :: "string \<Rightarrow> string" where
  "strategyPoolLabel t =
     (if t = ''dragon'' then [CHR 0xE9, CHR 0xBE, CHR 0x99, CHR 0xE5, CHR 0xA4, CHR 0xB4] else if t = ''double_bump'' then [CHR 0xE5, CHR 0x8F, CHR 0x8C, CHR 0xE5, CHR 0x93, CHR 0x8D, CHR 0xE7, CHR 0x82, CHR 0xAE] else if t = ''n_shape'' then [CHR ''N'', CHR 0xE5, CHR 0xBD, CHR 0xA2]
      else if t = ''dragon_return'' then [CHR 0xE9, CHR 0xBE, CHR 0x99, CHR 0xE5, CHR 0x9B, CHR 0x9E, CHR 0xE5, CHR 0xA4, CHR 0xB4] else if t = ''momentum'' then [CHR 0xE5, CHR 0x8A, CHR 0xA8, CHR 0xE9, CHR 0x87, CHR 0x8F] else [CHR 0xE5, CHR 0x85, CHR 0xB6, CHR 0xE4, CHR 0xBB, CHR 0x96])"

definition SetPoolLabelResolver :: "(string \<Rightarrow> string) option \<Rightarrow> paper \<Rightarrow> paper" where
  "SetPoolLabelResolver f e = e\<lparr>pe_labelFn := f\<rparr>"

definition poolLabelOf :: "paper \<Rightarrow> string \<Rightarrow> string" where
  "poolLabelOf e key =
     (let l = strategyPoolLabel key
      in if l \<noteq> [CHR 0xE5, CHR 0x85, CHR 0xB6, CHR 0xE4, CHR 0xBB, CHR 0x96] \<or> key = [] then l
         else case pe_labelFn e of None \<Rightarrow> key | Some f \<Rightarrow> if f key \<noteq> [] then f key else key)"

section \<open>Dividing the cash\<close>

fun insert_key :: "string \<Rightarrow> string list \<Rightarrow> string list" where
  "insert_key x [] = [x]"
| "insert_key x (y # ys) = (if y < x then y # insert_key x ys else x # y # ys)"

definition sort_keys :: "string list \<Rightarrow> string list" where
  "sort_keys ks = foldr insert_key ks []"

definition set_all :: "'v \<Rightarrow> string list \<Rightarrow> (string \<times> 'v) list" where
  "set_all v ks = foldl (\<lambda>m k. AList.update k v m) [] ks"

definition ensure_keys :: "'v \<Rightarrow> string list \<Rightarrow> (string \<times> 'v) list \<Rightarrow> (string \<times> 'v) list" where
  "ensure_keys v ks m = foldl (\<lambda>m k. if map_of m k = None then AList.update k v m else m) m ks"

definition rebuildPoolsLocked :: "paper \<Rightarrow> paper" where
  "rebuildPoolsLocked e =
     (let keys = pe_poolTypes e @ [[]];
          pools = (if pe_poolTypes e = [] then [([], pe_cash e)] else set_all (pe_cash e / f64_of_int (int (length keys))) keys)
      in e\<lparr>pe_pools := pools, pe_poolPerf := ensure_keys no_perf (map fst pools) (pe_poolPerf e),
           pe_poolMaxPos := ensure_keys 0 (map fst pools) (pe_poolMaxPos e)\<rparr>)"

definition SetStrategyPools :: "string list \<Rightarrow> paper \<Rightarrow> paper" where
  "SetStrategyPools types e =
     (let merged = foldl (\<lambda>m k. if k \<in> set m then m else m @ [k]) types (pe_extraPoolKeys e)
      in if sort_keys merged = sort_keys (pe_poolTypes e) then e else rebuildPoolsLocked (e\<lparr>pe_poolTypes := merged\<rparr>))"

text \<open>A pool for one library rule: five percent of the pools' cash, at least 1000, at most a quarter.\<close>

definition rule_share :: "f64 \<Rightarrow> f64" where
  "rule_share cash =
     (let give = (if cash * lit (1/20) < Fin 1000 then Fin 1000 else cash * lit (1/20)); cap = cash * lit (1/4)
      in if cap < give then cap else give)"

definition EnsurePool :: "string \<Rightarrow> int \<Rightarrow> paper \<Rightarrow> paper \<times> bool" where
  "EnsurePool key now e =
     (if key = [] \<or> map_of (pe_pools e) key \<noteq> None then (e, False)
      else let total = sum_values (pe_pools e)
           in if total \<le> 0 then (e, False)
              else let give = rule_share total; scale = (total - give) / total
                   in (persist now (e\<lparr>pe_pools := AList.update key give (map (\<lambda>(k, v). (k, v * scale)) (pe_pools e)),
                         pe_poolTypes := (if key \<in> set (pe_poolTypes e) then pe_poolTypes e else pe_poolTypes e @ [key]),
                         pe_extraPoolKeys := (if key \<in> set (pe_extraPoolKeys e) then pe_extraPoolKeys e else pe_extraPoolKeys e @ [key])\<rparr>), True))"

text \<open>Custom allocations.\<close>

definition given :: "(string \<times> f64) list \<Rightarrow> string \<Rightarrow> bool" where
  "given allocs k \<longleftrightarrow> (case map_of allocs k of None \<Rightarrow> False | Some v \<Rightarrow> 0 < v)"

definition alloc_pools :: "(string \<times> f64) list \<Rightarrow> (string \<times> f64) list \<Rightarrow> (string \<times> f64) list" where
  "alloc_pools allocs pools =
     (let total = sum_values pools;
          first = map (\<lambda>(k, v). (k, if given allocs k then get_or 0 allocs k else v)) pools;
          assigned = sum_values (filter (\<lambda>(k, v). given allocs k) first);
          rest = filter (\<lambda>(k, v). \<not> given allocs k) pools
      in if total \<le> assigned then map (\<lambda>(k, v). (k, v / assigned * total)) first
         else if rest \<noteq> [] then
           (let share = (total - assigned) / f64_of_int (int (length rest))
            in map (\<lambda>(k, v). (k, if given allocs k then v else share)) first)
         else first)"

definition SetPoolAllocs :: "(string \<times> f64) list \<Rightarrow> int \<Rightarrow> paper \<Rightarrow> paper" where
  "SetPoolAllocs allocs now e = (if allocs = [] \<or> pe_pools e = [] then e
     else persist now (e\<lparr>pe_pools := alloc_pools allocs (pe_pools e), pe_cash := sum_values (pe_pools e)\<rparr>))"

definition ResetPoolAllocs :: "int \<Rightarrow> paper \<Rightarrow> paper" where
  "ResetPoolAllocs now e = (if pe_pools e = [] then e
     else let total = sum_values (pe_pools e); share = total / f64_of_int (int (length (pe_pools e)))
          in persist now (e\<lparr>pe_pools := map (\<lambda>(k, v). (k, share)) (pe_pools e), pe_cash := total\<rparr>))"

definition deposited :: "f64 \<Rightarrow> (string \<times> f64) list \<Rightarrow> (string \<times> f64) list" where
  "deposited amount pools =
     (let total = sum_values pools
      in if 0 < total then map (\<lambda>(k, v). (k, v + amount * (v / total))) pools
         else map (\<lambda>(k, v). (k, amount / f64_of_int (int (length pools)))) pools)"

definition Deposit :: "f64 \<Rightarrow> int \<Rightarrow> paper \<Rightarrow> paper" where
  "Deposit amount now e = (if amount \<le> 0 then e
     else persist now (e\<lparr>pe_cash := pe_cash e + amount, pe_cfg := (pe_cfg e)\<lparr>pc_InitialCapital := pc_InitialCapital (pe_cfg e) + amount\<rparr>,
       pe_pools := deposited amount (pe_pools e)\<rparr>))"

section \<open>Limits and configuration\<close>

definition SetMaxPositions :: "int \<Rightarrow> int \<Rightarrow> paper \<Rightarrow> paper" where
  "SetMaxPositions n now e = persist now (e\<lparr>pe_cfg := (pe_cfg e)\<lparr>pc_MaxPositions := (if n < 0 then 0 else n)\<rparr>\<rparr>)"

definition SetPoolCaps :: "(string \<times> int) list \<Rightarrow> int \<Rightarrow> paper \<Rightarrow> paper" where
  "SetPoolCaps caps now e = persist now (e\<lparr>pe_poolMaxPos :=
     foldl (\<lambda>m (k, n). AList.update k (if n < 0 then 0 else n) m) (pe_poolMaxPos e) caps\<rparr>)"

definition SetInitialCapital :: "f64 \<Rightarrow> paper \<Rightarrow> paper" where
  "SetInitialCapital v e = (if 0 < v then e\<lparr>pe_cfg := (pe_cfg e)\<lparr>pc_InitialCapital := v\<rparr>\<rparr> else e)"

definition UpdateConfig_paper :: "paper_config \<Rightarrow> paper \<Rightarrow> paper" where
  "UpdateConfig_paper cfg e =
     (if feq (pe_shortCash e) 0 \<and> 0 < pc_ShortCapital cfg \<and> pe_shorts e = [] then e\<lparr>pe_cfg := cfg, pe_shortCash := pc_ShortCapital cfg\<rparr>
      else e\<lparr>pe_cfg := cfg\<rparr>)"

definition SetMirror :: "bool \<Rightarrow> bool \<Rightarrow> paper \<Rightarrow> paper" where
  "SetMirror onOpen onClose e = e\<lparr>pe_onOpen := onOpen, pe_onClose := onClose\<rparr>"

section \<open>Resets\<close>

definition clearing_order :: "int \<Rightarrow> paper_position \<Rightarrow> paper_order" where
  "clearing_order now p = \<lparr>po_Code = pp_Code p, po_Name = pp_Name p, po_Strategy = pp_Strategy p, po_StrategyType = pp_StrategyType p,
     po_Side = ''sell'', po_Kind = [CHR 0xE9, CHR 0x87, CHR 0x8D, CHR 0xE9, CHR 0x85, CHR 0x8D, CHR 0xE8, CHR 0xB5, CHR 0x84, CHR 0xE9, CHR 0x87, CHR 0x91, CHR 0xE6, CHR 0xB8, CHR 0x85, CHR 0xE4, CHR 0xBB, CHR 0x93], po_SignalPrice = 0, po_Price = (if pp_Mark p \<le> 0 then pp_CostPrice p else pp_Mark p),
     po_Qty = pp_Qty p, po_Status = ''filled'', po_Reason = Plain [CHR 0xE7, CHR 0xA1, CHR 0xAE, CHR 0xE8, CHR 0xAE, CHR 0xA4, CHR 0xE8, CHR 0xB5, CHR 0x84, CHR 0xE9, CHR 0x87, CHR 0x91, CHR ''/'', CHR 0xE6, CHR 0x94, CHR 0xB9, CHR 0xE4, CHR 0xB8, CHR 0x8A, CHR 0xE9, CHR 0x99, CHR 0x90, CHR 0xE6, CHR 0xB8, CHR 0x85, CHR 0xE5, CHR 0xAD, CHR 0x98, CHR 0xE9, CHR 0x87, CHR 0x8F], po_CreatedAt = now\<rparr>"

definition Reconfigure :: "f64 \<Rightarrow> int \<Rightarrow> int \<Rightarrow> paper \<Rightarrow> paper" where
  "Reconfigure initialCapital maxPositions now e0 =
     (let cfg = (pe_cfg e0)\<lparr>pc_InitialCapital := (if 0 < initialCapital then initialCapital else pc_InitialCapital (pe_cfg e0)),
                           pc_MaxPositions := (if 0 \<le> maxPositions then maxPositions else pc_MaxPositions (pe_cfg e0))\<rparr>;
          e = foldl (\<lambda>e kp. mirrorCloseLocked (pp_Code (snd kp)) (po_Price (clearing_order now (snd kp))) (pp_Qty (snd kp)) (Plain [CHR 0xE6, CHR 0xA8, CHR 0xA1, CHR 0xE6, CHR 0x8B, CHR 0x9F, CHR 0xE7, CHR 0x9B, CHR 0x98, CHR 0xE9, CHR 0x87, CHR 0x8D, CHR 0xE9, CHR 0x85, CHR 0x8D, CHR 0xE8, CHR 0xB5, CHR 0x84, CHR 0xE9, CHR 0x87, CHR 0x91])
                       (recordOrderLocked (clearing_order now (snd kp)) e)) (e0\<lparr>pe_cfg := cfg\<rparr>) (pe_positions e0)
      in persist now (rebuildPoolsLocked (e\<lparr>pe_cash := pc_InitialCapital cfg, pe_positions := [], pe_equity := [], pe_realized := 0, pe_poolPerf := []\<rparr>)))"

definition Reset :: "int \<Rightarrow> paper \<Rightarrow> paper" where
  "Reset now e0 =
     (let e = foldl (\<lambda>e kp. mirrorCloseLocked (pp_Code (snd kp)) (pp_Mark (snd kp)) (pp_Qty (snd kp)) (Plain [CHR 0xE6, CHR 0xA8, CHR 0xA1, CHR 0xE6, CHR 0x8B, CHR 0x9F, CHR 0xE7, CHR 0x9B, CHR 0x98, CHR 0xE9, CHR 0x87, CHR 0x8D, CHR 0xE7, CHR 0xBD, CHR 0xAE]) e) e0 (pe_positions e0)
      in persist now (rebuildPoolsLocked (e\<lparr>pe_cash := pc_InitialCapital (pe_cfg e), pe_positions := [], pe_trades := [], pe_equity := [],
           pe_hasFilled := False, pe_realized := 0, pe_poolPerf := [], pe_trimDone := [], pe_poolDiscipline := [], pe_lastClose := [],
           pe_shorts := [], pe_shortCash := pc_ShortCapital (pe_cfg e), pe_shortRealized := 0, pe_shortFeeDone := [], pe_shortOpenSeen := []\<rparr>)))"

definition closing_value :: "paper_position \<Rightarrow> f64" where
  "closing_value p = (if pp_Mark p \<le> 0 \<and> 0 < pp_Cost p then pp_Cost p else pp_MarketValue p)"

definition closing_mark :: "paper_position \<Rightarrow> f64" where
  "closing_mark p = (if pp_Mark p \<le> 0 \<and> 0 < pp_Cost p \<and> 0 < pp_CostPrice p then pp_CostPrice p else pp_Mark p)"

definition ResetPool :: "string \<Rightarrow> int \<Rightarrow> paper \<Rightarrow> paper" where
  "ResetPool key now e0 =
     (let mine = filter (\<lambda>kp. pp_StrategyType (snd kp) = key) (pe_positions e0);
          proceeds = foldl (\<lambda>a kp. a + closing_value (snd kp)) 0 mine;
          e = foldl (\<lambda>e kp. mirrorCloseLocked (fst kp) (closing_mark (snd kp)) (pp_Qty (snd kp)) (Plain [CHR 0xE5, CHR 0x88, CHR 0x86, CHR 0xE4, CHR 0xBB, CHR 0x93, CHR 0xE6, CHR 0xB8, CHR 0x85, CHR 0xE7, CHR 0x9B, CHR 0x98]) e) e0 mine;
          e = e\<lparr>pe_positions := filter (\<lambda>kp. pp_StrategyType (snd kp) \<noteq> key) (pe_positions e)\<rparr>;
          e = (if 0 < proceeds then e\<lparr>pe_pools := AList.update key (get_or 0 (pe_pools e) key + proceeds) (pe_pools e),
                                      pe_cash := pe_cash e + proceeds\<rparr> else e);
          e = (if map_of (pe_poolPerf e) key = None then e else e\<lparr>pe_poolPerf := AList.update key no_perf (pe_poolPerf e)\<rparr>)
      in persist now (e\<lparr>pe_poolDiscipline := AList.delete key (pe_poolDiscipline e),
           pe_trades := filter (\<lambda>t. pt_StrategyType t \<noteq> key) (pe_trades e)\<rparr>))"

section \<open>Who is held\<close>

definition Holds :: "string \<Rightarrow> paper \<Rightarrow> bool" where
  "Holds code e \<longleftrightarrow> code \<noteq> [] \<and> (case map_of (pe_positions e) code of None \<Rightarrow> False | Some p \<Rightarrow> 0 < pp_Qty p)"

text \<open>What the unified disposal probes: code, name, entry price and quantity of each position.\<close>

definition SellProbes :: "paper \<Rightarrow> (string \<times> string \<times> f64 \<times> int) list" where
  "SellProbes e = map (\<lambda>p. (pp_Code p, pp_Name p, pp_CostPrice p, pp_Qty p)) (filter (\<lambda>p. 0 < pp_Qty p) (map snd (pe_positions e)))"

section \<open>T+0 layers\<close>

record position_layers =
  ly_BaseQty :: int
  ly_IntradayQty :: int
  ly_Sellable :: int
  ly_TotalQty :: int
  ly_WeightedCost :: f64

definition no_layers :: position_layers where
  "no_layers = \<lparr>ly_BaseQty = 0, ly_IntradayQty = 0, ly_Sellable = 0, ly_TotalQty = 0, ly_WeightedCost = 0\<rparr>"

definition AllocLayers :: "int \<Rightarrow> f64 \<Rightarrow> int \<Rightarrow> int \<Rightarrow> position_layers" where
  "AllocLayers qty costPrice filledAt now =
     (if qty \<le> 0 then no_layers
      else let l = no_layers\<lparr>ly_TotalQty := qty, ly_WeightedCost := costPrice\<rparr>
           in if canSellToday filledAt now then l\<lparr>ly_BaseQty := qty, ly_Sellable := qty\<rparr> else l\<lparr>ly_IntradayQty := qty\<rparr>)"

definition layer_of :: "int \<Rightarrow> paper_position \<Rightarrow> position_layers" where
  "layer_of now p = AllocLayers (pp_Qty p) (pp_CostPrice p) (pp_FilledAt p) now"

definition add_layer :: "int \<Rightarrow> position_layers \<times> f64 \<Rightarrow> paper_position \<Rightarrow> position_layers \<times> f64" where
  "add_layer now acc p =
     (let out = fst acc; l = layer_of now p
      in (out\<lparr>ly_TotalQty := wrap64 (ly_TotalQty out + ly_TotalQty l), ly_BaseQty := wrap64 (ly_BaseQty out + ly_BaseQty l),
            ly_IntradayQty := wrap64 (ly_IntradayQty out + ly_IntradayQty l), ly_Sellable := wrap64 (ly_Sellable out + ly_Sellable l)\<rparr>,
          if 0 < ly_TotalQty l then snd acc + pp_CostPrice p * f64_of_int (ly_TotalQty l) else snd acc))"

definition AllocLayersAcross :: "paper_position option list \<Rightarrow> int \<Rightarrow> position_layers" where
  "AllocLayersAcross ps now =
     (case foldl (\<lambda>acc q. case q of None \<Rightarrow> acc | Some p \<Rightarrow> add_layer now acc p) (no_layers, 0) ps of
        (out, costSum) \<Rightarrow> if 0 < ly_TotalQty out then out\<lparr>ly_WeightedCost := costSum / f64_of_int (ly_TotalQty out)\<rparr> else out)"

definition T0Cap :: "int \<Rightarrow> f64 \<Rightarrow> int" where
  "T0Cap totalQty maxPct0 =
     (if totalQty \<le> 0 then 0
      else let maxPct = (if maxPct0 \<le> 0 then lit (3/10) else maxPct0); maxPct = (if 1 < maxPct then 1 else maxPct);
               cap = int_of_f64 (f64_of_int totalQty * maxPct)
           in if totalQty < cap then totalQty else cap)"

definition T0Settle :: "position_layers \<Rightarrow> int \<Rightarrow> f64 \<Rightarrow> f64 \<Rightarrow> f64 \<times> f64 \<times> f64" where
  "T0Settle layers buyQty buyPrice sellPrice =
     (let sellQty = (if ly_Sellable layers < buyQty then ly_Sellable layers else buyQty)
      in if buyQty \<le> 0 \<or> sellPrice - buyPrice < 0 \<or> sellQty \<le> 0 then (0, 0, ly_WeightedCost layers)
         else let spread = (sellPrice - buyPrice) * f64_of_int sellQty; improve = (ly_WeightedCost layers - buyPrice) / Fin 2;
                  costImprove = improve * f64_of_int sellQty * lit (995/1000)
              in if ly_TotalQty layers \<le> 0 then (spread, costImprove, ly_WeightedCost layers)
                 else (spread, costImprove, if ly_WeightedCost layers - improve < 0 then 0 else ly_WeightedCost layers - improve))"

end
