(* ===== verification/PaperDesk.thy ===== *)
theory PaperDesk
  imports PaperPools Interfaces
begin

text \<open>
  The abstract desk the paper account promises to be: who holds how many shares since when, what is lent short,
  and how often each pool bought today. Six moves change it. \<open>paper_step\<close> runs one operation of the account;
  the lemmas on \<open>traces\<close> and \<open>follows\<close> show that each trading operation is a sequence of moves, so that a limit of the desk is
  shown once, by rule induction on the moves.
\<close>

section \<open>The desk and its moves\<close>

record desk =
  dk_long :: "string \<rightharpoonup> string \<times> int \<times> int"
  dk_short :: "string \<rightharpoonup> int \<times> int"
  dk_buys :: "string \<Rightarrow> int"

record limits =
  lm_positions :: int
  lm_pool :: "string \<Rightarrow> int"
  lm_daily :: "string \<Rightarrow> int"

definition pool_codes :: "string \<Rightarrow> desk \<Rightarrow> string set" where
  "pool_codes k d = {c. \<exists>n t. dk_long d c = Some (k, n, t)}"

definition room :: "limits \<Rightarrow> string \<Rightarrow> desk \<Rightarrow> bool" where
  "room lm k d \<longleftrightarrow> (0 < lm_positions lm \<longrightarrow> int (card (dom (dk_long d))) < lm_positions lm) \<and>
     (0 < lm_pool lm k \<longrightarrow> int (card (pool_codes k d)) < lm_pool lm k)"

definition may_buy :: "limits \<Rightarrow> string \<Rightarrow> desk \<Rightarrow> bool" where
  "may_buy lm k d \<longleftrightarrow> (0 < lm_daily lm k \<longrightarrow> dk_buys d k < lm_daily lm k)"

definition placed :: "string \<Rightarrow> (string \<times> int \<times> int) option \<Rightarrow> desk \<Rightarrow> desk" where
  "placed c h d = d\<lparr>dk_long := (dk_long d)(c := h)\<rparr>"

definition counted :: "string \<Rightarrow> desk \<Rightarrow> desk" where
  "counted k d = d\<lparr>dk_buys := (dk_buys d)(k := dk_buys d k + 1)\<rparr>"

inductive move :: "limits \<Rightarrow> int \<Rightarrow> desk \<Rightarrow> desk \<Rightarrow> bool" for lm :: limits and now :: int where
  open_long: "dk_long d c = None \<Longrightarrow> room lm k d \<Longrightarrow> may_buy lm k d \<Longrightarrow> move lm now d (counted k (placed c (Some (k, n, now)) d))"
| add_long: "dk_long d c = Some (k, n, t) \<Longrightarrow> may_buy lm k d \<Longrightarrow> 0 < q \<Longrightarrow>
    move lm now d (counted k (placed c (Some (k, wrap64 (n + q), t)) d))"
| reduce_long: "dk_long d c = Some (k, n, t) \<Longrightarrow> DayOf t \<noteq> DayOf now \<Longrightarrow> 0 < m \<Longrightarrow> m < n \<Longrightarrow> move lm now d (placed c (Some (k, n - m, t)) d)"
| close_long: "dk_long d c = Some (k, n, t) \<Longrightarrow> DayOf t \<noteq> DayOf now \<Longrightarrow> move lm now d (placed c None d)"
| open_short: "dk_short d c = None \<Longrightarrow> move lm now d (d\<lparr>dk_short := (dk_short d)(c \<mapsto> (n, now))\<rparr>)"
| cover_short: "dk_short d c = Some (n, t) \<Longrightarrow> DayOf t \<noteq> DayOf now \<Longrightarrow> move lm now d (d\<lparr>dk_short := (dk_short d)(c := None)\<rparr>)"

abbreviation moves :: "limits \<Rightarrow> int \<Rightarrow> desk \<Rightarrow> desk \<Rightarrow> bool" where
  "moves lm now \<equiv> (move lm now)\<^sup>*\<^sup>*"

section \<open>The account seen as a desk\<close>

definition outline :: "('v \<Rightarrow> 'w) \<Rightarrow> ('k \<times> 'v) list \<Rightarrow> ('k \<times> 'w) list" where
  "outline f m = map (\<lambda>(k, v). (k, f v)) m"

definition brief_long :: "paper_position \<Rightarrow> string \<times> int \<times> int" where
  "brief_long p = (pp_StrategyType p, pp_Qty p, pp_FilledAt p)"

definition brief_short :: "short_position \<Rightarrow> int \<times> int" where
  "brief_short s = (sp_Qty s, sp_FilledAt s)"

definition buys_today :: "string \<Rightarrow> paper \<Rightarrow> string \<Rightarrow> int" where
  "buys_today day e k = (case map_of (pe_poolDiscipline e) k of None \<Rightarrow> 0 | Some d \<Rightarrow> if pd_day d = day then pd_buysToday d else 0)"

definition desk_of :: "string \<Rightarrow> paper \<Rightarrow> desk" where
  "desk_of day e = \<lparr>dk_long = map_of (outline brief_long (pe_positions e)), dk_short = map_of (outline brief_short (pe_shorts e)),
     dk_buys = buys_today day e\<rparr>"

definition limits_of :: "paper \<Rightarrow> limits" where
  "limits_of e = \<lparr>lm_positions = pc_MaxPositions (pe_cfg e), lm_pool = get_or 0 (pe_poolMaxPos e),
     lm_daily = (\<lambda>k. case map_of (pe_poolBuyRules e) k of None \<Rightarrow> 0 | Some r \<Rightarrow> br_MaxDailyBuys r)\<rparr>"

definition keyed_by :: "('v \<Rightarrow> 'k) \<Rightarrow> ('k \<times> 'v) list \<Rightarrow> bool" where
  "keyed_by f m \<longleftrightarrow> distinct (map fst m) \<and> (\<forall>k v. map_of m k = Some v \<longrightarrow> f v = k)"

definition keyed :: "paper \<Rightarrow> bool" where
  "keyed e \<longleftrightarrow> keyed_by pp_Code (pe_positions e) \<and> keyed_by sp_Code (pe_shorts e)"

definition buys_logged :: "string \<Rightarrow> string \<Rightarrow> paper \<Rightarrow> int" where
  "buys_logged day k e = int (length (filter (\<lambda>t. pt_Side t = ''buy'' \<and> pt_StrategyType t = k \<and> DayOf (pt_Time t) = day) (pe_trades e)))"

section \<open>The operations of the account\<close>

datatype paper_op =
    DoSignals "paper_signal list" quotes
  | DoBuy string string string string f64 quotes
  | DoBuyEx string string string string f64 f64 int quotes
  | DoSell string quotes
  | DoSellEx string f64 int quotes
  | DoUnifiedSell string disposal f64 string
  | DoShortOpen string string string string f64 quotes
  | DoShortCover string f64 quotes
  | DoShortCoverManual string quotes
  | DoMark quotes
  | DoSnapshot
  | DoBuyRule string "pool_buy_rule option"
  | DoMinScore string f64
  | DoIR string f64
  | DoABGroup string string
  | DoStrategyPools "string list"
  | DoEnsurePool string
  | DoAllocs "(string \<times> f64) list"
  | DoResetAllocs
  | DoDeposit f64
  | DoMaxPositions int
  | DoPoolCaps "(string \<times> int) list"
  | DoInitialCapital f64
  | DoConfig paper_config
  | DoMirror bool bool
  | DoReconfigure f64 int
  | DoReset
  | DoResetPool string

fun trade_step :: "int \<Rightarrow> paper_op \<Rightarrow> paper \<Rightarrow> paper" where
  "trade_step now (DoSignals sigs quotes) e = OnSignals sigs quotes now e"
| "trade_step now (DoBuy code name strategy pool signalPrice quotes) e = fst (BuyInPool code name strategy pool signalPrice quotes now e)"
| "trade_step now (DoBuyEx code name strategy pool signalPrice price qty quotes) e =
     fst (BuyExInPool code name strategy pool signalPrice price qty quotes now e)"
| "trade_step now (DoSell code quotes) e = fst (Sell code quotes now e)"
| "trade_step now (DoSellEx code price qty quotes) e = fst (SellEx code price qty quotes now e)"
| "trade_step now (DoUnifiedSell code act price reason) e = fst (ApplyUnifiedSell code act price reason now e)"
| "trade_step now (DoShortOpen code name strategy kind signalPrice quotes) e = fst (ShortOpenManual code name strategy kind signalPrice quotes now e)"
| "trade_step now (DoShortCover code price quotes) e = fst (ShortCover code price quotes now e)"
| "trade_step now (DoShortCoverManual code quotes) e = fst (ShortCoverManual code quotes now e)"
| "trade_step now (DoMark quotes) e = MarkToMarket quotes now e"
| "trade_step now DoSnapshot e = Snapshot now e"
| "trade_step now _ e = e"

fun admin_step :: "int \<Rightarrow> paper_op \<Rightarrow> paper \<Rightarrow> paper" where
  "admin_step now (DoBuyRule k rule) e = SetPoolBuyRule k rule now e"
| "admin_step now (DoMinScore k minScore) e = ApplyPoolMinScore k minScore now e"
| "admin_step now (DoIR k ir) e = SetPoolIR k ir now e"
| "admin_step now (DoABGroup k label) e = SetPoolABGroup k label now e"
| "admin_step now (DoStrategyPools types) e = SetStrategyPools types e"
| "admin_step now (DoEnsurePool k) e = fst (EnsurePool k now e)"
| "admin_step now (DoAllocs allocs) e = SetPoolAllocs allocs now e"
| "admin_step now DoResetAllocs e = ResetPoolAllocs now e"
| "admin_step now (DoDeposit amount) e = Deposit amount now e"
| "admin_step now (DoMaxPositions n) e = SetMaxPositions n now e"
| "admin_step now (DoPoolCaps caps) e = SetPoolCaps caps now e"
| "admin_step now (DoInitialCapital v) e = SetInitialCapital v e"
| "admin_step now (DoConfig cfg) e = UpdateConfig_paper cfg e"
| "admin_step now (DoMirror a b) e = SetMirror a b e"
| "admin_step now (DoReconfigure capital n) e = Reconfigure capital n now e"
| "admin_step now DoReset e = Reset now e"
| "admin_step now (DoResetPool k) e = ResetPool k now e"
| "admin_step now _ e = e"

fun trades :: "paper_op \<Rightarrow> bool" where
  "trades (DoSignals _ _) = True"
| "trades (DoBuy _ _ _ _ _ _) = True"
| "trades (DoBuyEx _ _ _ _ _ _ _ _) = True"
| "trades (DoSell _ _) = True"
| "trades (DoSellEx _ _ _ _) = True"
| "trades (DoUnifiedSell _ _ _ _) = True"
| "trades (DoShortOpen _ _ _ _ _ _) = True"
| "trades (DoShortCover _ _ _) = True"
| "trades (DoShortCoverManual _ _) = True"
| "trades (DoMark _) = True"
| "trades DoSnapshot = True"
| "trades _ = False"

fun paper_step :: "paper \<Rightarrow> paper_op \<times> int \<Rightarrow> paper" where
  "paper_step e (op, now) = (if trades op then trade_step now op e else admin_step now op e)"

definition traces :: "int \<Rightarrow> paper \<Rightarrow> paper \<Rightarrow> bool" where
  "traces now e e' \<longleftrightarrow> (keyed e \<longrightarrow> keyed e' \<and> limits_of e' = limits_of e \<and>
     moves (limits_of e) now (desk_of (DayOf now) e) (desk_of (DayOf now) e') \<and>
     (\<forall>k. buys_logged (DayOf now) k e' + buys_today (DayOf now) e k \<le> buys_logged (DayOf now) k e + buys_today (DayOf now) e' k))"

text \<open>
  A position filled today is locked. Every operation but an add to it leaves a locked position as it is:
  \<open>follows\<close> is \<open>traces\<close> with that promise.
\<close>

definition locked_kept :: "string \<Rightarrow> desk \<Rightarrow> desk \<Rightarrow> bool" where
  "locked_kept day d d' \<longleftrightarrow> (\<forall>c k n t. dk_long d c = Some (k, n, t) \<longrightarrow> DayOf t = day \<longrightarrow> dk_long d' c = Some (k, n, t))"

definition follows :: "int \<Rightarrow> paper \<Rightarrow> paper \<Rightarrow> bool" where
  "follows now e e' \<longleftrightarrow> traces now e e' \<and> (keyed e \<longrightarrow> locked_kept (DayOf now) (desk_of (DayOf now) e) (desk_of (DayOf now) e'))"

text \<open>The shares of a code that an operation asks to add to a position.\<close>

fun asked :: "string \<Rightarrow> paper_op \<Rightarrow> int" where
  "asked c (DoBuyEx code _ _ _ _ _ qty _) = (if code = c then max 0 qty else 0)"
| "asked c _ = 0"

end
