(* ===== verification/PaperMoves.thy ===== *)
theory PaperMoves
  imports PaperDesk
begin

text \<open>
  Each trading operation of the paper account follows the desk: it is a sequence of the moves of
  \<open>PaperDesk\<close>, keeps the lists well keyed and the limits as they are, and logs no buy that is not counted.
\<close>

section \<open>Association lists\<close>

lemma map_of_outline [simp]: "map_of (outline f m) k = map_option f (map_of m k)"
  by (simp add: outline_def map_of_map)

lemma outline_fst [simp]: "map fst (outline f m) = map fst m"
  by (induction m) (auto simp: outline_def)

lemma outline_update_same: "map_of m k = Some v \<Longrightarrow> f w = f v \<Longrightarrow> outline f (AList.update k w m) = outline f m"
  by (induction m) (auto simp: outline_def)

lemma outline_Cons [simp]: "outline f ((k, v) # m) = (k, f v) # outline f m" "outline f [] = []"
  by (simp_all add: outline_def)

lemma keyed_by_outline: "keyed_by f m \<longleftrightarrow> keyed_by id (outline f m)"
  by (auto simp: keyed_by_def)

lemma keyed_by_update: "keyed_by f m \<Longrightarrow> f v = k \<Longrightarrow> keyed_by f (AList.update k v m)"
  by (auto simp: keyed_by_def distinct_update update_conv')

lemma keyed_by_delete: "keyed_by f m \<Longrightarrow> keyed_by f (AList.delete k m)"
  unfolding keyed_by_def delete_conv' by (auto intro: distinct_delete)

lemma map_of_filter_Some: "distinct (map fst m) \<Longrightarrow> map_of (filter P m) k = Some v \<Longrightarrow> map_of m k = Some v"
  by (drule map_of_SomeD) simp

lemma keyed_by_filter: "keyed_by f m \<Longrightarrow> keyed_by f (filter P m)"
  using map_of_filter_Some [of m P] by (fastforce simp: keyed_by_def distinct_map inj_on_def)

lemma keyed_key: "keyed_by f m \<Longrightarrow> map_of m k = Some v \<Longrightarrow> f v = k"
  by (simp add: keyed_by_def)

lemma card_keys: "distinct (map fst m) \<Longrightarrow> card (dom (map_of m)) = length m"
  by (metis dom_map_of_conv_image_fst distinct_card image_set length_map)

lemma card_matching:
  assumes "distinct (map fst m)"
  shows "card {k. \<exists>v. map_of m k = Some v \<and> P v} = length (filter (\<lambda>kv. P (snd kv)) m)"
proof -
  have "{k. \<exists>v. map_of m k = Some v \<and> P v} = fst ` set (filter (\<lambda>kv. P (snd kv)) m)"
    using assms by (force simp: image_iff)
  moreover have "distinct (map fst (filter (\<lambda>kv. P (snd kv)) m))"
    using assms by (simp add: distinct_map inj_on_def)
  ultimately show ?thesis using distinct_card by (metis image_set length_map)
qed

section \<open>Following\<close>

lemma traces_refl [simp]: "traces now e e"
  by (simp add: traces_def)

lemma traces_trans:
  assumes "traces now e e1" "traces now e1 e2"
  shows "traces now e e2"
  unfolding traces_def
proof (intro impI conjI allI)
  assume k: "keyed e"
  have 1: "keyed e1" "limits_of e1 = limits_of e" "moves (limits_of e) now (desk_of (DayOf now) e) (desk_of (DayOf now) e1)"
    "buys_logged (DayOf now) k e1 + buys_today (DayOf now) e k \<le> buys_logged (DayOf now) k e + buys_today (DayOf now) e1 k" for k
    using assms(1) k by (simp_all add: traces_def)
  have 2: "keyed e2" "limits_of e2 = limits_of e1" "moves (limits_of e1) now (desk_of (DayOf now) e1) (desk_of (DayOf now) e2)"
    "buys_logged (DayOf now) k e2 + buys_today (DayOf now) e1 k \<le> buys_logged (DayOf now) k e1 + buys_today (DayOf now) e2 k" for k
    using assms(2) 1(1) by (simp_all add: traces_def)
  show "keyed e2" "limits_of e2 = limits_of e" using 1 2 by simp_all
  show "moves (limits_of e) now (desk_of (DayOf now) e) (desk_of (DayOf now) e2)"
    using 1(3) 2(3) unfolding 1(2) by (rule rtranclp_trans)
  show "buys_logged (DayOf now) k e2 + buys_today (DayOf now) e k \<le> buys_logged (DayOf now) k e + buys_today (DayOf now) e2 k" for k
    using 1(4) [of k] 2(4) [of k] by linarith
qed

lemma follows_traces: "follows now e e' \<Longrightarrow> traces now e e'"
  by (simp add: follows_def)

lemma follows_refl [simp]: "follows now e e"
  by (simp add: follows_def locked_kept_def)

lemma follows_trans [trans]:
  assumes "follows now e e1" "follows now e1 e2"
  shows "follows now e e2"
  using assms traces_trans [of now e e1 e2] by (auto simp: follows_def traces_def locked_kept_def)

text \<open>What the desk does not see.\<close>

definition unseen :: "paper \<Rightarrow> paper \<Rightarrow> bool" where
  "unseen e e' \<longleftrightarrow> outline (\<lambda>p. (pp_Code p, brief_long p)) (pe_positions e') = outline (\<lambda>p. (pp_Code p, brief_long p)) (pe_positions e) \<and>
     outline (\<lambda>s. (sp_Code s, brief_short s)) (pe_shorts e') = outline (\<lambda>s. (sp_Code s, brief_short s)) (pe_shorts e) \<and>
     pe_poolDiscipline e' = pe_poolDiscipline e \<and> limits_of e' = limits_of e \<and> (\<forall>day k. buys_logged day k e' \<le> buys_logged day k e)"

lemma outline_outline: "outline g (outline f m) = outline (\<lambda>v. g (f v)) m"
  by (auto simp: outline_def)

lemma outline_pair:
  assumes "outline (\<lambda>v. (f v, g v)) m' = outline (\<lambda>v. (f v, g v)) m"
  shows "outline f m' = outline f m" "outline g m' = outline g m"
proof -
  have "outline fst (outline (\<lambda>v. (f v, g v)) m') = outline fst (outline (\<lambda>v. (f v, g v)) m)" by (simp only: assms)
  then show "outline f m' = outline f m" by (simp add: outline_outline)
  have "outline snd (outline (\<lambda>v. (f v, g v)) m') = outline snd (outline (\<lambda>v. (f v, g v)) m)" by (simp only: assms)
  then show "outline g m' = outline g m" by (simp add: outline_outline)
qed

lemma unseen_desk:
  assumes "unseen e e'"
  shows "desk_of day e' = desk_of day e"
proof -
  have "outline brief_long (pe_positions e') = outline brief_long (pe_positions e)"
    using assms unfolding unseen_def by (elim conjE) (rule outline_pair(2))
  moreover have "outline brief_short (pe_shorts e') = outline brief_short (pe_shorts e)"
    using assms unfolding unseen_def by (elim conjE) (rule outline_pair(2))
  moreover have "buys_today day e' = buys_today day e"
    using assms by (simp add: unseen_def buys_today_def fun_eq_iff)
  ultimately show ?thesis by (simp only: desk_of_def)
qed

lemma unseen_keyed:
  assumes "unseen e e'"
  shows "keyed e' = keyed e"
proof -
  have "outline pp_Code (pe_positions e') = outline pp_Code (pe_positions e)"
    using assms unfolding unseen_def by (elim conjE) (rule outline_pair(1))
  moreover have "outline sp_Code (pe_shorts e') = outline sp_Code (pe_shorts e)"
    using assms unfolding unseen_def by (elim conjE) (rule outline_pair(1))
  ultimately show ?thesis
    by (simp only: keyed_def keyed_by_outline [of pp_Code] keyed_by_outline [of sp_Code])
qed

lemma unseen_traces: "unseen e e' \<Longrightarrow> traces now e e'"
  unfolding traces_def by (auto simp: unseen_desk unseen_keyed) (auto simp: unseen_def buys_today_def)

lemma unseen_follows: "unseen e e' \<Longrightarrow> follows now e e'"
  by (simp add: follows_def unseen_traces unseen_desk locked_kept_def)

lemma buys_logged_filter:
  assumes "pe_trades e' = filter P (pe_trades e)"
  shows "buys_logged day k e' \<le> buys_logged day k e"
proof -
  have "length (filter Q (filter P ts)) \<le> length (filter Q ts)" for Q and ts :: "paper_trade list"
    by (induction ts) auto
  then show ?thesis by (simp only: buys_logged_def assms zle_int)
qed

lemma buys_logged_same: "pe_trades e' = pe_trades e \<Longrightarrow> buys_logged day k e' = buys_logged day k e"
  by (simp add: buys_logged_def)

lemma unseenI:
  assumes "pe_positions e' = pe_positions e" "pe_shorts e' = pe_shorts e" "pe_poolDiscipline e' = pe_poolDiscipline e"
    "limits_of e' = limits_of e" "pe_trades e' = pe_trades e"
  shows "unseen e e'"
  using assms by (simp add: unseen_def buys_logged_def)

lemma limits_same: "pe_cfg e' = pe_cfg e \<Longrightarrow> pe_poolMaxPos e' = pe_poolMaxPos e \<Longrightarrow> pe_poolBuyRules e' = pe_poolBuyRules e \<Longrightarrow> limits_of e' = limits_of e"
  by (simp add: limits_of_def)

lemma persist_trades: "\<exists>P. pe_trades (persist now e) = filter P (pe_trades e)"
  by (auto simp: persist_def trimTradesLocked_def Let_def intro: exI [of _ "\<lambda>_. True"])

lemma persist_fields [simp]:
  "pe_positions (persist now e) = pe_positions e" "pe_shorts (persist now e) = pe_shorts e"
  "pe_poolDiscipline (persist now e) = pe_poolDiscipline e" "limits_of (persist now e) = limits_of e"
  "pe_cfg (persist now e) = pe_cfg e" "pe_poolMaxPos (persist now e) = pe_poolMaxPos e"
  "pe_poolBuyRules (persist now e) = pe_poolBuyRules e" "pe_pools (persist now e) = pe_pools e"
  "pe_cash (persist now e) = pe_cash e" "pe_shortCash (persist now e) = pe_shortCash e"
  "pe_shortOpenSeen (persist now e) = pe_shortOpenSeen e" "pe_shortFeeDone (persist now e) = pe_shortFeeDone e"
  by (simp_all add: persist_def trimTradesLocked_def Let_def limits_of_def)

lemma persist_unseen: "unseen e (persist now e)"
  using persist_trades [of now e] buys_logged_filter by (fastforce simp: unseen_def)


lemma unseen_updates [simp]:
  "buys_today day (e\<lparr>pe_positions := x0\<rparr>) = buys_today day e" "limits_of (e\<lparr>pe_positions := x0\<rparr>) = limits_of e"
  "buys_today day (e\<lparr>pe_trades := x1\<rparr>) = buys_today day e" "limits_of (e\<lparr>pe_trades := x1\<rparr>) = limits_of e"
  "buys_today day (e\<lparr>pe_orders := x2\<rparr>) = buys_today day e" "limits_of (e\<lparr>pe_orders := x2\<rparr>) = limits_of e"
  "buys_today day (e\<lparr>pe_shorts := x3\<rparr>) = buys_today day e" "limits_of (e\<lparr>pe_shorts := x3\<rparr>) = limits_of e"
  "buys_today day (e\<lparr>pe_pools := x4\<rparr>) = buys_today day e" "limits_of (e\<lparr>pe_pools := x4\<rparr>) = limits_of e"
  "buys_today day (e\<lparr>pe_cash := x5\<rparr>) = buys_today day e" "limits_of (e\<lparr>pe_cash := x5\<rparr>) = limits_of e"
  "buys_today day (e\<lparr>pe_hasFilled := x6\<rparr>) = buys_today day e" "limits_of (e\<lparr>pe_hasFilled := x6\<rparr>) = limits_of e"
  "buys_today day (e\<lparr>pe_poolPerf := x7\<rparr>) = buys_today day e" "limits_of (e\<lparr>pe_poolPerf := x7\<rparr>) = limits_of e"
  "buys_today day (e\<lparr>pe_realized := x8\<rparr>) = buys_today day e" "limits_of (e\<lparr>pe_realized := x8\<rparr>) = limits_of e"
  "buys_today day (e\<lparr>pe_lastBuyReject := x9\<rparr>) = buys_today day e" "limits_of (e\<lparr>pe_lastBuyReject := x9\<rparr>) = limits_of e"
  "buys_today day (e\<lparr>pe_lastClose := x10\<rparr>) = buys_today day e" "limits_of (e\<lparr>pe_lastClose := x10\<rparr>) = limits_of e"
  "buys_today day (e\<lparr>pe_mirrored := x11\<rparr>) = buys_today day e" "limits_of (e\<lparr>pe_mirrored := x11\<rparr>) = limits_of e"
  "buys_today day (e\<lparr>pe_trimDone := x12\<rparr>) = buys_today day e" "limits_of (e\<lparr>pe_trimDone := x12\<rparr>) = limits_of e"
  "buys_today day (e\<lparr>pe_shortCash := x13\<rparr>) = buys_today day e" "limits_of (e\<lparr>pe_shortCash := x13\<rparr>) = limits_of e"
  "buys_today day (e\<lparr>pe_shortRealized := x14\<rparr>) = buys_today day e" "limits_of (e\<lparr>pe_shortRealized := x14\<rparr>) = limits_of e"
  "buys_today day (e\<lparr>pe_shortFeeDone := x15\<rparr>) = buys_today day e" "limits_of (e\<lparr>pe_shortFeeDone := x15\<rparr>) = limits_of e"
  "buys_today day (e\<lparr>pe_shortOpenSeen := x16\<rparr>) = buys_today day e" "limits_of (e\<lparr>pe_shortOpenSeen := x16\<rparr>) = limits_of e"
  "buys_today day (e\<lparr>pe_equity := x17\<rparr>) = buys_today day e" "limits_of (e\<lparr>pe_equity := x17\<rparr>) = limits_of e"
  by (simp_all add: buys_today_def limits_of_def fun_eq_iff)

lemma logged_updates [simp]:
  "buys_logged day k (e\<lparr>pe_positions := x0\<rparr>) = buys_logged day k e"
  "buys_logged day k (e\<lparr>pe_orders := x2\<rparr>) = buys_logged day k e"
  "buys_logged day k (e\<lparr>pe_shorts := x3\<rparr>) = buys_logged day k e"
  "buys_logged day k (e\<lparr>pe_pools := x4\<rparr>) = buys_logged day k e"
  "buys_logged day k (e\<lparr>pe_cash := x5\<rparr>) = buys_logged day k e"
  "buys_logged day k (e\<lparr>pe_hasFilled := x6\<rparr>) = buys_logged day k e"
  "buys_logged day k (e\<lparr>pe_poolPerf := x7\<rparr>) = buys_logged day k e"
  "buys_logged day k (e\<lparr>pe_realized := x8\<rparr>) = buys_logged day k e"
  "buys_logged day k (e\<lparr>pe_lastBuyReject := x9\<rparr>) = buys_logged day k e"
  "buys_logged day k (e\<lparr>pe_lastClose := x10\<rparr>) = buys_logged day k e"
  "buys_logged day k (e\<lparr>pe_mirrored := x11\<rparr>) = buys_logged day k e"
  "buys_logged day k (e\<lparr>pe_trimDone := x12\<rparr>) = buys_logged day k e"
  "buys_logged day k (e\<lparr>pe_shortCash := x13\<rparr>) = buys_logged day k e"
  "buys_logged day k (e\<lparr>pe_shortRealized := x14\<rparr>) = buys_logged day k e"
  "buys_logged day k (e\<lparr>pe_shortFeeDone := x15\<rparr>) = buys_logged day k e"
  "buys_logged day k (e\<lparr>pe_shortOpenSeen := x16\<rparr>) = buys_logged day k e"
  "buys_logged day k (e\<lparr>pe_equity := x17\<rparr>) = buys_logged day k e"
  by (simp_all add: buys_logged_def)

section \<open>Records and the purchase discipline\<close>

lemma follows_persist: "follows now e e' \<Longrightarrow> follows now e (persist now' e')"
  by (rule follows_trans, assumption, rule unseen_follows, rule persist_unseen)

lemma traces_persist: "traces now e e' \<Longrightarrow> traces now e (persist now' e')"
  by (rule traces_trans, assumption, rule unseen_traces, rule persist_unseen)

lemma record_unseen: "unseen e (recordOrderLocked o' e)"
  by (rule unseenI) (simp_all add: recordOrderLocked_def limits_of_def)

lemma reject_unseen: "unseen e (recordBuyRejectLocked o' r e)"
  by (rule unseenI) (simp_all add: recordBuyRejectLocked_def recordOrderLocked_def limits_of_def)

lemma mirror_open_unseen: "unseen e (mirrorOpenLocked p e)"
  by (rule unseenI) (simp_all add: mirrorOpenLocked_def limits_of_def)

lemma mirror_close_unseen: "unseen e (mirrorCloseLocked c price n r e)"
  by (rule unseenI) (simp_all add: mirrorCloseLocked_def limits_of_def)

lemma field_unseen: "unseen e (e\<lparr>pe_lastClose := x1\<rparr>)" "unseen e (e\<lparr>pe_trimDone := x2\<rparr>)" "unseen e (e\<lparr>pe_lastBuyReject := x3\<rparr>)"
  "unseen e (e\<lparr>pe_equity := x4\<rparr>)"
  by (rule unseenI; simp add: limits_of_def)+

lemmas unseen_steps = record_unseen reject_unseen mirror_open_unseen mirror_close_unseen persist_unseen field_unseen

lemma follows_unseen: "follows now e e1 \<Longrightarrow> unseen e1 e2 \<Longrightarrow> follows now e e2"
  by (blast intro: follows_trans unseen_follows)

lemma buys_today_discipline: "buys_today (DayOf now) e k = pd_buysToday (discipline_of k now e)"
  by (simp add: buys_today_def discipline_of_def fresh_discipline_def split: option.split)

lemma discipline_day: "pd_day (discipline_of k now e) = DayOf now"
  by (simp add: discipline_of_def fresh_discipline_def split: option.split)

lemma buys_today_update:
  "buys_today day (e\<lparr>pe_poolDiscipline := AList.update k d (pe_poolDiscipline e)\<rparr>) =
     (buys_today day e)(k := if pd_day d = day then pd_buysToday d else 0)"
  by (simp add: buys_today_def fun_eq_iff update_conv')

lemma buys_today_cong: "pe_poolDiscipline e' = pe_poolDiscipline e \<Longrightarrow> buys_today day e' = buys_today day e"
  by (simp add: buys_today_def fun_eq_iff)

lemma check_fst:
  "fst (checkPoolDisciplinePre k conf man now e) = e\<lparr>pe_poolDiscipline := AList.update k (discipline_of k now e) (pe_poolDiscipline e)\<rparr>"
  by (simp add: checkPoolDisciplinePre_def Let_def)

lemma check_follows: "follows now e (fst (checkPoolDisciplinePre k conf man now e))"
proof -
  let ?e = "fst (checkPoolDisciplinePre k conf man now e)"
  have "buys_today (DayOf now) ?e = buys_today (DayOf now) e"
    by (simp add: check_fst buys_today_update discipline_day buys_today_discipline [symmetric])
  moreover have "desk_of (DayOf now) ?e = desk_of (DayOf now) e"
    using calculation by (simp add: desk_of_def check_fst)
  moreover have "limits_of ?e = limits_of e" "keyed ?e = keyed e" "buys_logged (DayOf now) k' ?e = buys_logged (DayOf now) k' e" for k'
    by (simp_all add: check_fst limits_of_def keyed_def buys_logged_def)
  ultimately show ?thesis by (simp add: follows_def traces_def locked_kept_def)
qed

lemma check_allows:
  assumes "checkPoolDisciplinePre k conf man now e = (e1, False)"
  shows "may_buy (limits_of e1) k (desk_of (DayOf now) e1)"
proof -
  have e1: "e1 = e\<lparr>pe_poolDiscipline := AList.update k (discipline_of k now e) (pe_poolDiscipline e)\<rparr>"
    and ok: "\<not> (case map_of (pe_poolBuyRules e) k of None \<Rightarrow> False | Some rule \<Rightarrow> rule_refuses rule (discipline_of k now e) conf man now)"
    using assms by (auto simp: checkPoolDisciplinePre_def Let_def)
  have "buys_today (DayOf now) e1 k = pd_buysToday (discipline_of k now e)"
    by (simp add: e1 buys_today_update discipline_day)
  then show ?thesis using ok
    by (auto simp: may_buy_def limits_of_def desk_of_def e1 rule_refuses_def split: option.splits)
qed

section \<open>Buying\<close>

lemma outline_updated: "map_of (outline f (AList.update k v m)) = (map_of (outline f m))(k \<mapsto> f v)"
  by (simp add: fun_eq_iff update_conv')

lemma outline_deleted: "map_of (outline f (AList.delete k m)) = (map_of (outline f m))(k := None)"
  by (simp add: fun_eq_iff delete_conv')

lemma long_of: "dk_long (desk_of day e) c = map_option brief_long (map_of (pe_positions e) c)"
  by (simp add: desk_of_def)

lemma short_of: "dk_short (desk_of day e) c = map_option brief_short (map_of (pe_shorts e) c)"
  by (simp add: desk_of_def)

lemma pool_codes_of:
  assumes "keyed e"
  shows "int (card (pool_codes k (desk_of day e))) = poolPositionCountLocked e k"
proof -
  have "pool_codes k (desk_of day e) = {c. \<exists>p. map_of (pe_positions e) c = Some p \<and> pp_StrategyType p = k}"
    by (auto simp: pool_codes_def desk_of_def brief_long_def)
  then show ?thesis
    using assms card_matching [of "pe_positions e" "\<lambda>p. pp_StrategyType p = k"]
    by (simp add: poolPositionCountLocked_def keyed_def keyed_by_def)
qed

lemma held_codes_of: "keyed e \<Longrightarrow> card (dom (dk_long (desk_of day e))) = length (pe_positions e)"
  using card_keys [of "outline brief_long (pe_positions e)"]
  by (simp add: desk_of_def keyed_def keyed_by_def) (simp add: outline_def)

lemma room_of: "keyed e \<Longrightarrow> \<not> cap_reached e \<Longrightarrow> \<not> pool_full e k \<Longrightarrow> room (limits_of e) k (desk_of day e)"
  by (auto simp: room_def held_codes_of pool_codes_of limits_of_def cap_reached_def pool_full_def Let_def)

lemma buys_today_bought:
  "buys_today (DayOf now) (recordPoolBuy k cost now e) = (buys_today (DayOf now) e)(k := buys_today (DayOf now) e k + 1)"
  by (simp add: recordPoolBuy_def Let_def buys_today_update discipline_day buys_today_discipline)

lemma pay_for_fields [simp]:
  "pe_positions (pay_for k cost fee now e) = pe_positions e" "pe_shorts (pay_for k cost fee now e) = pe_shorts e"
  "pe_trades (pay_for k cost fee now e) = pe_trades e" "limits_of (pay_for k cost fee now e) = limits_of e"
  by (simp_all add: pay_for_def Let_def add_perf_def recordPoolBuy_def limits_of_def)

lemma pay_for_buys: "buys_today (DayOf now) (pay_for k cost fee now e) = (buys_today (DayOf now) e)(k := buys_today (DayOf now) e k + 1)"
proof -
  let ?e = "e\<lparr>pe_pools := AList.update k (get_or 0 (pe_pools e) k - cost - fee) (pe_pools e), pe_cash := pe_cash e - (cost + fee), pe_hasFilled := True\<rparr>"
  have "buys_today (DayOf now) (pay_for k cost fee now e) = buys_today (DayOf now) (recordPoolBuy k cost now ?e)"
    by (rule buys_today_cong) (simp add: pay_for_def add_perf_def Let_def)
  also have "\<dots> = (buys_today (DayOf now) ?e)(k := buys_today (DayOf now) ?e k + 1)" by (rule buys_today_bought)
  also have "buys_today (DayOf now) ?e = buys_today (DayOf now) e" by (rule buys_today_cong) simp
  finally show ?thesis .
qed

text \<open>A state that differs from \<open>e\<close> by one bought lot, however its other figures look.\<close>

lemma bought_traces:
  assumes pos: "pe_positions e' = AList.update c p (pe_positions e)" and code: "keyed e \<Longrightarrow> pp_Code p = c"
    and shorts: "pe_shorts e' = pe_shorts e" and lm: "limits_of e' = limits_of e"
    and buys: "buys_today (DayOf now) e' = (buys_today (DayOf now) e)(k := buys_today (DayOf now) e k + 1)"
    and log: "pe_trades e' = pe_trades e @ [buy_trade k c name strategy sp price n now l fee reason]"
    and mv: "keyed e \<Longrightarrow> move (limits_of e) now (desk_of (DayOf now) e) (counted k (placed c (Some (brief_long p)) (desk_of (DayOf now) e)))"
  shows "traces now e e'"
  unfolding traces_def
proof (intro impI conjI allI)
  assume k: "keyed e"
  show "keyed e'" using k code by (simp add: keyed_def pos shorts keyed_by_update)
  show "limits_of e' = limits_of e" by (rule lm)
  have "desk_of (DayOf now) e' = counted k (placed c (Some (brief_long p)) (desk_of (DayOf now) e))"
    by (simp add: desk_of_def counted_def placed_def pos shorts buys outline_updated)
  then show "moves (limits_of e) now (desk_of (DayOf now) e) (desk_of (DayOf now) e')" using mv [OF k] by auto
  show "buys_logged (DayOf now) j e' + buys_today (DayOf now) e j \<le> buys_logged (DayOf now) j e + buys_today (DayOf now) e' j" for j
    by (simp add: buys_logged_def log buys buy_trade_def)
qed

lemma bought_follows:
  assumes pos: "pe_positions e' = AList.update c p (pe_positions e)" and new: "map_of (pe_positions e) c = None"
    and tr: "traces now e e'"
  shows "follows now e e'"
  using new tr by (auto simp: follows_def locked_kept_def desk_of_def pos outline_updated)

lemma brief_pos [simp]: "brief_long p = (k, n, t) \<longleftrightarrow> pp_StrategyType p = k \<and> pp_Qty p = n \<and> pp_FilledAt p = t"
  by (simp add: brief_long_def)

lemma book_buy_fields:
  obtains p fee l where "pe_positions (book_buy k c name strategy sp sa now price n reason e) = AList.update c p (pe_positions e)"
    "pp_Code p = c" "brief_long p = (k, n, now)"
    "pe_trades (book_buy k c name strategy sp sa now price n reason e) = pe_trades e @ [buy_trade k c name strategy sp price n now l fee reason]"
    "pe_shorts (book_buy k c name strategy sp sa now price n reason e) = pe_shorts e"
    "limits_of (book_buy k c name strategy sp sa now price n reason e) = limits_of e"
    "buys_today (DayOf now) (book_buy k c name strategy sp sa now price n reason e) = (buys_today (DayOf now) e)(k := buys_today (DayOf now) e k + 1)"
  by (rule that, simp add: book_buy_def Let_def, simp_all add: book_buy_def Let_def brief_long_def pay_for_buys)

lemma book_buy_follows:
  assumes "map_of (pe_positions e) c = None" "\<not> cap_reached e" "\<not> pool_full e k" "may_buy (limits_of e) k (desk_of (DayOf now) e)"
  shows "follows now e (book_buy k c name strategy sp sa now price n reason e)"
proof (rule book_buy_fields)
  fix p fee l
  assume *: "pe_positions (book_buy k c name strategy sp sa now price n reason e) = AList.update c p (pe_positions e)"
    "pp_Code p = c" "brief_long p = (k, n, now)"
    "pe_trades (book_buy k c name strategy sp sa now price n reason e) = pe_trades e @ [buy_trade k c name strategy sp price n now l fee reason]"
    "pe_shorts (book_buy k c name strategy sp sa now price n reason e) = pe_shorts e"
    "limits_of (book_buy k c name strategy sp sa now price n reason e) = limits_of e"
    "buys_today (DayOf now) (book_buy k c name strategy sp sa now price n reason e) = (buys_today (DayOf now) e)(k := buys_today (DayOf now) e k + 1)"
  have "move (limits_of e) now (desk_of (DayOf now) e) (counted k (placed c (Some (brief_long p)) (desk_of (DayOf now) e)))"
    if "keyed e"
    unfolding *(3) by (rule open_long) (use assms that in \<open>simp_all add: room_of long_of\<close>)
  then show ?thesis by (intro bought_follows [OF *(1) assms(1)] bought_traces [OF *(1,2,5,6,7,4)])
qed

lemma fill_follows:
  assumes "map_of (pe_positions e) c = None" "\<not> cap_reached e"
  shows "follows now e (fst (fillLocked k c name strategy sp sa now price qty reason conf man e))"
proof (cases "pool_full e k")
  case True
  then show ?thesis by (simp add: fillLocked_def)
next
  case False
  obtain e1 b where c: "checkPoolDisciplinePre k conf man now e = (e1, b)" by fastforce
  have f: "follows now e e1" using check_follows [of now e k conf man] by (simp add: c)
  have e1: "e1 = e\<lparr>pe_poolDiscipline := AList.update k (discipline_of k now e) (pe_poolDiscipline e)\<rparr>"
    using check_fst [of k conf man now e] by (simp add: c)
  show ?thesis
  proof (cases b)
    case True
    then show ?thesis using f False by (simp add: fillLocked_def c)
  next
    case F: False
    have "follows now e1 (book_buy k c name strategy sp sa now p n reason e1)" for p n
    proof (rule book_buy_follows)
      show "may_buy (limits_of e1) k (desk_of (DayOf now) e1)" using check_allows [of k conf man now e e1] c F by simp
      show "\<not> pool_full e1 k" using False by (simp add: e1 pool_full_def poolPositionCountLocked_def)
    qed (use assms in \<open>simp_all add: e1 cap_reached_def\<close>)
    then show ?thesis
      using False F f by (auto simp: fillLocked_def c Let_def intro: follows_trans split: option.splits sum.splits)
  qed
qed

lemma add_traces:
  assumes "map_of (pe_positions e) c = Some p"
  shows "traces now e (fst (addToPositionLocked p c name strategy sp price qty reason now e))"
proof -
  let ?k = "pp_StrategyType p"
  obtain e1 b where c: "checkPoolDisciplinePre ?k 1 True now e = (e1, b)" by fastforce
  have f: "traces now e e1" using follows_traces [OF check_follows [of now e ?k 1 True]] by (simp add: c)
  have e1: "e1 = e\<lparr>pe_poolDiscipline := AList.update ?k (discipline_of ?k now e) (pe_poolDiscipline e)\<rparr>"
    using check_fst [of ?k 1 True now e] by (simp add: c)
  have "traces now e1 (pay_for ?k cost fee now e1\<lparr>pe_positions := AList.update c
      (p\<lparr>pp_Cost := x, pp_Qty := wrap64 (pp_Qty p + qty), pp_CostPrice := y, pp_Mark := z\<rparr>) (pe_positions (pay_for ?k cost fee now e1)),
      pe_trades := pe_trades (pay_for ?k cost fee now e1) @ [buy_trade ?k c name strategy sp pr n now 0 fee reason]\<rparr>)"
    if "\<not> b" "0 < qty" for cost fee x y z pr n
  proof (rule bought_traces [where k = ?k and c = c])
    show "pp_Code (p\<lparr>pp_Cost := x, pp_Qty := wrap64 (pp_Qty p + qty), pp_CostPrice := y, pp_Mark := z\<rparr>) = c" if "keyed e1"
      using that assms by (auto simp: e1 keyed_def dest: keyed_key)
    have "dk_long (desk_of (DayOf now) e1) c = Some (?k, pp_Qty p, pp_FilledAt p)"
      using assms by (simp add: long_of e1 brief_long_def)
    then show "move (limits_of e1) now (desk_of (DayOf now) e1) (counted ?k (placed c (Some (brief_long (p\<lparr>pp_Cost := x, pp_Qty := wrap64 (pp_Qty p + qty), pp_CostPrice := y, pp_Mark := z\<rparr>))) (desk_of (DayOf now) e1)))"
      using that c check_allows [of ?k 1 True now e e1] by (auto simp: brief_long_def intro!: add_long)
  qed (simp_all add: pay_for_buys)
  then show ?thesis using f
    by (auto simp: addToPositionLocked_def c Let_def split: if_splits bool.splits intro!: traces_persist intro: traces_trans)
qed

text \<open>An add grows the one position, by what was asked for, or does nothing.\<close>

lemma add_grows:
  assumes "map_of (pe_positions e) code = Some p" "map_of (pe_positions e) c = Some p0"
    and "fst (addToPositionLocked p code name strategy sp price qty reason now e) = e'"
  shows "\<exists>q p'. 0 \<le> q \<and> q \<le> (if code = c then max 0 qty else 0) \<and> map_of (pe_positions e') c = Some p' \<and>
    pp_StrategyType p' = pp_StrategyType p0 \<and> pp_FilledAt p' = pp_FilledAt p0 \<and> (pp_Qty p' = pp_Qty p0 \<and> q = 0 \<or> pp_Qty p' = wrap64 (pp_Qty p0 + q))"
proof -
  have same: ?thesis if "map_of (pe_positions e') c = Some p0"
    using that by (intro exI [of _ 0] exI [of _ p0]) simp
  obtain e1 b where c: "checkPoolDisciplinePre (pp_StrategyType p) 1 True now e = (e1, b)" by fastforce
  have e1: "pe_positions e1 = pe_positions e" using check_fst [of "pp_StrategyType p" 1 True now e] by (simp add: c)
  consider "pe_positions e' = pe_positions e"
    | x y z where "0 < qty" "pe_positions e' = AList.update code (p\<lparr>pp_Cost := x, pp_Qty := wrap64 (pp_Qty p + qty), pp_CostPrice := y, pp_Mark := z\<rparr>) (pe_positions e)"
    using assms(3) e1 by (auto simp: addToPositionLocked_def c Let_def split: if_splits bool.splits)
  then show ?thesis
  proof cases
    case 1
    then show ?thesis using same assms(2) by simp
  next
    case (2 x y z)
    then show ?thesis using same assms(1,2) by (cases "code = c") (auto simp: update_conv' intro!: exI [of _ qty])
  qed
qed

section \<open>Selling\<close>

lemma unlogged: "pe_trades e' = pe_trades e @ [t] \<Longrightarrow> pt_Side t \<noteq> ''buy'' \<Longrightarrow> buys_logged day k e' = buys_logged day k e"
  by (simp add: buys_logged_def)

lemma book_sale_fields [simp]:
  "pe_positions (book_sale p price n basis r now e) = pe_positions e" "pe_shorts (book_sale p price n basis r now e) = pe_shorts e"
  "limits_of (book_sale p price n basis r now e) = limits_of e" "buys_today day (book_sale p price n basis r now e) = buys_today day e"
  "buys_logged day k (book_sale p price n basis r now e) = buys_logged day k e"
  by (simp_all add: book_sale_def Let_def add_perf_def buys_logged_def)

lemma sale_follows:
  assumes "pe_shorts e' = pe_shorts e" "limits_of e' = limits_of e" "buys_today (DayOf now) e' = buys_today (DayOf now) e"
    "\<And>k. buys_logged (DayOf now) k e' \<le> buys_logged (DayOf now) k e"
    and pos: "keyed e \<Longrightarrow> keyed_by pp_Code (pe_positions e')"
    and mv: "keyed e \<Longrightarrow> move (limits_of e) now (desk_of (DayOf now) e) (desk_of (DayOf now) e')"
    and kept: "keyed e \<Longrightarrow> locked_kept (DayOf now) (desk_of (DayOf now) e) (desk_of (DayOf now) e')"
  shows "follows now e e'"
  using assms by (auto simp: follows_def traces_def keyed_def)

lemma sellQty_follows:
  assumes "map_of (pe_positions e) c = Some p" "0 < n" "n < pp_Qty p"
  shows "follows now e (fst (sellQtyLocked c p price n r now e))"
proof (cases "canSellToday (pp_FilledAt p) now")
  case True
  let ?p = "p\<lparr>pp_Cost := pp_Cost p - pp_CostPrice p * f64_of_int n, pp_Qty := pp_Qty p - n\<rparr>"
  let ?e = "book_sale p price n (pp_CostPrice p * f64_of_int n) r now e\<lparr>pe_positions := AList.update c ?p (pe_positions e)\<rparr>"
  have "follows now e ?e"
  proof (rule sale_follows)
    show "keyed_by pp_Code (pe_positions ?e)" if "keyed e"
      using that assms(1) by (auto simp: keyed_def intro!: keyed_by_update dest: keyed_key)
    have "desk_of (DayOf now) ?e = placed c (Some (pp_StrategyType p, pp_Qty p - n, pp_FilledAt p)) (desk_of (DayOf now) e)"
      by (simp add: desk_of_def placed_def outline_updated brief_long_def)
    then show "move (limits_of e) now (desk_of (DayOf now) e) (desk_of (DayOf now) ?e)"
      using assms True by (auto simp: long_of brief_long_def canSellToday_def intro!: reduce_long)
    show "locked_kept (DayOf now) (desk_of (DayOf now) e) (desk_of (DayOf now) ?e)"
      using assms True by (auto simp: locked_kept_def long_of update_conv' canSellToday_def)
  qed simp_all
  then show ?thesis using True by (simp add: sellQtyLocked_def Let_def follows_persist)
qed (simp add: sellQtyLocked_def)

lemma sellAll_follows:
  assumes "map_of (pe_positions e) c = Some p"
  shows "follows now e (fst (sellAllLocked p price r now e))"
proof (cases "canSellToday (pp_FilledAt p) now")
  case True
  let ?e = "book_sale p price (pp_Qty p) (pp_Cost p) r now e\<lparr>pe_positions := AList.delete (pp_Code p) (pe_positions e)\<rparr>"
  have "follows now e ?e"
  proof (rule sale_follows)
    show "keyed_by pp_Code (pe_positions ?e)" if "keyed e"
      using that by (simp add: keyed_def keyed_by_delete)
    have "desk_of (DayOf now) ?e = placed (pp_Code p) None (desk_of (DayOf now) e)"
      by (simp add: desk_of_def placed_def outline_deleted)
    moreover have "pp_Code p = c" if "keyed e" using that assms by (auto simp: keyed_def dest: keyed_key)
    ultimately show "move (limits_of e) now (desk_of (DayOf now) e) (desk_of (DayOf now) ?e)" if "keyed e"
      using that assms True by (auto simp: long_of brief_long_def canSellToday_def intro!: close_long)
    have "pp_Code p = c" if "keyed e" using that assms by (auto simp: keyed_def dest: keyed_key)
    then show "locked_kept (DayOf now) (desk_of (DayOf now) e) (desk_of (DayOf now) ?e)" if "keyed e"
      using that assms True by (auto simp: locked_kept_def long_of delete_conv' canSellToday_def)
  qed simp_all
  then have "follows now e (mirrorCloseLocked (pp_Code p) x (pp_Qty p) r ?e\<lparr>pe_lastClose := y\<rparr>)" for x y
    by (rule follows_unseen [OF follows_unseen]) (rule mirror_close_unseen field_unseen)+
  then show ?thesis
    using True by (auto simp: sellAllLocked_def Let_def intro!: follows_persist)
qed (simp add: sellAllLocked_def)

section \<open>The short book\<close>

lemma short_follows:
  assumes "pe_positions e' = pe_positions e" "limits_of e' = limits_of e" "buys_today (DayOf now) e' = buys_today (DayOf now) e"
    "\<And>k. buys_logged (DayOf now) k e' \<le> buys_logged (DayOf now) k e"
    and pos: "keyed e \<Longrightarrow> keyed_by sp_Code (pe_shorts e')"
    and mv: "keyed e \<Longrightarrow> move (limits_of e) now (desk_of (DayOf now) e) (desk_of (DayOf now) e')"
  shows "follows now e e'"
  using assms by (auto simp: follows_def traces_def keyed_def locked_kept_def long_of)

lemma short_book_follows:
  assumes "map_of (pe_shorts e) c = None"
  shows "follows now e (short_book c name strategy kind sp why p n now e)"
proof -
  define x where "x = \<lparr>sp_Code = c, sp_Name = name, sp_Strategy = strategy, sp_StrategyType = kind, sp_Qty = n,
    sp_OpenPrice = applyOpenShortPriceLocked (pe_cfg e) p, sp_MarginUsed = short_margin e (applyOpenShortPriceLocked (pe_cfg e) p) n,
    sp_SignalPrice = sp, sp_FeeAccrued = sellFeeLocked (pe_cfg e) (applyOpenShortPriceLocked (pe_cfg e) p * f64_of_int n),
    sp_Mark = applyOpenShortPriceLocked (pe_cfg e) p, sp_SignalAt = now, sp_FilledAt = now\<rparr>"
  let ?e = "\<lambda>cash seen ts. e\<lparr>pe_shortCash := cash, pe_shorts := AList.update c x (pe_shorts e), pe_shortOpenSeen := seen, pe_hasFilled := True, pe_trades := ts\<rparr>"
  have "follows now e (?e cash seen (pe_trades e @ [t]))" if "pt_Side t \<noteq> ''buy''" for cash seen t
  proof (rule short_follows)
    show "buys_logged (DayOf now) k (?e cash seen (pe_trades e @ [t])) \<le> buys_logged (DayOf now) k e" for k
      using that by (simp add: buys_logged_def)
    show "keyed_by sp_Code (pe_shorts (?e cash seen (pe_trades e @ [t])))" if "keyed e"
      using that by (simp add: keyed_def keyed_by_update x_def)
    have "desk_of (DayOf now) (?e cash seen (pe_trades e @ [t])) =
        desk_of (DayOf now) e\<lparr>dk_short := (dk_short (desk_of (DayOf now) e))(c \<mapsto> (n, now))\<rparr>"
      by (simp add: desk_of_def outline_updated brief_short_def x_def)
    then show "move (limits_of e) now (desk_of (DayOf now) e) (desk_of (DayOf now) (?e cash seen (pe_trades e @ [t])))"
      using assms by (auto simp: short_of intro!: open_short)
  qed simp_all
  then show ?thesis
    by (auto simp: short_book_def Let_def x_def intro!: follows_persist follows_unseen [OF _ record_unseen])
qed

lemma short_open_follows: "follows now e (fst (shortOpenLocked c name strategy kind sp quotes why now e))"
  by (auto simp: shortOpenLocked_def intro: short_book_follows unseen_follows [OF reject_unseen] split: option.splits sum.splits)

lemma short_cover_follows: "follows now e (fst (shortCoverLocked c price r quotes now e))"
proof (cases "map_of (pe_shorts e) c")
  case (Some s)
  let ?e = "\<lambda>cash real ts os. e\<lparr>pe_shortCash := cash, pe_shortRealized := real, pe_trades := ts, pe_orders := os, pe_shorts := AList.delete c (pe_shorts e)\<rparr>"
  have "follows now e (?e cash real (pe_trades e @ [t]) os)" if "pt_Side t \<noteq> ''buy''" "canSellToday (sp_FilledAt s) now" for cash real t os
  proof (rule short_follows)
    show "buys_logged (DayOf now) k (?e cash real (pe_trades e @ [t]) os) \<le> buys_logged (DayOf now) k e" for k
      using that by (simp add: buys_logged_def)
    show "keyed_by sp_Code (pe_shorts (?e cash real (pe_trades e @ [t]) os))" if "keyed e"
      using that by (simp add: keyed_def keyed_by_delete)
    have "desk_of (DayOf now) (?e cash real (pe_trades e @ [t]) os) =
        desk_of (DayOf now) e\<lparr>dk_short := (dk_short (desk_of (DayOf now) e))(c := None)\<rparr>"
      by (simp add: desk_of_def outline_deleted)
    then show "move (limits_of e) now (desk_of (DayOf now) e) (desk_of (DayOf now) (?e cash real (pe_trades e @ [t]) os))"
      using Some that by (auto simp: short_of brief_short_def canSellToday_def intro!: cover_short)
  qed simp_all
  then have "follows now e (fst (short_close s c q r now e))" if "canSellToday (sp_FilledAt s) now" for q
    using that by (auto simp: short_close_def Let_def recordOrderLocked_def intro!: follows_persist)
  then show ?thesis
    using Some by (auto simp: shortCoverLocked_def case_prod_beta split: option.splits)
qed (simp add: shortCoverLocked_def)

section \<open>Marks, fees, the forced cover\<close>

lemma outline_map: "(\<And>k v. fst (g (k, v)) = k \<and> f (snd (g (k, v))) = f v) \<Longrightarrow> outline f (map g m) = outline f m"
  unfolding outline_def by (auto simp: case_prod_beta) 

lemma mark_short_unseen: "unseen e (fst (shortMarkLocked quotes e))"
  unfolding unseen_def shortMarkLocked_def
  by (auto simp: marked_short_def brief_short_def limits_of_def buys_logged_def split: option.splits intro!: outline_map)

lemma accrue_outline:
  assumes "\<And>s x. f (s\<lparr>sp_FeeAccrued := x\<rparr>) = f s"
  shows "outline f (fst (accrue_each daily day kvs seen)) = outline f kvs"
  by (induction daily day kvs seen rule: accrue_each.induct) (auto simp: assms split: prod.splits)

lemma accrue_unseen: "unseen e (fst (shortAccrueFeesLocked now e))"
  using accrue_outline [of "\<lambda>s. (sp_Code s, brief_short s)"]
  by (auto simp: shortAccrueFeesLocked_def unseen_def brief_short_def limits_of_def buys_logged_def case_prod_beta)

lemma stop_each_follows: "follows now e (fst (stop_each now kvs e))"
proof (induction now kvs e rule: stop_each.induct)
  case (2 now c s kvs e)
  let ?r = "shortCoverLocked c (sp_Mark s) (StopLossAt (pc_ShortStopLossPct (pe_cfg e))) Map.empty now e"
  have "follows now e (fst ?r)" by (rule short_cover_follows)
  then show ?case using 2
    by (cases ?r; cases "snd ?r") (auto split: prod.splits intro: follows_trans)
qed simp

lemma short_mark_follows: "follows now e (shortMarkToMarketLocked quotes now e)"
proof -
  let ?e1 = "fst (shortMarkLocked quotes e)"
  let ?e2 = "fst (shortAccrueFeesLocked now ?e1)"
  let ?e3 = "fst (shortStopLossLocked now ?e2)"
  have "follows now ?e2 ?e3" by (simp add: shortStopLossLocked_def stop_each_follows)
  moreover have "follows now e ?e2"
    by (rule follows_unseen [OF unseen_follows]) (rule mark_short_unseen accrue_unseen)+
  ultimately have "follows now e ?e3" by (rule follows_trans [rotated])
  then show ?thesis by (auto simp: shortMarkToMarketLocked_def case_prod_beta intro: follows_persist)
qed

lemma mark_follows: "follows now e (MarkToMarket quotes now e)"
proof -
  let ?e = "e\<lparr>pe_positions := map (marked_position quotes) (pe_positions e)\<rparr>"
  have "unseen e ?e"
    unfolding unseen_def
    by (auto simp: marked_position_def brief_long_def limits_of_def buys_logged_def split: option.splits intro!: outline_map)
  then have "follows now e ?e" "follows now e (persist now ?e)" by (auto intro: unseen_follows follows_persist)
  then show ?thesis by (auto simp: MarkToMarket_def Let_def intro: follows_trans [OF _ short_mark_follows])
qed

lemma snapshot_follows: "follows now e (Snapshot now e)"
  by (auto simp: Snapshot_def Let_def intro!: follows_persist field_unseen [THEN unseen_follows])

section \<open>The trading operations\<close>

lemma half_lots_part:
  assumes "0 < half_lots n"
  shows "half_lots n < n"
proof (cases "0 < n")
  case True
  then have "half_lots n = n div 2 div 100 * 100" by (simp add: half_lots_def signed_divide_int_def sgn_if)
  also have "\<dots> \<le> n div 2" by (simp add: minus_mod_eq_div_mult [symmetric])
  finally show ?thesis using True by linarith
next
  case False
  have "a \<le> 0 \<Longrightarrow> a sdiv 2 \<le> 0" "a \<le> 0 \<Longrightarrow> a sdiv 100 \<le> 0" for a :: int
    by (auto simp: signed_divide_int_def sgn_if)
  then have "n sdiv 2 sdiv 100 \<le> 0" using False by simp
  then show ?thesis using assms by (simp add: half_lots_def)
qed

lemma auto_sell_follows: "follows now e (autoSellLocked s act quotes now e)"
proof (cases "map_of (pe_positions e) (sg_Code s)")
  case (Some p)
  have 1: "follows now e e'" if "sellAllLocked p price r now e = (e', x)" for price r e' x
    using sellAll_follows [OF Some, of now price r] that by simp
  have 2: "follows now e e'" if "sellQtyLocked (sg_Code s) p price (half_lots (pp_Qty p)) r now e = (e', x)" "\<not> half_lots (pp_Qty p) \<le> 0" for price r e' x
    using sellQty_follows [OF Some, of "half_lots (pp_Qty p)" now price r] half_lots_part [of "pp_Qty p"] that by simp
  show ?thesis using Some
    by (auto simp: autoSellLocked_def Let_def dest!: 1 2 intro: follows_unseen field_unseen record_unseen
        split: option.splits disposal.splits prod.splits)
qed (simp add: autoSellLocked_def)

lemma unified_sell_follows: "follows now e (fst (ApplyUnifiedSell code act price reason now e))"
  by (auto simp: ApplyUnifiedSell_def auto_sell_follows follows_persist split: option.splits)

lemma sell_follows: "follows now e (fst (Sell code quotes now e))"
proof (cases "map_of (pe_positions e) code")
  case (Some p)
  have 1: "follows now e e'" if "sellAllLocked p price r now e = (e', x)" for price r e' x
    using sellAll_follows [OF Some, of now price r] that by simp
  show ?thesis using Some
    by (auto simp: Sell_def dest!: 1 intro!: follows_persist intro: follows_unseen record_unseen split: option.splits prod.splits)
qed (simp add: Sell_def)

lemma sell_ex_follows: "follows now e (fst (SellEx code price qty quotes now e))"
proof (cases "map_of (pe_positions e) code")
  case (Some p)
  have 1: "follows now e e'" if "sellAllLocked p price r now e = (e', x)" for price r e' x
    using sellAll_follows [OF Some, of now price r] that by simp
  have 2: "follows now e e'" if "sellQtyLocked code p price qty r now e = (e', x)" "\<not> qty \<le> 0" "\<not> pp_Qty p \<le> qty" for price r e' x
    using sellQty_follows [OF Some, of qty now price r] that by simp
  show ?thesis using Some
    by (auto simp: SellEx_def dest!: 1 2 intro!: follows_persist intro: follows_unseen record_unseen split: option.splits prod.splits)
qed (simp add: SellEx_def)

lemma auto_reject_unseen: "unseen e (auto_reject s r now e)"
  by (simp add: auto_reject_def reject_unseen)

lemma auto_buy_follows: "follows now e (auto_buy s quotes now e)"
proof (cases "map_of (pe_positions e) (sg_Code s) = None \<and> \<not> cap_reached e")
  case True
  have fill: "follows now e e'" if "fillLocked (sg_StrategyType s) (sg_Code s) (sg_Name s) st sp sa now price q r conf m e = (e', x)"
    for e' x st sp sa price q r conf m
    using fill_follows [of e "sg_Code s" now "sg_StrategyType s" "sg_Name s" st sp sa price q r conf m] True that by simp
  have atr: "unseen d (mirrorOpenLocked q (d\<lparr>pe_positions := AList.update c (p\<lparr>pp_ATR := a\<rparr>) (pe_positions d)\<rparr>))"
    if "map_of (pe_positions d) c = Some p" for d c p a q
    using that outline_update_same [OF that, of "\<lambda>p. (pp_Code p, brief_long p)" "p\<lparr>pp_ATR := a\<rparr>"]
    by (auto simp: unseen_def mirrorOpenLocked_def brief_long_def limits_of_def buys_logged_def)
  have rec: "unseen d (recordOrderLocked r (d\<lparr>pe_lastBuyReject := x\<rparr>))" for d r x
    by (rule unseenI) (simp_all add: recordOrderLocked_def limits_of_def)
  have "follows now e (case fillLocked (sg_StrategyType s) (sg_Code s) (sg_Name s) st sp sa now price q r conf m e of
      (e, Some err) \<Rightarrow> auto_reject s (f err) now e
    | (e, None) \<Rightarrow> (let e = recordOrderLocked (o' e) (e\<lparr>pe_lastBuyReject := AList.delete (sg_Code s) (pe_lastBuyReject e)\<rparr>)
         in case map_of (pe_positions e) (sg_Code s) of None \<Rightarrow> e
            | Some p \<Rightarrow> (let p = p\<lparr>pp_ATR := a\<rparr> in mirrorOpenLocked p (e\<lparr>pe_positions := AList.update (sg_Code s) p (pe_positions e)\<rparr>))))"
    for st sp sa price q r conf m f o' a
    by (auto simp: Let_def dest!: fill intro: follows_unseen [OF _ auto_reject_unseen] follows_unseen [OF _ rec]
        follows_unseen [OF follows_unseen [OF _ rec] atr] split: prod.splits option.splits)
  then show ?thesis using True
    by (auto simp: auto_buy_def Let_def [of "sg_Code s"] Let_def [of "sg_StrategyType s"] intro: unseen_follows [OF auto_reject_unseen] split: option.split)
next
  case False
  then show ?thesis
    by (auto simp: auto_buy_def Let_def intro: unseen_follows [OF auto_reject_unseen] split: option.split)
qed

lemma short_signal_follows: "follows now e (shortOpenFromSignalLocked s quotes now e)"
  by (simp add: shortOpenFromSignalLocked_def short_open_follows)

lemma on_signal_follows: "follows now e (on_signal quotes now e s)"
  by (auto simp: on_signal_def Let_def intro: short_signal_follows follows_trans [OF short_signal_follows auto_sell_follows]
      auto_sell_follows auto_buy_follows follows_trans [OF short_cover_follows auto_buy_follows])

lemma on_signals_follows: "follows now e (OnSignals sigs quotes now e)"
proof -
  have "follows now e (foldl (on_signal quotes now) e sigs)"
    by (induction sigs arbitrary: e) (auto intro: follows_trans [OF on_signal_follows])
  then show ?thesis by (simp add: OnSignals_def follows_persist)
qed

lemma manual_fill_follows:
  assumes "map_of (pe_positions e) code = None" "\<not> cap_reached e"
  shows "follows now e (fst (manual_fill code name strategy pool sp price qty now e))"
proof -
  obtain e1 x where fill: "fillLocked pool code name strategy sp now now price qty (manual_reason pool) 1 True e = (e1, x)" by fastforce
  have f: "follows now e e1"
    using fill_follows [OF assms, of now pool name strategy sp now price qty "manual_reason pool" 1 True] by (simp add: fill)
  have rec: "follows now e (recordOrderLocked r e1)" for r by (rule follows_unseen [OF f record_unseen])
  then have "follows now e (mirrorOpenLocked p (recordOrderLocked r e1))" for r p by (rule follows_unseen [OF _ mirror_open_unseen])
  with rec show ?thesis
    by (cases x) (auto simp: manual_fill_def Let_def fill intro!: follows_persist split: option.split)
qed

lemma buy_follows: "follows now e (fst (BuyInPool code name strategy pool sp quotes now e))"
  by (auto simp: BuyInPool_def manual_fill_follows split: option.split)

lemma buy_ex_follows:
  assumes "map_of (pe_positions e) code = None"
  shows "follows now e (fst (BuyExInPool code name strategy pool sp price qty quotes now e))"
  using assms by (auto simp: BuyExInPool_def manual_fill_follows split: option.splits)

lemma buy_ex_traces: "traces now e (fst (BuyExInPool code name strategy pool sp price qty quotes now e))"
proof (cases "map_of (pe_positions e) code")
  case None
  then show ?thesis by (intro follows_traces buy_ex_follows)
next
  case (Some p)
  then show ?thesis by (auto simp: BuyExInPool_def add_traces)
qed

text \<open>Every operation but the manual buy with a quantity, which may add to a position.\<close>

fun may_add :: "paper_op \<Rightarrow> bool" where
  "may_add (DoBuyEx _ _ _ _ _ _ _ _) = True"
| "may_add _ = False"

lemma trade_follows: "\<not> may_add op \<Longrightarrow> follows now e (trade_step now op e)"
  by (cases op) (simp_all add: on_signals_follows buy_follows sell_follows sell_ex_follows unified_sell_follows
      short_open_follows ShortOpenManual_def short_cover_follows ShortCover_def ShortCoverManual_def mark_follows snapshot_follows)

lemma trade_traces: "traces now e (trade_step now op e)"
proof (cases "may_add op")
  case True
  then show ?thesis by (cases op) (simp_all add: buy_ex_traces)
qed (simp add: trade_follows follows_traces)

text \<open>What any operation makes of a position that is locked.\<close>

lemma trade_grows:
  assumes "keyed e" "dk_long (desk_of (DayOf now) e) c = Some (k, n, t)" "DayOf t = DayOf now" "wrap64 n = n"
  shows "\<exists>q. 0 \<le> q \<and> q \<le> asked c op \<and> dk_long (desk_of (DayOf now) (trade_step now op e)) c = Some (k, wrap64 (n + q), t)"
proof -
  have kept: ?thesis if "follows now e (trade_step now op e)" "0 \<le> asked c op"
    using that assms by (intro exI [of _ 0]) (auto simp: follows_def locked_kept_def)
  have ge: "0 \<le> asked c op" by (cases op) auto
  show ?thesis
  proof (cases "may_add op")
    case True
    then obtain code name strategy pool sp price qty quotes where op: "op = DoBuyEx code name strategy pool sp price qty quotes"
      by (cases op) auto
    obtain p0 where p0: "map_of (pe_positions e) c = Some p0" "pp_StrategyType p0 = k" "pp_Qty p0 = n" "pp_FilledAt p0 = t"
      using assms(2) by (auto simp: long_of)
    show ?thesis
    proof (cases "map_of (pe_positions e) code")
      case None
      have "follows now e (trade_step now op e)" using buy_ex_follows [OF None] by (simp only: op trade_step.simps)
      then show ?thesis using kept ge by blast
    next
      case (Some p)
      show ?thesis
      proof (cases "sealed_up quotes code name \<or> \<not> pc_Enabled (pe_cfg e)")
        case True
        then have "trade_step now op e = e" by (auto simp: op BuyExInPool_def)
        then show ?thesis using kept ge follows_refl by metis
      next
        case False
        then have "trade_step now op e = fst (addToPositionLocked p code name strategy sp price qty [CHR 0xE6, CHR 0x89, CHR 0x8B, CHR 0xE5, CHR 0x8A, CHR 0xA8, CHR 0xE6, CHR 0xA8, CHR 0xA1, CHR 0xE6, CHR 0x8B, CHR 0x9F, CHR 0xE5, CHR 0x8A, CHR 0xA0, CHR 0xE4, CHR 0xBB, CHR 0x93] now e)"
          using Some by (simp add: op BuyExInPool_def)
        then show ?thesis using add_grows [OF Some p0(1)] p0(2-) assms(4) by (fastforce simp: op long_of)
      qed
    qed
  qed (use kept trade_follows ge in blast)
qed

end
