(* ===== verification/PaperStore.thy ===== *)
theory PaperStore
  imports PaperPools
begin

text \<open>
  The file of the paper account (\<open>internal/paper/paper.go\<close>: \<open>persistedState\<close>, \<open>persist\<close>, \<open>load\<close>, \<open>New\<close>): what is written, and
  the account that a restart builds from it. The JSON text is not modelled; an absent table and an empty one are both \<open>[]\<close>,
  a file that is missing or does not parse is \<open>None\<close>.
\<close>

record paper_file =
  fl_Cash :: f64
  fl_InitialCapital :: f64
  fl_MaxPositions :: int
  fl_Positions :: "(string \<times> paper_position) list"
  fl_Trades :: "paper_trade list"
  fl_Orders :: "paper_order list"
  fl_Equity :: "equity_point list"
  fl_Realized :: f64
  fl_Pools :: "(string \<times> f64) list"
  fl_PoolTypes :: "string list"
  fl_PoolMaxPos :: "(string \<times> int) list"
  fl_PoolPerf :: "(string \<times> pool_perf) list"
  fl_PoolGrp :: "(string \<times> string) list"
  fl_PoolIR :: "(string \<times> f64) list"
  fl_HasFilled :: bool
  fl_PoolBuyRules :: "(string \<times> pool_buy_rule) list"
  fl_Shorts :: "(string \<times> short_position) list"
  fl_ShortCash :: f64
  fl_ShortRealized :: f64
  fl_ShortFeeDone :: "(string \<times> string) list"
  fl_ShortOpenSeen :: "(string \<times> string) list"

definition persistedState :: "paper \<Rightarrow> paper_file" where
  "persistedState e =
     \<lparr>fl_Cash = pe_cash e, fl_InitialCapital = pc_InitialCapital (pe_cfg e), fl_MaxPositions = pc_MaxPositions (pe_cfg e),
      fl_Positions = pe_positions e, fl_Trades = pe_trades e, fl_Orders = pe_orders e, fl_Equity = pe_equity e, fl_Realized = pe_realized e,
      fl_Pools = pe_pools e, fl_PoolTypes = pe_poolTypes e, fl_PoolMaxPos = pe_poolMaxPos e, fl_PoolPerf = pe_poolPerf e,
      fl_PoolGrp = pe_poolGrp e, fl_PoolIR = pe_poolIR e, fl_HasFilled = pe_hasFilled e, fl_PoolBuyRules = pe_poolBuyRules e,
      fl_Shorts = pe_shorts e, fl_ShortCash = pe_shortCash e, fl_ShortRealized = pe_shortRealized e, fl_ShortFeeDone = pe_shortFeeDone e,
      fl_ShortOpenSeen = pe_shortOpenSeen e\<rparr>"

text \<open>What the last \<open>persist\<close> of an account leaves on disk.\<close>

definition saved :: "int \<Rightarrow> paper \<Rightarrow> paper_file" where
  "saved now e = persistedState (persist now e)"

section \<open>Loading\<close>

definition pool_costs :: "(string \<times> paper_position) list \<Rightarrow> (string \<times> f64) list" where
  "pool_costs ps = foldl (\<lambda>m (c, p). AList.update (pp_StrategyType p) (get_or 0 m (pp_StrategyType p) + pp_Cost p) m) [] ps"

definition below_cost :: "(string \<times> pool_perf) list \<Rightarrow> string \<times> f64 \<Rightarrow> bool" where
  "below_cost perfs kc = (case map_of perfs (fst kc) of None \<Rightarrow> True | Some f \<Rightarrow> pf_Cost f < snd kc)"

definition raise_cost :: "(string \<times> pool_perf) list \<Rightarrow> string \<times> f64 \<Rightarrow> (string \<times> pool_perf) list" where
  "raise_cost perfs kc = (if below_cost perfs kc then AList.update (fst kc) ((get_or no_perf perfs (fst kc))\<lparr>pf_Cost := snd kc\<rparr>) perfs else perfs)"

definition backfillPoolPerfLocked :: "int \<Rightarrow> paper \<Rightarrow> paper" where
  "backfillPoolPerfLocked now e =
     (if pe_positions e = [] then e
      else let costs = pool_costs (pe_positions e); e' = e\<lparr>pe_poolPerf := foldl raise_cost (pe_poolPerf e) costs\<rparr>
           in if list_ex (below_cost (pe_poolPerf e)) costs then persist now e' else e')"

text \<open>The keys of library rules among the pool types.\<close>

definition rule_keys :: "string list \<Rightarrow> string list \<Rightarrow> string list" where
  "rule_keys ks types = foldl (\<lambda>m k. if IsRulePoolKey k \<and> k \<notin> set m then m @ [k] else m) ks types"

definition restore_pools :: "paper_file \<Rightarrow> paper \<Rightarrow> paper" where
  "restore_pools f e =
     (if fl_Pools f \<noteq> [] then
        e\<lparr>pe_pools := fl_Pools f, pe_poolTypes := fl_PoolTypes f,
          pe_cash := (if 0 < sum_values (fl_Pools f) then sum_values (fl_Pools f) else pe_cash e)\<rparr>
      else e\<lparr>pe_pools := [([], pe_cash e)]\<rparr>)"

definition or_else :: "'a list \<Rightarrow> 'a list \<Rightarrow> 'a list" where
  "or_else xs ys = (if xs = [] then ys else xs)"

definition restore_rest :: "paper_file \<Rightarrow> paper \<Rightarrow> paper" where
  "restore_rest f e =
     e\<lparr>pe_poolPerf := or_else (fl_PoolPerf f) (pe_poolPerf e), pe_poolMaxPos := or_else (fl_PoolMaxPos f) (pe_poolMaxPos e),
       pe_hasFilled := fl_HasFilled f, pe_poolBuyRules := or_else (fl_PoolBuyRules f) (pe_poolBuyRules e),
       pe_poolGrp := or_else (fl_PoolGrp f) (pe_poolGrp e), pe_poolIR := or_else (fl_PoolIR f) (pe_poolIR e),
       pe_extraPoolKeys := rule_keys (pe_extraPoolKeys e) (pe_poolTypes e), pe_orders := or_else (fl_Orders f) (pe_orders e),
       pe_shorts := or_else (fl_Shorts f) (pe_shorts e),
       pe_shortCash := (if 0 < fl_ShortCash f \<or> fl_Shorts f \<noteq> [] \<or> \<not> feq (fl_ShortRealized f) 0 then fl_ShortCash f else pe_shortCash e),
       pe_shortRealized := fl_ShortRealized f, pe_shortFeeDone := or_else (fl_ShortFeeDone f) (pe_shortFeeDone e),
       pe_shortOpenSeen := or_else (fl_ShortOpenSeen f) (pe_shortOpenSeen e)\<rparr>"

definition load_paper :: "paper_file option \<Rightarrow> int \<Rightarrow> paper \<Rightarrow> paper" where
  "load_paper file now e0 =
     (case file of
        None \<Rightarrow> e0
      | Some f \<Rightarrow>
          if fl_Cash f \<le> 0 \<and> fl_Positions f = [] \<and> fl_Trades f = [] then e0
          else let cfg = (pe_cfg e0)
                     \<lparr>pc_InitialCapital := (if 0 < fl_InitialCapital f then fl_InitialCapital f else pc_InitialCapital (pe_cfg e0)),
                      pc_MaxPositions := (if 0 < fl_MaxPositions f then fl_MaxPositions f else pc_MaxPositions (pe_cfg e0))\<rparr>;
                   e = e0\<lparr>pe_cfg := cfg, pe_cash := fl_Cash f, pe_realized := fl_Realized f,
                          pe_positions := or_else (fl_Positions f) (pe_positions e0), pe_trades := fl_Trades f, pe_equity := fl_Equity f\<rparr>
               in trimTradesLocked now (backfillPoolPerfLocked now (restore_rest f (restore_pools f e))))"

text \<open>\<open>New\<close> with its file.\<close>

definition open_paper :: "paper_config \<Rightarrow> bool \<Rightarrow> paper_file option \<Rightarrow> int \<Rightarrow> paper" where
  "open_paper cfg hasPath file now = (if hasPath then load_paper file now (New_paper cfg hasPath) else New_paper cfg hasPath)"

end
