(* ===== verification/PaperFacts.thy ===== *)
theory PaperFacts
  imports PaperMoves PaperStore
begin

text \<open>
  What the paper account promises. The limits of the desk are shown on its moves, by rule induction, and reach
  every run of operations through \<open>trade_traces\<close> and the contract \<open>conditional_system\<close>; the rest concerns the
  short book, the resets and the figures of single operations.
\<close>

section \<open>The limits of the desk\<close>

definition desk_within :: "limits \<Rightarrow> desk \<Rightarrow> bool" where
  "desk_within lm d \<longleftrightarrow> finite (dom (dk_long d)) \<and> (0 < lm_positions lm \<longrightarrow> int (card (dom (dk_long d))) \<le> lm_positions lm) \<and>
     (\<forall>k. 0 < lm_pool lm k \<longrightarrow> int (card (pool_codes k d)) \<le> lm_pool lm k)"

lemma desk_withinI:
  assumes "finite (dom (dk_long d'))" "card (dom (dk_long d')) \<le> card (dom (dk_long d))"
    "\<And>k. card (pool_codes k d') \<le> card (pool_codes k d)" "desk_within lm d"
  shows "desk_within lm d'"
  using assms by (auto simp: desk_within_def) (metis (no_types, opaque_lifting) of_nat_mono order.trans)+

lemma pool_codes_finite: "finite (dom (dk_long d)) \<Longrightarrow> finite (pool_codes k d)"
  by (rule finite_subset [of _ "dom (dk_long d)"]) (auto simp: pool_codes_def)

lemma placed_same: "dk_long d c = Some (k, n, t) \<Longrightarrow> dom (dk_long (placed c (Some (k, m, t')) d)) = dom (dk_long d)"
  "dk_long d c = Some (k, n, t) \<Longrightarrow> pool_codes j (placed c (Some (k, m, t')) d) = pool_codes j d"
  by (auto simp: placed_def pool_codes_def)

lemma counted_long [simp]: "dk_long (counted k d) = dk_long d" "pool_codes j (counted k d) = pool_codes j d" "dk_short (counted k d) = dk_short d"
  by (simp_all add: counted_def pool_codes_def)

lemma move_within: "move lm now d d' \<Longrightarrow> desk_within lm d \<Longrightarrow> desk_within lm d'"
proof (induction rule: move.induct)
  case (open_long d c k n)
  have fin: "finite (dom (dk_long d))" "finite (pool_codes j d)" for j using open_long.prems pool_codes_finite by (auto simp: desk_within_def)
  have "pool_codes j (placed c (Some (k, n, now)) d) = (if j = k then insert c (pool_codes j d) else pool_codes j d)" for j
    using open_long.hyps(1) by (auto simp: pool_codes_def placed_def)
  moreover have "c \<notin> pool_codes j d" "c \<notin> dom (dk_long d)" for j using open_long.hyps(1) by (auto simp: pool_codes_def)
  moreover have "dom (dk_long (placed c (Some (k, n, now)) d)) = insert c (dom (dk_long d))" by (auto simp: placed_def)
  ultimately show ?case using open_long.prems open_long.hyps(2) fin by (auto simp: desk_within_def room_def)
next
  case (add_long d c k n t q)
  then show ?case using placed_same [OF add_long.hyps(1)] by (simp add: desk_within_def)
next
  case (reduce_long d c k n t m)
  then show ?case using placed_same [OF reduce_long.hyps(1)] by (simp add: desk_within_def)
next
  case (close_long d c k n t)
  have fin: "finite (dom (dk_long d))" "finite (pool_codes j d)" for j using close_long.prems pool_codes_finite by (auto simp: desk_within_def)
  have "dom (dk_long (placed c None d)) \<subseteq> dom (dk_long d)" "pool_codes j (placed c None d) \<subseteq> pool_codes j d" for j
    by (auto simp: placed_def pool_codes_def split: if_splits)
  note sub = this
  show ?case
  proof (rule desk_withinI)
    show "finite (dom (dk_long (placed c None d)))" by (rule finite_subset [OF sub(1) fin(1)])
    show "card (dom (dk_long (placed c None d))) \<le> card (dom (dk_long d))" by (rule card_mono [OF fin(1) sub(1)])
    show "card (pool_codes j (placed c None d)) \<le> card (pool_codes j d)" for j by (rule card_mono [OF fin(2) sub(2)])
  qed (rule close_long.prems)
qed (simp_all add: desk_within_def pool_codes_def)

lemma moves_within: "moves lm now d d' \<Longrightarrow> desk_within lm d \<Longrightarrow> desk_within lm d'"
  by (induction rule: rtranclp_induct) (auto intro: move_within)

lemma wrap64_add: "wrap64 (wrap64 a + b) = wrap64 (a + b)"
proof -
  have "wrap64 (wrap64 a + b) = ((a + 2 ^ 63) mod 2 ^ 64 + b) mod 2 ^ 64 - 2 ^ 63" by (simp add: wrap64_def)
  also have "\<dots> = (a + 2 ^ 63 + b) mod 2 ^ 64 - 2 ^ 63" by (simp only: mod_add_left_eq)
  also have "a + 2 ^ 63 + b = a + b + 2 ^ 63" by simp
  finally show ?thesis by (simp only: wrap64_def)
qed

lemma move_short_stays: "move lm now d d' \<Longrightarrow> DayOf t = DayOf now \<Longrightarrow> dk_short d c = Some (n, t) \<Longrightarrow> dk_short d' c = Some (n, t)"
  by (induction rule: move.induct) (auto simp: placed_def)

lemma moves_short_stay: "moves lm now d d' \<Longrightarrow> DayOf t = DayOf now \<Longrightarrow> dk_short d c = Some (n, t) \<Longrightarrow> dk_short d' c = Some (n, t)"
  by (induction rule: rtranclp_induct) (auto intro: move_short_stays)

text \<open>The day's buys of a pool.\<close>

lemma move_daily: "move lm now d d' \<Longrightarrow> 0 < lm_daily lm k \<Longrightarrow> dk_buys d k \<le> lm_daily lm k \<Longrightarrow> dk_buys d' k \<le> lm_daily lm k"
  by (induction rule: move.induct) (auto simp: placed_def counted_def may_buy_def)

lemma moves_daily: "moves lm now d d' \<Longrightarrow> 0 < lm_daily lm k \<Longrightarrow> dk_buys d k \<le> lm_daily lm k \<Longrightarrow> dk_buys d' k \<le> lm_daily lm k"
  by (induction rule: rtranclp_induct) (auto intro: move_daily)

section \<open>Refinement\<close>

lemma paper_refines_desk_steps:
  assumes "keyed e" "trades op"
  shows "moves (limits_of e) now (desk_of (DayOf now) e) (desk_of (DayOf now) (paper_step e (op, now))) \<and>
    limits_of (paper_step e (op, now)) = limits_of e \<and> keyed (paper_step e (op, now))"
  using trade_traces [of now e op] assms by (simp add: traces_def)

text \<open>C23: Every trading operation of the paper account - automatic matching, manual buys, adds and sales, the
  unified disposal, the short book, marking and the equity point - changes the holdings only by moves of the desk under
  its limits, and leaves limits and well-keyed lists as they are.\<close>

theorem paper_refines_desk:
  assumes "keyed e" "trades op"
  shows "moves (limits_of e) now (desk_of (DayOf now) e) (desk_of (DayOf now) (paper_step e (op, now))) \<and>
    limits_of (paper_step e (op, now)) = limits_of e \<and> keyed (paper_step e (op, now))"
  using trade_traces [of now e op] assms by (simp add: traces_def)

section \<open>Runs of the account\<close>

definition paper_sound :: "paper \<Rightarrow> bool" where
  "paper_sound e \<longleftrightarrow> keyed e \<and>
     (0 < pc_MaxPositions (pe_cfg e) \<longrightarrow> int (length (pe_positions e)) \<le> pc_MaxPositions (pe_cfg e)) \<and>
     (\<forall>k. 0 < get_or 0 (pe_poolMaxPos e) k \<longrightarrow> poolPositionCountLocked e k \<le> get_or 0 (pe_poolMaxPos e) k)"

lemma sound_within: "paper_sound e \<longleftrightarrow> keyed e \<and> desk_within (limits_of e) (desk_of day e)"
proof -
  have "finite (dom (dk_long (desk_of day e)))" by (simp add: desk_of_def finite_dom_map_of)
  then show ?thesis
    by (auto simp: paper_sound_def desk_within_def held_codes_of pool_codes_of limits_of_def)
qed

lemma trade_sound: "paper_sound e \<Longrightarrow> paper_sound (trade_step now op e)"
  using trade_traces [of now e op] by (auto simp: sound_within [of _ "DayOf now"] traces_def intro: moves_within)

fun sets_caps :: "paper_op \<Rightarrow> bool" where
  "sets_caps (DoMaxPositions _) = True"
| "sets_caps (DoPoolCaps _) = True"
| "sets_caps (DoConfig _) = True"
| "sets_caps _ = False"

lemma sound_cong:
  assumes "paper_sound e" "pe_positions e' = pe_positions e" "pe_shorts e' = pe_shorts e"
    "pc_MaxPositions (pe_cfg e') = pc_MaxPositions (pe_cfg e)" "\<And>k. get_or 0 (pe_poolMaxPos e') k = get_or 0 (pe_poolMaxPos e) k"
  shows "paper_sound e'"
  using assms by (simp add: paper_sound_def keyed_def poolPositionCountLocked_def)

lemma sound_persist [simp]: "paper_sound (persist now e) \<longleftrightarrow> paper_sound e"
  by (simp add: paper_sound_def keyed_def poolPositionCountLocked_def)

lemma ensure_keys_get: "get_or z (ensure_keys z ks m) k = get_or z m k"
proof (induction ks arbitrary: m)
  case (Cons a ks)
  then show ?case
    by (cases "map_of m a") (simp_all add: ensure_keys_def get_or_def update_conv')
qed (simp add: ensure_keys_def)

lemma rebuilt_fields [simp]:
  "pe_positions (rebuildPoolsLocked e) = pe_positions e" "pe_shorts (rebuildPoolsLocked e) = pe_shorts e"
  "pe_cfg (rebuildPoolsLocked e) = pe_cfg e" "get_or 0 (pe_poolMaxPos (rebuildPoolsLocked e)) k = get_or 0 (pe_poolMaxPos e) k"
  by (simp_all add: rebuildPoolsLocked_def Let_def ensure_keys_get)

lemma sound_empty:
  assumes "keyed_by sp_Code (pe_shorts e)" "pe_positions e = []"
  shows "paper_sound e"
  using assms by (auto simp: paper_sound_def keyed_def keyed_by_def poolPositionCountLocked_def)

lemma closings_fields: "pe_shorts (foldl (\<lambda>e kp. mirrorCloseLocked (c kp) (x kp) (n kp) r (f e kp)) e kps) = pe_shorts e"
  if "\<And>e kp. pe_shorts (f e kp) = pe_shorts e"
  by (induction kps arbitrary: e) (simp_all add: mirrorCloseLocked_def that)

lemma mirror_close_fields: 
  "pe_shorts (foldl (\<lambda>e kp. mirrorCloseLocked (c kp) (x kp) (n kp) r e) e kps) = pe_shorts e"
  "pe_positions (foldl (\<lambda>e kp. mirrorCloseLocked (c kp) (x kp) (n kp) r e) e kps) = pe_positions e"
  "pe_cfg (foldl (\<lambda>e kp. mirrorCloseLocked (c kp) (x kp) (n kp) r e) e kps) = pe_cfg e"
  "pe_poolMaxPos (foldl (\<lambda>e kp. mirrorCloseLocked (c kp) (x kp) (n kp) r e) e kps) = pe_poolMaxPos e"
  by (induction kps arbitrary: e) (simp_all add: mirrorCloseLocked_def)

lemma reset_sound: "paper_sound (Reset now e)"
  unfolding Reset_def Let_def sound_persist by (rule sound_empty) (simp_all add: keyed_by_def)

lemma reconfigure_sound: "paper_sound e \<Longrightarrow> paper_sound (Reconfigure capital n now e)"
  unfolding Reconfigure_def Let_def sound_persist
  by (rule sound_empty) (simp_all add: closings_fields recordOrderLocked_def paper_sound_def keyed_def)

lemma length_filter_filter: "length (filter P (filter Q xs)) \<le> length (filter P xs)"
  by (induction xs) auto

lemma reset_pool_sound:
  assumes "paper_sound e"
  shows "paper_sound (ResetPool k now e)"
proof -
  let ?e = "e\<lparr>pe_positions := filter (\<lambda>kp. pp_StrategyType (snd kp) \<noteq> k) (pe_positions e)\<rparr>"
  have len: "int (length (filter P (pe_positions e))) \<le> n" if "int (length (pe_positions e)) \<le> n" for P n
    using that length_filter_le [of P "pe_positions e"] by linarith
  have "poolPositionCountLocked ?e j \<le> poolPositionCountLocked e j" for j
    using length_filter_filter by (simp add: poolPositionCountLocked_def del: filter_filter)
  then have "paper_sound ?e"
    using assms unfolding paper_sound_def keyed_def
    by (auto simp: keyed_by_filter len intro: order.trans)
  then show ?thesis
    unfolding ResetPool_def Let_def sound_persist
    by (rule sound_cong) (simp_all add: mirror_close_fields)
qed

lemma admin_sound:
  assumes "paper_sound e" "\<not> sets_caps op"
  shows "paper_sound (admin_step now op e)"
proof -
  note s = sound_cong [OF assms(1)]
  have "paper_sound (ApplyPoolMinScore k x now e)" for k x
    by (auto simp: ApplyPoolMinScore_def Let_def assms(1) split: option.split intro: s)
  moreover have "paper_sound (SetStrategyPools types e)" for types
    by (auto simp: SetStrategyPools_def Let_def assms(1) intro: s)
  moreover have "paper_sound (fst (EnsurePool k now e))" for k
    by (auto simp: EnsurePool_def Let_def assms(1) intro: s)
  ultimately show ?thesis
    using assms by (cases op)
      (auto simp: SetPoolBuyRule_def SetPoolIR_def SetPoolABGroup_def SetPoolAllocs_def ResetPoolAllocs_def Deposit_def SetInitialCapital_def
        SetMirror_def Let_def reset_sound reconfigure_sound reset_pool_sound intro: s)
qed

interpretation caps: conditional_system paper_step "\<lambda>o'. \<not> sets_caps (fst o')" paper_sound
proof
  fix e and o' :: "paper_op \<times> int"
  assume "paper_sound e" "\<not> sets_caps (fst o')"
  then show "paper_sound (paper_step e o')" by (cases o') (auto simp: trade_sound admin_sound)
qed

text \<open>C24: In every run of operations that do not set the limits themselves, positions and shorts stay under
  their own code, no code is held twice, and neither the number of positions nor the number of positions of any
  strategy pool exceeds its limit.\<close>

theorem paper_caps_hold:
  assumes "paper_sound e" "list_all (\<lambda>o'. \<not> sets_caps (fst o')) ops"
  shows "paper_sound (foldl paper_step e ops)"
  by (rule caps.inv_run [OF assms])

section \<open>One day\<close>

lemma buys_of: "dk_buys (desk_of day e) = buys_today day e"
  by (simp add: desk_of_def)

definition on_day :: "string \<Rightarrow> paper_op \<times> int \<Rightarrow> bool" where
  "on_day day o' \<longleftrightarrow> trades (fst o') \<and> DayOf (snd o') = day"

definition short_stays :: "string \<Rightarrow> int \<Rightarrow> int \<Rightarrow> paper \<Rightarrow> bool" where
  "short_stays c n t e \<longleftrightarrow> keyed e \<and> dk_short (desk_of (DayOf t) e) c = Some (n, t)"

interpretation lent_today: conditional_system paper_step "on_day (DayOf t)" "short_stays c n t" for c n t
proof
  fix e and o' :: "paper_op \<times> int"
  assume "short_stays c n t e" "on_day (DayOf t) o'"
  then show "short_stays c n t (paper_step e o')"
    using paper_refines_desk_steps [of e "fst o'" "snd o'"] moves_short_stay [of "limits_of e" "snd o'" _ _ t c n]
    by (cases o') (auto simp: short_stays_def on_day_def)
qed

definition buys_within :: "string \<Rightarrow> string \<Rightarrow> int \<Rightarrow> paper \<Rightarrow> bool" where
  "buys_within day k m e \<longleftrightarrow> keyed e \<and> 0 < m \<and> lm_daily (limits_of e) k = m \<and> buys_logged day k e \<le> buys_today day e k \<and> buys_today day e k \<le> m"

interpretation daily_buys: conditional_system paper_step "on_day day" "buys_within day k m" for day k m
proof
  fix e and o' :: "paper_op \<times> int"
  assume *: "buys_within day k m e" "on_day day o'"
  obtain op now where o': "o' = (op, now)" by (cases o')
  let ?e = "trade_step now op e"
  have t: "trades op" "day = DayOf now" and k: "keyed e" using * by (auto simp: on_day_def o' buys_within_def)
  have f: "keyed ?e" "limits_of ?e = limits_of e" "moves (limits_of e) now (desk_of day e) (desk_of day ?e)"
    "buys_logged day k ?e + buys_today day e k \<le> buys_logged day k e + buys_today day ?e k"
    using trade_traces [of now e op] k unfolding t(2) by (simp_all only: traces_def)
  have "buys_today day ?e k \<le> m"
    using moves_daily [OF f(3), of k] * by (auto simp: buys_within_def buys_of)
  then show "buys_within day k m (paper_step e o')"
    using f * t(1) by (auto simp: buys_within_def o')
qed

text \<open>Over a run of the day, by induction: the position grows by what was asked for at most.\<close>

abbreviation asked_in :: "string \<Rightarrow> (paper_op \<times> int) list \<Rightarrow> int" where
  "asked_in c ops \<equiv> sum_list (map (\<lambda>o'. asked c (fst o')) ops)"

lemma locked_run:
  assumes "keyed e" "dk_long (desk_of (DayOf t) e) c = Some (k, n, t)" "wrap64 n = n" "list_all (on_day (DayOf t)) ops"
  shows "\<exists>q. 0 \<le> q \<and> q \<le> asked_in c ops \<and> dk_long (desk_of (DayOf t) (foldl paper_step e ops)) c = Some (k, wrap64 (n + q), t)"
  using assms
proof (induction ops arbitrary: e n)
  case Nil
  then show ?case by (intro exI [of _ 0]) simp
next
  case (Cons o' ops)
  obtain op now where o': "o' = (op, now)" by (cases o')
  let ?e = "paper_step e o'"
  have day: "trades op" "DayOf now = DayOf t" and rest: "list_all (on_day (DayOf t)) ops"
    using Cons.prems(4) by (simp_all add: o') (simp_all add: on_day_def)
  have "?e = trade_step now op e" using day(1) by (simp only: o' paper_step.simps if_True)
  then obtain q where q: "0 \<le> q" "q \<le> asked c op" "dk_long (desk_of (DayOf t) ?e) c = Some (k, wrap64 (n + q), t)"
    using trade_grows [OF Cons.prems(1) Cons.prems(2) [folded day(2)] day(2) [symmetric] Cons.prems(3), of op]
    unfolding day(2) by (elim exE conjE) (simp only:)
  have "keyed ?e" using paper_refines_desk_steps [OF Cons.prems(1) day(1), of now] by (simp add: o')
  moreover have "wrap64 (wrap64 (n + q)) = wrap64 (n + q)" using wrap64_add [of "n + q" 0] by simp
  ultimately obtain q' where "0 \<le> q'" "q' \<le> asked_in c ops"
    "dk_long (desk_of (DayOf t) (foldl paper_step ?e ops)) c = Some (k, wrap64 (wrap64 (n + q) + q'), t)"
    using Cons.IH [OF _ q(3) _ rest] by blast
  then show ?case using q by (intro exI [of _ "q + q'"]) (simp add: o' wrap64_add add.assoc)
qed

text \<open>C25: A position opened today keeps its shares for the rest of the day: after any run of trading operations
  of that day - sales in full and in part, disposals, trims, signals - it is still there, in its pool, with its fill time,
  and its quantity is the old one plus at most what the manual buys of the run asked to add to it (wrapped to 64 bits
  as the addition of the code); short of an overflow it has not fallen. (Shares added today to a position of an
  earlier day are not locked, see \<open>added_shares_sellable\<close>.)\<close>

theorem paper_t_plus_one:
  assumes "keyed e" "map_of (pe_positions e) c = Some p" "wrap64 (pp_Qty p) = pp_Qty p" "list_all (on_day (DayOf (pp_FilledAt p))) ops"
  shows "\<exists>p' q. map_of (pe_positions (foldl paper_step e ops)) c = Some p' \<and> pp_StrategyType p' = pp_StrategyType p \<and>
    pp_FilledAt p' = pp_FilledAt p \<and> 0 \<le> q \<and> q \<le> sum_list (map (\<lambda>o'. asked c (fst o')) ops) \<and> pp_Qty p' = wrap64 (pp_Qty p + q) \<and>
    (pp_Qty p + sum_list (map (\<lambda>o'. asked c (fst o')) ops) < 2 ^ 63 \<longrightarrow> pp_Qty p \<le> pp_Qty p')"
proof -
  obtain q where q: "0 \<le> q" "q \<le> asked_in c ops"
    "dk_long (desk_of (DayOf (pp_FilledAt p)) (foldl paper_step e ops)) c = Some (pp_StrategyType p, wrap64 (pp_Qty p + q), pp_FilledAt p)"
    using locked_run [of e "pp_FilledAt p" c "pp_StrategyType p" "pp_Qty p" ops] assms by (auto simp: long_of)
  have "pp_Qty p \<le> wrap64 (pp_Qty p + q)" if "pp_Qty p + asked_in c ops < 2 ^ 63"
  proof -
    have "- (2 ^ 63) \<le> pp_Qty p" using wrap64_range [of "pp_Qty p"] assms(3) by simp
    then have "wrap64 (pp_Qty p + q) = pp_Qty p + q" using that q by (intro wrap64_id) simp_all
    then show ?thesis using q(1) by simp
  qed
  then show ?thesis using q by (auto simp: long_of)
qed

text \<open>A short opened today is neither covered nor resized by any run of trading operations of that day,
  the forced cover of the stop-loss included.\<close>

theorem short_t_plus_one:
  assumes "keyed e" "map_of (pe_shorts e) c = Some s" "list_all (on_day (DayOf (sp_FilledAt s))) ops"
  shows "\<exists>s'. map_of (pe_shorts (foldl paper_step e ops)) c = Some s' \<and> sp_Qty s' = sp_Qty s \<and> sp_FilledAt s' = sp_FilledAt s"
proof -
  have "short_stays c (sp_Qty s) (sp_FilledAt s) e" using assms by (simp add: short_stays_def short_of brief_short_def)
  then have "short_stays c (sp_Qty s) (sp_FilledAt s) (foldl paper_step e ops)" using assms(3) by (rule lent_today.inv_run)
  then show ?thesis by (auto simp: short_stays_def short_of brief_short_def)
qed

text \<open>C26: However the signals and the manual buys of a day are ordered, no more buys of a pool are booked on that
  day than its rule allows.\<close>

theorem pool_daily_buys:
  assumes "keyed e" "map_of (pe_poolBuyRules e) k = Some r" "0 < br_MaxDailyBuys r"
    "buys_logged day k e \<le> buys_today day e k" "buys_today day e k \<le> br_MaxDailyBuys r" "list_all (on_day day) ops"
  shows "buys_logged day k (foldl paper_step e ops) \<le> br_MaxDailyBuys r"
proof -
  have "buys_within day k (br_MaxDailyBuys r) e" using assms by (simp add: buys_within_def limits_of_def)
  then have "buys_within day k (br_MaxDailyBuys r) (foldl paper_step e ops)" using assms(6) by (rule daily_buys.inv_run)
  then show ?thesis by (auto simp: buys_within_def)
qed

section \<open>The short book\<close>

lemma cover_fields [simp]: "pe_cfg (fst (shortCoverLocked c price r quotes now e)) = pe_cfg e"
  by (auto simp: shortCoverLocked_def short_close_def Let_def recordOrderLocked_def case_prod_beta split: option.split)

lemma cover_stop:
  assumes "map_of (pe_shorts e) c = Some s" "0 < sp_Mark s"
  shows "shortCoverLocked c (sp_Mark s) r Map.empty now e =
    (if canSellToday (sp_FilledAt s) now then (fst (short_close s c (sp_Mark s) r now e), Inr (snd (short_close s c (sp_Mark s) r now e)))
     else (e, Inl ErrShortTPlusOne))"
  using assms by (simp add: shortCoverLocked_def f64_less_not_le case_prod_beta)

lemma close_shorts: "pe_shorts (fst (short_close s c price r now e)) = AList.delete c (pe_shorts e)"
  by (simp add: short_close_def Let_def recordOrderLocked_def)

lemma close_cfg: "pe_cfg (fst (short_close s c price r now e)) = pe_cfg e"
  by (simp add: short_close_def Let_def recordOrderLocked_def)

text \<open>After the stop-loss round nothing that it looked at is over the line and free to be covered.\<close>

lemma stop_each_leaves:
  assumes "distinct (map fst kvs)" "\<forall>(c, s) \<in> set kvs. map_of (pe_shorts e) c = Some s"
    "map_of (pe_shorts (fst (stop_each now kvs e))) c = Some s"
  shows "map_of (pe_shorts e) c = Some s \<and> ((c, s) \<in> set kvs \<longrightarrow> \<not> (stop_hit (pe_cfg e) s \<and> canSellToday (sp_FilledAt s) now))"
  using assms
proof (induction now kvs e arbitrary: c s rule: stop_each.induct)
  case (2 now a x kvs e)
  let ?r = "StopLossAt (pc_ShortStopLossPct (pe_cfg e))"
  let ?c = "fst (short_close x a (sp_Mark x) ?r now e)"
  from "2.prems"(1,2) have x: "map_of (pe_shorts e) a = Some x" "a \<notin> fst ` set kvs" "distinct (map fst kvs)" by auto
  show ?case
  proof (cases "stop_hit (pe_cfg e) x \<and> canSellToday (sp_FilledAt x) now")
    case True
    then have pos: "0 < sp_Mark x" by (simp add: stop_hit_def)
    have cov: "shortCoverLocked a (sp_Mark x) ?r Map.empty now e = (?c, Inr (snd (short_close x a (sp_Mark x) ?r now e)))"
      using True by (simp add: cover_stop [OF x(1) pos])
    have "map_of (pe_shorts (fst (stop_each now kvs ?c))) c = Some s"
      using "2.prems"(3) True by (simp add: cov case_prod_beta)
    moreover have "\<forall>(c, s) \<in> set kvs. map_of (pe_shorts ?c) c = Some s"
      using "2.prems"(2) x(2) by (force simp: close_shorts delete_conv' image_iff)
    ultimately have "map_of (pe_shorts ?c) c = Some s \<and> ((c, s) \<in> set kvs \<longrightarrow> \<not> (stop_hit (pe_cfg ?c) s \<and> canSellToday (sp_FilledAt s) now))"
      using "2.IH"(2) [OF _ cov [symmetric] refl x(3)] True by blast
    then show ?thesis by (auto simp: close_shorts close_cfg delete_conv' split: if_splits)
  next
    case False
    have "fst (stop_each now ((a, x) # kvs) e) = fst (stop_each now kvs e)"
    proof (cases "stop_hit (pe_cfg e) x")
      case True
      then have "0 < sp_Mark x" by (simp add: stop_hit_def)
      then show ?thesis using False True by (simp add: cover_stop [OF x(1)])
    qed simp
    moreover have "map_of (pe_shorts e) c = Some s \<and> ((c, s) \<in> set kvs \<longrightarrow> \<not> (stop_hit (pe_cfg e) s \<and> canSellToday (sp_FilledAt s) now))"
      if "map_of (pe_shorts (fst (stop_each now kvs e))) c = Some s"
    proof (cases "stop_hit (pe_cfg e) x")
      case True
      then have pos: "0 < sp_Mark x" by (simp add: stop_hit_def)
      have cov: "shortCoverLocked a (sp_Mark x) ?r Map.empty now e = (e, Inl ErrShortTPlusOne)"
        using False True by (simp add: cover_stop [OF x(1) pos])
      show ?thesis using "2.IH"(1) [OF True cov [symmetric] refl x(3)] "2.prems"(2) that by auto
    next
      case F: False
      show ?thesis using "2.IH"(3) [OF F x(3)] "2.prems"(2) that by auto
    qed
    ultimately show ?thesis using False "2.prems"(2,3) by (auto simp: x(1))
  qed
qed simp

lemma stop_round:
  assumes "distinct (map fst (pe_shorts e))" "0 < pc_ShortStopLossPct (pe_cfg e)" "stop_hit (pe_cfg e) s"
    "map_of (pe_shorts (fst (shortStopLossLocked now e))) c = Some s"
  shows "DayOf (sp_FilledAt s) = DayOf now"
proof -
  have "fst (shortStopLossLocked now e) = fst (stop_each now (pe_shorts e) e)"
    using f64_less_not_le [OF assms(2)] by (simp add: shortStopLossLocked_def)
  then have "map_of (pe_shorts e) c = Some s \<and> ((c, s) \<in> set (pe_shorts e) \<longrightarrow> \<not> (stop_hit (pe_cfg e) s \<and> canSellToday (sp_FilledAt s) now))"
    using assms by (intro stop_each_leaves [of "pe_shorts e"]) auto
  then show ?thesis using assms(3) by (auto simp: canSellToday_def dest: map_of_SomeD)
qed

lemma marked_distinct: "map fst (pe_shorts (fst (shortMarkLocked quotes e))) = map fst (pe_shorts e)"
  by (auto simp: shortMarkLocked_def marked_short_def)

lemma accrued_distinct: "map fst (pe_shorts (fst (shortAccrueFeesLocked now e))) = map fst (pe_shorts e)"
proof -
  have "map fst (fst (accrue_each daily day kvs seen)) = map fst kvs" for daily day kvs seen
    by (induction daily day kvs seen rule: accrue_each.induct) (auto split: prod.splits)
  then show ?thesis by (auto simp: shortAccrueFeesLocked_def case_prod_beta)
qed

lemma round_cfg: "pe_cfg (fst (shortAccrueFeesLocked now (fst (shortMarkLocked quotes e)))) = pe_cfg e"
  by (simp add: shortAccrueFeesLocked_def shortMarkLocked_def case_prod_beta)

text \<open>C27: Marking to market always carries out the stop-loss of the short book: when it has run, every short
  whose price is still at or over its stop line was opened on that same day (T+1 forbids its cover), whatever the
  order in which the shorts were visited.\<close>

theorem stop_loss_covers:
  assumes "keyed e" "pc_Enabled (pe_cfg e)" "0 < pc_ShortStopLossPct (pe_cfg e)"
    "map_of (pe_shorts (MarkToMarket quotes now e)) c = Some s" "stop_hit (pe_cfg e) s"
  shows "DayOf (sp_FilledAt s) = DayOf now"
proof -
  obtain e' where e': "pe_shorts e' = pe_shorts e" "pe_cfg e' = pe_cfg e"
    "MarkToMarket quotes now e = shortMarkToMarketLocked quotes now e'"
  proof (rule that)
    let ?m = "e\<lparr>pe_positions := map (marked_position quotes) (pe_positions e)\<rparr>"
    let ?e = "if list_ex (\<lambda>(code, p). remarked quotes (code, pp_Mark p)) (pe_positions e) then persist now ?m else ?m"
    show "MarkToMarket quotes now e = shortMarkToMarketLocked quotes now ?e" using assms(2) by (simp add: MarkToMarket_def Let_def)
  qed simp_all
  let ?e2 = "fst (shortAccrueFeesLocked now (fst (shortMarkLocked quotes e')))"
  have "pe_shorts (shortMarkToMarketLocked quotes now e') = pe_shorts (fst (shortStopLossLocked now ?e2))" if "pe_shorts e' \<noteq> []"
    using that by (simp add: shortMarkToMarketLocked_def case_prod_beta)
  then have "map_of (pe_shorts (fst (shortStopLossLocked now ?e2))) c = Some s"
    using assms(4) by (cases "pe_shorts e' = []") (simp_all add: e'(3), simp add: shortMarkToMarketLocked_def)
  moreover have "distinct (map fst (pe_shorts ?e2))"
    using assms(1) by (simp add: marked_distinct accrued_distinct e'(1) keyed_def keyed_by_def)
  ultimately show ?thesis
    using assms(3,5) by (intro stop_round [of ?e2 s now c]) (simp_all add: round_cfg e'(2))
qed

text \<open>The lending fee.\<close>

lemma accrue_keeps_seen: "map_of seen c = Some day \<Longrightarrow> map_of (fst (snd (accrue_each daily day kvs seen))) c = Some day"
  by (induction daily day kvs seen rule: accrue_each.induct) (auto simp: update_conv' split: prod.splits)

lemma accrue_marks: "c \<in> fst ` set kvs \<Longrightarrow> map_of (fst (snd (accrue_each daily day kvs seen))) c = Some day"
proof (induction daily day kvs seen rule: accrue_each.induct)
  case (2 daily day a s kvs seen)
  then have "c = a \<or> c \<in> fst ` set kvs" by auto
  then show ?case
    using accrue_keeps_seen [of seen a day daily kvs] accrue_keeps_seen [of "AList.update a day seen" a day daily kvs] "2.IH"
    by (elim disjE) (simp_all add: update_conv' case_prod_beta)
qed simp

lemma accrue_idle: "\<forall>c \<in> fst ` set kvs. map_of seen c = Some day \<Longrightarrow> accrue_each daily day kvs seen = (kvs, seen, False)"
  by (induction kvs) auto

lemma accrue_keys: "map fst (fst (accrue_each daily day kvs seen)) = map fst kvs"
  by (induction daily day kvs seen rule: accrue_each.induct) (auto split: prod.splits)

text \<open>The daily lending fee is accrued at most once per short and calendar day: however often the book is marked
  on one day, only the first round changes anything.\<close>

theorem short_fee_once_a_day:
  assumes "DayOf later = DayOf now"
  shows "shortAccrueFeesLocked later (fst (shortAccrueFeesLocked now e)) = (fst (shortAccrueFeesLocked now e), False)"
proof (cases "pe_shorts e = [] \<or> pc_ShortFeeAnnual (pe_cfg e) \<le> 0")
  case False
  let ?d = "pc_ShortFeeAnnual (pe_cfg e) / Fin 365"
  obtain r seen b where acc: "accrue_each ?d (DayOf now) (pe_shorts e) (pe_shortFeeDone e) = (r, seen, b)" by (metis prod_cases3)
  have keys: "map fst r = map fst (pe_shorts e)" using accrue_keys [of ?d "DayOf now" "pe_shorts e" "pe_shortFeeDone e"] by (simp add: acc)
  have "map_of seen c = Some (DayOf now)" if "c \<in> fst ` set r" for c
    using accrue_marks [of c "pe_shorts e" ?d "DayOf now" "pe_shortFeeDone e"] that keys by (simp add: acc) (metis image_set)
  then have "accrue_each ?d (DayOf now) r seen = (r, seen, False)" by (intro accrue_idle) simp
  moreover have "r \<noteq> []" using keys False by auto
  ultimately show ?thesis using False assms by (simp add: shortAccrueFeesLocked_def acc)
qed (auto simp: shortAccrueFeesLocked_def)

section \<open>The file\<close>

lemma pool_costs_fields [simp]:
  "pe_positions (backfillPoolPerfLocked now e) = pe_positions e" "pe_shorts (backfillPoolPerfLocked now e) = pe_shorts e"
  "pe_cash (backfillPoolPerfLocked now e) = pe_cash e" "pe_pools (backfillPoolPerfLocked now e) = pe_pools e"
  "pe_cfg (backfillPoolPerfLocked now e) = pe_cfg e" "pe_poolMaxPos (backfillPoolPerfLocked now e) = pe_poolMaxPos e"
  "pe_poolBuyRules (backfillPoolPerfLocked now e) = pe_poolBuyRules e" "pe_poolDiscipline (backfillPoolPerfLocked now e) = pe_poolDiscipline e"
  "pe_shortCash (backfillPoolPerfLocked now e) = pe_shortCash e" "pe_shortFeeDone (backfillPoolPerfLocked now e) = pe_shortFeeDone e"
  "pe_shortOpenSeen (backfillPoolPerfLocked now e) = pe_shortOpenSeen e"
  by (simp_all add: backfillPoolPerfLocked_def Let_def)

lemma trim_fields [simp]:
  "pe_positions (trimTradesLocked now e) = pe_positions e" "pe_shorts (trimTradesLocked now e) = pe_shorts e"
  "pe_cash (trimTradesLocked now e) = pe_cash e" "pe_pools (trimTradesLocked now e) = pe_pools e"
  "pe_cfg (trimTradesLocked now e) = pe_cfg e" "pe_poolMaxPos (trimTradesLocked now e) = pe_poolMaxPos e"
  "pe_poolBuyRules (trimTradesLocked now e) = pe_poolBuyRules e" "pe_poolDiscipline (trimTradesLocked now e) = pe_poolDiscipline e"
  "pe_shortCash (trimTradesLocked now e) = pe_shortCash e" "pe_shortFeeDone (trimTradesLocked now e) = pe_shortFeeDone e"
  "pe_shortOpenSeen (trimTradesLocked now e) = pe_shortOpenSeen e"
  by (simp_all add: trimTradesLocked_def Let_def)

text \<open>C28: A restart from the file of the last write gives back both books: the same positions and shorts under the same
  codes, the pools with their limits and purchase rules, the short book's cash and its once-a-day marks; the cash is the sum of the pools.\<close>

theorem restart_keeps_books:
  assumes "0 < pe_cash e" "pe_pools e \<noteq> []" "0 < sum_values (pe_pools e)"
    "0 < pe_shortCash e \<or> pe_shorts e \<noteq> []"
  shows "let e' = open_paper cfg True (Some (saved now e)) later
    in pe_positions e' = pe_positions e \<and> pe_shorts e' = pe_shorts e \<and> pe_pools e' = pe_pools e \<and> pe_poolMaxPos e' = pe_poolMaxPos e \<and>
       pe_poolBuyRules e' = pe_poolBuyRules e \<and> pe_shortCash e' = pe_shortCash e \<and> pe_shortFeeDone e' = pe_shortFeeDone e \<and>
       pe_shortOpenSeen e' = pe_shortOpenSeen e \<and> pe_cash e' = sum_values (pe_pools e)"
  using assms by (auto simp: open_paper_def load_paper_def Let_def saved_def persistedState_def restore_pools_def restore_rest_def
    or_else_def New_paper_def f64_less_not_le)

end
