(* ===== verification/PaperStats.thy ===== *)
theory PaperStats
  imports PaperPools
begin

text \<open>
  The figures the paper account reports (\<open>statsFor\<close>, \<open>StrategyPools\<close>, the listings of \<open>paper.go\<close>; \<open>computePerfMetrics\<close> of
  \<open>paper_r12.go\<close>). \<open>math.Sqrt\<close> is the correctly rounded square root, computed through the integer square root of the scaled
  operand.
\<close>

section \<open>Square roots\<close>

fun isqrt :: "nat \<Rightarrow> nat" where
  "isqrt n = (if n = 0 then 0 else let r = 2 * isqrt (n div 4) in if (r + 1) * (r + 1) \<le> n then r + 1 else r)"

declare isqrt.simps [simp del]

text \<open>The root of \<open>q\<close> lies between \<open>s / 2 ^ 1100\<close> and \<open>(s + 1) / 2 ^ 1100\<close>; off the grid, the middle rounds like the root.\<close>

definition root_point :: "rat \<Rightarrow> rat" where
  "root_point q = (let n = nat \<lfloor>q * 4 ^ 1100\<rfloor>; s = isqrt n
     in if of_nat (s * s) = q * 4 ^ 1100 then of_nat s / 2 ^ 1100 else (of_nat (2 * s + 1)) / 2 ^ 1101)"

fun fsqrt :: "f64 \<Rightarrow> f64" where
  "fsqrt (Fin q) = (if q < 0 then NaN else rnd (root_point q))"
| "fsqrt PInf = PInf"
| "fsqrt NInf = NaN"
| "fsqrt NaN = NaN"

lemma isqrt_bounds: "isqrt n * isqrt n \<le> n \<and> n < (isqrt n + 1) * (isqrt n + 1)"
proof (induction n rule: isqrt.induct)
  case (1 n)
  show ?case
  proof (cases "n = 0")
    case False
    define m where "m = isqrt (n div 4)"
    have m: "m * m \<le> n div 4" "n div 4 < (m + 1) * (m + 1)" using "1.IH" [OF False] by (simp_all add: m_def)
    have "4 * (m * m) \<le> n" using m(1) by linarith
    moreover have "n < 4 * ((m + 1) * (m + 1))" using m(2) by linarith
    moreover have "isqrt n = (if (2 * m + 1) * (2 * m + 1) \<le> n then 2 * m + 1 else 2 * m)"
      using False by (simp add: isqrt.simps [of n] m_def Let_def)
    ultimately show ?thesis by (auto simp: algebra_simps)
  qed (simp add: isqrt.simps)
qed

section \<open>Risk figures of the equity curve\<close>

record perf_metrics =
  pm_Sharpe :: f64
  pm_MaxDrawdown :: f64
  pm_Calmar :: f64
  pm_TotalReturn :: f64

definition day_returns :: "f64 list \<Rightarrow> f64 list" where
  "day_returns eq = map (\<lambda>(a, b). if 0 < a then (b - a) / a else 0) (zip eq (tl eq))"

definition sum_f64 :: "f64 list \<Rightarrow> f64" where
  "sum_f64 xs = foldl (+) 0 xs"

definition sharpe_of :: "f64 list \<Rightarrow> int \<Rightarrow> f64" where
  "sharpe_of rs daysPerYear =
     (let n = f64_of_int (int (length rs)); mean = sum_f64 rs / n; var = sum_f64 (map (\<lambda>r. (r - mean) * (r - mean)) rs) / n
      in if 0 < var then mean / fsqrt var * fsqrt (f64_of_int daysPerYear) else 0)"

text \<open>Peak so far and deepest fall from it, in percent.\<close>

definition drawdown_step :: "f64 \<times> f64 \<Rightarrow> f64 \<Rightarrow> f64 \<times> f64" where
  "drawdown_step acc v =
     (let peak = (if fst acc < v then v else fst acc); dd = (peak - v) / peak * Fin 100
      in if 0 < peak \<and> snd acc < dd then (peak, dd) else (peak, snd acc))"

definition max_drawdown :: "f64 list \<Rightarrow> f64" where
  "max_drawdown eq = snd (foldl drawdown_step (hd eq, 0) eq)"

definition calmar_of :: "f64 list \<Rightarrow> int \<Rightarrow> f64" where
  "calmar_of eq daysPerYear =
     (let d = f64_of_int daysPerYear; tradingDays = f64_of_int (int (length eq)) * d / d; maxDD = max_drawdown eq
      in if 0 < tradingDays \<and> 0 < hd eq \<and> 0 < maxDD
         then (last eq - hd eq) / hd eq * d / tradingDays / (maxDD / Fin 100) else 0)"

definition computePerfMetrics :: "f64 list \<Rightarrow> int \<Rightarrow> perf_metrics" where
  "computePerfMetrics eq days =
     (if length eq < 2 then \<lparr>pm_Sharpe = 0, pm_MaxDrawdown = 0, pm_Calmar = 0, pm_TotalReturn = 0\<rparr>
      else let d = (if days \<le> 0 then 244 else days)
           in \<lparr>pm_Sharpe = sharpe_of (day_returns eq) d, pm_MaxDrawdown = max_drawdown eq, pm_Calmar = calmar_of eq d,
               pm_TotalReturn = (last eq - hd eq) / hd eq * Fin 100\<rparr>)"

section \<open>Statistics\<close>

record stats =
  st_InitialCapital :: f64
  st_Cash :: f64
  st_MarketValue :: f64
  st_TotalValue :: f64
  st_TotalReturnPct :: f64
  st_RealizedPnl :: f64
  st_OpenPositions :: int
  st_WinRatePct :: f64
  st_FilledBuys :: int
  st_AvgSlippagePct :: f64
  st_AvgLatencySec :: f64
  st_MaxLatencySec :: int
  st_SlippageCost :: f64
  st_SignalAmountPct :: f64
  st_TodayReturnPct :: f64
  st_EquityCurvePoints :: int
  st_SharpeRatio :: f64
  st_MaxDrawdown :: f64
  st_Calmar :: f64
  st_Expectancy :: f64
  st_ShortEnabled :: bool
  st_ShortCash :: f64
  st_ShortMarginUsed :: f64
  st_ShortFloatPnl :: f64
  st_ShortRealized :: f64
  st_ShortPositions :: int
  st_ShortEquity :: f64

definition matches :: "string option \<Rightarrow> string \<Rightarrow> bool" where
  "matches poolKey t \<longleftrightarrow> (case poolKey of None \<Rightarrow> True | Some k \<Rightarrow> t = k)"

text \<open>The buy a sale is compared with: the last recorded one of the code, and whether the sale won.\<close>

definition sale_wins :: "string option \<Rightarrow> paper_trade list \<Rightarrow> paper_trade \<Rightarrow> bool" where
  "sale_wins poolKey ts t =
     (case find (\<lambda>b. pt_Side b = ''buy'' \<and> matches poolKey (pt_StrategyType b) \<and> pt_Code b = pt_Code t \<and> pt_Time b < pt_Time t) (rev ts) of
        None \<Rightarrow> False
      | Some b \<Rightarrow> 0 < (pt_Price t - pt_Price b) * f64_of_int (pt_Qty t))"

definition slip_pct :: "paper_trade \<Rightarrow> f64" where
  "slip_pct t = (pt_Price t - pt_SignalPrice t) / pt_SignalPrice t * Fin 100"

definition capital_of :: "string option \<Rightarrow> paper \<Rightarrow> f64" where
  "capital_of poolKey e =
     (case poolKey of
        None \<Rightarrow> if shortBookEnabledLocked e then pc_InitialCapital (pe_cfg e) + pc_ShortCapital (pe_cfg e) else pc_InitialCapital (pe_cfg e)
      | Some k \<Rightarrow> pf_Cost (get_or no_perf (pe_poolPerf e) k))"

definition realized_of :: "string option \<Rightarrow> paper \<Rightarrow> f64" where
  "realized_of poolKey e =
     (case poolKey of
        None \<Rightarrow> if shortBookEnabledLocked e then pe_realized e + pe_shortRealized e else pe_realized e
      | Some k \<Rightarrow> pf_Realized (get_or no_perf (pe_poolPerf e) k))"

definition total_of :: "string option \<Rightarrow> paper \<Rightarrow> f64" where
  "total_of poolKey e =
     (let cash = (case poolKey of None \<Rightarrow> pe_cash e | Some k \<Rightarrow> get_or 0 (pe_pools e) k);
          mv = foldl (\<lambda>a kp. a + pp_MarketValue (snd kp)) 0 (filter (\<lambda>kp. matches poolKey (pp_StrategyType (snd kp))) (pe_positions e))
      in if shortBookEnabledLocked e then cash + mv + shortEquityLocked e else cash + mv)"

definition return_of :: "string option \<Rightarrow> paper \<Rightarrow> f64" where
  "return_of poolKey e =
     (let capital = capital_of poolKey e
      in if \<not> 0 < capital then 0
         else case poolKey of
             None \<Rightarrow> (total_of None e - capital) / capital * Fin 100
           | Some k \<Rightarrow> (realized_of (Some k) e +
               foldl (\<lambda>a kp. a + pp_PnL (snd kp)) 0 (filter (\<lambda>kp. pp_StrategyType (snd kp) = k) (pe_positions e))) / capital * Fin 100)"

definition today_of :: "equity_point list \<Rightarrow> f64" where
  "today_of eq =
     (if length eq < 2 then 0
      else let prev = eq_Value (eq ! (length eq - 2)); cur = eq_Value (last eq) in if 0 < prev then (cur - prev) / prev * Fin 100 else 0)"

definition statsFor :: "string option \<Rightarrow> paper \<Rightarrow> stats" where
  "statsFor poolKey e =
     (let mine = filter (\<lambda>kp. matches poolKey (pp_StrategyType (snd kp))) (pe_positions e);
          cash = (case poolKey of None \<Rightarrow> pe_cash e | Some k \<Rightarrow> get_or 0 (pe_pools e) k);
          mv = foldl (\<lambda>a kp. a + pp_MarketValue (snd kp)) 0 mine;
          short = shortBookEnabledLocked e;
          total = total_of poolKey e;
          capital = capital_of poolKey e;
          ts = filter (\<lambda>t. matches poolKey (pt_StrategyType t)) (pe_trades e);
          buys = filter (\<lambda>t. pt_Side t = ''buy'') ts;
          sells = filter (\<lambda>t. pt_Side t \<noteq> ''buy'') ts;
          priced = filter (\<lambda>t. 0 < pt_SignalPrice t) buys;
          n = f64_of_int (int (length buys));
          slipCost = sum_f64 (map (\<lambda>t. (pt_Price t - pt_SignalPrice t) * f64_of_int (pt_Qty t)) priced);
          ret = round2 (return_of poolKey e);
          pm = computePerfMetrics (map eq_Value (pe_equity e)) 244
      in \<lparr>st_InitialCapital = capital, st_Cash = cash, st_MarketValue = mv, st_TotalValue = (if short then round2 total else total),
          st_TotalReturnPct = ret, st_RealizedPnl = realized_of poolKey e, st_OpenPositions = int (length mine),
          st_WinRatePct = (if sells = [] then 0 else
             f64_of_int (int (length (filter (sale_wins poolKey (pe_trades e)) sells))) / f64_of_int (int (length sells)) * Fin 100),
          st_FilledBuys = int (length buys),
          st_AvgSlippagePct = round2 (if buys = [] then 0 else sum_f64 (map slip_pct priced) / n),
          st_AvgLatencySec = fround (if buys = [] then 0 else sum_f64 (map (\<lambda>t. f64_of_int (pt_LatencySec t)) buys) / n),
          st_MaxLatencySec = foldl max 0 (map pt_LatencySec buys),
          st_SlippageCost = slipCost,
          st_SignalAmountPct = round2 (if 0 < capital then slipCost / capital * Fin 100 else 0),
          st_TodayReturnPct = round2 (if poolKey = None then today_of (pe_equity e) else 0),
          st_EquityCurvePoints = (if poolKey = None then int (length (pe_equity e)) else 0),
          st_SharpeRatio = round2 (pm_Sharpe pm), st_MaxDrawdown = round2 (pm_MaxDrawdown pm), st_Calmar = round2 (pm_Calmar pm),
          st_Expectancy = (if buys = [] then 0 else round2 (ret / n)),
          st_ShortEnabled = short, st_ShortCash = (if short then round2 (pe_shortCash e) else 0),
          st_ShortMarginUsed = (if short then round2 (sum_shorts sp_MarginUsed e) else 0),
          st_ShortFloatPnl = (if short then round2 (sum_shorts sp_FloatPnl e) else 0),
          st_ShortRealized = (if short then round2 (pe_shortRealized e) else 0),
          st_ShortPositions = (if short then int (length (pe_shorts e)) else 0),
          st_ShortEquity = (if short then round2 (shortEquityLocked e) else 0)\<rparr>)"

section \<open>Listings\<close>

record pool_state =
  ps_Key :: string
  ps_Label :: string
  ps_Cash :: f64
  ps_RatioPct :: f64
  ps_Positions :: int
  ps_MaxPos :: int
  ps_Cost :: f64
  ps_Realized :: f64
  ps_Floating :: f64
  ps_ReturnPct :: f64
  ps_Stats :: stats
  ps_BuyRule :: "pool_buy_rule option"

definition pool_view :: "paper \<Rightarrow> string \<Rightarrow> pool_state" where
  "pool_view e k =
     (let total = sum_values (pe_pools e); cash = get_or 0 (pe_pools e) k;
          mine = filter (\<lambda>kp. pp_StrategyType (snd kp) = k) (pe_positions e);
          floating = foldl (\<lambda>a kp. a + pp_PnL (snd kp)) 0 mine;
          perf = get_or no_perf (pe_poolPerf e) k
      in \<lparr>ps_Key = k, ps_Label = poolLabelOf e k, ps_Cash = cash, ps_RatioPct = (if 0 < total then cash / total * Fin 100 else 0),
          ps_Positions = int (length mine), ps_MaxPos = get_or 0 (pe_poolMaxPos e) k, ps_Cost = round2 (pf_Cost perf),
          ps_Realized = round2 (pf_Realized perf), ps_Floating = round2 floating,
          ps_ReturnPct = round2 (if 0 < pf_Cost perf then (pf_Realized perf + floating) / pf_Cost perf * Fin 100 else 0),
          ps_Stats = statsFor (Some k) e, ps_BuyRule = map_of (pe_poolBuyRules e) k\<rparr>)"

definition StrategyPools :: "paper \<Rightarrow> pool_state list" where
  "StrategyPools e = map (pool_view e) (sort_keys (pe_poolTypes e @ [[]]))"

definition Positions :: "paper \<Rightarrow> paper_position list" where
  "Positions e = sort_key pp_Code (map snd (pe_positions e))"

definition Trades :: "paper \<Rightarrow> paper_trade list" where
  "Trades e = sort_key (\<lambda>t. - pt_Time t) (pe_trades e)"

definition Orders :: "paper \<Rightarrow> paper_order list" where
  "Orders e = sort_key (\<lambda>o'. - po_CreatedAt o') (pe_orders e)"

end
