(* ===== verification/PaperExamples.thy ===== *)
theory PaperExamples
  imports PaperFacts PaperStats
begin

text \<open>
  The paper account at concrete inputs: the witnesses of \<open>PaperFacts\<close>, and the lemmas behind the findings on the
  paper account (fees that no configuration sets, typed prices that are not checked, allocations that create cash, limits that a
  restart lifts).
\<close>

section \<open>An account\<close>

definition plain_rules :: paper_rules where
  "plain_rules = \<lparr>pr_Enabled = True, pr_FixedAmount = Fin 10000, pr_MaxPositions = 1, pr_InitialCapital = Fin 100000, pr_AutoSell = None,
     pr_ShortEnabled = None, pr_ShortCapital = Fin 50000, pr_ShortMarginRate = Fin 1, pr_ShortFeeAnnual = Fin 365, pr_ShortFixedAmount = 0,
     pr_ShortStopLossPct = Fin 100\<rparr>"

definition plain_paper :: paper where
  "plain_paper = New_paper (ConfigFromRules plain_rules) True"

definition plain_buy :: "f64 \<Rightarrow> int \<Rightarrow> paper_op" where
  "plain_buy price qty = DoBuyEx ''600000'' ''A'' [] [] 0 price qty Map.empty"

lemmas plain_defs = plain_paper_def New_paper_def ConfigFromRules_def plain_rules_def Let_def

lemma plain_bought:
  "map_of (pe_positions (paper_step plain_paper (plain_buy (Fin 10) 100, now))) ''600000'' = Some
     \<lparr>pp_Code = ''600000'', pp_Name = ''A'', pp_Strategy = [], pp_StrategyType = [], pp_Qty = 100, pp_CostPrice = Fin 10, pp_Cost = Fin 1000,
      pp_SignalPrice = 0, pp_SignalAt = now, pp_FilledAt = now, pp_Mark = Fin 10, pp_ATR = 0\<rparr>"
  by (simp add: plain_defs plain_buy_def BuyExInPool_def sealed_up_def cap_reached_def manual_fill_def get_or_def fillLocked_def pool_full_def
    checkPoolDisciplinePre_def reentry_error_def checkPoolBudget_def fit_qty_def book_buy_def pay_for_def buyFeeLocked_def raised_price_def
    recordOrderLocked_def mirrorOpenLocked_def add_perf_def f64_of_int_def f64_simps recordPoolBuy_def)

lemma plain_keyed [simp]: "keyed plain_paper" "paper_sound plain_paper"
  by (simp_all add: plain_defs keyed_def keyed_by_def paper_sound_def poolPositionCountLocked_def)

text \<open>A short of 1000 shares at 10, opened at instant 0, marked at 20.\<close>

definition lent_short :: short_position where
  "lent_short = \<lparr>sp_Code = ''600000'', sp_Name = ''A'', sp_Strategy = [], sp_StrategyType = [], sp_Qty = 1000, sp_OpenPrice = Fin 10,
     sp_MarginUsed = Fin 10000, sp_SignalPrice = 0, sp_FeeAccrued = 0, sp_Mark = Fin 10, sp_SignalAt = 0, sp_FilledAt = 0\<rparr>"

definition short_paper :: paper where
  "short_paper = plain_paper\<lparr>pe_shorts := [(''600000'', lent_short)], pe_shortCash := Fin 40000\<rparr>"

lemma short_keyed [simp]: "keyed short_paper"
  by (simp add: short_paper_def plain_defs lent_short_def keyed_def keyed_by_def)

section \<open>Witnesses\<close>

lemma paper_refines_desk_witness:
  "moves (limits_of plain_paper) 0 (desk_of (DayOf 0) plain_paper) (desk_of (DayOf 0) (paper_step plain_paper (plain_buy (Fin 10) 100, 0))) \<and>
   dk_long (desk_of (DayOf 0) (paper_step plain_paper (plain_buy (Fin 10) 100, 0))) ''600000'' = Some ([], 100, 0)"
  using paper_refines_desk [of plain_paper "plain_buy (Fin 10) 100" 0] plain_bought [of 0]
  by (simp add: plain_buy_def long_of brief_long_def)

lemma paper_caps_hold_witness:
  "paper_sound (foldl paper_step plain_paper [(plain_buy (Fin 10) 100, 0)]) \<and>
   map_of (pe_positions (foldl paper_step plain_paper [(plain_buy (Fin 10) 100, 0)])) ''600000'' \<noteq> None"
  using paper_caps_hold [of plain_paper "[(plain_buy (Fin 10) 100, 0)]"] plain_bought [of 0]
  by (simp add: plain_buy_def)

lemma bought_keyed: "keyed (paper_step plain_paper (plain_buy (Fin 10) 100, 0))"
  using paper_refines_desk_steps [of plain_paper "plain_buy (Fin 10) 100" 0] by (simp add: plain_buy_def)

lemma paper_t_plus_one_witness:
  "\<exists>p'. map_of (pe_positions (foldl paper_step (paper_step plain_paper (plain_buy (Fin 10) 100, 0))
       [(DoSellEx ''600000'' (Fin 11) 50 Map.empty, 0)])) ''600000'' = Some p' \<and> pp_FilledAt p' = 0 \<and> pp_Qty p' = 100"
  using paper_t_plus_one [OF bought_keyed plain_bought [of 0], of "[(DoSellEx ''600000'' (Fin 11) 50 Map.empty, 0)]"]
  by (auto simp: on_day_def wrap64_def)

lemma short_t_plus_one_witness:
  "\<exists>s'. map_of (pe_shorts (foldl paper_step short_paper [(DoMark [''600000'' \<mapsto> \<lparr>qt_Price = Fin 20, qt_ChangePct = 0\<rparr>], 0)])) ''600000'' = Some s' \<and>
     sp_Qty s' = 1000 \<and> sp_FilledAt s' = 0"
  using short_t_plus_one [OF short_keyed, of "''600000''" lent_short "[(DoMark [''600000'' \<mapsto> \<lparr>qt_Price = Fin 20, qt_ChangePct = 0\<rparr>], 0)]"]
  by (simp add: on_day_def short_paper_def lent_short_def)

definition one_buy :: pool_buy_rule where
  "one_buy = \<lparr>br_MaxDailyBuys = 1, br_CooldownMinutes = 0, br_MinScore = 0, br_BudgetPctPerDay = 0\<rparr>"

definition ruled_paper :: paper where
  "ruled_paper = plain_paper\<lparr>pe_poolBuyRules := [([], one_buy)]\<rparr>"

lemma pool_daily_buys_witness:
  "buys_logged (DayOf 0) [] (foldl paper_step ruled_paper [(plain_buy (Fin 10) 100, 0), (plain_buy (Fin 10) 100, 0)]) \<le> 1"
  using pool_daily_buys [of ruled_paper "[]" one_buy "DayOf 0" "[(plain_buy (Fin 10) 100, 0), (plain_buy (Fin 10) 100, 0)]"]
  by (simp add: ruled_paper_def one_buy_def plain_defs keyed_def keyed_by_def buys_logged_def buys_today_def on_day_def plain_buy_def)

lemma stop_loss_marked:
  "map_of (pe_shorts (MarkToMarket [''600000'' \<mapsto> \<lparr>qt_Price = Fin 20, qt_ChangePct = 0\<rparr>] 0 short_paper)) ''600000'' =
     Some (lent_short\<lparr>sp_Mark := Fin 20, sp_FeeAccrued := Fin 10000\<rparr>)"
  by (simp add: short_paper_def plain_defs lent_short_def MarkToMarket_def shortMarkToMarketLocked_def shortMarkLocked_def marked_short_def
    shortAccrueFeesLocked_def shortStopLossLocked_def stop_hit_def f64_simps f64_of_int_def shortCoverLocked_def canSellToday_def update_conv')

lemma stop_loss_covers_witness: "DayOf (sp_FilledAt (lent_short\<lparr>sp_Mark := Fin 20, sp_FeeAccrued := Fin 10000\<rparr>)) = DayOf 0"
  by (rule stop_loss_covers [OF short_keyed _ _ stop_loss_marked])
    (simp_all add: short_paper_def plain_defs lent_short_def stop_hit_def f64_simps)

lemma short_fee_once_a_day_witness:
  "shortAccrueFeesLocked 1 (fst (shortAccrueFeesLocked 0 short_paper)) = (fst (shortAccrueFeesLocked 0 short_paper), False)"
  by (rule short_fee_once_a_day) code_simp

lemma restart_keeps_books_witness:
  "pe_shorts (open_paper (ConfigFromRules plain_rules) True (Some (saved 0 short_paper)) 1) = pe_shorts short_paper \<and>
   pe_shortCash (open_paper (ConfigFromRules plain_rules) True (Some (saved 0 short_paper)) 1) = Fin 40000"
  using restart_keeps_books [of short_paper "ConfigFromRules plain_rules" 0 1]
  by (simp add: short_paper_def plain_defs sum_values_def f64_simps)

section \<open>Findings\<close>

text \<open>The assembly from the account's rules sets no commission, stamp duty, slippage or re-entry cooldown, whatever the rules: all
  fees are zero, although \<open>DefaultConfig\<close> has real ones.\<close>

lemma rules_charge_no_fee:
  "buyFeeLocked (ConfigFromRules rp) cost = 0 \<and> sellFeeLocked (ConfigFromRules rp) proceeds = 0 \<and> raised_price (ConfigFromRules rp) price = price \<and>
   applySellPriceLocked (ConfigFromRules rp) price = price \<and> pc_ReentryCooldownMin (ConfigFromRules rp) = 0"
  by (simp add: ConfigFromRules_def Let_def buyFeeLocked_def sellFeeLocked_def commission_def raised_price_def applySellPriceLocked_def zero_f64_def)

text \<open>An add takes the typed price as it is: at a price of 0 the shares are free, at a negative one the account is paid for them.\<close>

lemma bought_figures:
  "pe_cash (paper_step plain_paper (plain_buy (Fin 10) 100, now)) = Fin 99000"
  "pe_pools (paper_step plain_paper (plain_buy (Fin 10) 100, now)) = [([], Fin 99000)]"
  "pe_cfg (paper_step plain_paper (plain_buy (Fin 10) 100, now)) = ConfigFromRules plain_rules"
  "pe_poolBuyRules (paper_step plain_paper (plain_buy (Fin 10) 100, now)) = []"
  by (simp_all add: plain_defs plain_buy_def BuyExInPool_def sealed_up_def cap_reached_def manual_fill_def get_or_def fillLocked_def pool_full_def
    checkPoolDisciplinePre_def reentry_error_def checkPoolBudget_def fit_qty_def book_buy_def pay_for_def buyFeeLocked_def raised_price_def
    recordOrderLocked_def mirrorOpenLocked_def add_perf_def f64_of_int_def f64_simps recordPoolBuy_def)

lemma typed_add:
  assumes "map_of (pe_positions e) ''600000'' = Some p" "pe_cfg e = ConfigFromRules plain_rules" "pe_poolBuyRules e = []"
    "pp_StrategyType p = []" "pe_pools e = [([], Fin 99000)]" "pe_cash e = Fin 99000"
  shows "pe_cash (paper_step e (plain_buy 0 1000, now)) = Fin 99000" "pe_cash (paper_step e (plain_buy (Fin (- 10)) 1000, now)) = Fin 109000"
  using assms
  by (simp_all add: ConfigFromRules_def plain_rules_def Let_def plain_buy_def BuyExInPool_def sealed_up_def addToPositionLocked_def raised_price_def
    buyFeeLocked_def get_or_def checkPoolDisciplinePre_def checkPoolBudget_def pay_for_def add_perf_def recordPoolBuy_def f64_simps f64_of_int_def)

lemma typed_price_pays:
  "pe_cash plain_paper = Fin 100000 \<and>
   pe_cash (foldl paper_step plain_paper [(plain_buy (Fin 10) 100, now), (plain_buy 0 1000, now)]) = Fin 99000 \<and>
   pe_cash (foldl paper_step plain_paper [(plain_buy (Fin 10) 100, now), (plain_buy (Fin (- 10)) 1000, now)]) = Fin 109000"
  using typed_add [OF plain_bought bought_figures(3,4) _ bought_figures(2,1), of now now]
  by (simp add: plain_defs del: paper_step.simps)

text \<open>An add keeps the fill time of the position, so shares bought today can be sold today when the position is older.\<close>

lemma added_shares_sellable:
  assumes "addToPositionLocked p code name strategy sp price qty reason now e = (e', None)" "canSellToday (pp_FilledAt p) now"
  shows "\<exists>p'. map_of (pe_positions e') code = Some p' \<and> pp_Qty p' = wrap64 (pp_Qty p + qty) \<and> canSellToday (pp_FilledAt p') now"
  using assms by (auto simp: addToPositionLocked_def Let_def update_conv' split: if_splits prod.splits bool.splits)

text \<open>Allocations that ask for at least the whole cash keep the cash of the pools they do not name.\<close>

lemma rnd_half: "rnd (1/2) = Fin (1/2)"
  using rq_pow2 [of "- 1"] by (simp add: rnd_def pow2_def f64max_def)

lemma allocs_create_cash:
  assumes "pe_pools e = [(''a'', Fin 50), (''b'', Fin 50)]"
  shows "sum_values (pe_pools (SetPoolAllocs [(''a'', Fin 100)] now e)) = Fin 150 \<and> pe_cash (SetPoolAllocs [(''a'', Fin 100)] now e) = Fin 100"
  using assms by (simp add: SetPoolAllocs_def alloc_pools_def given_def get_or_def sum_values_def Let_def f64_simps rnd_half)

text \<open>The day's counters are not in the file: a restart lifts a pool's daily limit.\<close>

lemma restart_forgets_day: "pe_poolDiscipline (open_paper cfg True file later) = []"
  by (auto simp: open_paper_def load_paper_def Let_def restore_rest_def restore_pools_def New_paper_def split: option.split)

lemma restart_lifts_daily_limit:
  assumes "map_of (pe_poolBuyRules (open_paper cfg True file later)) k = Some (one_buy\<lparr>br_MaxDailyBuys := m\<rparr>)"
  shows "\<not> snd (checkPoolDisciplinePre k conf manual now (open_paper cfg True file later))"
  using assms by (auto simp: checkPoolDisciplinePre_def Let_def rule_refuses_def one_buy_def discipline_of_def restart_forgets_day fresh_discipline_def zero_f64_def)

text \<open>A position limit of 0 (no limit) is written, but not read back.\<close>

lemma unlimited_cap_lost:
  assumes "0 < pe_cash e"
  shows "pc_MaxPositions (pe_cfg (open_paper cfg True (Some (saved now (SetMaxPositions 0 now e))) later)) = pc_MaxPositions cfg"
  using assms by (simp add: open_paper_def load_paper_def Let_def restore_rest_def restore_pools_def New_paper_def saved_def persistedState_def
    SetMaxPositions_def f64_less_not_le)

text \<open>While there are no trades the cap on the order log is not applied.\<close>

lemma reject_log_unbounded: "pe_trades e = [] \<Longrightarrow> pe_orders (persist now e) = pe_orders e"
  by (simp add: persist_def trimTradesLocked_def)

text \<open>The accrual of the lending fee does not touch the cash of the short book.\<close>

lemma accrual_keeps_cash: "pe_shortCash (fst (shortAccrueFeesLocked now e)) = pe_shortCash e"
  by (simp add: shortAccrueFeesLocked_def case_prod_beta)

text \<open>The total of a single strategy pool counts the whole short book, which the comment says stays out of the pools.\<close>

lemma pool_total_counts_shorts:
  assumes "shortBookEnabledLocked e" "pe_positions e = []"
  shows "st_TotalValue (statsFor (Some k) e) = round2 (get_or 0 (pe_pools e) k + 0 + shortEquityLocked e)"
  using assms by (simp add: statsFor_def total_of_def Let_def)

text \<open>Opening a short counts as a sale without profit in the win rate.\<close>

definition win_trade :: "string \<Rightarrow> f64 \<Rightarrow> int \<Rightarrow> paper_trade" where
  "win_trade side price t = \<lparr>pt_Code = ''600000'', pt_Name = [], pt_Strategy = [], pt_StrategyType = [], pt_Side = side, pt_Price = price,
     pt_SignalPrice = 0, pt_Qty = 100, pt_Amount = 0, pt_Time = t, pt_LatencySec = 0, pt_Fee = 0, pt_Reason = Plain []\<rparr>"

lemma shorts_dilute_win_rate:
  assumes "pe_trades e = [win_trade ''buy'' (Fin 10) 0, win_trade ''sell'' (Fin 11) 1]"
  shows "st_WinRatePct (statsFor None e) = Fin 100"
    "st_WinRatePct (statsFor None (e\<lparr>pe_trades := pe_trades e @ [(win_trade ''short_open'' (Fin 10) 2)\<lparr>pt_Code := ''000001''\<rparr>]\<rparr>)) = Fin 50"
  using assms
  by (simp_all add: statsFor_def Let_def matches_def sale_wins_def win_trade_def f64_simps f64_of_int_def rnd_half)

end
