(* ===== verification/Settlement.thy ===== *)
theory Settlement
  imports "HOL-Library.AList" PaperState Trader
begin

text \<open>
  The daily reconciliation of the ledger with the broker's settlement list (\<open>internal/trading/settlement.go\<close> with the
  differences table of \<open>store/settlement.go\<close>). What the gateway answers to \<open>FetchSettlement\<close> is an argument; \<open>se_fetched\<close> is
  the sequence of calls made. A Go map from facts to lists is an association list in order of first appearance. The text of a
  difference keeps its arguments.
\<close>

record settlement_trade =
  sx_OrderID :: string
  sx_TsCode :: string
  sx_Side :: string
  sx_Price :: f64
  sx_Qty :: int
  sx_Amount :: f64
  sx_Fee :: f64
  sx_StampTax :: f64
  sx_Serial :: string
  sx_TradedAt :: string

record settlement_response =
  sr_Trades :: "settlement_trade list"
  sr_Cash :: "(string \<times> f64) list"
  sr_Connected :: bool

record broker_trade =
  bt_Code :: string
  bt_Side :: string
  bt_Price :: f64
  bt_Qty :: f64
  bt_Fee :: f64
  bt_OrderID :: string
  bt_TradedAt :: string
  bt_Serial :: string

text \<open>
  The fact key: code, side, quantity, price in cents. The source joins the four with \<open>|\<close> into one text; the tuple keeps them
  apart, which is the same for codes and sides without that sign (and for prices that are not shown as \<open>-0.00\<close>).
\<close>

type_synonym fact = "string \<times> string \<times> f64 \<times> f64"

definition settleFactKey :: "string \<Rightarrow> string \<Rightarrow> f64 \<Rightarrow> f64 \<Rightarrow> fact" where
  "settleFactKey code side qty price = (code, side, qty, shown 2 price)"

record settlement_diff =
  sd_Day :: string
  sd_MissingInLocal :: "fact list"
  sd_ExtraInLocal :: "fact list"
  sd_Mismatch :: "(fact \<times> f64 \<times> f64) list"
  sd_FeeDiff :: f64
  sd_CashDiff :: f64
  sd_LocalFeeTotal :: f64
  sd_BrokerFeeTotal :: f64
  sd_Mode :: string

section \<open>Normal forms\<close>

definition normalizeSettleDay :: "string \<Rightarrow> string" where
  "normalizeSettleDay day =
     (if length day = 8 \<and> list_all is_digit day then take 4 day @ ''-'' @ take 2 (drop 4 day) @ ''-'' @ drop 6 day else day)"

definition normalizeSide :: "string \<Rightarrow> string" where
  "normalizeSide s =
     (let x = map ascii_lower (trim_space s)
      in if x \<in> {''buy'', ''b'', [CHR 0xE4, CHR 0xB9, CHR 0xB0, CHR 0xE5, CHR 0x85, CHR 0xA5], [CHR 0xE4, CHR 0xB9, CHR 0xB0]} then SideBuy else if x \<in> {''sell'', ''s'', [CHR 0xE5, CHR 0x8D, CHR 0x96, CHR 0xE5, CHR 0x87, CHR 0xBA], [CHR 0xE5, CHR 0x8D, CHR 0x96]} then SideSell else [])"

definition abs_f64 :: "f64 \<Rightarrow> f64" where
  "abs_f64 v = (if v < 0 then - v else v)"

definition broker_trade_of :: "settlement_trade \<Rightarrow> broker_trade" where
  "broker_trade_of t = \<lparr>bt_Code = sx_TsCode t, bt_Side = normalizeSide (sx_Side t), bt_Price = sx_Price t, bt_Qty = f64_of_int (sx_Qty t),
     bt_Fee = sx_Fee t + sx_StampTax t, bt_OrderID = sx_OrderID t, bt_TradedAt = sx_TradedAt t, bt_Serial = sx_Serial t\<rparr>"

definition broker_trades :: "settlement_response \<Rightarrow> broker_trade list" where
  "broker_trades resp = filter (\<lambda>b. bt_Side b \<noteq> []) (map broker_trade_of (sr_Trades resp))"

definition broker_fact :: "broker_trade \<Rightarrow> fact" where
  "broker_fact b = settleFactKey (bt_Code b) (bt_Side b) (bt_Qty b) (bt_Price b)"

definition local_fact :: "real_fill \<Rightarrow> fact" where
  "local_fact f = settleFactKey (f_Code f) (f_Side f) (f_Qty f) (f_Price f)"

section \<open>Comparing\<close>

definition group_by :: "('a \<Rightarrow> 'k) \<Rightarrow> 'a list \<Rightarrow> ('k \<times> 'a list) list" where
  "group_by key xs = foldl (\<lambda>m x. AList.update (key x) (get_or [] m (key x) @ [x]) m) [] xs"

definition missing_trades :: "(fact \<times> broker_trade list) list \<Rightarrow> (fact \<times> real_fill list) list \<Rightarrow> (fact \<times> broker_trade) list" where
  "missing_trades broker loc = concat (map (\<lambda>(k, bts). map (\<lambda>b. (k, b)) (drop (length (get_or [] loc k)) bts)) broker)"

definition extra_fills :: "(fact \<times> broker_trade list) list \<Rightarrow> (fact \<times> real_fill list) list \<Rightarrow> (fact \<times> real_fill) list" where
  "extra_fills broker loc = concat (map (\<lambda>(k, lfs). map (\<lambda>f. (k, f)) (drop (length (get_or [] broker k)) lfs)) loc)"

definition differs :: "broker_trade \<times> real_fill \<Rightarrow> bool" where
  "differs bl = (case bl of (b, l) \<Rightarrow> \<not> feq (f_Qty l) (bt_Qty b) \<or> lit (11/1000) < abs_f64 (f_Price l - bt_Price b))"

definition mismatches :: "(fact \<times> broker_trade list) list \<Rightarrow> (fact \<times> real_fill list) list \<Rightarrow> (fact \<times> f64 \<times> f64) list" where
  "mismatches broker loc = concat (map (\<lambda>(k, bts). map (\<lambda>(b, l). (k, f_Price l, bt_Price b)) (filter differs (zip bts (get_or [] loc k)))) broker)"

text \<open>The fill that backfills a broker trade.\<close>

definition settle_fill :: "string \<Rightarrow> string \<Rightarrow> broker_trade \<Rightarrow> real_fill" where
  "settle_fill userID day b =
     \<lparr>f_ID = 0, f_OrderID = bt_OrderID b, f_Code = bt_Code b, f_Name = [], f_Side = bt_Side b, f_Price = bt_Price b, f_Qty = bt_Qty b,
      f_Amount = bt_Price b * bt_Qty b,
      f_TradedAt = (if bt_TradedAt b = [] then day @ '' 00:00:00'' else if length (bt_TradedAt b) = 8 then day @ '' '' @ bt_TradedAt b else bt_TradedAt b),
      f_SignalID = ''settle:'' @ day, f_TradeID = [], f_UserID = userID, f_Fee = bt_Fee b, f_StampTax = 0, f_Serial = bt_Serial b,
      f_Market = [], f_Currency = []\<rparr>"

definition ApplySettlementFill :: "db \<Rightarrow> string \<Rightarrow> real_fill \<Rightarrow> db res" where
  "ApplySettlementFill d now f = ApplyRealFill d now f"

definition sync_one :: "string \<Rightarrow> db \<Rightarrow> real_fill \<Rightarrow> db" where
  "sync_one now d f = (case ApplySettlementFill d now f of Inl _ \<Rightarrow> d | Inr d' \<Rightarrow> d')"

section \<open>The settlement of a day\<close>

record settler =
  se_trader :: trader
  se_lastSettleDay :: string
  se_lastSettleAttemptAt :: int
  se_settleFailDay :: string
  se_settleFailCount :: int
  se_diffs :: "(string \<times> settlement_diff) list"
  se_fetched :: "string list"
  se_attempts :: "(int \<times> string) list"
  se_alerts :: "settlement_diff list"

datatype settle_error = NoRealBook | FetchFailed string | SettleStore store_error | DiffNotSaved

text \<open>\<open>json.Marshal\<close> refuses NaN and infinities; \<open>ok\<close> is whether the table accepts the row.\<close>

definition finite_f64 :: "f64 \<Rightarrow> bool" where
  "finite_f64 x \<longleftrightarrow> (case x of Fin _ \<Rightarrow> True | _ \<Rightarrow> False)"

definition SaveSettlementDiff :: "bool \<Rightarrow> string \<Rightarrow> settlement_diff \<Rightarrow> (string \<times> settlement_diff) list \<Rightarrow> (string \<times> settlement_diff) list option" where
  "SaveSettlementDiff ok userID sd rows =
     (if \<not> list_all finite_f64 [sd_FeeDiff sd, sd_CashDiff sd, sd_LocalFeeTotal sd, sd_BrokerFeeTotal sd] \<or> \<not> ok then None
      else if list_ex (\<lambda>(u, r). u = userID \<and> sd_Day r = sd_Day sd) rows
           then Some (map (\<lambda>(u, r). if u = userID \<and> sd_Day r = sd_Day sd then (u, sd) else (u, r)) rows)
           else Some (rows @ [(userID, sd)]))"

definition ListSettlementDiffs :: "int \<Rightarrow> (string \<times> settlement_diff) list \<Rightarrow> settlement_diff list" where
  "ListSettlementDiffs limit rows = take (nat (if limit \<le> 0 then 10 else limit)) (map snd (rev rows))"

definition cash_diff :: "db \<Rightarrow> string \<Rightarrow> settlement_response \<Rightarrow> f64" where
  "cash_diff d userID resp =
     (let cash = a_AvailableCash (GetRealAccount d userID); brokerCash = get_or 0 (sr_Cash resp) ''cash''
      in if 0 < cash \<and> 0 < brokerCash then brokerCash - cash else 0)"

definition fee_total :: "f64 list \<Rightarrow> f64" where
  "fee_total fs = foldl (+) 0 fs"

definition settle_diff :: "string \<Rightarrow> string \<Rightarrow> db \<Rightarrow> string \<Rightarrow> settlement_response \<Rightarrow> real_fill list \<Rightarrow> settlement_diff" where
  "settle_diff day mode d userID resp fs =
     (let broker = group_by broker_fact (broker_trades resp); loc = group_by local_fact fs;
          brokerFees = fee_total (map bt_Fee (broker_trades resp)); localFees = foldl (\<lambda>a f. a + (f_Fee f + f_StampTax f)) 0 fs
      in \<lparr>sd_Day = day, sd_MissingInLocal = map fst (missing_trades broker loc), sd_ExtraInLocal = map fst (extra_fills broker loc),
          sd_Mismatch = mismatches broker loc, sd_FeeDiff = brokerFees - localFees, sd_CashDiff = cash_diff d userID resp,
          sd_LocalFeeTotal = localFees, sd_BrokerFeeTotal = brokerFees, sd_Mode = mode\<rparr>)"

text \<open>The ledger after the correction: untouched unless the mode is \<open>sync_fills\<close>.\<close>

definition settled_db :: "string \<Rightarrow> string \<Rightarrow> string \<Rightarrow> string \<Rightarrow> settlement_response \<Rightarrow> real_fill list \<Rightarrow> db \<Rightarrow> db" where
  "settled_db now day mode userID resp fs d =
     (if mode = ''sync_fills''
      then foldl (sync_one now) d (map (\<lambda>(k, b). settle_fill userID day b)
             (missing_trades (group_by broker_fact (broker_trades resp)) (group_by local_fact fs)))
      else d)"

definition SettleDay :: "string \<Rightarrow> bool \<Rightarrow> (string + settlement_response) \<Rightarrow> string \<Rightarrow> string \<Rightarrow> settler \<Rightarrow> settler \<times> (settle_error + settlement_diff option)" where
  "SettleDay now ok answer day0 mode0 s =
     (let day = normalizeSettleDay day0; c = se_trader s; mode = (if mode0 = [] then ''report_only'' else mode0)
      in if \<not> tr_hasStore c then (s, Inl NoRealBook)
         else if \<not> is_client (tr_exec c) then (s, Inr None)
         else let s = s\<lparr>se_fetched := se_fetched s @ [day]\<rparr>
              in case answer of
                   Inl err \<Rightarrow> (s, Inl (FetchFailed err))
                 | Inr resp \<Rightarrow>
                     if \<not> sr_Connected resp then (s, Inr None)
                     else case ListFillsByDay (tr_db c) (tr_userID c) day of
                         Inl err \<Rightarrow> (s, Inl (SettleStore err))
                       | Inr fs \<Rightarrow>
                           (let diff = settle_diff day mode (tr_db c) (tr_userID c) resp fs;
                                s = s\<lparr>se_trader := c\<lparr>tr_db := settled_db now day mode (tr_userID c) resp fs (tr_db c)\<rparr>\<rparr>
                            in case SaveSettlementDiff ok (tr_userID c) diff (se_diffs s) of
                                 None \<Rightarrow> (s, Inl DiffNotSaved)
                               | Some rows \<Rightarrow> (s\<lparr>se_diffs := rows\<rparr>, Inr (Some diff))))"

definition settleRetryInterval :: int where
  "settleRetryInterval = 600 * second"

definition settle_due :: "string \<Rightarrow> int \<Rightarrow> bool \<Rightarrow> int \<Rightarrow> settler \<Rightarrow> bool" where
  "settle_due day settleAt0 enabled now s \<longleftrightarrow>
     (let settleAt = (if settleAt0 \<le> 0 then 1530 else settleAt0)
      in enabled \<and> tr_hasStore (se_trader s) \<and> BrokerEnabled (tr_cfg (se_trader s)) \<and> se_lastSettleDay s \<noteq> day \<and>
         settleAt \<le> hhmm cn_offset now \<and>
         \<not> (se_lastSettleAttemptAt s \<noteq> zero_time \<and> time_sub now (se_lastSettleAttemptAt s) < settleRetryInterval))"

definition diff_found :: "settlement_diff \<Rightarrow> bool" where
  "diff_found d \<longleftrightarrow> sd_MissingInLocal d \<noteq> [] \<or> sd_ExtraInLocal d \<noteq> [] \<or> sd_Mismatch d \<noteq> []"

text \<open>The scheduled attempt: once a day on success, throttled after a failure.\<close>

definition MaybeSettleDay :: "string \<Rightarrow> string \<Rightarrow> int \<Rightarrow> bool \<Rightarrow> string \<Rightarrow> bool \<Rightarrow> (string + settlement_response) \<Rightarrow> int \<Rightarrow> settler \<Rightarrow> settler" where
  "MaybeSettleDay day0 mode settleAt enabled stamp ok answer now s0 =
     (let day = normalizeSettleDay day0
      in if \<not> settle_due day settleAt enabled now s0 then s0
         else case SettleDay stamp ok answer day mode (s0\<lparr>se_lastSettleAttemptAt := now, se_attempts := se_attempts s0 @ [(now, day)]\<rparr>) of
             (s, Inl err) \<Rightarrow>
               (let s = (if se_settleFailDay s \<noteq> day then s\<lparr>se_settleFailDay := day, se_settleFailCount := 0\<rparr> else s)
                in s\<lparr>se_settleFailCount := se_settleFailCount s + 1\<rparr>)
           | (s, Inr diff) \<Rightarrow>
               (let s = s\<lparr>se_lastSettleDay := day,
                          se_settleFailCount := (if se_settleFailDay s = day \<and> 0 < se_settleFailCount s then 0 else se_settleFailCount s)\<rparr>
                in case diff of
                     Some d \<Rightarrow> if diff_found d \<and> tr_onAlert (se_trader s) then s\<lparr>se_alerts := se_alerts s @ [d]\<rparr> else s
                   | None \<Rightarrow> s))"

end
