(* ===== verification/SettlementFacts.thy ===== *)
theory SettlementFacts
  imports Settlement PositionBook GateFacts "HOL-Library.Multiset"
begin

text \<open>
  What the reconciliation promises. The report is characterised by multisets of facts: the trades the ledger lacks and the
  fills the broker does not know are the two differences, and the backfill books exactly the former. The schedule is shown by
  induction on the sequence of its calls.
\<close>

section \<open>Grouping\<close>

lemma get_or_map: "map_of m k = Some v \<Longrightarrow> get_or z m k = v" "map_of m k = None \<Longrightarrow> get_or z m k = z"
  by (simp_all add: get_or_def)

lemma group_by_fold:
  "get_or [] (foldl (\<lambda>m x. AList.update (key x) (get_or [] m (key x) @ [x]) m) m xs) k = get_or [] m k @ filter (\<lambda>x. key x = k) xs"
  by (induction xs arbitrary: m) (auto simp: get_or_def update_conv')

lemma get_group [simp]: "get_or [] (group_by key xs) k = filter (\<lambda>x. key x = k) xs"
  by (simp add: group_by_def group_by_fold) (simp add: get_or_def)

lemma distinct_group [simp]: "distinct (map fst (group_by key xs))"
proof -
  have "distinct (map fst (foldl (\<lambda>m x. AList.update (key x) (get_or [] m (key x) @ [x]) m) m xs))" if "distinct (map fst m)" for m
    using that by (induction xs arbitrary: m) (auto simp: distinct_update)
  then show ?thesis by (simp add: group_by_def)
qed

lemma group_row: "(k, ys) \<in> set (group_by key xs) \<Longrightarrow> ys = filter (\<lambda>x. key x = k) xs"
  by (metis get_group get_or_map(1) map_of_is_SomeI distinct_group)

lemma count_dropped:
  assumes "distinct (map fst m)"
  shows "count (mset (map fst (concat (map (\<lambda>(k, xs). map (\<lambda>x. (k, x)) (drop (h k) xs)) m)))) k = length (get_or [] m k) - h k"
  using assms
proof (induction m)
  case Nil
  then show ?case by (simp add: get_or_def)
next
  case (Cons a m)
  obtain j xs where a: "a = (j, xs)" by force
  have "mset (map fst (map (\<lambda>x. (j, x)) (drop (h j) xs))) = replicate_mset (length xs - h j) j"
    unfolding map_map comp_def fst_conv map_replicate_const by simp
  moreover have "j = k \<Longrightarrow> map_of m k = None" using Cons.prems a by (auto simp: map_of_eq_None_iff)
  ultimately show ?case using Cons a by (auto simp: get_or_def)
qed

lemma count_filter: "length (filter (\<lambda>x. key x = k) xs) = count (mset (map key xs)) k"
  by (induction xs) auto

lemma missing_mset:
  "mset (map fst (missing_trades (group_by broker_fact bs) (group_by local_fact fs))) = mset (map broker_fact bs) - mset (map local_fact fs)"
proof (rule multiset_eqI)
  fix k
  show "count (mset (map fst (missing_trades (group_by broker_fact bs) (group_by local_fact fs)))) k
    = count (mset (map broker_fact bs) - mset (map local_fact fs)) k"
    unfolding missing_trades_def using count_dropped [of "group_by broker_fact bs" "\<lambda>k. length (get_or [] (group_by local_fact fs) k)" k]
    by (simp only: get_group count_filter distinct_group count_diff)
qed

lemma extra_mset:
  "mset (map fst (extra_fills (group_by broker_fact bs) (group_by local_fact fs))) = mset (map local_fact fs) - mset (map broker_fact bs)"
proof (rule multiset_eqI)
  fix k
  show "count (mset (map fst (extra_fills (group_by broker_fact bs) (group_by local_fact fs)))) k
    = count (mset (map local_fact fs) - mset (map broker_fact bs)) k"
    unfolding extra_fills_def using count_dropped [of "group_by local_fact fs" "\<lambda>k. length (get_or [] (group_by broker_fact bs) k)" k]
    by (simp only: get_group count_filter distinct_group count_diff)
qed

section \<open>No mismatch within a group\<close>

lemma rhe_within: "\<bar>z - of_int (rhe z)\<bar> \<le> 1 / 2"
proof -
  have f: "of_int \<lfloor>z\<rfloor> \<le> z" "z < of_int \<lfloor>z\<rfloor> + 1" by linarith+
  show ?thesis unfolding rhe_def Let_def abs_le_iff using f by (simp split: if_split) linarith
qed

lemma rhe_near: "rhe x = rhe y \<Longrightarrow> \<bar>x - y\<bar> \<le> 1"
  using rhe_within [of x] rhe_within [of y] by linarith

lemma shown_near:
  assumes "shown 2 (Fin x) = shown 2 (Fin y)"
  shows "\<bar>x - y\<bar> \<le> 1 / 100"
proof -
  have "rhe (x * 100) = rhe (y * 100)" using assms by (simp add: shown_def)
  from rhe_near [OF this] show ?thesis unfolding abs_le_iff by linarith
qed

lemma rnd_grid:
  assumes "x = of_int m * pow2 e" "\<bar>m\<bar> \<le> 2 ^ 53" "- 1074 \<le> e" "\<bar>x\<bar> < f64max"
  shows "rnd x = Fin x"
  using rq_grid [OF assms(1-3)] assms(4) by (auto simp: rnd_def Let_def)

lemma rnd_uminus: "rnd (- x) = - rnd x"
proof -
  have "0 < f64max" by (simp add: f64max_def)
  then show ?thesis by (auto simp: rnd_def Let_def rq_minus uminus_f64_def)
qed

lemma tenth_cent: "rnd (1 / 100) < lit (11/1000)"
proof -
  have "rnd (43 / 4096) = Fin (43 / 4096)" by (rule rnd_grid [of _ 43 "- 12"]) (simp_all add: pow2_def f64max_def)
  moreover have "rnd (11 / 1024) = Fin (11 / 1024)" by (rule rnd_grid [of _ 11 "- 10"]) (simp_all add: pow2_def f64max_def)
  ultimately have "rnd (1 / 100) \<le> Fin (43 / 4096)" "Fin (11 / 1024) \<le> lit (11 / 1000)"
    using rnd_mono [of "1 / 100" "43 / 4096"] rnd_mono [of "11 / 1024" "11 / 1000"] by (simp_all add: lit_def)
  moreover have "Fin (43 / 4096) < Fin (11 / 1024)" by simp
  ultimately show ?thesis using f64_le_less_trans f64_less_le_trans by blast
qed

lemma rnd_small:
  assumes "\<bar>z\<bar> \<le> 1 / 100"
  shows "\<not> lit (11/1000) < abs_f64 (rnd z)"
proof -
  have "rnd z \<le> rnd (1 / 100)" "- rnd z \<le> rnd (1 / 100)"
    using assms rnd_mono [of z "1 / 100"] rnd_mono [of "- z" "1 / 100"] by (simp_all add: rnd_uminus abs_le_iff)
  then have "abs_f64 (rnd z) \<le> rnd (1 / 100)" by (simp add: abs_f64_def)
  then show ?thesis using f64_le_less_trans [OF _ tenth_cent] f64_less_not_le f64_less_imp_le by blast
qed

lemma same_key_agrees:
  assumes "broker_fact (broker_trade_of t) = local_fact f"
  shows "\<not> differs (broker_trade_of t, f)"
proof -
  have "feq (f_Qty f) (f64_of_int (sx_Qty t))" "shown 2 (f_Price f) = shown 2 (sx_Price t)"
    using assms rnd_not_NaN [of "of_int (sx_Qty t)"]
    by (auto simp: broker_fact_def local_fact_def settleFactKey_def broker_trade_of_def feq_def f64_of_int_def simp del: rnd_not_NaN)
  moreover from this(2) have "\<not> lit (11/1000) < abs_f64 (f_Price f - sx_Price t)"
  proof (cases "f_Price f"; cases "sx_Price t")
    fix x y assume p: "f_Price f = Fin x" "sx_Price t = Fin y"
    then have "shown 2 (Fin x) = shown 2 (Fin y)" using \<open>shown 2 (f_Price f) = shown 2 (sx_Price t)\<close> by simp
    then show ?thesis using rnd_small [OF shown_near] p by (simp add: minus_f64_def)
  qed (simp_all add: shown_def minus_f64_def abs_f64_def uminus_f64_def)
  ultimately show ?thesis by (simp add: differs_def broker_trade_of_def)
qed

lemma no_mismatch: "mismatches (group_by broker_fact (broker_trades resp)) (group_by local_fact fs) = []"
proof -
  let ?m = "group_by broker_fact (broker_trades resp)"
  have "filter differs (zip bts (get_or [] (group_by local_fact fs) k)) = []" if "(k, bts) \<in> set ?m" for k bts
  proof -
    have "bts = filter (\<lambda>b. broker_fact b = k) (broker_trades resp)" using that by (rule group_row)
    then have "\<not> differs (b, l)" if "(b, l) \<in> set (zip bts (get_or [] (group_by local_fact fs) k))" for b l
      using set_zip_leftD [OF that] set_zip_rightD [OF that] same_key_agrees by (auto simp: broker_trades_def)
    then show ?thesis by (auto simp: filter_empty_conv)
  qed
  then show ?thesis by (fastforce simp: mismatches_def)
qed

section \<open>The report\<close>

lemma settle_diff_fields:
  "mset (sd_MissingInLocal (settle_diff day mode d u resp fs)) = mset (map broker_fact (broker_trades resp)) - mset (map local_fact fs)"
  "mset (sd_ExtraInLocal (settle_diff day mode d u resp fs)) = mset (map local_fact fs) - mset (map broker_fact (broker_trades resp))"
  "sd_Mismatch (settle_diff day mode d u resp fs) = []"
  unfolding settle_diff_def Let_def settlement_diff.select_convs by (rule missing_mset extra_mset no_mismatch)+

lemma SettleDay_cases:
  assumes "SettleDay now ok answer day mode s = (s', r)"
  obtains (unread) "se_trader s' = se_trader s" "\<forall>d. r \<noteq> Inr (Some d)" "se_diffs s' = se_diffs s"
  | (read) resp fs d where "answer = Inr resp" "sr_Connected resp" "tr_hasStore (se_trader s)" "is_client (tr_exec (se_trader s))"
      "ListFillsByDay (tr_db (se_trader s)) (tr_userID (se_trader s)) (normalizeSettleDay day) = Inr fs"
      "d = settle_diff (normalizeSettleDay day) (if mode = [] then ''report_only'' else mode) (tr_db (se_trader s)) (tr_userID (se_trader s)) resp fs"
      "se_trader s' = (se_trader s)\<lparr>tr_db := settled_db now (normalizeSettleDay day) mode (tr_userID (se_trader s)) resp fs (tr_db (se_trader s))\<rparr>"
      "r = Inl DiffNotSaved \<or> r = Inr (Some d)"
proof -
  have "settled_db now x (if mode = [] then ''report_only'' else mode) u resp fs d = settled_db now x mode u resp fs d" for x u resp fs d
    by (simp add: settled_db_def)
  then show ?thesis using assms unread read
    by (auto simp: SettleDay_def Let_def simp del: if_split split: if_splits sum.splits option.splits)
qed

lemma SettleDay_schedule:
  assumes "SettleDay now ok answer day mode s = (s', r)"
  shows "se_attempts s' = se_attempts s" "se_lastSettleAttemptAt s' = se_lastSettleAttemptAt s" "se_lastSettleDay s' = se_lastSettleDay s"
  using assms by (auto simp: SettleDay_def Let_def split: if_splits sum.splits option.splits)

text \<open>C29: a settlement report is the exact difference of the two lists. What it calls missing is the
  multiset of the broker's trades less that of the day's fills, by code, side, quantity and price in cents; what it calls
  extra is the converse; equal facts are paired off, however often they occur, and are never reported as mismatched.\<close>

theorem settlement_partition:
  assumes "SettleDay now ok answer day mode s = (s', Inr (Some d))"
  shows "\<exists>resp fs. answer = Inr resp \<and>
    ListFillsByDay (tr_db (se_trader s)) (tr_userID (se_trader s)) (normalizeSettleDay day) = Inr fs \<and>
    mset (sd_MissingInLocal d) = mset (map broker_fact (broker_trades resp)) - mset (map local_fact fs) \<and>
    mset (sd_ExtraInLocal d) = mset (map local_fact fs) - mset (map broker_fact (broker_trades resp)) \<and>
    sd_Mismatch d = []"
  using assms
proof (cases rule: SettleDay_cases)
  case (read resp fs e)
  from read(8) have "d = e" by simp
  from read(1,5) show ?thesis unfolding \<open>d = e\<close> read(6) by (intro exI [of _ resp] exI [of _ fs]) (simp add: settle_diff_fields)
next
  case unread
  then show ?thesis by simp
qed

section \<open>The backfill\<close>

lemma missing_key: "(k, b) \<in> set (missing_trades (group_by broker_fact bs) l) \<Longrightarrow> broker_fact b = k"
proof -
  assume "(k, b) \<in> set (missing_trades (group_by broker_fact bs) l)"
  then obtain bts where b: "(k, bts) \<in> set (group_by broker_fact bs)" "b \<in> set bts"
    by (auto simp: missing_trades_def dest: in_set_dropD)
  then show ?thesis using group_row [OF b(1)] by simp
qed

lemma local_settle_fill [simp]: "local_fact (settle_fill u day b) = broker_fact b"
  by (simp add: local_fact_def settle_fill_def broker_fact_def)

lemma sync_one_step: "sync_one now d f = book_step d (Fill now f)"
  by (simp add: sync_one_def ApplySettlementFill_def)

lemma foldl_fills: "foldl (sync_one now) d fs = foldl book_step d (map (Fill now) fs)"
  by (induction fs arbitrary: d) (simp_all add: sync_one_step)

definition backfills :: "string \<Rightarrow> string \<Rightarrow> settlement_response \<Rightarrow> real_fill list \<Rightarrow> real_fill list" where
  "backfills day u resp fs = map (\<lambda>(k, b). settle_fill u day b)
     (missing_trades (group_by broker_fact (broker_trades resp)) (group_by local_fact fs))"

lemma settled_db_steps:
  "settled_db now day mode u resp fs d = foldl book_step d (map (Fill now) (if mode = ''sync_fills'' then backfills day u resp fs else []))"
  by (simp add: settled_db_def backfills_def foldl_fills)

lemma backfill_facts: "map local_fact (backfills day u resp fs) = sd_MissingInLocal (settle_diff day' m d u resp fs)"
  by (auto simp: backfills_def settle_diff_def Let_def dest: missing_key)

text \<open>C30: settling a day changes nothing of the controller but its ledger, and the ledger only by booking
  fills one after the other through the ordinary fill path: none unless the mode is \<open>sync_fills\<close>, and then, for the
  controller's own user, one for each trade the report calls missing and no other. A day whose trades cannot be read
  books nothing.\<close>

theorem backfill_exact:
  assumes "SettleDay now ok answer day mode s = (s', r)"
  shows "\<exists>new. se_trader s' = (se_trader s)\<lparr>tr_db := foldl book_step (tr_db (se_trader s)) (map (Fill now) new)\<rparr> \<and>
    (new = [] \<or> mode = ''sync_fills'' \<and> (\<exists>resp. answer = Inr resp \<and> sr_Connected resp)) \<and>
    (\<forall>f \<in> set new. f_UserID f = tr_userID (se_trader s) \<and> f_SignalID f = ''settle:'' @ normalizeSettleDay day) \<and>
    (\<forall>d. r = Inr (Some d) \<and> mode = ''sync_fills'' \<longrightarrow> map local_fact new = sd_MissingInLocal d)"
  using assms
proof (cases rule: SettleDay_cases)
  case unread
  then show ?thesis by (intro exI [of _ "[]"]) simp
next
  case (read resp fs d)
  let ?new = "if mode = ''sync_fills'' then backfills (normalizeSettleDay day) (tr_userID (se_trader s)) resp fs else []"
  have "\<forall>f \<in> set ?new. f_UserID f = tr_userID (se_trader s) \<and> f_SignalID f = ''settle:'' @ normalizeSettleDay day"
    by (auto simp: backfills_def settle_fill_def)
  moreover have "map local_fact ?new = sd_MissingInLocal d" if "mode = ''sync_fills''"
    using that by (simp add: read(6) backfill_facts)
  ultimately show ?thesis using read(1,2,7,8) by (intro exI [of _ ?new]) (auto simp: settled_db_steps)
qed

section \<open>The schedule\<close>

text \<open>One call of the scheduler's loop: its arguments, the clock and what the outside answers.\<close>

record settle_call =
  sk_day :: string
  sk_mode :: string
  sk_settleAt :: int
  sk_enabled :: bool
  sk_stamp :: string
  sk_ok :: bool
  sk_answer :: "string + settlement_response"
  sk_now :: int

definition settle_step :: "settler \<Rightarrow> settle_call \<Rightarrow> settler" where
  "settle_step s c = MaybeSettleDay (sk_day c) (sk_mode c) (sk_settleAt c) (sk_enabled c) (sk_stamp c) (sk_ok c) (sk_answer c) (sk_now c) s"

definition apart :: "int \<times> string \<Rightarrow> int \<times> string \<Rightarrow> bool" where
  "apart a b \<longleftrightarrow> fst a = zero_time \<or> settleRetryInterval \<le> time_sub (fst b) (fst a)"

definition schedule_inv :: "settler \<Rightarrow> bool" where
  "schedule_inv s \<longleftrightarrow> successively apart (se_attempts s) \<and> (se_attempts s \<noteq> [] \<longrightarrow> se_lastSettleAttemptAt s = fst (last (se_attempts s)))"

lemma MaybeSettleDay_cases:
  obtains (idle) "\<not> settle_due (normalizeSettleDay day) from_hhmm en now s" "MaybeSettleDay day mode from_hhmm en stamp ok answer now s = s"
  | (failed) err s1 where "settle_due (normalizeSettleDay day) from_hhmm en now s"
      "SettleDay stamp ok answer (normalizeSettleDay day) mode
         (s\<lparr>se_lastSettleAttemptAt := now, se_attempts := se_attempts s @ [(now, normalizeSettleDay day)]\<rparr>) = (s1, Inl err)"
      "se_attempts (MaybeSettleDay day mode from_hhmm en stamp ok answer now s) = se_attempts s1"
      "se_lastSettleAttemptAt (MaybeSettleDay day mode from_hhmm en stamp ok answer now s) = se_lastSettleAttemptAt s1"
      "se_lastSettleDay (MaybeSettleDay day mode from_hhmm en stamp ok answer now s) = se_lastSettleDay s1"
  | (settled) d s1 where "settle_due (normalizeSettleDay day) from_hhmm en now s"
      "SettleDay stamp ok answer (normalizeSettleDay day) mode
         (s\<lparr>se_lastSettleAttemptAt := now, se_attempts := se_attempts s @ [(now, normalizeSettleDay day)]\<rparr>) = (s1, Inr d)"
      "se_attempts (MaybeSettleDay day mode from_hhmm en stamp ok answer now s) = se_attempts s1"
      "se_lastSettleAttemptAt (MaybeSettleDay day mode from_hhmm en stamp ok answer now s) = se_lastSettleAttemptAt s1"
      "se_lastSettleDay (MaybeSettleDay day mode from_hhmm en stamp ok answer now s) = normalizeSettleDay day"
proof (cases "settle_due (normalizeSettleDay day) from_hhmm en now s")
  case True
  show ?thesis
  proof (cases "SettleDay stamp ok answer (normalizeSettleDay day) mode
      (s\<lparr>se_lastSettleAttemptAt := now, se_attempts := se_attempts s @ [(now, normalizeSettleDay day)]\<rparr>)")
    case (Pair s1 r)
    then show ?thesis using True failed settled
      by (cases r) (auto simp: MaybeSettleDay_def Let_def split: option.splits)
  qed
qed (simp add: idle MaybeSettleDay_def Let_def)

lemma due_apart:
  assumes "settle_due day from_hhmm en now s" "schedule_inv s" "se_attempts s \<noteq> []"
  shows "apart (last (se_attempts s)) (now, day)"
  using assms by (auto simp: settle_due_def schedule_inv_def apart_def Let_def)

lemma schedule_step:
  assumes "schedule_inv s"
  shows "schedule_inv (settle_step s c)"
  unfolding settle_step_def
proof (cases rule: MaybeSettleDay_cases [where day = "sk_day c" and from_hhmm = "sk_settleAt c" and en = "sk_enabled c" and now = "sk_now c"
      and s = s and mode = "sk_mode c" and stamp = "sk_stamp c" and ok = "sk_ok c" and answer = "sk_answer c"])
  case idle
  then show "schedule_inv (MaybeSettleDay (sk_day c) (sk_mode c) (sk_settleAt c) (sk_enabled c) (sk_stamp c) (sk_ok c) (sk_answer c) (sk_now c) s)"
    using assms by simp
next
  case (failed err s1)
  then show "schedule_inv (MaybeSettleDay (sk_day c) (sk_mode c) (sk_settleAt c) (sk_enabled c) (sk_stamp c) (sk_ok c) (sk_answer c) (sk_now c) s)"
    using due_apart [OF failed(1) assms] assms SettleDay_schedule [OF failed(2)] by (auto simp: schedule_inv_def successively_append_iff)
next
  case (settled d s1)
  then show "schedule_inv (MaybeSettleDay (sk_day c) (sk_mode c) (sk_settleAt c) (sk_enabled c) (sk_stamp c) (sk_ok c) (sk_answer c) (sk_now c) s)"
    using due_apart [OF settled(1) assms] assms SettleDay_schedule [OF settled(2)] by (auto simp: schedule_inv_def successively_append_iff)
qed

lemma settled_day_idle:
  "normalizeSettleDay (sk_day c) = se_lastSettleDay s \<Longrightarrow> settle_step s c = s"
  by (simp add: settle_step_def MaybeSettleDay_def settle_due_def Let_def)

text \<open>whatever the sequence of the scheduler's calls and the gateway's answers, two attempts in a row are
  at least ten minutes apart by the clock they read, and once a day has been marked as settled no further call for that day, in
  either spelling of it, does anything until another day is settled.\<close>

theorem settlement_schedule:
  assumes "se_attempts s = []" "\<forall>c \<in> set later. normalizeSettleDay (sk_day c) = se_lastSettleDay (foldl settle_step s calls)"
  shows "successively apart (se_attempts (foldl settle_step s calls)) \<and> foldl settle_step s (calls @ later) = foldl settle_step s calls"
proof
  have "schedule_inv (foldl settle_step t cs)" if "schedule_inv t" for t cs
    using that by (induction cs arbitrary: t) (simp_all add: schedule_step)
  then show "successively apart (se_attempts (foldl settle_step s calls))" using assms(1) by (simp add: schedule_inv_def)
  have "foldl settle_step t cs = t" if "\<forall>c \<in> set cs. normalizeSettleDay (sk_day c) = se_lastSettleDay t" for t cs
    using that by (induction cs) (simp_all add: settled_day_idle)
  then show "foldl settle_step s (calls @ later) = foldl settle_step s calls" using assms(2) by simp
qed

end
