(* ===== verification/SettlementExamples.thy ===== *)
theory SettlementExamples
  imports SettlementFacts PositionExamples PositionFills TraderFacts
begin

text \<open>Witnesses for the reconciliation, and the behaviours that the findings of the manifest name.\<close>

definition sample_trade :: settlement_trade where
  "sample_trade = \<lparr>sx_OrderID = ''9'', sx_TsCode = ''600000'', sx_Side = ''B'', sx_Price = Fin 10, sx_Qty = 100, sx_Amount = Fin 1000,
     sx_Fee = Fin 5, sx_StampTax = 0, sx_Serial = ''1'', sx_TradedAt = ''10:00:00''\<rparr>"

definition sample_answer :: "string + settlement_response" where
  "sample_answer = Inr \<lparr>sr_Trades = [sample_trade], sr_Cash = [], sr_Connected = True\<rparr>"

definition sample_settler :: settler where
  "sample_settler = \<lparr>se_trader = (plain_trader fresh_db)\<lparr>tr_exec := QMTClient ''u'' ''t'' 3\<rparr>, se_lastSettleDay = [], se_lastSettleAttemptAt = zero_time,
     se_settleFailDay = [], se_settleFailCount = 0, se_diffs = [], se_fetched = [], se_attempts = [], se_alerts = []\<rparr>"

lemma sample_day: "normalizeSettleDay ''20240102'' = ''2024-01-02''"
  by code_simp

lemma sample_side: "normalizeSide ''B'' = SideBuy"
  by code_simp

lemma sample_cash: "a_AvailableCash (GetRealAccount fresh_db u) = 0"
  by (simp add: GetRealAccount_def GetRealAccountForMarket_def fresh_db_def empty_db_def Let_def zero_account_def)

lemma sample_fills: "ListFillsByDay fresh_db u day = Inr []"
  by (simp add: ListFillsByDay_def fresh_db_def empty_db_def)

lemma sample_finite:
  "list_all finite_f64 [sd_FeeDiff d, sd_CashDiff d, sd_LocalFeeTotal d, sd_BrokerFeeTotal d]"
  if "d = settle_diff day mode fresh_db u \<lparr>sr_Trades = [sample_trade], sr_Cash = [], sr_Connected = True\<rparr> []"
  by (simp add: that settle_diff_def broker_trades_def broker_trade_of_def sample_trade_def sample_side SideBuy_def fee_total_def cash_diff_def
      sample_cash f64_simps finite_f64_def Let_def)

lemma diff_saved:
  "list_all finite_f64 [sd_FeeDiff d, sd_CashDiff d, sd_LocalFeeTotal d, sd_BrokerFeeTotal d] \<Longrightarrow> \<exists>rows. SaveSettlementDiff True u d old = Some rows"
  by (simp add: SaveSettlementDiff_def)

lemma sample_settles:
  "\<exists>s' d. SettleDay ''t'' True sample_answer ''20240102'' mode sample_settler = (s', Inr (Some d))"
proof -
  let ?d = "settle_diff ''2024-01-02'' (if mode = [] then ''report_only'' else mode) fresh_db ''u1'' \<lparr>sr_Trades = [sample_trade], sr_Cash = [], sr_Connected = True\<rparr> []"
  obtain rows where "SaveSettlementDiff True ''u1'' ?d [] = Some rows" using diff_saved [OF sample_finite [OF refl]] by blast
  then show ?thesis by (simp add: SettleDay_def sample_answer_def sample_settler_def sample_fills sample_day Let_def)
qed

theorem settlement_partition_witness:
  "\<exists>s' d. SettleDay ''t'' True sample_answer ''20240102'' [] sample_settler = (s', Inr (Some d)) \<and>
     mset (sd_MissingInLocal d) = {#(''600000'', SideBuy, Fin 100, Fin 10)#} \<and> sd_ExtraInLocal d = [] \<and> sd_Mismatch d = []"
proof -
  obtain s' d where run: "SettleDay ''t'' True sample_answer ''20240102'' [] sample_settler = (s', Inr (Some d))"
    using sample_settles by blast
  have "rnd 100 = Fin 100" "shown 2 (Fin 10) = Fin 10" by (simp, code_simp)
  then show ?thesis using settlement_partition [OF run]
    by (intro exI [of _ s'] exI [of _ d] conjI run)
      (auto simp: sample_answer_def sample_fills sample_settler_def sample_day broker_trades_def broker_trade_of_def sample_trade_def sample_side
        SideBuy_def broker_fact_def settleFactKey_def f64_of_int_def)
qed

theorem backfill_exact_witness:
  "\<exists>s' d new. SettleDay ''t'' True sample_answer ''20240102'' ''sync_fills'' sample_settler = (s', Inr (Some d)) \<and>
     tr_db (se_trader s') = foldl book_step fresh_db (map (Fill ''t'') new) \<and> map local_fact new = sd_MissingInLocal d \<and>
     mset (map local_fact new) = {#(''600000'', SideBuy, Fin 100, Fin 10)#}"
proof -
  obtain s' d where run: "SettleDay ''t'' True sample_answer ''20240102'' ''sync_fills'' sample_settler = (s', Inr (Some d))"
    using sample_settles by blast
  have m: "mset (sd_MissingInLocal d) = {#(''600000'', SideBuy, Fin 100, Fin 10)#}"
  proof -
    have "rnd 100 = Fin 100" "shown 2 (Fin 10) = Fin 10" by (simp, code_simp)
    moreover have "d = settle_diff ''2024-01-02'' ''sync_fills'' fresh_db ''u1'' \<lparr>sr_Trades = [sample_trade], sr_Cash = [], sr_Connected = True\<rparr> []"
      using run by (cases rule: SettleDay_cases) (simp_all add: sample_answer_def sample_fills sample_settler_def sample_day)
    ultimately show ?thesis
      by (simp add: settle_diff_fields(1) broker_trades_def broker_trade_of_def sample_trade_def sample_side SideBuy_def broker_fact_def
          settleFactKey_def f64_of_int_def)
  qed
  show ?thesis using backfill_exact [OF run] run m by (fastforce simp: sample_settler_def)
qed

definition sample_call :: "int \<Rightarrow> (string + settlement_response) \<Rightarrow> settle_call" where
  "sample_call now answer = \<lparr>sk_day = ''20240102'', sk_mode = [], sk_settleAt = 1, sk_enabled = True, sk_stamp = ''t'', sk_ok = True,
     sk_answer = answer, sk_now = now * second\<rparr>"

definition sample_calls :: "settle_call list" where
  "sample_calls = [sample_call 0 (Inl ''timeout''), sample_call 300 (Inl ''timeout''),
     sample_call 700 (Inr \<lparr>sr_Trades = [], sr_Cash = [], sr_Connected = False\<rparr>)]"

lemma day_again: "normalizeSettleDay ''2024-01-02'' = ''2024-01-02''"
  by code_simp

lemma sample_clock: "hhmm cn_offset 0 = 800" "hhmm cn_offset (300 * second) = 805" "hhmm cn_offset (700 * second) = 811"
  "time_sub (300 * second) 0 = 300 * second" "time_sub (700 * second) 0 = 700 * second" "zero_time \<noteq> 0"
  by code_simp+

definition after_failure :: settler where
  "after_failure = sample_settler\<lparr>se_lastSettleAttemptAt := 0, se_attempts := [(0, ''2024-01-02'')], se_fetched := [''2024-01-02''],
     se_settleFailDay := ''2024-01-02'', se_settleFailCount := 1\<rparr>"

lemmas step_defs = settle_step_def MaybeSettleDay_def sample_call_def settle_due_def sample_settler_def Let_def SettleDay_def sample_day day_again
  sample_clock settleRetryInterval_def

lemma first_call: "settle_step sample_settler (sample_call 0 (Inl ''timeout'')) = after_failure"
  by (simp add: step_defs after_failure_def)

lemma second_call: "settle_step after_failure (sample_call 300 (Inl ''timeout'')) = after_failure"
  using sample_clock by (simp add: step_defs after_failure_def)

lemma third_call:
  "settle_step after_failure (sample_call 700 (Inr \<lparr>sr_Trades = [], sr_Cash = [], sr_Connected = False\<rparr>)) =
     after_failure\<lparr>se_lastSettleAttemptAt := 700 * second, se_attempts := [(0, ''2024-01-02''), (700 * second, ''2024-01-02'')],
       se_fetched := [''2024-01-02'', ''2024-01-02''], se_lastSettleDay := ''2024-01-02'', se_settleFailCount := 0\<rparr>"
  using sample_clock by (simp add: step_defs after_failure_def)

lemma sample_run:
  "se_attempts (foldl settle_step sample_settler sample_calls) = [(0, ''2024-01-02''), (700 * second, ''2024-01-02'')]"
  "se_lastSettleDay (foldl settle_step sample_settler sample_calls) = ''2024-01-02''"
  by (simp_all add: sample_calls_def first_call second_call third_call)

lemma no_attempts: "se_attempts sample_settler = []"
  by (simp add: sample_settler_def)

theorem settlement_schedule_witness:
  "se_attempts (foldl settle_step sample_settler sample_calls) = [(0, ''2024-01-02''), (700 * second, ''2024-01-02'')] \<and>
   successively apart (se_attempts (foldl settle_step sample_settler sample_calls)) \<and>
   foldl settle_step sample_settler (sample_calls @ [sample_call 5000 sample_answer]) = foldl settle_step sample_settler sample_calls"
  using settlement_schedule [of sample_settler "[sample_call 5000 sample_answer]" sample_calls] sample_run
  by (simp add: no_attempts sample_call_def sample_day)

section \<open>Divergences\<close>

text \<open>A trade whose prices differ by more than a cent is reported as one missing trade and one extra fill, never as a mismatch, and the
  backfill books it a second time.\<close>

lemma price_gap_books_twice:
  assumes "broker_trades resp = [b]" "broker_fact b \<noteq> local_fact f"
  shows "sd_MissingInLocal (settle_diff day m d u resp [f]) = [broker_fact b]" "sd_ExtraInLocal (settle_diff day m d u resp [f]) = [local_fact f]"
    "settled_db now day ''sync_fills'' u resp [f] d = sync_one now d (settle_fill u day b)"
  using assms by (auto simp: settle_diff_def settled_db_def Let_def missing_trades_def extra_fills_def group_by_def get_or_def)

text \<open>A gateway that answers without its broker connection ends the day's attempts, though nothing was compared.\<close>

lemma dropped_link_ends_day:
  assumes "settle_due (normalizeSettleDay day) start en now s" "\<not> sr_Connected resp"
  shows "se_lastSettleDay (MaybeSettleDay day mode start en stamp ok (Inr resp) now s) = normalizeSettleDay day"
    "se_trader (MaybeSettleDay day mode start en stamp ok (Inr resp) now s) = se_trader s"
    "se_diffs (MaybeSettleDay day mode start en stamp ok (Inr resp) now s) = se_diffs s"
proof -
  have "tr_hasStore (se_trader s)" using assms(1) by (simp add: settle_due_def Let_def)
  then show "se_lastSettleDay (MaybeSettleDay day mode start en stamp ok (Inr resp) now s) = normalizeSettleDay day"
    "se_trader (MaybeSettleDay day mode start en stamp ok (Inr resp) now s) = se_trader s"
    "se_diffs (MaybeSettleDay day mode start en stamp ok (Inr resp) now s) = se_diffs s"
    using assms by (simp_all add: MaybeSettleDay_def SettleDay_def Let_def)
qed

text \<open>The backfill gives no trade number, so of two trades that agree in order, second, price and quantity, and that the report counts as
  two, only the first is booked, whatever their serial numbers.\<close>

lemma twin_trades_booked_once:
  assumes "ApplyRealFill d now (settle_fill u day b) = Inr d'" "bt_Price b \<noteq> NaN" "bt_Qty b \<noteq> NaN"
  shows "sync_one now' d' (settle_fill u day (b\<lparr>bt_Serial := n\<rparr>)) = d'"
proof -
  let ?f = "settle_fill u day b" and ?g = "settle_fill u day (b\<lparr>bt_Serial := n\<rparr>)"
  have twin: "same_fill (stamp_fill ?g) = same_fill (stamp_fill ?f)"
    by (rule ext) (simp add: same_fill_def settle_fill_def)
  have c: "comparable_fill ?f" using assms(2,3) by (simp add: comparable_fill_def settle_fill_def)
  have "list_ex (same_fill (stamp_fill ?g)) (fills d')"
    using assms(1) same_fill_stamped [OF c] by (cases rule: ApplyRealFill_cases) (simp_all add: twin)
  then show ?thesis
    by (auto simp: sync_one_def ApplySettlementFill_def ApplyRealFill_def Let_def split: sum.splits)
qed

end
