(* ===== verification/Discipline.thy ===== *)
theory Discipline
  imports "HOL-Library.AList" Markets PaperPools Trader
begin

text \<open>
  The earlier sell discipline of the live account (\<open>trading/discipline.go\<close>), its table of states (\<open>discipline_tracker.go\<close>), the
  cards shown for a held book (\<open>advice.go\<close>) and the recording executor (\<open>shadow.go\<close>, \<open>store/shadow.go\<close>). What the agent answers
  is an argument: a function of the view it is given. A reason keeps its arguments. \<open>z\<close> is the offset of the caller's zone.
\<close>

section \<open>The probe of one position\<close>

datatype discipline_line = LineNone | LineStopLoss | LineTakeProfit | LineTrail | LineDeepBreach

datatype discipline_action = ActionHold | ActionClose | ActionTrim | ActionConfirm

record position_state =
  ps_Code :: string
  ps_Line :: discipline_line
  ps_FirstTouch :: int
  ps_SettleStart :: int
  ps_WindowMin :: int
  ps_Settled :: bool
  ps_Confirmed :: bool
  ps_HighPrice :: f64

datatype decision_reason = StopExit | ProfitExit | DeepExit | FirstTouchHalf | HardStop | WindowOpened | ProfitWindowOver | DeepWindowOver | StopWindowOver
  | WindowWaits

record discipline_decision =
  dn_Code :: string
  dn_Action :: discipline_action
  dn_Line :: discipline_line
  dn_PnlPct :: f64
  dn_Reason :: decision_reason

definition alignSettle :: "int \<Rightarrow> int \<Rightarrow> int \<Rightarrow> int" where
  "alignSettle z t winMin0 =
     (let winMin = (if winMin0 \<le> 0 then 15 else winMin0);
          base = (local_day z t * 86400 + 9 * 3600 + 30 * 60 - z) * second;
          off = max 0 (time_sub t base div minute);
          next = wrap64 ((off div winMin + 1) * winMin)
      in base + wrap64 (next * minute))"

fun isLossLine :: "discipline_line \<Rightarrow> bool" where
  "isLossLine l \<longleftrightarrow> l = LineStopLoss \<or> l = LineDeepBreach"

definition reevalAllowsSettle :: "discipline_line \<Rightarrow> discipline_line \<Rightarrow> bool" where
  "reevalAllowsSettle orig cur =
     (if cur = LineNone then False
      else if orig = LineNone then True
      else if isLossLine orig = isLossLine cur then True
      else \<not> isLossLine orig \<and> isLossLine cur)"

definition new_position_state :: "string \<Rightarrow> f64 \<Rightarrow> position_state" where
  "new_position_state code high = \<lparr>ps_Code = code, ps_Line = LineNone, ps_FirstTouch = zero_time, ps_SettleStart = zero_time, ps_WindowMin = 0,
     ps_Settled = False, ps_Confirmed = False, ps_HighPrice = high\<rparr>"

record discipline_params =
  dp_sl :: f64
  dp_tp :: f64
  dp_pb :: f64
  dp_dm :: f64
  dp_exitMin :: int
  dp_trailMin :: int

definition discipline_params_of :: "discipline_config \<Rightarrow> discipline_params" where
  "discipline_params_of cfg =
     \<lparr>dp_sl = (if StopLossPct cfg \<le> 0 then Fin 6 else StopLossPct cfg), dp_tp = (if TakeProfitPct cfg \<le> 0 then Fin 15 else TakeProfitPct cfg),
      dp_pb = (if MaxPullbackPct cfg \<le> 0 then Fin 6 else MaxPullbackPct cfg), dp_dm = (if DeepStopMult cfg \<le> 0 then Fin 2 else DeepStopMult cfg),
      dp_exitMin = (if ExitConfirmMin cfg \<le> 0 then 15 else ExitConfirmMin cfg),
      dp_trailMin = (if TrailConfirmMin cfg \<le> 0 then 45 else TrailConfirmMin cfg)\<rparr>"

text \<open>The line the price is over, and the profit in percent.\<close>

definition fallen :: "position_state \<Rightarrow> f64 \<Rightarrow> f64" where
  "fallen st cur = (ps_HighPrice st - cur) / ps_HighPrice st * Fin 100"

definition gain_pct :: "f64 \<Rightarrow> f64 \<Rightarrow> f64" where
  "gain_pct entry cur = (cur - entry) / entry * Fin 100"

definition touched_line :: "discipline_params \<Rightarrow> position_state \<Rightarrow> f64 \<Rightarrow> f64 \<Rightarrow> discipline_line" where
  "touched_line p st entry cur =
     (let pnl = gain_pct entry cur
      in if pnl \<le> - dp_sl p * dp_dm p then LineDeepBreach
         else if pnl \<le> - dp_sl p then LineStopLoss
         else if dp_tp p \<le> pnl then (if 0 < ps_HighPrice st \<and> dp_pb p \<le> fallen st cur then LineTrail else LineTakeProfit)
         else if entry < ps_HighPrice st \<and> dp_pb p \<le> fallen st cur then LineTrail
         else LineNone)"

text \<open>A disposal that was confirmed is computed again at every probe.\<close>

definition settled_again :: "discipline_params \<Rightarrow> position_state \<Rightarrow> string \<Rightarrow> f64 \<Rightarrow> discipline_decision" where
  "settled_again p st code pnl =
     (let reason = (if ps_Line st = LineTakeProfit \<or> ps_Line st = LineTrail then ProfitExit else if ps_Line st = LineDeepBreach then DeepExit else StopExit);
          d = \<lparr>dn_Code = code, dn_Action = ActionClose, dn_Line = ps_Line st, dn_PnlPct = pnl, dn_Reason = reason\<rparr>
      in if ps_Line st = LineStopLoss \<and> - Fin 2 * dp_sl p < pnl then d\<lparr>dn_Action := ActionTrim, dn_Reason := FirstTouchHalf\<rparr> else d)"

definition window_over :: "position_state \<Rightarrow> string \<Rightarrow> f64 \<Rightarrow> bool \<Rightarrow> bool \<Rightarrow> position_state \<times> discipline_decision option" where
  "window_over st code pnl hasBull hasBear =
     (let hold = (if isLossLine (ps_Line st) then hasBear else hasBull);
          st' = st\<lparr>ps_Settled := True, ps_Confirmed := \<not> hold\<rparr>;
          d = \<lparr>dn_Code = code, dn_Action = ActionClose, dn_Line = ps_Line st, dn_PnlPct = pnl, dn_Reason = StopWindowOver\<rparr>
      in if hold then (st', None)
         else if ps_Line st = LineTakeProfit \<or> ps_Line st = LineTrail then (st', Some (d\<lparr>dn_Reason := ProfitWindowOver\<rparr>))
         else if ps_Line st = LineDeepBreach then (st', Some (d\<lparr>dn_Reason := DeepWindowOver\<rparr>))
         else (st', Some (d\<lparr>dn_Action := ActionTrim\<rparr>)))"

definition line_step :: "int \<Rightarrow> discipline_params \<Rightarrow> position_state \<Rightarrow> string \<Rightarrow> discipline_line \<Rightarrow> f64 \<Rightarrow> bool \<Rightarrow> bool \<Rightarrow> int \<Rightarrow>
    position_state \<times> discipline_decision option" where
  "line_step z p st code line pnl hasBull hasBear now =
     (if line = LineNone then (st, None)
      else if ps_Settled st \<and> \<not> ps_Confirmed st \<and> \<not> reevalAllowsSettle (ps_Line st) line then (st, None)
      else if ps_Line st = LineNone then
        (let w = (if line = LineTrail then dp_trailMin p else dp_exitMin p)
         in (st\<lparr>ps_Line := line, ps_FirstTouch := now, ps_WindowMin := w, ps_SettleStart := alignSettle z now w\<rparr>,
             Some \<lparr>dn_Code = code, dn_Action = ActionConfirm, dn_Line = line, dn_PnlPct = pnl, dn_Reason = WindowOpened\<rparr>))
      else if ps_SettleStart st \<le> now then window_over st code pnl hasBull hasBear
      else (st, Some \<lparr>dn_Code = code, dn_Action = ActionConfirm, dn_Line = ps_Line st, dn_PnlPct = pnl, dn_Reason = WindowWaits\<rparr>))"

definition raised_high :: "position_state \<Rightarrow> f64 \<Rightarrow> position_state" where
  "raised_high st cur = (if 0 < cur \<and> ps_HighPrice st < cur then st\<lparr>ps_HighPrice := cur\<rparr> else st)"

definition probeDiscipline :: "int \<Rightarrow> position_state option \<Rightarrow> string \<Rightarrow> f64 \<Rightarrow> f64 \<Rightarrow> f64 \<Rightarrow> bool \<Rightarrow> bool \<Rightarrow> int \<Rightarrow> discipline_config \<Rightarrow>
    position_state \<times> discipline_decision option" where
  "probeDiscipline z prev code entry high cur hasBull hasBear now cfg =
     (let p = discipline_params_of cfg;
          st = raised_high (case prev of None \<Rightarrow> new_position_state code high | Some st \<Rightarrow> st) cur;
          pnl = gain_pct entry cur
      in if entry \<le> 0 \<or> cur \<le> 0 then (st, None)
         else if ps_Settled st \<and> ps_Confirmed st then (st, Some (settled_again p st code pnl))
         else let line = touched_line p st entry cur
           in if line = LineStopLoss \<and> hasBear then
                (st\<lparr>ps_Line := LineStopLoss, ps_FirstTouch := now, ps_SettleStart := alignSettle z now (dp_exitMin p), ps_WindowMin := dp_exitMin p,
                    ps_Settled := True, ps_Confirmed := True\<rparr>,
                 Some \<lparr>dn_Code = code, dn_Action = ActionClose, dn_Line = LineStopLoss, dn_PnlPct = pnl, dn_Reason = HardStop\<rparr>)
              else if isLossLine line then line_step z p st code line pnl hasBull hasBear now
              else if dp_tp p \<le> pnl \<and> hasBull then (st, None)
              else line_step z p st code line pnl hasBull hasBear now)"

end
