(* ===== verification/Advice.thy ===== *)
theory Advice
  imports Discipline
begin

text \<open>
  The table of discipline states (\<open>trading/discipline_tracker.go\<close>) and the cards shown for the held positions
  (\<open>trading/advice.go\<close>). The agent's four sources are functions of the view of the sellable positions; the order of equal actions in the
  result, which Go leaves open, is that of the table.
\<close>

record agent_signal =
  as_Code :: string
  as_Price :: f64
  as_Reason :: string
  as_AlertType :: string
  as_SellLevel :: string

datatype advice_reason = NoText | AgentSays string | DisciplineSays decision_reason | AddFor f64 | HoldFor f64

record position_advice =
  pa_Code :: string
  pa_TsCode :: string
  pa_Name :: string
  pa_Qty :: f64
  pa_Action :: string
  pa_Level :: string
  pa_Reason :: advice_reason
  pa_RefPrice :: f64
  pa_Amount :: f64
  pa_ProfitPct :: f64
  pa_DrawdownPct :: f64
  pa_Strategy :: string
  pa_SignalActive :: bool
  pa_GeneratedAt :: int
  pa_Source :: string

record sell_view =
  sv_TsCode :: string
  sv_Action :: string
  sv_Level :: string
  sv_Reason :: string
  sv_RefPrice :: f64
  sv_Source :: string

record exec_log =
  xl_SignalID :: string
  xl_Code :: string
  xl_Name :: string
  xl_Direction :: string
  xl_Strategy :: string
  xl_EntryPrice :: f64
  xl_Quantity :: f64
  xl_HighestPrice :: f64
  xl_TakeProfitPct :: f64
  xl_StopLossPct :: f64
  xl_Status :: string
  xl_EntryAt :: int

record agent =
  ag_CheckPositionsExits :: "exec_log list \<Rightarrow> int \<Rightarrow> agent_signal list"
  ag_AssessSellSide :: "string list \<Rightarrow> agent_signal list"
  ag_EmotionRetreatAlerts :: "exec_log list \<Rightarrow> int \<Rightarrow> agent_signal list"
  ag_BearishAttributionAlerts :: "exec_log list \<Rightarrow> int \<Rightarrow> agent_signal list"

record advice_config =
  ac_AddReopenDrawdownPct :: f64
  ac_AddSignalActive :: bool
  ac_HoldMinProfitPct :: f64

record advice_input =
  ai_Agent :: "agent option"
  ai_Positions :: "real_position list"
  ai_Quotes :: "string \<Rightarrow> f64 option"
  ai_SignalActive :: "string \<Rightarrow> bool option"
  ai_BearReasons :: "string \<Rightarrow> string"
  ai_Discipline :: discipline_config
  ai_Advice :: advice_config
  ai_Tracked :: bool
  ai_SellableQty :: "(string \<times> f64) list"
  ai_SellUnifiedOn :: bool
  ai_SellProjection :: "sell_view list"

section \<open>Codes and views\<close>

definition pureCode :: "string \<Rightarrow> string" where
  "pureCode tsCode =
     (let c = trim_space tsCode
      in if has_suffix c ''.SH'' \<or> has_suffix c ''.SZ'' \<or> has_suffix c ''.BJ'' then take (length c - 3) c else c)"

definition parseEntryDate :: "string \<Rightarrow> int" where
  "parseEntryDate s =
     (case s of
        [y1, y2, y3, y4, m0, m1, m2, d0, d1, d2] \<Rightarrow>
          (if m0 = CHR ''-'' \<and> d0 = CHR ''-'' then
             (case parse_compact [y1, y2, y3, y4, m1, m2, d1, d2] of Some d \<Rightarrow> d * 86400 * second | None \<Rightarrow> zero_time)
           else zero_time)
      | _ \<Rightarrow> zero_time)"

definition exec_log_of :: "discipline_config \<Rightarrow> real_position \<Rightarrow> exec_log" where
  "exec_log_of disc p =
     \<lparr>xl_SignalID = ''real@'' @ p_TsCode p, xl_Code = pureCode (p_TsCode p), xl_Name = p_Name p, xl_Direction = [CHR 0xE5, CHR 0x81, CHR 0x9A, CHR 0xE5, CHR 0xA4, CHR 0x9A], xl_Strategy = p_Strategy p,
      xl_EntryPrice = p_CostPrice p, xl_Quantity = p_Qty p, xl_HighestPrice = p_HighestPrice p,
      xl_TakeProfitPct = (if TakeProfitPct disc \<le> 0 then Fin 15 else TakeProfitPct disc),
      xl_StopLossPct = (if StopLossPct disc \<le> 0 then Fin 6 else StopLossPct disc), xl_Status = [CHR 0xE6, CHR 0x8C, CHR 0x81, CHR 0xE4, CHR 0xBB, CHR 0x93, CHR 0xE4, CHR 0xB8, CHR 0xAD], xl_EntryAt = parseEntryDate (p_BuyDate p)\<rparr>"

definition execLogsFromReal :: "real_position list \<Rightarrow> discipline_config \<Rightarrow> exec_log list" where
  "execLogsFromReal rows disc = map (exec_log_of disc) (filter (\<lambda>p. \<not> p_Qty p \<le> 0) rows)"

definition heldCodes :: "real_position list \<Rightarrow> string list" where
  "heldCodes rows = map (\<lambda>p. pureCode (p_TsCode p)) rows"

definition sellablePositions :: "advice_input \<Rightarrow> real_position list" where
  "sellablePositions i =
     (if ai_SellableQty i = [] then ai_Positions i
      else filter (\<lambda>p. \<not> (case map_of (ai_SellableQty i) (p_TsCode p) of Some q \<Rightarrow> q \<le> 0 | None \<Rightarrow> False)) (ai_Positions i))"

definition baseAdvice :: "real_position \<Rightarrow> f64 \<Rightarrow> int \<Rightarrow> position_advice" where
  "baseAdvice p price now =
     \<lparr>pa_Code = pureCode (p_TsCode p), pa_TsCode = p_TsCode p, pa_Name = p_Name p, pa_Qty = p_Qty p, pa_Action = [CHR 0xE6, CHR 0x8C, CHR 0x81, CHR 0xE6, CHR 0x9C, CHR 0x89], pa_Level = [CHR 0xE4, CHR 0xBD, CHR 0x8E],
      pa_Reason = NoText, pa_RefPrice = price, pa_Amount = price * p_Qty p,
      pa_ProfitPct = (if 0 < p_CostPrice p then (price - p_CostPrice p) / p_CostPrice p * Fin 100 else 0),
      pa_DrawdownPct = (if 0 < p_HighestPrice p then (price - p_HighestPrice p) / p_HighestPrice p * Fin 100 else 0),
      pa_Strategy = p_Strategy p, pa_SignalActive = False, pa_GeneratedAt = now, pa_Source = []\<rparr>"

section \<open>The table of states\<close>

definition disciplineAdvice :: "discipline_decision \<Rightarrow> real_position \<Rightarrow> f64 \<Rightarrow> int \<Rightarrow> position_advice option" where
  "disciplineAdvice d p price now =
     (let pa = (baseAdvice p price now)\<lparr>pa_RefPrice := price, pa_Reason := DisciplineSays (dn_Reason d), pa_Source := ''discipline''\<rparr>
      in case dn_Action d of
           ActionClose \<Rightarrow> Some (pa\<lparr>pa_Level := [CHR 0xE9, CHR 0xAB, CHR 0x98],
             pa_Action := (if dn_Line d = LineTakeProfit \<or> dn_Line d = LineTrail then [CHR 0xE6, CHR 0xAD, CHR 0xA2, CHR 0xE7, CHR 0x9B, CHR 0x88] else [CHR 0xE6, CHR 0xAD, CHR 0xA2, CHR 0xE6, CHR 0x8D, CHR 0x9F])\<rparr>)
         | ActionTrim \<Rightarrow> Some (pa\<lparr>pa_Action := [CHR 0xE5, CHR 0x87, CHR 0x8F, CHR 0xE4, CHR 0xBB, CHR 0x93], pa_Level := [CHR 0xE9, CHR 0xAB, CHR 0x98]\<rparr>)
         | ActionConfirm \<Rightarrow> Some (pa\<lparr>pa_Action := [CHR 0xE6, CHR 0x8C, CHR 0x81, CHR 0xE6, CHR 0x9C, CHR 0x89], pa_Level := [CHR 0xE4, CHR 0xBD, CHR 0x8E]\<rparr>)
         | ActionHold \<Rightarrow> None)"

type_synonym tracker = "(string \<times> position_state) list"

definition probe_position :: "int \<Rightarrow> advice_input \<Rightarrow> int \<Rightarrow> real_position \<Rightarrow> tracker \<Rightarrow> tracker \<times> position_advice list" where
  "probe_position z i now p t =
     (let code = pureCode (p_TsCode p)
      in case ai_Quotes i code of
           None \<Rightarrow> (t, [])
         | Some price \<Rightarrow>
             if price \<le> 0 then (t, [])
             else let hasBull = (ai_SignalActive i code = Some True); hasBear = (ai_BearReasons i code \<noteq> []);
                      st = (case map_of t code of
                              Some st \<Rightarrow> st
                            | None \<Rightarrow> new_position_state code (if p_HighestPrice p \<le> 0 then p_CostPrice p else p_HighestPrice p));
                      (st', d) = probeDiscipline z (Some st) code (p_CostPrice p) (ps_HighPrice st) price hasBull hasBear now (ai_Discipline i)
               in (AList.update code st' t, case d of None \<Rightarrow> [] | Some d \<Rightarrow> (case disciplineAdvice d p price now of None \<Rightarrow> [] | Some a \<Rightarrow> [a])))"

fun probe_each :: "int \<Rightarrow> advice_input \<Rightarrow> int \<Rightarrow> real_position list \<Rightarrow> tracker \<Rightarrow> tracker \<times> position_advice list" where
  "probe_each z i now [] t = (t, [])"
| "probe_each z i now (p # ps) t =
     (let (t1, out1) = probe_position z i now p t; (t2, out2) = probe_each z i now ps t1 in (t2, out1 @ out2))"

definition ProbeAll :: "int \<Rightarrow> int \<Rightarrow> advice_input \<Rightarrow> tracker \<Rightarrow> tracker \<times> position_advice list" where
  "ProbeAll z now i t =
     (let (t', out) = probe_each z i now (ai_Positions i) t
      in (filter (\<lambda>(c, st). c \<in> set (heldCodes (ai_Positions i))) t', out))"

definition Reset_tracker :: "tracker \<Rightarrow> tracker" where
  "Reset_tracker t = []"

section \<open>The cards\<close>

definition mergeAdvice :: "(string \<times> position_advice) list \<Rightarrow> position_advice option \<Rightarrow> (string \<times> position_advice) list" where
  "mergeAdvice m a0 =
     (case a0 of
        None \<Rightarrow> m
      | Some a \<Rightarrow> (case map_of m (pa_Code a) of
            None \<Rightarrow> AList.update (pa_Code a) a m
          | Some cur \<Rightarrow> if pa_Action cur = [CHR 0xE6, CHR 0x8C, CHR 0x81, CHR 0xE6, CHR 0x9C, CHR 0x89] \<and> pa_Action a \<noteq> [CHR 0xE6, CHR 0x8C, CHR 0x81, CHR 0xE6, CHR 0x9C, CHR 0x89] then AList.update (pa_Code a) a m else m))"

definition close_label :: "position_advice \<Rightarrow> position_advice" where
  "close_label pa = pa\<lparr>pa_Action := (if pa_ProfitPct pa \<le> 0 then [CHR 0xE6, CHR 0xAD, CHR 0xA2, CHR 0xE6, CHR 0x8D, CHR 0x9F] else [CHR 0xE6, CHR 0xAD, CHR 0xA2, CHR 0xE7, CHR 0x9B, CHR 0x88]), pa_Level := [CHR 0xE9, CHR 0xAB, CHR 0x98]\<rparr>"

definition gain_label :: "position_advice \<Rightarrow> position_advice" where
  "gain_label pa = pa\<lparr>pa_Action := (if 0 < pa_ProfitPct pa then [CHR 0xE6, CHR 0xAD, CHR 0xA2, CHR 0xE7, CHR 0x9B, CHR 0x88] else [CHR 0xE5, CHR 0x87, CHR 0x8F, CHR 0xE4, CHR 0xBB, CHR 0x93]), pa_Level := [CHR 0xE4, CHR 0xB8, CHR 0xAD]\<rparr>"

definition signal_label :: "agent_signal \<Rightarrow> position_advice \<Rightarrow> position_advice" where
  "signal_label sig pa =
     (if as_AlertType sig = [CHR 0xE6, CHR 0xB8, CHR 0x85, CHR 0xE4, CHR 0xBB, CHR 0x93] \<or> as_AlertType sig = [CHR 0xE5, CHR 0x88, CHR 0xA9, CHR 0xE7, CHR 0xA9, CHR 0xBA, CHR 0xE6, CHR 0x8A, CHR 0x9B, CHR 0xE5, CHR 0x94, CHR 0xAE] then close_label pa
      else if as_AlertType sig = [CHR 0xE5, CHR 0x81, CHR 0x9A, CHR 0xE7, CHR 0xA9, CHR 0xBA] then
        (if as_SellLevel sig = [CHR 0xE6, CHR 0xB8, CHR 0x85, CHR 0xE4, CHR 0xBB, CHR 0x93] then close_label pa
         else if as_SellLevel sig = [CHR 0xE5, CHR 0x87, CHR 0x8F, CHR 0xE4, CHR 0xBB, CHR 0x93] then pa\<lparr>pa_Action := [CHR 0xE5, CHR 0x87, CHR 0x8F, CHR 0xE4, CHR 0xBB, CHR 0x93], pa_Level := [CHR 0xE9, CHR 0xAB, CHR 0x98]\<rparr>
         else gain_label pa)
      else if as_AlertType sig = [CHR 0xE6, CHR 0xAD, CHR 0xA2, CHR 0xE6, CHR 0x8D, CHR 0x9F] then pa\<lparr>pa_Action := [CHR 0xE6, CHR 0xAD, CHR 0xA2, CHR 0xE6, CHR 0x8D, CHR 0x9F], pa_Level := [CHR 0xE9, CHR 0xAB, CHR 0x98]\<rparr>
      else if as_AlertType sig = [CHR 0xE5, CHR 0x87, CHR 0x8F, CHR 0xE4, CHR 0xBB, CHR 0x93] then pa\<lparr>pa_Action := [CHR 0xE5, CHR 0x87, CHR 0x8F, CHR 0xE4, CHR 0xBB, CHR 0x93], pa_Level := [CHR 0xE9, CHR 0xAB, CHR 0x98]\<rparr>
      else if as_AlertType sig = [CHR 0xE8, CHR 0xB7, CHR 0x8C, CHR 0xE5, CHR 0xB9, CHR 0x85, CHR 0xE6, CHR 0x8F, CHR 0x90, CHR 0xE9, CHR 0x86, CHR 0x92] then
        pa\<lparr>pa_Action := (if pa_ProfitPct pa < 0 then [CHR 0xE6, CHR 0xAD, CHR 0xA2, CHR 0xE6, CHR 0x8D, CHR 0x9F] else [CHR 0xE5, CHR 0x87, CHR 0x8F, CHR 0xE4, CHR 0xBB, CHR 0x93]), pa_Level := [CHR 0xE4, CHR 0xB8, CHR 0xAD]\<rparr>
      else gain_label pa)"

definition fromSignal :: "advice_input \<Rightarrow> int \<Rightarrow> agent_signal \<Rightarrow> position_advice option" where
  "fromSignal i now sig =
     (case find (\<lambda>p. pureCode (p_TsCode p) = as_Code sig) (ai_Positions i) of
        None \<Rightarrow> None
      | Some p \<Rightarrow> Some (signal_label sig
          ((baseAdvice p (if as_Price sig \<le> 0 then p_CostPrice p else as_Price sig) now)\<lparr>pa_RefPrice := as_Price sig, pa_Reason := AgentSays (as_Reason sig)\<rparr>)))"

definition abs64 :: "f64 \<Rightarrow> f64" where
  "abs64 x = (if x < 0 then - x else x)"

definition addAdvice :: "position_advice \<Rightarrow> bool \<Rightarrow> advice_config \<Rightarrow> position_advice option" where
  "addAdvice pa active cfg =
     (if ac_AddSignalActive cfg \<and> \<not> active then None
      else if pa_ProfitPct pa < 0 then None
      else if \<not> feq (ac_AddReopenDrawdownPct cfg) 0 \<and> pa_DrawdownPct pa < ac_AddReopenDrawdownPct cfg then None
      else if pa_DrawdownPct pa < lit (- 1/1000) \<and> abs64 (ac_AddReopenDrawdownPct cfg) < lit (1/10000) then None
      else Some (pa\<lparr>pa_Action := [CHR 0xE5, CHR 0x8A, CHR 0xA0, CHR 0xE4, CHR 0xBB, CHR 0x93], pa_Level := [CHR 0xE9, CHR 0xAB, CHR 0x98], pa_Reason := AddFor (shown 2 (pa_DrawdownPct pa)), pa_SignalActive := True\<rparr>))"

definition holdAdvice :: "position_advice \<Rightarrow> advice_config \<Rightarrow> position_advice option" where
  "holdAdvice pa cfg =
     (if pa_ProfitPct pa < ac_HoldMinProfitPct cfg then None
      else if pa_ProfitPct pa \<le> 0 then None
      else if pa_DrawdownPct pa < - Fin 12 then None
      else Some (pa\<lparr>pa_Action := [CHR 0xE6, CHR 0xA0, CHR 0xBC, CHR 0xE5, CHR 0xB1, CHR 0x80], pa_Level := [CHR 0xE4, CHR 0xB8, CHR 0xAD], pa_Reason := HoldFor (shown 2 (pa_ProfitPct pa))\<rparr>))"

text \<open>The five sources of sell cards, the injected verdicts, and the cards of the remaining positions.\<close>

definition merge_all :: "position_advice option list \<Rightarrow> (string \<times> position_advice) list \<Rightarrow> (string \<times> position_advice) list" where
  "merge_all as m = foldl mergeAdvice m as"

definition sell_cards :: "int \<Rightarrow> int \<Rightarrow> advice_input \<Rightarrow> agent \<Rightarrow> tracker \<Rightarrow> tracker \<times> position_advice option list" where
  "sell_cards z now i ag t =
     (let sellable = sellablePositions i; view = execLogsFromReal sellable (ai_Discipline i);
          (t', probed) = (if ai_Tracked i then ProbeAll z now (i\<lparr>ai_Positions := sellable\<rparr>) t else (t, []));
          held = heldCodes sellable
      in (t', map (fromSignal i now) (ag_CheckPositionsExits ag view now) @ map Some probed @
              (if held = [] then [] else map (fromSignal i now) (ag_AssessSellSide ag held)) @
              map (fromSignal i now) (ag_EmotionRetreatAlerts ag view now) @ map (fromSignal i now) (ag_BearishAttributionAlerts ag view now)))"

definition view_card :: "advice_input \<Rightarrow> int \<Rightarrow> sell_view \<Rightarrow> (string \<times> position_advice) list \<Rightarrow> (string \<times> position_advice) list" where
  "view_card i now v m =
     (case find (\<lambda>p. p_TsCode p = sv_TsCode v) (rev (ai_Positions i)) of
        None \<Rightarrow> m
      | Some p \<Rightarrow> (let pa = (baseAdvice p (sv_RefPrice v) now)\<lparr>pa_Action := sv_Action v, pa_Level := sv_Level v, pa_Reason := AgentSays (sv_Reason v),
                            pa_Source := sv_Source v\<rparr>
                   in AList.update (pa_Code pa) pa m))"

definition rest_card :: "advice_input \<Rightarrow> int \<Rightarrow> real_position \<Rightarrow> (string \<times> position_advice) list \<Rightarrow> (string \<times> position_advice) list" where
  "rest_card i now p m =
     (let code = pureCode (p_TsCode p)
      in if map_of m code \<noteq> None then m
         else case ai_Quotes i code of
                None \<Rightarrow> m
              | Some price \<Rightarrow>
                  if price \<le> 0 then m
                  else let pa = baseAdvice p price now; active = (ai_SignalActive i code = Some True)
                       in case addAdvice pa active (ai_Advice i) of
                            Some a \<Rightarrow> AList.update code a m
                          | None \<Rightarrow> (case holdAdvice pa (ai_Advice i) of Some h \<Rightarrow> AList.update code h m | None \<Rightarrow> m))"

fun insert_advice :: "position_advice \<Rightarrow> position_advice list \<Rightarrow> position_advice list" where
  "insert_advice a [] = [a]"
| "insert_advice a (b # bs) = (if pa_Action b < pa_Action a then b # insert_advice a bs else a # b # bs)"

definition Advise :: "int \<Rightarrow> int \<Rightarrow> advice_input \<Rightarrow> tracker \<Rightarrow> tracker \<times> position_advice list" where
  "Advise z now i t =
     (if ai_Positions i = [] then (t, [])
      else let (t', sells) = (case ai_Agent i of None \<Rightarrow> (t, []) | Some ag \<Rightarrow> if ai_SellUnifiedOn i then (t, []) else sell_cards z now i ag t);
               m1 = merge_all sells [];
               m2 = (if ai_SellUnifiedOn i then fold (view_card i now) (ai_SellProjection i) m1 else m1);
               m3 = fold (rest_card i now) (ai_Positions i) m2
           in (t', foldr insert_advice (map snd m3) []))"

end
