(* ===== verification/AdviceFacts.thy ===== *)
theory AdviceFacts
  imports Advice
begin

text \<open>
  What the cards and the earlier discipline promise: one card per position, no sell card for shares locked by T+1 or, once the
  verdicts are in charge, from another source; what the discipline does with a deep loss.
\<close>

section \<open>Tables of cards\<close>

definition cards_ok :: "(position_advice \<Rightarrow> bool) \<Rightarrow> (string \<times> position_advice) list \<Rightarrow> bool" where
  "cards_ok P m \<longleftrightarrow> distinct (map fst m) \<and> (\<forall>(k, a) \<in> set m. k = pa_Code a \<and> P a)"

named_theorems card_simps

lemma cards_ok_Nil [card_simps]: "cards_ok P []"
  by (simp add: cards_ok_def)

lemma update_entry: "e \<in> set (AList.update k v m) \<Longrightarrow> e = (k, v) \<or> e \<in> set m"
  by (induction m) (auto split: if_splits)

lemma cards_ok_update: "cards_ok P m \<Longrightarrow> P a \<Longrightarrow> k = pa_Code a \<Longrightarrow> cards_ok P (AList.update k a m)"
  by (auto simp: cards_ok_def distinct_update dest!: update_entry)

lemma cards_ok_merge: "cards_ok P m \<Longrightarrow> (\<And>x. a = Some x \<Longrightarrow> P x) \<Longrightarrow> cards_ok P (mergeAdvice m a)"
  by (auto simp: mergeAdvice_def cards_ok_update split: option.split)

lemma cards_ok_merge_all: "cards_ok P m \<Longrightarrow> (\<And>x. Some x \<in> set as \<Longrightarrow> P x) \<Longrightarrow> cards_ok P (merge_all as m)"
  unfolding merge_all_def
proof (induction as arbitrary: m)
  case (Cons a as)
  have "cards_ok P (mergeAdvice m a)" using Cons.prems by (intro cards_ok_merge) auto
  then show ?case using Cons by simp
qed simp

lemma cards_ok_fold:
  "cards_ok P m \<Longrightarrow> (\<And>x m. x \<in> set xs \<Longrightarrow> cards_ok P m \<Longrightarrow> cards_ok P (f x m)) \<Longrightarrow> cards_ok P (fold f xs m)"
  by (induction xs arbitrary: m) auto

section \<open>Where a card comes from\<close>

lemma base_code [simp]:
  "pa_Code (baseAdvice p x now) = pureCode (p_TsCode p)" "pa_Qty (baseAdvice p x now) = p_Qty p" "pa_TsCode (baseAdvice p x now) = p_TsCode p"
  by (simp_all add: baseAdvice_def)

lemma labels_keep [simp]:
  "pa_Code (signal_label sig pa) = pa_Code pa" "pa_Qty (signal_label sig pa) = pa_Qty pa" "pa_TsCode (signal_label sig pa) = pa_TsCode pa"
  by (simp_all add: signal_label_def close_label_def gain_label_def)

definition card_of :: "real_position list \<Rightarrow> position_advice \<Rightarrow> bool" where
  "card_of ps a \<longleftrightarrow> (\<exists>p \<in> set ps. pa_Code a = pureCode (p_TsCode p) \<and> pa_TsCode a = p_TsCode p \<and> pa_Qty a = p_Qty p)"

lemma fromSignal_card: "fromSignal i now sig = Some a \<Longrightarrow> card_of (ai_Positions i) a \<and> pa_Code a = as_Code sig"
  by (auto simp: fromSignal_def card_of_def find_Some_iff split: option.splits intro!: bexI)

lemma disciplineAdvice_card:
  "disciplineAdvice d p x now = Some a \<Longrightarrow> pa_Code a = pureCode (p_TsCode p) \<and> pa_TsCode a = p_TsCode p \<and> pa_Qty a = p_Qty p"
  by (auto simp: disciplineAdvice_def Let_def split: discipline_action.splits)

lemma probe_position_cards: "a \<in> set (snd (probe_position z i now p t)) \<Longrightarrow> card_of [p] a"
proof -
  assume "a \<in> set (snd (probe_position z i now p t))"
  then obtain d x where "disciplineAdvice d p x now = Some a"
    by (auto simp: probe_position_def Let_def split: option.splits if_splits prod.splits)
  then show ?thesis by (auto simp: card_of_def dest: disciplineAdvice_card)
qed

lemma probe_each_cards: "a \<in> set (snd (probe_each z i now ps t)) \<Longrightarrow> card_of ps a"
proof (induction ps arbitrary: t)
  case (Cons p ps)
  obtain t1 o1 t2 o2 where s: "probe_position z i now p t = (t1, o1)" "probe_each z i now ps t1 = (t2, o2)" by fastforce
  then have "a \<in> set o1 \<or> a \<in> set o2" using Cons.prems by simp
  then show ?case using probe_position_cards [of a z i now p t] Cons.IH [of t1] s by (auto simp: card_of_def)
qed simp

lemma ProbeAll_cards: "a \<in> set (snd (ProbeAll z now i t)) \<Longrightarrow> card_of (ai_Positions i) a"
  using probe_each_cards [of a z i now "ai_Positions i" t] by (simp add: ProbeAll_def split: prod.splits)

lemma sellable_subset: "set (sellablePositions i) \<subseteq> set (ai_Positions i)"
  by (auto simp: sellablePositions_def)

lemma card_of_mono: "card_of ps a \<Longrightarrow> set ps \<subseteq> set qs \<Longrightarrow> card_of qs a"
  by (auto simp: card_of_def)

text \<open>The agent answers only for codes it was shown.\<close>

definition agent_within :: "agent \<Rightarrow> bool" where
  "agent_within ag \<longleftrightarrow>
     (\<forall>view now. as_Code ` set (ag_CheckPositionsExits ag view now @ ag_EmotionRetreatAlerts ag view now @ ag_BearishAttributionAlerts ag view now)
        \<subseteq> xl_Code ` set view) \<and>
     (\<forall>held. as_Code ` set (ag_AssessSellSide ag held) \<subseteq> set held)"

lemma view_codes: "xl_Code ` set (execLogsFromReal rows disc) \<subseteq> set (heldCodes rows)"
  by (auto simp: execLogsFromReal_def exec_log_of_def heldCodes_def)

lemma sell_cards_mem:
  assumes "Some a \<in> set (snd (sell_cards z now i ag t))"
  obtains (signal) sig where "fromSignal i now sig = Some a"
      "sig \<in> set (ag_CheckPositionsExits ag (execLogsFromReal (sellablePositions i) (ai_Discipline i)) now @
         ag_EmotionRetreatAlerts ag (execLogsFromReal (sellablePositions i) (ai_Discipline i)) now @
         ag_BearishAttributionAlerts ag (execLogsFromReal (sellablePositions i) (ai_Discipline i)) now) \<or>
       sig \<in> set (ag_AssessSellSide ag (heldCodes (sellablePositions i)))"
  | (probed) "a \<in> set (snd (ProbeAll z now (i\<lparr>ai_Positions := sellablePositions i\<rparr>) t))"
proof -
  let ?from = "\<lambda>xs. Some a \<in> set (map (fromSignal i now) xs)"
  let ?view = "execLogsFromReal (sellablePositions i) (ai_Discipline i)"
  have by_signal: thesis if "?from xs" "set xs \<subseteq> set (ag_CheckPositionsExits ag ?view now @ ag_EmotionRetreatAlerts ag ?view now @
      ag_BearishAttributionAlerts ag ?view now) \<union> set (ag_AssessSellSide ag (heldCodes (sellablePositions i)))" for xs
  proof -
    from that(1) obtain sig where "sig \<in> set xs" "fromSignal i now sig = Some a" by force
    then show thesis using signal that(2) by blast
  qed
  obtain t' ps where p: "(if ai_Tracked i then ProbeAll z now (i\<lparr>ai_Positions := sellablePositions i\<rparr>) t else (t, [])) = (t', ps)" by fastforce
  then consider "?from (ag_CheckPositionsExits ag ?view now)" | "a \<in> set ps" | "?from (ag_AssessSellSide ag (heldCodes (sellablePositions i)))"
    | "?from (ag_EmotionRetreatAlerts ag ?view now)" | "?from (ag_BearishAttributionAlerts ag ?view now)"
    using assms by (auto simp: sell_cards_def Let_def split: if_splits)
  then show thesis
  proof cases
    case 2
    then have "a \<in> set (snd (ProbeAll z now (i\<lparr>ai_Positions := sellablePositions i\<rparr>) t))" using p by (simp split: if_splits)
    then show thesis by (rule probed)
  qed (rule by_signal, assumption, force)+
qed

lemma sell_cards_of:
  assumes "Some a \<in> set (snd (sell_cards z now i ag t))"
  shows "card_of (ai_Positions i) a"
  using assms
proof (cases rule: sell_cards_mem)
  case (signal sig)
  then show ?thesis using fromSignal_card by blast
next
  case probed
  then show ?thesis using ProbeAll_cards [OF probed] sellable_subset by (auto intro: card_of_mono)
qed

lemma sell_cards_codes:
  assumes "Some a \<in> set (snd (sell_cards z now i ag t))" "agent_within ag"
  shows "pa_Code a \<in> set (heldCodes (sellablePositions i))"
  using assms(1)
proof (cases rule: sell_cards_mem)
  case (signal sig)
  let ?view = "execLogsFromReal (sellablePositions i) (ai_Discipline i)"
  have "as_Code sig \<in> xl_Code ` set ?view \<or> as_Code sig \<in> set (heldCodes (sellablePositions i))"
    using signal(2) assms(2) [unfolded agent_within_def] by (meson image_subset_iff)
  moreover have "pa_Code a = as_Code sig" using fromSignal_card [OF signal(1)] by simp
  ultimately show ?thesis using view_codes by (metis subsetD)
next
  case probed
  then show ?thesis using ProbeAll_cards [OF probed] by (auto simp: card_of_def heldCodes_def)
qed

section \<open>The result of a round\<close>

lemma set_insert_advice: "set (insert_advice a bs) = insert a (set bs)" and distinct_insert_advice:
  "distinct (map pa_Code (insert_advice a bs)) \<longleftrightarrow> pa_Code a \<notin> pa_Code ` set bs \<and> distinct (map pa_Code bs)"
  by (induction bs) auto

lemma sorted_cards:
  "set (foldr insert_advice xs []) = set xs \<and> (distinct (map pa_Code xs) \<longrightarrow> distinct (map pa_Code (foldr insert_advice xs [])))"
  by (induction xs) (simp_all add: set_insert_advice distinct_insert_advice)

lemma cards_ok_result:
  assumes "cards_ok P m"
  shows "distinct (map pa_Code (foldr insert_advice (map snd m) [])) \<and> (\<forall>a \<in> set (foldr insert_advice (map snd m) []). P a)"
proof -
  have "map pa_Code (map snd m) = map fst m" using assms by (induction m) (auto simp: cards_ok_def)
  then have "distinct (map pa_Code (map snd m))" using assms unfolding cards_ok_def by (simp only:)
  then show ?thesis using assms sorted_cards [of "map snd m"] by (auto simp: cards_ok_def)
qed

lemma view_card_ok:
  assumes "cards_ok P m"
    and "\<And>p. p \<in> set (ai_Positions i) \<Longrightarrow> P ((baseAdvice p (sv_RefPrice v) now)\<lparr>pa_Action := sv_Action v, pa_Level := sv_Level v,
      pa_Reason := AgentSays (sv_Reason v), pa_Source := sv_Source v\<rparr>)"
  shows "cards_ok P (view_card i now v m)"
  using assms by (auto simp: view_card_def Let_def dest!: find_SomeD intro!: cards_ok_update split: option.split)

lemma addAdvice_Some: "addAdvice pa b cfg = Some a \<Longrightarrow> pa_Code a = pa_Code pa \<and> pa_TsCode a = pa_TsCode pa \<and> pa_Qty a = pa_Qty pa \<and> pa_Action a = [CHR 0xE5, CHR 0x8A, CHR 0xA0, CHR 0xE4, CHR 0xBB, CHR 0x93]"
  by (auto simp: addAdvice_def split: if_splits)

lemma holdAdvice_Some: "holdAdvice pa cfg = Some a \<Longrightarrow> pa_Code a = pa_Code pa \<and> pa_TsCode a = pa_TsCode pa \<and> pa_Qty a = pa_Qty pa \<and> pa_Action a = [CHR 0xE6, CHR 0xA0, CHR 0xBC, CHR 0xE5, CHR 0xB1, CHR 0x80]"
  by (auto simp: holdAdvice_def split: if_splits)

lemma rest_card_ok:
  assumes "cards_ok P m"
    and "\<And>a. pa_Code a = pureCode (p_TsCode p) \<Longrightarrow> pa_TsCode a = p_TsCode p \<Longrightarrow> pa_Qty a = p_Qty p \<Longrightarrow> pa_Action a \<in> {[CHR 0xE5, CHR 0x8A, CHR 0xA0, CHR 0xE4, CHR 0xBB, CHR 0x93], [CHR 0xE6, CHR 0xA0, CHR 0xBC, CHR 0xE5, CHR 0xB1, CHR 0x80]} \<Longrightarrow> P a"
  shows "cards_ok P (rest_card i now p m)"
  using assms(1)
  by (auto simp: rest_card_def Let_def intro!: cards_ok_update assms(2) dest!: addAdvice_Some holdAdvice_Some split: option.split)

lemma Advise_cards:
  assumes sells: "\<And>ag a. ai_Agent i = Some ag \<Longrightarrow> \<not> ai_SellUnifiedOn i \<Longrightarrow> Some a \<in> set (snd (sell_cards z now i ag t)) \<Longrightarrow> P a"
    and views: "\<And>v p. ai_SellUnifiedOn i \<Longrightarrow> v \<in> set (ai_SellProjection i) \<Longrightarrow> p \<in> set (ai_Positions i) \<Longrightarrow>
      P ((baseAdvice p (sv_RefPrice v) now)\<lparr>pa_Action := sv_Action v, pa_Level := sv_Level v, pa_Reason := AgentSays (sv_Reason v), pa_Source := sv_Source v\<rparr>)"
    and rest: "\<And>a p. p \<in> set (ai_Positions i) \<Longrightarrow> pa_Code a = pureCode (p_TsCode p) \<Longrightarrow> pa_TsCode a = p_TsCode p \<Longrightarrow> pa_Qty a = p_Qty p \<Longrightarrow>
      pa_Action a \<in> {[CHR 0xE5, CHR 0x8A, CHR 0xA0, CHR 0xE4, CHR 0xBB, CHR 0x93], [CHR 0xE6, CHR 0xA0, CHR 0xBC, CHR 0xE5, CHR 0xB1, CHR 0x80]} \<Longrightarrow> P a"
    and run: "Advise z now i t = (t', out)"
  shows "distinct (map pa_Code out) \<and> (\<forall>a \<in> set out. P a)"
proof (cases "ai_Positions i = []")
  case False
  obtain t1 cards where c: "(case ai_Agent i of None \<Rightarrow> (t, []) | Some ag \<Rightarrow> if ai_SellUnifiedOn i then (t, []) else sell_cards z now i ag t) = (t1, cards)"
    by fastforce
  have "P a" if "Some a \<in> set cards" for a
    using that c sells [of _ a] by (auto split: option.splits if_splits)
  then have "cards_ok P (merge_all cards [])" by (intro cards_ok_merge_all) (auto simp: cards_ok_Nil)
  then have "cards_ok P (if ai_SellUnifiedOn i then fold (view_card i now) (ai_SellProjection i) (merge_all cards []) else merge_all cards [])"
    by (auto intro!: cards_ok_fold view_card_ok views)
  then have "cards_ok P (fold (rest_card i now) (ai_Positions i)
      (if ai_SellUnifiedOn i then fold (view_card i now) (ai_SellProjection i) (merge_all cards []) else merge_all cards []))"
    by (rule cards_ok_fold) (auto intro!: rest_card_ok rest)
  from cards_ok_result [OF this] show ?thesis using run False by (simp add: Advise_def c Let_def)
qed (use run in \<open>simp add: Advise_def\<close>)

text \<open>C31: a round gives at most one card per code, and every card is about a held position, with its code and quantity.\<close>

theorem one_card_per_position:
  assumes "Advise z now i t = (t', out)"
  shows "distinct (map pa_Code out) \<and> (\<forall>a \<in> set out. card_of (ai_Positions i) a)"
  by (rule Advise_cards [OF _ _ _ assms]) (blast intro: sell_cards_of, auto simp: card_of_def)

text \<open>C32: as long as the five sources decide, a position whose sellable quantity is not positive gets no sell
  card: if every held position of a code is locked, its card can only advise to add or to hold.\<close>

theorem locked_shares_not_sold:
  assumes "Advise z now i t = (t', out)" "\<not> ai_SellUnifiedOn i"
    and "\<forall>ag. ai_Agent i = Some ag \<longrightarrow> agent_within ag"
    and "\<forall>p \<in> set (ai_Positions i). pureCode (p_TsCode p) = c \<longrightarrow> (\<exists>q. map_of (ai_SellableQty i) (p_TsCode p) = Some q \<and> q \<le> 0)"
    and "a \<in> set out" "pa_Code a = c"
  shows "pa_Action a \<in> {[CHR 0xE5, CHR 0x8A, CHR 0xA0, CHR 0xE4, CHR 0xBB, CHR 0x93], [CHR 0xE6, CHR 0xA0, CHR 0xBC, CHR 0xE5, CHR 0xB1, CHR 0x80]}"
proof -
  have "c \<notin> set (heldCodes (sellablePositions i))"
    using assms(4) by (auto simp: sellablePositions_def heldCodes_def split: option.splits)
  then have "distinct (map pa_Code out) \<and> (\<forall>a \<in> set out. pa_Code a = c \<longrightarrow> pa_Action a \<in> {[CHR 0xE5, CHR 0x8A, CHR 0xA0, CHR 0xE4, CHR 0xBB, CHR 0x93], [CHR 0xE6, CHR 0xA0, CHR 0xBC, CHR 0xE5, CHR 0xB1, CHR 0x80]})"
    using assms(2,3) by (intro Advise_cards [OF _ _ _ assms(1)]) (use sell_cards_codes in blast)+
  then show ?thesis using assms(5,6) by blast
qed

text \<open>once the unified verdicts are in charge, every card that advises anything but adding or holding carries the
  action, the price and the source of one of the injected verdicts, for a position of that code.\<close>

theorem verdicts_decide_sales:
  assumes "Advise z now i t = (t', out)" "ai_SellUnifiedOn i" "a \<in> set out" "pa_Action a \<notin> {[CHR 0xE5, CHR 0x8A, CHR 0xA0, CHR 0xE4, CHR 0xBB, CHR 0x93], [CHR 0xE6, CHR 0xA0, CHR 0xBC, CHR 0xE5, CHR 0xB1, CHR 0x80]}"
  shows "\<exists>v \<in> set (ai_SellProjection i). pa_Action a = sv_Action v \<and> pa_RefPrice a = sv_RefPrice v \<and> pa_Source a = sv_Source v \<and>
    (\<exists>p \<in> set (ai_Positions i). pa_TsCode a = p_TsCode p)"
proof -
  have "distinct (map pa_Code out) \<and> (\<forall>a \<in> set out. pa_Action a \<notin> {[CHR 0xE5, CHR 0x8A, CHR 0xA0, CHR 0xE4, CHR 0xBB, CHR 0x93], [CHR 0xE6, CHR 0xA0, CHR 0xBC, CHR 0xE5, CHR 0xB1, CHR 0x80]} \<longrightarrow>
    (\<exists>v \<in> set (ai_SellProjection i). pa_Action a = sv_Action v \<and> pa_RefPrice a = sv_RefPrice v \<and> pa_Source a = sv_Source v \<and>
      (\<exists>p \<in> set (ai_Positions i). pa_TsCode a = p_TsCode p)))"
    using assms(2) by (intro Advise_cards [OF _ _ _ assms(1)]) (auto simp: baseAdvice_def)
  then show ?thesis using assms(3,4) by blast
qed

end
