(* ===== verification/DisciplineFacts.thy ===== *)
theory DisciplineFacts
  imports Discipline SellFacts
begin

text \<open>
  The earlier discipline over a sequence of probes of one position: a disposal waits for its window or is the hard stop; and what
  a bearish signal does at each line.
\<close>

record disc_probe =
  dq_cur :: f64
  dq_bull :: bool
  dq_bear :: bool
  dq_now :: int

definition disc_probe_at :: "int \<Rightarrow> discipline_config \<Rightarrow> string \<Rightarrow> f64 \<Rightarrow> disc_probe \<Rightarrow> position_state \<Rightarrow> position_state \<times> discipline_decision option" where
  "disc_probe_at z cfg code entry q st = probeDiscipline z (Some st) code entry (ps_HighPrice st) (dq_cur q) (dq_bull q) (dq_bear q) (dq_now q) cfg"

fun disc_run :: "int \<Rightarrow> discipline_config \<Rightarrow> string \<Rightarrow> f64 \<Rightarrow> disc_probe list \<Rightarrow> position_state \<Rightarrow> position_state \<times> discipline_decision list" where
  "disc_run z cfg code entry [] st = (st, [])"
| "disc_run z cfg code entry (q # qs) st =
     (let (st1, d) = disc_probe_at z cfg code entry q st; (st2, ds) = disc_run z cfg code entry qs st1
      in (st2, (case d of None \<Rightarrow> [] | Some d \<Rightarrow> [d]) @ ds))"

definition disposes :: "discipline_decision \<Rightarrow> bool" where
  "disposes d \<longleftrightarrow> dn_Action d = ActionClose \<or> dn_Action d = ActionTrim"

lemma alignSettle_sell: "alignSettle = alignSettleSell"
  by (intro ext) (simp add: alignSettle_def alignSettleSell_def)

lemma raised_fields [simp]:
  "ps_Line (raised_high st x) = ps_Line st" "ps_FirstTouch (raised_high st x) = ps_FirstTouch st" "ps_SettleStart (raised_high st x) = ps_SettleStart st"
  "ps_WindowMin (raised_high st x) = ps_WindowMin st" "ps_Settled (raised_high st x) = ps_Settled st" "ps_Confirmed (raised_high st x) = ps_Confirmed st"
  by (simp_all add: raised_high_def)

text \<open>The lock of a state: a touched line carries the instant of its touch and the end of its window; only a disposal confirms.\<close>

definition locked_since :: "int \<Rightarrow> discipline_params \<Rightarrow> int list \<Rightarrow> position_state \<Rightarrow> bool" where
  "locked_since z p ts st \<longleftrightarrow>
     (ps_Line st = LineNone \<or> (\<exists>t \<in> set ts. \<exists>w \<in> {dp_exitMin p, dp_trailMin p}. ps_SettleStart st = alignSettle z t w)) \<and>
     \<not> (ps_Settled st \<and> ps_Confirmed st)"

lemma locked_mono: "locked_since z p ts st \<Longrightarrow> set ts \<subseteq> set us \<Longrightarrow> locked_since z p us st"
  by (auto simp: locked_since_def)

lemma line_step_locked:
  assumes "line_step z p st code line pnl hasBull hasBear now = (st', d)" "locked_since z p ts st"
  shows "(d \<noteq> None \<and> disposes (the d) \<and> ps_Line st \<noteq> LineNone \<and> ps_SettleStart st \<le> now) \<or>
    ((d = None \<or> \<not> disposes (the d)) \<and> locked_since z p (now # ts) st')"
  using assms
  by (auto simp: line_step_def window_over_def Let_def disposes_def locked_since_def split: if_splits)

lemma probe_locked:
  assumes "disc_probe_at z cfg code entry q st = (st', d)" "locked_since z (discipline_params_of cfg) ts st"
  shows "(\<exists>dd. d = Some dd \<and> disposes dd \<and>
      (dn_Reason dd = HardStop \<and> dq_bear q \<or> ps_Line st \<noteq> LineNone \<and> ps_SettleStart st \<le> dq_now q)) \<or>
    ((\<forall>dd. d = Some dd \<longrightarrow> \<not> disposes dd) \<and> locked_since z (discipline_params_of cfg) (dq_now q # ts) st')"
proof -
  let ?st = "raised_high st (dq_cur q)" and ?p = "discipline_params_of cfg"
  have l: "locked_since z ?p ts ?st" using assms(2) by (simp add: locked_since_def)
  have n: "\<not> (ps_Settled ?st \<and> ps_Confirmed ?st)" using l by (simp add: locked_since_def)
  have m: "locked_since z ?p (dq_now q # ts) ?st" by (rule locked_mono [OF l]) auto
  show ?thesis
  proof (cases "entry \<le> 0 \<or> dq_cur q \<le> 0")
    case False
    let ?line = "touched_line ?p ?st entry (dq_cur q)"
    let ?go = "line_step z ?p ?st code ?line (gain_pct entry (dq_cur q)) (dq_bull q) (dq_bear q) (dq_now q)"
    have "disc_probe_at z cfg code entry q st =
      (if ?line = LineStopLoss \<and> dq_bear q then
         (?st\<lparr>ps_Line := LineStopLoss, ps_FirstTouch := dq_now q, ps_SettleStart := alignSettle z (dq_now q) (dp_exitMin ?p),
              ps_WindowMin := dp_exitMin ?p, ps_Settled := True, ps_Confirmed := True\<rparr>,
          Some \<lparr>dn_Code = code, dn_Action = ActionClose, dn_Line = LineStopLoss, dn_PnlPct = gain_pct entry (dq_cur q), dn_Reason = HardStop\<rparr>)
       else if isLossLine ?line then ?go
       else if dp_tp ?p \<le> gain_pct entry (dq_cur q) \<and> dq_bull q then (?st, None) else ?go)"
      using False n by (simp only: disc_probe_at_def probeDiscipline_def Let_def option.case if_False simp_thms)
    then consider (hard) "?line = LineStopLoss" "dq_bear q"
        "d = Some \<lparr>dn_Code = code, dn_Action = ActionClose, dn_Line = LineStopLoss, dn_PnlPct = gain_pct entry (dq_cur q), dn_Reason = HardStop\<rparr>"
      | (go) "?go = (st', d)" | (held) "st' = ?st" "d = None"
      using assms(1) by (auto split: if_splits)
    then show ?thesis
    proof cases
      case hard
      then show ?thesis by (simp add: disposes_def)
    next
      case go
      from line_step_locked [OF go l] show ?thesis by auto
    next
      case held
      then show ?thesis using m by simp
    qed
  qed (use assms(1) m in \<open>auto simp: disc_probe_at_def probeDiscipline_def Let_def\<close>)
qed

lemma run_locked:
  assumes "disc_run z cfg code entry qs st = (st', ds)" "\<forall>d \<in> set ds. \<not> disposes d" "locked_since z (discipline_params_of cfg) ts st"
  shows "locked_since z (discipline_params_of cfg) (rev (map dq_now qs) @ ts) st'"
  using assms
proof (induction qs arbitrary: st ts ds)
  case (Cons q qs)
  obtain st1 d ds1 where s: "disc_probe_at z cfg code entry q st = (st1, d)" "disc_run z cfg code entry qs st1 = (st', ds1)"
      "ds = (case d of None \<Rightarrow> [] | Some d \<Rightarrow> [d]) @ ds1"
    using Cons.prems(1) by (auto split: prod.splits)
  then have "locked_since z (discipline_params_of cfg) (dq_now q # ts) st1"
    using probe_locked [OF s(1) Cons.prems(3)] Cons.prems(2) by auto
  from Cons.IH [OF s(2) _ this] show ?case using Cons.prems(2) s(3) by simp
qed simp

text \<open>in any sequence of probes of a position, the first disposal is either the hard stop, with a bearish
  signal standing, or comes at or after the end of a whole window that an earlier probe of the sequence opened.\<close>

theorem discipline_waits_window:
  assumes "disc_run z cfg code entry qs (new_position_state code high) = (st, ds)" "\<forall>d \<in> set ds. \<not> disposes d"
    and "disc_probe_at z cfg code entry q st = (st', Some d)" "disposes d"
  shows "dn_Reason d = HardStop \<and> dq_bear q \<or>
    (\<exists>q0 \<in> set qs. \<exists>w \<in> {dp_exitMin (discipline_params_of cfg), dp_trailMin (discipline_params_of cfg)}. alignSettle z (dq_now q0) w \<le> dq_now q)"
proof -
  have "locked_since z (discipline_params_of cfg) (rev (map dq_now qs) @ []) st"
    by (rule run_locked [OF assms(1,2)]) (simp add: locked_since_def new_position_state_def)
  moreover from probe_locked [OF assms(3) this]
  have "dn_Reason d = HardStop \<and> dq_bear q \<or> ps_Line st \<noteq> LineNone \<and> ps_SettleStart st \<le> dq_now q" using assms(4) by auto
  ultimately show ?thesis by (auto simp: locked_since_def)
qed

section \<open>Divergences\<close>

text \<open>A deep loss is sold at the end of its window if no bearish signal stands, and is held for as long as one does.\<close>

definition deep_loss :: "discipline_config \<Rightarrow> f64 \<Rightarrow> disc_probe \<Rightarrow> bool" where
  "deep_loss cfg entry q \<longleftrightarrow> 0 < dq_cur q \<and>
     gain_pct entry (dq_cur q) \<le> - dp_sl (discipline_params_of cfg) * dp_dm (discipline_params_of cfg)"

lemma deep_line: "deep_loss cfg entry q \<Longrightarrow> touched_line (discipline_params_of cfg) st entry (dq_cur q) = LineDeepBreach"
  by (simp add: deep_loss_def touched_line_def Let_def)

lemma deep_probe:
  assumes "deep_loss cfg entry q" "0 < entry" "\<not> (ps_Settled st \<and> ps_Confirmed st)"
  shows "disc_probe_at z cfg code entry q st = line_step z (discipline_params_of cfg) (raised_high st (dq_cur q)) code LineDeepBreach
    (gain_pct entry (dq_cur q)) (dq_bull q) (dq_bear q) (dq_now q)"
proof -
  have "\<not> (entry \<le> 0 \<or> dq_cur q \<le> 0)" using assms(1,2) f64_less_not_le by (auto simp: deep_loss_def)
  then show ?thesis using assms(3)
    by (cases "ps_Settled st") (simp_all add: disc_probe_at_def probeDiscipline_def deep_line [OF assms(1)] Let_def)
qed

lemma bear_keeps_deep_loss:
  assumes "\<forall>q \<in> set qs. deep_loss cfg entry q \<and> dq_bear q" "0 < entry"
    and "disc_run z cfg code entry qs (new_position_state code high) = (st, ds)"
  shows "\<forall>d \<in> set ds. \<not> disposes d"
proof -
  have run: "\<forall>d \<in> set ds. \<not> disposes d"
    if "\<forall>q \<in> set qs. deep_loss cfg entry q \<and> dq_bear q" "ps_Line st0 \<in> {LineNone, LineDeepBreach}" "\<not> ps_Confirmed st0"
      "disc_run z cfg code entry qs st0 = (st, ds)" for st0 st ds
    using that
  proof (induction qs arbitrary: st0 ds)
    case (Cons q qs)
    obtain st1 d ds1 where s: "disc_probe_at z cfg code entry q st0 = (st1, d)" "disc_run z cfg code entry qs st1 = (st, ds1)"
        "ds = (case d of None \<Rightarrow> [] | Some d \<Rightarrow> [d]) @ ds1"
      using Cons.prems(4) by (auto split: prod.splits)
    have q: "deep_loss cfg entry q" "dq_bear q" using Cons.prems(1) by auto
    have "ps_Line st1 \<in> {LineNone, LineDeepBreach} \<and> \<not> ps_Confirmed st1 \<and> (\<forall>dd. d = Some dd \<longrightarrow> \<not> disposes dd)"
      using s(1) deep_probe [OF q(1) assms(2), of st0 z code] Cons.prems(2,3) q(2)
      by (auto simp: line_step_def window_over_def Let_def disposes_def split: if_splits)
    then show ?case using Cons.IH [of st1 ds1] Cons.prems(1) s(2,3) by (auto split: option.splits)
  qed simp
  show ?thesis by (rule run [OF assms(1) _ _ assms(3)]) (simp_all add: new_position_state_def)
qed

lemma deep_loss_closed_without_bear:
  assumes "deep_loss cfg entry q" "0 < entry" "\<not> dq_bear q" "ps_Line st = LineDeepBreach" "\<not> ps_Confirmed st" "ps_SettleStart st \<le> dq_now q"
  shows "\<exists>d. snd (disc_probe_at z cfg code entry q st) = Some d \<and> dn_Action d = ActionClose"
  using deep_probe [OF assms(1,2), of st z code] assms(3-6) by (simp add: line_step_def window_over_def reevalAllowsSettle_def Let_def)

text \<open>After the hard stop every further probe above twice the stop line answers "trim", even at a profit.\<close>

lemma hard_stop_becomes_trim:
  assumes "ps_Line st = LineStopLoss" "ps_Settled st" "ps_Confirmed st" "0 < entry" "0 < dq_cur q"
    and "- Fin 2 * dp_sl (discipline_params_of cfg) < gain_pct entry (dq_cur q)"
  shows "\<exists>d. snd (disc_probe_at z cfg code entry q st) = Some d \<and> dn_Action d = ActionTrim"
proof -
  have "\<not> (entry \<le> 0 \<or> dq_cur q \<le> 0)" using assms(4,5) f64_less_not_le by auto
  then show ?thesis using assms by (simp add: disc_probe_at_def probeDiscipline_def settled_again_def Let_def)
qed

end
