(* ===== verification/Shadow.thy ===== *)
theory Shadow
  imports Trader
begin

text \<open>The recording executor (\<open>trading/shadow.go\<close>) and its table (\<open>store/shadow.go\<close>). \<open>ok\<close> is whether the table can be written.\<close>

record shadow_order =
  so_SignalID :: string
  so_Code :: string
  so_Name :: string
  so_Strategy :: string
  so_StrategyID :: string
  so_Side :: string
  so_Price :: f64
  so_Qty :: f64
  so_Amount :: f64
  so_UserID :: string
  so_CreatedAt :: string
  so_Market :: string

definition InsertShadowOrder :: "bool \<Rightarrow> string \<Rightarrow> shadow_order \<Rightarrow> shadow_order list \<Rightarrow> (shadow_order list \<times> bool) option" where
  "InsertShadowOrder ok now o0 rows =
     (let r = o0\<lparr>so_CreatedAt := (if so_CreatedAt o0 = [] then now else so_CreatedAt o0), so_Market := normalize_market (so_Market o0)\<rparr>
      in if \<not> ok then None
         else if list_ex (\<lambda>x. so_SignalID x = so_SignalID r) rows then Some (rows, True)
         else Some (rows @ [r], False))"

definition ShadowOrdersForDay :: "string \<Rightarrow> string \<Rightarrow> int \<Rightarrow> shadow_order list \<Rightarrow> shadow_order list" where
  "ShadowOrdersForDay userID day limit0 rows =
     (let limit = (if limit0 \<le> 0 \<or> 1000 < limit0 then 500 else limit0)
      in take (nat limit) (rev (filter (\<lambda>x. (so_UserID x = userID \<or> so_UserID x = []) \<and> sql_like (day @ ''%'') (so_CreatedAt x)) rows)))"

record shadow_executor =
  sh_store :: bool
  sh_userID :: string
  sh_rows :: "shadow_order list"

definition NewShadowExecutor :: "bool \<Rightarrow> string \<Rightarrow> shadow_order list \<Rightarrow> shadow_executor" where
  "NewShadowExecutor hasStore userID rows = \<lparr>sh_store = hasStore, sh_userID = userID, sh_rows = rows\<rparr>"

definition shadow_row :: "string \<Rightarrow> order_request \<Rightarrow> shadow_order" where
  "shadow_row userID req = \<lparr>so_SignalID = r_SignalID req, so_Code = r_Code req, so_Name = r_Name req, so_Strategy = r_Strategy req,
     so_StrategyID = r_StrategyID req, so_Side = r_Side req, so_Price = r_Price req, so_Qty = r_Qty req, so_Amount = r_Amount req,
     so_UserID = userID, so_CreatedAt = r_CreatedAt req, so_Market = []\<rparr>"

definition shadow_record :: "bool \<Rightarrow> string \<Rightarrow> order_request \<Rightarrow> string \<Rightarrow> shadow_executor \<Rightarrow> shadow_executor \<times> order_result option" where
  "shadow_record ok now req orderID s =
     (let result = \<lparr>or_OK = True, or_OrderID = orderID, or_Err = []\<rparr>
      in if sh_store s then
           (case InsertShadowOrder ok now (shadow_row (sh_userID s) req) (sh_rows s) of
              None \<Rightarrow> (s, None)
            | Some (rows, _) \<Rightarrow> (s\<lparr>sh_rows := rows\<rparr>, Some result))
         else (s, Some result))"

definition PlaceBuy_shadow :: "bool \<Rightarrow> string \<Rightarrow> order_request \<Rightarrow> shadow_executor \<Rightarrow> shadow_executor \<times> order_result option" where
  "PlaceBuy_shadow ok now req s = shadow_record ok now req ''GW-SHADOW-BUY'' s"

definition PlaceSell_shadow :: "bool \<Rightarrow> string \<Rightarrow> order_request \<Rightarrow> shadow_executor \<Rightarrow> shadow_executor \<times> order_result option" where
  "PlaceSell_shadow ok now req s = shadow_record ok now req ''GW-SHADOW-SELL'' s"

section \<open>Once per signal\<close>

lemma recorded_signal: "list_ex (\<lambda>x. so_SignalID x = k) rows \<longleftrightarrow> k \<in> so_SignalID ` set rows"
  by (auto simp: list_ex_iff)

lemma insert_shadow_unique:
  assumes "InsertShadowOrder ok now x rows = Some (rows', e)" "distinct (map so_SignalID rows)"
  shows "distinct (map so_SignalID rows')" "so_SignalID x \<in> so_SignalID ` set rows'"
  using assms by (auto simp: InsertShadowOrder_def Let_def recorded_signal split: if_splits)

text \<open>The table is unique in the signal alone, so a decision of a second account is answered as accepted and lost; and the market of the request
  is not passed on, so every row is filed under CN.\<close>

lemma second_account_unrecorded:
  assumes "sh_store s" "r \<in> set (sh_rows s)" "so_SignalID r = r_SignalID req"
  shows "shadow_record True now req oid s = (s, Some \<lparr>or_OK = True, or_OrderID = oid, or_Err = []\<rparr>)"
proof -
  have "list_ex (\<lambda>x. so_SignalID x = r_SignalID req) (sh_rows s)" unfolding recorded_signal using assms(2,3) by (metis image_eqI)
  then show ?thesis using assms(1) by (simp add: shadow_record_def InsertShadowOrder_def shadow_row_def Let_def)
qed

lemma shadow_rows_cn:
  assumes "InsertShadowOrder ok now (shadow_row u req) [] = Some (rows, e)"
  shows "\<forall>r \<in> set rows. so_Market r = CN"
proof -
  have "normalize_market [] = CN" by code_simp
  then show ?thesis using assms by (auto simp: InsertShadowOrder_def shadow_row_def Let_def split: if_splits)
qed

end
