(* ===== verification/AdviceExamples.thy ===== *)
theory AdviceExamples
  imports AdviceFacts DisciplineFacts Shadow PositionExamples
begin

text \<open>Witnesses for the cards and the earlier discipline: a position at its cost price, and a fall by a sixteenth at noon.\<close>

definition quiet_agent :: agent where
  "quiet_agent = \<lparr>ag_CheckPositionsExits = (\<lambda>_ _. []), ag_AssessSellSide = (\<lambda>_. []), ag_EmotionRetreatAlerts = (\<lambda>_ _. []),
     ag_BearishAttributionAlerts = (\<lambda>_ _. [])\<rparr>"

definition locked_input :: "bool \<Rightarrow> sell_view list \<Rightarrow> advice_input" where
  "locked_input unified views = \<lparr>ai_Agent = Some quiet_agent, ai_Positions = [sample_position ''u1'' long_side (Fin 2)], ai_Quotes = (\<lambda>_. Some (Fin 100)),
     ai_SignalActive = (\<lambda>_. Some True), ai_BearReasons = (\<lambda>_. []), ai_Discipline = DefaultDisciplineConfig,
     ai_Advice = \<lparr>ac_AddReopenDrawdownPct = 0, ac_AddSignalActive = True, ac_HoldMinProfitPct = 0\<rparr>, ai_Tracked = True,
     ai_SellableQty = [(''BTCUSDT'', 0)], ai_SellUnifiedOn = unified, ai_SellProjection = views\<rparr>"

definition stop_view :: sell_view where
  "stop_view = \<lparr>sv_TsCode = ''BTCUSDT'', sv_Action = [CHR 0xE6, CHR 0xAD, CHR 0xA2, CHR 0xE6, CHR 0x8D, CHR 0x9F], sv_Level = [CHR 0xE9, CHR 0xAB, CHR 0x98], sv_Reason = [], sv_RefPrice = Fin 90, sv_Source = ''unified''\<rparr>"

lemma btc_code: "pureCode ''BTCUSDT'' = ''BTCUSDT''"
  by code_simp

lemma at_cost: "pa_ProfitPct (baseAdvice (sample_position ''u1'' long_side (Fin 2)) (Fin 100) now) = 0"
  "pa_DrawdownPct (baseAdvice (sample_position ''u1'' long_side (Fin 2)) (Fin 100) now) = 0"
  by (simp_all add: baseAdvice_def sample_position_def f64_simps)

lemma add_at_cost:
  "pa_ProfitPct pa = 0 \<Longrightarrow> pa_DrawdownPct pa = 0 \<Longrightarrow>
   \<exists>a. addAdvice pa True \<lparr>ac_AddReopenDrawdownPct = 0, ac_AddSignalActive = True, ac_HoldMinProfitPct = 0\<rparr> = Some a"
  using f64_le_not_less [OF rnd_nonpos [of "- 1 / 1000"]] by (simp add: addAdvice_def feq_def f64_simps lit_def)

lemma locked_round: "\<exists>a. Advise 0 now (locked_input False []) [] = ([], [a]) \<and> pa_Code a = ''BTCUSDT''"
proof -
  let ?pa = "baseAdvice (sample_position ''u1'' long_side (Fin 2)) (Fin 100) now"
  obtain a where a: "addAdvice ?pa True \<lparr>ac_AddReopenDrawdownPct = 0, ac_AddSignalActive = True, ac_HoldMinProfitPct = 0\<rparr> = Some a"
    using add_at_cost [OF at_cost] by blast
  then have "pa_Code a = ''BTCUSDT''" by (auto dest!: addAdvice_Some simp: sample_position_def btc_code)
  then show ?thesis
    using a by (simp add: Advise_def locked_input_def quiet_agent_def sell_cards_def sellablePositions_def sample_position_def ProbeAll_def merge_all_def
        rest_card_def btc_code Let_def f64_simps heldCodes_def execLogsFromReal_def)
qed

theorem one_card_per_position_witness:
  "\<exists>out. Advise 0 0 (locked_input False []) [] = ([], out) \<and> length out = 1 \<and> (\<forall>a \<in> set out. card_of (ai_Positions (locked_input False [])) a)"
proof -
  obtain a where r: "Advise 0 0 (locked_input False []) [] = ([], [a])" using locked_round by blast
  then show ?thesis using one_card_per_position [OF r] by simp
qed

theorem locked_shares_not_sold_witness:
  "\<exists>a. Advise 0 0 (locked_input False []) [] = ([], [a]) \<and> pa_Code a = ''BTCUSDT'' \<and> pa_Action a \<in> {[CHR 0xE5, CHR 0x8A, CHR 0xA0, CHR 0xE4, CHR 0xBB, CHR 0x93], [CHR 0xE6, CHR 0xA0, CHR 0xBC, CHR 0xE5, CHR 0xB1, CHR 0x80]}"
proof -
  obtain a where r: "Advise 0 0 (locked_input False []) [] = ([], [a])" "pa_Code a = ''BTCUSDT''" using locked_round by blast
  have "agent_within quiet_agent" by (simp add: agent_within_def quiet_agent_def)
  moreover have "\<exists>q. map_of (ai_SellableQty (locked_input False [])) (p_TsCode (sample_position ''u1'' long_side (Fin 2))) = Some q \<and> q \<le> 0"
    by (simp add: locked_input_def sample_position_def zero_f64_def)
  ultimately have "pa_Action a \<in> {[CHR 0xE5, CHR 0x8A, CHR 0xA0, CHR 0xE4, CHR 0xBB, CHR 0x93], [CHR 0xE6, CHR 0xA0, CHR 0xBC, CHR 0xE5, CHR 0xB1, CHR 0x80]}"
    using locked_shares_not_sold [OF r(1), of "''BTCUSDT''" a] r(2) by (simp add: locked_input_def)
  then show ?thesis using r by blast
qed

lemma unified_round: "\<exists>a. Advise 0 now (locked_input True [stop_view]) [] = ([], [a]) \<and> pa_Action a = [CHR 0xE6, CHR 0xAD, CHR 0xA2, CHR 0xE6, CHR 0x8D, CHR 0x9F]"
  by (simp add: Advise_def locked_input_def sample_position_def merge_all_def stop_view_def view_card_def rest_card_def btc_code Let_def)

theorem verdicts_decide_sales_witness:
  "\<exists>a. Advise 0 0 (locked_input True [stop_view]) [] = ([], [a]) \<and> pa_RefPrice a = Fin 90 \<and> pa_Source a = ''unified''"
proof -
  obtain a where r: "Advise 0 0 (locked_input True [stop_view]) [] = ([], [a])" "pa_Action a = [CHR 0xE6, CHR 0xAD, CHR 0xA2, CHR 0xE6, CHR 0x8D, CHR 0x9F]" using unified_round by blast
  then show ?thesis using verdicts_decide_sales [OF r(1), of a] by (simp add: locked_input_def stop_view_def)
qed

definition sixteenth_down :: "int \<Rightarrow> disc_probe" where
  "sixteenth_down t = \<lparr>dq_cur = Fin 60, dq_bull = False, dq_bear = False, dq_now = t\<rparr>"

definition touched_at_noon :: position_state where
  "touched_at_noon = (new_position_state ''600000'' (Fin 64))\<lparr>ps_Line := LineStopLoss, ps_FirstTouch := noon, ps_WindowMin := 15,
     ps_SettleStart := noon + 15 * minute\<rparr>"

lemma sixteenth_gain: "gain_pct (Fin 64) (Fin 60) = Fin (- (25 / 4))"
  using sample_pnl(1) by (simp add: pnl_pct_def gain_pct_def)

lemma default_params: "discipline_params_of DefaultDisciplineConfig = \<lparr>dp_sl = Fin 6, dp_tp = Fin 15, dp_pb = Fin 6, dp_dm = Fin 2, dp_exitMin = 15, dp_trailMin = 45\<rparr>"
  by (simp add: discipline_params_of_def DefaultDisciplineConfig_def f64_simps)

lemmas disc_eval = disc_probe_at_def probeDiscipline_def touched_line_def sixteenth_gain default_params line_step_def raised_high_def new_position_state_def
  sixteenth_down_def f64_simps touched_at_noon_def Let_def

lemma noon_touch_disc:
  "disc_run 43200 DefaultDisciplineConfig ''600000'' (Fin 64) [sixteenth_down noon] (new_position_state ''600000'' (Fin 64))
     = (touched_at_noon, [\<lparr>dn_Code = ''600000'', dn_Action = ActionConfirm, dn_Line = LineStopLoss, dn_PnlPct = Fin (- (25 / 4)), dn_Reason = WindowOpened\<rparr>])"
proof -
  have "alignSettle 43200 noon 15 = noon + 15 * minute" by code_simp
  then show ?thesis by (simp add: disc_eval uminus_f64_def)
qed

lemma noon_exit_disc:
  "\<exists>st. disc_probe_at 43200 DefaultDisciplineConfig ''600000'' (Fin 64) (sixteenth_down (noon + 20 * minute)) touched_at_noon
     = (st, Some \<lparr>dn_Code = ''600000'', dn_Action = ActionTrim, dn_Line = LineStopLoss, dn_PnlPct = Fin (- (25 / 4)), dn_Reason = StopWindowOver\<rparr>)"
  by (simp add: disc_eval window_over_def uminus_f64_def)

theorem discipline_waits_window_witness:
  "\<exists>w \<in> {15, 45}. alignSettle 43200 noon w \<le> noon + 20 * minute"
proof -
  obtain st where e: "disc_probe_at 43200 DefaultDisciplineConfig ''600000'' (Fin 64) (sixteenth_down (noon + 20 * minute)) touched_at_noon
     = (st, Some \<lparr>dn_Code = ''600000'', dn_Action = ActionTrim, dn_Line = LineStopLoss, dn_PnlPct = Fin (- (25 / 4)), dn_Reason = StopWindowOver\<rparr>)"
    using noon_exit_disc by blast
  show ?thesis using discipline_waits_window [OF noon_touch_disc _ e] by (simp add: disposes_def default_params sixteenth_down_def)
qed

end
