(* ===== verification/BinanceCommon.thy ===== *)
theory BinanceCommon
  imports PaperState Trader
begin

text \<open>
  What the adapters of the second exchange share (\<open>trading/binance_executor.go\<close>, \<open>binance_errors.go\<close>, \<open>binance_report.go\<close>): sides, rounding to
  steps, the text of numbers, the table of error codes, the quote currency of a symbol.
\<close>

definition binanceSide :: "string \<Rightarrow> string option" where
  "binanceSide side =
     (if side = SideBuy \<or> side = SideShortCover \<or> side = ''buy'' \<or> side = ''BUY'' then Some ''BUY''
      else if side = SideSell \<or> side = SideShortOpen \<or> side = ''sell'' \<or> side = ''SELL'' then Some ''SELL''
      else None)"

definition floorToStep :: "f64 \<Rightarrow> f64 \<Rightarrow> f64" where
  "floorToStep v step =
     (if step \<le> 0 \<or> v \<le> 0 then v
      else let steps = int_of_f64 (v / step + lit (1/1000000000)) in f64_of_int steps * step)"

text \<open>\<open>FormatFloat(v, 'f', 8, 64)\<close> without trailing zeros.\<close>

definition pad8 :: "nat \<Rightarrow> string" where
  "pad8 n = (let s = nat_digits n in replicate (8 - length s) CHR ''0'' @ s)"

fun trimNum :: "f64 \<Rightarrow> string" where
  "trimNum (Fin v) =
     (let n = rhe (v * 10 ^ 8); a = nat \<bar>n\<bar>;
          frac = rev (dropWhile (\<lambda>c. c = CHR ''0'') (rev (pad8 (a mod 10 ^ 8))))
      in (if v < 0 then ''-'' else []) @ nat_digits (a div 10 ^ 8) @ (if frac = [] then [] else CHR ''.'' # frac))"
| "trimNum NaN = ''NaN''"
| "trimNum PInf = ''+Inf''"
| "trimNum NInf = ''-Inf''"

fun firstNonEmpty :: "string list \<Rightarrow> string" where
  "firstNonEmpty [] = []"
| "firstNonEmpty (v # vs) = (if trim_space v \<noteq> [] then v else firstNonEmpty vs)"

fun firstPositive :: "f64 list \<Rightarrow> f64" where
  "firstPositive [] = 0"
| "firstPositive (v # vs) = (if 0 < v then v else firstPositive vs)"

section \<open>Error codes\<close>

record binance_err_class =
  be_Code :: int
  be_Name :: string
  be_Retryable :: bool
  be_Fatal :: bool
  be_IdempotentHit :: bool

definition err_class :: "int \<Rightarrow> string \<Rightarrow> int \<times> binance_err_class" where
  "err_class c n = (c, \<lparr>be_Code = c, be_Name = n, be_Retryable = False, be_Fatal = False, be_IdempotentHit = False\<rparr>)"

definition retryable :: "int \<times> binance_err_class \<Rightarrow> int \<times> binance_err_class" where
  "retryable e = (fst e, (snd e)\<lparr>be_Retryable := True\<rparr>)"

definition fatal :: "int \<times> binance_err_class \<Rightarrow> int \<times> binance_err_class" where
  "fatal e = (fst e, (snd e)\<lparr>be_Fatal := True\<rparr>)"

definition idempotent_hit :: "int \<times> binance_err_class \<Rightarrow> int \<times> binance_err_class" where
  "idempotent_hit e = (fst e, (snd e)\<lparr>be_IdempotentHit := True\<rparr>)"

definition binanceErrTable :: "(int \<times> binance_err_class) list" where
  "binanceErrTable =
     [err_class (- 1000) ''UNKNOWN_EXCHANGE_ERROR'', retryable (err_class (- 1003) ''TOO_MANY_REQUESTS''), err_class (- 1013) ''FILTER_FAILURE'',
      retryable (err_class (- 1015) ''TOO_MANY_ORDERS''), retryable (err_class (- 1021) ''INVALID_TIMESTAMP''), fatal (err_class (- 1022) ''INVALID_SIGNATURE''),
      err_class (- 1102) ''MANDATORY_PARAM_EMPTY'', err_class (- 1111) ''BAD_PRECISION'', err_class (- 1121) ''INVALID_SYMBOL'',
      retryable (err_class (- 1125) ''INVALID_LISTEN_KEY''), err_class (- 2010) ''NEW_ORDER_REJECTED'', err_class (- 2011) ''CANCEL_REJECTED'',
      err_class (- 2013) ''ORDER_NOT_FOUND'', fatal (err_class (- 2014) ''API_KEY_FORMAT''), fatal (err_class (- 2015) ''REJECTED_MBX_KEY''),
      err_class 486217 ''EQUITY_ORDER_ID_OR_CLORD_REQUIRED'', err_class 486218 ''EQUITY_ORDER_NOT_FOUND'', err_class 486405 ''EQUITY_INSUFFICIENT_BALANCE'',
      err_class 486408 ''EQUITY_SYMBOL_NO_ODD_LOT'', err_class 486409 ''EQUITY_PREMARKET_NO_ODD_LOT'', fatal (err_class 486410 ''EQUITY_DISCLAIMER_UNSIGNED''),
      err_class 486416 ''EQUITY_QTY_BELOW_MIN'', err_class 486417 ''EQUITY_QTY_ABOVE_MAX'', err_class 486418 ''EQUITY_QTY_LOT_STEP'',
      err_class 486419 ''EQUITY_NOTIONAL_BELOW_MIN'', err_class 486420 ''EQUITY_NOTIONAL_ABOVE_MAX'', err_class 486421 ''EQUITY_PRICE_ABOVE_RANGE'',
      err_class 486422 ''EQUITY_PRICE_BELOW_RANGE'', retryable (err_class 486423 ''EQUITY_TOO_MANY_OPEN_ORDERS''), err_class 486426 ''EQUITY_BUY_FORBIDDEN'',
      err_class 486427 ''EQUITY_SELL_FORBIDDEN'', err_class 486428 ''EQUITY_HALTED'', err_class 486434 ''EQUITY_NOTIONAL_MAX'', err_class 486439 ''EQUITY_SELL_ONLY'',
      err_class 486440 ''EQUITY_PDT_RESTRICTION'', err_class 486441 ''EQUITY_PREMARKET_LIMIT_ONLY'', err_class 486442 ''EQUITY_ODD_LOT_MARKET_ONLY'',
      err_class 486443 ''EQUITY_TYPE_NO_ODD_LOT'', idempotent_hit (err_class 486449 ''EQUITY_DUPLICATE_CLIENT_ORDER_ID''),
      err_class (- 26004) ''EQUITY_UNKNOWN_SYMBOL'', fatal (err_class (- 3113) ''BSTOCKS_RESTRICTED''), fatal (err_class (- 3114) ''BSTOCKS_NOT_QUALIFIED''),
      fatal (err_class (- 11001) ''EQUITY_DO_NOT_HAVE_AN_ACCOUNT'')]"

definition classifyBinanceError :: "int \<Rightarrow> binance_err_class" where
  "classifyBinanceError code =
     (case map_of binanceErrTable code of Some c \<Rightarrow> c | None \<Rightarrow> (snd (err_class 0 ''UNCLASSIFIED''))\<lparr>be_Code := code\<rparr>)"

section \<open>Currencies\<close>

definition cryptoQuoteAssets :: "string list" where
  "cryptoQuoteAssets = [''FDUSD'', ''USDP'', ''USDT'', ''USDC'', ''TUSD'', ''BUSD'', ''EUR'', ''USD'']"

definition currencyForSymbol :: "string \<Rightarrow> string \<Rightarrow> string" where
  "currencyForSymbol market symbol =
     (if market = ''US'' then ''USD''
      else let s = to_upper (trim_space symbol)
           in case find (\<lambda>q. has_suffix s q \<and> length q < length s) cryptoQuoteAssets of Some q \<Rightarrow> q | None \<Rightarrow> [])"

end
