(* ===== verification/BinancePaper.thy ===== *)
theory BinancePaper
  imports "HOL-Library.AList" BinanceCommon LedgerQueries OrderBook
begin

text \<open>
  The desk that fills the second exchange's orders on paper (\<open>trading/binance_paper.go\<close>): it books into the same ledger as the live
  path and keeps a pool of cash with a frozen margin per short. A \<open>desk_env\<close> is what one call reads: the two readings of the clock (as seconds
  and as the market's local time), the account row's time stamp, the price source. The table's error of a refused fill keeps its value.
\<close>

record desk_env =
  de_Unix :: int
  de_At :: string
  de_Stamp :: string
  de_GetPrice :: "(string \<Rightarrow> f64) option"

record paper_options =
  bo_UserID :: string
  bo_Market :: string
  bo_InitialCash :: f64
  bo_FeeRate :: f64
  bo_ShortMarginRate :: f64

record paper_short_lot =
  sl_frozen :: f64
  sl_qty :: f64
  sl_avgPx :: f64

record binance_paper =
  bk_opt :: paper_options
  bk_cash :: f64
  bk_shorts :: "(string \<times> paper_short_lot) list"
  bk_seq :: int
  bk_salt :: string
  bk_bootstrapped :: bool

datatype desk_refusal = MissingOptions | MarketUnsupported string

text \<open>\<open>salt\<close> is the text of four random bytes; \<open>db\<close> whether there is a database.\<close>

definition NewBinancePaperExecutor :: "bool \<Rightarrow> string \<Rightarrow> paper_options \<Rightarrow> desk_refusal + binance_paper" where
  "NewBinancePaperExecutor db salt opt =
     (let m = NormalizeMarketKey (bo_Market opt);
          opt' = \<lparr>bo_UserID = bo_UserID opt, bo_Market = m,
            bo_InitialCash = (if bo_InitialCash opt \<le> 0 then Fin 100000 else bo_InitialCash opt),
            bo_FeeRate = (if bo_FeeRate opt \<le> 0 then lit (1/1000) else bo_FeeRate opt),
            bo_ShortMarginRate = (if bo_ShortMarginRate opt \<le> 0 then 1 else bo_ShortMarginRate opt)\<rparr>
      in if \<not> db \<or> bo_UserID opt = [] then Inl MissingOptions
         else if m \<noteq> ''US'' \<and> m \<noteq> ''CRYPTO'' then Inl (MarketUnsupported (bo_Market opt))
         else Inr \<lparr>bk_opt = opt', bk_cash = bo_InitialCash opt', bk_shorts = [], bk_seq = 0, bk_salt = salt, bk_bootstrapped = False\<rparr>)"

section \<open>Cash\<close>

definition no_lot :: paper_short_lot where
  "no_lot = \<lparr>sl_frozen = 0, sl_qty = 0, sl_avgPx = 0\<rparr>"

definition applyCashEventLocked :: "string \<Rightarrow> string \<Rightarrow> f64 \<Rightarrow> f64 \<Rightarrow> f64 \<Rightarrow> binance_paper \<Rightarrow> binance_paper" where
  "applyCashEventLocked code side price qty fee e =
     (if side = SideBuy then e\<lparr>bk_cash := bk_cash e - (qty * price + fee)\<rparr>
      else if side = SideSell then e\<lparr>bk_cash := bk_cash e + (qty * price - fee)\<rparr>
      else if side = SideShortOpen then
        (let freeze = qty * price * bo_ShortMarginRate (bk_opt e);
             lot = (case map_of (bk_shorts e) code of Some l \<Rightarrow> l | None \<Rightarrow> no_lot);
             newQty = sl_qty lot + qty;
             lot' = \<lparr>sl_frozen = sl_frozen lot + freeze, sl_qty = newQty,
               sl_avgPx = (if 0 < newQty then (sl_avgPx lot * sl_qty lot + qty * price) / newQty else sl_avgPx lot)\<rparr>
         in e\<lparr>bk_cash := bk_cash e - (freeze + fee), bk_shorts := AList.update code lot' (bk_shorts e)\<rparr>)
      else if side = SideShortCover then
        (case map_of (bk_shorts e) code of
           None \<Rightarrow> e\<lparr>bk_cash := bk_cash e - fee\<rparr>
         | Some lot \<Rightarrow>
             if sl_qty lot \<le> 0 then e\<lparr>bk_cash := bk_cash e - fee\<rparr>
             else let cq = (if sl_qty lot < qty then sl_qty lot else qty);
                      back = sl_frozen lot * cq / sl_qty lot;
                      left = sl_frozen lot - back;
                      lot' = lot\<lparr>sl_frozen := (if left < 0 then 0 else left), sl_qty := sl_qty lot - cq\<rparr>
                  in e\<lparr>bk_cash := bk_cash e + (back + (sl_avgPx lot - price) * cq - fee), bk_shorts := AList.update code lot' (bk_shorts e)\<rparr>)
      else e)"

definition cash_event :: "real_fill \<Rightarrow> binance_paper \<Rightarrow> binance_paper" where
  "cash_event f e = applyCashEventLocked (f_Code f) (f_Side f) (f_Price f) (f_Qty f) (f_Fee f) e"

text \<open>\<open>RealFills\<close>: all fills, the latest first.\<close>

definition RealFills :: "db \<Rightarrow> real_fill list res" where
  "RealFills d = (if db_down d T_fills then Inl (DbFailed T_fills)
     else Inr (rev (map (\<lambda>f. f\<lparr>f_Name := [], f_Serial := []\<rparr>) (fills d))))"

definition desk_fill :: "paper_options \<Rightarrow> real_fill \<Rightarrow> bool" where
  "desk_fill opt f \<longleftrightarrow> \<not> (NormalizeMarketKey (f_Market f) \<noteq> bo_Market opt \<or> (f_UserID f \<noteq> [] \<and> f_UserID f \<noteq> bo_UserID opt)) \<and>
     \<not> (f_Qty f \<le> 0 \<or> f_Price f \<le> 0)"

text \<open>The sum runs over a map, whose order Go leaves open; here it is that of the table. A failing write is only logged.\<close>

definition syncAccountLocked :: "desk_env \<Rightarrow> binance_paper \<Rightarrow> db \<Rightarrow> db" where
  "syncAccountLocked v e d =
     (case UpsertRealAccount d (de_Stamp v) \<lparr>a_UserID = bo_UserID (bk_opt e), a_Market = bo_Market (bk_opt e), a_AvailableCash = bk_cash e,
           a_FrozenCash = foldl (\<lambda>s x. s + sl_frozen (snd x)) 0 (bk_shorts e), a_TotalAsset = 0, a_MarketValue = 0, a_UpdatedAt = []\<rparr> of
        Inl _ \<Rightarrow> d | Inr d' \<Rightarrow> d')"

definition ensureBootstrapLocked :: "desk_env \<Rightarrow> binance_paper \<Rightarrow> db \<Rightarrow> binance_paper \<times> db" where
  "ensureBootstrapLocked v e d =
     (if bk_bootstrapped e then (e, d)
      else let e1 = e\<lparr>bk_bootstrapped := True\<rparr>
           in case RealFills d of
                Inl _ \<Rightarrow> (e1, d)
              | Inr fs \<Rightarrow> (let e2 = fold cash_event (filter (desk_fill (bk_opt e)) fs) e1 in (e2, syncAccountLocked v e2 d)))"

definition Cash_paper :: "desk_env \<Rightarrow> binance_paper \<Rightarrow> db \<Rightarrow> (binance_paper \<times> db) \<times> f64" where
  "Cash_paper v e d = (let s = ensureBootstrapLocked v e d in (s, bk_cash (fst s)))"

section \<open>Orders\<close>

datatype desk_reject = WrongMethod string | MarketMismatch string | NoReferencePrice | NoQuantity | CashShort f64 f64 | MarginShort f64 f64
  | NothingToClose string "string option" | CloseTooLarge f64 f64 | FillRefused store_error

datatype desk_answer = Accepted string | Refused desk_reject | Failed store_error | StatusLost string store_error

definition paperPositionRow :: "binance_paper \<Rightarrow> db \<Rightarrow> string \<Rightarrow> real_position option res" where
  "paperPositionRow e d code =
     (case RealPositionsForUser d (bo_UserID (bk_opt e)) of
        Inl x \<Rightarrow> Inl x
      | Inr ps \<Rightarrow> Inr (find (\<lambda>p. NormalizeMarketKey (p_Market p) = bo_Market (bk_opt e) \<and> p_TsCode p = code \<and> 0 < p_Qty p) ps))"

definition reference_price :: "desk_env \<Rightarrow> order_request \<Rightarrow> f64" where
  "reference_price v req = (if r_Price req \<le> 0 then (case de_GetPrice v of Some g \<Rightarrow> g (r_Code req) | None \<Rightarrow> r_Price req) else r_Price req)"

definition desk_qty :: "f64 \<Rightarrow> order_request \<Rightarrow> f64 option" where
  "desk_qty price req =
     (if r_Qty req \<le> 0 then
        (let amt = (if r_Amount req \<le> 0 \<and> 0 < r_Notional req then r_Notional req else r_Amount req)
         in if amt \<le> 0 then None else Some (amt / price))
      else Some (r_Qty req))"

text \<open>The checks against cash and holdings: \<open>None\<close> lets the order pass.\<close>

definition desk_objection :: "binance_paper \<Rightarrow> db \<Rightarrow> order_request \<Rightarrow> f64 \<Rightarrow> f64 \<Rightarrow> f64 \<Rightarrow> desk_answer option" where
  "desk_objection e d req qty amount fee =
     (if r_Side req = SideBuy then (if bk_cash e < amount + fee then Some (Refused (CashShort (amount + fee) (bk_cash e))) else None)
      else if r_Side req = SideShortOpen then
        (let need = amount * bo_ShortMarginRate (bk_opt e) + fee in if bk_cash e < need then Some (Refused (MarginShort need (bk_cash e))) else None)
      else if r_Side req = SideSell \<or> r_Side req = SideShortCover then
        (case paperPositionRow e d (r_Code req) of
           Inl x \<Rightarrow> Some (Failed x)
         | Inr None \<Rightarrow> Some (Refused (NothingToClose (r_Code req) None))
         | Inr (Some p) \<Rightarrow>
             if (p_Side p = ''short'') \<noteq> (r_Side req = SideShortCover) then Some (Refused (NothingToClose (r_Code req) (Some (p_Side p))))
             else if p_Qty p + lit (1/1000000000) < qty then Some (Refused (CloseTooLarge qty (p_Qty p)))
             else None)
      else None)"

definition desk_order_id :: "desk_env \<Rightarrow> binance_paper \<Rightarrow> string" where
  "desk_order_id v e = ''paper-'' @ bk_salt e @ ''-'' @ itoa (bk_seq e) @ ''-'' @ itoa (de_Unix v)"

definition fill_of_desk :: "desk_env \<Rightarrow> binance_paper \<Rightarrow> order_request \<Rightarrow> f64 \<Rightarrow> f64 \<Rightarrow> f64 \<Rightarrow> f64 \<Rightarrow> real_fill" where
  "fill_of_desk v e req price qty amount fee =
     \<lparr>f_ID = 0, f_OrderID = desk_order_id v e, f_Code = r_Code req, f_Name = r_Name req, f_Side = r_Side req, f_Price = price, f_Qty = qty,
      f_Amount = amount, f_TradedAt = de_At v, f_SignalID = r_SignalID req, f_TradeID = ''paper:'' @ desk_order_id v e @ '':1'',
      f_UserID = bo_UserID (bk_opt e), f_Fee = fee, f_StampTax = 0, f_Serial = [], f_Market = bo_Market (bk_opt e),
      f_Currency = currencyForSymbol (bo_Market (bk_opt e)) (r_Code req)\<rparr>"

definition order_of_desk :: "desk_env \<Rightarrow> binance_paper \<Rightarrow> order_request \<Rightarrow> f64 \<Rightarrow> f64 \<Rightarrow> real_order" where
  "order_of_desk v e req price qty =
     \<lparr>o_OrderID = desk_order_id v e, o_SignalID = r_SignalID req, o_Code = r_Code req, o_Side = r_Side req, o_Status = st_filled, o_Price = price,
      o_Qty = qty, o_CreatedAt = de_At v, o_UserID = bo_UserID (bk_opt e), o_Market = bo_Market (bk_opt e),
      o_Currency = currencyForSymbol (bo_Market (bk_opt e)) (r_Code req)\<rparr>"

text \<open>The booking: fill, order status, cash, account row.\<close>

definition desk_book :: "desk_env \<Rightarrow> order_request \<Rightarrow> f64 \<Rightarrow> f64 \<Rightarrow> f64 \<Rightarrow> f64 \<Rightarrow> binance_paper \<Rightarrow> db \<Rightarrow> (binance_paper \<times> db) \<times> desk_answer" where
  "desk_book v req price qty amount fee e0 d =
     (let e = e0\<lparr>bk_seq := bk_seq e0 + 1\<rparr>
      in case ApplyRealFill d (de_Stamp v) (fill_of_desk v e req price qty amount fee) of
           Inl x \<Rightarrow> ((e, d), Refused (FillRefused x))
         | Inr d1 \<Rightarrow>
             (case ApplyOrderReportTx d1 (order_of_desk v e req price qty) of
                Inl x \<Rightarrow> ((e, d1), StatusLost (desk_order_id v e) x)
              | Inr (_, d2) \<Rightarrow>
                  (let e' = applyCashEventLocked (r_Code req) (r_Side req) price qty fee e
                   in ((e', syncAccountLocked v e' d2), Accepted (desk_order_id v e)))))"

definition place_paper :: "desk_env \<Rightarrow> order_request \<Rightarrow> binance_paper \<Rightarrow> db \<Rightarrow> (binance_paper \<times> db) \<times> desk_answer" where
  "place_paper v req e d =
     (if NormalizeMarketKey (r_Market req) \<noteq> bo_Market (bk_opt e) then ((e, d), Refused (MarketMismatch (r_Market req)))
      else let price = reference_price v req
           in if price \<le> 0 then ((e, d), Refused NoReferencePrice)
              else case desk_qty price req of
                  None \<Rightarrow> ((e, d), Refused NoQuantity)
                | Some qty \<Rightarrow>
                    (let amount = qty * price; fee = amount * bo_FeeRate (bk_opt e); (e1, d1) = ensureBootstrapLocked v e d
                     in case desk_objection e1 d1 req qty amount fee of
                          Some a \<Rightarrow> ((e1, d1), a)
                        | None \<Rightarrow> desk_book v req price qty amount fee e1 d1))"

definition PlaceBuy_paper :: "desk_env \<Rightarrow> order_request \<Rightarrow> binance_paper \<Rightarrow> db \<Rightarrow> (binance_paper \<times> db) \<times> desk_answer" where
  "PlaceBuy_paper v req0 e d =
     (let req = (if r_Side req0 = [] then req0\<lparr>r_Side := SideBuy\<rparr> else req0)
      in if r_Side req \<noteq> SideBuy \<and> r_Side req \<noteq> SideShortCover then ((e, d), Refused (WrongMethod (r_Side req))) else place_paper v req e d)"

definition PlaceSell_paper :: "desk_env \<Rightarrow> order_request \<Rightarrow> binance_paper \<Rightarrow> db \<Rightarrow> (binance_paper \<times> db) \<times> desk_answer" where
  "PlaceSell_paper v req0 e d =
     (let req = (if r_Side req0 = [] then req0\<lparr>r_Side := SideSell\<rparr> else req0)
      in if r_Side req \<noteq> SideSell \<and> r_Side req \<noteq> SideShortOpen then ((e, d), Refused (WrongMethod (r_Side req))) else place_paper v req e d)"

definition State_paper :: "binance_paper \<Rightarrow> db \<Rightarrow> gateway_state res" where
  "State_paper e d =
     (case RealPositionsForUser d (bo_UserID (bk_opt e)) of
        Inl x \<Rightarrow> Inl x
      | Inr ps \<Rightarrow>
          (case RealOrdersForUser d (bo_UserID (bk_opt e)) of
             Inl x \<Rightarrow> Inl x
           | Inr os \<Rightarrow> Inr \<lparr>gs_Connected = True, gs_Positions = filter (\<lambda>p. NormalizeMarketKey (p_Market p) = bo_Market (bk_opt e)) ps,
               gs_Orders = filter (\<lambda>o'. NormalizeMarketKey (o_Market o') = bo_Market (bk_opt e)) os\<rparr>))"

end
