(* ===== verification/BinancePaperFacts.thy ===== *)
theory BinancePaperFacts
  imports BinancePaper PositionBook
begin

text \<open>
  What the paper desk promises: until a restart its cash and its shorts are those that a bookkeeping of its own, over the history of the
  booked fills, arrives at, and no purchase or short overdraws it.
\<close>

section \<open>Order numbers\<close>

lemma digits_prefix:
  assumes "nat_digits a @ CHR ''-'' # x = nat_digits b @ CHR ''-'' # y"
  shows "a = b"
proof -
  have "takeWhile is_digit (nat_digits n @ CHR ''-'' # z) = nat_digits n" for n z
  proof -
    have "\<forall>c \<in> set (nat_digits n). is_digit c" using nat_digits_props [of n] by (simp add: list_all_iff)
    then have "takeWhile is_digit (nat_digits n @ CHR ''-'' # z) = nat_digits n @ takeWhile is_digit (CHR ''-'' # z)" by (simp add: takeWhile_append2)
    moreover have "\<not> is_digit CHR ''-''" by code_simp
    ultimately show ?thesis by simp
  qed
  then have "nat_digits a = nat_digits b" using assms by metis
  then have "int a = int b" using nat_digits_props by metis
  then show ?thesis by simp
qed

definition desk_trade_id :: "string \<Rightarrow> int \<Rightarrow> int \<Rightarrow> string" where
  "desk_trade_id salt n u = ''paper:'' @ (''paper-'' @ salt @ ''-'' @ itoa n @ ''-'' @ itoa u) @ '':1''"

lemma desk_trade_id_inject: "desk_trade_id salt n u = desk_trade_id salt m w \<Longrightarrow> 0 \<le> n \<Longrightarrow> 0 \<le> m \<Longrightarrow> n = m"
proof -
  assume "desk_trade_id salt n u = desk_trade_id salt m w" "0 \<le> n" "0 \<le> m"
  then have "nat_digits (nat n) @ CHR ''-'' # (itoa u @ '':1'') = nat_digits (nat m) @ CHR ''-'' # (itoa w @ '':1'')"
    by (simp add: desk_trade_id_def itoa_def [of n] itoa_def [of m])
  from digits_prefix [OF this] show ?thesis using \<open>0 \<le> n\<close> \<open>0 \<le> m\<close> by simp
qed

section \<open>The pool\<close>

definition same_pool :: "binance_paper \<Rightarrow> binance_paper \<Rightarrow> bool" where
  "same_pool a b \<longleftrightarrow> bk_cash a = bk_cash b \<and> bk_shorts a = bk_shorts b \<and> bk_opt a = bk_opt b"

lemma event_keeps [simp]:
  "bk_opt (applyCashEventLocked c s p q f e) = bk_opt e" "bk_seq (applyCashEventLocked c s p q f e) = bk_seq e"
  "bk_salt (applyCashEventLocked c s p q f e) = bk_salt e" "bk_bootstrapped (applyCashEventLocked c s p q f e) = bk_bootstrapped e"
  by (simp_all add: applyCashEventLocked_def Let_def split: option.split)

lemma event_pool: "same_pool a b \<Longrightarrow> same_pool (applyCashEventLocked c s p q f a) (applyCashEventLocked c s p q f b)"
  by (auto simp: same_pool_def applyCashEventLocked_def Let_def split: option.split)

lemma fold_opt [simp]: "bk_opt (fold cash_event fs e) = bk_opt e"
  by (induction fs arbitrary: e) (simp_all add: cash_event_def)

definition replay :: "paper_options \<Rightarrow> real_fill list \<Rightarrow> binance_paper \<Rightarrow> binance_paper" where
  "replay opt fs e = fold cash_event (filter (desk_fill opt) fs) e"

lemma replay_snoc: "replay opt (fs @ [f]) e = (if desk_fill opt f then cash_event f (replay opt fs e) else replay opt fs e)"
  by (simp add: replay_def)

lemma sync_frame [simp]:
  "fills (syncAccountLocked v e d) = fills d" "db_down (syncAccountLocked v e d) = db_down d"
  by (auto simp: syncAccountLocked_def UpsertRealAccount_def Let_def split: sum.split if_splits)

lemma report_frame:
  "ApplyOrderReportTx d x = Inr (r, d') \<Longrightarrow> fills d' = fills d \<and> db_down d' = db_down d"
  by (auto simp: ApplyOrderReportTx_def Let_def set_status_def split: if_splits option.splits prod.splits bool.splits)

definition desk_sound :: "binance_paper \<Rightarrow> binance_paper \<times> db \<Rightarrow> bool" where
  "desk_sound e0 s \<longleftrightarrow> (case s of (e, d) \<Rightarrow>
     same_pool e (replay (bk_opt e0) (fills d) e0) \<and> bk_opt e = bk_opt e0 \<and> bk_salt e = bk_salt e0 \<and> 0 \<le> bk_seq e \<and>
     (bk_bootstrapped e \<or> fills d = []) \<and> \<not> db_down d T_fills \<and> \<not> db_down d T_orders \<and>
     (\<forall>f \<in> set (fills d). \<forall>n u. bk_seq e < n \<longrightarrow> f_TradeID f \<noteq> desk_trade_id (bk_salt e0) n u))"

lemma bootstrap_sound:
  assumes "desk_sound e0 (e, d)" "ensureBootstrapLocked v e d = (e', d')"
  shows "desk_sound e0 (e', d')" "bk_bootstrapped e'" "fills d' = fills d"
  using assms by (auto simp: ensureBootstrapLocked_def RealFills_def desk_sound_def same_pool_def Let_def split: if_splits)

section \<open>The bookkeeping, from the history alone\<close>

text \<open>
  A specification that knows neither the desk's state nor its routines. A line is what is lent short of one code, as a function of the
  fills of that code only: the margin set aside, the quantity, the average price. An opening adds its margin and averages the price; a
  cover closes no more than there is, releases the margin in proportion, and leaves a line nobody opened alone.
\<close>

type_synonym short_line = "f64 \<times> f64 \<times> f64"

definition line_opened :: "f64 \<Rightarrow> f64 \<Rightarrow> f64 \<Rightarrow> short_line \<Rightarrow> short_line" where
  "line_opened rate price qty l = (case l of (margin, n, avg) \<Rightarrow>
     (margin + qty * price * rate, n + qty, if 0 < n + qty then (avg * n + qty * price) / (n + qty) else avg))"

definition line_closes :: "f64 \<Rightarrow> short_line \<Rightarrow> f64" where
  "line_closes qty l = (case l of (margin, n, avg) \<Rightarrow> if n < qty then n else qty)"

definition line_releases :: "f64 \<Rightarrow> short_line \<Rightarrow> f64" where
  "line_releases qty l = (case l of (margin, n, avg) \<Rightarrow> margin * line_closes qty l / n)"

definition line_covered :: "f64 \<Rightarrow> short_line \<Rightarrow> short_line" where
  "line_covered qty l = (case l of (margin, n, avg) \<Rightarrow>
     if n \<le> 0 then l
     else (if margin - line_releases qty l < 0 then 0 else margin - line_releases qty l, n - line_closes qty l, avg))"

definition line_after :: "f64 \<Rightarrow> real_fill \<Rightarrow> short_line option \<Rightarrow> short_line option" where
  "line_after rate f l =
     (if f_Side f = SideShortOpen then Some (line_opened rate (f_Price f) (f_Qty f) (case l of None \<Rightarrow> (0, 0, 0) | Some x \<Rightarrow> x))
      else if f_Side f = SideShortCover then map_option (line_covered (f_Qty f)) l else l)"

definition line_of :: "f64 \<Rightarrow> real_fill list \<Rightarrow> string \<Rightarrow> short_line option" where
  "line_of rate fs c = fold (line_after rate) (filter (\<lambda>f. f_Code f = c) fs) None"

text \<open>
  What a fill does to the cash: a purchase pays the amount and the fee, a sale brings the amount less the fee, an opened short sets its
  margin aside and pays the fee, a cover returns the margin it releases with the profit of the shares it closes (the average price less
  the price of the cover) less the fee, or costs its fee when nothing is lent.
\<close>

definition cash_flow :: "f64 \<Rightarrow> short_line option \<Rightarrow> real_fill \<Rightarrow> f64 option" where
  "cash_flow rate l f =
     (let amount = f_Qty f * f_Price f; fee = f_Fee f
      in if f_Side f = SideBuy then Some (- (amount + fee))
         else if f_Side f = SideSell then Some (amount - fee)
         else if f_Side f = SideShortOpen then Some (- (amount * rate + fee))
         else if f_Side f = SideShortCover then
           (case l of None \<Rightarrow> Some (- fee)
            | Some (margin, n, avg) \<Rightarrow>
                if n \<le> 0 then Some (- fee)
                else Some (line_releases (f_Qty f) (margin, n, avg) + (avg - f_Price f) * line_closes (f_Qty f) (margin, n, avg) - fee))
         else None)"

text \<open>The cash after a history: the flows one by one, each with the line of its code at that moment.\<close>

fun cash_after :: "f64 \<Rightarrow> f64 \<Rightarrow> real_fill list \<Rightarrow> real_fill list \<Rightarrow> f64" where
  "cash_after rate cash past [] = cash"
| "cash_after rate cash past (f # fs) =
     cash_after rate (case cash_flow rate (line_of rate past (f_Code f)) f of None \<Rightarrow> cash | Some x \<Rightarrow> cash + x) (past @ [f]) fs"

section \<open>The desk keeps these books\<close>

definition lot_line :: "paper_short_lot \<Rightarrow> short_line" where
  "lot_line l = (sl_frozen l, sl_qty l, sl_avgPx l)"

definition desk_line :: "binance_paper \<Rightarrow> string \<Rightarrow> short_line option" where
  "desk_line e c = map_option lot_line (map_of (bk_shorts e) c)"

lemma sides_differ:
  "SideBuy \<noteq> SideSell" "SideBuy \<noteq> SideShortOpen" "SideBuy \<noteq> SideShortCover" "SideSell \<noteq> SideShortOpen" "SideSell \<noteq> SideShortCover"
  "SideShortOpen \<noteq> SideShortCover"
  by code_simp+

lemma event_line: "desk_line (cash_event f e) = (desk_line e)(f_Code f := line_after (bo_ShortMarginRate (bk_opt e)) f (desk_line e (f_Code f)))"
proof -
  consider "f_Side f = SideBuy" | "f_Side f = SideSell" | "f_Side f = SideShortOpen" | "f_Side f = SideShortCover"
    | "f_Side f \<notin> {SideBuy, SideSell, SideShortOpen, SideShortCover}" by blast
  then show ?thesis
    unfolding fun_eq_iff
    by cases (auto simp: cash_event_def applyCashEventLocked_def Let_def desk_line_def line_after_def update_conv' lot_line_def
        line_opened_def line_covered_def line_closes_def line_releases_def no_lot_def sides_differ sides_differ [symmetric] split: option.split)
qed

lemma event_cash:
  "bk_cash (cash_event f e) = (case cash_flow (bo_ShortMarginRate (bk_opt e)) (desk_line e (f_Code f)) f of None \<Rightarrow> bk_cash e | Some x \<Rightarrow> bk_cash e + x)"
proof -
  consider "f_Side f = SideBuy" | "f_Side f = SideSell" | "f_Side f = SideShortOpen" | "f_Side f = SideShortCover"
    | "f_Side f \<notin> {SideBuy, SideSell, SideShortOpen, SideShortCover}" by blast
  then show ?thesis
    by cases (auto simp: cash_event_def applyCashEventLocked_def Let_def desk_line_def cash_flow_def lot_line_def line_closes_def line_releases_def
        minus_f64_def plus_f64_def uminus_f64_def sides_differ sides_differ [symmetric] split: option.split)
qed

lemma line_of_snoc: "line_of rate (fs @ [f]) = (line_of rate fs)(f_Code f := line_after rate f (line_of rate fs (f_Code f)))"
  by (auto simp: line_of_def fun_eq_iff)

lemma cash_after_snoc:
  "cash_after rate cash past (fs @ [f]) =
     (case cash_flow rate (line_of rate (past @ fs) (f_Code f)) f of None \<Rightarrow> cash_after rate cash past fs | Some x \<Rightarrow> cash_after rate cash past fs + x)"
  by (induction rate cash past fs rule: cash_after.induct) (simp_all split: option.split)

text \<open>The refinement: told a history, a desk without shorts has its lines and its cash.\<close>

lemma replay_books:
  assumes "bk_shorts e = []"
  shows "desk_line (fold cash_event fs e) = line_of (bo_ShortMarginRate (bk_opt e)) fs \<and>
    bk_cash (fold cash_event fs e) = cash_after (bo_ShortMarginRate (bk_opt e)) (bk_cash e) [] fs"
proof (induction fs rule: rev_induct)
  case Nil
  then show ?case using assms by (simp add: desk_line_def line_of_def fun_eq_iff)
next
  case (snoc f fs)
  then show ?case by (simp add: event_line event_cash line_of_snoc cash_after_snoc split: option.split)
qed

section \<open>A booking\<close>

lemma market_normal: "m = ''US'' \<or> m = ''CRYPTO'' \<Longrightarrow> NormalizeMarketKey (normalize_market m) = m"
proof -
  have "NormalizeMarketKey (normalize_market ''US'') = ''US''" "NormalizeMarketKey (normalize_market ''CRYPTO'') = ''CRYPTO''" by code_simp+
  then show "m = ''US'' \<or> m = ''CRYPTO'' \<Longrightarrow> NormalizeMarketKey (normalize_market m) = m" by auto
qed

lemma desk_fill_fields [simp]:
  "f_Code (fill_of_desk v e req p q a x) = r_Code req" "f_Side (fill_of_desk v e req p q a x) = r_Side req"
  "f_Price (fill_of_desk v e req p q a x) = p" "f_Qty (fill_of_desk v e req p q a x) = q" "f_Fee (fill_of_desk v e req p q a x) = x"
  "f_Market (fill_of_desk v e req p q a x) = bo_Market (bk_opt e)" "f_UserID (fill_of_desk v e req p q a x) = bo_UserID (bk_opt e)"
  "f_TradeID (fill_of_desk v e req p q a x) = desk_trade_id (bk_salt e) (bk_seq e) (de_Unix v)"
  by (simp_all add: fill_of_desk_def desk_trade_id_def desk_order_id_def)

lemma cash_event_stored:
  "cash_event ((stamp_fill f)\<lparr>f_ID := i, f_Name := n\<rparr>) e = applyCashEventLocked (f_Code f) (f_Side f) (f_Price f) (f_Qty f) (f_Fee f) e"
  by (simp add: cash_event_def)

lemma fresh_fill_applied:
  assumes "ApplyRealFill d now f = Inr d'" "f_TradeID f \<noteq> []" "\<forall>g \<in> set (fills d). f_TradeID g \<noteq> f_TradeID f"
  shows "(\<exists>i. fills d' = fills d @ [(stamp_fill f)\<lparr>f_ID := i, f_Name := []\<rparr>]) \<and> db_down d' = db_down d"
  using assms(1)
proof (cases rule: ApplyRealFill_cases)
  case replay
  then show ?thesis using assms(2,3) by (auto simp: list_ex_iff same_fill_def)
next
  case (applied d1 rows)
  then show ?thesis using claim_frame [OF applied(1)] by auto
qed

lemma book_sound:
  assumes "desk_sound e0 (e, d)" "bk_bootstrapped e" "desk_book v req price qty amount fee e d = (s, a)"
    and "\<not> price \<le> 0" "\<not> qty \<le> 0" "bo_Market (bk_opt e0) = ''US'' \<or> bo_Market (bk_opt e0) = ''CRYPTO''"
  shows "desk_sound e0 s"
proof -
  let ?e = "e\<lparr>bk_seq := bk_seq e + 1\<rparr>"
  let ?f = "fill_of_desk v ?e req price qty amount fee"
  note inv = assms(1) [unfolded desk_sound_def prod.case]
  have seq: "desk_sound e0 (?e, d)"
    using inv by (auto simp: desk_sound_def same_pool_def)
  show ?thesis
  proof (cases "ApplyRealFill d (de_Stamp v) ?f")
    case (Inl x)
    then show ?thesis using assms(3) seq by (simp add: desk_book_def Let_def)
  next
    case (Inr d1)
    have "f_TradeID ?f \<noteq> []" "\<forall>g \<in> set (fills d). f_TradeID g \<noteq> f_TradeID ?f"
      using inv by (auto simp: desk_trade_id_def)
    from fresh_fill_applied [OF Inr this] obtain i where f1: "fills d1 = fills d @ [(stamp_fill ?f)\<lparr>f_ID := i, f_Name := []\<rparr>]" "db_down d1 = db_down d"
      by blast
    have "\<not> db_down d1 T_orders" using inv f1(2) by simp
    then obtain r d2 where o2: "ApplyOrderReportTx d1 (order_of_desk v ?e req price qty) = Inr (r, d2)"
      by (cases "ApplyOrderReportTx d1 (order_of_desk v ?e req price qty)") (auto simp: ApplyOrderReportTx_def Let_def split: option.splits prod.splits bool.splits if_splits)
    have s: "s = (applyCashEventLocked (r_Code req) (r_Side req) price qty fee ?e,
        syncAccountLocked v (applyCashEventLocked (r_Code req) (r_Side req) price qty fee ?e) d2)"
      using assms(3) Inr o2 by (simp add: desk_book_def Let_def)
    have counted: "desk_fill (bk_opt e0) ((stamp_fill ?f)\<lparr>f_ID := i, f_Name := []\<rparr>)"
      using assms(4,5) market_normal [OF assms(6)] inv by (simp add: desk_fill_def)
    have "same_pool (applyCashEventLocked (r_Code req) (r_Side req) price qty fee ?e) (replay (bk_opt e0) (fills d1) e0)"
      unfolding f1(1) replay_snoc using counted seq by (simp add: cash_event_stored event_pool desk_sound_def)
    moreover have "\<forall>f \<in> set (fills d1). \<forall>n u. bk_seq e + 1 < n \<longrightarrow> f_TradeID f \<noteq> desk_trade_id (bk_salt e0) n u"
    proof (intro ballI allI impI)
      fix f n u assume f: "f \<in> set (fills d1)" "bk_seq e + 1 < n"
      show "f_TradeID f \<noteq> desk_trade_id (bk_salt e0) n u"
      proof (cases "f \<in> set (fills d)")
        case False
        then have "f_TradeID f = desk_trade_id (bk_salt e0) (bk_seq e + 1) (de_Unix v)" using f(1) f1(1) inv by auto
        then show ?thesis using desk_trade_id_inject f(2) inv by fastforce
      qed (use f(2) inv in auto)
    qed
    ultimately show ?thesis
      using s report_frame [OF o2] f1(2) inv assms(2) by (simp add: desk_sound_def)
  qed
qed

section \<open>Runs of the desk\<close>

datatype desk_op = DeskBuy desk_env order_request | DeskSell desk_env order_request

fun desk_step :: "binance_paper \<times> db \<Rightarrow> desk_op \<Rightarrow> binance_paper \<times> db" where
  "desk_step (e, d) (DeskBuy v req) = fst (PlaceBuy_paper v req e d)"
| "desk_step (e, d) (DeskSell v req) = fst (PlaceSell_paper v req e d)"

text \<open>The quantity the desk derives is positive.\<close>

definition sized :: "desk_env \<Rightarrow> order_request \<Rightarrow> bool" where
  "sized v req \<longleftrightarrow> (case desk_qty (reference_price v req) req of Some q \<Rightarrow> \<not> q \<le> 0 | None \<Rightarrow> True)"

fun op_sized :: "desk_op \<Rightarrow> bool" where
  "op_sized (DeskBuy v req) = sized v req"
| "op_sized (DeskSell v req) = sized v req"

lemma sized_side [simp]: "sized v (req\<lparr>r_Side := s\<rparr>) = sized v req"
proof -
  have "reference_price v (req\<lparr>r_Side := s\<rparr>) = reference_price v req" "desk_qty p (req\<lparr>r_Side := s\<rparr>) = desk_qty p req" for p
    by (cases "de_GetPrice v"; simp add: reference_price_def desk_qty_def Let_def)+
  then show ?thesis by (simp add: sized_def)
qed

lemma place_sound:
  assumes "desk_sound e0 (e, d)" "sized v req" "bo_Market (bk_opt e0) = ''US'' \<or> bo_Market (bk_opt e0) = ''CRYPTO''"
  shows "desk_sound e0 (fst (place_paper v req e d))"
proof -
  obtain e1 d1 where b: "ensureBootstrapLocked v e d = (e1, d1)" by fastforce
  note s1 = bootstrap_sound [OF assms(1) b]
  let ?p = "reference_price v req"
  show ?thesis
  proof (cases "NormalizeMarketKey (r_Market req) \<noteq> bo_Market (bk_opt e) \<or> ?p \<le> 0")
    case False
    show ?thesis
    proof (cases "desk_qty ?p req")
      case (Some q)
      then have "\<not> q \<le> 0" using assms(2) by (simp add: sized_def)
      then have "desk_sound e0 (fst (desk_book v req ?p q (q * ?p) (q * ?p * bo_FeeRate (bk_opt e)) e1 d1))"
        using book_sound [OF s1(1,2) _ _ _ assms(3), of v req ?p q] False by (metis prod.collapse)
      then show ?thesis using False Some s1(1) by (auto simp: place_paper_def b Let_def split: option.split)
    qed (use False assms(1) in \<open>simp add: place_paper_def Let_def\<close>)
  qed (use assms(1) in \<open>auto simp: place_paper_def Let_def\<close>)
qed

lemma desk_step_sound:
  assumes "desk_sound e0 s" "op_sized op" "bo_Market (bk_opt e0) = ''US'' \<or> bo_Market (bk_opt e0) = ''CRYPTO''"
  shows "desk_sound e0 (desk_step s op)"
  using assms place_sound
  by (cases s; cases op) (auto simp: PlaceBuy_paper_def PlaceSell_paper_def Let_def)

lemma new_desk:
  assumes "NewBinancePaperExecutor db salt opt = Inr e"
  shows "bo_Market (bk_opt e) = ''US'' \<or> bo_Market (bk_opt e) = ''CRYPTO''" "bk_seq e = 0" "bk_shorts e = []" "bk_cash e = bo_InitialCash (bk_opt e)"
  using assms by (auto simp: NewBinancePaperExecutor_def Let_def split: if_splits)

text \<open>C33: from an empty ledger on and until a restart, after any sequence of buys, sales, shorts and covers, accepted or refused,
  the cash of the paper desk and what it has lent short of every code are those that the bookkeeping of the specification
  (\<open>cash_flow\<close>, \<open>line_of\<close>) arrives at from the initial capital and the booked fills of this account and market, the oldest
  first: every fee, every margin set aside and released, every profit of a cover is in the cash exactly once. (A restart tells
  the fills the latest first, see \<open>restart_replays_backwards\<close>.)\<close>

theorem desk_cash_replays:
  assumes "NewBinancePaperExecutor True salt opt = Inr e0" "fills d0 = []" "\<not> db_down d0 T_fills" "\<not> db_down d0 T_orders"
    and "\<forall>op \<in> set ops. op_sized op" "foldl desk_step (e0, d0) ops = (e, d)"
    and "booked = filter (desk_fill (bk_opt e0)) (fills d)" "rate = bo_ShortMarginRate (bk_opt e0)"
  shows "bk_cash e = cash_after rate (bo_InitialCash (bk_opt e0)) [] booked \<and> desk_line e = line_of rate booked"
proof -
  have "desk_sound e0 (foldl desk_step s ops)" if "desk_sound e0 s" "\<forall>op \<in> set ops. op_sized op" for s ops
    using that desk_step_sound [OF _ _ new_desk(1) [OF assms(1)]] by (induction ops arbitrary: s) auto
  moreover have "desk_sound e0 (e0, d0)"
    using assms(2-4) new_desk(2) [OF assms(1)] by (simp add: desk_sound_def same_pool_def replay_def)
  ultimately have "desk_sound e0 (e, d)" using assms(5,6) by metis
  then have "bk_cash e = bk_cash (fold cash_event booked e0)" "desk_line e = desk_line (fold cash_event booked e0)"
    unfolding assms(7) by (simp_all add: desk_sound_def same_pool_def replay_def desk_line_def fun_eq_iff)
  then show ?thesis using replay_books [OF new_desk(3) [OF assms(1)], of booked] new_desk(4) [OF assms(1)] assms(8) by simp
qed

text \<open>C34: an accepted purchase or opened short costs no more than the cash the desk had, so it leaves the cash non-negative.\<close>

theorem desk_never_overdrawn:
  assumes "place_paper v req e d = ((e', d'), Accepted n)" "r_Side req = SideBuy \<or> r_Side req = SideShortOpen"
  shows "\<not> bk_cash e' < 0"
proof -
  have pos: "\<not> c - x < 0" if "\<not> c < x" for c x :: f64
  proof (cases "c - x = NaN")
    case False
    have "fadd c NaN = NaN" by (cases c) simp_all
    then have "c \<noteq> NaN" "x \<noteq> NaN" using False by (auto simp: minus_f64_def)
    then have "x \<le> c" using that f64_not_less by blast
    then show ?thesis using fsub_nonneg False f64_le_not_less by blast
  qed simp
  let ?p = "reference_price v req"
  obtain e1 d1 where b: "ensureBootstrapLocked v e d = (e1, d1)" by fastforce
  have ok: "\<not> NormalizeMarketKey (r_Market req) \<noteq> bo_Market (bk_opt e)" "\<not> ?p \<le> 0"
    using assms(1) by (auto simp: place_paper_def Let_def split: if_splits)
  obtain q where q: "desk_qty ?p req = Some q"
    using assms(1) ok by (cases "desk_qty ?p req") (simp_all add: place_paper_def Let_def)
  let ?fee = "q * ?p * bo_FeeRate (bk_opt e)"
  have paid: "desk_objection e1 d1 req q (q * ?p) ?fee = None \<and> desk_book v req ?p q (q * ?p) ?fee e1 d1 = ((e', d'), Accepted n)"
  proof (cases "desk_objection e1 d1 req q (q * ?p) ?fee")
    case None
    then show ?thesis using assms(1) ok q b by (simp add: place_paper_def Let_def)
  next
    case (Some x)
    then have "x = Accepted n" using assms(1) ok q b by (simp add: place_paper_def Let_def)
    then show ?thesis using Some by (auto simp: desk_objection_def Let_def split: if_splits sum.splits option.splits)
  qed
  then have "e' = applyCashEventLocked (r_Code req) (r_Side req) ?p q ?fee (e1\<lparr>bk_seq := bk_seq e1 + 1\<rparr>)"
    by (auto simp: desk_book_def Let_def split: sum.splits)
  moreover have "bk_opt e1 = bk_opt e" using b fold_opt by (auto simp: ensureBootstrapLocked_def Let_def split: if_splits sum.splits)
  ultimately show ?thesis using paid assms(2) pos
    by (auto simp: applyCashEventLocked_def desk_objection_def Let_def split: if_splits)
qed

end
