(* ===== verification/BinancePaperExamples.thy ===== *)
theory BinancePaperExamples
  imports BinancePaperFacts PositionExamples
begin

text \<open>Witnesses for the paper desk, and what its bootstrap does with the order of the fills.\<close>

definition desk_options :: paper_options where
  "desk_options = \<lparr>bo_UserID = ''u1'', bo_Market = ''US'', bo_InitialCash = Fin 1000, bo_FeeRate = Fin 1, bo_ShortMarginRate = 0\<rparr>"

definition fresh_desk :: binance_paper where
  "fresh_desk = \<lparr>bk_opt = desk_options\<lparr>bo_ShortMarginRate := Fin 1\<rparr>, bk_cash = Fin 1000, bk_shorts = [], bk_seq = 0, bk_salt = ''s'', bk_bootstrapped = False\<rparr>"

definition desk_clock :: desk_env where
  "desk_clock = \<lparr>de_Unix = 5, de_At = ''2024-03-01 10:00:00'', de_Stamp = ''t'', de_GetPrice = None\<rparr>"

definition buy_two :: order_request where
  "buy_two = \<lparr>r_SignalID = ''S1'', r_Code = ''AAPL'', r_Name = ''A'', r_Strategy = [], r_StrategyID = [], r_StrategyType = [], r_Side = SideBuy, r_PriceType = [],
     r_Price = Fin 10, r_Qty = Fin 2, r_Amount = 0, r_CreatedAt = [], r_StalenessMs = 0, r_PrevClose = 0, r_CurrentPrice = 0, r_Market = ''US'',
     r_TradingSession = [], r_TimeInForce = [], r_Notional = 0, r_QuoteAsset = []\<rparr>"

lemma us_key [simp]: "NormalizeMarketKey ''US'' = ''US''" "normalize_market ''US'' = ''US''"
  by code_simp+

lemma new_fresh_desk: "NewBinancePaperExecutor True ''s'' desk_options = Inr fresh_desk"
  by (simp add: NewBinancePaperExecutor_def desk_options_def fresh_desk_def Let_def f64_simps)

lemma desk_fields [simp]:
  "bo_Market (bk_opt fresh_desk) = ''US''" "bo_UserID (bk_opt fresh_desk) = ''u1''" "bo_FeeRate (bk_opt fresh_desk) = Fin 1" "bk_cash fresh_desk = Fin 1000"
  "bk_shorts fresh_desk = []" "\<not> bk_bootstrapped fresh_desk" "bo_ShortMarginRate (bk_opt fresh_desk) = Fin 1"
  by (simp_all add: fresh_desk_def desk_options_def)

lemma buy_fields [simp]:
  "r_Side buy_two = SideBuy" "r_Market buy_two = ''US''" "r_Code buy_two = ''AAPL''" "reference_price v buy_two = Fin 10" "desk_qty p buy_two = Some (Fin 2)"
  by (simp_all add: buy_two_def reference_price_def desk_qty_def f64_simps)

lemma buy_into_empty:
  assumes "positions d = []" "fills d = []" "\<forall>t. \<not> db_down d t" "f_Side f = SideBuy"
  shows "\<exists>d2. ApplyRealFill d now f = Inr d2 \<and> orders d2 = orders d \<and> db_down d2 = db_down d"
  using assms by (simp add: ApplyRealFill_def Let_def fill_short_def claim_legacy_def fill_positions_def update_where_def SideBuy_def SideShortOpen_def
      SideShortCover_def)

lemma report_into_empty:
  assumes "orders d = []" "\<not> db_down d T_orders"
  shows "\<exists>r d2. ApplyOrderReportTx d x = Inr (r, d2)"
  using assms by (auto simp: ApplyOrderReportTx_def Let_def insert_or_ignore_def)

lemma boot_fresh:
  "ensureBootstrapLocked v fresh_desk fresh_db = (fresh_desk\<lparr>bk_bootstrapped := True\<rparr>, syncAccountLocked v (fresh_desk\<lparr>bk_bootstrapped := True\<rparr>) fresh_db)"
  by (simp add: ensureBootstrapLocked_def RealFills_def fresh_db_def empty_db_def Let_def)

lemma sync_rows: "positions (syncAccountLocked v e d) = positions d" "orders (syncAccountLocked v e d) = orders d"
  by (auto simp: syncAccountLocked_def UpsertRealAccount_def Let_def split: sum.split if_splits)

lemma buy_two_accepted:
  "\<exists>e d n. place_paper desk_clock buy_two fresh_desk fresh_db = ((e, d), Accepted n) \<and> bk_cash e = Fin 960"
proof -
  let ?e = "fresh_desk\<lparr>bk_bootstrapped := True\<rparr>"
  let ?d = "syncAccountLocked desk_clock ?e fresh_db"
  have d: "positions ?d = []" "fills ?d = []" "orders ?d = []" "\<forall>t. \<not> db_down ?d t"
    by (simp_all add: sync_rows fresh_db_def empty_db_def)
  let ?f = "fill_of_desk desk_clock (?e\<lparr>bk_seq := bk_seq ?e + 1\<rparr>) buy_two (Fin 10) (Fin 2) (Fin 20) (Fin 20)"
  have "f_Side ?f = SideBuy" by (simp only: desk_fill_fields buy_fields)
  then obtain d2 where d2: "ApplyRealFill ?d (de_Stamp desk_clock) ?f = Inr d2" "orders d2 = []" "db_down d2 = db_down ?d"
    using buy_into_empty [OF d(1,2,4), of ?f] d(3) by metis
  obtain r d3 where d3: "ApplyOrderReportTx d2 (order_of_desk desk_clock (?e\<lparr>bk_seq := bk_seq ?e + 1\<rparr>) buy_two (Fin 10) (Fin 2)) = Inr (r, d3)"
    using report_into_empty d2 d(4) by metis
  have "desk_objection ?e ?d buy_two (Fin 2) (Fin 20) (Fin 20) = None" by (simp add: desk_objection_def f64_simps)
  then show ?thesis
    using d2(1) d3 by (simp add: place_paper_def boot_fresh Let_def f64_simps desk_book_def applyCashEventLocked_def)
qed

theorem desk_never_overdrawn_witness:
  "\<exists>e d n. place_paper desk_clock buy_two fresh_desk fresh_db = ((e, d), Accepted n) \<and> bk_cash e = Fin 960 \<and> \<not> bk_cash e < 0"
proof -
  obtain e d n where a: "place_paper desk_clock buy_two fresh_desk fresh_db = ((e, d), Accepted n)" "bk_cash e = Fin 960" using buy_two_accepted by blast
  then show ?thesis using desk_never_overdrawn [OF a(1)] by simp
qed

theorem desk_cash_replays_witness:
  "\<exists>e d. foldl desk_step (fresh_desk, fresh_db) [DeskBuy desk_clock buy_two] = (e, d) \<and> bk_cash e = Fin 960 \<and>
     cash_after (bo_ShortMarginRate (bk_opt fresh_desk)) (bo_InitialCash (bk_opt fresh_desk)) [] (filter (desk_fill (bk_opt fresh_desk)) (fills d)) = Fin 960"
proof -
  obtain e d n where a: "place_paper desk_clock buy_two fresh_desk fresh_db = ((e, d), Accepted n)" "bk_cash e = Fin 960" using buy_two_accepted by blast
  have side: "SideBuy \<noteq> []" by (simp add: SideBuy_def)
  then have run: "foldl desk_step (fresh_desk, fresh_db) [DeskBuy desk_clock buy_two] = (e, d)"
    using a by (simp add: PlaceBuy_paper_def Let_def)
  have sized: "\<forall>op \<in> set [DeskBuy desk_clock buy_two]. op_sized op" by (simp add: sized_def f64_simps)
  have db: "fills fresh_db = []" "\<not> db_down fresh_db T_fills" "\<not> db_down fresh_db T_orders" by (simp_all add: fresh_db_def empty_db_def)
  show ?thesis
    using desk_cash_replays [OF new_fresh_desk db sized run refl refl] run a(2) by metis
qed

section \<open>The order of the bootstrap\<close>

text \<open>\<open>RealFills\<close> answers the latest fill first and the bootstrap applies them in that order. A short that was opened and covered comes back as
  an open one, with its margin still frozen.\<close>

definition short_fill :: "string \<Rightarrow> real_fill" where
  "short_fill side = \<lparr>f_ID = 0, f_OrderID = [], f_Code = ''AAPL'', f_Name = [], f_Side = side, f_Price = Fin 10, f_Qty = Fin 2, f_Amount = Fin 20,
     f_TradedAt = [], f_SignalID = [], f_TradeID = [], f_UserID = ''u1'', f_Fee = Fin 1, f_StampTax = 0, f_Serial = [], f_Market = ''US'', f_Currency = []\<rparr>"

lemma restart_replays_backwards:
  assumes "fills d = [short_fill SideShortOpen, short_fill SideShortCover]" "\<not> db_down d T_fills"
  shows "bk_cash (replay (bk_opt fresh_desk) (fills d) fresh_desk) = Fin 998"
    "bk_cash (fst (ensureBootstrapLocked v fresh_desk d)) = Fin 978"
    "map_of (bk_shorts (fst (ensureBootstrapLocked v fresh_desk d))) ''AAPL'' = Some \<lparr>sl_frozen = Fin 20, sl_qty = Fin 2, sl_avgPx = Fin 10\<rparr>"
proof -
  have s: "SideShortOpen \<noteq> SideBuy" "SideShortOpen \<noteq> SideSell" "SideShortCover \<noteq> SideBuy" "SideShortCover \<noteq> SideSell" "SideShortCover \<noteq> SideShortOpen"
    by code_simp+
  have c: "desk_fill (bk_opt fresh_desk) (short_fill x)" "desk_fill (bk_opt fresh_desk) ((short_fill x)\<lparr>f_Name := [], f_Serial := []\<rparr>)" for x
    by (simp_all add: desk_fill_def short_fill_def f64_simps)
  note eval = cash_event_def short_fill_def applyCashEventLocked_def s no_lot_def f64_simps Let_def
  show "bk_cash (replay (bk_opt fresh_desk) (fills d) fresh_desk) = Fin 998"
    by (simp add: replay_def assms(1) c) (simp add: eval)
  show "bk_cash (fst (ensureBootstrapLocked v fresh_desk d)) = Fin 978"
    by (simp add: ensureBootstrapLocked_def RealFills_def assms c) (simp add: eval)
  show "map_of (bk_shorts (fst (ensureBootstrapLocked v fresh_desk d))) ''AAPL'' = Some \<lparr>sl_frozen = Fin 20, sl_qty = Fin 2, sl_avgPx = Fin 10\<rparr>"
    by (simp add: ensureBootstrapLocked_def RealFills_def assms c) (simp add: eval)
qed

end
