(* ===== verification/Accounts.thy ===== *)
theory Accounts
  imports "HOL-Library.AList" Interfaces
begin

text \<open>
  User accounts, sessions, invitations and tenants (\<open>internal/auth/auth.go\<close>). The manager is the database in memory, the raw tokens it remembers
  and the content of its file. An \<open>auth_env\<close> is what a call reads from outside: the clock (one reading per call), the hash of tokens, the random
  bytes (in hexadecimal, \<open>None\<close> when the source fails), the password hash, whether the file can be written. Go's maps are association lists.
  The text of an error is a constructor; log lines are left out.
\<close>

record auth_env =
  ae_Now :: int
  ae_Hash :: "string \<Rightarrow> string"
  ae_Random :: "string option"
  ae_Code :: "string option"
  ae_Bcrypt :: "string \<Rightarrow> string option"
  ae_Compare :: "string \<Rightarrow> string \<Rightarrow> bool"
  ae_Saved :: bool

record login_session =
  se_Token :: string
  se_Exp :: int
  se_CreatedAt :: int

record user =
  us_ID :: string
  us_Username :: string
  us_PasswordHash :: string
  us_Token :: string
  us_TokenExp :: int
  us_Sessions :: "login_session list"
  us_Role :: string
  us_Perms :: "string list"
  us_Enabled :: bool
  us_CreatedAt :: int
  us_ExpiresAt :: int
  us_TenantID :: string

record tenant_quota =
  tq_MaxUsers :: int
  tq_APIRatePerMin :: int

record tenant =
  tn_ID :: string
  tn_Name :: string
  tn_Enabled :: bool
  tn_CreatedAt :: int
  tn_Quota :: tenant_quota

record invite =
  iv_Code :: string
  iv_CreatedAt :: int
  iv_UsedBy :: string
  iv_UsedAt :: int
  iv_TenantID :: string

record config_entry =
  ce_Key :: string
  ce_Value :: string
  ce_UserID :: string

record auth_db =
  ad_Users :: "user list"
  ad_Configs :: "config_entry list"
  ad_Invites :: "(string \<times> invite) list"
  ad_SchemaVersion :: int
  ad_Tenants :: "(string \<times> tenant) list"

text \<open>The file: missing, unreadable, not the JSON of a database, or a database.\<close>

datatype auth_file = NoFile | Unreadable | Garbage | AuthFile auth_db

record auth_manager =
  am_db :: auth_db
  am_raw :: "(string \<times> string) list"
  am_file :: auth_file

datatype auth_error = TenantNameRequired | TenantNameTaken | TenantMissing | TenantUnknown string | ErrTenantDisabled | ErrTenantQuota int
  | DefaultTenantKept | SaveFailed | RandomFailed | InviteRequired | InviteUnknown | InviteSpent | UsernameTaken | HashFailed
  | TempCannotLogin | AccountDisabled | AccountExpired | WrongPassword | UserNotFound | AlreadyInitialized | InvalidRole | LastPlatformAdmin
  | PasswordRequired | AdminNotDisabled | InvalidExpiryDays | AdminNeverExpires | AdminNotDeleted | FileUnreadable | FileCorrupt

definition DefaultTenantID :: string where "DefaultTenantID = ''t_default''"
definition defaultMaxUsers :: int where "defaultMaxUsers = 20"
definition defaultAPIRatePerMin :: int where "defaultAPIRatePerMin = 600"
definition maxSessions :: nat where "maxSessions = 8"
definition RoleAdmin :: string where "RoleAdmin = ''admin''"
definition RoleUser :: string where "RoleUser = ''user''"
definition schemaVersion :: int where "schemaVersion = 2"
definition tokenTTL :: int where "tokenTTL = 30 * 24 * 3600"
definition AllPerms :: "string list" where "AllPerms = [''research_approve'']"

definition unix :: "auth_env \<Rightarrow> int" where
  "unix v = ae_Now v div 10 ^ 9"

text \<open>The first element that a function accepts, replaced by its result.\<close>

fun first_hit :: "('a \<Rightarrow> ('a \<times> 'r) option) \<Rightarrow> 'a list \<Rightarrow> ('a list \<times> 'r) option" where
  "first_hit f [] = None"
| "first_hit f (x # xs) = (case f x of Some (x', r) \<Rightarrow> Some (x' # xs, r) | None \<Rightarrow> map_option (\<lambda>(xs', r). (x # xs', r)) (first_hit f xs))"

section \<open>Users, tenants, quotas\<close>

definition MaxUsersOr :: "tenant_quota \<Rightarrow> int" where
  "MaxUsersOr q = (if tq_MaxUsers q \<le> 0 then defaultMaxUsers else tq_MaxUsers q)"

definition APIRateOr :: "tenant_quota \<Rightarrow> int" where
  "APIRateOr q = (if tq_APIRatePerMin q \<le> 0 then defaultAPIRatePerMin else tq_APIRatePerMin q)"

definition has_perm :: "user \<Rightarrow> string \<Rightarrow> bool" where
  "has_perm u p \<longleftrightarrow> us_Role u = RoleAdmin \<or> p \<in> set (us_Perms u)"

definition is_admin :: "user \<Rightarrow> bool" where
  "is_admin u \<longleftrightarrow> us_Role u = RoleAdmin"

definition is_temp :: "user \<Rightarrow> bool" where
  "is_temp u \<longleftrightarrow> has_prefix (us_ID u) ''tmp_''"

definition effectiveTenant :: "user \<Rightarrow> string" where
  "effectiveTenant u = (if us_TenantID u = [] then DefaultTenantID else us_TenantID u)"

definition user_expired :: "auth_env \<Rightarrow> user \<Rightarrow> bool" where
  "user_expired v u \<longleftrightarrow> 0 < us_ExpiresAt u \<and> us_ExpiresAt u < unix v"

definition PublicUser :: "user \<Rightarrow> user" where
  "PublicUser u = u\<lparr>us_PasswordHash := [], us_Token := [], us_Sessions := [], us_TokenExp := 0\<rparr>"

definition user_by_id :: "auth_manager \<Rightarrow> string \<Rightarrow> user option" where
  "user_by_id m uid = find (\<lambda>u. us_ID u = uid) (ad_Users (am_db m))"

definition AdminID :: "auth_manager \<Rightarrow> string" where
  "AdminID m = (case find (\<lambda>u. us_Role u = RoleAdmin \<and> \<not> is_temp u) (ad_Users (am_db m)) of Some u \<Rightarrow> us_ID u | None \<Rightarrow> [])"

definition ensureTenantsLocked :: "auth_env \<Rightarrow> auth_db \<Rightarrow> auth_db \<times> bool" where
  "ensureTenantsLocked v d =
     (let fresh = map_of (ad_Tenants d) DefaultTenantID = None;
          t = \<lparr>tn_ID = DefaultTenantID, tn_Name = [CHR 0xE7, CHR 0xB3, CHR 0xBB, CHR 0xE7, CHR 0xBB, CHR 0x9F, CHR 0xE7, CHR 0xA7, CHR 0x9F, CHR 0xE6, CHR 0x88, CHR 0xB7], tn_Enabled = True, tn_CreatedAt = unix v, tn_Quota = \<lparr>tq_MaxUsers = 0, tq_APIRatePerMin = 0\<rparr>\<rparr>;
          homeless = list_ex (\<lambda>u. us_TenantID u = []) (ad_Users d)
      in (d\<lparr>ad_Tenants := (if fresh then AList.update DefaultTenantID t (ad_Tenants d) else ad_Tenants d),
            ad_Users := map (\<lambda>u. if us_TenantID u = [] then u\<lparr>us_TenantID := DefaultTenantID\<rparr> else u) (ad_Users d)\<rparr>, fresh \<or> homeless))"

definition ensured :: "auth_env \<Rightarrow> auth_manager \<Rightarrow> auth_manager" where
  "ensured v m = m\<lparr>am_db := fst (ensureTenantsLocked v (am_db m))\<rparr>"

text \<open>\<open>save\<close> and the return that follows it: the file is the database, or the write failed and memory keeps the change.\<close>

definition saving :: "auth_env \<Rightarrow> auth_manager \<Rightarrow> 'a \<Rightarrow> auth_manager \<times> (auth_error + 'a)" where
  "saving v m x = (if ae_Saved v then (m\<lparr>am_file := AuthFile (am_db m)\<rparr>, Inr x) else (m, Inl SaveFailed))"

definition tenants :: "auth_manager \<Rightarrow> (string \<times> tenant) list" where
  "tenants m = ad_Tenants (am_db m)"

definition put_tenant :: "string \<Rightarrow> tenant \<Rightarrow> auth_manager \<Rightarrow> auth_manager" where
  "put_tenant tid t m = m\<lparr>am_db := (am_db m)\<lparr>ad_Tenants := AList.update tid t (tenants m)\<rparr>\<rparr>"

definition CreateTenant :: "auth_env \<Rightarrow> string \<Rightarrow> tenant_quota \<Rightarrow> auth_manager \<Rightarrow> auth_manager \<times> (auth_error + tenant)" where
  "CreateTenant v name0 q m0 =
     (let name = trim_space name0
      in if name = [] then (m0, Inl TenantNameRequired)
         else let m = ensured v m0
              in if list_ex (\<lambda>(_, t). tn_Name t = name) (tenants m) then (m, Inl TenantNameTaken)
                 else let t = \<lparr>tn_ID = ''t_'' @ itoa (ae_Now v), tn_Name = name, tn_Enabled = True, tn_CreatedAt = unix v, tn_Quota = q\<rparr>
                      in saving v (put_tenant (tn_ID t) t m) t)"

definition UpdateTenant ::
  "auth_env \<Rightarrow> string \<Rightarrow> string option \<Rightarrow> bool option \<Rightarrow> tenant_quota option \<Rightarrow> auth_manager \<Rightarrow> auth_manager \<times> (auth_error + unit)" where
  "UpdateTenant v tid name enabled q m =
     (case map_of (tenants m) tid of
        None \<Rightarrow> (m, Inl TenantMissing)
      | Some t \<Rightarrow>
          if tid = DefaultTenantID \<and> enabled = Some False then (m, Inl DefaultTenantKept)
          else let rest = (\<lambda>t. let t = (case enabled of Some b \<Rightarrow> t\<lparr>tn_Enabled := b\<rparr> | None \<Rightarrow> t);
                                   t = (case q of Some x \<Rightarrow> t\<lparr>tn_Quota := x\<rparr> | None \<Rightarrow> t)
                               in saving v (put_tenant tid t m) ())
               in case name of
                    None \<Rightarrow> rest t
                  | Some n0 \<Rightarrow>
                      (let n = trim_space n0
                       in if n = [] then (m, Inl TenantNameRequired)
                          else if list_ex (\<lambda>(_, o'). tn_ID o' \<noteq> tid \<and> tn_Name o' = n) (tenants m) then (m, Inl TenantNameTaken)
                          else rest (t\<lparr>tn_Name := n\<rparr>)))"

definition TenantByID :: "auth_manager \<Rightarrow> string \<Rightarrow> tenant option" where
  "TenantByID m tid = map_of (tenants m) tid"

definition ListTenants :: "auth_manager \<Rightarrow> tenant list" where
  "ListTenants m =
     (let ts = map snd (tenants m)
      in sort_key tn_CreatedAt (filter (\<lambda>t. tn_ID t = DefaultTenantID) ts) @ sort_key tn_CreatedAt (filter (\<lambda>t. tn_ID t \<noteq> DefaultTenantID) ts))"

definition TenantOf :: "auth_manager \<Rightarrow> string \<Rightarrow> string" where
  "TenantOf m uid = (case user_by_id m uid of Some u \<Rightarrow> effectiveTenant u | None \<Rightarrow> [])"

definition TenantName :: "auth_manager \<Rightarrow> string \<Rightarrow> string" where
  "TenantName m tid = (case map_of (tenants m) tid of Some t \<Rightarrow> tn_Name t | None \<Rightarrow> tid)"

definition UsersInTenant :: "auth_manager \<Rightarrow> string \<Rightarrow> user list" where
  "UsersInTenant m tid = map PublicUser (filter (\<lambda>u. effectiveTenant u = tid) (ad_Users (am_db m)))"

definition countMembersLocked :: "auth_manager \<Rightarrow> string \<Rightarrow> int" where
  "countMembersLocked m tid = int (length (filter (\<lambda>u. \<not> is_temp u \<and> effectiveTenant u = tid) (ad_Users (am_db m))))"

definition checkTenantAdmissionLocked :: "auth_manager \<Rightarrow> string \<Rightarrow> auth_error option" where
  "checkTenantAdmissionLocked m tid =
     (case map_of (tenants m) tid of
        None \<Rightarrow> Some (TenantUnknown tid)
      | Some t \<Rightarrow>
          if \<not> tn_Enabled t then Some ErrTenantDisabled
          else if MaxUsersOr (tn_Quota t) \<le> countMembersLocked m tid then Some (ErrTenantQuota (MaxUsersOr (tn_Quota t)))
          else None)"

definition TenantAPIRate :: "auth_manager \<Rightarrow> string \<Rightarrow> int" where
  "TenantAPIRate m tid = (case map_of (tenants m) tid of Some t \<Rightarrow> APIRateOr (tn_Quota t) | None \<Rightarrow> defaultAPIRatePerMin)"

definition IsPlatformAdmin :: "auth_manager \<Rightarrow> string \<Rightarrow> bool" where
  "IsPlatformAdmin m uid = (case user_by_id m uid of Some u \<Rightarrow> us_Role u = RoleAdmin \<and> effectiveTenant u = DefaultTenantID | None \<Rightarrow> False)"

section \<open>Sessions\<close>

definition live_session :: "auth_env \<Rightarrow> login_session \<Rightarrow> bool" where
  "live_session v s \<longleftrightarrow> se_Exp s = 0 \<or> unix v < se_Exp s"

text \<open>A new session; \<open>ttl\<close> is in seconds.\<close>

definition issueSession :: "auth_env \<Rightarrow> int \<Rightarrow> user \<Rightarrow> auth_error + (string \<times> user)" where
  "issueSession v ttl u =
     (case ae_Random v of
        None \<Rightarrow> Inl RandomFailed
      | Some raw \<Rightarrow>
          (let e = unix v + ttl;
               ss = filter (live_session v) (us_Sessions u) @ [\<lparr>se_Token = ae_Hash v raw, se_Exp = e, se_CreatedAt = unix v\<rparr>];
               ss = (if maxSessions < length ss then drop (length ss - maxSessions) ss else ss)
           in Inr (raw, u\<lparr>us_Sessions := ss, us_Token := se_Token (last ss), us_TokenExp := e\<rparr>)))"

definition fresh_user :: "auth_env \<Rightarrow> string \<Rightarrow> string \<Rightarrow> string \<Rightarrow> string \<Rightarrow> string \<Rightarrow> user" where
  "fresh_user v uid name pwhash role tid =
     \<lparr>us_ID = uid, us_Username = name, us_PasswordHash = pwhash, us_Token = [], us_TokenExp = 0, us_Sessions = [], us_Role = role, us_Perms = [],
      us_Enabled = True, us_CreatedAt = unix v, us_ExpiresAt = 0, us_TenantID = tid\<rparr>"

definition keep_raw :: "string \<Rightarrow> string \<Rightarrow> auth_manager \<Rightarrow> auth_manager" where
  "keep_raw uid raw m = m\<lparr>am_raw := AList.update uid raw (am_raw m)\<rparr>"

definition drop_raw :: "string \<Rightarrow> auth_manager \<Rightarrow> auth_manager" where
  "drop_raw uid m = m\<lparr>am_raw := AList.delete uid (am_raw m)\<rparr>"

definition add_user :: "user \<Rightarrow> string \<Rightarrow> auth_manager \<Rightarrow> auth_manager" where
  "add_user u raw m = keep_raw (us_ID u) raw (m\<lparr>am_db := (am_db m)\<lparr>ad_Users := ad_Users (am_db m) @ [u]\<rparr>\<rparr>)"

section \<open>Invitations\<close>

definition invites :: "auth_manager \<Rightarrow> (string \<times> invite) list" where
  "invites m = ad_Invites (am_db m)"

definition put_invite :: "string \<Rightarrow> invite \<Rightarrow> auth_manager \<Rightarrow> auth_manager" where
  "put_invite c i m = m\<lparr>am_db := (am_db m)\<lparr>ad_Invites := AList.update c i (invites m)\<rparr>\<rparr>"

definition CreateInviteFor :: "auth_env \<Rightarrow> string \<Rightarrow> auth_manager \<Rightarrow> auth_manager \<times> (auth_error + string)" where
  "CreateInviteFor v tid0 m0 =
     (let m = ensured v m0; tid = (if tid0 = [] then DefaultTenantID else tid0)
      in case checkTenantAdmissionLocked m tid of
           Some e \<Rightarrow> (m, Inl e)
         | None \<Rightarrow>
             (case ae_Code v of
                None \<Rightarrow> (m, Inl RandomFailed)
              | Some x \<Rightarrow> let code = ''QT'' @ x
                          in saving v (put_invite code \<lparr>iv_Code = code, iv_CreatedAt = unix v, iv_UsedBy = [], iv_UsedAt = 0, iv_TenantID = tid\<rparr> m) code))"

definition CreateInvite :: "auth_env \<Rightarrow> auth_manager \<Rightarrow> auth_manager \<times> (auth_error + string)" where
  "CreateInvite v = CreateInviteFor v DefaultTenantID"

definition ListInvites :: "auth_manager \<Rightarrow> invite list" where
  "ListInvites m = sort_key (\<lambda>i. - iv_CreatedAt i) (map snd (invites m))"

definition consumeInviteLocked :: "string \<Rightarrow> auth_manager \<Rightarrow> auth_error option" where
  "consumeInviteLocked code m =
     (if code = [] then Some InviteRequired
      else case map_of (invites m) code of
             None \<Rightarrow> Some InviteUnknown
           | Some i \<Rightarrow> if iv_UsedBy i \<noteq> [] then Some InviteSpent else None)"

definition invite_tenant :: "string \<Rightarrow> auth_manager \<Rightarrow> string" where
  "invite_tenant code m =
     (case map_of (invites m) code of Some i \<Rightarrow> if iv_TenantID i \<noteq> [] then iv_TenantID i else DefaultTenantID | None \<Rightarrow> DefaultTenantID)"

definition markInviteUsedLocked :: "auth_env \<Rightarrow> string \<Rightarrow> string \<Rightarrow> auth_manager \<Rightarrow> auth_manager" where
  "markInviteUsedLocked v code uid m =
     (case map_of (invites m) code of Some i \<Rightarrow> put_invite code (i\<lparr>iv_UsedBy := uid, iv_UsedAt := unix v\<rparr>) m | None \<Rightarrow> m)"

section \<open>Opening accounts\<close>

definition username_taken :: "string \<Rightarrow> auth_manager \<Rightarrow> bool" where
  "username_taken name m \<longleftrightarrow> list_ex (\<lambda>u. us_Username u = name) (ad_Users (am_db m))"

definition new_uid :: "auth_env \<Rightarrow> string" where
  "new_uid v = ''u_'' @ itoa (ae_Now v)"

definition Register :: "auth_env \<Rightarrow> string \<Rightarrow> string \<Rightarrow> string \<Rightarrow> auth_manager \<Rightarrow> auth_manager \<times> (auth_error + user)" where
  "Register v username password code m0 =
     (case consumeInviteLocked code m0 of
        Some e \<Rightarrow> (m0, Inl e)
      | None \<Rightarrow>
          (let tid = invite_tenant code m0; m = ensured v m0
           in case checkTenantAdmissionLocked m tid of
                Some e \<Rightarrow> (m, Inl e)
              | None \<Rightarrow>
                  if username_taken username m then (m, Inl UsernameTaken)
                  else case ae_Bcrypt v password of
                      None \<Rightarrow> (m, Inl HashFailed)
                    | Some h \<Rightarrow>
                        (case issueSession v tokenTTL (fresh_user v (new_uid v) username h RoleUser tid) of
                           Inl e \<Rightarrow> (m, Inl e)
                         | Inr (raw, u) \<Rightarrow> saving v (markInviteUsedLocked v code (us_ID u) (add_user u raw m)) (u\<lparr>us_Token := raw\<rparr>))))"

definition CreateTemp :: "auth_env \<Rightarrow> int \<Rightarrow> string \<Rightarrow> auth_manager \<Rightarrow> auth_manager \<times> (auth_error + user)" where
  "CreateTemp v ttl code m =
     (case consumeInviteLocked code m of
        Some e \<Rightarrow> (m, Inl e)
      | None \<Rightarrow>
          (case issueSession v ttl (fresh_user v (''tmp_'' @ itoa (ae_Now v)) [] [] RoleUser (invite_tenant code m)) of
             Inl e \<Rightarrow> (m, Inl e)
           | Inr (raw, u0) \<Rightarrow>
               (let u = u0\<lparr>us_Username := ''temp_'' @ take 8 raw\<rparr>
                in saving v (markInviteUsedLocked v code (us_ID u) (add_user u raw m)) (u\<lparr>us_Token := raw\<rparr>))))"

definition SetupInitialAdmin :: "auth_env \<Rightarrow> string \<Rightarrow> string \<Rightarrow> auth_manager \<Rightarrow> auth_manager \<times> (auth_error + user)" where
  "SetupInitialAdmin v username password m0 =
     (if list_ex (\<lambda>c. ce_Key c = ''initialized'') (ad_Configs (am_db m0)) then (m0, Inl AlreadyInitialized)
      else if list_ex (\<lambda>u. us_Role u = RoleAdmin \<and> \<not> is_temp u) (ad_Users (am_db m0)) then (m0, Inl AlreadyInitialized)
      else let m = ensured v m0
           in case ae_Bcrypt v password of
                None \<Rightarrow> (m, Inl HashFailed)
              | Some h \<Rightarrow>
                  (case issueSession v tokenTTL (fresh_user v (new_uid v) username h RoleAdmin DefaultTenantID) of
                     Inl e \<Rightarrow> (m, Inl e)
                   | Inr (raw, u) \<Rightarrow>
                       (let m1 = add_user u raw m;
                            m2 = m1\<lparr>am_db := (am_db m1)\<lparr>ad_Configs := ad_Configs (am_db m1) @ [\<lparr>ce_Key = ''initialized'', ce_Value = ''1'', ce_UserID = us_ID u\<rparr>]\<rparr>\<rparr>
                        in saving v m2 (u\<lparr>us_Token := raw\<rparr>))))"

text \<open>The day of expiry in whole days from now, zero for never.\<close>

definition expiry :: "auth_env \<Rightarrow> int \<Rightarrow> int" where
  "expiry v days = (if 0 < days then wrap64 (unix v + days * 86400) else 0)"

definition CreateUserInTenant ::
  "auth_env \<Rightarrow> string \<Rightarrow> string \<Rightarrow> string \<Rightarrow> string \<Rightarrow> string list \<Rightarrow> int \<Rightarrow> auth_manager \<Rightarrow> auth_manager \<times> (auth_error + user)" where
  "CreateUserInTenant v tid0 username password role0 perms days m0 =
     (let role = (if role0 = [] then RoleUser else role0); tid = (if tid0 = [] then DefaultTenantID else tid0)
      in if role \<noteq> RoleAdmin \<and> role \<noteq> RoleUser then (m0, Inl InvalidRole)
         else if days < 0 then (m0, Inl InvalidExpiryDays)
         else let m = ensured v m0
              in case checkTenantAdmissionLocked m tid of
                   Some e \<Rightarrow> (m, Inl e)
                 | None \<Rightarrow>
                     if username_taken username m then (m, Inl UsernameTaken)
                     else case ae_Bcrypt v password of
                         None \<Rightarrow> (m, Inl HashFailed)
                       | Some h \<Rightarrow>
                           (case issueSession v tokenTTL ((fresh_user v (new_uid v) username h role tid)\<lparr>us_Perms := perms, us_ExpiresAt := expiry v days\<rparr>) of
                              Inl e \<Rightarrow> (m, Inl e)
                            | Inr (raw, u) \<Rightarrow> saving v (add_user u raw m) (u\<lparr>us_Token := raw\<rparr>)))"

definition CreateUser :: "auth_env \<Rightarrow> string \<Rightarrow> string \<Rightarrow> string \<Rightarrow> string list \<Rightarrow> int \<Rightarrow> auth_manager \<Rightarrow> auth_manager \<times> (auth_error + user)" where
  "CreateUser v = CreateUserInTenant v DefaultTenantID"

section \<open>Signing in and out\<close>

text \<open>What \<open>Login\<close> does with the user of that name.\<close>

definition login_user :: "auth_env \<Rightarrow> string \<Rightarrow> user \<Rightarrow> auth_error + (string \<times> user)" where
  "login_user v password u =
     (if us_PasswordHash u = [] then Inl TempCannotLogin
      else if \<not> us_Enabled u then Inl AccountDisabled
      else if user_expired v u then Inl AccountExpired
      else if \<not> ae_Compare v (us_PasswordHash u) password then Inl WrongPassword
      else issueSession v tokenTTL u)"

definition set_users :: "user list \<Rightarrow> auth_manager \<Rightarrow> auth_manager" where
  "set_users us m = m\<lparr>am_db := (am_db m)\<lparr>ad_Users := us\<rparr>\<rparr>"

definition Login :: "auth_env \<Rightarrow> string \<Rightarrow> string \<Rightarrow> auth_manager \<Rightarrow> auth_manager \<times> (auth_error + user)" where
  "Login v username password m =
     (case first_hit (\<lambda>u. if us_Username u = username
                          then Some (case login_user v password u of Inl e \<Rightarrow> (u, Inl e) | Inr (raw, u') \<Rightarrow> (u', Inr (raw, u'))) else None)
             (ad_Users (am_db m)) of
        None \<Rightarrow> (m, Inl UserNotFound)
      | Some (us, Inl e) \<Rightarrow> (m, Inl e)
      | Some (us, Inr (raw, u)) \<Rightarrow> saving v (keep_raw (us_ID u) raw (set_users us m)) (u\<lparr>us_Token := raw\<rparr>))"

definition drop_session :: "string \<Rightarrow> login_session list \<Rightarrow> login_session list" where
  "drop_session h ss = takeWhile (\<lambda>s. se_Token s \<noteq> h) ss @ tl (dropWhile (\<lambda>s. se_Token s \<noteq> h) ss)"

text \<open>What a user answers to a token: not his; his, but no longer good (the list of sessions may lose one); good, and whether that moved the token of
  the old slot into the sessions.\<close>

datatype token_answer = TokenDead bool | TokenGood bool

definition probe_token :: "auth_env \<Rightarrow> string \<Rightarrow> user \<Rightarrow> (user \<times> token_answer) option" where
  "probe_token v token u =
     (let h = ae_Hash v token
      in case find (\<lambda>s. se_Token s = h) (us_Sessions u) of
           Some s \<Rightarrow>
             if 0 < se_Exp s \<and> se_Exp s < unix v then Some (u\<lparr>us_Sessions := drop_session h (us_Sessions u)\<rparr>, TokenDead True)
             else if user_expired v u \<or> \<not> us_Enabled u then Some (u, TokenDead False)
             else Some (u, TokenGood False)
         | None \<Rightarrow>
             if us_Token u = [] \<or> (us_Token u \<noteq> h \<and> us_Token u \<noteq> token) then None
             else if 0 < us_TokenExp u \<and> us_TokenExp u < unix v then Some (u, TokenDead False)
             else if user_expired v u \<or> \<not> us_Enabled u then Some (u, TokenDead False)
             else Some (u\<lparr>us_Token := h, us_Sessions := us_Sessions u @ [\<lparr>se_Token = h, se_Exp = us_TokenExp u, se_CreatedAt = unix v\<rparr>]\<rparr>, TokenGood True))"

definition try_save :: "auth_env \<Rightarrow> auth_manager \<Rightarrow> auth_manager" where
  "try_save v m = fst (saving v m ())"

definition ValidateToken :: "auth_env \<Rightarrow> string \<Rightarrow> auth_manager \<Rightarrow> auth_manager \<times> user option" where
  "ValidateToken v token m =
     (if token = [] then (m, None)
      else case first_hit (\<lambda>u. map_option (\<lambda>(u', a). (u', (u', a))) (probe_token v token u)) (ad_Users (am_db m)) of
             None \<Rightarrow> (m, None)
           | Some (us, u, TokenDead changed) \<Rightarrow> (if changed then try_save v (set_users us m) else m, None)
           | Some (us, u, TokenGood moved) \<Rightarrow>
               (let m1 = (if moved then try_save v (set_users us m) else m);
                    m2 = (if map_of (am_raw m1) (us_ID u) = None then keep_raw (us_ID u) token m1 else m1)
                in (m2, Some (u\<lparr>us_Token := []\<rparr>))))"

definition UserToken :: "auth_manager \<Rightarrow> string \<Rightarrow> string" where
  "UserToken m username =
     (case find (\<lambda>u. us_Username u = username) (ad_Users (am_db m)) of
        None \<Rightarrow> [] | Some u \<Rightarrow> (case map_of (am_raw m) (us_ID u) of Some t \<Rightarrow> t | None \<Rightarrow> []))"

definition HasActiveSession :: "auth_env \<Rightarrow> auth_manager \<Rightarrow> string \<Rightarrow> bool" where
  "HasActiveSession v m uid = (case user_by_id m uid of Some u \<Rightarrow> list_ex (live_session v) (us_Sessions u) | None \<Rightarrow> False)"

definition ListUsers :: "auth_manager \<Rightarrow> user list" where
  "ListUsers m = map PublicUser (ad_Users (am_db m))"

definition UserByID :: "auth_manager \<Rightarrow> string \<Rightarrow> user option" where
  "UserByID m uid = map_option PublicUser (user_by_id m uid)"

text \<open>\<open>RevokeSession\<close> on one user: the session goes, and the old slot with it when it holds the same hash.\<close>

definition revoke_in :: "string \<Rightarrow> user \<Rightarrow> user option" where
  "revoke_in h u =
     (if list_ex (\<lambda>s. se_Token s = h) (us_Sessions u)
      then let u1 = u\<lparr>us_Sessions := drop_session h (us_Sessions u)\<rparr>
           in Some (if us_Token u1 = h then u1\<lparr>us_Token := [], us_TokenExp := 0\<rparr> else u1)
      else if us_Token u \<noteq> [] \<and> us_Token u = h then Some (u\<lparr>us_Token := [], us_TokenExp := 0\<rparr>)
      else None)"

definition RevokeSession :: "auth_env \<Rightarrow> string \<Rightarrow> auth_manager \<Rightarrow> auth_manager \<times> bool" where
  "RevokeSession v token m =
     (if token = [] then (m, False)
      else case first_hit (\<lambda>u. map_option (\<lambda>u'. (u', us_ID u)) (revoke_in (ae_Hash v token) u)) (ad_Users (am_db m)) of
             None \<Rightarrow> (m, False)
           | Some (us, uid) \<Rightarrow>
               (case saving v (set_users us m) () of
                  (m1, Inl _) \<Rightarrow> (m1, False)
                | (m1, Inr _) \<Rightarrow> (drop_raw uid m1, True)))"

section \<open>Managing accounts\<close>

text \<open>\<open>updateUser\<close>: the change of the user, or the error that leaves everything as it was; \<open>raw\<close> is what the change does to the remembered tokens.\<close>

definition updateUser :: "auth_env \<Rightarrow> string \<Rightarrow> (user \<Rightarrow> auth_error + user) \<Rightarrow> (auth_manager \<Rightarrow> auth_manager) \<Rightarrow> auth_manager \<Rightarrow> auth_manager \<times> (auth_error + unit)" where
  "updateUser v uid mutate raw m =
     (case first_hit (\<lambda>u. if us_ID u = uid then Some (case mutate u of Inl e \<Rightarrow> (u, Some e) | Inr u' \<Rightarrow> (u', None)) else None) (ad_Users (am_db m)) of
        None \<Rightarrow> (m, Inl UserNotFound)
      | Some (us, Some e) \<Rightarrow> (m, Inl e)
      | Some (us, None) \<Rightarrow> saving v (raw (set_users us m)) ())"

definition platform_admins :: "auth_manager \<Rightarrow> nat" where
  "platform_admins m = length (filter (\<lambda>u. us_Role u = RoleAdmin \<and> effectiveTenant u = DefaultTenantID) (ad_Users (am_db m)))"

definition SetRole :: "auth_env \<Rightarrow> string \<Rightarrow> string \<Rightarrow> auth_manager \<Rightarrow> auth_manager \<times> (auth_error + unit)" where
  "SetRole v uid role m =
     (if role \<noteq> RoleAdmin \<and> role \<noteq> RoleUser then (m, Inl InvalidRole)
      else updateUser v uid
        (\<lambda>u. if role \<noteq> RoleAdmin \<and> us_Role u = RoleAdmin \<and> effectiveTenant u = DefaultTenantID \<and> platform_admins m \<le> 1 then Inl LastPlatformAdmin
             else Inr (u\<lparr>us_Role := role\<rparr>)) id m)"

definition MoveUser :: "auth_env \<Rightarrow> string \<Rightarrow> string \<Rightarrow> auth_manager \<Rightarrow> auth_manager \<times> (auth_error + unit)" where
  "MoveUser v uid tid0 m0 =
     (let m = ensured v m0; tid = (if tid0 = [] then DefaultTenantID else tid0)
      in case first_hit (\<lambda>u. if us_ID u = uid then Some (u\<lparr>us_TenantID := tid\<rparr>, u) else None) (ad_Users (am_db m)) of
           None \<Rightarrow> (m, Inl UserNotFound)
         | Some (us, u) \<Rightarrow>
             if effectiveTenant u = tid then (m, Inr ())
             else case checkTenantAdmissionLocked m tid of Some e \<Rightarrow> (m, Inl e) | None \<Rightarrow> saving v (set_users us m) ())"

definition GrantPerm :: "auth_env \<Rightarrow> string \<Rightarrow> string \<Rightarrow> auth_manager \<Rightarrow> auth_manager \<times> (auth_error + unit)" where
  "GrantPerm v uid p m = updateUser v uid (\<lambda>u. Inr (if p \<in> set (us_Perms u) then u else u\<lparr>us_Perms := us_Perms u @ [p]\<rparr>)) id m"

definition RevokePerm :: "auth_env \<Rightarrow> string \<Rightarrow> string \<Rightarrow> auth_manager \<Rightarrow> auth_manager \<times> (auth_error + unit)" where
  "RevokePerm v uid p m = updateUser v uid (\<lambda>u. Inr (u\<lparr>us_Perms := filter (\<lambda>q. q \<noteq> p) (us_Perms u)\<rparr>)) id m"

definition SetPerms :: "auth_env \<Rightarrow> string \<Rightarrow> string list \<Rightarrow> auth_manager \<Rightarrow> auth_manager \<times> (auth_error + unit)" where
  "SetPerms v uid ps m = updateUser v uid (\<lambda>u. Inr (u\<lparr>us_Perms := ps\<rparr>)) id m"

definition HasPerm :: "auth_manager \<Rightarrow> string \<Rightarrow> string \<Rightarrow> bool" where
  "HasPerm m uid p = (case user_by_id m uid of Some u \<Rightarrow> has_perm u p | None \<Rightarrow> False)"

definition IsAdmin :: "auth_manager \<Rightarrow> string \<Rightarrow> bool" where
  "IsAdmin m uid = (case user_by_id m uid of Some u \<Rightarrow> us_Role u = RoleAdmin | None \<Rightarrow> False)"

definition signed_out :: "user \<Rightarrow> user" where
  "signed_out u = u\<lparr>us_Sessions := [], us_Token := [], us_TokenExp := 0\<rparr>"

definition ChangePassword :: "auth_env \<Rightarrow> string \<Rightarrow> string \<Rightarrow> auth_manager \<Rightarrow> auth_manager \<times> (auth_error + unit)" where
  "ChangePassword v uid password m =
     (if password = [] then (m, Inl PasswordRequired)
      else case ae_Bcrypt v password of
             None \<Rightarrow> (m, Inl HashFailed)
           | Some h \<Rightarrow> updateUser v uid (\<lambda>u. Inr (signed_out (u\<lparr>us_PasswordHash := h\<rparr>))) (drop_raw uid) m)"

definition SetEnabled :: "auth_env \<Rightarrow> string \<Rightarrow> bool \<Rightarrow> auth_manager \<Rightarrow> auth_manager \<times> (auth_error + unit)" where
  "SetEnabled v uid b m =
     updateUser v uid
       (\<lambda>u. if us_Role u = RoleAdmin \<and> \<not> b then Inl AdminNotDisabled else Inr (if b then u\<lparr>us_Enabled := b\<rparr> else signed_out (u\<lparr>us_Enabled := b\<rparr>)))
       (if b then id else drop_raw uid) m"

definition SetExpiry :: "auth_env \<Rightarrow> string \<Rightarrow> int \<Rightarrow> auth_manager \<Rightarrow> auth_manager \<times> (auth_error + unit)" where
  "SetExpiry v uid days m =
     (if days < 0 then (m, Inl InvalidExpiryDays)
      else updateUser v uid
        (\<lambda>u. if us_Role u = RoleAdmin \<and> 0 < days then Inl AdminNeverExpires
             else Inr (u\<lparr>us_ExpiresAt := expiry v days\<rparr>)) id m)"

definition DeleteUser :: "auth_env \<Rightarrow> string \<Rightarrow> auth_manager \<Rightarrow> auth_manager \<times> (auth_error + unit)" where
  "DeleteUser v uid m =
     (let us = ad_Users (am_db m)
      in case find (\<lambda>u. us_ID u = uid) us of
           None \<Rightarrow> (m, Inl UserNotFound)
         | Some u \<Rightarrow>
             if us_Role u = RoleAdmin then (m, Inl AdminNotDeleted)
             else saving v (set_users (takeWhile (\<lambda>u. us_ID u \<noteq> uid) us @ tl (dropWhile (\<lambda>u. us_ID u \<noteq> uid) us)) m) ())"

section \<open>Configuration entries\<close>

definition SetConfig :: "auth_env \<Rightarrow> string \<Rightarrow> string \<Rightarrow> string \<Rightarrow> auth_manager \<Rightarrow> auth_manager \<times> (auth_error + unit)" where
  "SetConfig v uid key val m =
     (let cs = ad_Configs (am_db m);
          cs' = (case first_hit (\<lambda>c. if ce_UserID c = uid \<and> ce_Key c = key then Some (c\<lparr>ce_Value := val\<rparr>, ()) else None) cs of
                   Some (cs', _) \<Rightarrow> cs'
                 | None \<Rightarrow> cs @ [\<lparr>ce_Key = key, ce_Value = val, ce_UserID = uid\<rparr>])
      in saving v (m\<lparr>am_db := (am_db m)\<lparr>ad_Configs := cs'\<rparr>\<rparr>) ())"

definition GetConfig :: "auth_manager \<Rightarrow> string \<Rightarrow> string \<Rightarrow> string option" where
  "GetConfig m uid key = map_option ce_Value (find (\<lambda>c. ce_UserID c = uid \<and> ce_Key c = key) (ad_Configs (am_db m)))"

definition IsInitialized :: "auth_manager \<Rightarrow> bool" where
  "IsInitialized m \<longleftrightarrow> list_ex (\<lambda>c. ce_Key c = ''initialized'') (ad_Configs (am_db m)) \<or> ad_Users (am_db m) \<noteq> []"

definition MarkInitialized :: "auth_env \<Rightarrow> auth_manager \<Rightarrow> auth_manager \<times> (auth_error + unit)" where
  "MarkInitialized v = SetConfig v ''system'' ''initialized'' ''true''"

section \<open>Starting\<close>

text \<open>The migration of files without a schema version: roles, the enabled flag, one administrator.\<close>

definition migrate_user :: "user \<Rightarrow> user" where
  "migrate_user u =
     (let u1 = (if us_Role u = [] then u\<lparr>us_Role := RoleUser\<rparr> else u)
      in if \<not> us_Enabled u1 \<and> us_ID u1 \<noteq> [] then u1\<lparr>us_Enabled := True\<rparr> else u1)"

fun migrate_users :: "bool \<Rightarrow> user list \<Rightarrow> user list \<times> bool" where
  "migrate_users promoted [] = ([], promoted)"
| "migrate_users promoted (u # us) =
     (let u1 = migrate_user u; now = us_Username u1 = ''admin'' \<and> us_Role u1 \<noteq> RoleAdmin \<and> \<not> promoted;
          u2 = (if now then u1\<lparr>us_Role := RoleAdmin\<rparr> else u1); (us', p) = migrate_users (promoted \<or> now) us
      in (u2 # us', p))"

definition earliest_user :: "user list \<Rightarrow> user option" where
  "earliest_user us =
     foldl (\<lambda>e u. if is_temp u \<or> us_Username u = [] then e
                  else case e of None \<Rightarrow> Some u | Some x \<Rightarrow> if us_CreatedAt u < us_CreatedAt x then Some u else e) None us"

definition legacy_users :: "user list \<Rightarrow> user list" where
  "legacy_users us0 =
     (let (us, promoted) = migrate_users False us0
      in if promoted \<or> list_ex is_admin us then us
         else case earliest_user us of
                None \<Rightarrow> us
              | Some e \<Rightarrow> (case first_hit (\<lambda>u. if u = e then Some (u\<lparr>us_Role := RoleAdmin\<rparr>, ()) else None) us of Some (us', _) \<Rightarrow> us' | None \<Rightarrow> us))"

definition empty_auth :: auth_db where
  "empty_auth = \<lparr>ad_Users = [], ad_Configs = [], ad_Invites = [], ad_SchemaVersion = schemaVersion, ad_Tenants = []\<rparr>"

text \<open>\<open>Init\<close> on a file: the file afterwards, and the manager or the error. A corrupt file is moved away.\<close>

definition Init :: "auth_env \<Rightarrow> auth_file \<Rightarrow> auth_file \<times> (auth_error + auth_manager)" where
  "Init v file =
     (case file of
        Garbage \<Rightarrow> (NoFile, Inl FileCorrupt)
      | Unreadable \<Rightarrow> (Unreadable, Inl FileUnreadable)
      | NoFile \<Rightarrow>
          (let m = ensured v \<lparr>am_db = empty_auth, am_raw = [], am_file = NoFile\<rparr>
           in case saving v m () of (m', Inl e) \<Rightarrow> (am_file m', Inl e) | (m', Inr _) \<Rightarrow> (am_file m', Inr m'))
      | AuthFile d0 \<Rightarrow>
          (let old = ad_SchemaVersion d0 < 1;
               d1 = (if old then d0\<lparr>ad_Users := legacy_users (ad_Users d0), ad_SchemaVersion := 1\<rparr> else d0);
               (d2, changed) = ensureTenantsLocked v d1;
               newer = changed \<or> ad_SchemaVersion d2 < schemaVersion;
               d3 = (if newer then d2\<lparr>ad_SchemaVersion := schemaVersion\<rparr> else d2);
               m = \<lparr>am_db = d3, am_raw = [], am_file = file\<rparr>
           in if old \<or> newer then (case saving v m () of (m', Inl e) \<Rightarrow> (am_file m', Inl e) | (m', Inr _) \<Rightarrow> (am_file m', Inr m'))
              else (file, Inr m)))"

end
