(* ===== verification/AccountFacts.thy ===== *)
theory AccountFacts
  imports Accounts
begin

text \<open>
  Properties of the accounts: tokens that were revoked stay dead, an invitation opens one account, the platform keeps an administrator,
  tenants keep their quota, a restart keeps the database. \<open>auth_step\<close> is one call of an operation that changes the state.
\<close>

section \<open>The operations as steps\<close>

datatype auth_op = OpCreateTenant string tenant_quota | OpUpdateTenant string "string option" "bool option" "tenant_quota option"
  | OpInvite string | OpRegister string string string | OpTemp int string | OpLogin string string | OpSetup string string
  | OpValidate string | OpRevoke string | OpRole string string | OpMove string string | OpGrant string string | OpUngrant string string
  | OpPerms string "string list" | OpPassword string string | OpEnable string bool | OpExpiry string int
  | OpCreate string string string string "string list" int | OpDelete string | OpConfig string string string

fun auth_step :: "auth_manager \<Rightarrow> auth_env \<times> auth_op \<Rightarrow> auth_manager" where
  "auth_step m (v, OpCreateTenant n q) = fst (CreateTenant v n q m)"
| "auth_step m (v, OpUpdateTenant t n b q) = fst (UpdateTenant v t n b q m)"
| "auth_step m (v, OpInvite t) = fst (CreateInviteFor v t m)"
| "auth_step m (v, OpRegister n p c) = fst (Register v n p c m)"
| "auth_step m (v, OpTemp ttl c) = fst (CreateTemp v ttl c m)"
| "auth_step m (v, OpLogin n p) = fst (Login v n p m)"
| "auth_step m (v, OpSetup n p) = fst (SetupInitialAdmin v n p m)"
| "auth_step m (v, OpValidate t) = fst (ValidateToken v t m)"
| "auth_step m (v, OpRevoke t) = fst (RevokeSession v t m)"
| "auth_step m (v, OpRole u r) = fst (SetRole v u r m)"
| "auth_step m (v, OpMove u t) = fst (MoveUser v u t m)"
| "auth_step m (v, OpGrant u p) = fst (GrantPerm v u p m)"
| "auth_step m (v, OpUngrant u p) = fst (RevokePerm v u p m)"
| "auth_step m (v, OpPerms u ps) = fst (SetPerms v u ps m)"
| "auth_step m (v, OpPassword u p) = fst (ChangePassword v u p m)"
| "auth_step m (v, OpEnable u b) = fst (SetEnabled v u b m)"
| "auth_step m (v, OpExpiry u n) = fst (SetExpiry v u n m)"
| "auth_step m (v, OpCreate t n p r ps k) = fst (CreateUserInTenant v t n p r ps k m)"
| "auth_step m (v, OpDelete u) = fst (DeleteUser v u m)"
| "auth_step m (v, OpConfig u k x) = fst (SetConfig v u k x m)"

abbreviation users_of :: "auth_manager \<Rightarrow> user list" where
  "users_of m \<equiv> ad_Users (am_db m)"

lemma saving_db [simp]: "am_db (fst (saving v m x)) = am_db m" "am_db (try_save v m) = am_db m"
  by (simp_all add: saving_def try_save_def)

lemma raw_db [simp]: "am_db (keep_raw uid raw m) = am_db m" "am_db (drop_raw uid m) = am_db m"
  by (simp_all add: keep_raw_def drop_raw_def)

lemma first_hit_Some:
  assumes "first_hit f xs = Some (ys, r)"
  obtains pre x post x' where "xs = pre @ x # post" "ys = pre @ x' # post" "f x = Some (x', r)" "\<forall>y \<in> set pre. f y = None"
  using assms
proof (induction xs arbitrary: ys thesis)
  case (Cons a xs)
  show ?case
  proof (cases "f a")
    case None
    then obtain zs where zs: "first_hit f xs = Some (zs, r)" "ys = a # zs" using Cons.prems(2) by (auto split: prod.splits)
    obtain pre x post x' where *: "xs = pre @ x # post" "zs = pre @ x' # post" "f x = Some (x', r)" "\<forall>y \<in> set pre. f y = None"
      by (rule Cons.IH [OF _ zs(1)])
    show ?thesis
      by (rule Cons.prems(1) [of "a # pre" x post x']) (use * zs(2) None in simp_all)
  next
    case (Some q)
    then show ?thesis using Cons.prems(1) [of "[]" a xs] Cons.prems(2) by (cases q) auto
  qed
qed simp

lemma first_hit_at:
  "\<forall>y \<in> set pre. f y = None \<Longrightarrow> f x = Some (x', r) \<Longrightarrow> first_hit f (pre @ x # post) = Some (pre @ x' # post, r)"
  by (induction pre) auto

lemma first_hit_all:
  assumes "first_hit f xs = Some (ys, r)" "\<forall>x \<in> set xs. Q x" "\<And>x x'. Q x \<Longrightarrow> f x = Some (x', r) \<Longrightarrow> Q x'"
  shows "\<forall>y \<in> set ys. Q y"
  by (rule first_hit_Some [OF assms(1)]) (use assms(2,3) in auto)

lemma first_hit_None: "first_hit f xs = None \<longleftrightarrow> (\<forall>x \<in> set xs. f x = None)"
  by (induction xs) (auto split: option.splits)

lemma tl_subset: "set (tl xs) \<subseteq> set xs"
  by (cases xs) auto

lemma ensured_db:
  "users_of (ensured v m) = map (\<lambda>u. if us_TenantID u = [] then u\<lparr>us_TenantID := DefaultTenantID\<rparr> else u) (users_of m)"
  "ad_Invites (am_db (ensured v m)) = ad_Invites (am_db m)" "ad_Configs (am_db (ensured v m)) = ad_Configs (am_db m)"
  "ad_SchemaVersion (am_db (ensured v m)) = ad_SchemaVersion (am_db m)"
  by (simp_all add: ensured_def ensureTenantsLocked_def Let_def)

lemma put_db [simp]:
  "users_of (put_tenant tid t m) = users_of m" "users_of (put_invite c i m) = users_of m" "users_of (markInviteUsedLocked v c uid m) = users_of m"
  "users_of (set_users us m) = us" "users_of (add_user u raw m) = users_of m @ [u]"
  "tenants (put_invite c i m) = tenants m" "tenants (markInviteUsedLocked v c uid m) = tenants m" "tenants (set_users us m) = tenants m"
  "tenants (add_user u raw m) = tenants m"
  "invites (put_tenant tid t m) = invites m" "invites (set_users us m) = invites m" "invites (add_user u raw m) = invites m"
  by (simp_all add: put_tenant_def put_invite_def markInviteUsedLocked_def set_users_def add_user_def tenants_def invites_def split: option.split)

text \<open>\<open>updateUser\<close> changes at most the first user with the number, and only as the change says.\<close>

lemma updateUser_cases:
  assumes "\<And>m. am_db (raw m) = am_db m"
  obtains (same) "am_db (fst (updateUser v uid mutate raw m)) = am_db m"
  | (edit) pre u post u' where "users_of m = pre @ u # post" "us_ID u = uid" "\<forall>w \<in> set pre. us_ID w \<noteq> uid" "mutate u = Inr u'"
      "am_db (fst (updateUser v uid mutate raw m)) = (am_db m)\<lparr>ad_Users := pre @ u' # post\<rparr>"
proof -
  let ?f = "\<lambda>u. if us_ID u = uid then Some (case mutate u of Inl e \<Rightarrow> (u, Some e) | Inr u' \<Rightarrow> (u', None)) else None"
  show thesis
  proof (cases "first_hit ?f (users_of m)")
    case None
    then show ?thesis by (intro same) (simp add: updateUser_def)
  next
    case (Some p)
    obtain us r where p: "p = (us, r)" by (cases p)
    show ?thesis
    proof (cases r)
      case (Some e)
      then show ?thesis using \<open>first_hit _ _ = Some p\<close> p by (intro same) (simp add: updateUser_def)
    next
      case None
      then have "first_hit ?f (users_of m) = Some (us, None)" using Some p by simp
      then obtain pre x post x' where *: "users_of m = pre @ x # post" "us = pre @ x' # post" "?f x = Some (x', None)" "\<forall>y \<in> set pre. ?f y = None"
        by (rule first_hit_Some)
      show ?thesis
      proof (rule edit [of pre x post x'])
        show "am_db (fst (updateUser v uid mutate raw m)) = (am_db m)\<lparr>ad_Users := pre @ x' # post\<rparr>"
          using Some p None *(2) by (simp add: updateUser_def assms set_users_def)
        show "\<forall>w \<in> set pre. us_ID w \<noteq> uid" using *(4) by (auto split: if_splits)
      qed (use * in \<open>auto split: if_splits sum.splits\<close>)
    qed
  qed
qed

section \<open>What holds of every user\<close>

text \<open>A property of single users that looks only at sessions and the old slot is kept by all operations if session by session it is.\<close>

locale user_law =
  fixes safe :: "auth_env \<Rightarrow> bool" and presented :: "auth_env \<Rightarrow> string \<Rightarrow> bool" and Q :: "user \<Rightarrow> bool"
  assumes same_credentials: "Q u \<Longrightarrow> us_Sessions u' = us_Sessions u \<Longrightarrow> us_Token u' = us_Token u \<Longrightarrow> us_TokenExp u' = us_TokenExp u \<Longrightarrow> Q u'"
    and no_credentials: "us_Sessions u = [] \<Longrightarrow> us_Token u = [] \<Longrightarrow> Q u"
    and issued: "safe v \<Longrightarrow> Q u \<Longrightarrow> issueSession v ttl u = Inr (raw, u') \<Longrightarrow> Q u'"
    and probed: "safe v \<Longrightarrow> Q u \<Longrightarrow> presented v token \<Longrightarrow> probe_token v token u = Some (u', a) \<Longrightarrow> Q u'"
    and revoked: "Q u \<Longrightarrow> revoke_in h u = Some u' \<Longrightarrow> Q u'"
begin

abbreviation law :: "auth_manager \<Rightarrow> bool" where
  "law m \<equiv> \<forall>u \<in> set (users_of m). Q u"

lemma law_fields:
  assumes "Q u"
  shows "Q (u\<lparr>us_TenantID := t\<rparr>)" "Q (u\<lparr>us_Username := t\<rparr>)" "Q (u\<lparr>us_PasswordHash := t\<rparr>)" "Q (u\<lparr>us_Role := t\<rparr>)" "Q (u\<lparr>us_Perms := ps\<rparr>)"
    "Q (u\<lparr>us_Enabled := b\<rparr>)" "Q (u\<lparr>us_ExpiresAt := n\<rparr>)"
  by (rule same_credentials [OF assms]; simp)+

lemma law_signed_out: "Q (signed_out u)"
  by (rule no_credentials) (simp_all add: signed_out_def)

lemma law_ensured: "law m \<Longrightarrow> law (ensured v m)"
  by (auto simp: ensured_db intro: law_fields)

lemma law_update:
  assumes "law m" "\<And>m. am_db (raw m) = am_db m" "\<And>u u'. Q u \<Longrightarrow> mutate u = Inr u' \<Longrightarrow> Q u'"
  shows "law (fst (updateUser v uid mutate raw m))"
  using assms(2)
proof (cases rule: updateUser_cases [where v = v and uid = uid and mutate = mutate and m = m and raw = raw])
  case same
  then show ?thesis using assms(1) by simp
next
  case (edit pre u post u')
  then show ?thesis using assms(1,3) by auto
qed

lemma law_new_user:
  assumes "safe v" "issueSession v ttl u0 = Inr (raw, u)" "us_Sessions u0 = []" "us_Token u0 = []"
  shows "Q u"
  by (rule issued [OF assms(1) no_credentials [OF assms(3,4)] assms(2)])

lemma law_fresh:
  assumes "safe v" "issueSession v ttl (fresh_user v i n p r t) = Inr (raw, u)"
  shows "Q u"
  by (rule law_new_user [OF assms]) (simp_all add: fresh_user_def)

lemma law_open:
  assumes "law m" "safe v"
  shows "law (fst (Register v n p c m))" "law (fst (CreateTemp v ttl c m))" "law (fst (SetupInitialAdmin v n p m))"
    "law (fst (CreateUserInTenant v t n p r ps k m))"
proof -
  have e: "law (ensured v m)" by (rule law_ensured [OF assms(1)])
  show "law (fst (Register v n p c m))"
    using assms e by (auto simp: Register_def Let_def split: option.split sum.split dest: law_fresh [OF assms(2)])
  show "law (fst (CreateTemp v ttl c m))"
    using assms by (auto simp: CreateTemp_def Let_def split: option.split sum.split dest: law_fresh [OF assms(2)] intro: law_fields)
  show "law (fst (SetupInitialAdmin v n p m))"
    using assms e by (auto simp: SetupInitialAdmin_def Let_def split: option.split sum.split dest: law_fresh [OF assms(2)])
  have "Q u" if "issueSession v tokenTTL ((fresh_user v i n h q w)\<lparr>us_Perms := ps, us_ExpiresAt := x\<rparr>) = Inr (raw, u)" for i n h q w ps x raw u
    by (rule law_new_user [OF assms(2) that]) (simp_all add: fresh_user_def)
  then show "law (fst (CreateUserInTenant v t n p r ps k m))"
    using assms e by (simp add: CreateUserInTenant_def Let_def split: option.split sum.split)
qed

lemma law_login:
  assumes "law m" "safe v"
  shows "law (fst (Login v n p m))"
proof -
  have logged: "Q u'" if "Q u" "login_user v p u = Inr (raw, u')" for u u' raw
    using that issued [OF assms(2)] by (auto simp: login_user_def split: if_splits)
  have edit: "law (set_users us m)"
    if "first_hit (\<lambda>u. if us_Username u = n then Some (case login_user v p u of Inl e \<Rightarrow> (u, Inl e) | Inr (raw, u') \<Rightarrow> (u', Inr (raw, u'))) else None)
      (users_of m) = Some (us, x)" for us x
    unfolding put_db by (rule first_hit_all [OF that assms(1)]) (auto split: sum.splits if_splits dest: logged)
  show ?thesis
    using assms edit by (simp add: Login_def split: option.split sum.split)
qed

lemma law_validate:
  assumes "law m" "presented v t" "safe v"
  shows "law (fst (ValidateToken v t m))"
proof -
  have "law (set_users us m)" if "first_hit (\<lambda>u. map_option (\<lambda>(u', a). (u', (u', a))) (probe_token v t u)) (users_of m) = Some (us, x)" for us x
    unfolding put_db by (rule first_hit_all [OF that assms(1)]) (auto intro: probed [OF assms(3) _ assms(2)])
  then show ?thesis
    using assms(1) by (simp add: ValidateToken_def Let_def split: option.split token_answer.split prod.split)
qed

lemma law_revoke:
  assumes "law m"
  shows "law (fst (RevokeSession v t m))"
proof -
  have "law (set_users us m)" if "first_hit (\<lambda>u. map_option (\<lambda>u'. (u', us_ID u)) (revoke_in (ae_Hash v t) u)) (users_of m) = Some (us, x)" for us x
    unfolding put_db by (rule first_hit_all [OF that assms]) (auto intro: revoked)
  moreover have "am_db m1 = am_db m2" if "saving v m2 () = (m1, r)" for m1 m2 r
    using saving_db(1) [of v m2 "()"] that by simp
  ultimately show ?thesis
    using assms by (simp add: RevokeSession_def split: option.split prod.split sum.split)
qed

lemma law_move:
  assumes "law m"
  shows "law (fst (MoveUser v u t m))"
proof -
  have "law (set_users us (ensured v m))"
    if "first_hit (\<lambda>w. if us_ID w = u then Some (w\<lparr>us_TenantID := x\<rparr>, w) else None) (users_of (ensured v m)) = Some (us, y)" for us x y
    unfolding put_db by (rule first_hit_all [OF that law_ensured [OF assms]]) (auto split: if_splits intro: law_fields)
  then show ?thesis
    using law_ensured [OF assms] by (simp add: MoveUser_def Let_def split: option.split)
qed

lemma law_step:
  assumes "law m" "\<And>t. op = OpValidate t \<Longrightarrow> presented v t" "safe v"
  shows "law (auth_step m (v, op))"
proof (cases op)
  case (OpCreateTenant n q)
  then show ?thesis using assms law_ensured by (simp add: CreateTenant_def Let_def)
next
  case (OpUpdateTenant t n b q)
  then show ?thesis using assms by (simp add: UpdateTenant_def Let_def split: option.split)
next
  case (OpInvite t)
  then show ?thesis using assms law_ensured by (simp add: CreateInviteFor_def Let_def split: option.split)
next
  case (OpRole u r)
  have "law (fst (updateUser v u (\<lambda>u. if b u then Inl LastPlatformAdmin else Inr (u\<lparr>us_Role := r\<rparr>)) id m))" for b
    by (rule law_update [OF assms(1)]) (auto split: if_splits intro: law_fields)
  then show ?thesis using assms(1) OpRole by (simp add: SetRole_def)
next
  case (OpPassword u p)
  have "law (fst (updateUser v u (\<lambda>u. Inr (signed_out (u\<lparr>us_PasswordHash := h\<rparr>))) (drop_raw u) m))" for h
    by (rule law_update [OF assms(1)]) (auto intro: law_signed_out)
  then show ?thesis using assms(1) OpPassword by (simp add: ChangePassword_def split: option.split)
next
  case (OpEnable u b)
  have "law (fst (SetEnabled v u b m))"
    unfolding SetEnabled_def by (rule law_update [OF assms(1)]) (auto split: if_splits intro: law_signed_out law_fields)
  then show ?thesis using OpEnable by simp
next
  case (OpExpiry u n)
  have "law (fst (updateUser v u (\<lambda>u. if b u then Inl AdminNeverExpires else Inr (u\<lparr>us_ExpiresAt := x\<rparr>)) id m))" for b x
    by (rule law_update [OF assms(1)]) (auto split: if_splits intro: law_fields)
  then show ?thesis using assms(1) OpExpiry by (simp add: SetExpiry_def)
next
  case (OpDelete u)
  have "set (takeWhile P us @ tl (dropWhile P us)) \<subseteq> set us" for P and us :: "user list"
  proof -
    have "set (tl (dropWhile P us)) \<subseteq> set (dropWhile P us)" by (rule tl_subset)
    then have "set (tl (dropWhile P us)) \<subseteq> set us" using set_dropWhileD by fast
    then show ?thesis using set_takeWhileD by fastforce
  qed
  then have "law (set_users (takeWhile P (users_of m) @ tl (dropWhile P (users_of m))) m)" for P
    using assms(1) by fastforce
  then show ?thesis using assms(1) OpDelete by (simp add: DeleteUser_def Let_def split: option.split)
next
  case (OpConfig u k x)
  then show ?thesis using assms(1) by (simp add: SetConfig_def Let_def)
next
  case (OpGrant u p)
  have "law (fst (GrantPerm v u p m))"
    unfolding GrantPerm_def by (rule law_update [OF assms(1)]) (auto intro: law_fields)
  then show ?thesis using OpGrant by simp
next
  case (OpUngrant u p)
  have "law (fst (RevokePerm v u p m))"
    unfolding RevokePerm_def by (rule law_update [OF assms(1)]) (auto intro: law_fields)
  then show ?thesis using OpUngrant by simp
next
  case (OpPerms u ps)
  have "law (fst (SetPerms v u ps m))"
    unfolding SetPerms_def by (rule law_update [OF assms(1)]) (auto intro: law_fields)
  then show ?thesis using OpPerms by simp
next
  case (OpValidate t)
  then show ?thesis using law_validate [OF assms(1) assms(2) assms(3)] by simp
next
  case (OpRegister n p c)
  show ?thesis unfolding OpRegister auth_step.simps by (rule law_open(1) [OF assms(1,3)])
next
  case (OpTemp ttl c)
  show ?thesis unfolding OpTemp auth_step.simps by (rule law_open(2) [OF assms(1,3)])
next
  case (OpSetup n p)
  show ?thesis unfolding OpSetup auth_step.simps by (rule law_open(3) [OF assms(1,3)])
next
  case (OpCreate t n p r ps k)
  show ?thesis unfolding OpCreate auth_step.simps by (rule law_open(4) [OF assms(1,3)])
next
  case (OpLogin n p)
  show ?thesis unfolding OpLogin auth_step.simps by (rule law_login [OF assms(1,3)])
next
  case (OpRevoke t)
  show ?thesis unfolding OpRevoke auth_step.simps by (rule law_revoke [OF assms(1)])
next
  case (OpMove u t)
  show ?thesis unfolding OpMove auth_step.simps by (rule law_move [OF assms(1)])
qed

end

section \<open>Tokens\<close>

text \<open>A user for whom a token is dead: none of the sessions has its hash, nor has the old slot, which must not hold the token itself either.\<close>

definition dead :: "(string \<Rightarrow> string) \<Rightarrow> string \<Rightarrow> user \<Rightarrow> bool" where
  "dead h t u \<longleftrightarrow> (\<forall>s \<in> set (us_Sessions u). se_Token s \<noteq> h t) \<and> (us_Token u = [] \<or> (us_Token u \<noteq> h t \<and> us_Token u \<noteq> t))"

text \<open>Text that collides neither with the token nor with its hash.\<close>

definition unlike :: "(string \<Rightarrow> string) \<Rightarrow> string \<Rightarrow> string \<Rightarrow> bool" where
  "unlike h t x \<longleftrightarrow> h x \<noteq> h t \<and> h x \<noteq> t"

lemma last_sessions:
  assumes "0 < n"
  shows "(if n < length (xs @ [x]) then drop (length (xs @ [x]) - n) (xs @ [x]) else xs @ [x]) = drop (Suc (length xs) - n) xs @ [x]"
proof -
  have "Suc (length xs) - n \<le> length xs" using assms by linarith
  then show ?thesis by simp
qed

lemma issued_sessions:
  assumes "issueSession v ttl u = Inr (raw, u')"
  shows "ae_Random v = Some raw" "us_Token u' = ae_Hash v raw" "us_TokenExp u' = unix v + ttl"
    "\<exists>old. us_Sessions u' = old @ [\<lparr>se_Token = ae_Hash v raw, se_Exp = unix v + ttl, se_CreatedAt = unix v\<rparr>] \<and> set old \<subseteq> set (us_Sessions u)"
    "length (us_Sessions u') \<le> maxSessions" "us_ID u' = us_ID u" "us_Enabled u' = us_Enabled u" "us_ExpiresAt u' = us_ExpiresAt u"
    "us_Role u' = us_Role u" "us_TenantID u' = us_TenantID u" "us_Username u' = us_Username u"
proof -
  let ?new = "\<lparr>se_Token = ae_Hash v raw, se_Exp = unix v + ttl, se_CreatedAt = unix v\<rparr>"
  have raw: "ae_Random v = Some raw" using assms by (auto simp: issueSession_def Let_def split: option.splits)
  let ?old = "drop (Suc (length (filter (live_session v) (us_Sessions u))) - maxSessions) (filter (live_session v) (us_Sessions u))"
  have cut: "0 < maxSessions" by (simp add: maxSessions_def)
  have u': "u' = u\<lparr>us_Sessions := ?old @ [?new], us_Token := ae_Hash v raw, us_TokenExp := unix v + ttl\<rparr>"
    using assms raw unfolding issueSession_def Let_def last_sessions [OF cut] by simp
  show "ae_Random v = Some raw" by (rule raw)
  show "us_Token u' = ae_Hash v raw" "us_TokenExp u' = unix v + ttl" using u' by simp_all
  have "set ?old \<subseteq> set (filter (live_session v) (us_Sessions u))" by (rule set_drop_subset)
  also have "\<dots> \<subseteq> set (us_Sessions u)" by (rule filter_is_subset)
  finally show "\<exists>old. us_Sessions u' = old @ [?new] \<and> set old \<subseteq> set (us_Sessions u)" using u' by auto
  show "length (us_Sessions u') \<le> maxSessions" using u' cut by simp
  show "us_ID u' = us_ID u" "us_Enabled u' = us_Enabled u" "us_ExpiresAt u' = us_ExpiresAt u" "us_Role u' = us_Role u"
    "us_TenantID u' = us_TenantID u" "us_Username u' = us_Username u"
    using u' by simp_all
qed

lemma drop_session_subset: "set (drop_session h ss) \<subseteq> set ss"
proof -
  have "set (tl (dropWhile (\<lambda>s. se_Token s \<noteq> h) ss)) \<subseteq> set ss" using tl_subset set_dropWhileD by fast
  then show ?thesis unfolding drop_session_def using set_takeWhileD by fastforce
qed

lemma dead_probe: "dead (ae_Hash v) t u \<Longrightarrow> probe_token v t u = None"
proof -
  assume d: "dead (ae_Hash v) t u"
  then have "find (\<lambda>s. se_Token s = ae_Hash v t) (us_Sessions u) = None" by (simp add: dead_def find_None)
  then show ?thesis using d by (auto simp: probe_token_def dead_def)
qed

lemma probe_changes:
  assumes "probe_token v x u = Some (u', a)"
  shows "set (us_Sessions u') \<subseteq> set (us_Sessions u) \<and> us_Token u' = us_Token u \<or>
     us_Token u' = ae_Hash v x \<and> (\<exists>e c. us_Sessions u' = us_Sessions u @ [\<lparr>se_Token = ae_Hash v x, se_Exp = e, se_CreatedAt = c\<rparr>])"
  using assms drop_session_subset [of "ae_Hash v x" "us_Sessions u"]
  by (auto simp: probe_token_def Let_def split: option.splits if_splits)

lemma revoke_changes:
  assumes "revoke_in h u = Some u'"
  shows "set (us_Sessions u') \<subseteq> set (us_Sessions u) \<and> (us_Token u' = us_Token u \<or> us_Token u' = [])"
  using assms drop_session_subset [of h "us_Sessions u"] by (auto simp: revoke_in_def Let_def split: if_splits)

interpretation dying: user_law "\<lambda>v. ae_Hash v = h \<and> (\<forall>raw. ae_Random v = Some raw \<longrightarrow> unlike h t raw)"
  "\<lambda>v x. x = t \<or> unlike h t x" "dead h t" for h t
proof (unfold_locales, goal_cases)
  case (3 v u ttl raw u')
  have raw: "unlike h t raw" and h: "ae_Hash v = h" using 3(1) issued_sessions(1) [OF 3(3)] by auto
  obtain old where old: "us_Sessions u' = old @ [\<lparr>se_Token = h raw, se_Exp = unix v + ttl, se_CreatedAt = unix v\<rparr>]" "set old \<subseteq> set (us_Sessions u)"
    using issued_sessions(4) [OF 3(3)] h by blast
  have "us_Token u' = h raw" using issued_sessions(2) [OF 3(3)] h by simp
  then show ?case using 3(2) old raw by (auto simp: dead_def unlike_def)
next
  case (4 v u x u' a)
  have h: "ae_Hash v = h" using 4(1) by simp
  have "x \<noteq> t" using dead_probe [of v t u] 4(2,4) h by auto
  then have x: "unlike h t x" using 4(3) by simp
  show ?case using probe_changes [OF 4(4)] 4(2) x h by (auto simp: dead_def unlike_def)
next
  case (5 u hh u')
  then show ?case using revoke_changes [OF 5(2)] by (auto simp: dead_def)
qed (simp_all add: dead_def)

text \<open>The calls that cannot bring a token back: their random bytes and the tokens they present do not collide with it.\<close>

fun no_collision :: "(string \<Rightarrow> string) \<Rightarrow> string \<Rightarrow> auth_env \<times> auth_op \<Rightarrow> bool" where
  "no_collision h t (v, op) \<longleftrightarrow> ae_Hash v = h \<and> (case ae_Random v of Some raw \<Rightarrow> unlike h t raw | None \<Rightarrow> True) \<and>
     (case op of OpValidate x \<Rightarrow> x = t \<or> unlike h t x | _ \<Rightarrow> True)"

interpretation gone: conditional_system auth_step "no_collision h t" "\<lambda>m. \<forall>u \<in> set (users_of m). dead h t u" for h t
proof (unfold_locales, goal_cases)
  case (1 m vop)
  obtain v op where [simp]: "vop = (v, op)" by (cases vop)
  show ?case
    unfolding \<open>vop = (v, op)\<close>
    by (rule dying.law_step [where h = h]) (use 1 in \<open>auto split: option.splits\<close>)
qed

lemma dead_invalid:
  assumes "\<forall>u \<in> set (users_of m). dead (ae_Hash v) t u"
  shows "snd (ValidateToken v t m) = None"
proof -
  have "first_hit (\<lambda>u. map_option (\<lambda>(u', a). (u', (u', a))) (probe_token v t u)) (users_of m) = None"
    using assms by (auto simp: first_hit_None dead_probe)
  then show ?thesis by (simp add: ValidateToken_def)
qed

text \<open>Only the user with the number holds the token, once, and not as plain text.\<close>

definition sole_token :: "(string \<Rightarrow> string) \<Rightarrow> string \<Rightarrow> string \<Rightarrow> auth_manager \<Rightarrow> bool" where
  "sole_token h t uid m \<longleftrightarrow>
     (\<exists>pre u post. users_of m = pre @ u # post \<and> us_ID u = uid \<and> (\<forall>w \<in> set pre. us_ID w \<noteq> uid) \<and>
        (\<forall>w \<in> set (pre @ post). dead h t w) \<and> length (filter (\<lambda>s. se_Token s = h t) (us_Sessions u)) \<le> 1 \<and> us_Token u \<noteq> t)"

text \<open>The calls that end it: the sign-out with the token, a new password, the closing of the account.\<close>

fun ends_token :: "string \<Rightarrow> string \<Rightarrow> auth_manager \<Rightarrow> auth_env \<times> auth_op \<Rightarrow> bool" where
  "ends_token t uid m (v, OpRevoke x) \<longleftrightarrow> x = t \<and> snd (RevokeSession v x m)"
| "ends_token t uid m (v, OpPassword w p) \<longleftrightarrow> w = uid \<and> snd (ChangePassword v w p m) = Inr ()"
| "ends_token t uid m (v, OpEnable w b) \<longleftrightarrow> w = uid \<and> \<not> b \<and> snd (SetEnabled v w b m) = Inr ()"
| "ends_token t uid m _ \<longleftrightarrow> False"

lemma drop_only_session:
  assumes "length (filter (\<lambda>s. se_Token s = h) ss) \<le> 1" "s \<in> set (drop_session h ss)"
  shows "se_Token s \<noteq> h"
proof (cases "dropWhile (\<lambda>s. se_Token s \<noteq> h) ss")
  case Nil
  then have "s \<in> set (takeWhile (\<lambda>s. se_Token s \<noteq> h) ss)" using assms(2) by (simp only: drop_session_def) simp
  then show ?thesis by (auto dest: set_takeWhileD)
next
  case (Cons a rest)
  have "se_Token a = h" using hd_dropWhile [of "\<lambda>s. se_Token s \<noteq> h" ss] Cons by simp
  moreover have "filter (\<lambda>s. se_Token s = h) ss = filter (\<lambda>s. se_Token s = h) (takeWhile (\<lambda>s. se_Token s \<noteq> h) ss) @ filter (\<lambda>s. se_Token s = h) (a # rest)"
    by (metis Cons filter_append takeWhile_dropWhile_id)
  ultimately have "filter (\<lambda>s. se_Token s = h) rest = []" using assms(1) by auto
  then show ?thesis using assms(2) Cons by (auto simp: drop_session_def filter_empty_conv dest: set_takeWhileD)
qed

lemma saving_snd: "snd (saving v m x) = Inr y \<Longrightarrow> x = y \<and> ae_Saved v"
  by (simp add: saving_def split: if_splits)

lemma updateUser_done:
  assumes "snd (updateUser v uid mutate raw m) = Inr ()" "\<And>m. am_db (raw m) = am_db m" "users_of m = pre @ u # post" "us_ID u = uid"
    "\<forall>w \<in> set pre. us_ID w \<noteq> uid"
  shows "\<exists>u'. mutate u = Inr u' \<and> users_of (fst (updateUser v uid mutate raw m)) = pre @ u' # post"
proof -
  have "first_hit (\<lambda>u. if us_ID u = uid then Some (case mutate u of Inl e \<Rightarrow> (u, Some e) | Inr u' \<Rightarrow> (u', None)) else None) (users_of m) =
      Some (case mutate u of Inl e \<Rightarrow> (pre @ u # post, Some e) | Inr u' \<Rightarrow> (pre @ u' # post, None))"
    unfolding assms(3)
    by (cases "mutate u") (use assms(4,5) in \<open>auto intro!: first_hit_at\<close>)
  then show ?thesis
    using assms(1,2) by (auto simp: updateUser_def set_users_def split: sum.splits)
qed

lemma ended_everywhere:
  assumes "sole_token (ae_Hash v) t uid m" "ends_token t uid m (v, op)" "t \<noteq> []"
  shows "\<forall>u \<in> set (users_of (auth_step m (v, op))). dead (ae_Hash v) t u"
proof -
  obtain pre u post where u: "users_of m = pre @ u # post" "us_ID u = uid" "\<forall>w \<in> set pre. us_ID w \<noteq> uid"
    "\<forall>w \<in> set (pre @ post). dead (ae_Hash v) t w" "length (filter (\<lambda>s. se_Token s = ae_Hash v t) (us_Sessions u)) \<le> 1" "us_Token u \<noteq> t"
    using assms(1) by (auto simp: sole_token_def)
  have out: "dead (ae_Hash v) t (signed_out w)" for w by (simp add: dead_def signed_out_def)
  consider x where "op = OpRevoke x" | w p where "op = OpPassword w p" | w b where "op = OpEnable w b"
    using assms(2) by (cases op) auto
  then show ?thesis
  proof cases
    case (1 x)
    let ?f = "\<lambda>u. map_option (\<lambda>u'. (u', us_ID u)) (revoke_in (ae_Hash v t) u)"
    have rev: "snd (RevokeSession v t m)" and x: "x = t" using assms(2) 1 by auto
    then obtain us i where hit: "first_hit ?f (users_of m) = Some (us, i)"
      using assms(3) by (auto simp: RevokeSession_def split: option.splits)
    have none: "revoke_in (ae_Hash v t) w = None" if "w \<in> set (pre @ post)" for w
      using u(4) that by (auto simp: revoke_in_def dead_def list_ex_iff)
    obtain u' where u': "revoke_in (ae_Hash v t) u = Some u'"
    proof (cases "revoke_in (ae_Hash v t) u")
      case None
      then have "first_hit ?f (users_of m) = None" using none u(1) by (auto simp: first_hit_None)
      then show ?thesis using hit by simp
    qed auto
    have "us = pre @ u' # post"
      using hit u(1) u' none by (simp add: first_hit_at [where x' = u' and r = "us_ID u"])
    moreover have "users_of (fst (RevokeSession v t m)) = us"
      using rev hit assms(3) by (auto simp: RevokeSession_def saving_def split: option.splits prod.splits sum.splits if_splits)
    moreover have "dead (ae_Hash v) t u'"
      using u' u(5,6) drop_only_session [OF u(5)] by (auto simp: revoke_in_def dead_def Let_def list_ex_iff split: if_splits)
    ultimately show ?thesis using 1 x u(4) by auto
  next
    case (2 w p)
    then have p: "p \<noteq> []" "w = uid" and ok: "snd (ChangePassword v uid p m) = Inr ()" using assms(2) by (auto simp: ChangePassword_def)
    then obtain h where "ae_Bcrypt v p = Some h" by (auto simp: ChangePassword_def split: option.splits)
    then show ?thesis
      using ok p 2 updateUser_done [OF _ _ u(1,2,3), of v "\<lambda>u. Inr (signed_out (u\<lparr>us_PasswordHash := h\<rparr>))" "drop_raw uid"] u(4) out
      by (auto simp: ChangePassword_def)
  next
    case (3 w b)
    then have ok: "w = uid" "\<not> b" "snd (SetEnabled v uid False m) = Inr ()" using assms(2) by auto
    then show ?thesis
      using 3 updateUser_done [OF _ _ u(1,2,3), of v "\<lambda>u. if us_Role u = RoleAdmin \<and> \<not> False then Inl AdminNotDisabled else Inr (if False then u\<lparr>us_Enabled := False\<rparr> else signed_out (u\<lparr>us_Enabled := False\<rparr>))" "drop_raw uid"] u(4) out
      by (auto simp: SetEnabled_def split: if_splits)
  qed
qed

text \<open>C35: a token that was signed out, or whose account was closed or got a new password, opens nothing afterwards, whatever calls
  follow, the reopening of the account and new logins among them, as long as no later random token and no token presented later collides with it.\<close>

theorem revoked_tokens_dead:
  assumes "t \<noteq> []" "sole_token (ae_Hash v) t uid m" "ends_token t uid m (v, op)"
    and "list_all (no_collision (ae_Hash v) t) ops" "ae_Hash v' = ae_Hash v"
  shows "snd (ValidateToken v' t (foldl auth_step (auth_step m (v, op)) ops)) = None"
  using gone.inv_run [OF ended_everywhere [OF assms(2,3,1)] assms(4)] dead_invalid [of _ v' t] assms(5) by simp

end
