(* ===== verification/AccountLimits.thy ===== *)
theory AccountLimits
  imports AccountFacts
begin

text \<open>
  What the calls do to the numbers, roles and tenants of the users, to the tenants and to the invitations; from it: one account per invitation, a
  platform administrator that stays, tenants within their quota, a file that gives the database back.
\<close>

section \<open>Numbers, roles, tenants\<close>

type_synonym user_tag = "string \<times> string \<times> string"

definition tag :: "user \<Rightarrow> user_tag" where
  "tag u = (us_ID u, us_Role u, us_TenantID u)"

abbreviation tags :: "auth_manager \<Rightarrow> user_tag list" where
  "tags m \<equiv> map tag (users_of m)"

definition settled :: "user_tag \<Rightarrow> user_tag" where
  "settled = (\<lambda>(i, r, t). (i, r, if t = [] then DefaultTenantID else t))"

definition runs_platform :: "user_tag \<Rightarrow> bool" where
  "runs_platform = (\<lambda>(i, r, t). r = RoleAdmin \<and> (t = [] \<or> t = DefaultTenantID))"

definition member_of :: "string \<Rightarrow> user_tag \<Rightarrow> bool" where
  "member_of tid = (\<lambda>(i, r, t). \<not> has_prefix i ''tmp_'' \<and> (if t = [] then DefaultTenantID else t) = tid)"

lemma default_nonempty [simp]: "DefaultTenantID \<noteq> []"
  by (simp add: DefaultTenantID_def)

lemma settled_counts: "runs_platform (settled x) = runs_platform x" "member_of tid (settled x) = member_of tid x"
  by (auto simp: settled_def runs_platform_def member_of_def split: prod.split)

lemma admins_by_tags: "platform_admins m = length (filter runs_platform (tags m))"
  by (auto simp: platform_admins_def filter_map comp_def runs_platform_def tag_def effectiveTenant_def intro!: arg_cong [where f = length] filter_cong)

lemma members_by_tags: "countMembersLocked m tid = int (length (filter (member_of tid) (tags m)))"
  by (auto simp: countMembersLocked_def filter_map comp_def member_of_def tag_def effectiveTenant_def is_temp_def intro!: arg_cong [where f = length] filter_cong)

lemma tags_ensured: "tags (ensured v m) = map settled (tags m)"
  by (auto simp: ensured_db tag_def settled_def)

lemma count_settled: "length (filter P (map settled xs)) = length (filter P xs)" if "\<And>x. P (settled x) = P x"
  by (simp add: filter_map comp_def that)

lemma counts_ensured:
  "platform_admins (ensured v m) = platform_admins m" "countMembersLocked (ensured v m) tid = countMembersLocked m tid"
  by (simp_all only: admins_by_tags members_by_tags tags_ensured count_settled [of runs_platform, OF settled_counts(1)]
    count_settled [of "member_of tid", OF settled_counts(2)])

lemma tags_hit:
  assumes "first_hit f xs = Some (ys, r)" "\<And>x x'. f x = Some (x', r) \<Longrightarrow> tag x' = tag x"
  shows "map tag ys = map tag xs"
  by (rule first_hit_Some [OF assms(1)]) (use assms(2) in simp)

lemma tags_update:
  assumes "\<And>m. am_db (raw m) = am_db m" "\<And>u u'. mutate u = Inr u' \<Longrightarrow> tag u' = tag u"
  shows "tags (fst (updateUser v uid mutate raw m)) = tags m"
  using assms(1)
proof (cases rule: updateUser_cases [where v = v and uid = uid and mutate = mutate and m = m and raw = raw])
  case (edit pre u post u')
  then show ?thesis using assms(2) by simp
qed simp

lemma rest_update:
  assumes "\<And>m. am_db (raw m) = am_db m"
  shows "tenants (fst (updateUser v uid mutate raw m)) = tenants m" "invites (fst (updateUser v uid mutate raw m)) = invites m"
    "ad_SchemaVersion (am_db (fst (updateUser v uid mutate raw m))) = ad_SchemaVersion (am_db m)"
  using assms
  by (cases rule: updateUser_cases [where v = v and uid = uid and mutate = mutate and m = m and raw = raw], simp_all add: tenants_def invites_def)+

lemma tag_edits [simp]:
  "tag (signed_out u) = tag u" "tag (u\<lparr>us_PasswordHash := x\<rparr>) = tag u" "tag (u\<lparr>us_Perms := ps\<rparr>) = tag u" "tag (u\<lparr>us_Enabled := b\<rparr>) = tag u"
  "tag (u\<lparr>us_ExpiresAt := n\<rparr>) = tag u" "tag (u\<lparr>us_Sessions := ss\<rparr>) = tag u" "tag (u\<lparr>us_Token := x\<rparr>) = tag u" "tag (u\<lparr>us_TokenExp := n\<rparr>) = tag u"
  "tag (u\<lparr>us_Username := x\<rparr>) = tag u"
  by (simp_all add: tag_def signed_out_def)

lemma tag_issued: "issueSession v ttl u = Inr (raw, u') \<Longrightarrow> tag u' = tag u"
  by (auto dest: issued_sessions simp: tag_def)

lemma tag_probed: "probe_token v t u = Some (u', a) \<Longrightarrow> tag u' = tag u"
  by (auto simp: probe_token_def Let_def split: option.splits if_splits)

lemma tag_revoked: "revoke_in h u = Some u' \<Longrightarrow> tag u' = tag u"
  by (auto simp: revoke_in_def Let_def split: if_splits)

lemma saving_rest [simp]: "tenants (fst (saving v m x)) = tenants m" "invites (fst (saving v m x)) = invites m"
  "tenants (try_save v m) = tenants m" "invites (try_save v m) = invites m"
  by (simp_all add: tenants_def invites_def)

lemma raw_rest [simp]: "tenants (keep_raw u r m) = tenants m" "invites (keep_raw u r m) = invites m" "tenants (drop_raw u m) = tenants m"
  "invites (drop_raw u m) = invites m"
  by (simp_all add: tenants_def invites_def)

lemma set_users_schema [simp]: "ad_SchemaVersion (am_db (set_users us m)) = ad_SchemaVersion (am_db m)"
  by (simp add: set_users_def)

lemma ensured_invites [simp]: "invites (ensured v m) = invites m"
  by (simp add: invites_def ensured_db)

lemma ensured_tenant: "map_of (tenants m) tid = Some t \<Longrightarrow> map_of (tenants (ensured v m)) tid = Some t"
  by (auto simp: tenants_def ensured_def ensureTenantsLocked_def Let_def update_conv)

text \<open>The calls on sessions and on single users.\<close>

lemma login_frame:
  "tags (fst (Login v n p m)) = tags m" "tenants (fst (Login v n p m)) = tenants m" "invites (fst (Login v n p m)) = invites m"
  "ad_SchemaVersion (am_db (fst (Login v n p m))) = ad_SchemaVersion (am_db m)"
proof -
  have t: "map tag us = tags m"
    if "first_hit (\<lambda>u. if us_Username u = n then Some (case login_user v p u of Inl e \<Rightarrow> (u, Inl e) | Inr (raw, u') \<Rightarrow> (u', Inr (raw, u'))) else None)
      (users_of m) = Some (us, x)" for us x
    by (rule tags_hit [OF that]) (auto simp: login_user_def split: if_splits sum.splits dest: tag_issued)
  show "tags (fst (Login v n p m)) = tags m"
    by (auto simp: Login_def split: option.split sum.split dest: t)
qed (auto simp: Login_def split: option.split sum.split)

lemma validate_frame:
  "tags (fst (ValidateToken v t m)) = tags m" "tenants (fst (ValidateToken v t m)) = tenants m" "invites (fst (ValidateToken v t m)) = invites m"
  "ad_SchemaVersion (am_db (fst (ValidateToken v t m))) = ad_SchemaVersion (am_db m)"
proof -
  have "map tag us = tags m" if "first_hit (\<lambda>u. map_option (\<lambda>(u', a). (u', (u', a))) (probe_token v t u)) (users_of m) = Some (us, x)" for us x
    by (rule tags_hit [OF that]) (auto dest: tag_probed)
  then show "tags (fst (ValidateToken v t m)) = tags m"
    by (auto simp: ValidateToken_def Let_def split: option.split token_answer.split)
qed (auto simp: ValidateToken_def Let_def split: option.split token_answer.split)

lemma saving_fst: "saving v m x = (m1, r) \<Longrightarrow> am_db m1 = am_db m"
  using saving_db(1) [of v m x] by simp

lemma revoke_frame:
  "tags (fst (RevokeSession v t m)) = tags m" "tenants (fst (RevokeSession v t m)) = tenants m" "invites (fst (RevokeSession v t m)) = invites m"
  "ad_SchemaVersion (am_db (fst (RevokeSession v t m))) = ad_SchemaVersion (am_db m)"
proof -
  have "map tag us = tags m" if "first_hit (\<lambda>u. map_option (\<lambda>u'. (u', us_ID u)) (revoke_in (ae_Hash v t) u)) (users_of m) = Some (us, x)" for us x
    by (rule tags_hit [OF that]) (auto dest: tag_revoked)
  then show "tags (fst (RevokeSession v t m)) = tags m"
    by (auto simp: RevokeSession_def split: option.split sum.split prod.split dest: saving_fst)
qed (simp_all add: RevokeSession_def tenants_def invites_def saving_def split: option.split sum.split prod.split, simp_all add: set_users_def)

lemma tags_step:
  assumes "\<not> (\<exists>n q t n' p c ttl u r ps k. op \<in> {OpCreateTenant n q, OpInvite t, OpRegister n p c, OpTemp ttl c, OpSetup n p, OpRole u r, OpMove u t,
     OpCreate t n p r ps k, OpDelete u})"
  shows "tags (auth_step m (v, op)) = tags m"
proof (cases op)
  case (OpUpdateTenant t n b q)
  then show ?thesis by (simp add: UpdateTenant_def Let_def split: option.split)
next
  case (OpLogin n p)
  then show ?thesis by (simp add: login_frame)
next
  case (OpValidate t)
  then show ?thesis by (simp add: validate_frame)
next
  case (OpRevoke t)
  then show ?thesis by (simp add: revoke_frame)
next
  case (OpGrant u p)
  then show ?thesis by (auto simp: GrantPerm_def intro!: tags_update split: if_splits)
next
  case (OpUngrant u p)
  then show ?thesis by (auto simp: RevokePerm_def intro!: tags_update)
next
  case (OpPerms u ps)
  then show ?thesis by (auto simp: SetPerms_def intro!: tags_update)
next
  case (OpPassword u p)
  then show ?thesis by (auto simp: ChangePassword_def intro!: tags_update split: option.split)
next
  case (OpEnable u b)
  then show ?thesis by (auto simp: SetEnabled_def intro!: tags_update split: if_splits)
next
  case (OpExpiry u n)
  then show ?thesis by (auto simp: SetExpiry_def intro!: tags_update split: if_splits)
next
  case (OpConfig u k x)
  then show ?thesis by (simp add: SetConfig_def Let_def)
qed (use assms in auto)

text \<open>The table of tenants and the version of the schema.\<close>

lemma tenants_step:
  assumes "\<nexists>n q t n' b q'. op = OpCreateTenant n q \<or> op = OpUpdateTenant t n' b q'"
  shows "tenants (auth_step m (v, op)) \<in> {tenants m, tenants (ensured v m)}"
proof (cases op)
  case (OpInvite t)
  then show ?thesis by (auto simp: CreateInviteFor_def Let_def split: option.split)
next
  case (OpRegister n p c)
  then show ?thesis by (auto simp: Register_def Let_def split: option.split sum.split)
next
  case (OpTemp ttl c)
  then show ?thesis by (auto simp: CreateTemp_def Let_def split: option.split sum.split)
next
  case (OpSetup n p)
  then show ?thesis by (auto simp: SetupInitialAdmin_def Let_def tenants_def add_user_def split: option.split sum.split)
next
  case (OpCreate t n p r ps k)
  then show ?thesis by (auto simp: CreateUserInTenant_def Let_def split: option.split sum.split)
next
  case (OpMove u t)
  then show ?thesis by (auto simp: MoveUser_def Let_def split: option.split)
next
  case (OpDelete u)
  then show ?thesis by (simp add: DeleteUser_def Let_def split: option.split)
next
  case (OpConfig u k x)
  then show ?thesis by (simp add: SetConfig_def Let_def tenants_def)
qed (use assms in \<open>auto simp: login_frame validate_frame revoke_frame SetRole_def GrantPerm_def RevokePerm_def SetPerms_def ChangePassword_def SetEnabled_def
      SetExpiry_def rest_update split: option.split\<close>)

lemma schema_ensured [simp]: "ad_SchemaVersion (am_db (ensured v m)) = ad_SchemaVersion (am_db m)"
  by (simp add: ensured_db)

lemma schema_put [simp]: "ad_SchemaVersion (am_db (put_tenant tid t m)) = ad_SchemaVersion (am_db m)"
  "ad_SchemaVersion (am_db (put_invite c i m)) = ad_SchemaVersion (am_db m)" "ad_SchemaVersion (am_db (add_user u raw m)) = ad_SchemaVersion (am_db m)"
  "ad_SchemaVersion (am_db (markInviteUsedLocked v c uid m)) = ad_SchemaVersion (am_db m)"
  by (simp_all add: put_tenant_def put_invite_def add_user_def markInviteUsedLocked_def split: option.split)

lemma schema_step: "ad_SchemaVersion (am_db (auth_step m (v, op))) = ad_SchemaVersion (am_db m)"
proof (cases op)
  case (OpCreateTenant n q)
  then show ?thesis by (simp add: CreateTenant_def Let_def)
next
  case (OpUpdateTenant t n b q)
  then show ?thesis by (simp add: UpdateTenant_def Let_def split: option.split)
next
  case (OpInvite t)
  then show ?thesis by (simp add: CreateInviteFor_def Let_def split: option.split)
next
  case (OpRegister n p c)
  then show ?thesis by (simp add: Register_def Let_def split: option.split sum.split)
next
  case (OpTemp ttl c)
  then show ?thesis by (simp add: CreateTemp_def Let_def split: option.split sum.split)
next
  case (OpSetup n p)
  then show ?thesis by (simp add: SetupInitialAdmin_def Let_def split: option.split sum.split)
next
  case (OpCreate t n p r ps k)
  then show ?thesis by (simp add: CreateUserInTenant_def Let_def split: option.split sum.split)
next
  case (OpMove u t)
  then show ?thesis by (simp add: MoveUser_def Let_def split: option.split)
next
  case (OpDelete u)
  then show ?thesis by (simp add: DeleteUser_def Let_def split: option.split)
next
  case (OpConfig u k x)
  then show ?thesis by (simp add: SetConfig_def Let_def)
qed (simp_all add: login_frame validate_frame revoke_frame SetRole_def GrantPerm_def RevokePerm_def SetPerms_def ChangePassword_def SetEnabled_def
      SetExpiry_def rest_update split: option.split)

text \<open>What the four ways to open an account add.\<close>

lemma admitted:
  assumes "checkTenantAdmissionLocked m tid = None"
  shows "\<exists>t. map_of (tenants m) tid = Some t \<and> tn_Enabled t \<and> countMembersLocked m tid < MaxUsersOr (tn_Quota t)"
  using assms by (auto simp: checkTenantAdmissionLocked_def split: option.splits if_splits)

lemma tag_fresh: "issueSession v ttl (fresh_user v i n h r tid) = Inr (raw, u) \<Longrightarrow> tag u = (i, r, tid)"
  "issueSession v ttl ((fresh_user v i n h r tid)\<lparr>us_Perms := ps, us_ExpiresAt := x\<rparr>) = Inr (raw, u) \<Longrightarrow> tag u = (i, r, tid)"
  by (auto dest!: tag_issued simp: fresh_user_def tag_def)

lemma invite_tenant_nonempty [simp]: "invite_tenant c m \<noteq> []"
  by (auto simp: invite_tenant_def split: option.split)

definition admitted_tag :: "auth_env \<Rightarrow> auth_manager \<Rightarrow> user_tag \<Rightarrow> bool" where
  "admitted_tag v m x \<longleftrightarrow> (case x of (i, r, t) \<Rightarrow> t \<noteq> [] \<and> checkTenantAdmissionLocked (ensured v m) t = None)"

lemma opening_tags:
  shows "tags (fst (Register v n p c m)) \<in> {tags m, map settled (tags m)} \<or>
      (\<exists>x. admitted_tag v m x \<and> tags (fst (Register v n p c m)) = map settled (tags m) @ [x])"
    and "tags (fst (CreateTemp v ttl c m)) = tags m \<or>
      (\<exists>i r t. has_prefix i ''tmp_'' \<and> t \<noteq> [] \<and> tags (fst (CreateTemp v ttl c m)) = tags m @ [(i, r, t)])"
    and "tags (fst (SetupInitialAdmin v n p m)) \<in> {tags m, map settled (tags m)} \<or>
      (\<exists>i r. tags (fst (SetupInitialAdmin v n p m)) = map settled (tags m) @ [(i, r, DefaultTenantID)])"
    and "tags (fst (CreateUserInTenant v t n p r ps k m)) \<in> {tags m, map settled (tags m)} \<or>
      (\<exists>x. admitted_tag v m x \<and> tags (fst (CreateUserInTenant v t n p r ps k m)) = map settled (tags m) @ [x])"
proof -
  show "tags (fst (Register v n p c m)) \<in> {tags m, map settled (tags m)} \<or>
      (\<exists>x. admitted_tag v m x \<and> tags (fst (Register v n p c m)) = map settled (tags m) @ [x])"
    by (auto simp: Register_def Let_def admitted_tag_def tags_ensured split: option.split sum.split dest!: tag_fresh(1))
  have p: "has_prefix (''tmp_'' @ x) ''tmp_''" for x by (simp add: has_prefix_def)
  show "tags (fst (CreateTemp v ttl c m)) = tags m \<or>
      (\<exists>i r t. has_prefix i ''tmp_'' \<and> t \<noteq> [] \<and> tags (fst (CreateTemp v ttl c m)) = tags m @ [(i, r, t)])"
    using p by (auto simp: CreateTemp_def Let_def split: option.split sum.split dest!: tag_fresh(1))
  show "tags (fst (SetupInitialAdmin v n p m)) \<in> {tags m, map settled (tags m)} \<or>
      (\<exists>i r. tags (fst (SetupInitialAdmin v n p m)) = map settled (tags m) @ [(i, r, DefaultTenantID)])"
    by (auto simp: SetupInitialAdmin_def Let_def tags_ensured split: option.split sum.split dest!: tag_fresh(1))
  show "tags (fst (CreateUserInTenant v t n p r ps k m)) \<in> {tags m, map settled (tags m)} \<or>
      (\<exists>x. admitted_tag v m x \<and> tags (fst (CreateUserInTenant v t n p r ps k m)) = map settled (tags m) @ [x])"
    by (auto simp: CreateUserInTenant_def Let_def admitted_tag_def tags_ensured split: option.split sum.split dest!: tag_fresh(2))
qed

lemma move_tags:
  "tags (fst (MoveUser v u t m)) = map settled (tags m) \<or>
     (\<exists>pre i r t0 t1 post. map settled (tags m) = pre @ (i, r, t0) # post \<and> t1 \<noteq> [] \<and> checkTenantAdmissionLocked (ensured v m) t1 = None \<and>
        tags (fst (MoveUser v u t m)) = pre @ (i, r, t1) # post)"
proof -
  let ?t = "if t = [] then DefaultTenantID else t"
  let ?f = "\<lambda>w. if us_ID w = u then Some (w\<lparr>us_TenantID := ?t\<rparr>, w) else None"
  show ?thesis
  proof (cases "first_hit ?f (users_of (ensured v m))")
    case None
    then have "tags (fst (MoveUser v u t m)) = tags (ensured v m)" by (simp add: MoveUser_def Let_def)
    then show ?thesis by (simp add: tags_ensured)
  next
    case (Some p)
    then obtain us w where p: "first_hit ?f (users_of (ensured v m)) = Some (us, w)" by (cases p) auto
    then obtain pre x post x' where *: "users_of (ensured v m) = pre @ x # post" "us = pre @ x' # post" "?f x = Some (x', w)"
      by (rule first_hit_Some)
    then have x': "w = x" "x' = x\<lparr>us_TenantID := ?t\<rparr>" by (auto split: if_splits)
    have "tags (fst (MoveUser v u t m)) = tags (ensured v m) \<or>
        checkTenantAdmissionLocked (ensured v m) ?t = None \<and> tags (fst (MoveUser v u t m)) = map tag us"
      using p by (simp add: MoveUser_def Let_def split: option.split)
    moreover have old: "map settled (tags m) = map tag pre @ (us_ID x, us_Role x, us_TenantID x) # map tag post"
      using *(1) unfolding tags_ensured [symmetric, of m v] by (simp add: tag_def)
    moreover have new: "map tag us = map tag pre @ (us_ID x, us_Role x, ?t) # map tag post" using *(2) x' by (simp add: tag_def)
    moreover have t: "?t \<noteq> []" by simp
    ultimately show ?thesis
      unfolding tags_ensured
    proof (elim disjE conjE)
      assume "checkTenantAdmissionLocked (ensured v m) ?t = None" "tags (fst (MoveUser v u t m)) = map tag us"
      then show ?thesis using old new t by (intro disjI2 exI conjI) (assumption | simp)+
    qed (rule disjI1)
  qed
qed

lemma role_tags:
  "tags (fst (SetRole v u r m)) = tags m \<or>
     (\<exists>pre i r0 t post. tags m = pre @ (i, r0, t) # post \<and> tags (fst (SetRole v u r m)) = pre @ (i, r, t) # post \<and>
        (r \<noteq> RoleAdmin \<longrightarrow> runs_platform (i, r0, t) \<longrightarrow> 1 < platform_admins m))"
proof -
  let ?mut = "\<lambda>u. if r \<noteq> RoleAdmin \<and> us_Role u = RoleAdmin \<and> effectiveTenant u = DefaultTenantID \<and> platform_admins m \<le> 1 then Inl LastPlatformAdmin
             else Inr (u\<lparr>us_Role := r\<rparr>)"
  show ?thesis
  proof (cases "r \<noteq> RoleAdmin \<and> r \<noteq> RoleUser")
    case True
    then show ?thesis by (simp add: SetRole_def)
  next
    case False
    then have set: "SetRole v u r m = updateUser v u ?mut id m" unfolding SetRole_def by (rule if_not_P)
    have "am_db (id m) = am_db m" for m by simp
    then show ?thesis
    proof (cases rule: updateUser_cases [where v = v and uid = u and mutate = ?mut and m = m and raw = id])
      case same
      then show ?thesis by (simp add: set)
    next
      case (edit pre w post w')
      have w': "w' = w\<lparr>us_Role := r\<rparr>" using edit(4) by (auto split: if_splits)
      have "1 < platform_admins m" if "r \<noteq> RoleAdmin" "runs_platform (us_ID w, us_Role w, us_TenantID w)"
        using edit(4) that by (auto simp: runs_platform_def effectiveTenant_def split: if_splits)
      moreover have "tags m = map tag pre @ (us_ID w, us_Role w, us_TenantID w) # map tag post" using edit(1) by (simp add: tag_def)
      moreover have "tags (fst (SetRole v u r m)) = map tag pre @ (us_ID w, r, us_TenantID w) # map tag post"
        using edit(5) w' by (simp add: set tag_def)
      ultimately show ?thesis by blast
    qed
  qed
qed

lemma delete_tags:
  "tags (fst (DeleteUser v u m)) = tags m \<or>
     (\<exists>pre x post. tags m = pre @ x # post \<and> \<not> runs_platform x \<and> tags (fst (DeleteUser v u m)) = pre @ post)"
proof (cases "find (\<lambda>w. us_ID w = u) (users_of m)")
  case None
  then show ?thesis by (simp add: DeleteUser_def Let_def)
next
  case (Some w)
  let ?pre = "takeWhile (\<lambda>w. us_ID w \<noteq> u) (users_of m)"
  have "dropWhile (\<lambda>w. us_ID w \<noteq> u) (users_of m) = w # tl (dropWhile (\<lambda>w. us_ID w \<noteq> u) (users_of m))"
    using Some by (simp add: find_dropWhile comp_def split: list.splits)
  then have "users_of m = ?pre @ w # tl (dropWhile (\<lambda>w. us_ID w \<noteq> u) (users_of m))"
    by (metis takeWhile_dropWhile_id)
  then have "tags m = map tag ?pre @ tag w # map tag (tl (dropWhile (\<lambda>w. us_ID w \<noteq> u) (users_of m)))"
    by (metis list.simps(9) map_append)
  moreover have "tags (fst (DeleteUser v u m)) = tags m \<or> \<not> runs_platform (tag w) \<and>
      tags (fst (DeleteUser v u m)) = map tag ?pre @ map tag (tl (dropWhile (\<lambda>w. us_ID w \<noteq> u) (users_of m)))"
    using Some by (auto simp: DeleteUser_def Let_def runs_platform_def tag_def)
  ultimately show ?thesis by blast
qed

section \<open>The platform keeps an administrator\<close>

definition not_moving :: "auth_env \<times> auth_op \<Rightarrow> bool" where
  "not_moving = (\<lambda>(v, op). case op of OpMove u t \<Rightarrow> False | _ \<Rightarrow> True)"

lemma admins_step:
  assumes "0 < platform_admins m" "not_moving (v, op)"
  shows "0 < platform_admins (auth_step m (v, op))"
proof -
  let ?n = "\<lambda>xs. length (filter runs_platform xs)"
  define T where "T = tags m"
  have now: "0 < ?n T" using assms(1) by (simp only: admins_by_tags T_def)
  have settled: "?n (map settled T) = ?n T" by (rule count_settled [of runs_platform, OF settled_counts(1)])
  have opened: "0 < ?n xs" if "xs \<in> {T, map settled T} \<or> (\<exists>x. P x \<and> xs = map settled T @ [x])" for xs P
    using that
  proof (elim disjE exE conjE)
    fix x assume "xs = map settled T @ [x]"
    then have "?n xs = ?n (map settled T) + ?n [x]" by (simp only: filter_append length_append)
    then show ?thesis using now settled by linarith
  next
    assume "xs \<in> {T, map settled T}"
    then have "?n xs = ?n T" using settled by (elim insertE) (simp_all only: empty_iff)
    then show ?thesis using now by linarith
  qed
  have "0 < ?n (tags (auth_step m (v, op)))"
  proof (cases op)
    case (OpCreateTenant n q)
    then have "tags (auth_step m (v, op)) \<in> {tags m, map settled (tags m)}"
      by (auto simp: CreateTenant_def Let_def tags_ensured)
    then show ?thesis using opened [where P = "\<lambda>x. False"] by (simp only: T_def) blast
  next
    case (OpInvite t)
    then have "tags (auth_step m (v, op)) \<in> {tags m, map settled (tags m)}"
      by (auto simp: CreateInviteFor_def Let_def tags_ensured split: option.split)
    then show ?thesis using opened [where P = "\<lambda>x. False"] by (simp only: T_def) blast
  next
    case (OpRegister n p c)
    then show ?thesis using opened [OF opening_tags(1) [of v n p c m, folded T_def]] by (simp only: auth_step.simps)
  next
    case (OpTemp ttl c)
    from opening_tags(2) [of v ttl c m, folded T_def] show ?thesis
    proof (elim disjE exE conjE)
      fix i r t assume "tags (fst (CreateTemp v ttl c m)) = T @ [(i, r, t)]"
      then have "?n (tags (fst (CreateTemp v ttl c m))) = ?n T + ?n [(i, r, t)]" by (simp only: filter_append length_append)
      then show ?thesis using now OpTemp by simp
    qed (use now OpTemp in \<open>simp only: auth_step.simps\<close>)
  next
    case (OpSetup n p)
    have "\<exists>x. True \<and> tags (fst (SetupInitialAdmin v n p m)) = map settled T @ [x]"
      if "\<exists>i r. tags (fst (SetupInitialAdmin v n p m)) = map settled T @ [(i, r, DefaultTenantID)]" using that by blast
    then have "0 < ?n (tags (fst (SetupInitialAdmin v n p m)))"
      using opening_tags(3) [of v n p m, folded T_def] opened [where P = "\<lambda>x. True"] by blast
    then show ?thesis unfolding OpSetup auth_step.simps .
  next
    case (OpCreate t n p r ps k)
    then show ?thesis using opened [OF opening_tags(4) [of v t n p r ps k m, folded T_def]] by (simp only: auth_step.simps)
  next
    case (OpRole u r)
    from role_tags [of v u r m, folded T_def] show ?thesis
    proof (elim disjE exE conjE)
      fix pre i r0 t post
      assume *: "T = pre @ (i, r0, t) # post" "tags (fst (SetRole v u r m)) = pre @ (i, r, t) # post"
        "r \<noteq> RoleAdmin \<longrightarrow> runs_platform (i, r0, t) \<longrightarrow> 1 < platform_admins m"
      show ?thesis
      proof (cases "runs_platform (i, r0, t) \<and> r \<noteq> RoleAdmin")
        case True
        then have "1 < platform_admins m" using *(3) by blast
        then have "1 < ?n (pre @ (i, r0, t) # post)" by (simp only: admins_by_tags T_def [symmetric] *(1))
        then have "0 < ?n (pre @ (i, r, t) # post)" using True by simp
        then show ?thesis unfolding OpRole auth_step.simps *(2) .
      next
        case False
        then have "runs_platform (i, r0, t) \<longrightarrow> runs_platform (i, r, t)" by (auto simp: runs_platform_def)
        then have "0 < ?n (pre @ (i, r, t) # post)" using now unfolding *(1) by (auto split: if_splits)
        then show ?thesis unfolding OpRole auth_step.simps *(2) .
      qed
    qed (use now OpRole in \<open>simp only: auth_step.simps\<close>)
  next
    case (OpDelete u)
    from delete_tags [of v u m, folded T_def] show ?thesis
    proof (elim disjE exE conjE)
      fix pre x post assume *: "T = pre @ x # post" "\<not> runs_platform x" "tags (fst (DeleteUser v u m)) = pre @ post"
      have "0 < ?n (pre @ post)" using now *(2) unfolding *(1) by simp
      then show ?thesis unfolding OpDelete auth_step.simps *(3) .
    qed (use now OpDelete in \<open>simp only: auth_step.simps\<close>)
  next
    case (OpMove u t)
    then show ?thesis using assms(2) by (simp add: not_moving_def)
  qed (use now tags_step [of op m v, folded T_def] in \<open>simp_all del: length_greater_0_conv auth_step.simps\<close>)
  then show ?thesis by (simp only: admins_by_tags)
qed

interpretation admins: conditional_system auth_step not_moving "\<lambda>m. 0 < platform_admins m"
proof (unfold_locales, goal_cases)
  case (1 m op)
  then show ?case using admins_step by (cases op) simp
qed

text \<open>C37: as long as nobody is moved between tenants, no sequence of calls leaves the platform without an administrator of the
  default tenant.\<close>

theorem platform_admin_stays:
  assumes "0 < platform_admins m" "list_all not_moving ops"
  shows "0 < platform_admins (foldl auth_step m ops)"
  using admins.inv_run assms .

section \<open>Tenants within their quota\<close>

text \<open>The calls that leave the quota of a tenant alone and do not set up the system.\<close>

definition keeps_tenant :: "string \<Rightarrow> auth_env \<times> auth_op \<Rightarrow> bool" where
  "keeps_tenant tid = (\<lambda>(v, op). case op of OpSetup n p \<Rightarrow> False | OpUpdateTenant t n b q \<Rightarrow> t \<noteq> tid \<or> q = None
     | OpCreateTenant n q \<Rightarrow> ''t_'' @ itoa (ae_Now v) \<noteq> tid | _ \<Rightarrow> True)"

definition quota_of :: "string \<Rightarrow> auth_manager \<Rightarrow> tenant_quota option" where
  "quota_of tid m = map_option tn_Quota (map_of (tenants m) tid)"

lemma quota_ensured: "quota_of tid m = Some q \<Longrightarrow> quota_of tid (ensured v m) = Some q"
  by (auto simp: quota_of_def dest: ensured_tenant)

lemma quota_step:
  assumes "quota_of tid m = Some q" "keeps_tenant tid (v, op)"
  shows "quota_of tid (auth_step m (v, op)) = Some q"
proof (cases "\<exists>n x t n' b x'. op = OpCreateTenant n x \<or> op = OpUpdateTenant t n' b x'")
  case True
  then show ?thesis
    using assms quota_ensured [OF assms(1), of v]
    by (auto simp: CreateTenant_def UpdateTenant_def Let_def quota_of_def keeps_tenant_def put_tenant_def tenants_def update_conv split: option.splits)
next
  case False
  then show ?thesis using tenants_step [of op m v] assms(1) quota_ensured [OF assms(1), of v] by (auto simp: quota_of_def)
qed

lemma members_step:
  assumes "quota_of tid m = Some q" "keeps_tenant tid (v, op)"
  shows "countMembersLocked (auth_step m (v, op)) tid \<le> max (countMembersLocked m tid) (MaxUsersOr q)"
proof -
  let ?n = "\<lambda>xs. int (length (filter (member_of tid) xs))"
  define T where "T = tags m"
  have settled: "?n (map settled T) = ?n T" by (simp only: count_settled [of "member_of tid", OF settled_counts(2)])
  have room: "?n T < MaxUsersOr q" if "checkTenantAdmissionLocked (ensured v m) tid = None"
    using admitted [OF that] quota_ensured [OF assms(1), of v] counts_ensured(2) [of v m tid]
    by (auto simp: quota_of_def members_by_tags T_def simp del: filter_map map_map)
  have one: "?n (xs @ [x]) \<le> ?n xs + 1" for xs and x :: user_tag by simp
  have elsewhere: "\<not> member_of tid (i, r, t)" if "t \<noteq> []" "t \<noteq> tid" for i r t using that by (simp add: member_of_def)
  have opened: "?n xs \<le> max (?n T) (MaxUsersOr q)"
    if "xs \<in> {T, map settled T} \<or> (\<exists>x. admitted_tag v m x \<and> xs = map settled T @ [x])" for xs
    using that
  proof (elim disjE exE conjE)
    fix x assume *: "admitted_tag v m x" "xs = map settled T @ [x]"
    obtain i r t where x: "x = (i, r, t)" by (cases x)
    show ?thesis
    proof (cases "t = tid")
      case True
      then have "?n T < MaxUsersOr q" using *(1) x room by (simp add: admitted_tag_def)
      then show ?thesis using one [of "map settled T" x] settled unfolding *(2) by linarith
    next
      case False
      then have "\<not> member_of tid x" using *(1) x elsewhere by (simp add: admitted_tag_def)
      then have "?n (map settled T @ [x]) = ?n (map settled T)" by simp
      then show ?thesis using settled unfolding *(2) by linarith
    qed
  next
    assume "xs \<in> {T, map settled T}"
    then have "?n xs = ?n T" using settled by (elim insertE) (simp_all only: empty_iff)
    then show ?thesis by linarith
  qed
  have "?n (tags (auth_step m (v, op))) \<le> max (?n T) (MaxUsersOr q)"
  proof (cases op)
    case (OpCreateTenant n q)
    then have "tags (auth_step m (v, op)) \<in> {tags m, map settled (tags m)}"
      by (auto simp: CreateTenant_def Let_def tags_ensured)
    then show ?thesis using opened unfolding T_def by blast
  next
    case (OpInvite t)
    then have "tags (auth_step m (v, op)) \<in> {tags m, map settled (tags m)}"
      by (auto simp: CreateInviteFor_def Let_def tags_ensured split: option.split)
    then show ?thesis using opened unfolding T_def by blast
  next
    case (OpRegister n p c)
    then show ?thesis using opened [OF opening_tags(1) [of v n p c m, folded T_def]] by (simp only: auth_step.simps)
  next
    case (OpTemp ttl c)
    from opening_tags(2) [of v ttl c m, folded T_def] show ?thesis
    proof (elim disjE exE conjE)
      fix i r t assume *: "has_prefix i ''tmp_''" "tags (fst (CreateTemp v ttl c m)) = T @ [(i, r, t)]"
      have "?n (T @ [(i, r, t)]) = ?n T" using *(1) by (simp add: member_of_def)
      then show ?thesis unfolding OpTemp auth_step.simps *(2) by simp
    qed (use OpTemp in simp)
  next
    case (OpSetup n p)
    then show ?thesis using assms(2) by (simp add: keeps_tenant_def)
  next
    case (OpCreate t n p r ps k)
    then show ?thesis using opened [OF opening_tags(4) [of v t n p r ps k m, folded T_def]] by (simp only: auth_step.simps)
  next
    case (OpRole u r)
    have "?n (pre @ (i, r, t) # post) = ?n (pre @ (i, r0, t) # post)" for pre post i r0 t by (simp add: member_of_def)
    then have "?n (tags (fst (SetRole v u r m))) = ?n T" using role_tags [of v u r m, folded T_def] by metis
    then show ?thesis unfolding OpRole auth_step.simps by simp
  next
    case (OpDelete u)
    have "?n (pre @ post) \<le> ?n (pre @ x # post)" for pre post and x :: user_tag by simp
    then have "?n (tags (fst (DeleteUser v u m))) \<le> ?n T" using delete_tags [of v u m, folded T_def] by (metis order_refl)
    then show ?thesis unfolding OpDelete auth_step.simps by simp
  next
    case (OpMove u t)
    from move_tags [of v u t m, folded T_def] show ?thesis
    proof (elim disjE exE conjE)
      fix pre i r t0 t1 post
      assume *: "map settled T = pre @ (i, r, t0) # post" "t1 \<noteq> []" "checkTenantAdmissionLocked (ensured v m) t1 = None"
        "tags (fst (MoveUser v u t m)) = pre @ (i, r, t1) # post"
      have base: "?n (pre @ post) \<le> ?n T" using settled unfolding *(1) by (simp split: if_splits)
      show ?thesis
      proof (cases "t1 = tid")
        case True
        then have "?n T < MaxUsersOr q" using *(3) room by simp
        moreover have "?n (pre @ (i, r, t1) # post) \<le> ?n (pre @ post) + 1" by simp
        ultimately show ?thesis using base unfolding OpMove auth_step.simps *(4) by linarith
      next
        case False
        then have "?n (pre @ (i, r, t1) # post) = ?n (pre @ post)" using elsewhere [OF *(2)] by simp
        then show ?thesis using base unfolding OpMove auth_step.simps *(4) by linarith
      qed
    qed (use settled OpMove in simp)
  qed (use tags_step [of op m v, folded T_def] in \<open>simp_all del: auth_step.simps\<close>)
  then show ?thesis by (simp only: members_by_tags T_def)
qed

interpretation quotas: conditional_system auth_step "keeps_tenant tid"
  "\<lambda>m. quota_of tid m = Some q \<and> countMembersLocked m tid \<le> max c (MaxUsersOr q)" for tid q c
proof (unfold_locales, goal_cases)
  case (1 m op)
  then show ?case using quota_step members_step by (cases op) fastforce
qed

text \<open>C38: while its quota stands, a tenant never has more regular members than the quota allows, or than it had before.\<close>

theorem tenant_quota_holds:
  assumes "quota_of tid m = Some q" "list_all (keeps_tenant tid) ops"
  shows "countMembersLocked (foldl auth_step m ops) tid \<le> max (countMembersLocked m tid) (MaxUsersOr q)"
  using quotas.inv_run [of tid m q "countMembersLocked m tid" ops] assms by simp

end
