(* ===== verification/AccountRuns.thy ===== *)
theory AccountRuns
  imports AccountLimits
begin

text \<open>Invitations open one account; the file gives the database back; what a login hands out opens the account.\<close>

section \<open>Invitations\<close>

definition spent :: "string \<Rightarrow> auth_manager \<Rightarrow> bool" where
  "spent c m \<longleftrightarrow> (case map_of (invites m) c of Some i \<Rightarrow> iv_UsedBy i \<noteq> [] | None \<Rightarrow> False)"

text \<open>The calls that open an account with an invitation, and their number in a run.\<close>

fun opens :: "string \<Rightarrow> auth_manager \<Rightarrow> auth_env \<times> auth_op \<Rightarrow> bool" where
  "opens c m (v, OpRegister n p d) \<longleftrightarrow> d = c \<and> \<not> isl (snd (Register v n p d m))"
| "opens c m (v, OpTemp ttl d) \<longleftrightarrow> d = c \<and> \<not> isl (snd (CreateTemp v ttl d m))"
| "opens c m _ \<longleftrightarrow> False"

fun openings :: "string \<Rightarrow> auth_manager \<Rightarrow> (auth_env \<times> auth_op) list \<Rightarrow> nat" where
  "openings c m [] = 0"
| "openings c m (x # xs) = (if opens c m x then 1 else 0) + openings c (auth_step m x) xs"

text \<open>No invitation is drawn with this code again.\<close>

definition not_redrawn :: "string \<Rightarrow> auth_env \<times> auth_op \<Rightarrow> bool" where
  "not_redrawn c = (\<lambda>(v, op). case op of OpInvite t \<Rightarrow> map_option ((@) ''QT'') (ae_Code v) \<noteq> Some c | _ \<Rightarrow> True)"

lemma marked_spent: "uid \<noteq> [] \<Longrightarrow> spent c m \<or> (d = c \<and> map_of (invites m) c \<noteq> None) \<Longrightarrow> spent c (markInviteUsedLocked v d uid m)"
  by (auto simp: spent_def markInviteUsedLocked_def put_invite_def invites_def update_conv split: option.splits)

lemma saving_spent [simp]: "spent c (fst (saving v m x)) = spent c m" "spent c (ensured v m) = spent c m" "spent c (add_user u r m) = spent c m"
  "spent c (set_users us m) = spent c m" "spent c (put_tenant t tn m) = spent c m"
  by (simp_all add: spent_def)

lemma consumable: "consumeInviteLocked c m = None \<Longrightarrow> map_of (invites m) c \<noteq> None \<and> \<not> spent c m"
  by (auto simp: consumeInviteLocked_def spent_def split: if_splits option.splits)

lemma opened_id: "issueSession v ttl (fresh_user v i n h r tid) = Inr (raw, u) \<Longrightarrow> us_ID u = i"
  by (auto dest!: issued_sessions(6) simp: fresh_user_def)

lemma new_uid_nonempty [simp]: "new_uid v \<noteq> []"
  by (simp add: new_uid_def)

lemma register_spends:
  shows "spent c m \<Longrightarrow> spent c (fst (Register v n p d m))" "\<not> isl (snd (Register v n p c m)) \<Longrightarrow> spent c (fst (Register v n p c m))"
    "spent c m \<Longrightarrow> spent c (fst (CreateTemp v ttl d m))" "\<not> isl (snd (CreateTemp v ttl c m)) \<Longrightarrow> spent c (fst (CreateTemp v ttl c m))"
    "\<not> isl (snd (Register v n p c m)) \<Longrightarrow> \<not> spent c m" "\<not> isl (snd (CreateTemp v ttl c m)) \<Longrightarrow> \<not> spent c m"
proof -
  show "spent c m \<Longrightarrow> spent c (fst (Register v n p d m))"
    by (auto simp: Register_def Let_def split: option.split sum.split intro!: marked_spent dest: opened_id)
  show "\<not> isl (snd (Register v n p c m)) \<Longrightarrow> spent c (fst (Register v n p c m))"
    by (auto simp: Register_def Let_def split: option.splits sum.splits if_splits intro!: marked_spent dest: opened_id consumable)
  show "spent c m \<Longrightarrow> spent c (fst (CreateTemp v ttl d m))"
    by (auto simp: CreateTemp_def Let_def split: option.split sum.split intro!: marked_spent dest: opened_id)
  show "\<not> isl (snd (CreateTemp v ttl c m)) \<Longrightarrow> spent c (fst (CreateTemp v ttl c m))"
    by (auto simp: CreateTemp_def Let_def split: option.splits sum.splits intro!: marked_spent dest: opened_id consumable)
  show "\<not> isl (snd (Register v n p c m)) \<Longrightarrow> \<not> spent c m" "\<not> isl (snd (CreateTemp v ttl c m)) \<Longrightarrow> \<not> spent c m"
    by (auto simp: Register_def CreateTemp_def split: option.splits dest: consumable)
qed

lemma spent_update [simp]:
  assumes "\<And>m. am_db (raw m) = am_db m"
  shows "spent c (fst (updateUser v uid mutate raw m)) = spent c m"
  by (simp add: spent_def rest_update(2) [OF assms])

lemma spent_step:
  assumes "spent c m" "not_redrawn c (v, op)"
  shows "spent c (auth_step m (v, op))"
proof (cases op)
  case (OpCreateTenant n q)
  then show ?thesis using assms(1) by (simp add: CreateTenant_def Let_def)
next
  case (OpUpdateTenant t n b q)
  then show ?thesis using assms(1) by (simp add: UpdateTenant_def Let_def split: option.split)
next
  case (OpInvite t)
  then show ?thesis
    using assms by (auto simp: CreateInviteFor_def Let_def not_redrawn_def spent_def put_invite_def invites_def update_conv ensured_db split: option.splits)
next
  case (OpRegister n p d)
  then show ?thesis using register_spends(1) [OF assms(1)] by simp
next
  case (OpTemp ttl d)
  then show ?thesis using register_spends(3) [OF assms(1)] by simp
next
  case (OpSetup n p)
  then show ?thesis
    using assms(1) by (auto simp: SetupInitialAdmin_def Let_def spent_def invites_def add_user_def keep_raw_def ensured_db split: option.split sum.split)
next
  case (OpCreate t n p r ps k)
  then show ?thesis using assms(1) by (simp add: CreateUserInTenant_def Let_def split: option.split sum.split)
next
  case (OpMove u t)
  then show ?thesis using assms(1) by (simp add: MoveUser_def Let_def split: option.split)
next
  case (OpLogin n p)
  then show ?thesis using assms(1) by (simp add: spent_def login_frame)
next
  case (OpValidate t)
  then show ?thesis using assms(1) by (simp add: spent_def validate_frame)
next
  case (OpRevoke t)
  then show ?thesis using assms(1) by (simp add: spent_def revoke_frame)
next
  case (OpDelete u)
  then show ?thesis using assms(1) by (simp add: DeleteUser_def Let_def split: option.split)
next
  case (OpConfig u k x)
  then show ?thesis using assms(1) by (simp add: SetConfig_def Let_def spent_def invites_def)
qed (use assms(1) in \<open>simp_all add: SetRole_def GrantPerm_def RevokePerm_def SetPerms_def ChangePassword_def SetEnabled_def SetExpiry_def
      split: option.split\<close>)

lemma opens_spends: "opens c m (v, op) \<Longrightarrow> spent c (auth_step m (v, op)) \<and> \<not> spent c m"
  by (cases op) (auto simp: register_spends)

lemma spent_opens_nothing: "spent c m \<Longrightarrow> list_all (not_redrawn c) ops \<Longrightarrow> openings c m ops = 0"
proof (induction ops arbitrary: m)
  case (Cons x xs)
  obtain v op where x: "x = (v, op)" by (cases x)
  have "\<not> opens c m x" using opens_spends Cons.prems(1) x by blast
  moreover have "spent c (auth_step m x)" using spent_step Cons.prems x by auto
  ultimately show ?case using Cons.IH Cons.prems(2) by simp
qed simp

text \<open>C36: an invitation opens at most one account, regular or temporary, in any sequence of calls in which its code is not drawn
  a second time.\<close>

theorem one_account_per_invite:
  assumes "list_all (not_redrawn c) ops"
  shows "openings c m ops \<le> 1"
  using assms
proof (induction ops arbitrary: m)
  case (Cons x xs)
  obtain v op where x: "x = (v, op)" by (cases x)
  show ?case
  proof (cases "opens c m x")
    case True
    then have "openings c (auth_step m x) xs = 0" using opens_spends x spent_opens_nothing Cons.prems by auto
    then show ?thesis by simp
  next
    case False
    then show ?thesis using Cons by simp
  qed
qed simp

section \<open>Restarts\<close>

definition db_ready :: "auth_db \<Rightarrow> bool" where
  "db_ready d \<longleftrightarrow> schemaVersion \<le> ad_SchemaVersion d \<and> map_of (ad_Tenants d) DefaultTenantID \<noteq> None \<and> (\<forall>u \<in> set (ad_Users d). us_TenantID u \<noteq> [])"

definition synced :: "auth_manager \<Rightarrow> bool" where
  "synced m \<longleftrightarrow> db_ready (am_db m) \<and> am_file m = AuthFile (am_db m)"

lemma ready_ensured: "db_ready (am_db m) \<Longrightarrow> ensured v m = m"
proof -
  assume r: "db_ready (am_db m)"
  have "map (\<lambda>u. if us_TenantID u = [] then u\<lparr>us_TenantID := DefaultTenantID\<rparr> else u) (users_of m) = users_of m"
    by (rule map_idI) (use r in \<open>auto simp: db_ready_def\<close>)
  then show ?thesis using r by (auto simp: ensured_def ensureTenantsLocked_def Let_def db_ready_def)
qed

lemma ready_by_tags: "db_ready (am_db m) \<longleftrightarrow>
  schemaVersion \<le> ad_SchemaVersion (am_db m) \<and> map_of (tenants m) DefaultTenantID \<noteq> None \<and> (\<forall>(i, r, t) \<in> set (tags m). t \<noteq> [])"
  by (auto simp: db_ready_def tenants_def tag_def)

lemma saving_synced: "ae_Saved v \<Longrightarrow> db_ready (am_db m) \<Longrightarrow> synced (fst (saving v m x))"
  by (simp add: saving_def synced_def)

lemma settled_tags: "(\<forall>(i, r, t) \<in> set ts. t \<noteq> []) \<Longrightarrow> map settled ts = ts"
  by (rule map_idI) (auto simp: settled_def)

lemma default_stays:
  assumes "map_of (tenants m) tid \<noteq> None"
  shows "map_of (tenants (auth_step m (v, op))) tid \<noteq> None"
proof (cases "\<exists>n x t n' b x'. op = OpCreateTenant n x \<or> op = OpUpdateTenant t n' b x'")
  case True
  then show ?thesis
    using assms ensured_tenant [of m tid _ v]
    by (auto simp: CreateTenant_def UpdateTenant_def Let_def put_tenant_def tenants_def update_conv split: option.splits)
next
  case False
  then show ?thesis using tenants_step [of op m v] assms ensured_tenant [of m tid _ v] by auto
qed

lemma homes_step:
  assumes "\<forall>(i, r, t) \<in> set (tags m). t \<noteq> []"
  shows "\<forall>(i, r, t) \<in> set (tags (auth_step m (v, op))). t \<noteq> []"
proof -
  define T where "T = tags m"
  have T: "\<forall>(i, r, t) \<in> set T. t \<noteq> []" using assms unfolding T_def .
  have s: "map settled T = T" by (rule settled_tags [OF T])
  have opened: "\<forall>(i, r, t) \<in> set xs. t \<noteq> []" if "xs \<in> {T, map settled T} \<or> (\<exists>x. admitted_tag v m x \<and> xs = map settled T @ [x])" for xs
    using that T unfolding s by (auto simp: admitted_tag_def)
  show ?thesis
  proof (cases op)
    case (OpCreateTenant n q)
    then have "tags (auth_step m (v, op)) \<in> {tags m, map settled (tags m)}"
      by (auto simp: CreateTenant_def Let_def tags_ensured)
    then show ?thesis using opened [of "tags (auth_step m (v, op))", folded T_def] by (simp only: T_def) blast
  next
    case (OpInvite t)
    then have "tags (auth_step m (v, op)) \<in> {tags m, map settled (tags m)}"
      by (auto simp: CreateInviteFor_def Let_def tags_ensured split: option.split)
    then show ?thesis using opened [of "tags (auth_step m (v, op))", folded T_def] by (simp only: T_def) blast
  next
    case (OpRegister n p c)
    then show ?thesis using opened [OF opening_tags(1) [of v n p c m, folded T_def]] by (simp only: auth_step.simps)
  next
    case (OpCreate t n p r ps k)
    then show ?thesis using opened [OF opening_tags(4) [of v t n p r ps k m, folded T_def]] by (simp only: auth_step.simps)
  next
    case (OpTemp ttl c)
    from opening_tags(2) [of v ttl c m, folded T_def] show ?thesis
      unfolding OpTemp auth_step.simps by (elim disjE exE conjE) (use T in \<open>simp_all only: set_append ball_Un\<close>, auto)
  next
    case (OpSetup n p)
    from opening_tags(3) [of v n p m, folded T_def] show ?thesis
      unfolding OpSetup auth_step.simps s by (elim disjE exE) (use T in \<open>auto simp del: set_map\<close>)
  next
    case (OpRole u r)
    from role_tags [of v u r m, folded T_def] show ?thesis
      unfolding OpRole auth_step.simps
    proof (elim disjE exE conjE)
      fix pre i r0 t post assume *: "T = pre @ (i, r0, t) # post" "tags (fst (SetRole v u r m)) = pre @ (i, r, t) # post"
      show "\<forall>(i, r, t) \<in> set (tags (fst (SetRole v u r m))). t \<noteq> []" using T unfolding * by auto
    qed (use T in \<open>simp only:\<close>)
  next
    case (OpMove u t)
    from move_tags [of v u t m, folded T_def, unfolded s] show ?thesis
      unfolding OpMove auth_step.simps
    proof (elim disjE exE conjE)
      fix pre i r t0 t1 post assume *: "T = pre @ (i, r, t0) # post" "t1 \<noteq> []" "tags (fst (MoveUser v u t m)) = pre @ (i, r, t1) # post"
      show "\<forall>(i, r, t) \<in> set (tags (fst (MoveUser v u t m))). t \<noteq> []" using T *(2) unfolding *(1,3) by auto
    qed (use T in \<open>simp only:\<close>)
  next
    case (OpDelete u)
    from delete_tags [of v u m, folded T_def] show ?thesis
      unfolding OpDelete auth_step.simps
    proof (elim disjE exE conjE)
      fix pre x post assume *: "T = pre @ x # post" "tags (fst (DeleteUser v u m)) = pre @ post"
      show "\<forall>(i, r, t) \<in> set (tags (fst (DeleteUser v u m))). t \<noteq> []" using T unfolding * by auto
    qed (use T in \<open>simp only:\<close>)
  qed (use T tags_step [of op m v, folded T_def] in \<open>simp_all only:\<close>, auto)
qed

lemma ready_step: "db_ready (am_db m) \<Longrightarrow> db_ready (am_db (auth_step m (v, op)))"
  unfolding ready_by_tags schema_step using homes_step [of m v op] default_stays [of m DefaultTenantID v op] by (elim conjE, intro conjI)

abbreviation filed :: "auth_manager \<Rightarrow> bool" where
  "filed m \<equiv> am_file m = AuthFile (am_db m)"

lemma filed_saving: "ae_Saved v \<Longrightarrow> am_file (fst (saving v m x)) = AuthFile (am_db m)" "ae_Saved v \<Longrightarrow> am_file (try_save v m) = AuthFile (am_db m)"
  by (simp_all add: saving_def try_save_def)

lemma filed_raw: "am_file (keep_raw u r m) = am_file m" "am_file (drop_raw u m) = am_file m"
  by (simp_all add: keep_raw_def drop_raw_def)

lemma filed_update: "ae_Saved v \<Longrightarrow> filed m \<Longrightarrow> filed (fst (updateUser v uid mutate raw m))"
  by (auto simp: updateUser_def filed_saving split: option.split)

lemma filed_step:
  assumes "ae_Saved v" "filed m" "db_ready (am_db m)"
  shows "filed (auth_step m (v, op))"
proof (cases op)
  case (OpRevoke t)
  show ?thesis
    using assms(1,2) unfolding OpRevoke by (auto simp: RevokeSession_def saving_def drop_raw_def split: option.split)
next
  case (OpValidate t)
  show ?thesis
    using assms(1,2) unfolding OpValidate
    by (simp add: ValidateToken_def Let_def filed_raw filed_saving split: option.split prod.split token_answer.split)
next
  case (OpConfig u k x)
  then show ?thesis using assms(1) by (simp add: SetConfig_def Let_def filed_saving)
qed (use assms in \<open>simp_all add: filed_saving(1) [OF assms(1)] filed_update [OF assms(1,2)] CreateTenant_def UpdateTenant_def CreateInviteFor_def Register_def CreateTemp_def Login_def SetupInitialAdmin_def
      CreateUserInTenant_def MoveUser_def DeleteUser_def SetRole_def GrantPerm_def RevokePerm_def SetPerms_def ChangePassword_def SetEnabled_def SetExpiry_def
      ready_ensured Let_def split: option.split sum.split\<close>)

interpretation kept: conditional_system auth_step "\<lambda>(v, op). ae_Saved v" "\<lambda>m. db_ready (am_db m) \<and> filed m"
proof (unfold_locales, goal_cases)
  case (1 m op)
  then show ?case using ready_step filed_step by (cases op) auto
qed

lemma init_ready:
  assumes "Init v stored = (f, Inr m)"
  shows "db_ready (am_db m) \<and> filed m \<and> f = am_file m"
proof -
  have fold: "db_ready ((fst (ensureTenantsLocked v d))\<lparr>ad_SchemaVersion := schemaVersion\<rparr>)" for d
    by (auto simp: ensureTenantsLocked_def Let_def db_ready_def update_conv)
  have keep: "db_ready (fst (ensureTenantsLocked v d))" if "schemaVersion \<le> ad_SchemaVersion d" for d
    using that by (auto simp: ensureTenantsLocked_def Let_def db_ready_def update_conv)
  have same: "fst (ensureTenantsLocked v d) = d" if "\<not> snd (ensureTenantsLocked v d)" for d
  proof -
    have "map (\<lambda>u. if us_TenantID u = [] then u\<lparr>us_TenantID := DefaultTenantID\<rparr> else u) (ad_Users d) = ad_Users d"
      by (rule map_idI) (use that in \<open>auto simp: ensureTenantsLocked_def Let_def list_ex_iff\<close>)
    then show ?thesis using that by (auto simp: ensureTenantsLocked_def Let_def)
  qed
  show ?thesis
  proof (cases stored)
    case NoFile
    have "db_ready (am_db (ensured v \<lparr>am_db = empty_auth, am_raw = [], am_file = NoFile\<rparr>))"
      using keep [of empty_auth] by (simp add: ensured_def empty_auth_def)
    then show ?thesis using assms NoFile by (auto simp: Init_def saving_def Let_def split: if_splits)
  next
    case (AuthFile d0)
    define d1 where "d1 = (if ad_SchemaVersion d0 < 1 then d0\<lparr>ad_Users := legacy_users (ad_Users d0), ad_SchemaVersion := 1\<rparr> else d0)"
    obtain d2 changed where d2: "ensureTenantsLocked v d1 = (d2, changed)" by fastforce
    define d3 where "d3 = (if changed \<or> ad_SchemaVersion d2 < schemaVersion then d2\<lparr>ad_SchemaVersion := schemaVersion\<rparr> else d2)"
    have v2: "ad_SchemaVersion d2 = ad_SchemaVersion d1" using d2 by (auto simp: ensureTenantsLocked_def Let_def)
    have "db_ready d3" using fold [of d1] keep [of d1] d2 v2 by (auto simp: d3_def)
    moreover have "am_db m = d3 \<and> f = am_file m \<and> (am_file m = AuthFile d3)"
    proof (cases "ad_SchemaVersion d0 < 1 \<or> changed \<or> ad_SchemaVersion d2 < schemaVersion")
      case True
      then show ?thesis using assms AuthFile d2 by (auto simp: Init_def Let_def d1_def [symmetric] d3_def [symmetric] saving_def split: if_splits)
    next
      case False
      then have "d3 = d0" using same [of d1] d2 by (simp add: d3_def d1_def)
      then show ?thesis using assms AuthFile d2 False by (auto simp: Init_def Let_def d1_def [symmetric] d3_def [symmetric])
    qed
    ultimately show ?thesis by simp
  qed (use assms in \<open>simp_all add: Init_def\<close>)
qed

lemma init_again:
  assumes "db_ready (am_db m)" "filed m"
  shows "Init v (am_file m) = (am_file m, Inr (m\<lparr>am_raw := []\<rparr>))"
proof -
  have "fst (ensureTenantsLocked v (am_db m)) = am_db m"
    using arg_cong [OF ready_ensured [OF assms(1), of v], of am_db] by (simp add: ensured_def)
  moreover have "\<not> snd (ensureTenantsLocked v (am_db m))"
    using assms(1) by (auto simp: ensureTenantsLocked_def Let_def db_ready_def list_ex_iff)
  ultimately have "ensureTenantsLocked v (am_db m) = (am_db m, False)" by (simp add: prod_eq_iff)
  moreover have "schemaVersion \<le> ad_SchemaVersion (am_db m)" using assms(1) by (simp add: db_ready_def)
  ultimately show ?thesis using assms(2) by (simp add: Init_def schemaVersion_def)
qed

text \<open>C39: after any sequence of calls whose writes succeed, answered or refused, a restart from the file gives the database in memory back;
  only the remembered raw tokens are lost, and no migration runs.\<close>

theorem auth_restart:
  assumes "Init v stored = (f, Inr m0)" "list_all (\<lambda>(v, op). ae_Saved v) ops" "foldl auth_step m0 ops = m"
  shows "Init v' (am_file m) = (am_file m, Inr (m\<lparr>am_raw := []\<rparr>))"
  using kept.inv_run [OF _ assms(2), of m0] init_ready [OF assms(1)] init_again [of m v'] assms(3) by simp

section \<open>Logins\<close>

lemma Login_accepts:
  assumes "Login v n p m = (m', Inr u)"
  obtains pre w post raw u0 where "users_of m = pre @ w # post" "us_Username w = n" "\<forall>x \<in> set pre. us_Username x \<noteq> n" "us_Enabled w"
    "\<not> user_expired v w" "us_PasswordHash w \<noteq> []" "ae_Compare v (us_PasswordHash w) p" "issueSession v tokenTTL w = Inr (raw, u0)"
    "u = u0\<lparr>us_Token := raw\<rparr>" "users_of m' = pre @ u0 # post"
proof -
  let ?f = "\<lambda>u. if us_Username u = n then Some (case login_user v p u of Inl e \<Rightarrow> (u, Inl e) | Inr (raw, u') \<Rightarrow> (u', Inr (raw, u'))) else None"
  obtain us x where hit0: "first_hit ?f (users_of m) = Some (us, x)"
    using assms by (cases "first_hit ?f (users_of m)") (auto simp: Login_def)
  obtain raw u0 where x: "x = Inr (raw, u0)"
    using assms hit0 by (cases x) (auto simp: Login_def)
  have "saving v (keep_raw (us_ID u0) raw (set_users us m)) (u0\<lparr>us_Token := raw\<rparr>) = (m', Inr u)"
    using assms unfolding Login_def hit0 x by simp
  then have u: "u = u0\<lparr>us_Token := raw\<rparr>" and m': "users_of m' = us" by (auto simp: saving_def split: if_splits)
  have hit: "first_hit ?f (users_of m) = Some (us, Inr (raw, u0))" using hit0 x by simp
  obtain pre w post u1 where *: "users_of m = pre @ w # post" "us = pre @ u1 # post" "?f w = Some (u1, Inr (raw, u0))" "\<forall>x \<in> set pre. ?f x = None"
    by (rule first_hit_Some [OF hit])
  then have w: "us_Username w = n" "login_user v p w = Inr (raw, u0)" "u1 = u0" by (auto split: if_splits sum.splits)
  have "\<forall>x \<in> set pre. us_Username x \<noteq> n" using *(4) by (auto split: if_splits)
  then show thesis
    by (rule that [OF *(1) w(1) _ _ _ _ _ _ u]) (use w *(2) m' in \<open>auto simp: login_user_def split: if_splits\<close>)
qed

text \<open>C40: a login succeeds only for the first account of that name, enabled, not expired, with a password that matches its hash; and
  the token it answers opens this account for thirty days, as long as the account does not expire or change, and the token is new.\<close>

theorem login_opens_session:
  assumes "Login v n p m = (m', Inr u)" "us_Token u \<noteq> []" "\<forall>w \<in> set (users_of m). dead (ae_Hash v) (us_Token u) w"
    and "ae_Hash v' = ae_Hash v" "unix v' \<le> unix v + tokenTTL" "\<not> user_expired v' u"
  shows "snd (ValidateToken v' (us_Token u) m') = Some (u\<lparr>us_Token := []\<rparr>) \<and>
     (\<exists>w. find (\<lambda>w. us_Username w = n) (users_of m) = Some w \<and> us_ID w = us_ID u \<and> us_Enabled w \<and> \<not> user_expired v w \<and>
        us_PasswordHash w \<noteq> [] \<and> ae_Compare v (us_PasswordHash w) p)"
proof -
  obtain pre w post raw u0 where *: "users_of m = pre @ w # post" "us_Username w = n" "\<forall>x \<in> set pre. us_Username x \<noteq> n" "us_Enabled w"
    "\<not> user_expired v w" "us_PasswordHash w \<noteq> []" "ae_Compare v (us_PasswordHash w) p" "issueSession v tokenTTL w = Inr (raw, u0)"
    "u = u0\<lparr>us_Token := raw\<rparr>" "users_of m' = pre @ u0 # post"
    by (rule Login_accepts [OF assms(1)])
  have raw: "us_Token u = raw" using *(9) by simp
  note iss = issued_sessions [OF *(8)]
  let ?new = "\<lparr>se_Token = ae_Hash v raw, se_Exp = unix v + tokenTTL, se_CreatedAt = unix v\<rparr>"
  obtain old where old: "us_Sessions u0 = old @ [?new]" "set old \<subseteq> set (us_Sessions w)" using iss(4) by blast
  have "\<forall>s \<in> set old. se_Token s \<noteq> ae_Hash v raw" using assms(3) *(1) old(2) raw by (auto simp: dead_def)
  then have "find (\<lambda>s. se_Token s = ae_Hash v raw) (us_Sessions u0) = Some ?new"
    unfolding old(1) by (induction old) auto
  moreover have "\<not> user_expired v' u0" "us_Enabled u0" using assms(6) *(4,9) iss(7) by (simp_all add: user_expired_def)
  ultimately have good: "probe_token v' raw u0 = Some (u0, TokenGood False)"
    using assms(4,5) by (simp add: probe_token_def)
  have "\<forall>x \<in> set pre. probe_token v' raw x = None" using assms(3,4) *(1) raw dead_probe [of v' raw] by auto
  then have "first_hit (\<lambda>u. map_option (\<lambda>(u', a). (u', (u', a))) (probe_token v' raw u)) (users_of m') = Some (pre @ u0 # post, u0, TokenGood False)"
    unfolding *(10) by (intro first_hit_at) (auto simp: good)
  then have "snd (ValidateToken v' raw m') = Some (u0\<lparr>us_Token := []\<rparr>)"
    using assms(2) raw by (simp add: ValidateToken_def Let_def)
  moreover have "find (\<lambda>w. us_Username w = n) (users_of m) = Some w"
    unfolding *(1) using *(2,3) by (induction pre) auto
  ultimately show ?thesis using *(4-7,9) raw iss(6) by auto
qed

text \<open>The old slot holds the hash of the newest session, and a slot is also compared with the presented text itself: whoever reads the file can present
  the hash as a token.\<close>

lemma stored_hash_opens:
  assumes "Login v n p m = (m', Inr u)" "ae_Hash v (us_Token u) \<noteq> []" "ae_Hash v' = ae_Hash v" "unix v' \<le> unix v + tokenTTL" "\<not> user_expired v' u"
    and "\<forall>w \<in> set (users_of m'). \<forall>s \<in> set (us_Sessions w). se_Token s \<noteq> ae_Hash v (ae_Hash v (us_Token u))"
    and "\<forall>w \<in> set (users_of m). us_Token w \<noteq> ae_Hash v (us_Token u) \<and> us_Token w \<noteq> ae_Hash v (ae_Hash v (us_Token u))"
  shows "\<exists>x. snd (ValidateToken v' (ae_Hash v (us_Token u)) m') = Some x \<and> us_ID x = us_ID u"
proof -
  obtain pre w post raw u0 where *: "users_of m = pre @ w # post" "us_Enabled w" "issueSession v tokenTTL w = Inr (raw, u0)"
    "u = u0\<lparr>us_Token := raw\<rparr>" "users_of m' = pre @ u0 # post"
    by (rule Login_accepts [OF assms(1)])
  let ?t = "ae_Hash v raw"
  have t: "ae_Hash v (us_Token u) = ?t" using *(4) by simp
  note iss = issued_sessions [OF *(3)]
  have none: "find (\<lambda>s. se_Token s = ae_Hash v ?t) (us_Sessions x) = None" if "x \<in> set (users_of m')" for x
    using assms(6) that unfolding t by (auto simp: find_None)
  have "us_Enabled u0" "\<not> user_expired v' u0" using *(2,4) iss(7) assms(5) by (simp_all add: user_expired_def)
  then obtain u1 where u1: "probe_token v' ?t u0 = Some (u1, TokenGood True)" "us_ID u1 = us_ID u0"
    using none [of u0] *(5) iss(2,3) assms(2-4) t by (simp add: probe_token_def Let_def)
  have pre: "\<forall>x \<in> set pre. probe_token v' ?t x = None"
  proof
    fix x assume x: "x \<in> set pre"
    then have "us_Token x \<noteq> ?t" "us_Token x \<noteq> ae_Hash v ?t" using assms(7) *(1) t by auto
    then show "probe_token v' ?t x = None" using none [of x] *(5) x assms(3) by (simp add: probe_token_def)
  qed
  have "first_hit (\<lambda>u. map_option (\<lambda>(u', a). (u', (u', a))) (probe_token v' ?t u)) (users_of m') = Some (pre @ u1 # post, u1, TokenGood True)"
    unfolding *(5) by (intro first_hit_at) (auto simp: pre u1)
  then have "snd (ValidateToken v' ?t m') = Some (u1\<lparr>us_Token := []\<rparr>)"
    using assms(2) t by (simp add: ValidateToken_def Let_def)
  then show ?thesis using u1(2) *(4) t by simp
qed

end
