(* ===== verification/AccountExamples.thy ===== *)
theory AccountExamples
  imports AccountRuns
begin

text \<open>A small installation for the witnesses, and calls whose outcome differs from what the comments promise.\<close>

definition call :: "int \<Rightarrow> string \<Rightarrow> auth_env" where
  "call now raw = \<lparr>ae_Now = now * 10 ^ 9, ae_Hash = (\<lambda>x. ''#'' @ x), ae_Random = Some raw, ae_Code = Some ''c1'', ae_Bcrypt = (\<lambda>p. Some (''b'' @ p)),
     ae_Compare = (\<lambda>h p. h = ''b'' @ p), ae_Saved = True\<rparr>"

lemma call_fields [simp]:
  "ae_Now (call now raw) = now * 10 ^ 9" "ae_Hash (call now raw) = (\<lambda>x. ''#'' @ x)" "ae_Random (call now raw) = Some raw"
  "ae_Bcrypt (call now raw) p = Some (''b'' @ p)" "ae_Saved (call now raw)" "unix (call now raw) = now"
  by (simp_all add: call_def unix_def)

definition plain_user :: "string \<Rightarrow> string \<Rightarrow> string \<Rightarrow> user" where
  "plain_user uid role tid = \<lparr>us_ID = uid, us_Username = ''n'' @ uid, us_PasswordHash = ''bpw'', us_Token = [], us_TokenExp = 0, us_Sessions = [],
     us_Role = role, us_Perms = [], us_Enabled = True, us_CreatedAt = 1, us_ExpiresAt = 0, us_TenantID = tid\<rparr>"

definition plain_tenant :: "string \<Rightarrow> bool \<Rightarrow> tenant" where
  "plain_tenant tid on = \<lparr>tn_ID = tid, tn_Name = tid, tn_Enabled = on, tn_CreatedAt = 1, tn_Quota = \<lparr>tq_MaxUsers = 1, tq_APIRatePerMin = 0\<rparr>\<rparr>"

definition open_invite :: "string \<Rightarrow> string \<Rightarrow> invite" where
  "open_invite c tid = \<lparr>iv_Code = c, iv_CreatedAt = 1, iv_UsedBy = [], iv_UsedAt = 0, iv_TenantID = tid\<rparr>"

definition house :: auth_manager where
  "house = \<lparr>am_db = \<lparr>ad_Users = [plain_user ''a'' ''admin'' ''t_default'', plain_user ''u'' ''user'' ''t2''], ad_Configs = [],
       ad_Invites = [(''k'', open_invite ''k'' ''t3''), (''j'', open_invite ''j'' ''t3'')], ad_SchemaVersion = 2,
       ad_Tenants = [(''t_default'', plain_tenant ''t_default'' True), (''t2'', plain_tenant ''t2'' True), (''t3'', plain_tenant ''t3'' False)]\<rparr>,
     am_raw = [], am_file = NoFile\<rparr>"

section \<open>Witnesses\<close>

definition signed_in :: auth_manager where
  "signed_in = fst (Login (call 9 ''r1'') ''nu'' ''pw'' house)"

lemma signed_in_users:
  "users_of signed_in = [plain_user ''a'' ''admin'' ''t_default'',
     (plain_user ''u'' ''user'' ''t2'')\<lparr>us_Token := ''#r1'', us_TokenExp := 9 + tokenTTL,
        us_Sessions := [\<lparr>se_Token = ''#r1'', se_Exp = 9 + tokenTTL, se_CreatedAt = 9\<rparr>]\<rparr>]"
  by code_simp

theorem revoked_tokens_dead_witness:
  "snd (ValidateToken (call 12 ''x'') ''r1''
     (foldl auth_step (auth_step signed_in (call 10 ''x'', OpRevoke ''r1'')) [(call 11 ''r2'', OpLogin ''nu'' ''pw''), (call 11 ''x'', OpValidate ''r2'')])) = None"
proof (rule revoked_tokens_dead [where uid = "''u''"])
  show "sole_token (ae_Hash (call 10 ''x'')) ''r1'' ''u'' signed_in"
    unfolding sole_token_def signed_in_users
    by (rule exI [of _ "[plain_user ''a'' ''admin'' ''t_default'']"]) (simp add: plain_user_def dead_def call_def)
  show "ends_token ''r1'' ''u'' signed_in (call 10 ''x'', OpRevoke ''r1'')" by code_simp
qed (simp_all add: call_def unlike_def)

theorem platform_admin_stays_witness:
  "0 < platform_admins (foldl auth_step house [(call 9 ''r'', OpRole ''a'' ''user''), (call 9 ''r'', OpDelete ''a''), (call 9 ''r'', OpRole ''u'' ''admin'')])"
  by (rule platform_admin_stays) (code_simp, simp add: not_moving_def)

theorem tenant_quota_holds_witness:
  "countMembersLocked (foldl auth_step house [(call 9 ''r'', OpCreate ''t2'' ''z'' ''pw'' '''' [] 0), (call 9 ''r'', OpMove ''a'' ''t2'')]) ''t2'' \<le> 1"
proof -
  have "quota_of ''t2'' house = Some \<lparr>tq_MaxUsers = 1, tq_APIRatePerMin = 0\<rparr>" by code_simp
  from tenant_quota_holds [OF this, of "[(call 9 ''r'', OpCreate ''t2'' ''z'' ''pw'' '''' [] 0), (call 9 ''r'', OpMove ''a'' ''t2'')]"]
  show ?thesis by (simp add: keeps_tenant_def MaxUsersOr_def countMembersLocked_def house_def plain_user_def is_temp_def effectiveTenant_def has_prefix_def)
qed

theorem one_account_per_invite_witness:
  "openings ''k'' house [(call 9 ''r1'', OpTemp 60 ''k''), (call 10 ''r2'', OpTemp 60 ''k''), (call 11 ''r3'', OpRegister ''z'' ''pw'' ''k'')] \<le> 1"
  by (rule one_account_per_invite) (simp add: not_redrawn_def)

theorem auth_restart_witness:
  "\<exists>m. Init (call 1 ''r'') NoFile = (am_file m, Inr m) \<and>
     (let m2 = foldl auth_step m [(call 2 ''r'', OpSetup ''root'' ''pw''), (call 3 ''s'', OpLogin ''root'' ''no'')]
      in Init (call 4 ''r'') (am_file m2) = (am_file m2, Inr (m2\<lparr>am_raw := []\<rparr>)))"
proof -
  let ?m = "\<lparr>am_db = fst (ensureTenantsLocked (call 1 ''r'') empty_auth), am_raw = [], am_file = AuthFile (fst (ensureTenantsLocked (call 1 ''r'') empty_auth))\<rparr>"
  have init: "Init (call 1 ''r'') NoFile = (am_file ?m, Inr ?m)"
    by (simp add: Init_def ensured_def saving_def Let_def call_def)
  show ?thesis
    by (rule exI [of _ ?m], rule conjI [OF init], unfold Let_def, rule auth_restart [OF init _ refl]) (simp add: call_def)
qed

theorem login_opens_session_witness:
  "\<exists>m' u. Login (call 9 ''r1'') ''nu'' ''pw'' house = (m', Inr u) \<and> snd (ValidateToken (call 20 ''x'') (us_Token u) m') = Some (u\<lparr>us_Token := []\<rparr>)"
proof -
  let ?u = "(plain_user ''u'' ''user'' ''t2'')\<lparr>us_Token := ''r1'', us_TokenExp := 9 + tokenTTL,
        us_Sessions := [\<lparr>se_Token = ''#r1'', se_Exp = 9 + tokenTTL, se_CreatedAt = 9\<rparr>]\<rparr>"
  have "snd (Login (call 9 ''r1'') ''nu'' ''pw'' house) = Inr ?u" by code_simp
  then obtain m' where l: "Login (call 9 ''r1'') ''nu'' ''pw'' house = (m', Inr ?u)" by (metis prod.collapse)
  have "snd (ValidateToken (call 20 ''x'') (us_Token ?u) m') = Some (?u\<lparr>us_Token := []\<rparr>)"
    using login_opens_session [OF l, of "call 20 ''x''"]
    by (simp add: house_def plain_user_def dead_def call_def unix_def tokenTTL_def user_expired_def)
  then show ?thesis using l by blast
qed

section \<open>Against the comments\<close>

text \<open>Moving the last administrator of the default tenant is not refused: nobody administers the platform afterwards.\<close>

lemma move_leaves_no_admin:
  "platform_admins house = 1 \<and> (let (m, r) = MoveUser (call 9 ''r'') ''a'' ''t2'' (fst (DeleteUser (call 8 ''r'') ''u'' house)) in r = Inr () \<and> platform_admins m = 0)"
  by code_simp

text \<open>A temporary account enters a tenant that is closed to new members.\<close>

lemma temp_joins_closed_tenant:
  "checkTenantAdmissionLocked house ''t3'' = Some ErrTenantDisabled \<and>
   (case snd (CreateTemp (call 9 ''r'') 60 ''k'' house) of Inr u \<Rightarrow> us_TenantID u = ''t3'' | Inl e \<Rightarrow> False)"
proof -
  have "checkTenantAdmissionLocked house ''t3'' = Some ErrTenantDisabled" by code_simp
  then show ?thesis
    by (simp add: CreateTemp_def house_def consumeInviteLocked_def invites_def open_invite_def invite_tenant_def issueSession_def call_def fresh_user_def
        saving_def Let_def maxSessions_def)
qed

text \<open>An administrator can be created with an end date, and a user with an end date can become one.\<close>

definition roomy :: auth_manager where
  "roomy = house\<lparr>am_db := (am_db house)\<lparr>ad_Tenants := [(''t_default'', plain_tenant ''t_default'' True), (''t9'', plain_tenant ''t9'' True)]\<rparr>\<rparr>"

lemma admin_with_end_date:
  "case snd (CreateUserInTenant (call 9 ''r'') ''t9'' ''z'' ''pw'' ''admin'' [] 1 roomy) of Inr u \<Rightarrow> us_Role u = ''admin'' \<and> us_ExpiresAt u = 86409 | Inl e \<Rightarrow> False"
  "snd (SetExpiry (call 9 ''r'') ''a'' 1 house) = Inl AdminNeverExpires"
proof -
  have "db_ready (am_db roomy)"
    by (simp add: db_ready_def roomy_def house_def plain_user_def schemaVersion_def DefaultTenantID_def)
  then have e: "ensured (call 9 ''r'') roomy = roomy" by (rule ready_ensured)
  have a: "checkTenantAdmissionLocked roomy ''t9'' = None" "\<not> username_taken ''z'' roomy"
    by (simp_all add: checkTenantAdmissionLocked_def tenants_def plain_tenant_def countMembersLocked_def roomy_def house_def plain_user_def effectiveTenant_def
        MaxUsersOr_def username_taken_def)
  have x: "expiry (call 9 ''r'') 1 = 86409" by (simp add: expiry_def wrap64_def)
  show "case snd (CreateUserInTenant (call 9 ''r'') ''t9'' ''z'' ''pw'' ''admin'' [] 1 roomy) of Inr u \<Rightarrow> us_Role u = ''admin'' \<and> us_ExpiresAt u = 86409 | Inl e \<Rightarrow> False"
    by (simp add: CreateUserInTenant_def e a x issueSession_def Let_def maxSessions_def RoleAdmin_def saving_def fresh_user_def)
  show "snd (SetExpiry (call 9 ''r'') ''a'' 1 house) = Inl AdminNeverExpires" by code_simp
qed

text \<open>The account that owns the operational data is the first administrator of any tenant.\<close>

lemma operator_of_another_tenant:
  "AdminID (house\<lparr>am_db := (am_db house)\<lparr>ad_Users := [plain_user ''x'' ''admin'' ''t2'', plain_user ''a'' ''admin'' ''t_default'']\<rparr>\<rparr>) = ''x''"
  by (simp add: AdminID_def plain_user_def RoleAdmin_def is_temp_def has_prefix_def)

text \<open>An unknown user belongs to no tenant, not to the default one.\<close>

lemma unknown_has_no_tenant: "TenantOf house ''nobody'' = []"
  by code_simp

text \<open>A corrupt file stops the start.\<close>

lemma corrupt_file_refused: "Init v Garbage = (NoFile, Inl FileCorrupt)"
  by (simp add: Init_def)

text \<open>A registration whose write fails is answered with an error; the account and the spent invitation stay in memory.\<close>

lemma unsaved_registration_stays:
  assumes "Register v n p c m = (m', Inl SaveFailed)"
  shows "length (users_of m') = length (users_of m) + 1 \<and> spent c m'"
proof -
  have no: "issueSession v ttl u \<noteq> Inl SaveFailed" "checkTenantAdmissionLocked m1 t \<noteq> Some SaveFailed" "consumeInviteLocked c m1 \<noteq> Some SaveFailed"
    for ttl u m1 t c
    by (auto simp: issueSession_def Let_def checkTenantAdmissionLocked_def consumeInviteLocked_def split: option.splits)
  have ok: "consumeInviteLocked c m = None" "checkTenantAdmissionLocked (ensured v m) (invite_tenant c m) = None" "\<not> username_taken n (ensured v m)"
    using assms no(2,3) by (auto simp: Register_def Let_def split: option.splits if_splits)
  then obtain h where h: "ae_Bcrypt v p = Some h" using assms by (auto simp: Register_def Let_def split: option.splits)
  obtain raw u where u: "issueSession v tokenTTL (fresh_user v (new_uid v) n h RoleUser (invite_tenant c m)) = Inr (raw, u)"
    using assms ok h no(1) by (auto simp: Register_def Let_def split: sum.splits)
  have "m' = markInviteUsedLocked v c (us_ID u) (add_user u raw (ensured v m))"
    using assms ok h u by (simp add: Register_def Let_def saving_def split: if_splits)
  moreover have "us_ID u \<noteq> []" using opened_id [OF u] by simp
  ultimately show ?thesis using consumable [OF ok(1)] by (simp add: ensured_db marked_spent)
qed

end
