(* ===== verification/Spec2Isabelle.thy ===== *)
theory Spec2Isabelle
  imports Config OrderBook PositionSnapshots PositionExamples LedgerQueries LedgerFacts SessionFacts SellFacts SignalFacts GateFacts TraderFacts PaperExamples SettlementExamples AdviceExamples BinancePaperExamples AccountExamples
begin

text \<open>
  A model of the live trading core of quant-binance (Go, under \<open>src/internal\<close>): what stands between a
  strategy's signal and a booked position. The parts, in the order the program composes them:

  \<^item> A strategy's signals are judged by the signal controller (\<open>signalctl/signalctl.go\<close>, theory \<open>SignalCtl\<close>):
    admission, a confirmation window per signal, a ring of decisions. Held positions are judged by the sell
    discipline (\<open>signalctl/sell.go\<close>, theory \<open>SellDiscipline\<close>): a line is touched, a settlement window opens, its
    end decides.
  \<^item> An order that results goes through the market router to the controller of its market
    (\<open>trading/router.go\<close>, \<open>controller.go\<close>, \<open>executor.go\<close>, theory \<open>Trader\<close>): circuit breaker, switches, the risk gate,
    a placeholder row as the idempotency key, the send, the booking of the answer; beside it manual cancel,
    halt, the periodic cancel sweep, the heartbeat, reconciliation and the queued configuration.
  \<^item> The risk gate (\<open>risk/gate.go\<close>, theory \<open>Gate\<close>) runs seventeen checks over the order, the configuration, the
    ledger and evidence of the assembly layer; the first objection decides.
  \<^item> The ledger (\<open>store/real_positions.go\<close>, \<open>risk_gates.go\<close>, \<open>real_account.go\<close>, \<open>funding_fees.go\<close>, \<open>settlement.go\<close>):
    orders (theory \<open>OrderBook\<close>), positions, fills and funding (\<open>PositionBook\<close>), the queries over them, account
    snapshots and hit counters (\<open>LedgerQueries\<close>), with the rows of the tables in \<open>LedgerTables\<close>.
  \<^item> After the close the ledger is compared with the broker's settlement list and, if so configured, completed from it
    (\<open>trading/settlement.go\<close>, theory \<open>Settlement\<close>).
  \<^item> The held positions are shown as cards with a proposed action (\<open>trading/advice.go\<close>, theory \<open>Advice\<close>), fed by the agent, by the earlier sell
    discipline (\<open>discipline.go\<close>, \<open>discipline_tracker.go\<close>, theory \<open>Discipline\<close>) or, once it is in charge, by the sell discipline above. A
    recording executor (\<open>shadow.go\<close>, theory \<open>Shadow\<close>) can stand in for the gateway, and a paper desk (\<open>binance_paper.go\<close>, theory
    \<open>BinancePaper\<close>) for the second exchange: it books into the ledger of the live path and keeps its own cash and margin.
  \<^item> Beside the live path stands the paper account (\<open>internal/paper\<close>): a long book with strategy pools, fees, T+1, purchase rules, automatic
    disposals (\<open>PaperState\<close>, \<open>PaperTrade\<close>, \<open>PaperPools\<close>), a separate short book (\<open>PaperShort\<close>), its file (\<open>PaperStore\<close>) and its figures
    (\<open>PaperStats\<close>). It is fed by the same signals and sell verdicts.
  \<^item> Who may call the program is kept by the account manager (\<open>internal/auth/auth.go\<close>, theory \<open>Accounts\<close>): users, sessions, roles and
    permissions, invitations, tenants with their quotas, configuration entries, all in one file. The HTTP handlers that call it are not modelled.
  \<^item> Sessions and calendars (\<open>data/trade_time.go\<close>, \<open>trade_calendar.go\<close>, \<open>market_session.go\<close>, theory \<open>Sessions\<close>), codes and
    markets (\<open>Markets\<close>) and the configuration the order path reads (\<open>config/\<close>, theory \<open>Config\<close>).

  \<^bold>\<open>How the code is rendered.\<close> A struct is a record, an enumeration a datatype, a method a function from the state to the state
  with its result; an error is a value (\<open>store_error + 'a\<close>, \<open>place_error\<close>), a formatted reason a constructor with its
  arguments. A \<open>float64\<close> is \<open>Float64.f64\<close>: the finite values as reals, with every operation rounded to the nearest double,
  ties to even, and the infinities and NaN apart. A string is the list of its bytes. A \<open>time.Time\<close> is nanoseconds since
  1970; a calendar date is a day number (theory \<open>GoTime\<close>, which also has Go's layouts the code parses and
  prints). An \<open>int\<close> is a HOL integer, wrapped to 64 bits (\<open>wrap64\<close>) or saturated (\<open>sat64\<close>) where Go wraps or saturates. A table of
  SQLite is the list of its rows in insertion order. A mutex-protected method is one step; \<open>placeOrder\<close> is two,
  since reports arrive between the placeholder and the answer.

  \<^bold>\<open>Parameters.\<close> Which tables fail (\<open>db_down\<close>) and how SQLite sums floats (\<open>db_sum\<close>); the offset of New York at an instant (\<open>env_ny\<close>)
  and of the process's zone (\<open>z\<close>); the sources of evidence of the gate and the rendering of its reasons (\<open>ge_text\<close>);
  the answers of gateway and exchange; for the accounts the token hash, the random bytes, bcrypt and whether the
  file can be written; every \<open>time.Now()\<close>.

  \<^bold>\<open>What is proved.\<close> \<open>PositionFills\<close>, \<open>PositionOwners\<close>, \<open>PositionSnapshots\<close>: the row invariant under all writers, the effect of a fill,
  replays at once and at any later moment, owners, snapshots. \<open>OrderBook\<close>: unique keys, monotone and final statuses, retries and their numbers, the daily sweep. \<open>LedgerFacts\<close>:
  counters, account snapshots, bounds on the sellable quantity. \<open>SessionFacts\<close>: the walks over the calendar end and
  count trading days; the Easter rule. \<open>SellFacts\<close>: disposals are final, on their grid, not before the window of the one touch ends.
  \<open>SignalFacts\<close>: confirmation windows, independent sell states. \<open>GateFacts\<close>: the first objection decides, exits stay open, what passes
  keeps the limits. \<open>TraderFacts\<close>: no second send of an accepted signal under any interleaving unless its row was released, the breaker
  against its specification, what a sweep cancels. \<open>PaperDesk\<close> states the paper account as an abstract desk with six moves,
  \<open>PaperMoves\<close> shows that each trading operation is a sequence of them, \<open>PaperFacts\<close> derives its limits by rule induction on the moves
  (caps, daily buys, T+1 on both books, the long one through a promise that every operation but an add keeps) and shows the forced cover, the daily fee and the restart.
  \<open>SettlementFacts\<close>: the report is the exact multiset difference of the two lists, the backfill books exactly what it calls missing, the
  attempts are spaced and stop when the day is settled. \<open>DisciplineFacts\<close>: disposals wait for their window; \<open>AdviceFacts\<close>: one card per position, no
  sell card for locked shares or from another source than the verdicts. \<open>BinancePaperFacts\<close>: cash and shorts of the desk refine a bookkeeping
  over the history of its booked fills (until a restart), and no accepted order overdraws it. \<open>AccountFacts\<close>, \<open>AccountLimits\<close>,
  \<open>AccountRuns\<close>: over every sequence of account calls, revoked tokens stay dead, an invitation opens one account, the platform keeps an
  administrator (unless one is moved away), tenants keep their quota; a restart gives the database back; what a login hands out. The locales of \<open>Interfaces\<close> (invariants of step functions, the same for allowed operations,
  progress measures, sequences of checks) \<open>order_property\<close> and \<open>user_law\<close> are interpreted on the model. Loops of the source over
  slices are structural recursion; the loops over days are bounded in the source or, for \<open>TradingDayDate\<close>, a \<open>while_option\<close>
  shown to end within \<open>7 * (k + 1)\<close> days for \<open>k\<close> closed days. No fuel is used.

  \<^bold>\<open>Not modelled.\<close> HTTP and WebSocket clients and the formats of gateway and exchange, market data readers, language-model
  and notification clients, the HTTP server, rendering, logs and metrics: input and
  output. The engine loop and scheduler: goroutines that call the modelled operations. Scoring agents,
  factors, research and back-tests: offline or float-heavy code whose results enter here as signals and
  sell inputs. The remaining tables of the store.
\<close>

end
